(* ===== verification/Pve_Prelude.thy ===== *)
theory Pve_Prelude
  imports Main "HOL-Library.AList" "HOL-Library.Sublist"
begin

text \<open>
  Shared vocabulary of the PVEmanager backend model.

  \<^item> Python strings are \<open>string\<close>s: one \<open>char\<close> per code point for ASCII text, the only text the
    modelled code takes decisions on. Text outside ASCII (a few display strings of the permission
    registry) is carried as its UTF-8 bytes and never inspected.
  \<^item> A Python \<open>dict\<close> is an association list in insertion order. \<open>d[k] = v\<close> is \<^term>\<open>AList.update\<close>,
    which overwrites in place or appends, as CPython does.
  \<^item> \<open>None\<close> is \<^term>\<open>None\<close>; Python's truthiness tests are written out (\<open>truthy_str\<close>, \<open>truthy_int\<close>).
  \<^item> A point in time is an \<open>int\<close> of microseconds since the epoch, in UTC.
  \<^item> A raised \<open>HTTPException\<close> is \<^term>\<open>Inl\<close> of an \<open>http_error\<close>.

  The theory also holds the two interfaces several components are built on: \<open>key_store\<close> (what a
  dictionary or a table with a unique key promises) and \<open>guarded_machine\<close> (a step relation with an
  invariant its steps keep).
\<close>

section \<open>Hint collections\<close>

named_theorems str_simps \<open>facts that evaluate Python string operations\<close>
named_theorems dict_simps \<open>lookup facts for dictionaries\<close>
named_theorems row_simps \<open>facts about queries over table rows\<close>

section \<open>Truthiness\<close>

definition truthy_str :: "string option \<Rightarrow> bool" where
  "truthy_str s = (case s of None \<Rightarrow> False | Some x \<Rightarrow> x \<noteq> [])"

definition truthy_int :: "int option \<Rightarrow> bool" where
  "truthy_int n = (case n of None \<Rightarrow> False | Some x \<Rightarrow> x \<noteq> 0)"

lemma truthy_str_simps [simp]:
  "truthy_str None = False" "truthy_str (Some s) = (s \<noteq> [])"
  by (simp_all add: truthy_str_def)

lemma truthy_int_simps [simp]:
  "truthy_int None = False" "truthy_int (Some n) = (n \<noteq> 0)"
  by (simp_all add: truthy_int_def)

lemma truthy_int_iff: "truthy_int n \<longleftrightarrow> (\<exists>k. n = Some k \<and> k \<noteq> 0)"
  by (cases n) auto

lemma truthy_str_iff: "truthy_str s \<longleftrightarrow> (\<exists>x. s = Some x \<and> x \<noteq> [])"
  by (cases s) auto

section \<open>Errors of the HTTP layer\<close>

datatype detail =
    Msg string
  | PermissionDenied string
  | RequiresOneOf "string list"
  | QuotaExceeded int int string
  | LockedUntil int
  | AccessDenied "string option"
  | PasswordErrors "string list"

datatype http_error = HTTPException (status_code: nat) (error_detail: detail)

section \<open>Strings\<close>

fun split_on :: "char \<Rightarrow> string \<Rightarrow> string list" where
  "split_on c [] = [[]]"
| "split_on c (x # xs) =
     (if x = c then [] # split_on c xs
      else (case split_on c xs of [] \<Rightarrow> [[x]] | p # ps \<Rightarrow> (x # p) # ps))"

fun join_with :: "string \<Rightarrow> string list \<Rightarrow> string" where
  "join_with sep [] = []"
| "join_with sep [s] = s"
| "join_with sep (s # t # ts) = s @ sep @ join_with sep (t # ts)"

definition is_space :: "char \<Rightarrow> bool" where
  "is_space c = (of_char c \<in> {9, 10, 11, 12, 13, 28, 29, 30, 31, 32 :: nat})"

definition lstrip :: "string \<Rightarrow> string" where
  "lstrip s = dropWhile is_space s"

definition strip :: "string \<Rightarrow> string" where
  "strip s = rev (lstrip (rev (lstrip s)))"

definition is_digit :: "char \<Rightarrow> bool" where
  "is_digit c = (48 \<le> (of_char c :: nat) \<and> (of_char c :: nat) \<le> 57)"

definition is_upper :: "char \<Rightarrow> bool" where
  "is_upper c = (65 \<le> (of_char c :: nat) \<and> (of_char c :: nat) \<le> 90)"

definition is_lower :: "char \<Rightarrow> bool" where
  "is_lower c = (97 \<le> (of_char c :: nat) \<and> (of_char c :: nat) \<le> 122)"

definition lower_char :: "char \<Rightarrow> char" where
  "lower_char c = (if is_upper c then char_of ((of_char c :: nat) + 32) else c)"

definition upper_char :: "char \<Rightarrow> char" where
  "upper_char c = (if is_lower c then char_of ((of_char c :: nat) - 32) else c)"

definition lower :: "string \<Rightarrow> string" where
  "lower s = map lower_char s"

definition upper :: "string \<Rightarrow> string" where
  "upper s = map upper_char s"

fun substring_of :: "string \<Rightarrow> string \<Rightarrow> bool" where
  "substring_of p [] = (p = [])"
| "substring_of p (x # xs) = (prefix p (x # xs) \<or> substring_of p xs)"

definition char_in :: "char \<Rightarrow> string \<Rightarrow> bool" where
  "char_in c s = (c \<in> set s)"

lemma split_on_not_Nil [simp]: "split_on c s \<noteq> []"
  by (induction s) (auto split: list.splits)

lemma split_on_no_sep: "c \<notin> set s \<Longrightarrow> split_on c s = [s]"
  by (induction s) auto

lemma split_on_append_sep:
  "c \<notin> set a \<Longrightarrow> split_on c (a @ c # b) = a # split_on c b"
  by (induction a) auto

lemma hd_split_on_no_sep: "c \<notin> set (hd (split_on c s))"
proof (induction s)
  case (Cons x s)
  then show ?case by (cases "split_on c s") (auto split: list.splits)
qed simp

lemma split_on_parts: "p \<in> set (split_on c s) \<Longrightarrow> c \<notin> set p"
proof (induction s arbitrary: p)
  case (Cons x s)
  then show ?case by (cases "split_on c s") (auto split: if_splits list.splits)
qed simp

lemma join_with_Cons: "ps \<noteq> [] \<Longrightarrow> join_with sep (p # ps) = p @ sep @ join_with sep ps"
  by (cases ps) auto

lemma join_with_head: "join_with sep ((x # p) # ps) = x # join_with sep (p # ps)"
  by (cases ps) auto

lemma join_split_on: "join_with [c] (split_on c s) = s"
proof (induction s)
  case (Cons x s)
  then show ?case by (cases "split_on c s") (auto simp: join_with_Cons join_with_head)
qed simp

lemma split_on_join:
  "ps \<noteq> [] \<Longrightarrow> (\<And>p. p \<in> set ps \<Longrightarrow> c \<notin> set p) \<Longrightarrow> split_on c (join_with [c] ps) = ps"
  by (induction "[c]" ps rule: join_with.induct)
    (auto simp: split_on_no_sep split_on_append_sep)

lemma split_on_inj: "split_on c s = split_on c t \<longleftrightarrow> s = t"
  by (metis join_split_on)

lemma substring_of_iff: "substring_of p s \<longleftrightarrow> sublist p s"
  by (induction s) (auto simp: sublist_Cons_right)

section \<open>Decimal numbers\<close>

definition digit_char :: "nat \<Rightarrow> char" where
  "digit_char d = char_of (48 + d)"

fun dec_string :: "nat \<Rightarrow> string" where
  "dec_string n = (if n < 10 then [digit_char n] else dec_string (n div 10) @ [digit_char (n mod 10)])"

declare dec_string.simps [simp del]

definition dec_int :: "int \<Rightarrow> string" where
  "dec_int i = (if i < 0 then CHR ''-'' # dec_string (nat (- i)) else dec_string (nat i))"

definition digit_val :: "char \<Rightarrow> nat" where
  "digit_val c = of_char c - 48"

definition dec_value :: "string \<Rightarrow> nat" where
  "dec_value s = foldl (\<lambda>acc c. 10 * acc + digit_val c) 0 s"

lemma of_char_digit_char: "d < 10 \<Longrightarrow> (of_char (digit_char d) :: nat) = 48 + d"
  by (simp add: digit_char_def of_char_of)

lemma is_digit_digit_char: "d < 10 \<Longrightarrow> is_digit (digit_char d)"
  by (simp add: is_digit_def of_char_digit_char)

lemma digit_val_digit_char: "d < 10 \<Longrightarrow> digit_val (digit_char d) = d"
  by (simp add: digit_val_def of_char_digit_char)

lemma dec_string_not_Nil [simp]: "dec_string n \<noteq> []"
  by (subst dec_string.simps) simp

lemma dec_string_digits: "\<forall>c \<in> set (dec_string n). is_digit c"
proof (induction n rule: dec_string.induct)
  case (1 n)
  then show ?case
    by (subst dec_string.simps) (auto simp: is_digit_digit_char)
qed

lemma dec_value_append: "dec_value (s @ [c]) = 10 * dec_value s + digit_val c"
  by (simp add: dec_value_def)

lemma dec_value_dec_string [simp]: "dec_value (dec_string n) = n"
proof (induction n rule: dec_string.induct)
  case (1 n)
  show ?case
  proof (cases "n < 10")
    case True
    then show ?thesis
      by (subst dec_string.simps) (simp add: dec_value_def digit_val_digit_char)
  next
    case False
    then have "dec_value (dec_string n) = 10 * dec_value (dec_string (n div 10)) + digit_val (digit_char (n mod 10))"
      by (subst dec_string.simps) (simp add: dec_value_append)
    with 1 False show ?thesis by (simp add: digit_val_digit_char)
  qed
qed

lemma dec_string_inj: "dec_string m = dec_string n \<longleftrightarrow> m = n"
  by (metis dec_value_dec_string)

text \<open>
  Python's \<open>int(text)\<close>: surrounding white space, an optional sign, decimal digits with single
  underscores between them. \<^term>\<open>None\<close> is the raised \<open>ValueError\<close>.
\<close>

fun digits_body :: "string \<Rightarrow> string option" where
  "digits_body [] = None"
| "digits_body [c] = (if is_digit c then Some [c] else None)"
| "digits_body (c # d # cs) =
     (if \<not> is_digit c then None
      else if d = CHR ''_'' then map_option ((#) c) (digits_body cs)
      else map_option ((#) c) (digits_body (d # cs)))"

definition py_int :: "string \<Rightarrow> int option" where
  "py_int s =
     (case strip s of
        [] \<Rightarrow> None
      | c # cs \<Rightarrow>
          if c = CHR ''-'' then map_option (\<lambda>ds. - int (dec_value ds)) (digits_body cs)
          else if c = CHR ''+'' then map_option (\<lambda>ds. int (dec_value ds)) (digits_body cs)
          else map_option (\<lambda>ds. int (dec_value ds)) (digits_body (c # cs)))"

lemma digits_body_digits:
  "s \<noteq> [] \<Longrightarrow> \<forall>c \<in> set s. is_digit c \<Longrightarrow> digits_body s = Some s"
  by (induction s rule: digits_body.induct) (auto simp: is_digit_def)

lemma is_digit_not_space: "is_digit c \<Longrightarrow> \<not> is_space c"
  by (auto simp: is_digit_def is_space_def)

lemma lstrip_head: "s = [] \<or> \<not> is_space (hd s) \<Longrightarrow> lstrip s = s"
  by (cases s) (auto simp: lstrip_def)

lemma strip_no_space_ends:
  "s = [] \<or> \<not> is_space (hd s) \<and> \<not> is_space (last s) \<Longrightarrow> strip s = s"
  by (auto simp: strip_def lstrip_head hd_rev)

lemma strip_digits:
  assumes "\<forall>c \<in> set s. is_digit c"
  shows "strip s = s"
proof (cases "s = []")
  case False
  then have "is_digit (hd s)" "is_digit (last s)" using assms by auto
  then show ?thesis by (auto intro: strip_no_space_ends dest: is_digit_not_space)
qed (simp add: strip_no_space_ends)

lemma py_int_dec_string: "py_int (dec_string n) = Some (int n)"
proof -
  obtain c cs where s: "dec_string n = c # cs" by (cases "dec_string n") auto
  have ds: "\<forall>x \<in> set (c # cs). is_digit x" using dec_string_digits [of n] s by simp
  then have "c \<noteq> CHR ''-''" "c \<noteq> CHR ''+''" by (auto simp: is_digit_def)
  moreover have "dec_value (c # cs) = n" using dec_value_dec_string [of n] s by simp
  ultimately show ?thesis
    using ds by (simp add: py_int_def s strip_digits digits_body_digits del: dec_value_dec_string)
qed

section \<open>Dictionaries\<close>

type_synonym ('k, 'v) pydict = "('k \<times> 'v) list"

text \<open>\<open>{**a, **b}\<close>: the entries of the second dictionary are written over the first, in order.\<close>

fun dict_merge :: "('k, 'v) pydict \<Rightarrow> ('k, 'v) pydict \<Rightarrow> ('k, 'v) pydict" where
  "dict_merge a [] = a"
| "dict_merge a ((k, v) # b) = dict_merge (AList.update k v a) b"

definition dict_has :: "('k, 'v) pydict \<Rightarrow> 'k \<Rightarrow> bool" where
  "dict_has d k = (k \<in> set (map fst d))"

definition dict_wf :: "('k, 'v) pydict \<Rightarrow> bool" where
  "dict_wf d = distinct (map fst d)"

lemma dict_has_iff [dict_simps]: "dict_has d k \<longleftrightarrow> map_of d k \<noteq> None"
  unfolding dict_has_def by (metis domIff dom_map_of_conv_image_fst list.set_map)

lemma map_of_dict_merge [dict_simps]:
  "dict_wf b \<Longrightarrow> map_of (dict_merge a b) = map_of a ++ map_of b"
proof (induction a b rule: dict_merge.induct)
  case (2 a k v b)
  then have "map_of b k = None" by (auto simp: dict_wf_def map_of_eq_None_iff image_image)
  moreover from 2 have "dict_wf b" by (simp add: dict_wf_def)
  ultimately show ?case
    using 2 by (auto simp: update_conv' map_add_def fun_eq_iff split: option.splits)
qed simp

lemma dict_wf_Nil [simp]: "dict_wf []"
  by (simp add: dict_wf_def)

lemma dict_wf_update [simp]: "dict_wf d \<Longrightarrow> dict_wf (AList.update k v d)"
  by (simp add: dict_wf_def distinct_update)

lemma dict_wf_merge [simp]: "dict_wf a \<Longrightarrow> dict_wf (dict_merge a b)"
  by (induction a b rule: dict_merge.induct) simp_all

lemma update_append_new: "\<not> dict_has d k \<Longrightarrow> AList.update k v d = d @ [(k, v)]"
  by (induction d) (auto simp: dict_has_def)

lemma dict_merge_fresh:
  "dict_wf (a @ b) \<Longrightarrow> dict_merge a b = a @ b"
proof (induction a b rule: dict_merge.induct)
  case (2 a k v b)
  then have "\<not> dict_has a k" by (auto simp: dict_wf_def dict_has_def)
  with 2 show ?case by (simp add: update_append_new dict_wf_def)
qed simp

section \<open>Tables\<close>

text \<open>
  A table is the list of its rows in the order the database returns them without \<open>ORDER BY\<close>.
  \<open>query(...).filter(P).first()\<close> is \<^term>\<open>find P\<close>, \<open>.all()\<close> is \<^term>\<open>filter P\<close>; an assignment to the
  columns of a row found that way is \<open>update_first\<close>, \<open>db.delete\<close> of it is \<open>remove_first\<close>.
\<close>

fun update_first :: "('r \<Rightarrow> bool) \<Rightarrow> ('r \<Rightarrow> 'r) \<Rightarrow> 'r list \<Rightarrow> 'r list" where
  "update_first P f [] = []"
| "update_first P f (x # xs) = (if P x then f x # xs else x # update_first P f xs)"

fun remove_first :: "('r \<Rightarrow> bool) \<Rightarrow> 'r list \<Rightarrow> 'r list" where
  "remove_first P [] = []"
| "remove_first P (x # xs) = (if P x then xs else x # remove_first P xs)"

text \<open>A unique column: no two rows agree on it.\<close>

definition unique_on :: "('r \<Rightarrow> 'k) \<Rightarrow> 'r list \<Rightarrow> bool" where
  "unique_on key rows = distinct (map key rows)"

lemma find_append [row_simps]:
  "find P (xs @ ys) = (case find P xs of None \<Rightarrow> find P ys | Some x \<Rightarrow> Some x)"
  by (induction xs) auto

lemma find_SomeD: "find P xs = Some x \<Longrightarrow> x \<in> set xs \<and> P x"
  by (auto simp: find_Some_iff)

lemma find_update_first_same [row_simps]:
  "(\<And>x. P x \<Longrightarrow> P (f x)) \<Longrightarrow> find P (update_first P f xs) = map_option f (find P xs)"
  by (induction xs) auto

lemma find_update_first_other [row_simps]:
  "(\<And>x. P x \<Longrightarrow> \<not> Q x \<and> \<not> Q (f x)) \<Longrightarrow> find Q (update_first P f xs) = find Q xs"
  by (induction xs) auto

lemma find_update_keyed:
  assumes "\<And>b. key (f b) = key b"
  shows "find (\<lambda>b. key b = j) (update_first (\<lambda>b. key b = i) f bs) =
    (if j = i then map_option f (find (\<lambda>b. key b = i) bs) else find (\<lambda>b. key b = j) bs)"
  using assms by (induction bs) auto

lemma filter_update_first_other [row_simps]:
  "(\<And>x. P x \<Longrightarrow> \<not> Q x \<and> \<not> Q (f x)) \<Longrightarrow> filter Q (update_first P f xs) = filter Q xs"
  by (induction xs) auto

lemma find_remove_first_other [row_simps]:
  "(\<And>x. P x \<Longrightarrow> \<not> Q x) \<Longrightarrow> find Q (remove_first P xs) = find Q xs"
  by (induction xs) auto

lemma filter_remove_first_other [row_simps]:
  "(\<And>x. P x \<Longrightarrow> \<not> Q x) \<Longrightarrow> filter Q (remove_first P xs) = filter Q xs"
  by (induction xs) auto

lemma map_update_first [row_simps]:
  "(\<And>x. P x \<Longrightarrow> key (f x) = key x) \<Longrightarrow> map key (update_first P f xs) = map key xs"
  by (induction xs) auto

lemma unique_on_update_first [row_simps]:
  "(\<And>x. P x \<Longrightarrow> key (f x) = key x) \<Longrightarrow> unique_on key (update_first P f xs) = unique_on key xs"
  by (simp add: unique_on_def map_update_first)

lemma ball_map_cong:
  assumes "map key xs = map key ys"
  shows "(\<forall>x \<in> set xs. P (key x)) \<longleftrightarrow> (\<forall>y \<in> set ys. P (key y))"
proof -
  have "(\<forall>k \<in> set (map key xs). P k) \<longleftrightarrow> (\<forall>k \<in> set (map key ys). P k)" by (simp only: assms)
  then show ?thesis by simp
qed

lemma set_remove_first: "set (remove_first P xs) \<subseteq> set xs"
  by (induction xs) auto

lemma set_update_first: "set (update_first P f xs) \<subseteq> set xs \<union> f ` {x \<in> set xs. P x}"
  by (induction xs) auto

lemma in_set_update_first:
  "y \<in> set (update_first P f xs) \<Longrightarrow> y \<in> set xs \<or> (\<exists>x \<in> set xs. P x \<and> y = f x)"
  using set_update_first [of P f xs] by auto

lemma length_update_first [simp]: "length (update_first P f xs) = length xs"
  by (induction xs) auto

lemma unique_on_remove_first [row_simps]: "unique_on key xs \<Longrightarrow> unique_on key (remove_first P xs)"
proof (induction xs)
  case (Cons x xs)
  then show ?case using set_remove_first [of P xs] by (auto simp: unique_on_def)
qed (simp add: unique_on_def)

lemma unique_on_append [row_simps]:
  "unique_on key (xs @ [x]) \<longleftrightarrow> unique_on key xs \<and> find (\<lambda>r. key r = key x) xs = None"
  by (auto simp: unique_on_def find_None_iff image_iff)

lemma unique_on_filter [row_simps]: "unique_on key xs \<Longrightarrow> unique_on key (filter P xs)"
  by (simp add: unique_on_def distinct_map_filter)

lemma update_first_map:
  "unique_on key xs \<Longrightarrow> update_first (\<lambda>x. key x = k) f xs = map (\<lambda>x. if key x = k then f x else x) xs"
proof (induction xs)
  case (Cons x xs)
  have "map (\<lambda>x. if key x = k then f x else x) xs = xs" if "key x = k"
    using Cons.prems that by (intro map_idI) (auto simp: unique_on_def rev_image_eqI)
  with Cons show ?case by (simp add: unique_on_def)
qed simp

lemma unique_find:
  "unique_on key xs \<Longrightarrow> x \<in> set xs \<Longrightarrow> find (\<lambda>r. key r = key x) xs = Some x"
proof (induction xs)
  case (Cons y ys)
  then show ?case by (cases "x = y") (auto simp: unique_on_def rev_image_eqI)
qed simp

lemma unique_remove_first_filter:
  "unique_on key xs \<Longrightarrow> remove_first (\<lambda>r. key r = k) xs = filter (\<lambda>r. key r \<noteq> k) xs"
proof (induction xs)
  case (Cons x xs)
  then have "key x \<notin> key ` set xs" by (simp add: unique_on_def)
  then have "filter (\<lambda>r. key r \<noteq> k) xs = xs" if "key x = k" using that by (intro filter_True) (metis image_eqI)
  with Cons show ?case by (simp add: unique_on_def)
qed simp

lemma find_removed [row_simps]:
  "unique_on key xs \<Longrightarrow> find (\<lambda>r. key r = k) (remove_first (\<lambda>r. key r = k) xs) = None"
  by (simp add: unique_remove_first_filter find_None_iff)

section \<open>The interface of a keyed store\<close>

text \<open>
  What the clients of a dictionary, or of a table with a unique column, rely on: a lookup after an
  insertion returns the inserted row, other keys are untouched, and every operation keeps the
  well-formedness of the store.
\<close>

locale key_store =
  fixes empty :: "'s"
    and lookup :: "'s \<Rightarrow> 'k \<Rightarrow> 'v option"
    and insert :: "'k \<Rightarrow> 'v \<Rightarrow> 's \<Rightarrow> 's"
    and delete :: "'k \<Rightarrow> 's \<Rightarrow> 's"
    and wf :: "'s \<Rightarrow> bool"
  assumes wf_empty: "wf empty"
    and wf_insert: "wf s \<Longrightarrow> wf (insert k v s)"
    and wf_delete: "wf s \<Longrightarrow> wf (delete k s)"
    and lookup_empty: "lookup empty k = None"
    and lookup_insert: "wf s \<Longrightarrow> lookup (insert k v s) k' = (if k' = k then Some v else lookup s k')"
    and lookup_delete: "wf s \<Longrightarrow> lookup (delete k s) k' = (if k' = k then None else lookup s k')"
begin

lemma insert_delete: "wf s \<Longrightarrow> lookup (delete k (insert k v s)) k' = lookup (delete k s) k'"
  by (simp add: lookup_delete lookup_insert wf_insert)

lemma insert_insert: "wf s \<Longrightarrow> lookup (insert k v (insert k w s)) k' = lookup (insert k v s) k'"
  by (simp add: lookup_insert wf_insert)

lemma insert_swap:
  "wf s \<Longrightarrow> j \<noteq> k \<Longrightarrow> lookup (insert j v (insert k w s)) i = lookup (insert k w (insert j v s)) i"
  by (simp add: lookup_insert wf_insert)

lemma wf_fold_insert: "wf s \<Longrightarrow> wf (fold (\<lambda>(k, v). insert k v) kvs s)"
  by (induction kvs arbitrary: s) (auto simp: wf_insert)

lemma lookup_fold_insert:
  "wf s \<Longrightarrow> lookup (fold (\<lambda>(k, v). insert k v) kvs s) k =
     (case map_of (rev kvs) k of Some v \<Rightarrow> Some v | None \<Rightarrow> lookup s k)"
proof (induction kvs arbitrary: s)
  case (Cons kv kvs)
  obtain a b where kv: "kv = (a, b)" by (cases kv)
  have "wf (insert a b s)" using Cons.prems by (rule wf_insert)
  then show ?case
    using Cons by (auto simp: kv lookup_insert map_add_def split: option.splits)
qed (simp add: lookup_empty)

end

interpretation pydict: key_store "[] :: ('k \<times> 'v) list" map_of AList.update AList.delete dict_wf
proof unfold_locales
  fix s :: "('k \<times> 'v) list" and k k' :: 'k
  assume "dict_wf s"
  show "dict_wf (AList.delete k s)"
    using \<open>dict_wf s\<close> by (simp add: dict_wf_def distinct_delete)
  show "map_of (AList.delete k s) k' = (if k' = k then None else map_of s k')"
    by (simp add: delete_conv')
qed (auto simp: update_conv')

section \<open>State machines with an invariant\<close>

locale guarded_machine =
  fixes step :: "'s \<Rightarrow> 's \<Rightarrow> bool"
    and inv :: "'s \<Rightarrow> bool"
  assumes step_inv: "step s t \<Longrightarrow> inv s \<Longrightarrow> inv t"
begin

lemma steps_inv: "step\<^sup>*\<^sup>* s t \<Longrightarrow> inv s \<Longrightarrow> inv t"
  by (induction rule: rtranclp_induct) (auto intro: step_inv)

end

text \<open>A machine with a quantity its steps never decrease: versions, counters, absorbing states.\<close>

locale monotone_machine = guarded_machine step inv
  for step :: "'s \<Rightarrow> 's \<Rightarrow> bool" and inv :: "'s \<Rightarrow> bool" +
  fixes below :: "'s \<Rightarrow> 's \<Rightarrow> bool"
  assumes below_refl: "below s s"
    and below_trans: "below s t \<Longrightarrow> below t u \<Longrightarrow> below s u"
    and step_below: "inv s \<Longrightarrow> step s t \<Longrightarrow> below s t"
begin

lemma steps_below: "step\<^sup>*\<^sup>* s t \<Longrightarrow> inv s \<Longrightarrow> below s t"
proof (induction rule: rtranclp_induct)
  case base
  show ?case by (rule below_refl)
next
  case (step t u)
  then have "inv t" by (blast intro: steps_inv)
  with step show ?case by (blast intro: below_trans step_below)
qed

end

end
