(* ===== verification/Permissions.thy ===== *)
theory Permissions
  imports Pve_Prelude
begin

text \<open>
  The permission registry, \<^verbatim>\<open>backend/app/rbac/permissions.py\<close>: the \<open>Permission\<close> dataclass, the
  \<open>PermissionRegistry\<close> with its four indexes, every permission \<open>_create_permissions\<close> registers, and
  the map from legacy permission names. The registrations are grouped as the source groups them,
  one list per section of \<open>_create_permissions\<close>, in the order of the source.

  The lemmas describe the indexes of a registry built by registrations (\<open>register_all\<close>) for any
  list of permissions, then instantiate them at the shipped list: its codes are distinct, every
  declared dependency is registered, every legacy name points at a registered permission.
\<close>

section \<open>Data\<close>

datatype scope_type = GLOBAL | ORGANIZATION | WORKSPACE | INSTANCE

fun scope_value :: "scope_type \<Rightarrow> string" where
  "scope_value GLOBAL = ''global''"
| "scope_value ORGANIZATION = ''org''"
| "scope_value WORKSPACE = ''workspace''"
| "scope_value INSTANCE = ''instance''"

record permission =
  resource :: string
  action :: string
  perm_scope :: scope_type
  display_name :: string
  description :: string
  category :: string
  requires :: "string list"

text \<open>The dataclass constructor, with the default scope every registration uses.\<close>

definition Permission :: "string \<Rightarrow> string \<Rightarrow> string \<Rightarrow> string \<Rightarrow> string \<Rightarrow> string list \<Rightarrow> permission" where
  "Permission res act name descr cat reqs =
     \<lparr>resource = res, action = act, perm_scope = GLOBAL, display_name = name,
      description = descr, category = cat, requires = reqs\<rparr>"

definition code :: "permission \<Rightarrow> string" where
  "code p =
     (if perm_scope p = GLOBAL then resource p @ '':'' @ action p
      else resource p @ '':'' @ action p @ '':'' @ scope_value (perm_scope p))"

definition legacy_code :: "permission \<Rightarrow> string" where
  "legacy_code p = resource p @ ''.'' @ action p"

definition permission_eq :: "permission \<Rightarrow> permission \<Rightarrow> bool" where
  "permission_eq p q = (code p = code q)"

text \<open>Display text outside ASCII, given by its UTF-8 bytes.\<close>

definition utf8 :: "nat list \<Rightarrow> string" where
  "utf8 bs = map char_of bs"

section \<open>The registry\<close>

record registry =
  permissions :: "(string, permission) pydict"
  by_category_index :: "(string, permission list) pydict"
  by_resource_index :: "(string, permission list) pydict"
  legacy_map :: "(string, string) pydict"

definition empty_registry :: registry where
  "empty_registry = \<lparr>permissions = [], by_category_index = [], by_resource_index = [], legacy_map = []\<rparr>"

text \<open>\<open>if k not in d: d[k] = []\<close> followed by \<open>d[k].append(x)\<close>.\<close>

definition append_at :: "string \<Rightarrow> 'a \<Rightarrow> (string, 'a list) pydict \<Rightarrow> (string, 'a list) pydict" where
  "append_at k x d = AList.update k ((case map_of d k of None \<Rightarrow> [] | Some xs \<Rightarrow> xs) @ [x]) d"

definition register :: "permission \<Rightarrow> registry \<Rightarrow> registry" where
  "register p r =
     r\<lparr>permissions := AList.update (code p) p (permissions r),
       by_category_index := append_at (category p) p (by_category_index r),
       by_resource_index := append_at (resource p) p (by_resource_index r),
       legacy_map := AList.update (legacy_code p) (code p) (legacy_map r)\<rparr>"

text \<open>The lookup by code; \<^term>\<open>Inl\<close> is the \<open>KeyError\<close> a dangling legacy entry would raise.\<close>

definition registry_get :: "registry \<Rightarrow> string \<Rightarrow> string + permission option" where
  "registry_get r c =
     (case map_of (permissions r) c of
        Some p \<Rightarrow> Inr (Some p)
      | None \<Rightarrow>
          (case map_of (legacy_map r) c of
             Some c' \<Rightarrow>
               (case map_of (permissions r) c' of Some p \<Rightarrow> Inr (Some p) | None \<Rightarrow> Inl c')
           | None \<Rightarrow> Inr None))"

definition registry_exists :: "registry \<Rightarrow> string \<Rightarrow> bool" where
  "registry_exists r c = (dict_has (permissions r) c \<or> dict_has (legacy_map r) c)"

definition resolve :: "registry \<Rightarrow> string \<Rightarrow> string option" where
  "resolve r c = (if dict_has (permissions r) c then Some c else map_of (legacy_map r) c)"

definition all_permissions :: "registry \<Rightarrow> permission list" where
  "all_permissions r = map snd (permissions r)"

definition by_category :: "registry \<Rightarrow> string \<Rightarrow> permission list" where
  "by_category r c = (case map_of (by_category_index r) c of None \<Rightarrow> [] | Some ps \<Rightarrow> ps)"

definition by_resource :: "registry \<Rightarrow> string \<Rightarrow> permission list" where
  "by_resource r c = (case map_of (by_resource_index r) c of None \<Rightarrow> [] | Some ps \<Rightarrow> ps)"

definition categories :: "registry \<Rightarrow> string list" where
  "categories r = map fst (by_category_index r)"

definition resources :: "registry \<Rightarrow> string list" where
  "resources r = map fst (by_resource_index r)"

fun validate :: "registry \<Rightarrow> string list \<Rightarrow> string list \<times> string list" where
  "validate r [] = ([], [])"
| "validate r (c # cs) =
     (let (valid, invalid) = validate r cs
      in if registry_exists r c
         then ((case resolve r c of Some x \<Rightarrow> (if x = [] then c else x) | None \<Rightarrow> c) # valid, invalid)
         else (valid, c # invalid))"

definition register_all :: "permission list \<Rightarrow> registry" where
  "register_all ps = fold register ps empty_registry"

section \<open>The registered permissions\<close>

definition dashboard_permissions :: "permission list" where
  "dashboard_permissions = [
     Permission ''dashboard'' ''view''
       ''View Dashboard''
       ''Access to dashboard and overview''
       ''Dashboard'' []]"

definition server_permissions :: "permission list" where
  "server_permissions = [
     Permission ''server'' ''view''
       ''View Servers''
       ''View Proxmox server list and status''
       ''Proxmox Servers'' [],
     Permission ''server'' ''create''
       ''Add Server''
       ''Add new Proxmox servers''
       ''Proxmox Servers'' [],
     Permission ''server'' ''update''
       ''Edit Server''
       ''Edit Proxmox server settings''
       ''Proxmox Servers'' [],
     Permission ''server'' ''delete''
       ''Delete Server''
       ''Remove Proxmox servers''
       ''Proxmox Servers'' [],
     Permission ''server'' ''manage''
       ''Manage Servers''
       ''Full server management including cluster operations''
       ''Proxmox Servers'' [''server:view''],
     Permission ''cluster'' ''manage''
       ''Manage Cluster Topology''
       ''Create clusters, join nodes, eject nodes from cluster''
       ''Proxmox Servers'' [''server:view'']]"

definition vm_permissions :: "permission list" where
  "vm_permissions = [
     Permission ''vm'' ''view''
       ''View VMs''
       ''View virtual machines list and details''
       ''Virtual Machines'' [],
     Permission ''vm'' ''create''
       ''Create VMs''
       ''Create new virtual machines''
       ''Virtual Machines'' [''vm:view'', ''template:view''],
     Permission ''vm'' ''update''
       ''Update VMs''
       ''Modify VM configuration''
       ''Virtual Machines'' [''vm:view''],
     Permission ''vm'' ''delete''
       ''Delete VMs''
       ''Delete virtual machines''
       ''Virtual Machines'' [''vm:view''],
     Permission ''vm'' ''start''
       ''Start VMs''
       ''Start virtual machines''
       ''Virtual Machines'' [''vm:view''],
     Permission ''vm'' ''stop''
       ''Stop VMs''
       ''Stop virtual machines''
       ''Virtual Machines'' [''vm:view''],
     Permission ''vm'' ''restart''
       ''Restart VMs''
       ''Restart virtual machines''
       ''Virtual Machines'' [''vm:view''],
     Permission ''vm'' ''console''
       ''VM Console''
       ''Access VM console (noVNC/xterm.js)''
       ''Virtual Machines'' [''vm:view''],
     Permission ''vm'' ''migrate''
       ''Migrate VMs''
       ''Migrate VMs between nodes''
       ''Virtual Machines'' [''vm:view''],
     Permission ''vm'' ''remote_migrate''
       ''Remote Migrate VMs''
       ''Migrate VMs to a different, independently registered Proxmox cluster''
       ''Virtual Machines'' [''vm:migrate''],
     Permission ''vm'' ''execute''
       ''Execute Commands''
       ''Execute commands on VMs via QEMU agent''
       ''Virtual Machines'' [''vm:console''],
     Permission ''vm'' ''manage''
       ''Manage VMs''
       ''Full VM management including bulk operations''
       ''Virtual Machines'' [''vm:view'']]"

definition lxc_permissions :: "permission list" where
  "lxc_permissions = [
     Permission ''lxc'' ''view''
       ''View Containers''
       ''View LXC containers list and details''
       ''Containers'' [],
     Permission ''lxc'' ''create''
       ''Create Containers''
       ''Create new LXC containers''
       ''Containers'' [''lxc:view'', ''template:view''],
     Permission ''lxc'' ''update''
       ''Update Containers''
       ''Modify container configuration''
       ''Containers'' [''lxc:view''],
     Permission ''lxc'' ''delete''
       ''Delete Containers''
       ''Delete LXC containers''
       ''Containers'' [''lxc:view''],
     Permission ''lxc'' ''start''
       ''Start Containers''
       ''Start LXC containers''
       ''Containers'' [''lxc:view''],
     Permission ''lxc'' ''stop''
       ''Stop Containers''
       ''Stop LXC containers''
       ''Containers'' [''lxc:view''],
     Permission ''lxc'' ''restart''
       ''Restart Containers''
       ''Restart LXC containers''
       ''Containers'' [''lxc:view''],
     Permission ''lxc'' ''console''
       ''Container Console''
       ''Access container console''
       ''Containers'' [''lxc:view''],
     Permission ''lxc'' ''migrate''
       ''Migrate Containers''
       ''Migrate containers between nodes''
       ''Containers'' [''lxc:view''],
     Permission ''lxc'' ''remote_migrate''
       ''Remote Migrate Containers''
       ''Migrate containers to a different, independently registered Proxmox cluster''
       ''Containers'' [''lxc:migrate'']]"

definition template_permissions :: "permission list" where
  "template_permissions = [
     Permission ''template'' ''view''
       ''View Templates''
       ''View OS templates''
       ''Templates'' [],
     Permission ''template'' ''create''
       ''Create Templates''
       ''Create new templates''
       ''Templates'' [''template:view''],
     Permission ''template'' ''update''
       ''Update Templates''
       ''Edit template settings''
       ''Templates'' [''template:view''],
     Permission ''template'' ''delete''
       ''Delete Templates''
       ''Delete templates''
       ''Templates'' [''template:view''],
     Permission ''template'' ''manage''
       ''Manage Templates''
       ''Full template management including download''
       ''Templates'' [''template:view'']]"

definition storage_permissions :: "permission list" where
  "storage_permissions = [
     Permission ''storage'' ''view''
       ''View Storage''
       ''View storage pools and usage''
       ''Storage'' [],
     Permission ''storage'' ''manage''
       ''Manage Storage''
       ''Manage storage pools and volumes''
       ''Storage'' [''storage:view'']]"

definition backup_permissions :: "permission list" where
  "backup_permissions = [
     Permission ''backup'' ''view''
       ''View Backups''
       ''View backup list''
       ''Backups'' [],
     Permission ''backup'' ''create''
       ''Create Backups''
       ''Create new backups''
       ''Backups'' [''backup:view''],
     Permission ''backup'' ''restore''
       ''Restore Backups''
       ''Restore VM/LXC from backups''
       ''Backups'' [''backup:view''],
     Permission ''backup'' ''delete''
       ''Delete Backups''
       ''Delete backups''
       ''Backups'' [''backup:view''],
     Permission ''backup'' ''manage''
       ''Manage Backups''
       ''Manage storages and scheduled backup jobs''
       ''Backups'' [''backup:view'']]"

definition ipam_permissions :: "permission list" where
  "ipam_permissions = [
     Permission ''ipam'' ''view''
       ''View IPAM''
       ''View IP address management''
       ''IPAM'' [],
     Permission ''ipam'' ''manage''
       ''Manage IPAM''
       ''Manage networks and IP allocations''
       ''IPAM'' [''ipam:view'']]"

definition user_permissions :: "permission list" where
  "user_permissions = [
     Permission ''user'' ''view''
       ''View Users''
       ''View user list''
       ''User Management'' [],
     Permission ''user'' ''create''
       ''Create Users''
       ''Create new users''
       ''User Management'' [''user:view''],
     Permission ''user'' ''update''
       ''Update Users''
       ''Edit user profiles''
       ''User Management'' [''user:view''],
     Permission ''user'' ''delete''
       ''Delete Users''
       ''Delete users''
       ''User Management'' [''user:view''],
     Permission ''user'' ''manage''
       ''Manage Users''
       ''Full user administration including managing other users' SSH keys''
       ''User Management'' [''user:view'']]"

definition quota_permissions :: "permission list" where
  "quota_permissions = [
     Permission ''quota'' ''view''
       ''View Quotas''
       ''View user resource quotas''
       ''User Management'' [''user:view''],
     Permission ''quota'' ''manage''
       ''Manage Quotas''
       ''Set user resource quotas''
       ''User Management'' [''user:view'']]"

definition role_permissions :: "permission list" where
  "role_permissions = [
     Permission ''role'' ''view''
       ''View Roles''
       ''View roles and permissions''
       ''Role Management'' [],
     Permission ''role'' ''create''
       ''Create Roles''
       ''Create new roles''
       ''Role Management'' [''role:view''],
     Permission ''role'' ''update''
       ''Update Roles''
       ''Edit role permissions''
       ''Role Management'' [''role:view''],
     Permission ''role'' ''delete''
       ''Delete Roles''
       ''Delete roles''
       ''Role Management'' [''role:view''],
     Permission ''role'' ''manage''
       ''Manage Roles''
       ''Full role management including assignment''
       ''Role Management'' [''role:view'', ''user:view'']]"

definition log_permissions :: "permission list" where
  "log_permissions = [
     Permission ''log'' ''view''
       ''View Logs''
       ''View audit logs''
       ''Logs'' [],
     Permission ''log'' ''export''
       ''Export Logs''
       ''Export log data''
       ''Logs'' [''log:view''],
     Permission ''log'' ''delete''
       ''Delete Logs''
       ''Delete log entries''
       ''Logs'' [''log:view'']]"

definition setting_permissions :: "permission list" where
  "setting_permissions = [
     Permission ''setting'' ''view''
       ''View Panel Settings''
       ''View panel-wide settings (not needed for one's own profile)''
       ''Settings'' [],
     Permission ''setting'' ''update''
       ''Update Panel Settings''
       ''Modify panel-wide settings''
       ''Settings'' [''setting:view''],
     Permission ''setting'' ''manage''
       ''Manage Security Settings''
       ''Manage security and advanced settings''
       ''Settings'' [''setting:view'']]"

definition notification_permissions :: "permission list" where
  "notification_permissions = [
     Permission ''notification'' ''view''
       ''View Notifications''
       ''View notifications''
       ''Notifications'' [],
     Permission ''notification'' ''manage''
       ''Manage Notifications''
       ''Manage notification settings''
       ''Notifications'' [''notification:view'']]"

definition firewall_permissions :: "permission list" where
  "firewall_permissions = [
     Permission ''firewall'' ''view''
       ''View Firewall''
       ''View firewall rules, groups and options''
       ''Firewall'' [],
     Permission ''firewall'' ''manage''
       ''Manage Firewall''
       ''Manage firewall rules, security groups, IP sets and options''
       ''Firewall'' [''firewall:view'']]"

definition network_permissions :: "permission list" where
  "network_permissions = [
     Permission ''network'' ''view''
       ''View Networking''
       ''View node network interfaces and SDN configuration''
       ''Networking'' [],
     Permission ''network'' ''manage''
       ''Manage Networking''
       ''Manage node network interfaces, bridges and SDN (zones, vnets, subnets)''
       ''Networking'' [''network:view'']]"

definition node_permissions :: "permission list" where
  "node_permissions = [
     Permission ''node'' ''view''
       ''View Node Administration''
       ''View node services, APT updates and repositories''
       ''Node Administration'' [],
     Permission ''node'' ''manage''
       ''Manage Node Administration''
       ''Control systemd services and manage APT repositories/refresh''
       ''Node Administration'' [''node:view''],
     Permission ''node'' ''upgrade''
       ''Upgrade Node Packages''
       ''Run apt dist-upgrade via the node console (root shell)''
       ''Node Administration'' [''node:view''],
     Permission ''node'' ''power''
       ''Power Control Node''
       ''Reboot or shut down the physical node''
       ''Node Administration'' [''node:view'']]"

definition pool_permissions :: "permission list" where
  "pool_permissions = [
     Permission ''pool'' ''view''
       ''View Pools''
       ''View resource pools and their members''
       ''Resource Pools'' [],
     Permission ''pool'' ''manage''
       ''Manage Pools''
       ''Create/delete pools and manage pool membership''
       ''Resource Pools'' [''pool:view'']]"

definition app_permissions :: "permission list" where
  "app_permissions = [
     Permission ''app'' ''view''
       ''View App Store''
       (utf8 [208, 159, 209, 128, 208, 190, 209, 129, 208, 188, 208, 190, 209, 130, 209, 128, 32,
       208, 186, 208, 176, 209, 130, 208, 176, 208, 187, 208, 190, 208, 179, 208, 176, 32, 208, 191,
       209, 128, 208, 184, 208, 187, 208, 190, 208, 182, 208, 181, 208, 189, 208, 184, 208, 185, 32,
       208, 184, 32, 209, 131, 209, 129, 209, 130, 208, 176, 208, 189, 208, 190, 208, 178, 208, 187,
       208, 181, 208, 189, 208, 189, 209, 139, 209, 133, 32, 208, 191, 209, 128, 208, 184, 208, 187,
       208, 190, 208, 182, 208, 181, 208, 189, 208, 184, 208, 185])
       ''App Store'' [],
     Permission ''app'' ''install''
       ''Install Apps''
       (utf8 [208, 163, 209, 129, 209, 130, 208, 176, 208, 189, 208, 190, 208, 178, 208, 186, 208,
       176, 32, 208, 191, 209, 128, 208, 184, 208, 187, 208, 190, 208, 182, 208, 181, 208, 189, 208,
       184, 208, 185, 32, 208, 184, 208, 183, 32, 208, 186, 208, 176, 209, 130, 208, 176, 208, 187,
       208, 190, 208, 179, 208, 176, 32, 40, 209, 129, 208, 190, 208, 183, 208, 180, 208, 176, 208,
       189, 208, 184, 208, 181, 32, 76, 88, 67, 41])
       ''App Store'' [''app:view''],
     Permission ''app'' ''manage''
       ''Manage App Store''
       (utf8 [208, 161, 208, 184, 208, 189, 209, 133, 209, 128, 208, 190, 208, 189, 208, 184, 208,
       183, 208, 176, 209, 134, 208, 184, 209, 143, 32, 208, 186, 208, 176, 209, 130, 208, 176, 208,
       187, 208, 190, 208, 179, 208, 176, 44, 32, 208, 190, 208, 177, 208, 189, 208, 190, 208, 178,
       208, 187, 208, 181, 208, 189, 208, 184, 208, 181, 47, 209, 131, 208, 180, 208, 176, 208, 187,
       208, 181, 208, 189, 208, 184, 208, 181, 32, 208, 191, 209, 128, 208, 184, 208, 187, 208, 190,
       208, 182, 208, 181, 208, 189, 208, 184, 208, 185])
       ''App Store'' [''app:view'']]"

definition coolify_permissions :: "permission list" where
  "coolify_permissions = [
     Permission ''coolify'' ''view''
       ''View Coolify Resources''
       ''View Coolify applications and services mapped to an instance''
       ''Coolify'' [],
     Permission ''coolify'' ''control''
       ''Control Coolify Resources''
       ''Start, stop, and restart mapped Coolify resources''
       ''Coolify'' [''coolify:view''],
     Permission ''coolify'' ''deploy''
       ''Deploy Coolify Resources''
       ''Trigger deployments for mapped Coolify resources''
       ''Coolify'' [''coolify:view''],
     Permission ''coolify'' ''manage''
       ''Manage Coolify Integration''
       ''Configure Coolify credentials and instance mappings''
       ''Coolify'' [''coolify:view'']]"

definition script_permissions :: "permission list" where
  "script_permissions = [
     Permission ''script'' ''view''
       ''View Scripts''
       (utf8 [208, 159, 209, 128, 208, 190, 209, 129, 208, 188, 208, 190, 209, 130, 209, 128, 32,
       208, 186, 208, 176, 209, 130, 208, 176, 208, 187, 208, 190, 208, 179, 208, 176, 32, 209, 129,
       208, 186, 209, 128, 208, 184, 208, 191, 209, 130, 208, 190, 208, 178, 32, 208, 184, 32, 208,
       184, 209, 129, 209, 130, 208, 190, 209, 128, 208, 184, 208, 184, 32, 208, 183, 208, 176, 208,
       191, 209, 131, 209, 129, 208, 186, 208, 190, 208, 178])
       ''Scripts'' [],
     Permission ''script'' ''execute''
       ''Execute Scripts''
       (utf8 [208, 151, 208, 176, 208, 191, 209, 131, 209, 129, 208, 186, 32, 209, 129, 208, 186,
       209, 128, 208, 184, 208, 191, 209, 130, 208, 190, 208, 178, 32, 208, 184, 208, 183, 32, 208,
       186, 208, 176, 209, 130, 208, 176, 208, 187, 208, 190, 208, 179, 208, 176, 32, 208, 189, 208,
       176, 32, 208, 189, 208, 190, 208, 180, 208, 176, 209, 133, 47, 208, 146, 208, 156, 47, 76,
       88, 67])
       ''Scripts'' [''script:view''],
     Permission ''script'' ''manage''
       ''Manage Scripts''
       (utf8 [208, 161, 208, 190, 208, 183, 208, 180, 208, 176, 208, 189, 208, 184, 208, 181, 47,
       209, 128, 208, 181, 208, 180, 208, 176, 208, 186, 209, 130, 208, 184, 209, 128, 208, 190,
       208, 178, 208, 176, 208, 189, 208, 184, 208, 181, 32, 209, 129, 208, 186, 209, 128, 208, 184,
       208, 191, 209, 130, 208, 190, 208, 178, 32, 208, 184, 32, 103, 105, 116, 45, 208, 184, 209,
       129, 209, 130, 208, 190, 209, 135, 208, 189, 208, 184, 208, 186, 208, 190, 208, 178, 32, 208,
       186, 208, 176, 209, 130, 208, 176, 208, 187, 208, 190, 208, 179, 208, 176])
       ''Scripts'' [''script:view'']]"

definition access_permissions :: "permission list" where
  "access_permissions = [
     Permission ''access'' ''view''
       ''View PVE Access''
       ''View Proxmox authentication realms and API tokens''
       ''PVE Access'' [],
     Permission ''access'' ''manage''
       ''Manage PVE Access''
       ''Manage Proxmox authentication realms and API tokens''
       ''PVE Access'' [''access:view'']]"

definition all_registrations :: "permission list" where
  "all_registrations =
     dashboard_permissions @ server_permissions @ vm_permissions @ lxc_permissions @
     template_permissions @ storage_permissions @ backup_permissions @ ipam_permissions @
     user_permissions @ quota_permissions @ role_permissions @ log_permissions @
     setting_permissions @ notification_permissions @ firewall_permissions @ network_permissions @
     node_permissions @ pool_permissions @ app_permissions @ coolify_permissions @
     script_permissions @ access_permissions"

definition PERMISSIONS :: registry where
  "PERMISSIONS = register_all all_registrations"

section \<open>Legacy names\<close>

definition LEGACY_PERMISSION_MAP :: "(string, string) pydict" where
  "LEGACY_PERMISSION_MAP = [
     (''dashboard.view'', ''dashboard:view''),
     (''proxmox.view'', ''server:view''),
     (''proxmox.manage'', ''server:manage''),
     (''proxmox.servers.add'', ''server:create''),
     (''proxmox.servers.edit'', ''server:update''),
     (''proxmox.servers.delete'', ''server:delete''),
     (''proxmox.cluster.manage'', ''cluster:manage''),
     (''proxmox.vm.manage'', ''vm:manage''),
     (''vms.view'', ''vm:view''),
     (''vms.create'', ''vm:create''),
     (''vms.start'', ''vm:start''),
     (''vms.stop'', ''vm:stop''),
     (''vms.restart'', ''vm:restart''),
     (''vms.delete'', ''vm:delete''),
     (''vms.console'', ''vm:console''),
     (''vms.migrate'', ''vm:migrate''),
     (''templates.view'', ''template:view''),
     (''templates.manage'', ''template:manage''),
     (''ipam.view'', ''ipam:view''),
     (''ipam.manage'', ''ipam:manage''),
     (''logs.view'', ''log:view''),
     (''logs.export'', ''log:export''),
     (''logs.delete'', ''log:delete''),
     (''settings.view'', ''setting:view''),
     (''settings.panel'', ''setting:update''),
     (''settings.security'', ''setting:manage''),
     (''settings.manage'', ''setting:manage''),
     (''users.view'', ''user:view''),
     (''users.create'', ''user:create''),
     (''users.edit'', ''user:update''),
     (''users.delete'', ''user:delete''),
     (''users.manage'', ''user:manage''),
     (''roles.view'', ''role:view''),
     (''roles.manage'', ''role:manage''),
     (''notifications.manage'', ''notification:manage'')]"

definition resolve_permission :: "string \<Rightarrow> string" where
  "resolve_permission c = (case map_of LEGACY_PERMISSION_MAP c of Some c' \<Rightarrow> c' | None \<Rightarrow> c)"

definition get_permission_info :: "string \<Rightarrow> string + permission option" where
  "get_permission_info c = registry_get PERMISSIONS (resolve_permission c)"

section \<open>Indexes of a registry built by registrations\<close>

lemmas registration_lists =
  dashboard_permissions_def server_permissions_def vm_permissions_def lxc_permissions_def
  template_permissions_def storage_permissions_def backup_permissions_def ipam_permissions_def
  user_permissions_def quota_permissions_def role_permissions_def log_permissions_def
  setting_permissions_def notification_permissions_def firewall_permissions_def
  network_permissions_def node_permissions_def pool_permissions_def app_permissions_def
  coolify_permissions_def script_permissions_def access_permissions_def

lemma fold_register_permissions:
  "permissions (fold register ps r) = fold (\<lambda>p. AList.update (code p) p) ps (permissions r)"
  by (induction ps arbitrary: r) (simp_all add: register_def)

lemma fold_register_legacy:
  "legacy_map (fold register ps r) = fold (\<lambda>p. AList.update (legacy_code p) (code p)) ps (legacy_map r)"
  by (induction ps arbitrary: r) (simp_all add: register_def)

lemma fold_register_category:
  "by_category_index (fold register ps r) = fold (\<lambda>p. append_at (category p) p) ps (by_category_index r)"
  by (induction ps arbitrary: r) (simp_all add: register_def)

lemma fold_register_resource:
  "by_resource_index (fold register ps r) = fold (\<lambda>p. append_at (resource p) p) ps (by_resource_index r)"
  by (induction ps arbitrary: r) (simp_all add: register_def)

lemma fold_update_fresh:
  "distinct (map fst d @ map f ps) \<Longrightarrow>
   fold (\<lambda>p. AList.update (f p) (g p)) ps d = d @ map (\<lambda>p. (f p, g p)) ps"
proof (induction ps arbitrary: d)
  case (Cons p ps)
  then have "AList.update (f p) (g p) d = d @ [(f p, g p)]"
    by (intro update_append_new) (auto simp: dict_has_def)
  with Cons.prems show ?case by (simp add: Cons.IH)
qed simp

text \<open>The two append-to-a-bucket indexes share one description: a bucket holds the rows of its key.\<close>

lemma map_of_append_at:
  "map_of (append_at k x d) k' =
     (if k' = k then Some ((case map_of d k of None \<Rightarrow> [] | Some xs \<Rightarrow> xs) @ [x]) else map_of d k')"
  by (simp add: append_at_def update_conv')

lemma bucket_fold_append_at:
  "(case map_of (fold (\<lambda>p. append_at (f p) p) ps d) k of None \<Rightarrow> [] | Some xs \<Rightarrow> xs) =
   (case map_of d k of None \<Rightarrow> [] | Some xs \<Rightarrow> xs) @ filter (\<lambda>p. f p = k) ps"
  by (induction ps arbitrary: d) (auto simp: map_of_append_at split: option.splits)

lemma set_keys_update: "set (map fst (AList.update k v d)) = insert k (set (map fst d))"
  by (simp add: dom_update [unfolded dom_map_of_conv_image_fst] flip: image_set)

lemma keys_fold_append_at:
  "set (map fst (fold (\<lambda>p. append_at (f p) p) ps d)) = set (map fst d) \<union> f ` set ps"
  by (induction ps arbitrary: d) (auto simp: append_at_def set_keys_update simp del: set_map)

lemma register_all_by_category:
  "by_category (register_all ps) c = filter (\<lambda>p. category p = c) ps"
  using bucket_fold_append_at [of category ps "[]" c]
  by (simp add: by_category_def register_all_def fold_register_category empty_registry_def)

lemma register_all_by_resource:
  "by_resource (register_all ps) c = filter (\<lambda>p. resource p = c) ps"
  using bucket_fold_append_at [of resource ps "[]" c]
  by (simp add: by_resource_def register_all_def fold_register_resource empty_registry_def)

lemma register_all_categories: "set (categories (register_all ps)) = category ` set ps"
  using keys_fold_append_at [of category ps "[]"]
  by (simp add: categories_def register_all_def fold_register_category empty_registry_def)

lemma register_all_permissions:
  "distinct (map code ps) \<Longrightarrow> permissions (register_all ps) = map (\<lambda>p. (code p, p)) ps"
  using fold_update_fresh [of "[]" code ps "\<lambda>p. p"]
  by (simp add: register_all_def fold_register_permissions empty_registry_def)

lemma register_all_legacy:
  "distinct (map legacy_code ps) \<Longrightarrow> legacy_map (register_all ps) = map (\<lambda>p. (legacy_code p, code p)) ps"
  using fold_update_fresh [of "[]" legacy_code ps code]
  by (simp add: register_all_def fold_register_legacy empty_registry_def)

lemma map_of_map_key:
  "distinct (map f ps) \<Longrightarrow> p \<in> set ps \<Longrightarrow> map_of (map (\<lambda>p. (f p, g p)) ps) (f p) = Some (g p)"
  by (induction ps) (auto simp: image_iff)

lemma map_of_map_key_Some:
  "map_of (map (\<lambda>p. (f p, g p)) ps) k = Some v \<Longrightarrow> \<exists>p \<in> set ps. f p = k \<and> g p = v"
  by (induction ps) (auto split: if_splits)

lemma map_of_map_key_None:
  "map_of (map (\<lambda>p. (f p, g p)) ps) k = None \<longleftrightarrow> k \<notin> f ` set ps"
  by (induction ps) auto

text \<open>A legacy entry of a registry built by registrations never dangles, whatever is registered.\<close>

lemma fold_register_no_dangling:
  "(\<And>c c'. map_of (legacy_map r) c = Some c' \<Longrightarrow> dict_has (permissions r) c') \<Longrightarrow>
   map_of (legacy_map (fold register ps r)) c = Some c' \<Longrightarrow>
   dict_has (permissions (fold register ps r)) c'"
proof (induction ps arbitrary: r)
  case (Cons p ps)
  have "map_of (legacy_map (fold register ps (register p r))) c = Some c'"
    using Cons.prems(2) by simp
  moreover have "dict_has (permissions (register p r)) d'"
    if "map_of (legacy_map (register p r)) d = Some d'" for d d'
    using that Cons.prems(1) by (auto simp: register_def update_conv' dict_has_iff split: if_splits)
  ultimately show ?case using Cons.IH [of "register p r"] by simp
qed simp

lemma registry_get_no_KeyError: "registry_get (register_all ps) c \<noteq> Inl e"
  using fold_register_no_dangling [of empty_registry ps c]
  by (auto simp: registry_get_def register_all_def empty_registry_def dict_has_iff
      split: option.splits)

section \<open>The shipped registry\<close>

lemma all_codes:
  "map code all_registrations =
     [
      ''dashboard:view'', ''server:view'', ''server:create'', ''server:update'',
      ''server:delete'', ''server:manage'', ''cluster:manage'', ''vm:view'', ''vm:create'',
      ''vm:update'', ''vm:delete'', ''vm:start'', ''vm:stop'', ''vm:restart'', ''vm:console'',
      ''vm:migrate'', ''vm:remote_migrate'', ''vm:execute'', ''vm:manage'', ''lxc:view'',
      ''lxc:create'', ''lxc:update'', ''lxc:delete'', ''lxc:start'', ''lxc:stop'',
      ''lxc:restart'', ''lxc:console'', ''lxc:migrate'', ''lxc:remote_migrate'',
      ''template:view'', ''template:create'', ''template:update'', ''template:delete'',
      ''template:manage'', ''storage:view'', ''storage:manage'', ''backup:view'',
      ''backup:create'', ''backup:restore'', ''backup:delete'', ''backup:manage'',
      ''ipam:view'', ''ipam:manage'', ''user:view'', ''user:create'', ''user:update'',
      ''user:delete'', ''user:manage'', ''quota:view'', ''quota:manage'', ''role:view'',
      ''role:create'', ''role:update'', ''role:delete'', ''role:manage'', ''log:view'',
      ''log:export'', ''log:delete'', ''setting:view'', ''setting:update'', ''setting:manage'',
      ''notification:view'', ''notification:manage'', ''firewall:view'', ''firewall:manage'',
      ''network:view'', ''network:manage'', ''node:view'', ''node:manage'', ''node:upgrade'',
      ''node:power'', ''pool:view'', ''pool:manage'', ''app:view'', ''app:install'',
      ''app:manage'', ''coolify:view'', ''coolify:control'', ''coolify:deploy'',
      ''coolify:manage'', ''script:view'', ''script:execute'', ''script:manage'',
      ''access:view'', ''access:manage'']"
  by (simp add: all_registrations_def registration_lists code_def Permission_def)

lemma distinct_codes: "distinct (map code all_registrations)"
  by (simp add: all_codes)

lemma distinct_legacy_codes: "distinct (map legacy_code all_registrations)"
  by (simp add: all_registrations_def registration_lists legacy_code_def Permission_def)

lemma PERMISSIONS_permissions: "permissions PERMISSIONS = map (\<lambda>p. (code p, p)) all_registrations"
  by (simp add: PERMISSIONS_def register_all_permissions distinct_codes)

lemma PERMISSIONS_all: "all_permissions PERMISSIONS = all_registrations"
  by (simp add: all_permissions_def PERMISSIONS_permissions o_def)


lemma find_unique:
  assumes "p \<in> set ps" "Q p" "\<And>q. q \<in> set ps \<Longrightarrow> Q q \<Longrightarrow> q = p"
  shows "find Q ps = Some p"
proof (cases "find Q ps")
  case None
  with assms(1,2) show ?thesis by (auto simp: find_None_iff)
next
  case (Some q)
  then have "q \<in> set ps" "Q q" by (auto simp: find_Some_iff)
  with Some assms(3) show ?thesis by auto
qed

lemma registry_get_find:
  assumes codes: "distinct (map code ps)" and legacy: "distinct (map legacy_code ps)"
    and disjoint: "list_all (\<lambda>p. legacy_code p \<notin> code ` set ps) ps"
  shows "registry_get (register_all ps) c = Inr (find (\<lambda>p. code p = c \<or> legacy_code p = c) ps)"
proof (cases "c \<in> code ` set ps")
  case True
  then obtain p where p: "p \<in> set ps" "c = code p" by blast
  have "find (\<lambda>p. code p = c \<or> legacy_code p = c) ps = Some p"
    using p disjoint codes by (intro find_unique) (auto simp: list_all_iff distinct_map inj_on_def)
  with p show ?thesis
    using map_of_map_key [OF codes, of p "\<lambda>p. p"]
    by (simp add: registry_get_def register_all_permissions [OF codes])
next
  case False
  then have none: "map_of (permissions (register_all ps)) c = None"
    by (auto simp: register_all_permissions [OF codes] map_of_map_key_None)
  show ?thesis
  proof (cases "c \<in> legacy_code ` set ps")
    case True
    then obtain p where p: "p \<in> set ps" "c = legacy_code p" by blast
    have "find (\<lambda>p. code p = c \<or> legacy_code p = c) ps = Some p"
      using p False legacy by (intro find_unique) (force simp: distinct_map inj_on_def)+
    with p none show ?thesis
      using map_of_map_key [OF legacy, of p code] map_of_map_key [OF codes, of p "\<lambda>p. p"]
      by (simp add: registry_get_def register_all_permissions [OF codes] register_all_legacy [OF legacy])
  next
    case False
    with \<open>c \<notin> code ` set ps\<close> have "find (\<lambda>p. code p = c \<or> legacy_code p = c) ps = None"
      by (auto simp: find_None_iff)
    moreover have "map_of (legacy_map (register_all ps)) c = None"
      using False by (simp add: register_all_legacy [OF legacy] map_of_map_key_None)
    ultimately show ?thesis by (simp add: registry_get_def none)
  qed
qed

lemma names_without_colon:
  "list_all (\<lambda>p. CHR '':'' \<notin> set (resource p) \<and> CHR '':'' \<notin> set (action p)) all_registrations"
  by (simp add: all_registrations_def registration_lists Permission_def)

lemma colon_in_code: "CHR '':'' \<in> set (code p)"
  by (simp add: code_def)

lemma legacy_codes_disjoint:
  "list_all (\<lambda>p. legacy_code p \<notin> code ` set all_registrations) all_registrations"
  unfolding list_all_iff
proof
  fix p assume "p \<in> set all_registrations"
  then have "CHR '':'' \<notin> set (legacy_code p)"
    using names_without_colon by (auto simp: list_all_iff legacy_code_def)
  then show "legacy_code p \<notin> code ` set all_registrations"
    using colon_in_code by force
qed

lemma all_requires:
  "list_all (\<lambda>p. list_all (\<lambda>r. List.member (map code all_registrations) r \<and> r \<noteq> code p) (requires p))
     all_registrations"
  unfolding all_codes by (simp add: all_registrations_def registration_lists code_def Permission_def)

lemma legacy_targets:
  "list_all (\<lambda>(old, new). List.member (map code all_registrations) new) LEGACY_PERMISSION_MAP"
  unfolding all_codes by (simp add: LEGACY_PERMISSION_MAP_def)

lemma distinct_legacy_names: "dict_wf LEGACY_PERMISSION_MAP"
  by (simp add: dict_wf_def LEGACY_PERMISSION_MAP_def)

lemma in_codes_exists: "c \<in> set (map code all_registrations) \<Longrightarrow> registry_exists PERMISSIONS c"
  by (auto simp: registry_exists_def dict_has_def PERMISSIONS_permissions)

section \<open>Properties\<close>

text \<open>Whatever list of permissions is registered, in whatever order and with whatever repetitions,
  the category and resource indexes return exactly the registered permissions of that category or
  resource in registration order, and no lookup by code, new or legacy, can raise \<open>KeyError\<close>.\<close>

theorem registry_indexes_faithful:
  "by_category (register_all ps) c = filter (\<lambda>p. category p = c) ps \<and>
   by_resource (register_all ps) c = filter (\<lambda>p. resource p = c) ps \<and>
   set (categories (register_all ps)) = category ` set ps \<and>
   registry_get (register_all ps) k \<noteq> Inl e"
  by (simp add: register_all_by_category register_all_by_resource register_all_categories
      registry_get_no_KeyError)

text \<open>In the shipped registry a lookup returns the one permission whose code, or whose legacy
  \<open>resource.action\<close> spelling, is the argument, and nothing otherwise.\<close>

theorem PERMISSIONS_get:
  "registry_get PERMISSIONS c =
     Inr (find (\<lambda>p. code p = c \<or> legacy_code p = c) all_registrations)"
  unfolding PERMISSIONS_def
  by (rule registry_get_find [OF distinct_codes distinct_legacy_codes legacy_codes_disjoint])

text \<open>The shipped registry is closed: every dependency a permission declares is itself registered
  and is not the permission itself, and every name of the legacy map resolves to a registered
  permission.\<close>

theorem PERMISSIONS_closed:
  "list_all (\<lambda>p. list_all (\<lambda>r. registry_exists PERMISSIONS r \<and> r \<noteq> code p) (requires p))
     (all_permissions PERMISSIONS) \<and>
   list_all (\<lambda>(old, new). resolve_permission old = new \<and> registry_exists PERMISSIONS new)
     LEGACY_PERMISSION_MAP"
proof
  show "list_all (\<lambda>p. list_all (\<lambda>r. registry_exists PERMISSIONS r \<and> r \<noteq> code p) (requires p))
     (all_permissions PERMISSIONS)"
    using all_requires in_codes_exists unfolding PERMISSIONS_all list_all_iff List.member_iff by blast
  show "list_all (\<lambda>(old, new). resolve_permission old = new \<and> registry_exists PERMISSIONS new)
     LEGACY_PERMISSION_MAP"
    using legacy_targets in_codes_exists distinct_legacy_names
    by (fastforce simp: list_all_iff resolve_permission_def dict_wf_def)
qed

end
