(* ===== verification/Accounts.thy ===== *)
theory Accounts
  imports Pve_Prelude
begin

text \<open>
  The account tables, \<^verbatim>\<open>backend/app/models/auth.py\<close>: roles, users and quotas. A \<open>user\<close> is the ORM
  object: \<open>user_role_id\<close> is the foreign key and \<open>user_role\<close> the row the eagerly joined relationship
  \<open>role\<close> points at; \<open>load_user\<close> is that join. Columns no modelled operation reads (the public ssh
  key and the creation and update dates) are left out. Time stamps are UTC microseconds, so \<open>make_tz_aware\<close>,
  which labels naive stamps as UTC, is the identity.
\<close>

record role =
  role_id :: int
  role_name :: string
  role_display_name :: string
  role_description :: "string option"
  role_permissions :: "(string, bool) pydict"
  role_is_system :: bool
  role_is_active :: bool

record user =
  user_id :: int
  username :: string
  email :: string
  hashed_password :: string
  full_name :: "string option"
  is_active :: bool
  is_admin :: bool
  user_role_id :: "int option"
  user_role :: "role option"
  language :: string
  failed_login_attempts :: int
  locked_until :: "int option"
  last_password_change :: "int option"
  require_password_change :: bool
  two_factor_enabled :: bool
  two_factor_secret :: "string option"
  two_factor_backup_codes :: "string list option"
  last_login :: "int option"

text \<open>The relationship \<open>User.role\<close>, joined on \<open>role_id\<close>.\<close>

definition load_user :: "role list \<Rightarrow> user \<Rightarrow> user" where
  "load_user roles u =
     u\<lparr>user_role := (case user_role_id u of None \<Rightarrow> None | Some i \<Rightarrow> find (\<lambda>r. role_id r = i) roles)\<rparr>"

definition role_has_permission :: "role \<Rightarrow> string \<Rightarrow> bool" where
  "role_has_permission r p =
     (if role_permissions r = [] then False
      else (case map_of (role_permissions r) p of None \<Rightarrow> False | Some b \<Rightarrow> b))"

definition is_locked :: "int \<Rightarrow> user \<Rightarrow> bool" where
  "is_locked now u = (case locked_until u of None \<Rightarrow> False | Some t \<Rightarrow> now < t)"

definition user_role_name :: "user \<Rightarrow> string" where
  "user_role_name u =
     (case user_role u of Some r \<Rightarrow> role_name r | None \<Rightarrow> if is_admin u then ''admin'' else ''user'')"

record user_quota =
  quota_user_id :: int
  max_instances :: "int option"
  max_cores :: "int option"
  max_memory_mb :: "int option"
  max_disk_gb :: "int option"

lemma load_user_fields [simp]:
  "user_id (load_user rs u) = user_id u" "email (load_user rs u) = email u" "username (load_user rs u) = username u"
  "is_active (load_user rs u) = is_active u" "is_admin (load_user rs u) = is_admin u"
  "user_role_id (load_user rs u) = user_role_id u" "hashed_password (load_user rs u) = hashed_password u"
  "two_factor_enabled (load_user rs u) = two_factor_enabled u"
  "two_factor_secret (load_user rs u) = two_factor_secret u"
  "two_factor_backup_codes (load_user rs u) = two_factor_backup_codes u"
  "locked_until (load_user rs u) = locked_until u" "is_locked now (load_user rs u) = is_locked now u"
  by (simp_all add: load_user_def is_locked_def)

end
