(* ===== verification/RbacEngine.thy ===== *)
theory RbacEngine
  imports Permissions Accounts
begin

text \<open>
  Authorization decisions: \<^verbatim>\<open>backend/app/rbac/engine.py\<close> (\<open>PermissionEngine\<close>) and
  \<^verbatim>\<open>backend/app/rbac/decorators.py\<close>. A check that raises returns \<^term>\<open>Inl\<close> of the HTTP error; the
  function a decorator wraps is the result it would return. \<open>get_user_permissions\<close> returns a set, as
  the code does.

  The interface locale \<open>delegation\<close> states what role assignment relies on: a user whose grants are
  all held by another has no permission the other lacks. Its client lemma, proved once, covers chains
  of assignments; the engine is interpreted in it.
\<close>

section \<open>PermissionEngine\<close>

definition get_user_permissions :: "user \<Rightarrow> string set" where
  "get_user_permissions u =
     (if is_admin u then set (map code (all_permissions PERMISSIONS))
      else (case user_role u of
              None \<Rightarrow> {}
            | Some r \<Rightarrow> set (map fst (filter snd (role_permissions r)))))"

definition implied_actions :: "string list" where
  "implied_actions = [''view'', ''list'', ''update'', ''start'', ''stop'', ''restart'']"

text \<open>The resource part of a permission code, and its action part where there is a colon.\<close>

definition perm_resource :: "string \<Rightarrow> string" where
  "perm_resource p = hd (split_on CHR '':'' p)"

definition perm_action :: "string \<Rightarrow> string option" where
  "perm_action p = (if CHR '':'' \<in> set p then Some (split_on CHR '':'' p ! 1) else None)"

definition has_permission ::
    "user \<Rightarrow> string \<Rightarrow> scope_type \<Rightarrow> int option \<Rightarrow> int option \<Rightarrow> int option \<Rightarrow> bool" where
  "has_permission u p scope resource_id organization_id workspace_id =
     (if is_admin u then True
      else let user_permissions = get_user_permissions u; res = perm_resource p in
        if p \<in> user_permissions then True
        else if (res @ '':*'') \<in> user_permissions then True
        else if (res @ '':manage'') \<in> user_permissions
          then (case perm_action p of None \<Rightarrow> False | Some a \<Rightarrow> a \<in> set implied_actions)
        else False)"

text \<open>The call with the default arguments, \<open>PermissionEngine.has_permission(user, permission)\<close>.\<close>

abbreviation has_perm :: "user \<Rightarrow> string \<Rightarrow> bool" where
  "has_perm u p \<equiv> has_permission u p GLOBAL None None None"

definition check_permission ::
    "user \<Rightarrow> string \<Rightarrow> scope_type \<Rightarrow> int option \<Rightarrow> int option \<Rightarrow> int option \<Rightarrow> http_error + unit" where
  "check_permission u p scope resource_id organization_id workspace_id =
     (if \<not> has_permission u p scope resource_id organization_id workspace_id
      then Inl (HTTPException 403 (PermissionDenied p)) else Inr ())"

fun has_any_permission :: "user \<Rightarrow> string list \<Rightarrow> bool" where
  "has_any_permission u [] = False"
| "has_any_permission u (p # ps) = (if has_perm u p then True else has_any_permission u ps)"

fun has_all_permissions :: "user \<Rightarrow> string list \<Rightarrow> bool" where
  "has_all_permissions u [] = True"
| "has_all_permissions u (p # ps) = (if \<not> has_perm u p then False else has_all_permissions u ps)"

definition filter_permissions :: "user \<Rightarrow> string list \<Rightarrow> string list" where
  "filter_permissions u ps = filter (has_perm u) ps"

record permission_info =
  info_code :: string
  info_display_name :: string
  info_description :: string
  info_category :: string
  granted :: bool
  info_source :: "string option"

definition permission_info_of :: "user \<Rightarrow> permission \<Rightarrow> permission_info" where
  "permission_info_of u p =
     (let has_perm = (code p \<in> get_user_permissions u) in
      \<lparr>info_code = code p, info_display_name = display_name p, info_description = description p,
       info_category = category p, granted = has_perm,
       info_source = (if is_admin u then Some ''admin'' else if has_perm then Some ''role'' else None)\<rparr>)"

definition get_effective_permissions :: "user \<Rightarrow> (string, permission_info) pydict" where
  "get_effective_permissions u =
     fold (\<lambda>p. AList.update (code p) (permission_info_of u p)) (all_permissions PERMISSIONS) []"

definition get_permissions_by_category :: "user \<Rightarrow> (string, permission_info list) pydict" where
  "get_permissions_by_category u =
     fold (\<lambda>i. append_at (info_category i) i) (map snd (get_effective_permissions u)) []"

definition can_assign_permission :: "user \<Rightarrow> string \<Rightarrow> bool" where
  "can_assign_permission assigner p =
     (if \<not> has_perm assigner ''role:manage'' then False
      else if \<not> is_admin assigner \<and> \<not> has_perm assigner p then False
      else True)"

text \<open>The loop of \<open>validate_role_permissions\<close>, with its two accumulators.\<close>

fun validate_loop ::
    "user \<Rightarrow> (string, bool) pydict \<Rightarrow> (string, bool) pydict \<Rightarrow> string list \<Rightarrow>
     (string, bool) pydict \<times> string list" where
  "validate_loop assigner [] valid denied = (valid, denied)"
| "validate_loop assigner ((p, enabled) # ps) valid denied =
     (if enabled then
        (if can_assign_permission assigner p
         then validate_loop assigner ps (AList.update p True valid) denied
         else validate_loop assigner ps valid (denied @ [p]))
      else validate_loop assigner ps (AList.update p False valid) denied)"

definition validate_role_permissions ::
    "user \<Rightarrow> (string, bool) pydict \<Rightarrow> (string, bool) pydict \<times> string list" where
  "validate_role_permissions assigner ps = validate_loop assigner ps [] []"

section \<open>Decorators\<close>

text \<open>
  \<open>user\<close> is \<open>kwargs.get(user_param)\<close>; \<open>result\<close> is what the wrapped function returns or raises. The
  synchronous and the asynchronous wrapper have the same body.
\<close>

definition requires_permission ::
    "string \<Rightarrow> scope_type \<Rightarrow> user option \<Rightarrow> (http_error + 'r) \<Rightarrow> http_error + 'r" where
  "requires_permission p scope user result =
     (case user of
        None \<Rightarrow> Inl (HTTPException 401 (Msg ''User not found in request''))
      | Some u \<Rightarrow>
          (case check_permission u p scope None None None of Inl e \<Rightarrow> Inl e | Inr _ \<Rightarrow> result))"

definition requires_any_permission ::
    "string list \<Rightarrow> user option \<Rightarrow> (http_error + 'r) \<Rightarrow> http_error + 'r" where
  "requires_any_permission ps user result =
     (case user of
        None \<Rightarrow> Inl (HTTPException 401 (Msg ''User not found in request''))
      | Some u \<Rightarrow>
          (if \<not> has_any_permission u ps then Inl (HTTPException 403 (RequiresOneOf ps)) else result))"

fun check_each :: "user \<Rightarrow> scope_type \<Rightarrow> string list \<Rightarrow> http_error + unit" where
  "check_each u scope [] = Inr ()"
| "check_each u scope (p # ps) =
     (case check_permission u p scope None None None of
        Inl e \<Rightarrow> Inl e | Inr _ \<Rightarrow> check_each u scope ps)"

definition requires_all_permissions ::
    "string list \<Rightarrow> scope_type \<Rightarrow> user option \<Rightarrow> (http_error + 'r) \<Rightarrow> http_error + 'r" where
  "requires_all_permissions ps scope user result =
     (case user of
        None \<Rightarrow> Inl (HTTPException 401 (Msg ''User not found in request''))
      | Some u \<Rightarrow> (case check_each u scope ps of Inl e \<Rightarrow> Inl e | Inr _ \<Rightarrow> result))"

section \<open>Basic facts\<close>

lemma has_permission_ignores_scope: "has_permission u p scope r org ws = has_perm u p"
  by (simp add: has_permission_def)

lemma has_permission_admin [simp]: "is_admin u \<Longrightarrow> has_permission u p scope r org ws"
  by (simp add: has_permission_def)

text \<open>The codes that grant \<open>p\<close>: itself, the wildcard, and \<open>manage\<close> for the implied actions.\<close>

definition granting_codes :: "string \<Rightarrow> string set" where
  "granting_codes p =
     {p, perm_resource p @ '':*''} \<union>
     (case perm_action p of
        None \<Rightarrow> {} | Some a \<Rightarrow> if a \<in> set implied_actions then {perm_resource p @ '':manage''} else {})"

lemma has_perm_iff:
  "has_permission u p scope r org ws \<longleftrightarrow>
     is_admin u \<or> granting_codes p \<inter> get_user_permissions u \<noteq> {}"
  by (auto simp: has_permission_def granting_codes_def Let_def split: option.splits if_splits)

lemma perm_resource_no_colon: "CHR '':'' \<notin> set (perm_resource p)"
  by (simp add: perm_resource_def hd_split_on_no_sep)

lemma perm_parts:
  assumes "CHR '':'' \<notin> set r" "CHR '':'' \<notin> set a"
  shows "perm_resource (r @ CHR '':'' # a) = r" "perm_action (r @ CHR '':'' # a) = Some a"
  using assms by (simp_all add: perm_resource_def perm_action_def split_on_append_sep split_on_no_sep)

lemma granting_codes_special:
  assumes "CHR '':'' \<notin> set r"
  shows "granting_codes (r @ '':*'') = {r @ '':*''}"
    and "granting_codes (r @ '':manage'') = {r @ '':manage'', r @ '':*''}"
proof -
  have "''*'' \<notin> set implied_actions" "''manage'' \<notin> set implied_actions"
    by (simp_all add: implied_actions_def)
  moreover have "perm_resource (r @ '':*'') = r" "perm_action (r @ '':*'') = Some ''*''"
    "perm_resource (r @ '':manage'') = r" "perm_action (r @ '':manage'') = Some ''manage''"
    using perm_parts [OF assms, of "''*''"] perm_parts [OF assms, of "''manage''"] by simp_all
  ultimately show "granting_codes (r @ '':*'') = {r @ '':*''}"
    and "granting_codes (r @ '':manage'') = {r @ '':manage'', r @ '':*''}"
    unfolding granting_codes_def by simp_all
qed

text \<open>Holding every code that grants \<open>p\<close> through another user is holding \<open>p\<close>.\<close>

lemma granting_codes_trans:
  assumes "q \<in> granting_codes p" shows "granting_codes q \<subseteq> granting_codes p \<union> {perm_resource p @ '':*''}"
proof -
  consider "q = p" | "q = perm_resource p @ '':*''"
    | "q = perm_resource p @ '':manage''" "perm_resource p @ '':manage'' \<in> granting_codes p"
    using assms by (auto simp: granting_codes_def split: option.splits if_splits)
  then show ?thesis
    by cases (auto simp: granting_codes_special perm_resource_no_colon)
qed

lemma granting_codes_wildcard: "perm_resource p @ '':*'' \<in> granting_codes p"
  by (simp add: granting_codes_def)

lemma delegated_permission:
  assumes sub: "\<And>q. q \<in> get_user_permissions v \<Longrightarrow> has_perm u q"
    and "\<not> is_admin v" "has_perm v p"
  shows "has_perm u p"
proof -
  obtain q where q: "q \<in> granting_codes p" "q \<in> get_user_permissions v"
    using assms(2,3) by (auto simp: has_perm_iff)
  then have "has_perm u q" using sub by blast
  then show ?thesis
    using granting_codes_trans [OF q(1)] granting_codes_wildcard [of p] by (auto simp: has_perm_iff)
qed


lemma has_any_permission_iff: "has_any_permission u ps \<longleftrightarrow> (\<exists>p \<in> set ps. has_perm u p)"
  by (induction ps) auto

lemma has_all_permissions_iff: "has_all_permissions u ps \<longleftrightarrow> (\<forall>p \<in> set ps. has_perm u p)"
  by (induction ps) auto

lemma check_permission_cases:
  "check_permission u p scope r org ws =
     (if has_perm u p then Inr () else Inl (HTTPException 403 (PermissionDenied p)))"
  by (simp add: check_permission_def has_permission_ignores_scope [of u p scope r org ws])

lemma check_each_find:
  "check_each u scope ps =
     (case find (\<lambda>p. \<not> has_perm u p) ps of
        None \<Rightarrow> Inr () | Some p \<Rightarrow> Inl (HTTPException 403 (PermissionDenied p)))"
  by (induction ps) (simp_all add: check_permission_cases)

section \<open>The interface of delegation\<close>

text \<open>
  \<open>grants v\<close> are the codes written into \<open>v\<close>'s role, \<open>has u p\<close> the decision, \<open>super u\<close> the bypass.
\<close>

locale delegation =
  fixes grants :: "'u \<Rightarrow> string set"
    and has :: "'u \<Rightarrow> string \<Rightarrow> bool"
    and super :: "'u \<Rightarrow> bool"
  assumes super_has: "super u \<Longrightarrow> has u p"
    and grants_has: "p \<in> grants u \<Longrightarrow> has u p"
    and closed: "(\<And>q. q \<in> grants v \<Longrightarrow> has u q) \<Longrightarrow> \<not> super v \<Longrightarrow> has v p \<Longrightarrow> has u p"
begin

lemma has_mono: "grants v \<subseteq> grants u \<Longrightarrow> \<not> super v \<Longrightarrow> has v p \<Longrightarrow> has u p"
  using closed grants_has by blast

lemma chain:
  assumes "rel\<^sup>*\<^sup>* u v" "\<And>u v q. rel u v \<Longrightarrow> q \<in> grants v \<Longrightarrow> has u q" "\<And>u v. rel u v \<Longrightarrow> \<not> super v"
    and "has v p"
  shows "has u p"
  using assms(1,4)
proof (induction arbitrary: p rule: rtranclp_induct)
  case (step v w)
  then have "has v p" using closed assms(2,3) by blast
  then show ?case by (rule step.IH)
qed

end

interpretation engine: delegation get_user_permissions has_perm is_admin
proof unfold_locales
  fix u p assume "p \<in> get_user_permissions u"
  then show "has_perm u p" by (auto simp: has_perm_iff granting_codes_def)
qed (auto intro: delegated_permission)


section \<open>Role validation\<close>

text \<open>What the loop of \<open>validate_role_permissions\<close> accepts and denies, entry by entry.\<close>

lemma validate_loop_denied:
  "snd (validate_loop u ps valid denied) =
     denied @ map fst (filter (\<lambda>(p, b). b \<and> \<not> can_assign_permission u p) ps)"
  by (induction u ps valid denied rule: validate_loop.induct) auto

lemma validate_loop_valid:
  "dict_wf ps \<Longrightarrow>
   map_of (fst (validate_loop u ps valid denied)) p =
     (case map_of ps p of
        None \<Rightarrow> map_of valid p
      | Some b \<Rightarrow> if b \<and> \<not> can_assign_permission u p then map_of valid p else Some b)"
proof (induction u ps valid denied rule: validate_loop.induct)
  case (2 u q enabled ps valid denied)
  then have wf: "dict_wf ps" and q: "map_of ps q = None"
    by (auto simp: dict_wf_def map_of_eq_None_iff)
  show ?case
    using 2 wf q by (auto simp: update_conv' split: option.splits)
qed simp




section \<open>Properties\<close>


definition sample_role :: "(string, bool) pydict \<Rightarrow> role" where
  "sample_role ps = \<lparr>role_id = 1, role_name = ''custom'', role_display_name = ''Custom'',
     role_description = None, role_permissions = ps, role_is_system = False, role_is_active = True\<rparr>"

definition sample_user :: "int \<Rightarrow> bool \<Rightarrow> role option \<Rightarrow> user" where
  "sample_user i admin r = \<lparr>user_id = i, username = ''u'', email = ''u@x'', hashed_password = ''h'', full_name = None,
     is_active = True, is_admin = admin, user_role_id = map_option role_id r, user_role = r,
     language = ''en'',
     failed_login_attempts = 0, locked_until = None, last_password_change = None,
     require_password_change = False,
     two_factor_enabled = False, two_factor_secret = None, two_factor_backup_codes = None,
     last_login = None\<rparr>"

lemmas sample_defs = sample_role_def sample_user_def


text \<open>\<open>validate_role_permissions\<close> splits a request completely: an enabled permission the assigner may
  assign, and every disabled one, is returned unchanged; every other enabled one is reported as
  denied, in request order, and is absent from the result.\<close>

theorem validate_role_permissions_split:
  assumes "dict_wf ps"
  shows "map_of (fst (validate_role_permissions u ps)) p =
           (case map_of ps p of
              None \<Rightarrow> None
            | Some b \<Rightarrow> if b \<and> \<not> can_assign_permission u p then None else Some b) \<and>
         snd (validate_role_permissions u ps) =
           map fst (filter (\<lambda>(p, b). b \<and> \<not> can_assign_permission u p) ps)"
  using assms
  by (simp add: validate_role_permissions_def validate_loop_valid validate_loop_denied split: option.split)

theorem validate_role_permissions_split_witness:
  "map_of (fst (validate_role_permissions
      (sample_user 1 False (Some (sample_role [(''role:manage'', True)]))) [(''vm:view'', True)])) ''vm:view'' = None"
proof -
  have wf: "dict_wf [(''vm:view'', True)]" by (simp add: dict_wf_def)
  have "\<not> can_assign_permission (sample_user 1 False (Some (sample_role [(''role:manage'', True)]))) ''vm:view''"
    by (simp add: can_assign_permission_def has_permission_def get_user_permissions_def
        perm_resource_def perm_action_def sample_defs)
  then show ?thesis
    using validate_role_permissions_split
      [OF wf, of "sample_user 1 False (Some (sample_role [(''role:manage'', True)]))" "''vm:view''"]
    by simp
qed

text \<open>The guards of the decorators are complete: the wrapped function's result is returned exactly
  when there is a user and the decision holds for the one, some or all of the listed permissions;
  otherwise the answer is 401 without a user and 403 with one, naming for the conjunctive guard the
  first permission that is missing.\<close>

theorem decorator_guards:
  "requires_permission p scope user result =
     (case user of None \<Rightarrow> Inl (HTTPException 401 (Msg ''User not found in request''))
      | Some u \<Rightarrow> if has_perm u p then result else Inl (HTTPException 403 (PermissionDenied p))) \<and>
   requires_any_permission ps user result =
     (case user of None \<Rightarrow> Inl (HTTPException 401 (Msg ''User not found in request''))
      | Some u \<Rightarrow> if (\<exists>q. q \<in> set ps \<and> has_perm u q) then result else Inl (HTTPException 403 (RequiresOneOf ps))) \<and>
   requires_all_permissions ps scope user result =
     (case user of None \<Rightarrow> Inl (HTTPException 401 (Msg ''User not found in request''))
      | Some u \<Rightarrow> (case find (\<lambda>q. \<not> has_perm u q) ps of
                     None \<Rightarrow> result | Some q \<Rightarrow> Inl (HTTPException 403 (PermissionDenied q))))"
  by (auto simp: requires_permission_def requires_any_permission_def requires_all_permissions_def
      check_permission_cases check_each_find has_any_permission_iff split: option.splits)

text \<open>Permissions are monotone in the role: enabling more codes never revokes a decision, and a user
  who is not an administrator and has no role, or a role with nothing enabled, has no permission at
  all.\<close>

theorem has_permission_monotone:
  assumes "get_user_permissions v \<subseteq> get_user_permissions u" "\<not> is_admin v"
  shows "(has_permission v p scope r org ws \<longrightarrow> has_permission u p scope r org ws) \<and>
         (get_user_permissions v = {} \<longrightarrow> \<not> has_permission v p scope r org ws)"
  using engine.has_mono [OF assms, of p] assms by (auto simp: has_perm_iff)

theorem has_permission_monotone_witness:
  "has_perm (sample_user 1 False (Some (sample_role [(''vm:view'', True), (''vm:start'', True)]))) ''vm:start''"
proof -
  let ?v = "sample_user 2 False (Some (sample_role [(''vm:start'', True)]))"
  let ?u = "sample_user 1 False (Some (sample_role [(''vm:view'', True), (''vm:start'', True)]))"
  have "get_user_permissions ?v \<subseteq> get_user_permissions ?u" "\<not> is_admin ?v" "has_perm ?v ''vm:start''"
    by (auto simp: has_permission_def get_user_permissions_def sample_defs)
  then show ?thesis
    using has_permission_monotone [of ?v ?u "''vm:start''" GLOBAL None None None] by simp
qed

end
