(* ===== verification/RbacMigration.thy ===== *)
theory RbacMigration
  imports Permissions
begin

text \<open>
  Conversion of stored role permissions, \<^verbatim>\<open>backend/app/rbac/migration.py\<close>: the shipped default roles,
  the conversion between the legacy \<open>vms.view\<close> and the new \<open>vm:view\<close> names, and the three passes over
  the table \<open>roles\<close> that migrations 9 and 29 run (\<open>migrate_all_roles_to_new_format\<close>,
  \<open>ensure_default_roles_new_format\<close>, \<open>backfill_granular_permissions\<close>).

  A row of \<open>roles\<close> is a \<open>role_row\<close>. The column \<open>permissions\<close> reads as SQL \<open>NULL\<close>, as a decoded JSON
  value, or as JSON text; text is represented by what \<open>json.loads\<close> makes of it, \<^term>\<open>None\<close> where it
  raises. \<open>json.dumps\<close> writes text back. A JSON value that is not an object is \<open>JOther\<close> with its
  truthiness; the passes that call \<open>.keys()\<close> on it raise \<open>AttributeError\<close>, which is \<^term>\<open>Inl\<close>.
\<close>

section \<open>Default roles\<close>

record role_data =
  rd_name :: string
  rd_display_name :: string
  rd_description :: string
  rd_is_system :: bool
  rd_permissions :: "(string, bool) pydict"

definition default_role_admin :: role_data where
  "default_role_admin = \<lparr>
     rd_name = ''admin'',
     rd_display_name = ''Administrator'',
     rd_description = ''Full access to all features'',
     rd_is_system = True,
     rd_permissions = [
        (''dashboard:view'', True),
        (''server:view'', True),
        (''server:create'', True),
        (''server:update'', True),
        (''server:delete'', True),
        (''server:manage'', True),
        (''cluster:manage'', True),
        (''vm:view'', True),
        (''vm:create'', True),
        (''vm:update'', True),
        (''vm:delete'', True),
        (''vm:start'', True),
        (''vm:stop'', True),
        (''vm:restart'', True),
        (''vm:console'', True),
        (''vm:migrate'', True),
        (''vm:remote_migrate'', True),
        (''vm:execute'', True),
        (''vm:manage'', True),
        (''lxc:view'', True),
        (''lxc:create'', True),
        (''lxc:update'', True),
        (''lxc:delete'', True),
        (''lxc:start'', True),
        (''lxc:stop'', True),
        (''lxc:restart'', True),
        (''lxc:console'', True),
        (''lxc:migrate'', True),
        (''lxc:remote_migrate'', True),
        (''template:view'', True),
        (''template:create'', True),
        (''template:update'', True),
        (''template:delete'', True),
        (''template:manage'', True),
        (''storage:view'', True),
        (''storage:manage'', True),
        (''firewall:view'', True),
        (''firewall:manage'', True),
        (''network:view'', True),
        (''network:manage'', True),
        (''node:view'', True),
        (''node:manage'', True),
        (''node:upgrade'', True),
        (''node:power'', True),
        (''pool:view'', True),
        (''pool:manage'', True),
        (''access:view'', True),
        (''access:manage'', True),
        (''backup:view'', True),
        (''backup:create'', True),
        (''backup:restore'', True),
        (''backup:delete'', True),
        (''backup:manage'', True),
        (''ipam:view'', True),
        (''ipam:manage'', True),
        (''user:view'', True),
        (''user:create'', True),
        (''user:update'', True),
        (''user:delete'', True),
        (''user:manage'', True),
        (''quota:view'', True),
        (''quota:manage'', True),
        (''role:view'', True),
        (''role:create'', True),
        (''role:update'', True),
        (''role:delete'', True),
        (''role:manage'', True),
        (''log:view'', True),
        (''log:export'', True),
        (''log:delete'', True),
        (''setting:view'', True),
        (''setting:update'', True),
        (''setting:manage'', True),
        (''notification:view'', True),
        (''notification:manage'', True),
        (''coolify:view'', True),
        (''coolify:control'', True),
        (''coolify:deploy'', True),
        (''coolify:manage'', True)]\<rparr>"

definition default_role_moderator :: role_data where
  "default_role_moderator = \<lparr>
     rd_name = ''moderator'',
     rd_display_name = ''Moderator'',
     rd_description = ''Can manage VMs and view logs'',
     rd_is_system = True,
     rd_permissions = [
        (''dashboard:view'', True),
        (''server:view'', True),
        (''vm:view'', True),
        (''vm:create'', True),
        (''vm:start'', True),
        (''vm:stop'', True),
        (''vm:restart'', True),
        (''vm:console'', True),
        (''lxc:view'', True),
        (''lxc:create'', True),
        (''lxc:start'', True),
        (''lxc:stop'', True),
        (''lxc:restart'', True),
        (''lxc:console'', True),
        (''template:view'', True),
        (''storage:view'', True),
        (''firewall:view'', True),
        (''node:view'', True),
        (''pool:view'', True),
        (''backup:view'', True),
        (''backup:create'', True),
        (''user:view'', True),
        (''log:view'', True),
        (''log:export'', True),
        (''setting:view'', True),
        (''notification:view'', True),
        (''notification:manage'', True),
        (''coolify:view'', True),
        (''coolify:control'', True),
        (''coolify:deploy'', True)]\<rparr>"

definition default_role_user :: role_data where
  "default_role_user = \<lparr>
     rd_name = ''user'',
     rd_display_name = ''User'',
     rd_description = ''Standard user with limited access'',
     rd_is_system = True,
     rd_permissions = [
        (''dashboard:view'', False),
        (''server:view'', True),
        (''vm:view'', True),
        (''vm:start'', True),
        (''vm:stop'', True),
        (''vm:restart'', True),
        (''vm:console'', True),
        (''lxc:view'', True),
        (''lxc:start'', True),
        (''lxc:stop'', True),
        (''lxc:restart'', True),
        (''lxc:console'', True),
        (''coolify:view'', True),
        (''coolify:control'', True),
        (''coolify:deploy'', True),
        (''template:view'', True),
        (''storage:view'', True),
        (''firewall:view'', True),
        (''node:view'', True),
        (''pool:view'', True),
        (''notification:view'', True),
        (''notification:manage'', True)]\<rparr>"

definition default_role_demo :: role_data where
  "default_role_demo = \<lparr>
     rd_name = ''demo'',
     rd_display_name = ''Demo User'',
     rd_description = ''Read-only access for demonstration'',
     rd_is_system = True,
     rd_permissions = [
        (''dashboard:view'', True),
        (''server:view'', True),
        (''vm:view'', True),
        (''lxc:view'', True),
        (''template:view'', True),
        (''storage:view'', True),
        (''firewall:view'', True),
        (''node:view'', True),
        (''pool:view'', True)]\<rparr>"

definition GRANULAR_BACKFILL :: "(string \<times> string list) list" where
  "GRANULAR_BACKFILL = [
     (''server:view'', [''firewall:view'', ''node:view'', ''storage:view'']),
     (''vm:view'', [''pool:view'', ''firewall:view'']),
     (''server:manage'', [''firewall:view'', ''firewall:manage'', ''network:view'', ''network:manage'', ''node:view'', ''node:manage'', ''node:upgrade'', ''node:power'', ''storage:view'', ''storage:manage'', ''pool:view'', ''pool:manage'']),
     (''user:manage'', [''access:view'', ''access:manage''])]"

definition NEW_DEFAULT_ROLES :: "role_data list" where
  "NEW_DEFAULT_ROLES = [default_role_admin, default_role_moderator, default_role_user, default_role_demo]"

section \<open>Conversion of one dictionary\<close>

fun convert_new_loop :: "(string, bool) pydict \<Rightarrow> (string, bool) pydict \<Rightarrow> (string, bool) pydict" where
  "convert_new_loop [] acc = acc"
| "convert_new_loop ((perm, v) # ps) acc =
     (if CHR '':'' \<in> set perm then convert_new_loop ps (AList.update perm v acc)
      else (case map_of LEGACY_PERMISSION_MAP perm of
              Some new_perm \<Rightarrow> convert_new_loop ps (if v then AList.update new_perm v acc else acc)
            | None \<Rightarrow> convert_new_loop ps (if v then AList.update perm v acc else acc)))"

definition convert_permissions_to_new_format :: "(string, bool) pydict \<Rightarrow> (string, bool) pydict" where
  "convert_permissions_to_new_format old = (if old = [] then [] else convert_new_loop old [])"

text \<open>\<open>{v: k for k, v in LEGACY_PERMISSION_MAP.items()}\<close>: the last of several old names wins.\<close>

definition reverse_map :: "(string, string) pydict" where
  "reverse_map = fold (\<lambda>(k, v). AList.update v k) LEGACY_PERMISSION_MAP []"

fun convert_legacy_loop :: "(string, bool) pydict \<Rightarrow> (string, bool) pydict \<Rightarrow> (string, bool) pydict" where
  "convert_legacy_loop [] acc = acc"
| "convert_legacy_loop ((perm, v) # ps) acc =
     (if \<not> v then convert_legacy_loop ps acc
      else if CHR '':'' \<in> set perm \<and> dict_has reverse_map perm
        then convert_legacy_loop ps
               (case map_of reverse_map perm of
                  Some legacy \<Rightarrow> AList.update legacy v acc | None \<Rightarrow> acc)
      else convert_legacy_loop ps (AList.update perm v acc))"

definition convert_permissions_to_legacy_format :: "(string, bool) pydict \<Rightarrow> (string, bool) pydict" where
  "convert_permissions_to_legacy_format new = (if new = [] then [] else convert_legacy_loop new [])"

text \<open>The catalogue for the user interface, keyed by the new or by the legacy name.\<close>

definition nested_update ::
    "string \<Rightarrow> string \<Rightarrow> string \<Rightarrow> (string, (string, string) pydict) pydict \<Rightarrow>
     (string, (string, string) pydict) pydict" where
  "nested_update cat k v d =
     AList.update cat (AList.update k v (case map_of d cat of None \<Rightarrow> [] | Some m \<Rightarrow> m)) d"

definition get_permission_categories :: "(string, (string, string) pydict) pydict" where
  "get_permission_categories =
     fold (\<lambda>p. nested_update (category p) (code p) (display_name p)) (all_permissions PERMISSIONS) []"

definition get_permission_categories_legacy :: "(string, (string, string) pydict) pydict" where
  "get_permission_categories_legacy =
     fold (\<lambda>p. nested_update (category p)
              (case map_of reverse_map (code p) of None \<Rightarrow> code p | Some k \<Rightarrow> k) (display_name p))
       (all_permissions PERMISSIONS) []"

section \<open>The table of roles\<close>

datatype json_value = JDict "(string, bool) pydict" | JOther bool

datatype perms_cell = CNull | CJson json_value | CText "json_value option"

record role_row =
  row_id :: int
  row_name :: string
  row_display_name :: string
  row_description :: string
  row_permissions :: perms_cell
  row_is_system :: bool

datatype py_exception = AttributeError

fun json_truthy :: "json_value \<Rightarrow> bool" where
  "json_truthy (JDict d) = (d \<noteq> [])"
| "json_truthy (JOther b) = b"

text \<open>
  \<open>if not permissions\<close>: a text cell is a non-empty string, except that an empty string, which
  \<open>json.loads\<close> rejects, is also skipped.
\<close>

fun cell_truthy :: "perms_cell \<Rightarrow> bool" where
  "cell_truthy CNull = False"
| "cell_truthy (CJson v) = json_truthy v"
| "cell_truthy (CText t) = True"

definition has_new_format :: "(string, bool) pydict \<Rightarrow> bool" where
  "has_new_format d = list_ex (\<lambda>k. CHR '':'' \<in> set k) (map fst d)"

definition has_old_format :: "(string, bool) pydict \<Rightarrow> bool" where
  "has_old_format d = list_ex (\<lambda>k. CHR ''.'' \<in> set k \<and> CHR '':'' \<notin> set k) (map fst d)"

definition dumps :: "(string, bool) pydict \<Rightarrow> perms_cell" where
  "dumps d = CText (Some (JDict d))"

text \<open>One row of \<open>migrate_all_roles_to_new_format\<close>: the new row and whether it was counted.\<close>

definition migrate_row :: "role_row \<Rightarrow> py_exception + (role_row \<times> bool)" where
  "migrate_row row =
     (if \<not> cell_truthy (row_permissions row) then Inr (row, False)
      else
        (case (case row_permissions row of CNull \<Rightarrow> None | CJson v \<Rightarrow> Some v | CText t \<Rightarrow> t) of
           None \<Rightarrow> Inr (row, False)
         | Some (JOther b) \<Rightarrow> Inl AttributeError
         | Some (JDict d) \<Rightarrow>
             (if has_old_format d \<and> \<not> has_new_format d
              then Inr (row\<lparr>row_permissions := dumps (convert_permissions_to_new_format d)\<rparr>, True)
              else if has_old_format d \<and> has_new_format d
              then Inr (row\<lparr>row_permissions := dumps (convert_permissions_to_new_format d)\<rparr>, True)
              else Inr (row, False))))"

fun map_rows :: "('r \<Rightarrow> 'e + ('r \<times> bool)) \<Rightarrow> 'r list \<Rightarrow> 'e + ('r list \<times> nat)" where
  "map_rows f [] = Inr ([], 0)"
| "map_rows f (r # rs) =
     (case f r of
        Inl e \<Rightarrow> Inl e
      | Inr (r', counted) \<Rightarrow>
          (case map_rows f rs of
             Inl e \<Rightarrow> Inl e
           | Inr (rs', n) \<Rightarrow> Inr (r' # rs', (if counted then 1 else 0) + n)))"

definition migrate_all_roles_to_new_format :: "role_row list \<Rightarrow> py_exception + (role_row list \<times> nat)" where
  "migrate_all_roles_to_new_format rows = map_rows migrate_row rows"

definition missing_keys :: "(string, bool) pydict \<Rightarrow> (string, bool) pydict \<Rightarrow> (string, bool) pydict" where
  "missing_keys defaults current = filter (\<lambda>(k, v). \<not> dict_has current k) defaults"

text \<open>
  The body for one existing role. \<open>json.loads\<close> failing gives the empty dictionary; a missing value is
  treated as empty by \<open>(current_perms or {})\<close>.
\<close>

definition ensure_existing :: "role_data \<Rightarrow> role_row \<Rightarrow> py_exception + role_row" where
  "ensure_existing rd row =
     (case (case row_permissions row of
              CNull \<Rightarrow> JDict [] | CJson v \<Rightarrow> v
            | CText t \<Rightarrow> (case t of None \<Rightarrow> JDict [] | Some v \<Rightarrow> v)) of
        JOther b \<Rightarrow>
          (if b then Inl AttributeError
           else Inr (row\<lparr>row_permissions := dumps (rd_permissions rd),
                         row_display_name := rd_display_name rd, row_description := rd_description rd\<rparr>))
      | JDict d \<Rightarrow>
          (let old_format = has_old_format d;
               current = (if old_format then convert_permissions_to_new_format d else d);
               missing = missing_keys (rd_permissions rd) current
           in if current = []
              then Inr (row\<lparr>row_permissions := dumps (rd_permissions rd),
                            row_display_name := rd_display_name rd, row_description := rd_description rd\<rparr>)
              else if missing \<noteq> [] \<or> old_format
              then Inr (row\<lparr>row_permissions := dumps (dict_merge current missing)\<rparr>)
              else Inr row))"

text \<open>\<open>fetchone\<close> and the \<open>UPDATE ... WHERE id\<close>: role names and ids are unique in the table.\<close>

fun update_row :: "string \<Rightarrow> (role_row \<Rightarrow> 'e + role_row) \<Rightarrow> role_row list \<Rightarrow> 'e + role_row list" where
  "update_row name f [] = Inr []"
| "update_row name f (r # rs) =
     (if row_name r = name then (case f r of Inl e \<Rightarrow> Inl e | Inr r' \<Rightarrow> Inr (r' # rs))
      else (case update_row name f rs of Inl e \<Rightarrow> Inl e | Inr rs' \<Rightarrow> Inr (r # rs')))"

definition fresh_row :: "int \<Rightarrow> role_data \<Rightarrow> role_row" where
  "fresh_row i rd = \<lparr>row_id = i, row_name = rd_name rd, row_display_name = rd_display_name rd,
     row_description = rd_description rd, row_permissions = dumps (rd_permissions rd),
     row_is_system = rd_is_system rd\<rparr>"

text \<open>The id of an inserted row is the next one of the sequence, the argument \<open>next\<close>.\<close>

definition ensure_role :: "role_data \<Rightarrow> role_row list \<times> int \<Rightarrow> py_exception + (role_row list \<times> int)" where
  "ensure_role rd s =
     (case s of (rows, next_id) \<Rightarrow>
        (if \<exists>r \<in> set rows. row_name r = rd_name rd
         then (case update_row (rd_name rd) (ensure_existing rd) rows of
                 Inl e \<Rightarrow> Inl e | Inr rows' \<Rightarrow> Inr (rows', next_id))
         else Inr (rows @ [fresh_row next_id rd], next_id + 1)))"

fun ensure_roles :: "role_data list \<Rightarrow> role_row list \<times> int \<Rightarrow> py_exception + (role_row list \<times> int)" where
  "ensure_roles [] s = Inr s"
| "ensure_roles (rd # rds) s =
     (case ensure_role rd s of Inl e \<Rightarrow> Inl e | Inr s' \<Rightarrow> ensure_roles rds s')"

definition ensure_default_roles_new_format ::
    "role_row list \<times> int \<Rightarrow> py_exception + (role_row list \<times> int)" where
  "ensure_default_roles_new_format s = ensure_roles NEW_DEFAULT_ROLES s"

text \<open>The additions \<open>backfill_granular_permissions\<close> collects for one dictionary, and one row of it.\<close>

definition backfill_additions :: "(string, bool) pydict \<Rightarrow> (string, bool) pydict" where
  "backfill_additions d =
     fold (\<lambda>(umbrella, implied) acc.
             if map_of d umbrella = Some True
             then fold (\<lambda>perm acc. if \<not> dict_has d perm then AList.update perm True acc else acc) implied acc
             else acc)
       GRANULAR_BACKFILL []"

definition backfill_row :: "role_row \<Rightarrow> py_exception + (role_row \<times> bool)" where
  "backfill_row row =
     (case (case row_permissions row of CNull \<Rightarrow> None | CJson v \<Rightarrow> Some v | CText t \<Rightarrow> t) of
        Some (JDict d) \<Rightarrow>
          (if d = [] then Inr (row, False)
           else if backfill_additions d \<noteq> []
           then Inr (row\<lparr>row_permissions := dumps (dict_merge d (backfill_additions d))\<rparr>, True)
           else Inr (row, False))
      | _ \<Rightarrow> Inr (row, False))"

definition backfill_granular_permissions :: "role_row list \<Rightarrow> py_exception + (role_row list \<times> nat)" where
  "backfill_granular_permissions rows = map_rows backfill_row rows"

section \<open>Conversion as a renaming\<close>

definition new_key :: "string \<Rightarrow> string" where
  "new_key p = (if CHR '':'' \<in> set p then p else resolve_permission p)"

definition kept_entry :: "string \<times> bool \<Rightarrow> bool" where
  "kept_entry e = (CHR '':'' \<in> set (fst e) \<or> snd e)"

definition renamed :: "(string, bool) pydict \<Rightarrow> (string, bool) pydict" where
  "renamed d = map (\<lambda>(p, v). (new_key p, v)) (filter kept_entry d)"

lemma convert_new_loop_fold:
  "convert_new_loop ps acc = fold (\<lambda>(k, v). AList.update k v) (renamed ps) acc"
proof (induction ps arbitrary: acc)
  case (Cons e ps)
  obtain p v where e: "e = (p, v)" by (cases e)
  show ?case
    by (simp add: e renamed_def kept_entry_def new_key_def resolve_permission_def Cons.IH
        split: option.splits)
qed (simp add: renamed_def)

lemma convert_new_fold:
  "convert_permissions_to_new_format d = fold (\<lambda>(k, v). AList.update k v) (renamed d) []"
  by (simp add: convert_permissions_to_new_format_def convert_new_loop_fold renamed_def)

lemma convert_new_lookup:
  "map_of (convert_permissions_to_new_format d) k = map_of (rev (renamed d)) k"
  by (simp add: convert_new_fold pydict.lookup_fold_insert split: option.split)

lemma dict_wf_convert_new: "dict_wf (convert_permissions_to_new_format d)"
  by (simp add: convert_new_fold pydict.wf_fold_insert)

text \<open>Legacy names carry no colon, the names they stand for do.\<close>

lemma legacy_names_colon:
  "list_all (\<lambda>(old, new). CHR '':'' \<notin> set old \<and> CHR '':'' \<in> set new) LEGACY_PERMISSION_MAP"
  by (simp add: LEGACY_PERMISSION_MAP_def)

lemma new_key_colon_or_unknown:
  "CHR '':'' \<in> set (new_key p) \<or> (new_key p = p \<and> map_of LEGACY_PERMISSION_MAP p = None)"
  using legacy_names_colon
  by (auto simp: new_key_def resolve_permission_def list_all_iff dest!: map_of_SomeD split: option.splits)

lemma new_key_idem: "new_key (new_key p) = new_key p"
  using new_key_colon_or_unknown [of p] by (auto simp: new_key_def resolve_permission_def)

text \<open>A dictionary conversion leaves alone.\<close>

definition settled :: "(string, bool) pydict \<Rightarrow> bool" where
  "settled d = list_all (\<lambda>e. kept_entry e \<and> new_key (fst e) = fst e) d"

lemma settled_renamed: "settled d \<Longrightarrow> renamed d = d"
proof (induction d)
  case (Cons e d)
  then show ?case by (cases e) (simp add: settled_def renamed_def)
qed (simp add: renamed_def)

lemma settled_update:
  "settled d \<Longrightarrow> kept_entry (k, v) \<Longrightarrow> new_key k = k \<Longrightarrow> settled (AList.update k v d)"
  by (induction d) (auto simp: settled_def)

lemma settled_fold_update:
  "settled acc \<Longrightarrow> list_all (\<lambda>e. kept_entry e \<and> new_key (fst e) = fst e) es \<Longrightarrow>
   settled (fold (\<lambda>(k, v). AList.update k v) es acc)"
  by (induction es arbitrary: acc) (auto simp: settled_update)

lemma settled_convert_new: "settled (convert_permissions_to_new_format d)"
  unfolding convert_new_fold
proof (rule settled_fold_update)
  show "list_all (\<lambda>e. kept_entry e \<and> new_key (fst e) = fst e) (renamed d)"
    using new_key_colon_or_unknown
    by (fastforce simp: renamed_def kept_entry_def list_all_iff new_key_idem)
qed (simp add: settled_def)

lemma fold_update_wf:
  "dict_wf (d @ es) \<Longrightarrow> fold (\<lambda>(k, v). AList.update k v) es d = d @ es"
proof (induction es arbitrary: d)
  case (Cons e es)
  obtain k v where e: "e = (k, v)" by (cases e)
  have "\<not> dict_has d k" using Cons.prems by (auto simp: e dict_wf_def dict_has_def)
  with Cons show ?case by (simp add: e update_append_new)
qed simp

lemma convert_new_settled: "dict_wf d \<Longrightarrow> settled d \<Longrightarrow> convert_permissions_to_new_format d = d"
  by (simp add: convert_new_fold settled_renamed fold_update_wf)

lemma convert_new_idem:
  "convert_permissions_to_new_format (convert_permissions_to_new_format d) =
   convert_permissions_to_new_format d"
  by (simp add: convert_new_settled dict_wf_convert_new settled_convert_new)

section \<open>The reverse map\<close>

lemma reverse_map_lookup:
  "map_of reverse_map k = map_of (rev (map (\<lambda>(a, b). (b, a)) LEGACY_PERMISSION_MAP)) k"
proof -
  have "fold (\<lambda>(k, v). AList.update v k) kvs d =
        fold (\<lambda>(k, v). AList.update k v) (map (\<lambda>(a, b). (b, a)) kvs) d"
    for kvs :: "(string, string) pydict" and d
    by (induction kvs arbitrary: d) auto
  then show ?thesis
    by (simp add: reverse_map_def pydict.lookup_fold_insert split: option.split)
qed

lemma reverse_map_Some:
  assumes "map_of reverse_map new = Some old"
  shows "map_of LEGACY_PERMISSION_MAP old = Some new" "CHR '':'' \<notin> set old"
proof -
  have mem: "(old, new) \<in> set LEGACY_PERMISSION_MAP"
    using assms by (auto simp: reverse_map_lookup dest!: map_of_SomeD)
  then show "map_of LEGACY_PERMISSION_MAP old = Some new"
    using distinct_legacy_names by (simp add: dict_wf_def)
  show "CHR '':'' \<notin> set old" using mem legacy_names_colon by (auto simp: list_all_iff)
qed

definition legacy_key :: "string \<Rightarrow> string" where
  "legacy_key p =
     (if CHR '':'' \<in> set p then (case map_of reverse_map p of Some k \<Rightarrow> k | None \<Rightarrow> p) else p)"

lemma convert_legacy_loop_fold:
  "convert_legacy_loop ps acc =
     fold (\<lambda>(k, v). AList.update k v) (map (\<lambda>(p, v). (legacy_key p, v)) (filter snd ps)) acc"
proof (induction ps arbitrary: acc)
  case (Cons e ps)
  obtain p v where e: "e = (p, v)" by (cases e)
  show ?case
    by (auto simp: e legacy_key_def dict_has_iff Cons.IH split: option.splits)
qed simp

lemma convert_legacy_lookup:
  "map_of (convert_permissions_to_legacy_format d) k =
     map_of (rev (map (\<lambda>(p, v). (legacy_key p, v)) (filter snd d))) k"
  by (simp add: convert_permissions_to_legacy_format_def convert_legacy_loop_fold
      pydict.lookup_fold_insert split: option.split)

lemma new_key_legacy_key: "CHR '':'' \<in> set p \<Longrightarrow> new_key (legacy_key p) = p"
  by (auto simp: legacy_key_def new_key_def resolve_permission_def reverse_map_Some split: option.splits)

text \<open>Dictionaries all of whose values are \<open>True\<close> are determined by the set of their keys.\<close>

lemma map_of_all_True:
  "list_all snd d \<Longrightarrow> map_of d k = (if k \<in> fst ` set d then Some True else None)"
  by (induction d) auto

lemma all_True_update: "list_all snd d \<Longrightarrow> list_all snd (AList.update k True d)"
  by (induction d) auto

lemma all_True_convert_legacy: "list_all snd (convert_permissions_to_legacy_format d)"
proof -
  have "list_all snd acc \<Longrightarrow> list_all snd (convert_legacy_loop d acc)" for acc
    by (induction d acc rule: convert_legacy_loop.induct)
      (auto simp: all_True_update split: option.splits)
  then show ?thesis by (simp add: convert_permissions_to_legacy_format_def)
qed

lemma keys_convert_legacy:
  "fst ` set (convert_permissions_to_legacy_format d) = legacy_key ` {p. (p, True) \<in> set d}"
proof -
  have "k \<in> fst ` set (convert_permissions_to_legacy_format d) \<longleftrightarrow> k \<in> legacy_key ` {p. (p, True) \<in> set d}" for k
  proof -
    have "k \<in> fst ` set (convert_permissions_to_legacy_format d) \<longleftrightarrow>
        map_of (rev (map (\<lambda>(p, v). (legacy_key p, v)) (filter snd d))) k \<noteq> None"
      by (simp add: convert_legacy_lookup [symmetric] map_of_eq_None_iff)
    also have "\<dots> \<longleftrightarrow> k \<in> legacy_key ` {p. (p, True) \<in> set d}"
      by (force simp: map_of_eq_None_iff)
    finally show ?thesis .
  qed
  then show ?thesis by blast
qed

section \<open>One role\<close>

lemma default_roles_new_format:
  "list_all (\<lambda>rd. \<not> has_old_format (rd_permissions rd) \<and> dict_wf (rd_permissions rd) \<and>
     rd_permissions rd \<noteq> []) NEW_DEFAULT_ROLES"
  by (simp add: NEW_DEFAULT_ROLES_def has_old_format_def dict_wf_def default_role_admin_def
      default_role_moderator_def default_role_user_def default_role_demo_def)

lemma missing_keys_Nil: "missing_keys defaults current = [] \<longleftrightarrow> fst ` set defaults \<subseteq> fst ` set current"
  by (force simp: missing_keys_def filter_empty_conv dict_has_def)

lemma dict_merge_missing:
  "dict_wf current \<Longrightarrow> dict_wf defaults \<Longrightarrow>
   dict_merge current (missing_keys defaults current) = current @ missing_keys defaults current"
  by (intro dict_merge_fresh)
    (force simp: dict_wf_def missing_keys_def dict_has_def distinct_map inj_on_def distinct_filter)

lemma missing_after_merge:
  "missing_keys defaults (current @ missing_keys defaults current) = []"
  by (auto simp: missing_keys_def filter_empty_conv dict_has_def image_iff)

lemma settled_append [simp]: "settled (a @ b) \<longleftrightarrow> settled a \<and> settled b"
  by (simp add: settled_def)

lemma dict_wf_append_missing:
  "dict_wf current \<Longrightarrow> dict_wf defaults \<Longrightarrow> dict_wf (current @ missing_keys defaults current)"
  using dict_merge_missing dict_wf_merge by metis

text \<open>Whether a stored cell is a dictionary without repeated keys, as \<open>json.loads\<close> builds it.\<close>

fun cell_wf :: "perms_cell \<Rightarrow> bool" where
  "cell_wf CNull = True"
| "cell_wf (CJson (JDict d)) = dict_wf d"
| "cell_wf (CJson (JOther b)) = True"
| "cell_wf (CText (Some (JDict d))) = dict_wf d"
| "cell_wf (CText t) = True"

section \<open>Repeating a pass\<close>

definition stored_dict :: "perms_cell \<Rightarrow> json_value" where
  "stored_dict c =
     (case c of CNull \<Rightarrow> JDict [] | CJson v \<Rightarrow> v
      | CText t \<Rightarrow> (case t of None \<Rightarrow> JDict [] | Some v \<Rightarrow> v))"

lemma ensure_existing_eq:
  "ensure_existing rd row =
     (case stored_dict (row_permissions row) of
        JOther b \<Rightarrow>
          (if b then Inl AttributeError
           else Inr (row\<lparr>row_permissions := dumps (rd_permissions rd),
                         row_display_name := rd_display_name rd, row_description := rd_description rd\<rparr>))
      | JDict d \<Rightarrow>
          (let current = (if has_old_format d then convert_permissions_to_new_format d else d);
               missing = missing_keys (rd_permissions rd) current
           in if current = []
              then Inr (row\<lparr>row_permissions := dumps (rd_permissions rd),
                            row_display_name := rd_display_name rd, row_description := rd_description rd\<rparr>)
              else if missing \<noteq> [] \<or> has_old_format d
              then Inr (row\<lparr>row_permissions := dumps (dict_merge current missing)\<rparr>)
              else Inr row))"
  unfolding ensure_existing_def stored_dict_def Let_def
  by (rule arg_cong2 [where f = "\<lambda>g x. case_json_value g _ x"]) simp_all

lemma stored_dict_dumps [simp]: "stored_dict (dumps d) = JDict d"
  by (simp add: stored_dict_def dumps_def)

lemma ensure_existing_dict:
  assumes "stored_dict (row_permissions row) = JDict d"
    and "current = (if has_old_format d then convert_permissions_to_new_format d else d)"
    and "current \<noteq> []"
  shows "ensure_existing rd row =
    (if missing_keys (rd_permissions rd) current \<noteq> [] \<or> has_old_format d
     then Inr (row\<lparr>row_permissions := dumps (dict_merge current (missing_keys (rd_permissions rd) current))\<rparr>)
     else Inr row)"
  using assms(3) unfolding ensure_existing_eq assms(1) by (simp add: Let_def assms(2))

lemma stored_dict_wf: "cell_wf c \<Longrightarrow> stored_dict c = JDict d \<Longrightarrow> dict_wf d"
  by (cases c rule: cell_wf.cases) (auto simp: stored_dict_def)

lemma seeded_stable:
  assumes "\<not> has_old_format (rd_permissions rd)" "rd_permissions rd \<noteq> []"
    and "row_permissions row = dumps (rd_permissions rd)"
  shows "ensure_existing rd row = Inr row"
  using assms ensure_existing_dict [of row "rd_permissions rd" "rd_permissions rd" rd]
  by (simp add: missing_keys_Nil)

text \<open>After conversion only unknown names without a colon keep the old format, and conversion keeps those.\<close>

lemma convert_if_old_settled:
  assumes "dict_wf d" "settled d"
  shows "(if has_old_format d then convert_permissions_to_new_format d else d) = d"
  using assms by (simp add: convert_new_settled)

lemma settled_defaults: "\<not> has_old_format d \<Longrightarrow> list_all (\<lambda>e. CHR ''.'' \<in> set (fst e) \<or> CHR '':'' \<in> set (fst e)) d \<Longrightarrow> settled d"
  by (auto simp: settled_def has_old_format_def list_all_iff list_ex_iff kept_entry_def new_key_def)

lemma default_keys_colon:
  "list_all (\<lambda>rd. list_all (\<lambda>e. CHR '':'' \<in> set (fst e)) (rd_permissions rd)) NEW_DEFAULT_ROLES"
  by (simp add: NEW_DEFAULT_ROLES_def default_role_admin_def
      default_role_moderator_def default_role_user_def default_role_demo_def)

lemma settled_missing:
  "list_all (\<lambda>e. CHR '':'' \<in> set (fst e)) defaults \<Longrightarrow> settled (missing_keys defaults d)"
  by (auto simp: settled_def missing_keys_def list_all_iff kept_entry_def new_key_def)

lemma ensure_existing_stable:
  assumes rd: "\<not> has_old_format (rd_permissions rd)" "rd_permissions rd \<noteq> []" "dict_wf (rd_permissions rd)"
      "list_all (\<lambda>e. CHR '':'' \<in> set (fst e)) (rd_permissions rd)"
    and wf: "cell_wf (row_permissions row)"
    and run: "ensure_existing rd row = Inr row'"
  shows "ensure_existing rd row' = Inr row' \<and> cell_wf (row_permissions row')"
proof (cases "stored_dict (row_permissions row)")
  case (JOther b)
  then have "row_permissions row' = dumps (rd_permissions rd)"
    using run by (auto simp: ensure_existing_eq split: if_splits)
  then show ?thesis using rd by (auto intro: seeded_stable simp: dumps_def)
next
  case (JDict d)
  define current where "current = (if has_old_format d then convert_permissions_to_new_format d else d)"
  let ?defaults = "rd_permissions rd"
  let ?merged = "current @ missing_keys ?defaults current"
  have wfc: "dict_wf current"
    using stored_dict_wf [OF wf JDict] by (simp add: current_def dict_wf_convert_new)
  show ?thesis
  proof (cases "current = []")
    case True
    then have "row_permissions row' = dumps ?defaults"
      using run JDict by (auto simp: ensure_existing_eq current_def)
    then show ?thesis using rd by (auto intro: seeded_stable simp: dumps_def)
  next
    case False
    note run' = run [unfolded ensure_existing_dict [OF JDict current_def False] dict_merge_missing [OF wfc rd(3)]]
    show ?thesis
    proof (cases "missing_keys ?defaults current \<noteq> [] \<or> has_old_format d")
      case True
      then have row': "row' = row\<lparr>row_permissions := dumps ?merged\<rparr>" using run' by simp
      have wfm: "dict_wf ?merged" by (rule dict_wf_append_missing [OF wfc rd(3)])
      have conv: "(if has_old_format ?merged then convert_permissions_to_new_format ?merged else ?merged) = ?merged"
      proof (cases "has_old_format d")
        case True
        then have "settled ?merged"
          by (simp add: current_def settled_convert_new settled_missing [OF rd(4)])
        then show ?thesis by (rule convert_if_old_settled [OF wfm])
      next
        case False
        then have "\<not> has_old_format ?merged"
          using rd(1) by (auto simp: current_def has_old_format_def list_ex_iff missing_keys_def)
        then show ?thesis by simp
      qed
      have "ensure_existing rd row' = Inr row'"
        using ensure_existing_dict [of row' ?merged ?merged rd] conv False
        by (simp add: row' missing_after_merge)
      then show ?thesis using wfm by (simp add: row' dumps_def)
    next
      case False
      then have "row' = row" using run' by simp
      with run wf show ?thesis by simp
    qed
  qed
qed

section \<open>The whole table\<close>

lemma update_row_find:
  "update_row n f rows = Inr rows' \<Longrightarrow>
   find (\<lambda>r. row_name r = m) rows' =
     (if m = n
      then (case find (\<lambda>r. row_name r = n) rows of
              None \<Rightarrow> None | Some r \<Rightarrow> (case f r of Inr r' \<Rightarrow> Some r' | Inl e \<Rightarrow> None))
      else find (\<lambda>r. row_name r = m) rows)"
  if "\<And>r r'. f r = Inr r' \<Longrightarrow> row_name r' = row_name r"
  by (induction rows arbitrary: rows')
    (auto split: sum.splits if_splits option.splits dest: that)

lemma update_row_hit:
  "update_row n f rows = Inr rows' \<Longrightarrow> find (\<lambda>r. row_name r = n) rows = Some r \<Longrightarrow> \<exists>r'. f r = Inr r'"
  by (induction rows arbitrary: rows') (auto split: sum.splits if_splits)

lemma update_row_same:
  "find (\<lambda>r. row_name r = n) rows = Some r \<Longrightarrow> f r = Inr r \<Longrightarrow> update_row n f rows = Inr rows"
  by (induction n f rows rule: update_row.induct) (auto split: if_splits sum.splits)

lemma ensure_existing_name: "ensure_existing rd r = Inr r' \<Longrightarrow> row_name r' = row_name r"
  by (auto simp: ensure_existing_eq Let_def split: json_value.splits if_splits)

lemma find_row_exists: "(\<exists>r \<in> set rows. row_name r = n) \<longleftrightarrow> find (\<lambda>r. row_name r = n) rows \<noteq> None"
  by (auto simp: find_None_iff)

text \<open>\<open>done_for rd rows\<close>: the pass for \<open>rd\<close> would leave \<open>rows\<close> as it is.\<close>

definition done_for :: "role_data \<Rightarrow> role_row list \<Rightarrow> bool" where
  "done_for rd rows =
     (case find (\<lambda>r. row_name r = rd_name rd) rows of
        None \<Rightarrow> False | Some r \<Rightarrow> ensure_existing rd r = Inr r)"

lemma done_for_ensure_role: "done_for rd rows \<Longrightarrow> ensure_role rd (rows, n) = Inr (rows, n)"
  by (auto simp: done_for_def ensure_role_def find_row_exists update_row_same split: option.splits)

lemma ensure_role_other:
  assumes "ensure_role rd (rows, n) = Inr (rows', n')" "m \<noteq> rd_name rd"
  shows "find (\<lambda>r. row_name r = m) rows' = find (\<lambda>r. row_name r = m) rows"
  using assms update_row_find [of "ensure_existing rd" "rd_name rd" rows rows' m]
  by (auto simp: ensure_role_def find_append fresh_row_def dest: ensure_existing_name
      split: if_splits sum.splits option.splits)

definition good_default :: "role_data \<Rightarrow> bool" where
  "good_default rd \<longleftrightarrow> \<not> has_old_format (rd_permissions rd) \<and> rd_permissions rd \<noteq> [] \<and>
     dict_wf (rd_permissions rd) \<and> list_all (\<lambda>e. CHR '':'' \<in> set (fst e)) (rd_permissions rd)"

lemma good_defaults: "list_all good_default NEW_DEFAULT_ROLES"
  using default_roles_new_format default_keys_colon by (auto simp: good_default_def list_all_iff)

definition rows_wf :: "role_row list \<Rightarrow> bool" where
  "rows_wf rows = list_all (\<lambda>r. cell_wf (row_permissions r)) rows"

lemma update_row_wf:
  "update_row n f rows = Inr rows' \<Longrightarrow> rows_wf rows \<Longrightarrow>
   (\<And>r r'. f r = Inr r' \<Longrightarrow> cell_wf (row_permissions r) \<Longrightarrow> cell_wf (row_permissions r')) \<Longrightarrow> rows_wf rows'"
  by (induction n f rows arbitrary: rows' rule: update_row.induct)
    (auto simp: rows_wf_def split: if_splits sum.splits)

lemma find_cell_wf:
  "rows_wf rows \<Longrightarrow> find P rows = Some r \<Longrightarrow> cell_wf (row_permissions r)"
  by (auto simp: rows_wf_def list_all_iff find_Some_iff)

lemma ensure_role_done:
  assumes good: "good_default rd" and wf: "rows_wf rows"
    and run: "ensure_role rd (rows, n) = Inr (rows', n')"
  shows "done_for rd rows' \<and> rows_wf rows'"
proof (cases "\<exists>r \<in> set rows. row_name r = rd_name rd")
  case True
  then obtain r where r: "find (\<lambda>r. row_name r = rd_name rd) rows = Some r"
    by (auto simp: find_row_exists)
  have up: "update_row (rd_name rd) (ensure_existing rd) rows = Inr rows'"
    using run True by (auto simp: ensure_role_def split: sum.splits)
  have stable: "ensure_existing rd s' = Inr s' \<and> cell_wf (row_permissions s')"
    if "ensure_existing rd s = Inr s'" "cell_wf (row_permissions s)" for s s'
    using ensure_existing_stable [OF _ _ _ _ that(2,1)] good by (simp add: good_default_def)
  have "find (\<lambda>r. row_name r = rd_name rd) rows' =
      (case ensure_existing rd r of Inr r' \<Rightarrow> Some r' | Inl e \<Rightarrow> None)"
    using update_row_find [OF ensure_existing_name up, where m = "rd_name rd"] r by simp
  moreover obtain r' where "ensure_existing rd r = Inr r'"
    using update_row_hit [OF up r] by blast
  ultimately have "done_for rd rows'"
    using stable [OF _ find_cell_wf [OF wf r]] by (auto simp: done_for_def split: sum.splits)
  moreover have "rows_wf rows'" by (rule update_row_wf [OF up wf]) (use stable in blast)
  ultimately show ?thesis ..
next
  case False
  then have rows': "rows' = rows @ [fresh_row n rd]" using run by (auto simp: ensure_role_def)
  have "find (\<lambda>r. row_name r = rd_name rd) rows' = Some (fresh_row n rd)"
    using False by (auto simp: rows' find_append find_row_exists fresh_row_def split: option.splits)
  then have "done_for rd rows'"
    using good by (auto simp: done_for_def good_default_def fresh_row_def intro: seeded_stable)
  then show ?thesis
    using wf good by (simp add: rows' rows_wf_def good_default_def fresh_row_def dumps_def)
qed

lemma ensure_role_keeps_done:
  "ensure_role rd (rows, n) = Inr (rows', n') \<Longrightarrow> done_for rd' rows \<Longrightarrow> rd_name rd' \<noteq> rd_name rd \<Longrightarrow>
   done_for rd' rows'"
  by (simp add: done_for_def ensure_role_other)

lemma ensure_roles_done:
  assumes "ensure_roles rds (rows, n) = Inr (rows', n')" "list_all good_default rds"
    "distinct (map rd_name rds)" "rows_wf rows"
    "\<forall>rd \<in> set prev. done_for rd rows" "rd_name ` set prev \<inter> rd_name ` set rds = {}"
  shows "\<forall>rd \<in> set prev \<union> set rds. done_for rd rows'"
  using assms
proof (induction rds arbitrary: rows n prev)
  case (Cons rd rds)
  obtain rows1 n1 where step: "ensure_role rd (rows, n) = Inr (rows1, n1)"
    and rest: "ensure_roles rds (rows1, n1) = Inr (rows', n')"
    using Cons.prems(1) by (auto split: sum.splits)
  have "done_for rd rows1 \<and> rows_wf rows1"
    using ensure_role_done [OF _ Cons.prems(4) step] Cons.prems(2) by simp
  moreover have "\<forall>rd' \<in> set prev. done_for rd' rows1"
  proof
    fix rd' assume rd': "rd' \<in> set prev"
    then have "rd_name rd' \<in> rd_name ` set prev" "rd_name rd \<in> rd_name ` set (rd # rds)" by simp_all
    then have "rd_name rd' \<noteq> rd_name rd" using Cons.prems(6) by (metis disjoint_iff)
    with rd' show "done_for rd' rows1" using ensure_role_keeps_done [OF step] Cons.prems(5) by blast
  qed
  ultimately have "\<forall>rd' \<in> set (rd # prev) \<union> set rds. done_for rd' rows'"
  proof (intro Cons.IH [OF rest])
    show "rd_name ` set (rd # prev) \<inter> rd_name ` set rds = {}" using Cons.prems(3,6) by auto
  qed (use Cons.prems(2,3) \<open>done_for rd rows1 \<and> rows_wf rows1\<close> in simp_all)
  then show ?case by simp
qed simp

lemma ensure_roles_all_done:
  "\<forall>rd \<in> set rds. done_for rd rows \<Longrightarrow> ensure_roles rds (rows, n) = Inr (rows, n)"
  by (induction rds) (auto simp: done_for_ensure_role)

lemma default_names_distinct: "distinct (map rd_name NEW_DEFAULT_ROLES)"
  by (simp add: NEW_DEFAULT_ROLES_def default_role_admin_def default_role_moderator_def
      default_role_user_def default_role_demo_def)

section \<open>Backfilling\<close>

lemma fold_additions_inner:
  "map_of (fold (\<lambda>perm acc. if \<not> dict_has d perm then AList.update perm True acc else acc) ps acc) k =
     (if k \<in> set ps \<and> \<not> dict_has d k then Some True else map_of acc k)"
  by (induction ps arbitrary: acc) (auto simp: update_conv')

lemma fold_additions:
  "map_of (fold (\<lambda>(umbrella, implied) acc.
       if map_of d umbrella = Some True
       then fold (\<lambda>perm acc. if \<not> dict_has d perm then AList.update perm True acc else acc) implied acc
       else acc) us acc) k =
     (if \<not> dict_has d k \<and> list_ex (\<lambda>(u, implied). map_of d u = Some True \<and> k \<in> set implied) us
      then Some True else map_of acc k)"
proof (induction us arbitrary: acc)
  case (Cons e us)
  obtain u i where e: "e = (u, i)" by (cases e)
  show ?case by (cases "map_of d u = Some True") (auto simp: e Cons.IH fold_additions_inner)
qed simp

lemma backfill_additions_lookup:
  "map_of (backfill_additions d) k =
     (if \<not> dict_has d k \<and> list_ex (\<lambda>(u, implied). map_of d u = Some True \<and> k \<in> set implied) GRANULAR_BACKFILL
      then Some True else None)"
  by (simp add: backfill_additions_def fold_additions)

lemma dict_wf_inner:
  "dict_wf acc \<Longrightarrow> dict_wf (fold (\<lambda>perm acc. if \<not> dict_has d perm then AList.update perm True acc else acc) ps acc)"
  by (induction ps arbitrary: acc) auto

lemma dict_wf_backfill_additions: "dict_wf (backfill_additions d)"
proof -
  have "dict_wf acc \<Longrightarrow> dict_wf (fold (\<lambda>(umbrella, implied) acc.
       if map_of d umbrella = Some True
       then fold (\<lambda>perm acc. if \<not> dict_has d perm then AList.update perm True acc else acc) implied acc
       else acc) us acc)" for us and acc :: "(string, bool) pydict"
    by (induction us arbitrary: acc) (auto simp: dict_wf_inner)
  then show ?thesis by (simp add: backfill_additions_def)
qed

text \<open>No permission a rule adds is the umbrella of a rule.\<close>

lemma umbrellas_not_implied:
  "list_all (\<lambda>(u, _). list_all (\<lambda>(_, implied). u \<notin> set implied) GRANULAR_BACKFILL) GRANULAR_BACKFILL"
  by (simp add: GRANULAR_BACKFILL_def)

lemma backfill_lookup:
  "map_of (dict_merge d (backfill_additions d)) k =
     (case map_of d k of
        Some b \<Rightarrow> Some b
      | None \<Rightarrow> map_of (backfill_additions d) k)"
  by (simp add: map_of_dict_merge dict_wf_backfill_additions map_add_def backfill_additions_lookup
      dict_has_iff split: option.splits)

lemma backfill_twice: "backfill_additions (dict_merge d (backfill_additions d)) = []"
proof -
  let ?d = "dict_merge d (backfill_additions d)"
  have umb: "map_of ?d u = map_of d u" if "(u, i) \<in> set GRANULAR_BACKFILL" for u i
    using umbrellas_not_implied that
    by (fastforce simp: backfill_lookup backfill_additions_lookup list_all_iff list_ex_iff split: option.splits)
  have "map_of (backfill_additions ?d) k = None" for k
    using umb by (auto simp: backfill_additions_lookup [of ?d] dict_has_iff backfill_lookup list_ex_iff
        backfill_additions_lookup [of d] split: option.splits if_splits)
  then show ?thesis using map_of_eq_empty_iff [of "backfill_additions ?d"] by blast
qed

lemma backfill_row_twice:
  assumes "backfill_row row = Inr (row', c)"
  shows "backfill_row row' = Inr (row', False)"
proof -
  let ?merge = "\<lambda>d. row\<lparr>row_permissions := dumps (dict_merge d (backfill_additions d))\<rparr>"
  have "(row' = row \<and> \<not> c) \<or> (\<exists>d. row' = ?merge d)"
    using assms by (cases "row_permissions row"; cases c)
      (auto simp: backfill_row_def split: option.splits json_value.splits if_splits)
  then consider (same) "row' = row" "\<not> c" | (merged) d where "row' = ?merge d"
    by blast
  then show ?thesis
  proof cases
    case same
    with assms show ?thesis by simp
  next
    case merged
    then show ?thesis by (simp add: backfill_row_def dumps_def backfill_twice)
  qed
qed

lemma map_rows_twice:
  "map_rows f rows = Inr (rows', n) \<Longrightarrow> (\<And>r r' c. f r = Inr (r', c) \<Longrightarrow> f r' = Inr (r', False)) \<Longrightarrow>
   map_rows f rows' = Inr (rows', 0)"
  by (induction rows arbitrary: rows' n) (auto split: sum.splits)

lemma backfill_total: "\<exists>rows' n. map_rows backfill_row rows = Inr (rows', n)"
  by (induction rows) (auto simp: backfill_row_def split: option.splits json_value.splits)


lemma default_role_keys_registered:
  "list_all (\<lambda>rd. list_all (\<lambda>c. List.member (map code all_registrations) c) (map fst (rd_permissions rd)))
     NEW_DEFAULT_ROLES"
  unfolding all_codes by code_simp

lemma admin_role_missing:
  "filter (\<lambda>c. map_of (rd_permissions default_role_admin) c \<noteq> Some True) (map code all_registrations) =
     [''app:view'', ''app:install'', ''app:manage'', ''script:view'', ''script:execute'', ''script:manage'']"
  unfolding all_codes by code_simp

section \<open>Properties\<close>

text \<open>Conversion to the new format settles in one step: its result has no repeated keys and
  converting it again changes nothing, whatever mixture of names it is given.\<close>

theorem convert_new_settles:
  "dict_wf (convert_permissions_to_new_format d) \<and>
   convert_permissions_to_new_format (convert_permissions_to_new_format d) =
     convert_permissions_to_new_format d"
  by (simp add: dict_wf_convert_new convert_new_idem)

text \<open>Converting a role in the new format to the legacy names and back gives exactly the enabled
  permissions, although several legacy names stand for one new name and some new names have none.\<close>

theorem legacy_round_trip:
  assumes "list_all (\<lambda>e. CHR '':'' \<in> set (fst e)) d"
  shows "map_of (convert_permissions_to_new_format (convert_permissions_to_legacy_format d)) k =
         (if (k, True) \<in> set d then Some True else None)"
proof -
  let ?L = "convert_permissions_to_legacy_format d"
  have all_True: "list_all snd ?L" by (rule all_True_convert_legacy)
  then have ren: "renamed ?L = map (\<lambda>(p, v). (new_key p, v)) ?L"
    by (auto simp: renamed_def kept_entry_def list_all_iff filter_id_conv intro!: arg_cong [of _ _ "map _"])
  have "fst ` set (renamed ?L) = new_key ` legacy_key ` {p. (p, True) \<in> set d}"
    by (force simp: ren keys_convert_legacy [symmetric])
  also have "\<dots> = {p. (p, True) \<in> set d}"
    using assms by (force simp: list_all_iff image_image new_key_legacy_key)
  finally have keys: "fst ` set (rev (renamed ?L)) = {p. (p, True) \<in> set d}" by simp
  have "list_all snd (rev (renamed ?L))" using all_True by (auto simp: ren list_all_iff)
  then show ?thesis by (simp only: convert_new_lookup map_of_all_True keys mem_Collect_eq)
qed

theorem legacy_round_trip_witness:
  "map_of (convert_permissions_to_new_format
      (convert_permissions_to_legacy_format [(''setting:manage'', True), (''pool:view'', True), (''vm:view'', False)]))
      ''setting:manage'' = Some True"
  using legacy_round_trip [of "[(''setting:manage'', True), (''pool:view'', True), (''vm:view'', False)]" "''setting:manage''"]
  by simp

text \<open>\<open>ensure_default_roles_new_format\<close> is idempotent on the whole table: run again on the table it
  produced, it changes no row and inserts none, whatever roles and stored formats it started from.\<close>

theorem ensure_default_roles_idempotent:
  assumes "rows_wf rows" and "ensure_default_roles_new_format (rows, n) = Inr (rows', n')"
  shows "ensure_default_roles_new_format (rows', n') = Inr (rows', n')"
  using ensure_roles_done [OF assms(2) [unfolded ensure_default_roles_new_format_def] good_defaults
      default_names_distinct assms(1), of "[]"]
  by (simp add: ensure_default_roles_new_format_def ensure_roles_all_done)

theorem ensure_default_roles_idempotent_witness:
  "\<exists>rows. length rows = 4 \<and> ensure_default_roles_new_format (rows, 5) = Inr (rows, 5)"
proof -
  let ?rows = "[fresh_row 1 default_role_admin, fresh_row 2 default_role_moderator,
                fresh_row 3 default_role_user, fresh_row 4 default_role_demo]"
  have names: "rd_name default_role_admin = ''admin''" "rd_name default_role_moderator = ''moderator''"
    "rd_name default_role_user = ''user''" "rd_name default_role_demo = ''demo''"
    by (simp_all add: default_role_admin_def default_role_moderator_def default_role_user_def default_role_demo_def)
  have "ensure_default_roles_new_format ([], 1) = Inr (?rows, 5)"
    by (simp add: ensure_default_roles_new_format_def NEW_DEFAULT_ROLES_def ensure_role_def fresh_row_def names)
  then have "ensure_default_roles_new_format (?rows, 5) = Inr (?rows, 5)"
    by (intro ensure_default_roles_idempotent [of "[]" 1]) (simp_all add: rows_wf_def)
  then show ?thesis by (intro exI [of _ ?rows]) simp
qed

section \<open>Stored decisions\<close>











text \<open>\<open>backfill_granular_permissions\<close> never raises, its second run updates no role, and it never
  overrides a stored decision: it adds exactly the permissions implied by an umbrella the role
  holds, where the role has no entry.\<close>

theorem backfill_idempotent_conservative:
  "(\<exists>rows' n. backfill_granular_permissions rows = Inr (rows', n) \<and>
              backfill_granular_permissions rows' = Inr (rows', 0)) \<and>
   map_of (dict_merge d (backfill_additions d)) k =
     (case map_of d k of
        Some b \<Rightarrow> Some b
      | None \<Rightarrow> if list_ex (\<lambda>(u, implied). map_of d u = Some True \<and> k \<in> set implied) GRANULAR_BACKFILL
                then Some True else None)"
proof
  obtain rows' n where "backfill_granular_permissions rows = Inr (rows', n)"
    using backfill_total [of rows] by (auto simp: backfill_granular_permissions_def)
  moreover from this have "backfill_granular_permissions rows' = Inr (rows', 0)"
    unfolding backfill_granular_permissions_def by (rule map_rows_twice) (rule backfill_row_twice)
  ultimately show "\<exists>rows' n. backfill_granular_permissions rows = Inr (rows', n) \<and>
      backfill_granular_permissions rows' = Inr (rows', 0)" by blast
qed (simp add: backfill_lookup backfill_additions_lookup dict_has_iff split: option.split)

text \<open>The shipped role data against the registry: every permission a default role mentions is
  registered, and the default administrator role enables every registered permission except the
  three of the App Store and the three of the script catalogue.\<close>

theorem default_roles_against_registry:
  "list_all (\<lambda>rd. list_all (\<lambda>c. List.member (map code all_registrations) c) (map fst (rd_permissions rd)))
     NEW_DEFAULT_ROLES \<and>
   filter (\<lambda>c. map_of (rd_permissions default_role_admin) c \<noteq> Some True) (map code all_registrations) =
     [''app:view'', ''app:install'', ''app:manage'', ''script:view'', ''script:execute'', ''script:manage'']"
  by (rule conjI [OF default_role_keys_registered admin_role_missing])

text \<open>A denial stored under a legacy name is dropped by the conversion, so the default role's grant
  takes its place.\<close>

lemma legacy_denial_becomes_grant:
  "\<exists>row' d'. ensure_existing default_role_user
       \<lparr>row_id = 3, row_name = ''user'', row_display_name = ''User'', row_description = [],
        row_permissions = CJson (JDict [(''vms.view'', False), (''vms.start'', True)]), row_is_system = True\<rparr> = Inr row' \<and>
     stored_dict (row_permissions row') = JDict d' \<and> map_of d' ''vm:view'' = Some True"
proof -
  let ?row = "\<lparr>row_id = 3, row_name = ''user'', row_display_name = ''User'', row_description = [],
        row_permissions = CJson (JDict [(''vms.view'', False), (''vms.start'', True)]), row_is_system = True\<rparr>"
  let ?current = "[(''vm:start'', True)]"
  have conv: "convert_permissions_to_new_format [(''vms.view'', False), (''vms.start'', True)] = ?current"
    by (simp add: convert_permissions_to_new_format_def LEGACY_PERMISSION_MAP_def)
  have old: "has_old_format [(''vms.view'', False), (''vms.start'', True)]"
    by (simp add: has_old_format_def)
  have "ensure_existing default_role_user ?row =
      Inr (?row\<lparr>row_permissions := dumps (dict_merge ?current (missing_keys (rd_permissions default_role_user) ?current))\<rparr>)"
    using ensure_existing_dict [of ?row "[(''vms.view'', False), (''vms.start'', True)]" ?current default_role_user]
    by (simp add: stored_dict_def conv old)
  moreover have "map_of (dict_merge ?current (missing_keys (rd_permissions default_role_user) ?current)) ''vm:view'' = Some True"
    by (simp add: missing_keys_def dict_has_def default_role_user_def)
  ultimately show ?thesis by (intro exI conjI) auto
qed

end
