(* ===== verification/Security.thy ===== *)
theory Security
  imports Accounts
begin

text \<open>
  \<^verbatim>\<open>backend/app/services/security_service.py\<close> (\<open>SecurityService\<close>): cached security settings, blocked
  IP addresses, login attempts, sessions with sliding expiry, account locking, roles, password rules.

  \<open>sec_state\<close> is the part of the database the service reads and writes, with the class-level settings
  cache. Every operation takes the instant \<open>now\<close> that \<open>utcnow()\<close> returns during it. A random session
  token is an argument. The tables \<open>blocked_ips\<close> and \<open>active_sessions\<close> have the unique columns
  \<open>ip_address\<close> and \<open>session_token\<close>.
\<close>

section \<open>State\<close>

record blocked_ip =
  b_ip_address :: string
  b_reason :: "string option"
  b_blocked_by :: "string option"
  b_blocked_at :: int
  b_expires_at :: "int option"
  b_is_permanent :: bool
  b_attempts_count :: int

record login_attempt =
  la_username :: "string option"
  la_ip_address :: string
  la_user_agent :: "string option"
  la_success :: bool
  la_failure_reason :: "string option"
  la_attempted_at :: int

record active_session =
  s_id :: int
  s_user_id :: int
  s_session_token :: string
  s_ip_address :: "string option"
  s_user_agent :: "string option"
  s_device_info :: "string option"
  s_expires_at :: int
  s_last_activity :: int
  s_is_active :: bool

record sec_state =
  security_settings :: "(string, string) pydict"
  settings_cache :: "(string, string option) pydict"
  cache_time :: "int option"
  blocked_ips :: "blocked_ip list"
  login_attempts :: "login_attempt list"
  active_sessions :: "active_session list"
  next_session_id :: int
  users :: "user list"
  roles :: "role list"
  next_role_id :: int

definition second :: int where "second = 1000000"
definition minute :: int where "minute = 60 * second"

text \<open>The attribute \<open>seconds\<close> of a \<open>timedelta\<close>: what is left of the difference after whole days.\<close>

definition timedelta_seconds :: "int \<Rightarrow> int" where
  "timedelta_seconds d = (d div second) mod 86400"

definition cache_ttl :: int where "cache_ttl = 60"

section \<open>Settings\<close>

definition get_setting :: "int \<Rightarrow> string \<Rightarrow> string option \<Rightarrow> sec_state \<Rightarrow> string option \<times> sec_state" where
  "get_setting now key dflt st =
     (let cached =
        (case cache_time st of
           None \<Rightarrow> None
         | Some t \<Rightarrow> if timedelta_seconds (now - t) < cache_ttl then map_of (settings_cache st) key else None)
      in case cached of
           Some value \<Rightarrow> (value, st)
         | None \<Rightarrow>
             (let value = (case map_of (security_settings st) key of Some v \<Rightarrow> Some v | None \<Rightarrow> dflt)
              in (value, st\<lparr>settings_cache := AList.update key value (settings_cache st),
                            cache_time := Some now\<rparr>)))"

definition get_setting_int :: "int \<Rightarrow> string \<Rightarrow> int \<Rightarrow> sec_state \<Rightarrow> int \<times> sec_state" where
  "get_setting_int now key dflt st =
     (let (value, st') = get_setting now key (Some (dec_int dflt)) st
      in (case value of
            None \<Rightarrow> dflt
          | Some v \<Rightarrow> (case py_int v of Some n \<Rightarrow> n | None \<Rightarrow> dflt), st'))"

definition get_setting_bool :: "int \<Rightarrow> string \<Rightarrow> bool \<Rightarrow> sec_state \<Rightarrow> bool \<times> sec_state" where
  "get_setting_bool now key dflt st =
     (let (value, st') = get_setting now key (Some (if dflt then ''true'' else ''false'')) st
      in (case value of
            None \<Rightarrow> dflt
          | Some v \<Rightarrow> lower v \<in> {''true'', ''1'', ''yes'', ''on''}, st'))"

definition update_setting :: "string \<Rightarrow> string \<Rightarrow> sec_state \<Rightarrow> sec_state" where
  "update_setting key value st =
     st\<lparr>security_settings := AList.update key value (security_settings st),
        settings_cache := AList.delete key (settings_cache st)\<rparr>"

section \<open>IP blocking\<close>

definition row_is_blocked :: "int \<Rightarrow> blocked_ip \<Rightarrow> bool" where
  "row_is_blocked now b =
     (if b_is_permanent b then True
      else (case b_expires_at b of None \<Rightarrow> False | Some t \<Rightarrow> now < t))"

definition is_ip_blocked :: "int \<Rightarrow> string \<Rightarrow> sec_state \<Rightarrow> (bool \<times> string option) \<times> sec_state" where
  "is_ip_blocked now ip st =
     (case find (\<lambda>b. b_ip_address b = ip) (blocked_ips st) of
        None \<Rightarrow> ((False, None), st)
      | Some b \<Rightarrow>
          (if b_is_permanent b then ((True, b_reason b), st)
           else if (case b_expires_at b of None \<Rightarrow> False | Some t \<Rightarrow> now < t) then ((True, b_reason b), st)
           else ((False, None), st\<lparr>blocked_ips := remove_first (\<lambda>b. b_ip_address b = ip) (blocked_ips st)\<rparr>)))"

definition block_ip :: "int \<Rightarrow> string \<Rightarrow> string option \<Rightarrow> string \<Rightarrow> int \<Rightarrow> bool \<Rightarrow> sec_state \<Rightarrow> sec_state" where
  "block_ip now ip reason blocked_by duration_minutes permanent st =
     (if find (\<lambda>b. b_ip_address b = ip) (blocked_ips st) \<noteq> None
      then st\<lparr>blocked_ips :=
             update_first (\<lambda>b. b_ip_address b = ip)
               (\<lambda>b. b\<lparr>b_reason := reason, b_blocked_by := Some blocked_by, b_blocked_at := now,
                       b_attempts_count := b_attempts_count b + 1, b_is_permanent := permanent,
                       b_expires_at := (if \<not> permanent then Some (now + duration_minutes * minute)
                                        else b_expires_at b)\<rparr>)
               (blocked_ips st)\<rparr>
      else st\<lparr>blocked_ips := blocked_ips st @
             [\<lparr>b_ip_address = ip, b_reason = reason, b_blocked_by = Some blocked_by, b_blocked_at = now,
               b_expires_at = (if permanent then None else Some (now + duration_minutes * minute)),
               b_is_permanent = permanent, b_attempts_count = 1\<rparr>]\<rparr>)"

definition unblock_ip :: "string \<Rightarrow> sec_state \<Rightarrow> bool \<times> sec_state" where
  "unblock_ip ip st =
     (if find (\<lambda>b. b_ip_address b = ip) (blocked_ips st) \<noteq> None
      then (True, st\<lparr>blocked_ips := remove_first (\<lambda>b. b_ip_address b = ip) (blocked_ips st)\<rparr>)
      else (False, st))"

section \<open>Login attempts\<close>

text \<open>\<open>s[:500] if s else None\<close>.\<close>

definition clip500 :: "string option \<Rightarrow> string option" where
  "clip500 s = (if truthy_str s then map_option (take 500) s else None)"

definition record_login_attempt ::
    "int \<Rightarrow> string \<Rightarrow> string option \<Rightarrow> bool \<Rightarrow> string option \<Rightarrow> string option \<Rightarrow> sec_state \<Rightarrow> sec_state" where
  "record_login_attempt now ip uname success failure_reason user_agent st =
     st\<lparr>login_attempts := login_attempts st @
         [\<lparr>la_username = uname, la_ip_address = ip, la_user_agent = clip500 user_agent,
           la_success = success, la_failure_reason = failure_reason, la_attempted_at = now\<rparr>]\<rparr>"

definition failed_since :: "string \<Rightarrow> int \<Rightarrow> login_attempt \<Rightarrow> bool" where
  "failed_since ip since a = (la_ip_address a = ip \<and> \<not> la_success a \<and> since < la_attempted_at a)"

definition check_brute_force :: "int \<Rightarrow> string \<Rightarrow> sec_state \<Rightarrow> (bool \<times> string option) \<times> sec_state" where
  "check_brute_force now ip st =
     (let (threshold, st') = get_setting_int now ''ip_block_threshold'' 10 st;
          since = now - 30 * minute;
          failed_count = length (filter (failed_since ip since) (login_attempts st'))
      in (if threshold \<le> int failed_count
          then (True, Some (''Too many failed login attempts ('' @ dec_string failed_count @ '')''))
          else (False, None), st'))"

section \<open>Sessions\<close>

definition parse_device_info :: "string \<Rightarrow> string" where
  "parse_device_info user_agent =
     (if user_agent = [] then ''Unknown''
      else let ua = lower user_agent;
        browser = (if substring_of ''firefox'' ua then ''Firefox''
                   else if substring_of ''edg'' ua then ''Edge''
                   else if substring_of ''chrome'' ua then ''Chrome''
                   else if substring_of ''safari'' ua then ''Safari''
                   else if substring_of ''opera'' ua then ''Opera''
                   else ''Unknown'');
        os = (if substring_of ''windows'' ua then ''Windows''
              else if substring_of ''mac os'' ua \<or> substring_of ''macos'' ua then ''macOS''
              else if substring_of ''linux'' ua then ''Linux''
              else if substring_of ''android'' ua then ''Android''
              else if substring_of ''iphone'' ua \<or> substring_of ''ipad'' ua then ''iOS''
              else ''Unknown'')
      in browser @ '' on '' @ os)"

definition create_session ::
    "int \<Rightarrow> string \<Rightarrow> user \<Rightarrow> string option \<Rightarrow> string option \<Rightarrow> sec_state \<Rightarrow> (active_session \<times> bool) \<times> sec_state" where
  "create_session now token u ip user_agent st =
     (let (session_timeout, st') = get_setting_int now ''session_timeout_minutes'' 60 st;
          terminated_other = False;
          session = \<lparr>s_id = next_session_id st', s_user_id = user_id u, s_session_token = token,
            s_ip_address = ip, s_user_agent = clip500 user_agent,
            s_device_info = (case user_agent of None \<Rightarrow> None
                             | Some ua \<Rightarrow> if ua = [] then None else Some (parse_device_info ua)),
            s_expires_at = now + session_timeout * minute, s_last_activity = now, s_is_active = True\<rparr>
      in ((session, terminated_other),
          st'\<lparr>active_sessions := active_sessions st' @ [session], next_session_id := next_session_id st' + 1\<rparr>))"

definition live :: "string \<Rightarrow> active_session \<Rightarrow> bool" where
  "live token s = (s_session_token s = token \<and> s_is_active s)"

definition validate_session :: "int \<Rightarrow> string \<Rightarrow> sec_state \<Rightarrow> active_session option \<times> sec_state" where
  "validate_session now token st =
     (case find (live token) (active_sessions st) of
        None \<Rightarrow> (None, st)
      | Some s \<Rightarrow>
          (if s_expires_at s < now
           then (None, st\<lparr>active_sessions :=
                   update_first (live token) (\<lambda>s. s\<lparr>s_is_active := False\<rparr>) (active_sessions st)\<rparr>)
           else let (session_timeout, st') = get_setting_int now ''session_timeout_minutes'' 60 st;
                    extend = (\<lambda>s. s\<lparr>s_last_activity := now, s_expires_at := now + session_timeout * minute\<rparr>)
             in (Some (extend s),
                 st'\<lparr>active_sessions := update_first (live token) extend (active_sessions st')\<rparr>)))"

definition terminate_session :: "string \<Rightarrow> sec_state \<Rightarrow> bool \<times> sec_state" where
  "terminate_session token st =
     (if find (\<lambda>s. s_session_token s = token) (active_sessions st) \<noteq> None
      then (True, st\<lparr>active_sessions :=
              update_first (\<lambda>s. s_session_token s = token) (\<lambda>s. s\<lparr>s_is_active := False\<rparr>) (active_sessions st)\<rparr>)
      else (False, st))"

definition terminate_all_user_sessions :: "int \<Rightarrow> sec_state \<Rightarrow> nat \<times> sec_state" where
  "terminate_all_user_sessions uid st =
     (length (filter (\<lambda>s. s_user_id s = uid \<and> s_is_active s) (active_sessions st)),
      st\<lparr>active_sessions := map (\<lambda>s. if s_user_id s = uid \<and> s_is_active s then s\<lparr>s_is_active := False\<rparr> else s)
           (active_sessions st)\<rparr>)"

definition get_user_sessions :: "int \<Rightarrow> sec_state \<Rightarrow> active_session list" where
  "get_user_sessions uid st = filter (\<lambda>s. s_user_id s = uid \<and> s_is_active s) (active_sessions st)"

definition cleanup_expired_sessions :: "int \<Rightarrow> sec_state \<Rightarrow> nat \<times> sec_state" where
  "cleanup_expired_sessions now st =
     (length (filter (\<lambda>s. s_expires_at s < now \<or> \<not> s_is_active s) (active_sessions st)),
      st\<lparr>active_sessions := filter (\<lambda>s. \<not> (s_expires_at s < now \<or> \<not> s_is_active s)) (active_sessions st)\<rparr>)"

section \<open>Account locking\<close>

definition store_user :: "user \<Rightarrow> sec_state \<Rightarrow> sec_state" where
  "store_user u st = st\<lparr>users := update_first (\<lambda>x. user_id x = user_id u) (\<lambda>_. u) (users st)\<rparr>"

text \<open>The object \<open>user\<close> is changed in place: the result carries it, and the row it stands for is stored.\<close>

definition increment_failed_attempts :: "int \<Rightarrow> user \<Rightarrow> sec_state \<Rightarrow> (bool \<times> user) \<times> sec_state" where
  "increment_failed_attempts now u st =
     (let (max_attempts, st1) = get_setting_int now ''max_login_attempts'' 5 st;
          (lockout_minutes, st2) = get_setting_int now ''lockout_duration_minutes'' 30 st1;
          u1 = u\<lparr>failed_login_attempts := failed_login_attempts u + 1\<rparr>
      in if max_attempts \<le> failed_login_attempts u1
         then let u2 = u1\<lparr>locked_until := Some (now + lockout_minutes * minute)\<rparr>
              in ((True, u2), store_user u2 st2)
         else ((False, u1), store_user u1 st2))"

definition reset_failed_attempts :: "user \<Rightarrow> sec_state \<Rightarrow> user \<times> sec_state" where
  "reset_failed_attempts u st =
     (let u1 = u\<lparr>failed_login_attempts := 0, locked_until := None\<rparr> in (u1, store_user u1 st))"

definition is_account_locked :: "int \<Rightarrow> user \<Rightarrow> bool \<times> int option" where
  "is_account_locked now u =
     (case locked_until u of
        None \<Rightarrow> (False, None)
      | Some t \<Rightarrow> if now < t then (True, Some t) else (False, None))"

section \<open>Roles\<close>

definition get_role :: "string \<Rightarrow> sec_state \<Rightarrow> role option" where
  "get_role name st = find (\<lambda>r. role_name r = name) (roles st)"

definition create_role ::
    "string \<Rightarrow> string \<Rightarrow> string option \<Rightarrow> (string, bool) pydict option \<Rightarrow> sec_state \<Rightarrow> role \<times> sec_state" where
  "create_role name dname descr perms st =
     (let r = \<lparr>role_id = next_role_id st, role_name = lower name, role_display_name = dname,
               role_description = descr, role_permissions = (case perms of None \<Rightarrow> [] | Some d \<Rightarrow> d),
               role_is_system = False, role_is_active = True\<rparr>
      in (r, st\<lparr>roles := roles st @ [r], next_role_id := next_role_id st + 1\<rparr>))"

definition update_role ::
    "int \<Rightarrow> string option \<Rightarrow> string option \<Rightarrow> (string, bool) pydict option \<Rightarrow> sec_state \<Rightarrow> role option \<times> sec_state" where
  "update_role rid dname descr perms st =
     (case find (\<lambda>r. role_id r = rid) (roles st) of
        None \<Rightarrow> (None, st)
      | Some r \<Rightarrow>
          (let r1 = (if truthy_str dname then (case dname of Some n \<Rightarrow> r\<lparr>role_display_name := n\<rparr> | None \<Rightarrow> r) else r);
               r2 = (if descr \<noteq> None then r1\<lparr>role_description := descr\<rparr> else r1);
               r3 = (case perms of Some d \<Rightarrow> r2\<lparr>role_permissions := d\<rparr> | None \<Rightarrow> r2)
           in (Some r3, st\<lparr>roles := update_first (\<lambda>r. role_id r = rid) (\<lambda>_. r3) (roles st)\<rparr>)))"

definition delete_role :: "int \<Rightarrow> sec_state \<Rightarrow> (bool \<times> string) \<times> sec_state" where
  "delete_role rid st =
     (case find (\<lambda>r. role_id r = rid) (roles st) of
        None \<Rightarrow> ((False, ''Role not found''), st)
      | Some r \<Rightarrow>
          (if role_is_system r then ((False, ''Cannot delete system role''), st)
           else let user_count = length (filter (\<lambda>u. user_role_id u = Some rid) (users st))
             in if 0 < user_count
                then ((False, ''Cannot delete role with '' @ dec_string user_count @ '' assigned users''), st)
                else ((True, ''Role deleted''),
                      st\<lparr>roles := remove_first (\<lambda>r. role_id r = rid) (roles st)\<rparr>)))"

section \<open>Password rules\<close>

definition special_characters :: string where
  "special_characters = ''!@#$%^&*()_+-=[]{}|;:,.<>?''"

text \<open>The errors are the message keys passed to the translator \<open>t\<close>.\<close>

definition validate_password :: "int \<Rightarrow> string \<Rightarrow> sec_state \<Rightarrow> (bool \<times> string list) \<times> sec_state" where
  "validate_password now password st =
     (let (min_length, st1) = get_setting_int now ''password_min_length'' 8 st;
          (require_upper, st2) = get_setting_bool now ''password_require_uppercase'' True st1;
          (require_lower, st3) = get_setting_bool now ''password_require_lowercase'' True st2;
          (require_numbers, st4) = get_setting_bool now ''password_require_numbers'' True st3;
          (require_special, st5) = get_setting_bool now ''password_require_special'' False st4;
          errors =
            (if int (length password) < min_length then [''password_error_min_length''] else []) @
            (if require_upper \<and> \<not> list_ex is_upper password then [''password_error_uppercase''] else []) @
            (if require_lower \<and> \<not> list_ex is_lower password then [''password_error_lowercase''] else []) @
            (if require_numbers \<and> \<not> list_ex is_digit password then [''password_error_number''] else []) @
            (if require_special \<and> \<not> list_ex (\<lambda>c. c \<in> set special_characters) password
             then [''password_error_special''] else [])
      in ((errors = [], errors), st5))"


section \<open>Reading a setting\<close>

text \<open>
  Reading a setting changes the cache and nothing else; \<open>get_int\<close> and \<open>get_bool\<close> go through
  \<open>get_setting\<close>.
\<close>

lemma get_setting_state:
  "snd (get_setting now k d st) =
     st\<lparr>settings_cache := settings_cache (snd (get_setting now k d st)),
        cache_time := cache_time (snd (get_setting now k d st))\<rparr>"
  by (auto simp: get_setting_def Let_def split: option.splits)

lemma get_setting_frame [simp]:
  "security_settings (snd (get_setting now k d st)) = security_settings st"
  "blocked_ips (snd (get_setting now k d st)) = blocked_ips st"
  "login_attempts (snd (get_setting now k d st)) = login_attempts st"
  "active_sessions (snd (get_setting now k d st)) = active_sessions st"
  "next_session_id (snd (get_setting now k d st)) = next_session_id st"
  "users (snd (get_setting now k d st)) = users st"
  "roles (snd (get_setting now k d st)) = roles st"
  "next_role_id (snd (get_setting now k d st)) = next_role_id st"
  by (subst get_setting_state, simp)+

lemma get_setting_int_eq:
  "get_setting_int now k d st =
     (case fst (get_setting now k (Some (dec_int d)) st) of
        None \<Rightarrow> d
      | Some v \<Rightarrow> (case py_int v of Some n \<Rightarrow> n | None \<Rightarrow> d),
      snd (get_setting now k (Some (dec_int d)) st))"
  by (simp add: get_setting_int_def case_prod_beta)

lemma get_setting_bool_eq:
  "get_setting_bool now k d st =
     (case fst (get_setting now k (Some (if d then ''true'' else ''false'')) st) of
        None \<Rightarrow> d
      | Some v \<Rightarrow> lower v \<in> {''true'', ''1'', ''yes'', ''on''},
      snd (get_setting now k (Some (if d then ''true'' else ''false'')) st))"
  by (simp add: get_setting_bool_def case_prod_beta)

lemma get_setting_int_frame [simp]:
  "security_settings (snd (get_setting_int now k i st)) = security_settings st"
  "blocked_ips (snd (get_setting_int now k i st)) = blocked_ips st"
  "login_attempts (snd (get_setting_int now k i st)) = login_attempts st"
  "active_sessions (snd (get_setting_int now k i st)) = active_sessions st"
  "next_session_id (snd (get_setting_int now k i st)) = next_session_id st"
  "users (snd (get_setting_int now k i st)) = users st"
  "roles (snd (get_setting_int now k i st)) = roles st"
  "next_role_id (snd (get_setting_int now k i st)) = next_role_id st"
  by (simp_all add: get_setting_int_eq)

text \<open>
  A cache is coherent when every cached value of a stored setting is the stored value. The empty
  cache is coherent, and reads and updates keep it so.
\<close>

definition cache_coherent :: "sec_state \<Rightarrow> bool" where
  "cache_coherent st \<longleftrightarrow>
     (\<forall>k c v. map_of (settings_cache st) k = Some c \<longrightarrow> map_of (security_settings st) k = Some v \<longrightarrow> c = Some v)"

definition setting_op :: "(int \<times> string \<times> string option) + (string \<times> string) \<Rightarrow> sec_state \<Rightarrow> sec_state" where
  "setting_op ev st =
     (case ev of Inl (now, k, d) \<Rightarrow> snd (get_setting now k d st) | Inr (k, v) \<Rightarrow> update_setting k v st)"

lemma cache_coherent_update: "cache_coherent st \<Longrightarrow> cache_coherent (update_setting k v st)"
  by (auto simp: cache_coherent_def update_setting_def update_conv' delete_conv' split: if_splits)

lemma cache_coherent_get: "cache_coherent st \<Longrightarrow> cache_coherent (snd (get_setting now k d st))"
  by (auto simp: cache_coherent_def get_setting_def Let_def update_conv' split: option.splits if_splits)

lemma cache_coherent_run: "cache_coherent st \<Longrightarrow> cache_coherent (fold setting_op evs st)"
  by (induction evs arbitrary: st)
     (auto simp: setting_op_def cache_coherent_update cache_coherent_get split: sum.splits prod.splits)

lemma coherent_get:
  "cache_coherent st \<Longrightarrow> map_of (security_settings st) k = Some v \<Longrightarrow> fst (get_setting now k d st) = Some v"
  by (auto simp: cache_coherent_def get_setting_def Let_def split: option.splits if_splits)

lemma settings_after_reads:
  "list_all isl evs \<Longrightarrow> security_settings (fold setting_op evs st) = security_settings st"
  by (induction evs arbitrary: st) (auto simp: setting_op_def isl_def)

definition other_setting :: "string \<Rightarrow> (int \<times> string \<times> string option) + (string \<times> string) \<Rightarrow> bool" where
  "other_setting k ev = (case ev of Inl _ \<Rightarrow> True | Inr (j, _) \<Rightarrow> j \<noteq> k)"

lemma settings_after_others:
  "list_all (other_setting k) evs \<Longrightarrow>
   map_of (security_settings (fold setting_op evs st)) k = map_of (security_settings st) k"
  by (induction evs arbitrary: st)
     (auto simp: setting_op_def other_setting_def update_setting_def update_conv' split: sum.splits prod.splits)

text \<open>Settings service: from an empty cache, after any sequence of reads and updates, a write of \<open>k\<close>
  and then any sequence of reads and of writes of other keys, a read of \<open>k\<close> returns the written value,
  at whatever instants the reads happen and whatever defaults they pass. The time-to-live of the cache
  can never make a process miss its own writes.\<close>

theorem setting_reads_last_write:
  assumes "settings_cache st = []"
    and "list_all (other_setting k) later"
  shows "fst (get_setting now k d (fold setting_op later (update_setting k v (fold setting_op earlier st)))) = Some v"
proof -
  let ?st = "update_setting k v (fold setting_op earlier st)"
  have "cache_coherent st" using assms(1) by (simp add: cache_coherent_def)
  then have "cache_coherent (fold setting_op later ?st)"
    by (intro cache_coherent_run cache_coherent_update)
  moreover have "map_of (security_settings (fold setting_op later ?st)) k = Some v"
    by (simp add: settings_after_others [OF assms(2)] update_setting_def update_conv')
  ultimately show ?thesis by (rule coherent_get)
qed

section \<open>Blocked addresses\<close>

lemma blocked_ips_unique:
  assumes "unique_on b_ip_address (blocked_ips st)"
  shows "unique_on b_ip_address (blocked_ips (block_ip now ip r by mins perm st))"
    and "unique_on b_ip_address (blocked_ips (snd (unblock_ip ip st)))"
    and "unique_on b_ip_address (blocked_ips (snd (is_ip_blocked now ip st)))"
  using assms by (auto simp: block_ip_def unblock_ip_def is_ip_blocked_def row_simps split: option.splits)

lemma is_ip_blocked_row:
  "fst (is_ip_blocked now ip st) =
     (case find (\<lambda>b. b_ip_address b = ip) (blocked_ips st) of
        None \<Rightarrow> (False, None)
      | Some b \<Rightarrow> if row_is_blocked now b then (True, b_reason b) else (False, None))"
  by (auto simp: is_ip_blocked_def row_is_blocked_def split: option.splits)

text \<open>Blocking an address: afterwards the address is blocked, with the given reason, for ever when the
  block is permanent and until \<open>now + duration\<close> otherwise, also when an older block of it, permanent
  or not, was stored; the answer for every other address is what it was.\<close>

theorem block_ip_blocks:
  "fst (is_ip_blocked t ip' (block_ip now ip reason by mins permanent st)) =
     (if ip' = ip
      then (if permanent \<or> t < now + mins * minute then (True, reason) else (False, None))
      else fst (is_ip_blocked t ip' st))"
  unfolding is_ip_blocked_row
  by (auto simp: block_ip_def row_is_blocked_def find_update_keyed row_simps split: option.splits)

lemma unblock_ip_unblocks:
  assumes "unique_on b_ip_address (blocked_ips st)"
  shows "fst (is_ip_blocked t ip' (snd (unblock_ip ip st))) =
     (if ip' = ip then (False, None) else fst (is_ip_blocked t ip' st))"
  unfolding is_ip_blocked_row using assms
  by (auto simp: unblock_ip_def row_simps split: option.splits)

lemma check_brute_force_verdict:
  "fst (fst (check_brute_force now ip st)) \<longleftrightarrow>
     fst (get_setting_int now ''ip_block_threshold'' 10 st)
       \<le> int (length (filter (failed_since ip (now - 30 * minute)) (login_attempts st)))"
  by (simp add: check_brute_force_def case_prod_beta Let_def)

section \<open>Sessions\<close>

lemma active_sessions_unique:
  assumes "unique_on s_session_token (active_sessions st)"
  shows "unique_on s_session_token (active_sessions (snd (validate_session now token st)))"
    and "unique_on s_session_token (active_sessions (snd (terminate_session token st)))"
    and "unique_on s_session_token (active_sessions (snd (terminate_all_user_sessions uid st)))"
    and "unique_on s_session_token (active_sessions (snd (cleanup_expired_sessions now st)))"
  using assms
  by (auto simp: validate_session_def terminate_session_def terminate_all_user_sessions_def
      cleanup_expired_sessions_def case_prod_beta Let_def row_simps split: option.splits)
     (auto simp: unique_on_def o_def if_distrib cong: if_cong)

lemma find_live:
  assumes "unique_on s_session_token ss" and "s \<in> set ss" and "s_is_active s"
  shows "find (live (s_session_token s)) ss = Some s"
  using assms by (induction ss) (auto simp: unique_on_def live_def rev_image_eqI)

lemma find_live_update:
  assumes "\<And>s. s_session_token (f s) = s_session_token s" and "\<And>s. s_is_active (f s) = s_is_active s"
  shows "find (live t) (update_first (live t) f ss) = map_option f (find (live t) ss)"
  using assms by (induction ss) (auto simp: live_def)

text \<open>Validation: with unique tokens, a session is returned exactly for a token whose row is active
  and has not expired; the returned row is that row with \<open>last_activity\<close> set to the instant of the call
  and the expiry moved to the configured timeout after it, and it is the row now stored.\<close>

theorem validate_session_iff:
  assumes "unique_on s_session_token (active_sessions st)"
  shows "fst (validate_session now token st) = Some s' \<longleftrightarrow>
    (\<exists>s \<in> set (active_sessions st). s_session_token s = token \<and> s_is_active s \<and> now \<le> s_expires_at s \<and>
       s' = s\<lparr>s_last_activity := now,
              s_expires_at := now + fst (get_setting_int now ''session_timeout_minutes'' 60 st) * minute\<rparr> \<and>
       find (live token) (active_sessions (snd (validate_session now token st))) = Some s')"
    (is "?lhs \<longleftrightarrow> (\<exists>s \<in> _. ?ok s)")
proof
  assume ?lhs
  then obtain s where s: "find (live token) (active_sessions st) = Some s" "now \<le> s_expires_at s"
    by (auto simp: validate_session_def split: option.splits if_splits)
  then have "s \<in> set (active_sessions st) \<and> live token s" by (auto dest: find_SomeD)
  moreover have "?ok s" using s \<open>?lhs\<close> calculation
    by (auto simp: validate_session_def case_prod_beta Let_def live_def find_live_update)
  ultimately show "\<exists>s \<in> set (active_sessions st). ?ok s" by blast
next
  assume "\<exists>s \<in> set (active_sessions st). ?ok s"
  then obtain s where s: "s \<in> set (active_sessions st)" and ok: "?ok s" by blast
  then have "find (live token) (active_sessions st) = Some s" using find_live [OF assms s] by simp
  with ok show ?lhs by (simp add: validate_session_def case_prod_beta Let_def)
qed

text \<open>The steps of the session store other than the issue of the token \<open>t\<close> itself.\<close>

inductive session_step :: "string \<Rightarrow> sec_state \<Rightarrow> sec_state \<Rightarrow> bool" for t where
  create: "token \<noteq> t \<Longrightarrow> session_step t st (snd (create_session now token u ip ua st))"
| validate: "session_step t st (snd (validate_session now token st))"
| terminate: "session_step t st (snd (terminate_session token st))"
| terminate_all: "session_step t st (snd (terminate_all_user_sessions uid st))"
| cleanup: "session_step t st (snd (cleanup_expired_sessions now st))"
| setting: "session_step t st (setting_op ev st)"
| failed_login: "session_step t st (snd (increment_failed_attempts now u st))"
| reset: "session_step t st (snd (reset_failed_attempts u st))"
| block: "session_step t st (block_ip now ip r by mins perm st)"
| unblock: "session_step t st (snd (unblock_ip ip st))"
| record_attempt: "session_step t st (record_login_attempt now ip un ok r ua st)"

definition session_dead :: "string \<Rightarrow> sec_state \<Rightarrow> bool" where
  "session_dead t st = list_all (\<lambda>s. s_session_token s = t \<longrightarrow> \<not> s_is_active s) (active_sessions st)"

lemma setting_op_frame [simp]: "active_sessions (setting_op ev st) = active_sessions st"
  by (auto simp: setting_op_def update_setting_def split: sum.splits prod.splits)

lemma account_frame [simp]:
  "active_sessions (snd (increment_failed_attempts now u st)) = active_sessions st"
  "active_sessions (snd (reset_failed_attempts u st)) = active_sessions st"
  "active_sessions (block_ip now ip r by mins perm st) = active_sessions st"
  "active_sessions (snd (unblock_ip ip st)) = active_sessions st"
  "active_sessions (record_login_attempt now ip un ok r ua st) = active_sessions st"
  by (auto simp: increment_failed_attempts_def reset_failed_attempts_def store_user_def block_ip_def
      unblock_ip_def record_login_attempt_def case_prod_beta Let_def)

lemma session_dead_step:
  assumes "session_step t st st'" and "session_dead t st"
  shows "session_dead t st'"
  using assms
proof cases
  case (create token now u ip ua)
  with assms(2) show ?thesis
    by (auto simp: session_dead_def create_session_def case_prod_beta Let_def)
next
  case (validate now token)
  with assms(2) show ?thesis
    by (auto simp: session_dead_def validate_session_def case_prod_beta Let_def list_all_iff
        split: option.splits dest!: in_set_update_first)
next
  case (terminate token)
  with assms(2) show ?thesis
    by (auto simp: session_dead_def terminate_session_def list_all_iff dest!: in_set_update_first)
qed (use assms(2) in \<open>auto simp: session_dead_def terminate_all_user_sessions_def cleanup_expired_sessions_def
      list_all_iff\<close>)

interpretation ended: guarded_machine "session_step t" "session_dead t" for t
  by unfold_locales (rule session_dead_step)

lemma dead_not_validated: "session_dead t st \<Longrightarrow> fst (validate_session now t st) = None"
  by (auto simp: session_dead_def validate_session_def live_def list_all_iff
      split: option.splits dest!: find_SomeD)

lemma update_first_dead:
  "unique_on s_session_token ss \<Longrightarrow>
   list_all (\<lambda>s. s_session_token s = t \<longrightarrow> \<not> s_is_active s)
     (update_first (\<lambda>s. s_session_token s = t) (\<lambda>s. s\<lparr>s_is_active := False\<rparr>) ss)"
proof (induction ss)
  case (Cons s ss)
  then have "s_session_token s \<notin> s_session_token ` set ss" and "unique_on s_session_token ss"
    by (simp_all add: unique_on_def)
  with Cons.IH show ?case by (auto simp: list_all_iff image_iff)
qed simp

lemma terminate_session_dead:
  assumes "unique_on s_session_token (active_sessions st)"
  shows "session_dead t (snd (terminate_session t st))"
proof (cases "find (\<lambda>s. s_session_token s = t) (active_sessions st) = None")
  case True
  then have "snd (terminate_session t st) = st" by (simp add: terminate_session_def)
  moreover have "session_dead t st"
    using True by (simp add: find_None_iff session_dead_def list_all_iff)
  ultimately show ?thesis by simp
next
  case False
  then have "active_sessions (snd (terminate_session t st)) =
      update_first (\<lambda>s. s_session_token s = t) (\<lambda>s. s\<lparr>s_is_active := False\<rparr>) (active_sessions st)"
    by (simp add: terminate_session_def)
  then show ?thesis
    using update_first_dead [OF assms] by (simp add: session_dead_def)
qed

lemma terminate_all_dead:
  assumes "s \<in> set (active_sessions st)" and "unique_on s_session_token (active_sessions st)"
  shows "session_dead (s_session_token s) (snd (terminate_all_user_sessions (s_user_id s) st))"
proof -
  have same: "x = s" if "x \<in> set (active_sessions st)" "s_session_token x = s_session_token s" for x
    using assms that by (metis unique_find option.inject)
  have "\<not> s_is_active x"
    if "x \<in> set (active_sessions (snd (terminate_all_user_sessions (s_user_id s) st)))"
      and "s_session_token x = s_session_token s" for x
  proof -
    let ?f = "\<lambda>y. if s_user_id y = s_user_id s \<and> s_is_active y then y\<lparr>s_is_active := False\<rparr> else y"
    have "x \<in> ?f ` set (active_sessions st)"
      using that(1) by (simp add: terminate_all_user_sessions_def del: if_split)
    then obtain y where y: "x = ?f y" "y \<in> set (active_sessions st)" by (rule imageE)
    from that(2) y(1) have "s_session_token y = s_session_token s" by (simp split: if_splits)
    then have "y = s" by (rule same [OF y(2)])
    with y show ?thesis by simp
  qed
  then show ?thesis by (simp add: session_dead_def list_all_iff)
qed

text \<open>Logging out: once \<open>terminate_session\<close> has run for a token, no run of the service that does not
  issue the same token again, whatever it creates, validates, ends, cleans up, configures or records,
  reaches a state in which the token validates.\<close>

theorem terminated_session_stays_ended:
  assumes "unique_on s_session_token (active_sessions st)"
    and "(session_step t)\<^sup>*\<^sup>* (snd (terminate_session t st)) st'"
  shows "fst (validate_session now t st') = None"
proof (rule dead_not_validated)
  show "session_dead t st'"
    using assms(2) terminate_session_dead [OF assms(1)] by (rule ended.steps_inv)
qed

lemma deactivated_rows:
  "filter (\<lambda>s. s_user_id s = uid' \<and> s_is_active s)
     (map (\<lambda>s. if s_user_id s = uid \<and> s_is_active s then s\<lparr>s_is_active := False\<rparr> else s) ss) =
   (if uid' = uid then [] else filter (\<lambda>s. s_user_id s = uid' \<and> s_is_active s) ss)"
proof (cases "uid' = uid")
  case True
  then show ?thesis by (induction ss) simp_all
next
  case False
  then show ?thesis by (induction ss) simp_all
qed

text \<open>Ending all sessions of a user: the returned number is the number of his active sessions, none
  of them is left active, and the active sessions of every other user are what they were.\<close>

theorem terminate_all_user_sessions_spec:
  "fst (terminate_all_user_sessions uid st) = length (get_user_sessions uid st) \<and>
   get_user_sessions uid' (snd (terminate_all_user_sessions uid st)) =
     (if uid' = uid then [] else get_user_sessions uid' st)"
  by (simp add: get_user_sessions_def terminate_all_user_sessions_def deactivated_rows)

text \<open>Creating a session ends no other, whatever the setting \<open>single_session_enabled\<close> says.\<close>

lemma create_session_keeps_others:
  "\<exists>s. active_sessions (snd (create_session now token u ip ua st)) = active_sessions st @ [s] \<and>
       fst (create_session now token u ip ua st) = (s, False)"
  by (simp add: create_session_def case_prod_beta Let_def)

section \<open>Account locking\<close>

lemma find_store_user:
  assumes "unique_on user_id (users st)" and "u \<in> set (users st)"
    and "user_id v = user_id u" and "users st' = users st"
  shows "find (\<lambda>x. user_id x = j) (users (store_user v st')) =
     (if j = user_id u then Some v else find (\<lambda>x. user_id x = j) (users st))"
proof (cases "j = user_id u")
  case True
  have "find (\<lambda>x. user_id x = j) (update_first (\<lambda>x. user_id x = j) (\<lambda>_. v) (users st)) =
      map_option (\<lambda>_. v) (find (\<lambda>x. user_id x = j) (users st))"
    using True assms(3) by (intro find_update_first_same) simp
  then show ?thesis using True assms unique_find [OF assms(1,2)] by (simp add: store_user_def)
next
  case False
  have "find (\<lambda>x. user_id x = j) (update_first (\<lambda>x. user_id x = user_id u) (\<lambda>_. v) (users st)) =
      find (\<lambda>x. user_id x = j) (users st)"
    using False assms(3) by (intro find_update_first_other) simp
  then show ?thesis using False assms by (simp add: store_user_def)
qed

text \<open>C34. Lockout: a failed login stores the user with one more failed attempt; the account is reported
  locked exactly when the count reaches \<open>max_login_attempts\<close>, and the stored account then is
  locked at every instant before \<open>now + lockout_duration_minutes\<close> and at none after; a reset clears
  count and lock. Other accounts are untouched.\<close>

theorem failed_login_locks:
  assumes "unique_on user_id (users st)" and "u \<in> set (users st)"
    and "((locked, u'), st') = increment_failed_attempts now u st"
    and "max_attempts = fst (get_setting_int now ''max_login_attempts'' 5 st)"
    and "mins = fst (get_setting_int now ''lockout_duration_minutes'' 30
           (snd (get_setting_int now ''max_login_attempts'' 5 st)))"
  shows "(locked \<longleftrightarrow> max_attempts \<le> failed_login_attempts u + 1) \<and>
     failed_login_attempts u' = failed_login_attempts u + 1 \<and>
     (locked \<longrightarrow> (\<forall>t. fst (is_account_locked t u') \<longleftrightarrow> t < now + mins * minute)) \<and>
     find (\<lambda>x. user_id x = i) (users st') = (if i = user_id u then Some u' else find (\<lambda>x. user_id x = i) (users st)) \<and>
     fst (reset_failed_attempts u' st') = u'\<lparr>failed_login_attempts := 0, locked_until := None\<rparr> \<and>
     \<not> fst (is_account_locked t (fst (reset_failed_attempts u' st')))"
  using assms(3)
  by (auto simp: increment_failed_attempts_def case_prod_beta Let_def assms(4,5)
      find_store_user [OF assms(1,2)] is_account_locked_def reset_failed_attempts_def split: if_splits)

section \<open>Roles\<close>

text \<open>The foreign key \<open>users.role_id\<close> points at stored roles; role ids are unique and below the sequence.\<close>

definition role_refs_ok :: "user list \<Rightarrow> role list \<Rightarrow> bool" where
  "role_refs_ok us rs =
     list_all (\<lambda>u. case user_role_id u of None \<Rightarrow> True | Some i \<Rightarrow> list_ex (\<lambda>r. role_id r = i) rs) us"

definition roles_inv :: "sec_state \<Rightarrow> bool" where
  "roles_inv st =
     (unique_on role_id (roles st) \<and> list_all (\<lambda>r. role_id r < next_role_id st) (roles st) \<and>
      role_refs_ok (users st) (roles st))"

lemma list_ex_role_update:
  "role_id r' = i \<Longrightarrow>
   list_ex (\<lambda>r. role_id r = j) (update_first (\<lambda>r. role_id r = i) (\<lambda>_. r') rs) = list_ex (\<lambda>r. role_id r = j) rs"
  by (induction rs) auto

lemma roles_inv_create:
  "roles_inv st \<Longrightarrow> roles_inv (snd (create_role name dn descr perms st))"
  by (auto simp: roles_inv_def create_role_def Let_def role_refs_ok_def list_all_iff list_ex_iff
      unique_on_append find_None_iff split: option.splits)

lemma update_role_id: "fst (update_role rid dn descr perms st) = Some r \<Longrightarrow> role_id r = rid"
  by (auto simp: update_role_def Let_def split: option.splits if_splits dest!: find_SomeD)

lemma update_role_state:
  "update_role rid dn descr perms st =
     (case fst (update_role rid dn descr perms st) of
        None \<Rightarrow> (None, st)
      | Some r \<Rightarrow> (Some r, st\<lparr>roles := update_first (\<lambda>x. role_id x = rid) (\<lambda>_. r) (roles st)\<rparr>))"
  by (auto simp: update_role_def Let_def split: option.splits)

lemma roles_inv_update:
  assumes "roles_inv st"
  shows "roles_inv (snd (update_role rid dn descr perms st))"
proof (cases "fst (update_role rid dn descr perms st)")
  case None
  then show ?thesis using assms by (subst update_role_state) simp
next
  case (Some r)
  note rid = update_role_id [OF Some]
  have "role_id r < next_role_id st"
    using Some assms rid
    by (auto simp: update_role_def roles_inv_def list_all_iff split: option.splits dest!: find_SomeD)
  moreover have "unique_on role_id (update_first (\<lambda>x. role_id x = rid) (\<lambda>_. r) (roles st))"
    using assms rid by (subst unique_on_update_first) (auto simp: roles_inv_def)
  ultimately show ?thesis using assms rid Some
    by (subst update_role_state)
       (auto simp: roles_inv_def role_refs_ok_def list_ex_role_update list_all_iff
         dest!: in_set_update_first split: option.splits)
qed

lemma list_ex_role_remove:
  "j \<noteq> i \<Longrightarrow> list_ex (\<lambda>r. role_id r = j) (remove_first (\<lambda>r. role_id r = i) rs) = list_ex (\<lambda>r. role_id r = j) rs"
  by (induction rs) auto

lemma roles_inv_delete:
  assumes "roles_inv st"
  shows "roles_inv (snd (delete_role rid st))"
proof -
  have "role_refs_ok (users st) (remove_first (\<lambda>r. role_id r = rid) (roles st))"
    if "filter (\<lambda>u. user_role_id u = Some rid) (users st) = []"
    using that assms
    by (auto simp: roles_inv_def role_refs_ok_def list_all_iff filter_empty_conv list_ex_role_remove
        split: option.splits)
  with assms show ?thesis
    using set_remove_first [of "\<lambda>r. role_id r = rid" "roles st"]
    by (auto simp: delete_role_def roles_inv_def Let_def unique_on_remove_first list_all_iff
        split: option.splits)
qed

text \<open>Role tables: creating, updating and deleting roles keeps the role ids unique and every user's
  role reference pointing at a stored role; a system role is never deleted, nor one that a user has.\<close>

theorem role_operations_keep_references:
  assumes "roles_inv st"
  shows "roles_inv (snd (create_role name dn descr perms st)) \<and>
     roles_inv (snd (update_role rid dn' descr' perms' st)) \<and>
     roles_inv (snd (delete_role rid st)) \<and>
     (\<forall>r \<in> set (roles st). role_is_system r \<or> list_ex (\<lambda>u. user_role_id u = Some (role_id r)) (users st) \<longrightarrow>
        r \<in> set (roles (snd (delete_role rid st))))"
proof (intro conjI ballI impI)
  fix r
  assume r: "r \<in> set (roles st)"
    and kept: "role_is_system r \<or> list_ex (\<lambda>u. user_role_id u = Some (role_id r)) (users st)"
  have found: "find (\<lambda>x. role_id x = role_id r) (roles st) = Some r"
    using assms r by (simp add: roles_inv_def unique_find)
  show "r \<in> set (roles (snd (delete_role rid st)))"
  proof (cases "role_id r = rid")
    case True
    with kept found r show ?thesis
      by (auto simp: delete_role_def Let_def list_ex_iff filter_empty_conv split: option.splits)
  next
    case False
    have "x \<in> set (remove_first (\<lambda>r. role_id r = rid) xs)" if "x \<in> set xs" "role_id x \<noteq> rid" for x xs
      using that by (induction xs) auto
    with False r show ?thesis by (auto simp: delete_role_def Let_def split: option.splits)
  qed
qed (use assms in \<open>simp_all add: roles_inv_create roles_inv_update roles_inv_delete\<close>)

section \<open>Password rules\<close>

text \<open>What the stored policy says of a password, one flag per rule.\<close>

definition policy_errors :: "int \<times> bool \<times> bool \<times> bool \<times> bool \<Rightarrow> string \<Rightarrow> string list" where
  "policy_errors p password =
     (case p of (min_length, up, low, num, special) \<Rightarrow>
        map snd (filter fst
          [(int (length password) < min_length, ''password_error_min_length''),
           (up \<and> \<not> list_ex is_upper password, ''password_error_uppercase''),
           (low \<and> \<not> list_ex is_lower password, ''password_error_lowercase''),
           (num \<and> \<not> list_ex is_digit password, ''password_error_number''),
           (special \<and> \<not> list_ex (\<lambda>c. c \<in> set special_characters) password, ''password_error_special'')]))"

definition bool_value :: "string \<Rightarrow> bool" where
  "bool_value v = (lower v \<in> {''true'', ''1'', ''yes'', ''on''})"

text \<open>Password policy: when the five settings are stored, the verdict is the list of the rules of the
  stored policy the password breaks, in the order of the code, and the password is accepted exactly
  when it breaks none. This holds whatever part of the settings the cache holds, and at every instant.\<close>

theorem validate_password_policy:
  assumes "cache_coherent st"
    and "map_of (security_settings st) ''password_min_length'' = Some v0" and "py_int v0 = Some m"
    and "map_of (security_settings st) ''password_require_uppercase'' = Some v1"
    and "map_of (security_settings st) ''password_require_lowercase'' = Some v2"
    and "map_of (security_settings st) ''password_require_numbers'' = Some v3"
    and "map_of (security_settings st) ''password_require_special'' = Some v4"
    and "errors = policy_errors (m, bool_value v1, bool_value v2, bool_value v3, bool_value v4) password"
  shows "fst (validate_password now password st) = (errors = [], errors)"
  by (simp add: validate_password_def case_prod_beta Let_def get_setting_int_eq get_setting_bool_eq
      coherent_get cache_coherent_get assms(1-7) bool_value_def assms(8) policy_errors_def)

section \<open>Device names\<close>

text \<open>
  The tests for Linux and for Mac OS come before those for Android and for the iPhone, whose browsers
  name the system they derive from.
\<close>

lemma device_names_of_phones:
  "parse_device_info ''Mozilla/5.0 (Linux; Android 14; Pixel 8) AppleWebKit/537.36 Chrome/120.0 Mobile Safari/537.36''
     = ''Chrome on Linux''"
  "parse_device_info ''Mozilla/5.0 (iPhone; CPU iPhone OS 17_0 like Mac OS X) AppleWebKit/605.1 Version/17.0 Safari/604.1''
     = ''Safari on macOS''"
  by code_simp+

lemma opera_reported_as_chrome:
  "substring_of ''chrome'' (lower ua) \<Longrightarrow> take 5 (parse_device_info ua) \<noteq> ''Opera''"
  by (auto simp: parse_device_info_def Let_def)

section \<open>The properties at a concrete state\<close>

definition sample_account :: user where
  "sample_account = \<lparr>user_id = 7, username = ''ann'', email = ''a@x'', hashed_password = ''h'', full_name = None,
     is_active = True, is_admin = False, user_role_id = Some 2, user_role = None,
     language = ''en'',
     failed_login_attempts = 4, locked_until = None, last_password_change = None,
     require_password_change = False,
     two_factor_enabled = False, two_factor_secret = None, two_factor_backup_codes = None,
     last_login = None\<rparr>"

definition sample_session :: "string \<Rightarrow> active_session" where
  "sample_session t = \<lparr>s_id = 1, s_user_id = 7, s_session_token = t, s_ip_address = None,
     s_user_agent = None, s_device_info = None, s_expires_at = 100, s_last_activity = 0, s_is_active = True\<rparr>"

definition sample_sec :: sec_state where
  "sample_sec = \<lparr>
     security_settings = [(''password_min_length'', ''6''), (''password_require_uppercase'', ''true''),
       (''password_require_lowercase'', ''true''), (''password_require_numbers'', ''no''),
       (''password_require_special'', ''on''), (''max_login_attempts'', ''5'')],
     settings_cache = [], cache_time = None, blocked_ips = [], login_attempts = [],
     active_sessions = [sample_session ''t1'', (sample_session ''t2'')\<lparr>s_is_active := False\<rparr>],
     next_session_id = 3, users = [sample_account],
     roles = [\<lparr>role_id = 1, role_name = ''admin'', role_display_name = ''Administrator'',
                role_description = None, role_permissions = [], role_is_system = True, role_is_active = True\<rparr>,
              \<lparr>role_id = 2, role_name = ''ops'', role_display_name = ''Operators'', role_description = None,
                role_permissions = [(''vm:view'', True)], role_is_system = False, role_is_active = True\<rparr>],
     next_role_id = 3\<rparr>"

theorem setting_reads_last_write_witness:
  "fst (get_setting 500 ''k'' None (fold setting_op [Inl (90, ''j'', Some ''1''), Inr (''j'', ''2'')]
     (update_setting ''k'' ''new'' (fold setting_op [Inl (0, ''k'', Some ''old'')] sample_sec)))) = Some ''new''"
  by (rule setting_reads_last_write) (simp_all add: sample_sec_def other_setting_def)

lemma sample_tokens_unique: "unique_on s_session_token (active_sessions sample_sec)"
  by (simp add: unique_on_def sample_sec_def sample_session_def)

theorem validate_session_iff_witness:
  "fst (validate_session 50 ''t1'' sample_sec) =
     Some ((sample_session ''t1'')\<lparr>s_last_activity := 50, s_expires_at := 50 + 60 * minute\<rparr>)"
  unfolding validate_session_iff [OF sample_tokens_unique] by code_simp

theorem terminated_session_stays_ended_witness:
  "fst (validate_session 20 ''t1''
     (snd (validate_session 10 ''t1'' (snd (terminate_session ''t1'' sample_sec))))) = None"
  by (rule terminated_session_stays_ended [OF sample_tokens_unique])
     (rule r_into_rtranclp, rule session_step.validate)

theorem failed_login_locks_witness:
  "\<exists>locked u' st'. ((locked, u'), st') = increment_failed_attempts 0 sample_account sample_sec \<and> locked"
proof -
  obtain locked u' st' where r: "((locked, u'), st') = increment_failed_attempts 0 sample_account sample_sec"
    by (metis prod.exhaust)
  have "fst (get_setting_int 0 ''max_login_attempts'' 5 sample_sec) \<le> failed_login_attempts sample_account + 1"
    by code_simp
  then have "locked"
    using failed_login_locks [OF _ _ r refl refl, of 7 0]
    by (simp add: sample_sec_def unique_on_def)
  with r show ?thesis by blast
qed

lemma sample_roles_inv: "roles_inv sample_sec"
  by code_simp

theorem role_operations_keep_references_witness:
  "roles_inv (snd (delete_role 2 (snd (create_role ''Audit'' ''Auditors'' None None sample_sec)))) \<and>
   length (roles (snd (delete_role 2 sample_sec))) = 2"
proof
  note step = role_operations_keep_references [where dn' = None and descr' = None and perms' = None]
  show "roles_inv (snd (delete_role 2 (snd (create_role ''Audit'' ''Auditors'' None None sample_sec))))"
    using step [OF sample_roles_inv] step by blast
  show "length (roles (snd (delete_role 2 sample_sec))) = 2" by code_simp
qed

theorem validate_password_policy_witness:
  "fst (validate_password 0 ''Secret'' sample_sec) = (False, [''password_error_special''])"
proof -
  have "fst (validate_password 0 ''Secret'' sample_sec) =
      (policy_errors (6, bool_value ''true'', bool_value ''true'', bool_value ''no'', bool_value ''on'') ''Secret'' = [],
       policy_errors (6, bool_value ''true'', bool_value ''true'', bool_value ''no'', bool_value ''on'') ''Secret'')"
    by (rule validate_password_policy [where ?v0.0 = "''6''"])
       (simp_all add: cache_coherent_def sample_sec_def, code_simp)
  then show ?thesis by code_simp
qed

end
