(* ===== verification/PyIp.thy ===== *)
theory PyIp
  imports Pve_Prelude
begin

text \<open>
  The part of Python's \<^verbatim>\<open>ipaddress\<close> module (3.12) the program uses: \<open>ip_address\<close> on strings and on
  integers, \<open>str\<close> of an address, \<open>ip_network\<close> with \<open>strict=False\<close>, membership, \<open>hosts()\<close>,
  \<open>num_addresses\<close>, and the order of addresses. \<open>None\<close> stands for a \<open>ValueError\<close>; an ordering
  comparison of addresses of different versions raises a \<open>TypeError\<close>, here \<open>None\<close> of \<open>ip_lt\<close>.
  The integers of addresses are naturals below \<open>2 ^ 32\<close> and \<open>2 ^ 128\<close>.
\<close>

section \<open>Addresses\<close>

datatype ip_addr = IPv4 nat | IPv6 nat "string option"

fun ip_int :: "ip_addr \<Rightarrow> nat" where
  "ip_int (IPv4 n) = n"
| "ip_int (IPv6 n _) = n"

fun is_v4 :: "ip_addr \<Rightarrow> bool" where
  "is_v4 (IPv4 _) = True"
| "is_v4 (IPv6 _ _) = False"

fun map_opt :: "('a \<Rightarrow> 'b option) \<Rightarrow> 'a list \<Rightarrow> 'b list option" where
  "map_opt f [] = Some []"
| "map_opt f (x # xs) =
     (case f x of
        None \<Rightarrow> None
      | Some y \<Rightarrow> (case map_opt f xs of None \<Rightarrow> None | Some ys \<Rightarrow> Some (y # ys)))"

subsection \<open>Parsing\<close>

definition parse_octet :: "string \<Rightarrow> nat option" where
  "parse_octet s =
     (if s = [] then None
      else if \<not> list_all is_digit s then None
      else if 3 < length s then None
      else if s \<noteq> ''0'' \<and> hd s = CHR ''0'' then None
      else if 255 < dec_value s then None
      else Some (dec_value s))"

definition be_value :: "nat \<Rightarrow> nat list \<Rightarrow> nat" where
  "be_value base ds = foldl (\<lambda>v d. v * base + d) 0 ds"

definition parse_v4 :: "string \<Rightarrow> nat option" where
  "parse_v4 s =
     (let octets = split_on CHR ''.'' s in
      if length octets \<noteq> 4 then None
      else (case map_opt parse_octet octets of None \<Rightarrow> None | Some ds \<Rightarrow> Some (be_value 256 ds)))"

definition hex_val :: "char \<Rightarrow> nat option" where
  "hex_val c =
     (if is_digit c then Some (digit_val c)
      else let n = of_char c in
        if 97 \<le> n \<and> n \<le> 102 then Some (n - 87)
        else if 65 \<le> n \<and> n \<le> 70 then Some (n - 55)
        else (None :: nat option))"

definition parse_hextet :: "string \<Rightarrow> nat option" where
  "parse_hextet s =
     (case map_opt hex_val s of
        None \<Rightarrow> None
      | Some ds \<Rightarrow> if 4 < length s then None else if s = [] then None else Some (be_value 16 ds))"

definition hex_digit :: "nat \<Rightarrow> char" where
  "hex_digit d = (if d < 10 then char_of (48 + d) else char_of (87 + d))"

text \<open>\<open>'%x' % n\<close>.\<close>

fun hex_string :: "nat \<Rightarrow> string" where
  "hex_string n = (if n < 16 then [hex_digit n] else hex_string (n div 16) @ [hex_digit (n mod 16)])"
declare hex_string.simps [simp del]

text \<open>The positions, other than the first and the last, of empty parts.\<close>

definition inner_empty :: "string list \<Rightarrow> nat list" where
  "inner_empty parts = filter (\<lambda>i. parts ! i = []) [1..<length parts - 1]"

text \<open>A dotted-quad suffix is replaced by its two hextets.\<close>

definition expand_v4_tail :: "string list \<Rightarrow> string list option" where
  "expand_v4_tail parts =
     (if CHR ''.'' \<in> set (last parts)
      then (case parse_v4 (last parts) of
              None \<Rightarrow> None
            | Some n \<Rightarrow> Some (butlast parts @ [hex_string (n div 65536), hex_string (n mod 65536)]))
      else Some parts)"

definition v6_value :: "string list \<Rightarrow> nat \<Rightarrow> string list \<Rightarrow> nat option" where
  "v6_value hi skipped lo =
     (case map_opt parse_hextet hi of
        None \<Rightarrow> None
      | Some his \<Rightarrow>
          (case map_opt parse_hextet lo of
             None \<Rightarrow> None
           | Some los \<Rightarrow> Some (be_value 65536 (his @ replicate skipped 0 @ los))))"

definition parse_v6_int :: "string \<Rightarrow> nat option" where
  "parse_v6_int s =
     (if s = [] then None
      else let parts0 = split_on CHR '':'' s in
        if length parts0 < 3 then None
        else (case expand_v4_tail parts0 of
          None \<Rightarrow> None
        | Some parts \<Rightarrow>
            (if 9 < length parts then None
             else (case inner_empty parts of
                [] \<Rightarrow>
                  (if length parts \<noteq> 8 then None
                   else if hd parts = [] then None
                   else if last parts = [] then None
                   else v6_value parts 0 [])
              | [skip_index] \<Rightarrow>
                  (let parts_hi = (if hd parts = [] then skip_index - 1 else skip_index);
                       parts_lo0 = length parts - skip_index - 1;
                       parts_lo = (if last parts = [] then parts_lo0 - 1 else parts_lo0)
                   in if hd parts = [] \<and> parts_hi \<noteq> 0 then None
                      else if last parts = [] \<and> parts_lo \<noteq> 0 then None
                      else if 8 < parts_hi + parts_lo + 1 then None
                      else v6_value (take parts_hi parts) (8 - (parts_hi + parts_lo))
                             (drop (length parts - parts_lo) parts))
              | _ \<Rightarrow> None))))"

definition split_scope :: "string \<Rightarrow> (string \<times> string option) option" where
  "split_scope s =
     (if CHR ''%'' \<notin> set s then Some (s, None)
      else let addr = takeWhile (\<lambda>c. c \<noteq> CHR ''%'') s;
               scope = drop (length addr + 1) s
        in if scope = [] \<or> CHR ''%'' \<in> set scope then None else Some (addr, Some scope))"

definition parse_v6 :: "string \<Rightarrow> ip_addr option" where
  "parse_v6 s =
     (case split_scope s of
        None \<Rightarrow> None
      | Some (addr, scope) \<Rightarrow>
          (case parse_v6_int addr of None \<Rightarrow> None | Some n \<Rightarrow> Some (IPv6 n scope)))"

text \<open>\<open>ip_address(s)\<close> on a string, \<open>ip_address(n)\<close> on an integer.\<close>

definition ip_address :: "string \<Rightarrow> ip_addr option" where
  "ip_address s =
     (if CHR ''/'' \<in> set s then None
      else (case parse_v4 s of Some n \<Rightarrow> Some (IPv4 n) | None \<Rightarrow> parse_v6 s))"

definition ip_address_of_int :: "nat \<Rightarrow> ip_addr option" where
  "ip_address_of_int n =
     (if n < 2 ^ 32 then Some (IPv4 n) else if n < 2 ^ 128 then Some (IPv6 n None) else None)"

subsection \<open>Printing\<close>

definition print_v4 :: "nat \<Rightarrow> string" where
  "print_v4 n =
     join_with ''.'' (map dec_string [n div 2 ^ 24 mod 256, n div 2 ^ 16 mod 256, n div 2 ^ 8 mod 256, n mod 256])"

definition hextets :: "nat \<Rightarrow> string list" where
  "hextets n = map (\<lambda>i. hex_string (n div 2 ^ (16 * (7 - i)) mod 65536)) [0..<8]"

text \<open>The longest run of \<open>0\<close> hextets, the first one of that length: \<open>(start, length)\<close>.\<close>

fun best_run :: "string list \<Rightarrow> nat \<Rightarrow> nat \<times> nat \<Rightarrow> nat \<times> nat \<Rightarrow> nat \<times> nat" where
  "best_run [] i cur best = best"
| "best_run (h # hs) i (cstart, clen) (bstart, blen) =
     (if h = ''0''
      then let cstart' = (if clen = 0 then i else cstart); clen' = clen + 1
        in best_run hs (i + 1) (cstart', clen') (if blen < clen' then (cstart', clen') else (bstart, blen))
      else best_run hs (i + 1) (0, 0) (bstart, blen))"

definition compress_hextets :: "string list \<Rightarrow> string list" where
  "compress_hextets hs =
     (let (start, len) = best_run hs 0 (0, 0) (0, 0) in
      if 1 < len
      then let stop = start + len;
               hs1 = (if stop = length hs then hs @ [[]] else hs);
               hs2 = take start hs1 @ [[]] @ drop stop hs1
        in if start = 0 then [] # hs2 else hs2
      else hs)"

definition print_v6 :: "nat \<Rightarrow> string" where
  "print_v6 n = join_with '':'' (compress_hextets (hextets n))"

fun print_ip :: "ip_addr \<Rightarrow> string" where
  "print_ip (IPv4 n) = print_v4 n"
| "print_ip (IPv6 n scope) = (case scope of None \<Rightarrow> print_v6 n | Some s \<Rightarrow> print_v6 n @ ''%'' @ s)"

subsection \<open>Order\<close>

definition ip_lt :: "ip_addr \<Rightarrow> ip_addr \<Rightarrow> bool option" where
  "ip_lt a b = (if is_v4 a \<noteq> is_v4 b then None else Some (ip_int a < ip_int b))"

text \<open>The other comparisons, as \<open>functools.total_ordering\<close> derives them from \<open><\<close> and \<open>==\<close>.\<close>

definition ip_le :: "ip_addr \<Rightarrow> ip_addr \<Rightarrow> bool option" where
  "ip_le a b = map_option (\<lambda>lt. lt \<or> a = b) (ip_lt a b)"

definition ip_gt :: "ip_addr \<Rightarrow> ip_addr \<Rightarrow> bool option" where
  "ip_gt a b = map_option (\<lambda>lt. \<not> lt \<and> a \<noteq> b) (ip_lt a b)"

section \<open>Networks\<close>

text \<open>The network address, with its scope when the host bits are zero, and the prefix length.\<close>

datatype ip_net = Net (net_address: ip_addr) (prefixlen: nat)

definition max_prefixlen :: "ip_addr \<Rightarrow> nat" where
  "max_prefixlen a = (if is_v4 a then 32 else 128)"

definition prefix_of_string :: "nat \<Rightarrow> string \<Rightarrow> nat option" where
  "prefix_of_string maxlen s =
     (if s = [] \<or> \<not> list_all is_digit s then None
      else if maxlen < dec_value s then None else Some (dec_value s))"

text \<open>A netmask is \<open>p\<close> ones and then zeros; the code counts the zeros on the right.\<close>

definition prefix_of_mask :: "nat \<Rightarrow> nat option" where
  "prefix_of_mask m = find (\<lambda>p. m = (2 ^ p - 1) * 2 ^ (32 - p)) [0..<33]"

definition v4_prefix :: "string \<Rightarrow> nat option" where
  "v4_prefix s =
     (case prefix_of_string 32 s of
        Some p \<Rightarrow> Some p
      | None \<Rightarrow>
          (case parse_v4 s of
             None \<Rightarrow> None
           | Some m \<Rightarrow>
               (case prefix_of_mask m of Some p \<Rightarrow> Some p | None \<Rightarrow> prefix_of_mask (2 ^ 32 - 1 - m))))"

definition clear_host_bits :: "ip_addr \<Rightarrow> nat \<Rightarrow> ip_addr" where
  "clear_host_bits a p =
     (let size = 2 ^ (max_prefixlen a - p); n = ip_int a - ip_int a mod size in
      if n = ip_int a then a else if is_v4 a then IPv4 n else IPv6 n None)"

definition v4_network :: "string list \<Rightarrow> ip_net option" where
  "v4_network parts =
     (case parts of
        [addr] \<Rightarrow> map_option (\<lambda>n. Net (IPv4 n) 32) (parse_v4 addr)
      | [addr, netmask] \<Rightarrow>
          (case parse_v4 addr of
             None \<Rightarrow> None
           | Some n \<Rightarrow> map_option (\<lambda>p. Net (clear_host_bits (IPv4 n) p) p) (v4_prefix netmask))
      | _ \<Rightarrow> None)"

definition v6_network :: "string list \<Rightarrow> ip_net option" where
  "v6_network parts =
     (case parts of
        [addr] \<Rightarrow> map_option (\<lambda>a. Net a 128) (parse_v6 addr)
      | [addr, netmask] \<Rightarrow>
          (case parse_v6 addr of
             None \<Rightarrow> None
           | Some a \<Rightarrow> map_option (\<lambda>p. Net (clear_host_bits a p) p) (prefix_of_string 128 netmask))
      | _ \<Rightarrow> None)"

text \<open>\<open>ip_network(s, strict=False)\<close>.\<close>

definition ip_network :: "string \<Rightarrow> ip_net option" where
  "ip_network s =
     (let parts = split_on CHR ''/'' s in
      case v4_network parts of Some n \<Rightarrow> Some n | None \<Rightarrow> v6_network parts)"

definition net_size :: "ip_net \<Rightarrow> nat" where
  "net_size net = 2 ^ (max_prefixlen (net_address net) - prefixlen net)"

definition net_contains :: "ip_net \<Rightarrow> ip_addr \<Rightarrow> bool" where
  "net_contains net a =
     (is_v4 a = is_v4 (net_address net) \<and>
      ip_int a - ip_int a mod net_size net = ip_int (net_address net))"

text \<open>\<open>hosts()\<close>: for IPv6 only the first address is left out, for IPv4 the first and the last.\<close>

definition net_hosts :: "ip_net \<Rightarrow> ip_addr list" where
  "net_hosts net =
     (let first = ip_int (net_address net); size = net_size net in
      if size = 1 then [net_address net]
      else if is_v4 (net_address net)
      then map IPv4 (if size = 2 then [first..<first + 2] else [first + 1..<first + size - 1])
      else map (\<lambda>n. IPv6 n None) (if size = 2 then [first..<first + 2] else [first + 1..<first + size]))"

section \<open>IPv4 round trips\<close>

lemma hd_dec_string: "0 < n \<Longrightarrow> hd (dec_string n) \<noteq> CHR ''0''"
proof (induction n rule: dec_string.induct)
  case (1 n)
  show ?case
  proof (cases "n < 10")
    case True
    then have "of_char (digit_char n) = 48 + n" by (rule of_char_digit_char)
    with 1 True show ?thesis by (subst dec_string.simps) auto
  next
    case False
    then have "hd (dec_string n) = hd (dec_string (n div 10))" by (subst dec_string.simps) simp
    with 1 False show ?thesis by simp
  qed
qed

lemma digit_char_zero: "digit_char 0 = CHR ''0''"
  unfolding digit_char_def by code_simp

lemma dec_string_zero: "dec_string 0 = ''0''"
  by (subst dec_string.simps) (simp add: digit_char_zero)

lemma length_dec_string: "n < 1000 \<Longrightarrow> length (dec_string n) \<le> 3"
  by (subst dec_string.simps, simp, subst dec_string.simps, simp, subst dec_string.simps, simp)

lemma parse_octet_dec_string: "d < 256 \<Longrightarrow> parse_octet (dec_string d) = Some d"
  using dec_string_digits [of d] hd_dec_string [of d] length_dec_string [of d] dec_string_zero
    dec_value_dec_string [of d]
  by (cases "d = 0") (auto simp: parse_octet_def list_all_iff)

lemma digit_char_digit_val: "is_digit c \<Longrightarrow> digit_char (digit_val c) = c"
proof -
  assume "is_digit c"
  then have "48 + (of_char c - 48) = (of_char c :: nat)" by (auto simp: is_digit_def)
  then show ?thesis by (simp add: digit_char_def digit_val_def)
qed

lemma digit_val_less: "is_digit c \<Longrightarrow> digit_val c < 10"
  by (auto simp: is_digit_def digit_val_def)

lemma dec_value_pos: "list_all is_digit s \<Longrightarrow> s \<noteq> [] \<Longrightarrow> hd s \<noteq> CHR ''0'' \<Longrightarrow> 0 < dec_value s"
proof (induction s rule: rev_induct)
  case (snoc c s)
  show ?case
  proof (cases "s = []")
    case True
    with snoc have "is_digit c" "c \<noteq> CHR ''0''" by simp_all
    then have "digit_val c \<noteq> 0" using digit_char_digit_val [of c] digit_char_zero by metis
    with True show ?thesis by (simp add: dec_value_def)
  qed (use snoc in \<open>simp add: dec_value_append\<close>)
qed simp

lemma dec_string_dec_value:
  "list_all is_digit s \<Longrightarrow> s \<noteq> [] \<Longrightarrow> s = ''0'' \<or> hd s \<noteq> CHR ''0'' \<Longrightarrow> dec_string (dec_value s) = s"
proof (induction s rule: rev_induct)
  case (snoc c s)
  then have c: "digit_val c < 10" "digit_char (digit_val c) = c"
    by (simp_all add: digit_val_less digit_char_digit_val)
  show ?case
  proof (cases "s = []")
    case True
    with c show ?thesis by (subst dec_string.simps) (simp add: dec_value_def)
  next
    case False
    then have hd: "hd s \<noteq> CHR ''0''" using snoc.prems by auto
    then have pos: "0 < dec_value s" using False snoc.prems by (intro dec_value_pos) simp_all
    have "dec_string (dec_value s) = s" using snoc False hd by simp
    with c pos show ?thesis by (subst dec_string.simps) (simp add: dec_value_append)
  qed
qed simp

lemma parse_octet_SomeD: "parse_octet s = Some d \<Longrightarrow> d < 256 \<and> s = dec_string d"
  by (auto simp: parse_octet_def dec_string_dec_value split: if_splits)

lemma map_opt_Some_iff: "map_opt f xs = Some ys \<longleftrightarrow> list_all2 (\<lambda>x y. f x = Some y) xs ys"
proof (induction xs arbitrary: ys)
  case (Cons x xs)
  show ?case
  proof (cases ys)
    case Nil
    then show ?thesis by (auto split: option.splits)
  next
    case (Cons z zs)
    then show ?thesis using Cons.IH [of zs] by (auto split: option.splits)
  qed
qed auto

lemma dot_not_digit: "CHR ''.'' \<notin> set (dec_string n)"
  using dec_string_digits [of n] by (auto simp: is_digit_def)

lemma be_value4: "be_value 256 [a, b, c, d] = a * 2 ^ 24 + b * 2 ^ 16 + c * 2 ^ 8 + d"
  by (simp add: be_value_def algebra_simps)

lemma be_digits4:
  assumes "a < 256" "b < 256" "c < 256" "d < (256 :: nat)" "n = a * 2 ^ 24 + b * 2 ^ 16 + c * 2 ^ 8 + d"
  shows "n div 2 ^ 24 mod 256 = a" "n div 2 ^ 16 mod 256 = b" "n div 2 ^ 8 mod 256 = c" "n mod 256 = d"
proof -
  have "n div 2 ^ 24 = a" using assms by simp
  then show "n div 2 ^ 24 mod 256 = a" using assms(1) by simp
  have "n div 2 ^ 16 = a * 256 + b" using assms by simp
  then show "n div 2 ^ 16 mod 256 = b" using assms(2) by simp
  have "n div 2 ^ 8 = (a * 256 + b) * 256 + c" using assms by simp
  then have "n div 2 ^ 8 mod 256 = ((a * 256 + b) * 256 + c) mod 256" by (rule arg_cong)
  also have "\<dots> = c" unfolding mod_mult_self3 using assms(3) by (rule mod_less)
  finally show "n div 2 ^ 8 mod 256 = c" .
  have "n = (((a * 256 + b) * 256) + c) * 256 + d" using assms(5) by simp
  then have "n mod 256 = ((((a * 256 + b) * 256) + c) * 256 + d) mod 256" by (rule arg_cong)
  also have "\<dots> = d" unfolding mod_mult_self3 using assms(4) by (rule mod_less)
  finally show "n mod 256 = d" .
qed

lemma split_print_v4:
  "split_on CHR ''.'' (print_v4 n) =
     map dec_string [n div 2 ^ 24 mod 256, n div 2 ^ 16 mod 256, n div 2 ^ 8 mod 256, n mod 256]"
  unfolding print_v4_def by (rule split_on_join) (auto simp: dot_not_digit)

lemma horner4:
  "(A :: nat) = a \<Longrightarrow> B = 256 * A + b \<Longrightarrow> C = 256 * B + c \<Longrightarrow> n = 256 * C + d \<Longrightarrow>
   a * 2 ^ 24 + b * 2 ^ 16 + c * 2 ^ 8 + d = n"
  by simp

lemma parse_print_v4: "n < 2 ^ 32 \<Longrightarrow> parse_v4 (print_v4 n) = Some n"
proof -
  assume n: "n < 2 ^ 32"
  have "n div 2 ^ 24 < 256" using n by simp
  then have 1: "n div 2 ^ 24 mod 256 = n div 2 ^ 24" by simp
  have 2: "n div 2 ^ 16 = 256 * (n div 2 ^ 24) + n div 2 ^ 16 mod 256"
    using mult_div_mod_eq [of 256 "n div 2 ^ 16"] by (simp add: div_mult2_eq [symmetric])
  have 3: "n div 2 ^ 8 = 256 * (n div 2 ^ 16) + n div 2 ^ 8 mod 256"
    using mult_div_mod_eq [of 256 "n div 2 ^ 8"] by (simp add: div_mult2_eq [symmetric])
  have 4: "n = 256 * (n div 2 ^ 8) + n mod 256"
    using mult_div_mod_eq [of 256 n] by simp
  have "n div 2 ^ 24 mod 256 * 2 ^ 24 + n div 2 ^ 16 mod 256 * 2 ^ 16 + n div 2 ^ 8 mod 256 * 2 ^ 8 + n mod 256 = n"
    by (rule horner4 [OF 1 [symmetric] 2 3 4])
  then show ?thesis
    by (simp only: parse_v4_def Let_def split_print_v4 list.map map_opt.simps option.case list.size
        parse_octet_dec_string mod_less_divisor be_value4) simp
qed

lemma parse_v4_SomeD:
  assumes "parse_v4 s = Some n"
  shows "n < 2 ^ 32" and "print_v4 n = s"
proof -
  obtain ds where len: "length (split_on CHR ''.'' s) = 4"
    and ds: "list_all2 (\<lambda>x y. parse_octet x = Some y) (split_on CHR ''.'' s) ds" and n: "n = be_value 256 ds"
    using assms by (auto simp: parse_v4_def Let_def map_opt_Some_iff split: if_splits option.splits)
  then have "length ds = 4" by (auto dest: list_all2_lengthD)
  then obtain a b c d where abcd: "ds = [a, b, c, d]"
    by (auto simp: length_Suc_conv eval_nat_numeral)
  then have lt: "a < 256" "b < 256" "c < 256" "d < 256"
    and split: "split_on CHR ''.'' s = map dec_string [a, b, c, d]"
    using ds by (auto simp: list_all2_Cons2 dest!: parse_octet_SomeD)
  have n': "n = a * 2 ^ 24 + b * 2 ^ 16 + c * 2 ^ 8 + d" by (simp only: n abcd be_value4)
  then show "n < 2 ^ 32" using lt by simp
  have "print_v4 n = join_with ''.'' (split_on CHR ''.'' s)"
    unfolding print_v4_def split be_digits4 [OF lt n'] ..
  then show "print_v4 n = s" by (simp add: join_split_on)
qed

text \<open>An IPv4 address has exactly one text.\<close>

lemma print_v4_chars: "c \<in> set (print_v4 n) \<Longrightarrow> is_digit c \<or> c = CHR ''.''"
  using dec_string_digits unfolding print_v4_def by auto

lemma parse_v6_not_v4: "parse_v6 s \<noteq> Some (IPv4 n)"
  by (auto simp: parse_v6_def split: option.splits)

lemma ip_address_v4_iff: "ip_address s = Some (IPv4 n) \<longleftrightarrow> n < 2 ^ 32 \<and> s = print_v4 n"
proof
  assume "ip_address s = Some (IPv4 n)"
  then have "parse_v4 s = Some n"
    by (auto simp: ip_address_def parse_v6_not_v4 split: if_splits option.splits)
  then show "n < 2 ^ 32 \<and> s = print_v4 n" using parse_v4_SomeD by blast
next
  assume n: "n < 2 ^ 32 \<and> s = print_v4 n"
  then have "CHR ''/'' \<notin> set s" using print_v4_chars [of "CHR ''/''" n] by (auto simp: is_digit_def)
  with n show "ip_address s = Some (IPv4 n)" by (simp add: ip_address_def parse_print_v4)
qed

lemma ip_address_of_int_v4: "ip_address_of_int n = Some (IPv4 m) \<longleftrightarrow> m = n \<and> n < 2 ^ 32"
  by (auto simp: ip_address_of_int_def)

lemma print_v4_inj: "m < 2 ^ 32 \<Longrightarrow> n < 2 ^ 32 \<Longrightarrow> print_v4 m = print_v4 n \<longleftrightarrow> m = n"
  by (metis option.inject parse_print_v4)

section \<open>Networks and their hosts\<close>

definition net_wf :: "ip_net \<Rightarrow> bool" where
  "net_wf net \<longleftrightarrow> ip_int (net_address net) mod net_size net = 0"

lemma net_size_pos [simp]: "0 < net_size net"
  by (simp add: net_size_def)

lemma clear_host_bits_v4: "is_v4 (clear_host_bits a p) = is_v4 a"
  by (cases a) (auto simp: clear_host_bits_def Let_def)

lemma clear_host_bits_wf: "net_wf (Net (clear_host_bits a p) p)"
proof -
  have "ip_int (clear_host_bits a p) = ip_int a - ip_int a mod 2 ^ (max_prefixlen a - p)"
    by (cases a) (auto simp: clear_host_bits_def Let_def)
  then show ?thesis
    by (simp add: net_wf_def net_size_def max_prefixlen_def clear_host_bits_v4 minus_mod_eq_mult_div)
qed

lemma full_prefix_wf: "net_wf (Net (IPv4 n) 32)" "\<not> is_v4 a \<Longrightarrow> net_wf (Net a 128)"
  by (simp_all add: net_wf_def net_size_def max_prefixlen_def)

lemma v4_network_wf: "v4_network parts = Some net \<Longrightarrow> net_wf net"
  by (auto simp: v4_network_def clear_host_bits_wf full_prefix_wf split: list.splits option.splits)

lemma parse_v6_is_v6: "parse_v6 s = Some a \<Longrightarrow> \<not> is_v4 a"
  by (auto simp: parse_v6_def split: option.splits)

lemma v6_network_wf: "v6_network parts = Some net \<Longrightarrow> net_wf net"
  by (auto simp: v6_network_def clear_host_bits_wf full_prefix_wf parse_v6_is_v6 split: list.splits option.splits)

lemma ip_network_wf: "ip_network s = Some net \<Longrightarrow> net_wf net"
  by (auto simp: ip_network_def Let_def v4_network_wf v6_network_wf split: option.splits)

lemma aligned_interval:
  assumes "a mod s = 0" and "0 < (s :: nat)"
  shows "n - n mod s = a \<longleftrightarrow> a \<le> n \<and> n < a + s"
proof -
  obtain q where a: "a = s * q" using assms(1) by (auto simp: mod_eq_0_iff_dvd)
  have "n - n mod s = s * (n div s)" by (simp add: minus_mod_eq_mult_div)
  moreover have "n div s = q \<longleftrightarrow> s * q \<le> n \<and> n < s * q + s"
    using assms(2) by (auto simp: div_nat_eqI less_eq_div_iff_mult_less_eq mult.commute
        intro!: div_nat_eqI) (metis add.commute dividend_less_div_times mult.commute)+
  ultimately show ?thesis using a assms(2) by auto
qed

lemma net_contains_iff:
  "net_wf net \<Longrightarrow> net_contains net a \<longleftrightarrow>
     is_v4 a = is_v4 (net_address net) \<and>
     ip_int (net_address net) \<le> ip_int a \<and> ip_int a < ip_int (net_address net) + net_size net"
  by (simp add: net_contains_def net_wf_def aligned_interval)

lemma net_hosts_contained: "net_wf net \<Longrightarrow> a \<in> set (net_hosts net) \<Longrightarrow> net_contains net a"
  by (cases "net_address net") (auto simp: net_contains_iff net_hosts_def Let_def split: if_splits)

lemma net_hosts_distinct: "distinct (net_hosts net)"
  by (cases "net_address net") (auto simp: net_hosts_def Let_def distinct_map inj_on_def)

section \<open>Evaluation\<close>

lemma digit_chars:
  "digit_char 0 = CHR ''0''" "digit_char 1 = CHR ''1''" "digit_char (Suc 0) = CHR ''1''"
  "digit_char 2 = CHR ''2''" "digit_char 3 = CHR ''3''" "digit_char 4 = CHR ''4''"
  "digit_char 5 = CHR ''5''" "digit_char 6 = CHR ''6''" "digit_char 7 = CHR ''7''"
  "digit_char 8 = CHR ''8''" "digit_char 9 = CHR ''9''"
  unfolding digit_char_def by code_simp+

lemmas print_v4_eval = print_v4_def dec_string.simps digit_chars

lemma slash_not_in_v4: "CHR ''/'' \<notin> set (print_v4 n)"
  using print_v4_chars [of "CHR ''/''" n] by (auto simp: is_digit_def)

lemma ip_network_v4:
  assumes "n < 2 ^ 32" and "p \<le> 32"
  shows "ip_network (print_v4 n @ CHR ''/'' # dec_string p) = Some (Net (IPv4 (n - n mod 2 ^ (32 - p))) p)"
proof -
  have digits: "list_all is_digit (dec_string p)" by (simp add: list_all_iff dec_string_digits)
  then have "CHR ''/'' \<notin> set (dec_string p)" by (auto simp: list_all_iff is_digit_def)
  then have "split_on CHR ''/'' (print_v4 n @ CHR ''/'' # dec_string p) = [print_v4 n, dec_string p]"
    by (simp add: split_on_append_sep slash_not_in_v4 split_on_no_sep)
  moreover have "v4_prefix (dec_string p) = Some p"
    using digits assms(2) by (simp add: v4_prefix_def prefix_of_string_def)
  moreover have "clear_host_bits (IPv4 n) p = IPv4 (n - n mod 2 ^ (32 - p))"
    by (simp add: clear_host_bits_def Let_def max_prefixlen_def)
  ultimately show ?thesis
    by (simp add: ip_network_def v4_network_def parse_print_v4 [OF assms(1)])
qed

end
