(* ===== verification/Ipam.thy ===== *)
theory Ipam
  imports PyIp "HOL-Library.Product_Lexorder"
begin

text \<open>
  \<^verbatim>\<open>backend/app/ipam_service.py\<close> (\<open>IPAMService\<close>) over the tables of \<^verbatim>\<open>backend/app/models/ipam.py\<close>:
  networks, pools, allocations and the history of changes. The messages of the service are the
  constructors of \<open>ipam_error\<close>. A query without \<open>ORDER BY\<close> returns the rows in table order.
  \<open>Inl TypeError\<close> is the exception an ordering comparison of an IPv4 and an IPv6 address raises, which
  the handlers of \<open>ValueError\<close> let through; the session is then rolled back.
\<close>

section \<open>State\<close>

record ipam_network =
  n_id :: int
  n_name :: string
  n_network :: string
  n_gateway :: "string option"
  n_dns_domain :: "string option"
  n_is_active :: bool

record ipam_pool =
  p_id :: int
  p_network_id :: int
  p_name :: string
  p_range_start :: string
  p_range_end :: string
  p_auto_assign :: bool
  p_is_active :: bool

record ipam_allocation =
  a_id :: int
  a_network_id :: int
  a_pool_id :: "int option"
  a_ip_address :: string
  a_mac_address :: "string option"
  a_resource_type :: "string option"
  a_resource_id :: "int option"
  a_resource_name :: "string option"
  a_server_id :: "int option"
  a_vmid :: "int option"
  a_node :: "string option"
  a_status :: string
  a_allocation_type :: string
  a_is_primary :: bool
  a_assignment_kind :: string
  a_target_interface :: "string option"
  a_apply_status :: "string option"
  a_hostname :: "string option"
  a_fqdn :: "string option"
  a_dns_ptr_record :: bool
  a_allocated_by :: "string option"
  a_expires_at :: "int option"
  a_last_seen :: "int option"
  a_notes :: "string option"

text \<open>The values of the JSON columns of the history; \<open>JTime\<close> is the ISO text of an instant.\<close>

datatype jval = JNull | JInt int | JStr string | JBool bool | JTime int

record ipam_history =
  h_ip_address :: string
  h_network_id :: "int option"
  h_action :: string
  h_old_value :: "(string, jval) pydict option"
  h_new_value :: "(string, jval) pydict option"
  h_resource_type :: "string option"
  h_resource_id :: "int option"
  h_resource_name :: "string option"
  h_performed_by :: string
  h_notes :: "string option"

record vm_instance =
  vi_server_id :: int
  vi_vmid :: int
  vi_ip_address :: "string option"
  vi_deleted :: bool

record ipam_state =
  networks :: "ipam_network list"
  pools :: "ipam_pool list"
  allocations :: "ipam_allocation list"
  next_allocation_id :: int
  history :: "ipam_history list"
  vm_instances :: "vm_instance list"
  server_addresses :: "string option list"

datatype ipam_error =
    AlreadyAllocated string string
  | NetworkNotFound int
  | NotWithin string string
  | InvalidIpOrNetwork
  | IsGateway string
  | NoAvailable int
  | NotAllocated string
  | NotThisGuest
  | LinkedToOther string string int
  | PoolNetworkNotFound
  | InvalidIpFormat
  | RangeOutside string
  | RangeReversed
  | RangeOverlaps string string string

datatype py_exc = TypeError

definition jopt_int :: "int option \<Rightarrow> jval" where
  "jopt_int v = (case v of None \<Rightarrow> JNull | Some i \<Rightarrow> JInt i)"

definition jopt_str :: "string option \<Rightarrow> jval" where
  "jopt_str v = (case v of None \<Rightarrow> JNull | Some s \<Rightarrow> JStr s)"

definition jopt_time :: "int option \<Rightarrow> jval" where
  "jopt_time v = (case v of None \<Rightarrow> JNull | Some t \<Rightarrow> JTime t)"

definition find_network :: "int \<Rightarrow> ipam_state \<Rightarrow> ipam_network option" where
  "find_network nid st = find (\<lambda>n. n_id n = nid) (networks st)"

definition find_allocation :: "string \<Rightarrow> ipam_state \<Rightarrow> ipam_allocation option" where
  "find_allocation ip st = find (\<lambda>a. a_ip_address a = ip) (allocations st)"

definition is_held :: "ipam_allocation \<Rightarrow> bool" where
  "is_held a = (a_status a \<in> {''allocated'', ''reserved''})"

text \<open>\<open>name or 'unknown'\<close>.\<close>

definition or_unknown :: "string option \<Rightarrow> string" where
  "or_unknown s = (case s of None \<Rightarrow> ''unknown'' | Some x \<Rightarrow> if x = [] then ''unknown'' else x)"

section \<open>History\<close>

definition log_history ::
    "string \<Rightarrow> int option \<Rightarrow> string \<Rightarrow> (string, jval) pydict option \<Rightarrow> (string, jval) pydict option \<Rightarrow>
     ipam_allocation \<Rightarrow> string option \<Rightarrow> string option \<Rightarrow> ipam_state \<Rightarrow> ipam_state" where
  "log_history ip nid action old new a performed_by notes st =
     st\<lparr>history := history st @
         [\<lparr>h_ip_address = ip, h_network_id = nid, h_action = action, h_old_value = old, h_new_value = new,
           h_resource_type = a_resource_type a, h_resource_id = a_resource_id a,
           h_resource_name = a_resource_name a,
           h_performed_by = (case performed_by of None \<Rightarrow> ''system'' | Some p \<Rightarrow> if p = [] then ''system'' else p),
           h_notes = notes\<rparr>]\<rparr>"

section \<open>Networks\<close>

record network_stats =
  ns_total_ips :: int
  ns_allocated_ips :: int
  ns_reserved_ips :: int
  ns_available_ips :: int
  ns_utilization :: "(int \<times> int) option"
  ns_pools_count :: int
  ns_vms_count :: int
  ns_lxc_count :: int
  ns_physical_count :: int
  ns_other_count :: int

definition count_rows :: "('a \<Rightarrow> bool) \<Rightarrow> 'a list \<Rightarrow> int" where
  "count_rows P xs = int (length (filter P xs))"

text \<open>
  The utilization is kept as the fraction the code divides and rounds to two places; \<open>None\<close> is the
  \<open>0\<close> of a network without addresses.
\<close>

definition get_network_stats :: "int \<Rightarrow> ipam_state \<Rightarrow> network_stats option" where
  "get_network_stats nid st =
     (case find_network nid st of
        None \<Rightarrow> None
      | Some network \<Rightarrow>
          (let total = (case ip_network (n_network network) of
                          None \<Rightarrow> 0
                        | Some net \<Rightarrow> if 2 < net_size net then int (net_size net) - 2 else int (net_size net));
               rows = filter (\<lambda>a. a_network_id a = nid) (allocations st);
               allocated = count_rows (\<lambda>a. a_status a = ''allocated'') rows;
               reserved = count_rows (\<lambda>a. a_status a = ''reserved'') rows
           in Some \<lparr>ns_total_ips = total, ns_allocated_ips = allocated, ns_reserved_ips = reserved,
             ns_available_ips = total - allocated - reserved,
             ns_utilization = (if 0 < total then Some ((allocated + reserved) * 100, total) else None),
             ns_pools_count = count_rows (\<lambda>p. p_network_id p = nid \<and> p_is_active p) (pools st),
             ns_vms_count = count_rows (\<lambda>a. a_resource_type a = Some ''vm'') rows,
             ns_lxc_count = count_rows (\<lambda>a. a_resource_type a = Some ''lxc'') rows,
             ns_physical_count = count_rows (\<lambda>a. a_resource_type a = Some ''physical'') rows,
             ns_other_count = count_rows (\<lambda>a. a_resource_type a \<notin>
               {Some ''vm'', Some ''lxc'', Some ''physical'', None}) rows\<rparr>))"

record ip_info =
  i_ip_address :: string
  i_is_gateway :: bool
  i_status :: string
  i_allocation :: "ipam_allocation option"

text \<open>The dictionary by address keeps the last row of an address; the other columns are those of the row.\<close>

definition get_network_ip_map :: "int \<Rightarrow> ipam_state \<Rightarrow> ip_info list" where
  "get_network_ip_map nid st =
     (case find_network nid st of
        None \<Rightarrow> []
      | Some network \<Rightarrow>
          (case ip_network (n_network network) of
             None \<Rightarrow> []
           | Some net \<Rightarrow>
               (let rows = filter (\<lambda>a. a_network_id a = nid) (allocations st) in
                map (\<lambda>h. let ip = print_ip h;
                              allocation = find (\<lambda>a. a_ip_address a = ip) (rev rows);
                              gw = (Some ip = n_gateway network)
                          in \<lparr>i_ip_address = ip, i_is_gateway = gw,
                              i_status = (if gw then ''gateway''
                                          else case allocation of Some a \<Rightarrow> a_status a | None \<Rightarrow> ''available''),
                              i_allocation = allocation\<rparr>)
                  (net_hosts net))))"

section \<open>The next free address\<close>

definition pools_to_search :: "int \<Rightarrow> int option \<Rightarrow> ipam_state \<Rightarrow> ipam_pool list" where
  "pools_to_search nid pool_id st =
     (if truthy_int pool_id
      then filter (\<lambda>p. Some (p_id p) = pool_id \<and> p_network_id p = nid \<and> p_is_active p \<and> p_auto_assign p) (pools st)
      else sort_key p_id (filter (\<lambda>p. p_network_id p = nid \<and> p_is_active p \<and> p_auto_assign p) (pools st)))"

definition occupied_addresses :: "ipam_network \<Rightarrow> ipam_state \<Rightarrow> string list" where
  "occupied_addresses network st =
     map a_ip_address (allocations st) @
     (case n_gateway network of None \<Rightarrow> [] | Some g \<Rightarrow> if g = [] then [] else [g])"

definition pool_candidates :: "ipam_pool \<Rightarrow> string list" where
  "pool_candidates p =
     (case (ip_address (p_range_start p), ip_address (p_range_end p)) of
        (Some s, Some e) \<Rightarrow>
          List.map_filter (\<lambda>n. map_option print_ip (ip_address_of_int n)) [ip_int s..<ip_int e + 1]
      | _ \<Rightarrow> [])"

fun search_pools :: "string list \<Rightarrow> ipam_pool list \<Rightarrow> string option" where
  "search_pools occupied [] = None"
| "search_pools occupied (p # ps) =
     (case find (\<lambda>ip. ip \<notin> set occupied) (pool_candidates p) of
        Some ip \<Rightarrow> Some ip
      | None \<Rightarrow> search_pools occupied ps)"

text \<open>\<open>row[0] for row in rows if row[0]\<close>.\<close>

definition truthy_texts :: "string option list \<Rightarrow> string list" where
  "truthy_texts xs = List.map_filter (\<lambda>x. x) (filter truthy_str xs)"

definition get_next_available_ip :: "int \<Rightarrow> int option \<Rightarrow> bool \<Rightarrow> ipam_state \<Rightarrow> string option" where
  "get_next_available_ip nid pool_id allow_network_scan st =
     (case find (\<lambda>n. n_id n = nid \<and> n_is_active n) (networks st) of
        None \<Rightarrow> None
      | Some network \<Rightarrow>
          (let ps = pools_to_search nid pool_id st in
           if ps = [] \<and> \<not> allow_network_scan then None
           else let occupied = occupied_addresses network st in
             (case search_pools occupied ps of
                Some ip \<Rightarrow> Some ip
              | None \<Rightarrow>
                  (if allow_network_scan \<and> \<not> truthy_int pool_id
                   then let known = occupied @
                          truthy_texts (map vi_ip_address (filter (\<lambda>v. \<not> vi_deleted v) (vm_instances st))) @
                          truthy_texts (server_addresses st)
                     in (case ip_network (n_network network) of
                           None \<Rightarrow> None
                         | Some net \<Rightarrow> find (\<lambda>ip. ip \<notin> set known) (map print_ip (net_hosts net)))
                   else None))))"

section \<open>Allocation\<close>

record alloc_request =
  rq_ip_address :: string
  rq_network_id :: int
  rq_pool_id :: "int option"
  rq_resource_type :: "string option"
  rq_resource_id :: "int option"
  rq_resource_name :: "string option"
  rq_hostname :: "string option"
  rq_fqdn :: "string option"
  rq_mac_address :: "string option"
  rq_server_id :: "int option"
  rq_vmid :: "int option"
  rq_node :: "string option"
  rq_allocation_type :: string
  rq_status :: string
  rq_allocated_by :: "string option"
  rq_notes :: "string option"
  rq_is_primary :: "bool option"
  rq_assignment_kind :: string
  rq_target_interface :: "string option"
  rq_apply_status :: "string option"

text \<open>The default arguments of \<open>allocate_ip\<close>.\<close>

definition request_for :: "string \<Rightarrow> int \<Rightarrow> alloc_request" where
  "request_for ip nid =
     \<lparr>rq_ip_address = ip, rq_network_id = nid, rq_pool_id = None, rq_resource_type = None,
      rq_resource_id = None, rq_resource_name = None, rq_hostname = None, rq_fqdn = None,
      rq_mac_address = None, rq_server_id = None, rq_vmid = None, rq_node = None,
      rq_allocation_type = ''static'', rq_status = ''allocated'', rq_allocated_by = None,
      rq_notes = None, rq_is_primary = None, rq_assignment_kind = ''primary'',
      rq_target_interface = None, rq_apply_status = None\<rparr>"

definition has_primary :: "int option \<Rightarrow> int option \<Rightarrow> ipam_state \<Rightarrow> bool" where
  "has_primary server_id vmid st =
     (if vmid = None then False
      else list_ex (\<lambda>a. a_server_id a = server_id \<and> a_vmid a = vmid \<and> a_is_primary a) (allocations st))"

definition guest_exists :: "int option \<Rightarrow> int option \<Rightarrow> ipam_state \<Rightarrow> bool" where
  "guest_exists server_id vmid st =
     (if server_id = None \<or> vmid = None then False
      else list_ex (\<lambda>v. Some (vi_server_id v) = server_id \<and> Some (vi_vmid v) = vmid \<and> \<not> vi_deleted v)
             (vm_instances st))"

text \<open>\<open>start <= ip <= end\<close>.\<close>

definition in_range :: "ip_addr \<Rightarrow> ip_addr \<Rightarrow> ip_addr \<Rightarrow> bool option" where
  "in_range s ip e =
     (case ip_le s ip of None \<Rightarrow> None | Some b \<Rightarrow> if b then ip_le ip e else Some False)"

fun detect_pool :: "ip_addr \<Rightarrow> ipam_pool list \<Rightarrow> py_exc + int option" where
  "detect_pool ip [] = Inr None"
| "detect_pool ip (p # ps) =
     (case ip_address (p_range_start p) of
        None \<Rightarrow> detect_pool ip ps
      | Some s \<Rightarrow>
          (case ip_address (p_range_end p) of
             None \<Rightarrow> detect_pool ip ps
           | Some e \<Rightarrow>
               (case in_range s ip e of
                  None \<Rightarrow> Inl TypeError
                | Some b \<Rightarrow> if b then Inr (Some (p_id p)) else detect_pool ip ps)))"

definition new_allocation :: "alloc_request \<Rightarrow> int option \<Rightarrow> ipam_network \<Rightarrow> ipam_state \<Rightarrow> ipam_allocation" where
  "new_allocation rq pool_id network st =
     \<lparr>a_id = next_allocation_id st, a_network_id = rq_network_id rq, a_pool_id = pool_id,
      a_ip_address = rq_ip_address rq, a_mac_address = rq_mac_address rq,
      a_resource_type = rq_resource_type rq, a_resource_id = rq_resource_id rq,
      a_resource_name = rq_resource_name rq, a_server_id = rq_server_id rq, a_vmid = rq_vmid rq,
      a_node = rq_node rq, a_status = rq_status rq, a_allocation_type = rq_allocation_type rq,
      a_is_primary = (case rq_is_primary rq of
          Some b \<Rightarrow> b
        | None \<Rightarrow> rq_assignment_kind rq = ''primary'' \<and> rq_vmid rq \<noteq> None \<and>
                  \<not> has_primary (rq_server_id rq) (rq_vmid rq) st),
      a_assignment_kind = rq_assignment_kind rq, a_target_interface = rq_target_interface rq,
      a_apply_status = rq_apply_status rq, a_hostname = rq_hostname rq,
      a_fqdn = (if \<not> truthy_str (rq_fqdn rq) \<and> truthy_str (rq_hostname rq) \<and> truthy_str (n_dns_domain network)
                then Some (the (rq_hostname rq) @ ''.'' @ the (n_dns_domain network)) else rq_fqdn rq),
      a_dns_ptr_record = False, a_allocated_by = rq_allocated_by rq, a_expires_at = None,
      a_last_seen = None, a_notes = rq_notes rq\<rparr>"

definition add_allocation :: "ipam_allocation \<Rightarrow> ipam_state \<Rightarrow> ipam_state" where
  "add_allocation a st =
     log_history (a_ip_address a) (Some (a_network_id a)) ''allocated'' None
       (Some [(''resource_type'', jopt_str (a_resource_type a)), (''resource_name'', jopt_str (a_resource_name a)),
              (''status'', JStr (a_status a))])
       a (a_allocated_by a) None
       (st\<lparr>allocations := allocations st @ [a], next_allocation_id := next_allocation_id st + 1\<rparr>)"

type_synonym alloc_result = "(ipam_error + ipam_allocation) \<times> ipam_state"

definition allocate_ip :: "alloc_request \<Rightarrow> ipam_state \<Rightarrow> py_exc + alloc_result" where
  "allocate_ip rq st =
     (let ip_text = rq_ip_address rq; nid = rq_network_id rq in
      case find_allocation ip_text st of
        Some existing \<Rightarrow> Inr (Inl (AlreadyAllocated ip_text (or_unknown (a_resource_name existing))), st)
      | None \<Rightarrow>
      (case find_network nid st of
        None \<Rightarrow> Inr (Inl (NetworkNotFound nid), st)
      | Some network \<Rightarrow>
      (case (ip_network (n_network network), ip_address ip_text) of
        (Some net, Some ip) \<Rightarrow>
          (if \<not> net_contains net ip then Inr (Inl (NotWithin ip_text (n_network network)), st)
           else if Some ip_text = n_gateway network then Inr (Inl (IsGateway ip_text), st)
           else
             (case (if truthy_int (rq_pool_id rq) then Inr (rq_pool_id rq)
                    else map_sum id (\<lambda>found. case found of Some p \<Rightarrow> Some p | None \<Rightarrow> rq_pool_id rq)
                      (detect_pool ip (filter (\<lambda>p. p_network_id p = nid \<and> p_is_active p) (pools st)))) of
                Inl e \<Rightarrow> Inl e
              | Inr pool_id \<Rightarrow>
                  (let a = new_allocation rq pool_id network st in Inr (Inr a, add_allocation a st))))
      | _ \<Rightarrow> Inr (Inl InvalidIpOrNetwork, st))))"

text \<open>The other arguments of \<open>auto_allocate_ip\<close> are those of \<open>rq\<close> that it hands on.\<close>

definition auto_request :: "string \<Rightarrow> int \<Rightarrow> int option \<Rightarrow> alloc_request \<Rightarrow> alloc_request" where
  "auto_request ip nid pool_id rq =
     (request_for ip nid)\<lparr>rq_pool_id := pool_id, rq_resource_type := rq_resource_type rq,
       rq_resource_id := rq_resource_id rq, rq_resource_name := rq_resource_name rq,
       rq_hostname := rq_hostname rq, rq_server_id := rq_server_id rq, rq_vmid := rq_vmid rq,
       rq_node := rq_node rq, rq_allocated_by := rq_allocated_by rq, rq_notes := rq_notes rq\<rparr>"

definition auto_allocate_ip :: "int \<Rightarrow> int option \<Rightarrow> alloc_request \<Rightarrow> ipam_state \<Rightarrow> py_exc + alloc_result" where
  "auto_allocate_ip nid pool_id rq st =
     (let ip = get_next_available_ip nid pool_id False st in
      if \<not> truthy_str ip then Inr (Inl (NoAvailable nid), st)
      else allocate_ip (auto_request (the ip) nid pool_id rq) st)"

section \<open>Release\<close>

definition release_ip :: "string \<Rightarrow> string option \<Rightarrow> string option \<Rightarrow> ipam_state \<Rightarrow> (ipam_error + unit) \<times> ipam_state" where
  "release_ip ip released_by reason st =
     (case find_allocation ip st of
        None \<Rightarrow> (Inl (NotAllocated ip), st)
      | Some a \<Rightarrow>
          (let st1 = log_history ip (Some (a_network_id a)) ''released''
                 (Some [(''resource_type'', jopt_str (a_resource_type a)),
                        (''resource_name'', jopt_str (a_resource_name a)),
                        (''status'', JStr (a_status a)), (''proxmox_vmid'', jopt_int (a_vmid a))])
                 None a released_by reason st
           in (Inr (), st1\<lparr>allocations := remove_first (\<lambda>b. a_ip_address b = ip) (allocations st1)\<rparr>)))"

definition find_allocations_by_resource :: "int \<Rightarrow> int \<Rightarrow> ipam_state \<Rightarrow> ipam_allocation list" where
  "find_allocations_by_resource server_id vmid st =
     sort_key (\<lambda>a. (\<not> a_is_primary a, a_id a))
       (filter (\<lambda>a. a_server_id a = Some server_id \<and> a_vmid a = Some vmid \<and> is_held a) (allocations st))"

definition find_allocation_by_resource :: "int \<Rightarrow> int \<Rightarrow> ipam_state \<Rightarrow> ipam_allocation option" where
  "find_allocation_by_resource server_id vmid st =
     (case find_allocations_by_resource server_id vmid st of [] \<Rightarrow> None | a # _ \<Rightarrow> Some a)"

fun release_loop ::
    "string option \<Rightarrow> string option \<Rightarrow> string list \<Rightarrow> string list \<Rightarrow> ipam_error list \<Rightarrow> ipam_state \<Rightarrow>
     (string list \<times> ipam_error list) \<times> ipam_state" where
  "release_loop by reason [] released errors st = ((released, errors), st)"
| "release_loop by reason (ip # ips) released errors st =
     (case release_ip ip by reason st of
        (Inr _, st') \<Rightarrow> release_loop by reason ips (released @ [ip]) errors st'
      | (Inl e, st') \<Rightarrow> release_loop by reason ips released (errors @ [e]) st')"

text \<open>\<open>(False, None)\<close>, \<open>(True, ips)\<close> and \<open>(False, errors)\<close>.\<close>

datatype release_result = NothingToRelease | Released "string list" | ReleaseFailed "ipam_error list"

definition release_ip_by_vmid ::
    "int \<Rightarrow> int \<Rightarrow> string option \<Rightarrow> string option \<Rightarrow> ipam_state \<Rightarrow> release_result \<times> ipam_state" where
  "release_ip_by_vmid server_id vmid by reason st =
     (let rows0 = find_allocations_by_resource server_id vmid st;
          rows = (if rows0 = []
                  then filter (\<lambda>a. a_resource_id a = Some vmid \<and> a_server_id a = None \<and> is_held a) (allocations st)
                  else rows0)
      in if rows = [] then (NothingToRelease, st)
         else let ((released, errors), st') = release_loop by reason (map a_ip_address rows) [] [] st
           in (if released \<noteq> [] then Released released
               else if errors \<noteq> [] then ReleaseFailed errors else NothingToRelease, st'))"

fun log_releases :: "int \<Rightarrow> string option \<Rightarrow> ipam_allocation list \<Rightarrow> ipam_state \<Rightarrow> ipam_state" where
  "log_releases server_id by [] st = st"
| "log_releases server_id by (a # as) st =
     log_releases server_id by as
       (log_history (a_ip_address a) (Some (a_network_id a)) ''released''
          (Some [(''resource_type'', jopt_str (a_resource_type a)),
                 (''resource_name'', jopt_str (a_resource_name a)), (''proxmox_vmid'', jopt_int (a_vmid a))])
          None a by (Some (''Proxmox server '' @ dec_int server_id @ '' deleted'')) st)"

definition release_all_by_server :: "int \<Rightarrow> string option \<Rightarrow> ipam_state \<Rightarrow> nat \<times> ipam_state" where
  "release_all_by_server server_id by st =
     (let gone = (\<lambda>a. a_server_id a = Some server_id \<and> is_held a);
          rows = filter gone (allocations st);
          st1 = log_releases server_id by rows st
      in (length rows, st1\<lparr>allocations := filter (\<lambda>a. \<not> gone a) (allocations st1)\<rparr>))"

section \<open>Changes\<close>

text \<open>
  The keyword arguments of \<open>update_allocation\<close>: the sixteen fields it accepts, and any other, which
  it skips.
\<close>

datatype field_update =
    UPool "int option" | UMac "string option" | UResType "string option" | UResId "int option"
  | UResName "string option" | UServer "int option" | UVmid "int option" | UNode "string option"
  | UStatus string | UAllocType string | UHostname "string option" | UFqdn "string option"
  | UDnsPtr bool | UExpires "int option" | UNotes "string option" | ULastSeen "int option"
  | UOther string

fun update_name :: "field_update \<Rightarrow> string" where
  "update_name (UPool _) = ''pool_id''"
| "update_name (UMac _) = ''mac_address''"
| "update_name (UResType _) = ''resource_type''"
| "update_name (UResId _) = ''resource_id''"
| "update_name (UResName _) = ''resource_name''"
| "update_name (UServer _) = ''proxmox_server_id''"
| "update_name (UVmid _) = ''proxmox_vmid''"
| "update_name (UNode _) = ''proxmox_node''"
| "update_name (UStatus _) = ''status''"
| "update_name (UAllocType _) = ''allocation_type''"
| "update_name (UHostname _) = ''hostname''"
| "update_name (UFqdn _) = ''fqdn''"
| "update_name (UDnsPtr _) = ''dns_ptr_record''"
| "update_name (UExpires _) = ''expires_at''"
| "update_name (UNotes _) = ''notes''"
| "update_name (ULastSeen _) = ''last_seen''"
| "update_name (UOther f) = f"

text \<open>The value of the field in a row, the new value, and the row with the field set.\<close>

fun update_old :: "field_update \<Rightarrow> ipam_allocation \<Rightarrow> jval" where
  "update_old (UPool _) a = jopt_int (a_pool_id a)"
| "update_old (UMac _) a = jopt_str (a_mac_address a)"
| "update_old (UResType _) a = jopt_str (a_resource_type a)"
| "update_old (UResId _) a = jopt_int (a_resource_id a)"
| "update_old (UResName _) a = jopt_str (a_resource_name a)"
| "update_old (UServer _) a = jopt_int (a_server_id a)"
| "update_old (UVmid _) a = jopt_int (a_vmid a)"
| "update_old (UNode _) a = jopt_str (a_node a)"
| "update_old (UStatus _) a = JStr (a_status a)"
| "update_old (UAllocType _) a = JStr (a_allocation_type a)"
| "update_old (UHostname _) a = jopt_str (a_hostname a)"
| "update_old (UFqdn _) a = jopt_str (a_fqdn a)"
| "update_old (UDnsPtr _) a = JBool (a_dns_ptr_record a)"
| "update_old (UExpires _) a = jopt_time (a_expires_at a)"
| "update_old (UNotes _) a = jopt_str (a_notes a)"
| "update_old (ULastSeen _) a = jopt_time (a_last_seen a)"
| "update_old (UOther _) a = JNull"

fun update_new :: "field_update \<Rightarrow> jval" where
  "update_new (UPool v) = jopt_int v"
| "update_new (UMac v) = jopt_str v"
| "update_new (UResType v) = jopt_str v"
| "update_new (UResId v) = jopt_int v"
| "update_new (UResName v) = jopt_str v"
| "update_new (UServer v) = jopt_int v"
| "update_new (UVmid v) = jopt_int v"
| "update_new (UNode v) = jopt_str v"
| "update_new (UStatus v) = JStr v"
| "update_new (UAllocType v) = JStr v"
| "update_new (UHostname v) = jopt_str v"
| "update_new (UFqdn v) = jopt_str v"
| "update_new (UDnsPtr v) = JBool v"
| "update_new (UExpires v) = jopt_time v"
| "update_new (UNotes v) = jopt_str v"
| "update_new (ULastSeen v) = jopt_time v"
| "update_new (UOther _) = JNull"

fun update_set :: "field_update \<Rightarrow> ipam_allocation \<Rightarrow> ipam_allocation" where
  "update_set (UPool v) a = a\<lparr>a_pool_id := v\<rparr>"
| "update_set (UMac v) a = a\<lparr>a_mac_address := v\<rparr>"
| "update_set (UResType v) a = a\<lparr>a_resource_type := v\<rparr>"
| "update_set (UResId v) a = a\<lparr>a_resource_id := v\<rparr>"
| "update_set (UResName v) a = a\<lparr>a_resource_name := v\<rparr>"
| "update_set (UServer v) a = a\<lparr>a_server_id := v\<rparr>"
| "update_set (UVmid v) a = a\<lparr>a_vmid := v\<rparr>"
| "update_set (UNode v) a = a\<lparr>a_node := v\<rparr>"
| "update_set (UStatus v) a = a\<lparr>a_status := v\<rparr>"
| "update_set (UAllocType v) a = a\<lparr>a_allocation_type := v\<rparr>"
| "update_set (UHostname v) a = a\<lparr>a_hostname := v\<rparr>"
| "update_set (UFqdn v) a = a\<lparr>a_fqdn := v\<rparr>"
| "update_set (UDnsPtr v) a = a\<lparr>a_dns_ptr_record := v\<rparr>"
| "update_set (UExpires v) a = a\<lparr>a_expires_at := v\<rparr>"
| "update_set (UNotes v) a = a\<lparr>a_notes := v\<rparr>"
| "update_set (ULastSeen v) a = a\<lparr>a_last_seen := v\<rparr>"
| "update_set (UOther _) a = a"

fun apply_updates ::
    "field_update list \<Rightarrow> ipam_allocation \<Rightarrow> (string, jval) pydict \<Rightarrow> (string, jval) pydict \<Rightarrow>
     ipam_allocation \<times> (string, jval) pydict \<times> (string, jval) pydict" where
  "apply_updates [] a old new = (a, old, new)"
| "apply_updates (u # us) a old new =
     (if update_old u a \<noteq> update_new u
      then apply_updates us (update_set u a) (AList.update (update_name u) (update_old u a) old)
             (AList.update (update_name u) (update_new u) new)
      else apply_updates us a old new)"

definition store_allocation :: "ipam_allocation \<Rightarrow> ipam_state \<Rightarrow> ipam_state" where
  "store_allocation a st =
     st\<lparr>allocations := update_first (\<lambda>b. a_ip_address b = a_ip_address a) (\<lambda>_. a) (allocations st)\<rparr>"

definition update_allocation :: "string \<Rightarrow> string option \<Rightarrow> field_update list \<Rightarrow> ipam_state \<Rightarrow> alloc_result" where
  "update_allocation ip updated_by us st =
     (case find_allocation ip st of
        None \<Rightarrow> (Inl (NotAllocated ip), st)
      | Some a \<Rightarrow>
          (let (a', old, new) = apply_updates us a [] [];
               st1 = store_allocation a' st
           in (Inr a', if old \<noteq> []
                       then log_history ip (Some (a_network_id a')) ''modified'' (Some old) (Some new) a' updated_by None st1
                       else st1)))"

definition set_primary ::
    "int \<Rightarrow> int \<Rightarrow> int \<Rightarrow> string option \<Rightarrow> ipam_state \<Rightarrow> alloc_result" where
  "set_primary server_id vmid allocation_id by st =
     (let mine = (\<lambda>a. a_server_id a = Some server_id \<and> a_vmid a = Some vmid) in
      case find (\<lambda>a. a_id a = allocation_id) (filter mine (allocations st)) of
        None \<Rightarrow> (Inl NotThisGuest, st)
      | Some target \<Rightarrow>
          (Inr (target\<lparr>a_is_primary := True\<rparr>),
           log_history (a_ip_address target) (Some (a_network_id target)) ''modified'' None
             (Some [(''is_primary'', JBool True)]) target by (Some ''Marked as primary address'')
             (st\<lparr>allocations := map (\<lambda>a. if mine a then a\<lparr>a_is_primary := (a_id a = allocation_id)\<rparr> else a)
                (allocations st)\<rparr>)))"

section \<open>Pools\<close>

definition get_pool_stats :: "int \<Rightarrow> ipam_state \<Rightarrow> (int \<times> int \<times> int) option" where
  "get_pool_stats pid st =
     (case find (\<lambda>p. p_id p = pid) (pools st) of
        None \<Rightarrow> None
      | Some p \<Rightarrow>
          (let total = (case (ip_address (p_range_start p), ip_address (p_range_end p)) of
                          (Some s, Some e) \<Rightarrow> int (ip_int e) - int (ip_int s) + 1
                        | _ \<Rightarrow> 0);
               used = count_rows (\<lambda>a. a_pool_id a = Some pid \<and> is_held a) (allocations st)
           in Some (total, used, total - used)))"

fun check_overlaps :: "ip_addr \<Rightarrow> ip_addr \<Rightarrow> ipam_pool list \<Rightarrow> py_exc + ipam_error option" where
  "check_overlaps s e [] = Inr None"
| "check_overlaps s e (p # ps) =
     (case ip_address (p_range_start p) of
        None \<Rightarrow> check_overlaps s e ps
      | Some pool_start \<Rightarrow>
          (case ip_address (p_range_end p) of
             None \<Rightarrow> check_overlaps s e ps
           | Some pool_end \<Rightarrow>
               (case ip_lt e pool_start of
                  None \<Rightarrow> Inl TypeError
                | Some True \<Rightarrow> check_overlaps s e ps
                | Some False \<Rightarrow>
                    (case ip_gt s pool_end of
                       None \<Rightarrow> Inl TypeError
                     | Some True \<Rightarrow> check_overlaps s e ps
                     | Some False \<Rightarrow> Inr (Some (RangeOverlaps (p_name p) (p_range_start p) (p_range_end p)))))))"

definition validate_pool_range :: "int \<Rightarrow> string \<Rightarrow> string \<Rightarrow> int option \<Rightarrow> ipam_state \<Rightarrow> py_exc + ipam_error option" where
  "validate_pool_range nid range_start range_end exclude_pool_id st =
     (case find_network nid st of
        None \<Rightarrow> Inr (Some PoolNetworkNotFound)
      | Some network \<Rightarrow>
          (case (ip_network (n_network network), ip_address range_start, ip_address range_end) of
             (Some net, Some s, Some e) \<Rightarrow>
               (if \<not> net_contains net s \<or> \<not> net_contains net e then Inr (Some (RangeOutside (n_network network)))
                else (case ip_gt s e of
                        None \<Rightarrow> Inl TypeError
                      | Some True \<Rightarrow> Inr (Some RangeReversed)
                      | Some False \<Rightarrow>
                          check_overlaps s e
                            (filter (\<lambda>p. p_network_id p = nid \<and>
                               (if truthy_int exclude_pool_id then Some (p_id p) \<noteq> exclude_pool_id else True))
                               (pools st))))
           | _ \<Rightarrow> Inr (Some InvalidIpFormat)))"

section \<open>Synchronisation and conflicts\<close>

definition sync_from_proxmox_vm ::
    "int \<Rightarrow> int \<Rightarrow> int \<Rightarrow> int \<Rightarrow> string \<Rightarrow> string \<Rightarrow> string \<Rightarrow> string \<Rightarrow> string option \<Rightarrow> string \<Rightarrow>
     string option \<Rightarrow> string \<Rightarrow> ipam_state \<Rightarrow> py_exc + alloc_result" where
  "sync_from_proxmox_vm now nid server_id vmid vm_name vm_type ip node mac synced_by target_interface
       assignment_kind st =
     (case find_allocation ip st of
        Some existing \<Rightarrow>
          (let belongs_to_other = (a_vmid existing \<noteq> None \<and>
                 (a_server_id existing, a_vmid existing) \<noteq> (Some server_id, Some vmid))
           in if belongs_to_other \<and> guest_exists (a_server_id existing) (a_vmid existing) st
              then Inr (Inl (LinkedToOther ip (or_unknown (a_resource_name existing)) (the (a_vmid existing))), st)
              else if a_vmid existing \<noteq> Some vmid \<or> a_server_id existing \<noteq> Some server_id
              then Inr (update_allocation ip (Some synced_by)
                     [UServer (Some server_id), UVmid (Some vmid), UNode (Some node), UResType (Some vm_type),
                      UResName (Some vm_name), UMac mac, ULastSeen (Some now)] st)
              else let e1 = existing\<lparr>a_last_seen := Some now\<rparr>;
                       e2 = (if \<not> truthy_str (a_resource_name e1) \<and> vm_name \<noteq> [] then e1\<lparr>a_resource_name := Some vm_name\<rparr> else e1);
                       e3 = (if \<not> truthy_str (a_node e2) \<and> node \<noteq> [] then e2\<lparr>a_node := Some node\<rparr> else e2);
                       e4 = (if \<not> truthy_str (a_resource_type e3) \<and> vm_type \<noteq> [] then e3\<lparr>a_resource_type := Some vm_type\<rparr> else e3);
                       e5 = (if truthy_str mac \<and> \<not> truthy_str (a_mac_address e4) then e4\<lparr>a_mac_address := mac\<rparr> else e4)
                in Inr (Inr e5, store_allocation e5 st))
      | None \<Rightarrow>
          (let hp = has_primary (Some server_id) (Some vmid) st in
           allocate_ip ((request_for ip nid)\<lparr>rq_resource_type := Some vm_type, rq_resource_name := Some vm_name,
             rq_server_id := Some server_id, rq_vmid := Some vmid, rq_node := Some node,
             rq_mac_address := mac, rq_allocated_by := Some synced_by,
             rq_notes := Some ''Auto-synced from Proxmox'', rq_is_primary := Some (\<not> hp),
             rq_assignment_kind := (if \<not> hp then ''primary'' else assignment_kind),
             rq_target_interface := target_interface\<rparr>) st))"

definition detect_conflicts :: "int option \<Rightarrow> ipam_state \<Rightarrow> (string \<times> ipam_allocation list) list" where
  "detect_conflicts nid st =
     (let rows = (if truthy_int nid then filter (\<lambda>a. Some (a_network_id a) = nid) (allocations st) else allocations st);
          ip_groups = fold (\<lambda>a d. AList.update (a_ip_address a)
             ((case map_of d (a_ip_address a) of None \<Rightarrow> [] | Some as \<Rightarrow> as) @ [a]) d) rows []
      in filter (\<lambda>(ip, as). 1 < length as) ip_groups)"

end
