(* ===== verification/IpamProps.thy ===== *)
theory IpamProps
  imports Ipam
begin

text \<open>
  Properties of the address management of Ipam: the invariant of the allocation table and
  the append-only history along every run, the search for a free address, allocation, release,
  primary addresses, pool ranges, conflicts.
\<close>

section \<open>Frames\<close>

lemma log_history_frame [simp]:
  "allocations (log_history ip nid act old new a by notes st) = allocations st"
  "next_allocation_id (log_history ip nid act old new a by notes st) = next_allocation_id st"
  "networks (log_history ip nid act old new a by notes st) = networks st"
  "pools (log_history ip nid act old new a by notes st) = pools st"
  "vm_instances (log_history ip nid act old new a by notes st) = vm_instances st"
  by (simp_all add: log_history_def)

lemma log_releases_frame [simp]:
  "allocations (log_releases sid by as st) = allocations st"
  "next_allocation_id (log_releases sid by as st) = next_allocation_id st"
  by (induction as arbitrary: st) simp_all

lemma add_allocation_frame [simp]:
  "allocations (add_allocation a st) = allocations st @ [a]"
  "next_allocation_id (add_allocation a st) = next_allocation_id st + 1"
  by (simp_all add: add_allocation_def)

lemma store_allocation_frame [simp]:
  "next_allocation_id (store_allocation a st) = next_allocation_id st"
  "history (store_allocation a st) = history st"
  by (simp_all add: store_allocation_def)

lemma new_allocation_fields [simp]:
  "a_id (new_allocation rq pid network st) = next_allocation_id st"
  "a_ip_address (new_allocation rq pid network st) = rq_ip_address rq"
  "a_network_id (new_allocation rq pid network st) = rq_network_id rq"
  "a_server_id (new_allocation rq pid network st) = rq_server_id rq"
  "a_vmid (new_allocation rq pid network st) = rq_vmid rq"
  by (simp_all add: new_allocation_def)

lemma update_set_keys [simp]:
  "a_id (update_set u a) = a_id a" "a_ip_address (update_set u a) = a_ip_address a"
  "a_network_id (update_set u a) = a_network_id a" "a_is_primary (update_set u a) = a_is_primary a"
  by (cases u; simp)+

lemma apply_updates_keys:
  "a_id (fst (apply_updates us a old new)) = a_id a \<and>
   a_ip_address (fst (apply_updates us a old new)) = a_ip_address a \<and>
   a_network_id (fst (apply_updates us a old new)) = a_network_id a \<and>
   a_is_primary (fst (apply_updates us a old new)) = a_is_primary a"
proof (induction us arbitrary: a old new)
  case (Cons u us)
  show ?case
  proof (cases "update_old u a = update_new u")
    case True
    then show ?thesis by (simp only: apply_updates.simps Cons.IH simp_thms if_False)
  next
    case False
    then show ?thesis by (simp only: apply_updates.simps Cons.IH simp_thms if_True update_set_keys)
  qed
qed simp

lemma find_allocation_SomeD:
  "find_allocation ip st = Some a \<Longrightarrow> a \<in> set (allocations st) \<and> a_ip_address a = ip"
  unfolding find_allocation_def by (rule find_SomeD)

lemma find_allocation_None_iff:
  "find_allocation ip st = None \<longleftrightarrow> ip \<notin> a_ip_address ` set (allocations st)"
  by (auto simp: find_allocation_def find_None_iff)

section \<open>The outcome of an allocation\<close>

text \<open>
  An allocation succeeds in one way: the address is free, lies in the network, is not its gateway and
  no pool bound is of another version; then exactly one row is added. In every other case the state is
  unchanged.
\<close>

lemma allocate_ip_cases:
  obtains (raised) "allocate_ip rq st = Inl TypeError"
    | (refused) e where "allocate_ip rq st = Inr (Inl e, st)"
    | (allotted) network net ip pid where
        "find_allocation (rq_ip_address rq) st = None"
        "find_network (rq_network_id rq) st = Some network"
        "ip_network (n_network network) = Some net" "ip_address (rq_ip_address rq) = Some ip"
        "net_contains net ip" "Some (rq_ip_address rq) \<noteq> n_gateway network"
        "allocate_ip rq st =
           Inr (Inr (new_allocation rq pid network st), add_allocation (new_allocation rq pid network st) st)"
proof -
  have exc: "e = TypeError" for e by (cases e) simp
  show ?thesis
  proof (cases "allocate_ip rq st")
    case (Inl e)
    then show ?thesis using raised exc by simp
  next
    case (Inr res)
    then show ?thesis
      using refused allotted
      by (auto simp: allocate_ip_def Let_def split: option.splits if_splits sum.splits)
  qed
qed

section \<open>The invariant of the table and the growth of the history\<close>

definition ipam_inv :: "ipam_state \<Rightarrow> bool" where
  "ipam_inv st \<longleftrightarrow>
     unique_on a_ip_address (allocations st) \<and> unique_on a_id (allocations st) \<and>
     (\<forall>a \<in> set (allocations st). a_id a < next_allocation_id st)"

definition ipam_below :: "ipam_state \<Rightarrow> ipam_state \<Rightarrow> bool" where
  "ipam_below s t \<longleftrightarrow> (\<exists>h. history t = history s @ h) \<and> next_allocation_id s \<le> next_allocation_id t"

text \<open>The calls of the service that change its tables.\<close>

inductive ipam_step :: "ipam_state \<Rightarrow> ipam_state \<Rightarrow> bool" where
  allocate: "allocate_ip rq st = Inr (r, st') \<Longrightarrow> ipam_step st st'"
| auto_allocate: "auto_allocate_ip nid pid rq st = Inr (r, st') \<Longrightarrow> ipam_step st st'"
| release: "release_ip ip by reason st = (r, st') \<Longrightarrow> ipam_step st st'"
| release_vmid: "release_ip_by_vmid sid vmid by reason st = (r, st') \<Longrightarrow> ipam_step st st'"
| release_server: "release_all_by_server sid by st = (n, st') \<Longrightarrow> ipam_step st st'"
| change: "update_allocation ip by us st = (r, st') \<Longrightarrow> ipam_step st st'"
| primary: "set_primary sid vmid aid by st = (r, st') \<Longrightarrow> ipam_step st st'"
| sync: "sync_from_proxmox_vm now nid sid vmid name type ip node mac by ti kind st = Inr (r, st') \<Longrightarrow> ipam_step st st'"

lemma ipam_below_refl [simp]: "ipam_below s s"
  by (simp add: ipam_below_def)

lemma ipam_below_trans: "ipam_below s t \<Longrightarrow> ipam_below t u \<Longrightarrow> ipam_below s u"
  by (auto simp: ipam_below_def)

lemma below_log [simp]:
  "ipam_below st (log_history ip nid act old new a by notes st)"
  by (simp add: ipam_below_def log_history_def)

lemma below_logI [simp]: "ipam_below s t \<Longrightarrow> ipam_below s (log_history ip nid act old new a by notes t)"
  by (rule ipam_below_trans [OF _ below_log])

lemma below_allocations [simp]:
  "ipam_below s (t\<lparr>allocations := as\<rparr>) \<longleftrightarrow> ipam_below s t"
  "ipam_below (t\<lparr>allocations := as\<rparr>) s \<longleftrightarrow> ipam_below t s"
  by (simp_all add: ipam_below_def)

lemma below_releases: "ipam_below st (log_releases sid by as st)"
  by (induction as arbitrary: st) (auto intro: ipam_below_trans [OF below_log])

text \<open>One operation at a time: it keeps the invariant and only appends to the history.\<close>

definition keeps :: "ipam_state \<Rightarrow> ipam_state \<Rightarrow> bool" where
  "keeps s t \<longleftrightarrow> (ipam_inv s \<longrightarrow> ipam_inv t) \<and> ipam_below s t"

lemma keeps_refl [simp]: "keeps s s"
  by (simp add: keeps_def)

lemma keeps_trans: "keeps s t \<Longrightarrow> keeps t u \<Longrightarrow> keeps s u"
  by (auto simp: keeps_def intro: ipam_below_trans)

lemma ipam_inv_log [simp]: "ipam_inv (log_history ip nid act old new a by notes st) = ipam_inv st"
  by (simp add: ipam_inv_def)

lemma keeps_add:
  assumes "find_allocation (a_ip_address a) st = None" and "a_id a = next_allocation_id st"
  shows "keeps st (add_allocation a st)"
proof -
  have "find (\<lambda>b. a_id b = a_id a) (allocations st) = None" if "ipam_inv st"
    using that assms(2) by (auto simp: ipam_inv_def find_None_iff)
  then have "ipam_inv (add_allocation a st)" if "ipam_inv st"
    using that assms by (auto simp: ipam_inv_def unique_on_append find_allocation_def)
  moreover have "ipam_below st (add_allocation a st)"
    by (simp add: add_allocation_def ipam_below_def log_history_def)
  ultimately show ?thesis by (simp add: keeps_def)
qed

lemma keeps_remove: "keeps st (st\<lparr>allocations := remove_first P (allocations st)\<rparr>)"
  using set_remove_first [of P "allocations st"]
  by (auto simp: keeps_def ipam_inv_def unique_on_remove_first)

lemma keeps_store:
  assumes "find_allocation (a_ip_address a) st = Some b" and "a_id a = a_id b"
  shows "keeps st (store_allocation a st)"
proof -
  let ?as = "update_first (\<lambda>b. a_ip_address b = a_ip_address a) (\<lambda>_. a) (allocations st)"
  have ips: "unique_on a_ip_address ?as = unique_on a_ip_address (allocations st)"
    by (rule unique_on_update_first) simp
  have "map a_id (update_first P (\<lambda>_. a) as) = map a_id as" if "find P as = Some b" for P as
    using that assms(2) by (induction as) (auto split: if_splits)
  then have ids: "map a_id ?as = map a_id (allocations st)"
    using assms(1) unfolding find_allocation_def by blast
  then have "(\<forall>c \<in> set ?as. a_id c < n) \<longleftrightarrow> (\<forall>c \<in> set (allocations st). a_id c < n)" for n
    by (rule ball_map_cong [where P = "\<lambda>i. i < n"])
  moreover have "unique_on a_id ?as = unique_on a_id (allocations st)" by (simp only: unique_on_def ids)
  ultimately have "ipam_inv (store_allocation a st) = ipam_inv st"
    using ips unfolding ipam_inv_def store_allocation_def by simp
  moreover have "ipam_below st (store_allocation a st)" by (simp add: ipam_below_def)
  ultimately show ?thesis by (simp add: keeps_def)
qed

lemma keeps_allocate: "allocate_ip rq st = Inr (r, st') \<Longrightarrow> keeps st st'"
  by (rule allocate_ip_cases [of rq st]) (auto intro: keeps_add)

lemma keeps_release: "release_ip ip by reason st = (r, st') \<Longrightarrow> keeps st st'"
proof (cases "find_allocation ip st")
  case (Some a)
  assume "release_ip ip by reason st = (r, st')"
  then obtain old where "st' = (log_history ip (Some (a_network_id a)) ''released'' (Some old) None a by reason st)
      \<lparr>allocations := remove_first (\<lambda>b. a_ip_address b = ip) (allocations st)\<rparr>"
    by (auto simp: release_ip_def Let_def Some)
  then show ?thesis
    using keeps_remove [of "log_history ip (Some (a_network_id a)) ''released'' (Some old) None a by reason st"]
    by (auto simp: keeps_def)
qed (auto simp: release_ip_def)

lemma keeps_release_loop: "release_loop by reason ips rel errs st = (r, st') \<Longrightarrow> keeps st st'"
proof (induction ips arbitrary: rel errs st)
  case (Cons ip ips)
  obtain r1 st1 where r1: "release_ip ip by reason st = (r1, st1)" by fastforce
  then have "keeps st1 st'" using Cons by (cases r1) auto
  with keeps_release [OF r1] show ?case by (rule keeps_trans)
qed simp

lemma keeps_release_vmid: "release_ip_by_vmid sid vmid by reason st = (r, st') \<Longrightarrow> keeps st st'"
  by (auto simp: release_ip_by_vmid_def Let_def split: if_splits prod.splits intro: keeps_release_loop)

lemma keeps_release_server: "release_all_by_server sid by st = (n, st') \<Longrightarrow> keeps st st'"
  using below_releases
  by (auto simp: release_all_by_server_def Let_def keeps_def ipam_inv_def unique_on_filter)

lemma keeps_update: "update_allocation ip by us st = (r, st') \<Longrightarrow> keeps st st'"
proof (cases "find_allocation ip st")
  case (Some a)
  obtain a' old new where ups: "apply_updates us a [] [] = (a', old, new)" by (metis prod_cases3)
  have keys: "a_id a' = a_id a" "a_ip_address a' = ip"
    using apply_updates_keys [of us a "[]" "[]"] find_allocation_SomeD [OF Some] by (simp_all add: ups)
  assume "update_allocation ip by us st = (r, st')"
  then have "st' = store_allocation a' st \<or>
      (\<exists>ov nv. st' = log_history ip (Some (a_network_id a')) ''modified'' ov nv a' by None (store_allocation a' st))"
    by (auto simp: update_allocation_def Some ups Let_def split: if_splits)
  moreover have "keeps st (store_allocation a' st)" using keys Some by (intro keeps_store) auto
  ultimately show ?thesis by (auto simp: keeps_def intro: ipam_below_trans)
qed (auto simp: update_allocation_def)

lemma keeps_set_primary: "set_primary sid vmid aid by st = (r, st') \<Longrightarrow> keeps st st'"
  by (auto simp: set_primary_def Let_def keeps_def ipam_inv_def unique_on_def o_def if_distrib
      intro: ipam_below_trans split: option.splits cong: if_cong)

lemma keeps_sync:
  assumes "sync_from_proxmox_vm now nid sid vmid name type ip node mac by ti kind st = Inr (r, st')"
  shows "keeps st st'"
proof (cases "find_allocation ip st")
  case None
  with assms show ?thesis by (auto simp: sync_from_proxmox_vm_def Let_def intro: keeps_allocate)
next
  case (Some a)
  have "keeps st (store_allocation b st)" if "a_ip_address b = a_ip_address a" "a_id b = a_id a" for b
    using that Some find_allocation_SomeD [OF Some] by (intro keeps_store [where b = a]) simp_all
  with assms show ?thesis
    by (auto simp: sync_from_proxmox_vm_def Some Let_def intro: keeps_update split: if_splits)
qed

lemma ipam_step_keeps: "ipam_step st st' \<Longrightarrow> keeps st st'"
  by (induction rule: ipam_step.induct)
     (auto simp: auto_allocate_ip_def Let_def split: if_splits
       intro: keeps_allocate keeps_release keeps_release_vmid keeps_release_server keeps_update
         keeps_set_primary keeps_sync)

interpretation ipam: monotone_machine ipam_step ipam_inv ipam_below
  by unfold_locales (auto simp: keeps_def intro: ipam_below_trans dest: ipam_step_keeps)

text \<open>C17. Every run of the service keeps the table of allocations sound (no address twice, no id twice, no
  id above the sequence) and only appends to the history: what was logged stays, in order.\<close>

theorem ipam_run_sound:
  assumes "ipam_step\<^sup>*\<^sup>* s t" and "ipam_inv s"
  shows "ipam_inv t \<and> (\<exists>h. history t = history s @ h) \<and> next_allocation_id s \<le> next_allocation_id t"
  using ipam.steps_inv [OF assms] ipam.steps_below [OF assms] by (simp add: ipam_below_def)

section \<open>Allocation\<close>

text \<open>A successful allocation: the address was not allocated, it parses, lies in the network of the
  request and is not its gateway; exactly one row is added, for that address and guest, and one history
  entry. A refused one leaves the state as it was.\<close>

theorem allocate_ip_outcome:
  "(\<forall>a st'. allocate_ip rq st = Inr (Inr a, st') \<longrightarrow>
      rq_ip_address rq \<notin> a_ip_address ` set (allocations st) \<and>
      (\<exists>network net ip. find_network (rq_network_id rq) st = Some network \<and>
         ip_network (n_network network) = Some net \<and> ip_address (rq_ip_address rq) = Some ip \<and>
         net_contains net ip \<and> n_gateway network \<noteq> Some (rq_ip_address rq)) \<and>
      allocations st' = allocations st @ [a] \<and> a_ip_address a = rq_ip_address rq \<and>
      a_server_id a = rq_server_id rq \<and> a_vmid a = rq_vmid rq \<and>
      (\<exists>h. history st' = history st @ [h] \<and> h_ip_address h = rq_ip_address rq \<and> h_action h = ''allocated'')) \<and>
   (\<forall>e st'. allocate_ip rq st = Inr (Inl e, st') \<longrightarrow> st' = st)"
proof (cases rule: allocate_ip_cases [of rq st])
  case (allotted network net ip pid)
  then have "rq_ip_address rq \<notin> a_ip_address ` set (allocations st)"
    by (simp add: find_allocation_None_iff)
  with allotted show ?thesis
    by (auto simp: add_allocation_def log_history_def)
qed simp_all

section \<open>The search\<close>

lemma search_pools_Some:
  "search_pools occ ps = Some ip \<Longrightarrow> ip \<notin> set occ \<and> (\<exists>p \<in> set ps. ip \<in> set (pool_candidates p))"
  by (induction ps) (auto split: option.splits dest!: find_SomeD)

lemma search_pools_None:
  "search_pools occ ps = None \<longleftrightarrow> (\<forall>p \<in> set ps. set (pool_candidates p) \<subseteq> set occ)"
  by (induction ps) (auto simp: find_None_iff split: option.splits dest: find_SomeD)

lemma set_pools_to_search:
  "p \<in> set (pools_to_search nid pid st) \<Longrightarrow> p \<in> set (pools st) \<and> p_network_id p = nid \<and> p_is_active p \<and> p_auto_assign p"
  by (auto simp: pools_to_search_def split: if_splits)

definition guest_addresses :: "ipam_state \<Rightarrow> string list" where
  "guest_addresses st =
     truthy_texts (map vi_ip_address (filter (\<lambda>v. \<not> vi_deleted v) (vm_instances st))) @
     truthy_texts (server_addresses st)"

text \<open>C31. The offered address is free: no allocation of any network has it, it is not the gateway, and it
  comes from an active auto-assign pool of the network, or, with a network scan, from the hosts of the
  network and is then the address of no live guest and no server either.\<close>

theorem next_available_ip_free:
  assumes "get_next_available_ip nid pid scan st = Some ip"
  shows "ip \<notin> a_ip_address ` set (allocations st) \<and>
    (\<exists>network. find (\<lambda>n. n_id n = nid \<and> n_is_active n) (networks st) = Some network \<and>
       (ip \<noteq> [] \<longrightarrow> n_gateway network \<noteq> Some ip) \<and>
       ((\<exists>p \<in> set (pools st). p_network_id p = nid \<and> p_is_active p \<and> p_auto_assign p \<and>
           ip \<in> set (pool_candidates p)) \<or>
        scan \<and> ip \<notin> set (guest_addresses st) \<and>
        (\<exists>net h. ip_network (n_network network) = Some net \<and> h \<in> set (net_hosts net) \<and> ip = print_ip h)))"
proof -
  obtain network where n: "find (\<lambda>n. n_id n = nid \<and> n_is_active n) (networks st) = Some network"
    using assms by (auto simp: get_next_available_ip_def split: option.splits)
  have occ: "ip \<notin> a_ip_address ` set (allocations st) \<and> (ip \<noteq> [] \<longrightarrow> n_gateway network \<noteq> Some ip)"
    if "ip \<notin> set (occupied_addresses network st)"
    using that by (auto simp: occupied_addresses_def)
  show ?thesis
  proof (cases "search_pools (occupied_addresses network st) (pools_to_search nid pid st)")
    case (Some ip')
    with assms n have "ip' = ip" by (auto simp: get_next_available_ip_def Let_def split: if_splits)
    then have *: "ip \<notin> set (occupied_addresses network st) \<and>
        (\<exists>p \<in> set (pools_to_search nid pid st). ip \<in> set (pool_candidates p))"
      using search_pools_Some [OF Some] by simp
    then obtain p where "p \<in> set (pools_to_search nid pid st)" "ip \<in> set (pool_candidates p)" by blast
    then show ?thesis using * occ n set_pools_to_search by blast
  next
    case None
    with assms n obtain net where scan: "scan" "ip_network (n_network network) = Some net"
      and f: "find (\<lambda>ip. ip \<notin> set (occupied_addresses network st @ guest_addresses st))
                (map print_ip (net_hosts net)) = Some ip"
      by (auto simp: get_next_available_ip_def Let_def guest_addresses_def split: if_splits option.splits)
    from find_SomeD [OF f] have "ip \<notin> set (occupied_addresses network st)" "ip \<notin> set (guest_addresses st)"
      "\<exists>h \<in> set (net_hosts net). ip = print_ip h" by auto
    then show ?thesis using occ n scan by blast
  qed
qed

text \<open>No free address is missed: when the search over the pools of an active network finds nothing,
  every address of every searched pool is allocated or the gateway; with a network scan every host of
  the network is allocated, the gateway, or the address of a live guest or a server.\<close>

theorem next_available_ip_complete:
  assumes "get_next_available_ip nid pid scan st = None"
    and "find (\<lambda>n. n_id n = nid \<and> n_is_active n) (networks st) = Some network"
  shows "(\<forall>p \<in> set (pools_to_search nid pid st). \<forall>ip \<in> set (pool_candidates p).
            ip \<in> a_ip_address ` set (allocations st) \<or> n_gateway network = Some ip) \<and>
         (scan \<and> \<not> truthy_int pid \<longrightarrow>
            (\<forall>net. ip_network (n_network network) = Some net \<longrightarrow>
               (\<forall>h \<in> set (net_hosts net). print_ip h \<in> a_ip_address ` set (allocations st) \<or>
                  n_gateway network = Some (print_ip h) \<or> print_ip h \<in> set (guest_addresses st))))"
proof -
  have occ: "ip \<in> a_ip_address ` set (allocations st) \<or> n_gateway network = Some ip"
    if "ip \<in> set (occupied_addresses network st)" for ip
    using that by (auto simp: occupied_addresses_def split: option.splits if_splits)
  have none: "search_pools (occupied_addresses network st) (pools_to_search nid pid st) = None"
    using assms by (auto simp: get_next_available_ip_def Let_def split: if_splits option.splits)
  have scanned: "print_ip h \<in> set (occupied_addresses network st) \<or> print_ip h \<in> set (guest_addresses st)"
    if "scan" "\<not> truthy_int pid" "ip_network (n_network network) = Some net" "h \<in> set (net_hosts net)" for net h
    using assms none that
    by (auto simp: get_next_available_ip_def Let_def guest_addresses_def find_None_iff)
  show ?thesis
    using none scanned occ unfolding search_pools_None by blast
qed

section \<open>Automatic allocation\<close>

text \<open>
  What a validated IPv4 pool table looks like: the active pools of the network have IPv4 bounds inside
  the network.
\<close>

definition pool_bounds_ok :: "ip_net \<Rightarrow> ipam_pool \<Rightarrow> bool" where
  "pool_bounds_ok net p =
     (case ip_address (p_range_start p) of
        Some (IPv4 s) \<Rightarrow>
          (case ip_address (p_range_end p) of
             Some (IPv4 e) \<Rightarrow> net_contains net (IPv4 s) \<and> net_contains net (IPv4 e)
           | _ \<Rightarrow> False)
      | _ \<Rightarrow> False)"

lemma pool_bounds_okE:
  assumes "pool_bounds_ok net p"
  obtains s e where "ip_address (p_range_start p) = Some (IPv4 s)" "ip_address (p_range_end p) = Some (IPv4 e)"
    "net_contains net (IPv4 s)" "net_contains net (IPv4 e)" "s < 2 ^ 32" "e < 2 ^ 32"
proof -
  from assms obtain s e where se: "ip_address (p_range_start p) = Some (IPv4 s)"
    "ip_address (p_range_end p) = Some (IPv4 e)" "net_contains net (IPv4 s) \<and> net_contains net (IPv4 e)"
    by (cases "ip_address (p_range_start p)"; cases "the (ip_address (p_range_start p))";
        cases "ip_address (p_range_end p)"; cases "the (ip_address (p_range_end p))")
       (simp_all add: pool_bounds_ok_def)
  then have "s < 2 ^ 32" "e < 2 ^ 32" unfolding ip_address_v4_iff by simp_all
  with se show ?thesis using that by blast
qed

lemma pool_candidates_v4:
  assumes "ip_address (p_range_start p) = Some (IPv4 s)" and "ip_address (p_range_end p) = Some (IPv4 e)"
  shows "pool_candidates p = map print_v4 [s..<e + 1]"
proof -
  have e: "e < 2 ^ 32" using assms(2) by (simp only: ip_address_v4_iff)
  have "List.map_filter (\<lambda>n. map_option print_ip (ip_address_of_int n)) ns = map print_v4 ns"
    if "\<forall>n \<in> set ns. n < 2 ^ 32" for ns
    using that by (induction ns) (simp_all add: ip_address_of_int_def)
  then show ?thesis using e by (simp add: pool_candidates_def assms)
qed

lemma candidate_in_net:
  assumes "pool_bounds_ok net p" and "net_wf net" and "ip \<in> set (pool_candidates p)"
  obtains n where "ip = print_v4 n" "ip_address ip = Some (IPv4 n)" "net_contains net (IPv4 n)" "n < 2 ^ 32"
proof -
  obtain s e where se: "ip_address (p_range_start p) = Some (IPv4 s)"
    "ip_address (p_range_end p) = Some (IPv4 e)" "net_contains net (IPv4 s)" "net_contains net (IPv4 e)"
    "s < 2 ^ 32" "e < 2 ^ 32"
    using assms(1) by (rule pool_bounds_okE)
  then obtain n where n: "ip = print_v4 n" "s \<le> n" "n \<le> e"
    using assms(3) by (auto simp: pool_candidates_v4)
  then have "net_contains net (IPv4 n)" using se assms(2) by (simp add: net_contains_iff)
  moreover have "ip_address ip = Some (IPv4 n)" using n se by (simp add: ip_address_v4_iff)
  ultimately show ?thesis using that n se by simp
qed

lemma detect_pool_v4:
  "list_all (pool_bounds_ok net) ps \<Longrightarrow> \<exists>r. detect_pool (IPv4 n) ps = Inr r"
  by (induction ps)
     (auto elim!: pool_bounds_okE simp: in_range_def ip_le_def ip_lt_def split: option.splits)

lemma find_by_id:
  "unique_on n_id ns \<Longrightarrow> find (\<lambda>n. n_id n = i \<and> P n) ns = Some n \<Longrightarrow> find (\<lambda>n. n_id n = i) ns = Some n"
  using unique_find [of n_id ns n] by (auto dest: find_SomeD)

lemma allocate_ip_ok:
  assumes "find_allocation (rq_ip_address rq) st = None"
    and "find_network (rq_network_id rq) st = Some network" and "ip_network (n_network network) = Some net"
    and "ip_address (rq_ip_address rq) = Some ip" and "net_contains net ip"
    and "Some (rq_ip_address rq) \<noteq> n_gateway network"
    and "detect_pool ip (filter (\<lambda>p. p_network_id p = rq_network_id rq \<and> p_is_active p) (pools st)) = Inr r"
  shows "\<exists>q. allocate_ip rq st = Inr (Inr (new_allocation rq q network st),
                                     add_allocation (new_allocation rq q network st) st)"
  using assms by (cases "truthy_int (rq_pool_id rq)") (auto simp: allocate_ip_def Let_def)

text \<open>C18. Automatic allocation over IPv4 pools with bounds in the network: when the search offers an
  address the allocation of it succeeds, so the answer is never \<open>already allocated\<close>, \<open>gateway\<close> or
  \<open>not within\<close>, and no exception is raised; when it offers none, the answer is \<open>no available address\<close>.\<close>

theorem auto_allocate_ip_succeeds:
  assumes "unique_on n_id (networks st)"
    and "find_network nid st = Some network" and "ip_network (n_network network) = Some net"
    and "list_all (\<lambda>p. p_network_id p = nid \<and> p_is_active p \<longrightarrow> pool_bounds_ok net p) (pools st)"
  shows "case get_next_available_ip nid pid False st of
      None \<Rightarrow> auto_allocate_ip nid pid rq st = Inr (Inl (NoAvailable nid), st)
    | Some ip \<Rightarrow> (\<exists>a st'. auto_allocate_ip nid pid rq st = Inr (Inr a, st') \<and>
                  a_ip_address a = ip \<and> allocations st' = allocations st @ [a])"
proof (cases "get_next_available_ip nid pid False st")
  case None
  then show ?thesis by (simp add: auto_allocate_ip_def)
next
  case (Some ip)
  from next_available_ip_free [OF Some] obtain network' p where
    free: "ip \<notin> a_ip_address ` set (allocations st)"
    and nw: "find (\<lambda>n. n_id n = nid \<and> n_is_active n) (networks st) = Some network'"
    and gw: "ip \<noteq> [] \<longrightarrow> n_gateway network' \<noteq> Some ip"
    and p: "p \<in> set (pools st)" "p_network_id p = nid" "p_is_active p" "ip \<in> set (pool_candidates p)"
    by blast
  have same: "network' = network"
    using find_by_id [OF assms(1) nw] assms(2) by (simp add: find_network_def)
  have "pool_bounds_ok net p" using assms(4) p by (simp add: list_all_iff)
  then obtain n where n: "ip = print_v4 n" "ip_address ip = Some (IPv4 n)" "net_contains net (IPv4 n)"
    using candidate_in_net [OF _ ip_network_wf [OF assms(3)] p(4)] by blast
  have ne: "ip \<noteq> []" by (simp add: n(1) print_v4_def)
  have "list_all (pool_bounds_ok net) (filter (\<lambda>p. p_network_id p = nid \<and> p_is_active p) (pools st))"
    using assms(4) by (auto simp: list_all_iff)
  then obtain r where r: "detect_pool (IPv4 n) (filter (\<lambda>p. p_network_id p = nid \<and> p_is_active p) (pools st)) = Inr r"
    using detect_pool_v4 by blast
  have "find_allocation ip st = None" using free by (simp add: find_allocation_None_iff)
  moreover have "Some ip \<noteq> n_gateway network" using gw ne same by auto
  ultimately obtain q where "allocate_ip (auto_request ip nid pid rq) st =
      Inr (Inr (new_allocation (auto_request ip nid pid rq) q network st),
           add_allocation (new_allocation (auto_request ip nid pid rq) q network st) st)"
    using allocate_ip_ok [of "auto_request ip nid pid rq" st network net "IPv4 n" r] assms(2,3) n(2,3) r
    by (auto simp: auto_request_def request_for_def)
  then show ?thesis
    using Some ne by (simp add: auto_allocate_ip_def auto_request_def request_for_def)
qed

section \<open>Release\<close>

lemma find_allocation_remove:
  "ipam_inv st \<Longrightarrow> find_allocation ip st = Some a \<Longrightarrow>
   release_ip ip by reason st = (Inr (), snd (release_ip ip by reason st)) \<and>
   allocations (snd (release_ip ip by reason st)) = filter (\<lambda>b. a_ip_address b \<noteq> ip) (allocations st)"
  by (simp add: release_ip_def Let_def ipam_inv_def unique_remove_first_filter)

lemma release_loop_all:
  assumes "ipam_inv st" and "distinct ips" and "set ips \<subseteq> a_ip_address ` set (allocations st)"
  shows "\<exists>st'. release_loop by reason ips rel errs st = ((rel @ ips, errs), st') \<and>
     allocations st' = filter (\<lambda>b. a_ip_address b \<notin> set ips) (allocations st)"
  using assms
proof (induction ips arbitrary: st rel)
  case (Cons ip ips)
  then obtain a where a: "find_allocation ip st = Some a"
    by (metis find_allocation_None_iff list.set_intros(1) option.exhaust subsetD)
  obtain st1 where st1: "release_ip ip by reason st = (Inr (), st1)"
    "allocations st1 = filter (\<lambda>b. a_ip_address b \<noteq> ip) (allocations st)"
    using find_allocation_remove [OF Cons.prems(1) a] by (metis snd_conv)
  have "ipam_inv st1" using keeps_release [OF st1(1)] Cons.prems(1) by (simp add: keeps_def)
  moreover have "set ips \<subseteq> a_ip_address ` set (allocations st1)"
  proof
    fix x
    assume x: "x \<in> set ips"
    then obtain b where b: "b \<in> set (allocations st)" "x = a_ip_address b" using Cons.prems(3) by auto
    then show "x \<in> a_ip_address ` set (allocations st1)" using x Cons.prems(2) by (auto simp: st1(2))
  qed
  ultimately obtain st' where "release_loop by reason ips (rel @ [ip]) errs st1 = ((rel @ ip # ips, errs), st')"
    "allocations st' = filter (\<lambda>b. a_ip_address b \<notin> set ips) (allocations st1)"
    using Cons.IH [of st1 "rel @ [ip]"] Cons.prems(2) by auto
  then show ?case by (auto simp: st1 intro!: exI [of _ st'] filter_cong)
qed simp

text \<open>Deleting a guest that has addresses frees every one of them, the held ones of that guest, reports
  them with the primary first, and touches no other allocation: none of another server's guest with the
  same VMID, and none that is only recorded with another status.\<close>

theorem release_ip_by_vmid_frees:
  assumes "ipam_inv st" and "find_allocations_by_resource sid vmid st \<noteq> []"
  shows "\<exists>st'. release_ip_by_vmid sid vmid by reason st =
      (Released (map a_ip_address (find_allocations_by_resource sid vmid st)), st') \<and>
    allocations st' =
      filter (\<lambda>a. \<not> (a_server_id a = Some sid \<and> a_vmid a = Some vmid \<and> is_held a)) (allocations st) \<and>
    find_allocations_by_resource sid vmid st' = []"
proof -
  let ?P = "\<lambda>a. a_server_id a = Some sid \<and> a_vmid a = Some vmid \<and> is_held a"
  let ?rows = "find_allocations_by_resource sid vmid st"
  have rows: "set ?rows = {a \<in> set (allocations st). ?P a}"
    by (auto simp: find_allocations_by_resource_def)
  have inj: "inj_on a_ip_address (set (allocations st))" and dist: "distinct (allocations st)"
    using assms(1) by (simp_all add: ipam_inv_def unique_on_def distinct_map)
  have "distinct (map a_ip_address ?rows)"
    using rows inj dist by (auto simp: distinct_map find_allocations_by_resource_def intro: inj_on_subset)
  then obtain st' where st': "release_loop by reason (map a_ip_address ?rows) [] [] st = ((map a_ip_address ?rows, []), st')"
    "allocations st' = filter (\<lambda>b. a_ip_address b \<notin> set (map a_ip_address ?rows)) (allocations st)"
    using release_loop_all [OF assms(1), of "map a_ip_address ?rows" "by" reason "[]" "[]"] rows by auto
  have "filter (\<lambda>b. a_ip_address b \<notin> set (map a_ip_address ?rows)) (allocations st) =
      filter (\<lambda>a. \<not> ?P a) (allocations st)"
    using inj by (intro filter_cong) (auto simp: rows inj_on_def)
  then have remaining: "allocations st' = filter (\<lambda>a. \<not> ?P a) (allocations st)" using st'(2) by simp
  then have "find_allocations_by_resource sid vmid st' = []"
    by (simp add: find_allocations_by_resource_def)
  then show ?thesis using remaining st'(1) assms(2)
    by (intro exI [of _ st']) (simp add: release_ip_by_vmid_def Let_def)
qed

section \<open>Primary addresses\<close>

definition primaries :: "int option \<Rightarrow> int option \<Rightarrow> ipam_state \<Rightarrow> ipam_allocation list" where
  "primaries sid vmid st = filter (\<lambda>a. a_server_id a = sid \<and> a_vmid a = vmid \<and> a_is_primary a) (allocations st)"

lemma primaries_set_same:
  "filter (\<lambda>a. a_server_id a = s \<and> a_vmid a = v \<and> a_is_primary a)
     (map (\<lambda>a. if a_server_id a = s \<and> a_vmid a = v then a\<lparr>a_is_primary := (a_id a = aid)\<rparr> else a) as) =
   map (\<lambda>a. a\<lparr>a_is_primary := True\<rparr>) (filter (\<lambda>a. (a_server_id a = s \<and> a_vmid a = v) \<and> a_id a = aid) as)"
proof (induction as)
  case (Cons a as)
  then show ?case by (cases "a_server_id a = s \<and> a_vmid a = v") auto
qed simp

lemma primaries_set_other:
  "(sid, vmid) \<noteq> (s, v) \<Longrightarrow>
   filter (\<lambda>a. a_server_id a = sid \<and> a_vmid a = vmid \<and> a_is_primary a)
     (map (\<lambda>a. if a_server_id a = s \<and> a_vmid a = v then a\<lparr>a_is_primary := (a_id a = aid)\<rparr> else a) as) =
   filter (\<lambda>a. a_server_id a = sid \<and> a_vmid a = vmid \<and> a_is_primary a) as"
proof (induction as)
  case (Cons a as)
  then show ?case by (cases "a_server_id a = s \<and> a_vmid a = v") auto
qed simp

lemma filter_id_unique:
  "unique_on a_id as \<Longrightarrow> t \<in> set as \<Longrightarrow> P t \<Longrightarrow> filter (\<lambda>a. P a \<and> a_id a = a_id t) as = [t]"
proof (induction as)
  case (Cons a as)
  then show ?case
    by (cases "a = t") (auto simp: unique_on_def filter_empty_conv rev_image_eqI)
qed simp

lemma set_primary_unknown:
  assumes "find (\<lambda>a. a_id a = aid) (filter (\<lambda>a. a_server_id a = Some sid \<and> a_vmid a = Some vmid) (allocations st)) = None"
  shows "set_primary sid vmid aid by st = (Inl NotThisGuest, st)"
  using assms by (simp add: set_primary_def)

lemma set_primary_known:
  assumes "ipam_inv st"
    and "find (\<lambda>a. a_id a = aid) (filter (\<lambda>a. a_server_id a = Some sid \<and> a_vmid a = Some vmid) (allocations st)) = Some t"
  obtains st' where "set_primary sid vmid aid by st = (Inr (t\<lparr>a_is_primary := True\<rparr>), st')"
    "a_id t = aid" "a_server_id t = Some sid" "a_vmid t = Some vmid"
    "primaries (Some sid) (Some vmid) st' = [t\<lparr>a_is_primary := True\<rparr>]"
    "\<forall>s v. (s, v) \<noteq> (Some sid, Some vmid) \<longrightarrow> primaries s v st' = primaries s v st"
proof -
  obtain st' where st': "set_primary sid vmid aid by st = (Inr (t\<lparr>a_is_primary := True\<rparr>), st')"
    "allocations st' = map (\<lambda>a. if a_server_id a = Some sid \<and> a_vmid a = Some vmid
       then a\<lparr>a_is_primary := (a_id a = aid)\<rparr> else a) (allocations st)"
    by (simp add: set_primary_def assms(2))
  have t: "t \<in> set (allocations st)" "a_server_id t = Some sid" "a_vmid t = Some vmid" "a_id t = aid"
    using find_SomeD [OF assms(2)] by auto
  then have "filter (\<lambda>a. (a_server_id a = Some sid \<and> a_vmid a = Some vmid) \<and> a_id a = aid) (allocations st) = [t]"
    using assms(1) filter_id_unique [of "allocations st" t "\<lambda>a. a_server_id a = Some sid \<and> a_vmid a = Some vmid"]
    by (simp add: ipam_inv_def)
  then have "primaries (Some sid) (Some vmid) st' = [t\<lparr>a_is_primary := True\<rparr>]"
    unfolding primaries_def st'(2) primaries_set_same by simp
  moreover have "\<forall>s v. (s, v) \<noteq> (Some sid, Some vmid) \<longrightarrow> primaries s v st' = primaries s v st"
    unfolding primaries_def st'(2) using primaries_set_other by blast
  ultimately show ?thesis using that st'(1) t by blast
qed

text \<open>Choosing the primary address of a guest: afterwards the guest has exactly one primary allocation,
  the chosen one; the primaries of every other guest are what they were, and a choice that does not
  belong to the guest changes nothing.\<close>

theorem set_primary_exactly_one:
  assumes "ipam_inv st"
  shows "case set_primary sid vmid aid by st of
      (Inr a, st') \<Rightarrow>
        a_id a = aid \<and> a_server_id a = Some sid \<and> a_vmid a = Some vmid \<and>
        primaries (Some sid) (Some vmid) st' = [a] \<and>
        (\<forall>s v. (s, v) \<noteq> (Some sid, Some vmid) \<longrightarrow> primaries s v st' = primaries s v st)
    | (Inl e, st') \<Rightarrow>
        e = NotThisGuest \<and> st' = st \<and>
        (\<forall>a \<in> set (allocations st). a_id a = aid \<longrightarrow> \<not> (a_server_id a = Some sid \<and> a_vmid a = Some vmid))"
proof (cases "find (\<lambda>a. a_id a = aid) (filter (\<lambda>a. a_server_id a = Some sid \<and> a_vmid a = Some vmid) (allocations st))")
  case None
  then have "\<forall>a \<in> set (allocations st). a_id a = aid \<longrightarrow> \<not> (a_server_id a = Some sid \<and> a_vmid a = Some vmid)"
    by (auto simp: find_None_iff)
  then show ?thesis by (simp add: set_primary_unknown [OF None])
next
  case (Some t)
  obtain st' where "set_primary sid vmid aid by st = (Inr (t\<lparr>a_is_primary := True\<rparr>), st')"
    "a_id t = aid" "a_server_id t = Some sid" "a_vmid t = Some vmid"
    "primaries (Some sid) (Some vmid) st' = [t\<lparr>a_is_primary := True\<rparr>]"
    "\<forall>s v. (s, v) \<noteq> (Some sid, Some vmid) \<longrightarrow> primaries s v st' = primaries s v st"
    by (rule set_primary_known [OF assms Some])
  then show ?thesis by simp
qed

text \<open>The first address of a guest becomes its primary one by itself, and only the first.\<close>

definition primaries_ok :: "ipam_state \<Rightarrow> bool" where
  "primaries_ok st \<longleftrightarrow> (\<forall>s v. v \<noteq> None \<longrightarrow> length (primaries s v st) \<le> 1)"

lemma has_primary_iff: "v \<noteq> None \<Longrightarrow> has_primary s v st \<longleftrightarrow> primaries s v st \<noteq> []"
  by (auto simp: has_primary_def primaries_def list_ex_iff filter_empty_conv)

lemma primaries_add:
  "primaries s v (add_allocation a st) =
     primaries s v st @ (if a_server_id a = s \<and> a_vmid a = v \<and> a_is_primary a then [a] else [])"
  by (simp add: primaries_def)

lemma primaries_log [simp]: "primaries s v (log_history ip nid act old new a by notes st) = primaries s v st"
  by (simp add: primaries_def)

lemma filter_filter_le: "length (filter P (filter Q xs)) \<le> length (filter P xs)"
  by (induction xs) auto

text \<open>C32. At most one primary address per guest: kept by every allocation that leaves the flag to the
  service, by automatic allocation, by choosing a primary and by releasing; and an allocation of kind
  \<open>primary\<close> for a guest without a primary address makes the new address the primary one.\<close>

theorem primary_at_most_one:
  assumes "primaries_ok st" and "ipam_inv st"
  shows "(rq_is_primary rq = None \<and> allocate_ip rq st = Inr (r, st') \<longrightarrow> primaries_ok st') \<and>
    (auto_allocate_ip nid pid rq st = Inr (r, st') \<longrightarrow> primaries_ok st') \<and>
    primaries_ok (snd (set_primary sid vmid aid by st)) \<and>
    primaries_ok (snd (release_ip ip by reason st)) \<and>
    (\<forall>a st'. allocate_ip rq st = Inr (Inr a, st') \<and> rq_is_primary rq = None \<and>
       rq_assignment_kind rq = ''primary'' \<and> rq_vmid rq \<noteq> None \<and> primaries (rq_server_id rq) (rq_vmid rq) st = []
       \<longrightarrow> primaries (rq_server_id rq) (rq_vmid rq) st' = [a])"
proof -
  have add: "primaries_ok (add_allocation (new_allocation q p network st) st)" if "rq_is_primary q = None" for q p network
  proof -
    have "a_is_primary (new_allocation q p network st) \<longrightarrow>
        rq_vmid q \<noteq> None \<and> primaries (rq_server_id q) (rq_vmid q) st = []"
      using that by (auto simp: new_allocation_def has_primary_iff)
    then show ?thesis using assms(1) by (auto simp: primaries_ok_def primaries_add)
  qed
  have alloc: "primaries_ok st'" if "rq_is_primary q = None" "allocate_ip q st = Inr (r, st')" for q r st'
    using that assms(1) add by (cases rule: allocate_ip_cases [of q st]) auto
  have chosen: "primaries_ok (snd (set_primary sid vmid aid by st))"
  proof (cases "find (\<lambda>a. a_id a = aid) (filter (\<lambda>a. a_server_id a = Some sid \<and> a_vmid a = Some vmid) (allocations st))")
    case None
    then show ?thesis using assms(1) by (simp add: set_primary_unknown)
  next
    case (Some t)
    obtain st' where "set_primary sid vmid aid by st = (Inr (t\<lparr>a_is_primary := True\<rparr>), st')"
      and eq: "primaries (Some sid) (Some vmid) st' = [t\<lparr>a_is_primary := True\<rparr>]"
        "\<forall>s v. (s, v) \<noteq> (Some sid, Some vmid) \<longrightarrow> primaries s v st' = primaries s v st"
      by (rule set_primary_known [OF assms(2) Some])
    moreover have "length (primaries s v st') \<le> 1" if "v \<noteq> None" for s v
      using eq assms(1) that by (cases "(s, v) = (Some sid, Some vmid)") (auto simp: primaries_ok_def)
    ultimately show ?thesis by (simp add: primaries_ok_def)
  qed
  have released: "primaries_ok (snd (release_ip ip by reason st))"
  proof (cases "find_allocation ip st")
    case (Some a)
    have "length (primaries s v (snd (release_ip ip by reason st))) \<le> length (primaries s v st)" for s v
      unfolding primaries_def find_allocation_remove [OF assms(2) Some, THEN conjunct2]
      by (rule filter_filter_le)
    then show ?thesis using assms(1) by (meson le_trans primaries_ok_def)
  qed (use assms(1) in \<open>simp add: release_ip_def\<close>)
  have "primaries (rq_server_id rq) (rq_vmid rq) st' = [a]"
    if "allocate_ip rq st = Inr (Inr a, st')" "rq_is_primary rq = None" "rq_assignment_kind rq = ''primary''"
      "rq_vmid rq \<noteq> None" "primaries (rq_server_id rq) (rq_vmid rq) st = []" for a st'
    using that by (cases rule: allocate_ip_cases [of rq st])
      (auto simp: primaries_add new_allocation_def has_primary_iff)
  moreover have "auto_allocate_ip nid pid rq st = Inr (r, st') \<longrightarrow> primaries_ok st'"
  proof
    assume "auto_allocate_ip nid pid rq st = Inr (r, st')"
    then have "st' = st \<or> (\<exists>ip. allocate_ip (auto_request ip nid pid rq) st = Inr (r, st'))"
      by (auto simp: auto_allocate_ip_def Let_def split: if_splits)
    moreover have "rq_is_primary (auto_request ip nid pid rq) = None" for ip
      by (simp add: auto_request_def request_for_def)
    ultimately show "primaries_ok st'" using alloc assms(1) by blast
  qed
  ultimately show ?thesis using alloc chosen released by blast
qed

section \<open>Pool ranges\<close>

lemma check_overlaps_disjoint:
  assumes "check_overlaps (IPv4 s) (IPv4 e) ps = Inr None" and "p \<in> set ps"
    and "ip_address (p_range_start p) = Some a" and "ip_address (p_range_end p) = Some b"
  shows "e < ip_int a \<or> ip_int b < s"
  using assms
proof (induction ps)
  case (Cons q qs)
  show ?case
  proof (cases "p = q")
    case True
    with Cons.prems show ?thesis
      by (cases a; cases b) (auto simp: ip_lt_def ip_gt_def split: if_splits bool.splits)
  next
    case False
    have "check_overlaps (IPv4 s) (IPv4 e) qs = Inr None"
      using Cons.prems(1) by (auto split: option.splits bool.splits)
    with False Cons show ?thesis by simp
  qed
qed simp

text \<open>An accepted pool range is sound: it is not reversed, both bounds lie in the network, and it has no
  address in common with any stored pool of the network, active or not, except the one being replaced.\<close>

theorem validate_pool_range_sound:
  assumes "validate_pool_range nid range_start range_end exclude st = Inr None"
    and "ip_address range_start = Some (IPv4 s)" and "ip_address range_end = Some (IPv4 e)"
  shows "s \<le> e \<and>
    (\<exists>network net. find_network nid st = Some network \<and> ip_network (n_network network) = Some net \<and>
       net_contains net (IPv4 s) \<and> net_contains net (IPv4 e)) \<and>
    (\<forall>p \<in> set (pools st). \<forall>a b. p_network_id p = nid \<and> (truthy_int exclude \<longrightarrow> Some (p_id p) \<noteq> exclude) \<and>
       ip_address (p_range_start p) = Some a \<and> ip_address (p_range_end p) = Some b \<longrightarrow>
       {s..e} \<inter> {ip_int a..ip_int b} = {})"
proof -
  let ?ps = "filter (\<lambda>p. p_network_id p = nid \<and>
    (if truthy_int exclude then Some (p_id p) \<noteq> exclude else True)) (pools st)"
  obtain network net where n: "find_network nid st = Some network" "ip_network (n_network network) = Some net"
    using assms by (auto simp: validate_pool_range_def split: option.split_asm)
  have inside: "net_contains net (IPv4 s) \<and> net_contains net (IPv4 e)"
    using assms n by (auto simp: validate_pool_range_def split: if_splits)
  then have gt: "ip_gt (IPv4 s) (IPv4 e) = Some False"
    using assms n by (auto simp: validate_pool_range_def ip_gt_def ip_lt_def split: if_splits option.splits bool.splits)
  then have overlaps: "check_overlaps (IPv4 s) (IPv4 e) ?ps = Inr None"
    using assms n inside by (simp add: validate_pool_range_def)
  have "{s..e} \<inter> {ip_int a..ip_int b} = {}"
    if "p \<in> set (pools st)" "p_network_id p = nid" "truthy_int exclude \<longrightarrow> Some (p_id p) \<noteq> exclude"
      "ip_address (p_range_start p) = Some a" "ip_address (p_range_end p) = Some b" for p a b
  proof -
    have "p \<in> set ?ps" using that(1-3) by simp
    from check_overlaps_disjoint [OF overlaps this that(4,5)] show ?thesis by auto
  qed
  then show ?thesis using n inside gt by (auto simp: ip_gt_def ip_lt_def)
qed

section \<open>Conflicts\<close>

definition group_step :: "ipam_allocation \<Rightarrow> (string, ipam_allocation list) pydict \<Rightarrow> (string, ipam_allocation list) pydict" where
  "group_step a d = AList.update (a_ip_address a)
     ((case map_of d (a_ip_address a) of None \<Rightarrow> [] | Some as \<Rightarrow> as) @ [a]) d"

lemma map_of_groups:
  "map_of (fold group_step rows d) ip =
     (let mine = filter (\<lambda>a. a_ip_address a = ip) rows in
      if mine = [] then map_of d ip else Some ((case map_of d ip of None \<Rightarrow> [] | Some as \<Rightarrow> as) @ mine))"
  by (induction rows arbitrary: d) (auto simp: Let_def group_step_def update_conv' split: option.splits)

lemma groups_wf: "dict_wf d \<Longrightarrow> dict_wf (fold group_step rows d)"
  by (induction rows arbitrary: d) (simp_all add: group_step_def)

lemma detect_conflicts_alt:
  "detect_conflicts nid st =
     filter (\<lambda>(ip, as). 1 < length as)
       (fold group_step (if truthy_int nid then filter (\<lambda>a. Some (a_network_id a) = nid) (allocations st)
                         else allocations st) [])"
  by (simp add: detect_conflicts_def group_step_def [abs_def] Let_def)

lemma at_most_one_row: "unique_on a_ip_address as \<Longrightarrow> length (filter (\<lambda>a. a_ip_address a = i) as) \<le> 1"
  by (induction as) (auto simp: unique_on_def filter_empty_conv image_iff)

text \<open>Conflict detection reports exactly the addresses with more than one allocation, each with all its
  rows; a table that satisfies the invariant has none.\<close>

theorem detect_conflicts_exact:
  "((ip, as) \<in> set (detect_conflicts None st) \<longleftrightarrow>
      as = filter (\<lambda>a. a_ip_address a = ip) (allocations st) \<and> 1 < length as) \<and>
   (ipam_inv st \<longrightarrow> detect_conflicts None st = [])"
proof
  let ?d = "fold group_step (allocations st) []"
  have exact: "(ip, as) \<in> set (detect_conflicts None st) \<longleftrightarrow>
      as = filter (\<lambda>a. a_ip_address a = ip) (allocations st) \<and> 1 < length as" for ip as
  proof -
    have "(ip, as) \<in> set ?d \<longleftrightarrow> map_of ?d ip = Some as"
      using groups_wf [of "[]" "allocations st"] by (simp add: dict_wf_def map_of_eq_Some_iff)
    then show ?thesis by (auto simp: detect_conflicts_alt map_of_groups Let_def split: if_splits)
  qed
  then show "(ip, as) \<in> set (detect_conflicts None st) \<longleftrightarrow>
      as = filter (\<lambda>a. a_ip_address a = ip) (allocations st) \<and> 1 < length as" .
  have "detect_conflicts None st = []" if "ipam_inv st"
  proof -
    have "\<not> 1 < length (filter (\<lambda>a. a_ip_address a = i) (allocations st))" for i
      using that at_most_one_row [of "allocations st" i] by (simp add: ipam_inv_def)
    then have "(i, as) \<notin> set (detect_conflicts None st)" for i as using exact by simp
    then show ?thesis by (metis list.set_intros(1) neq_Nil_conv surj_pair)
  qed
  then show "ipam_inv st \<longrightarrow> detect_conflicts None st = []" ..
qed

section \<open>The properties at a concrete table\<close>

definition sample_row :: "int \<Rightarrow> string \<Rightarrow> int \<Rightarrow> bool \<Rightarrow> ipam_allocation" where
  "sample_row i ip vmid prim =
     \<lparr>a_id = i, a_network_id = 1, a_pool_id = Some 1, a_ip_address = ip, a_mac_address = None,
      a_resource_type = Some ''vm'', a_resource_id = None, a_resource_name = Some ''web'',
      a_server_id = Some 1, a_vmid = Some vmid, a_node = None, a_status = ''allocated'',
      a_allocation_type = ''static'', a_is_primary = prim, a_assignment_kind = ''primary'',
      a_target_interface = None, a_apply_status = None, a_hostname = None, a_fqdn = None,
      a_dns_ptr_record = False, a_allocated_by = None, a_expires_at = None, a_last_seen = None, a_notes = None\<rparr>"

definition sample_pool :: "string \<Rightarrow> ipam_pool" where
  "sample_pool upper_ip = \<lparr>p_id = 1, p_network_id = 1, p_name = ''pool'', p_range_start = ''10.0.0.2'',
     p_range_end = upper_ip, p_auto_assign = True, p_is_active = True\<rparr>"

definition sample_ipam :: ipam_state where
  "sample_ipam =
     \<lparr>networks = [\<lparr>n_id = 1, n_name = ''lan'', n_network = ''10.0.0.0/29'', n_gateway = Some ''10.0.0.1'',
        n_dns_domain = Some ''lan'', n_is_active = True\<rparr>],
      pools = [sample_pool ''10.0.0.4''],
      allocations = [sample_row 1 ''10.0.0.2'' 100 True, sample_row 2 ''10.0.0.3'' 100 False],
      next_allocation_id = 3, history = [], vm_instances = [], server_addresses = []\<rparr>"

lemma sample_addresses:
  "ip_address ''10.0.0.2'' = Some (IPv4 167772162)" "ip_address ''10.0.0.3'' = Some (IPv4 167772163)"
  "ip_address ''10.0.0.4'' = Some (IPv4 167772164)" "ip_address ''10.0.0.5'' = Some (IPv4 167772165)"
  "ip_address ''10.0.0.6'' = Some (IPv4 167772166)"
  by (simp_all add: ip_address_v4_iff print_v4_eval)

lemma sample_network: "ip_network ''10.0.0.0/29'' = Some (Net (IPv4 167772160) 29)"
  using ip_network_v4 [of 167772160 29] by (simp add: print_v4_eval)

lemma sample_candidates:
  "pool_candidates (sample_pool ''10.0.0.4'') = [''10.0.0.2'', ''10.0.0.3'', ''10.0.0.4'']"
  "pool_candidates (sample_pool ''10.0.0.3'') = [''10.0.0.2'', ''10.0.0.3'']"
proof -
  have "pool_candidates (sample_pool ''10.0.0.4'') = map print_v4 [167772162..<167772164 + 1]"
    by (rule pool_candidates_v4) (simp_all add: sample_pool_def sample_addresses)
  then show "pool_candidates (sample_pool ''10.0.0.4'') = [''10.0.0.2'', ''10.0.0.3'', ''10.0.0.4'']"
    by (simp add: upt_rec print_v4_eval)
  have "pool_candidates (sample_pool ''10.0.0.3'') = map print_v4 [167772162..<167772163 + 1]"
    by (rule pool_candidates_v4) (simp_all add: sample_pool_def sample_addresses)
  then show "pool_candidates (sample_pool ''10.0.0.3'') = [''10.0.0.2'', ''10.0.0.3'']"
    by (simp add: upt_rec print_v4_eval)
qed

lemma sample_pool_fields [simp]:
  "p_id (sample_pool e) = 1" "p_network_id (sample_pool e) = 1" "p_is_active (sample_pool e)"
  "p_auto_assign (sample_pool e)" "p_range_start (sample_pool e) = ''10.0.0.2''" "p_range_end (sample_pool e) = e"
  by (simp_all add: sample_pool_def)

lemma sample_row_fields [simp]:
  "a_id (sample_row i ip v b) = i" "a_ip_address (sample_row i ip v b) = ip" "a_is_primary (sample_row i ip v b) = b"
  "a_server_id (sample_row i ip v b) = Some 1" "a_vmid (sample_row i ip v b) = Some v" "is_held (sample_row i ip v b)"
  by (simp_all add: sample_row_def is_held_def)

lemma sample_inv: "ipam_inv sample_ipam"
  by (simp add: ipam_inv_def sample_ipam_def unique_on_def)

lemma sample_next: "get_next_available_ip 1 None False sample_ipam = Some ''10.0.0.4''"
  by (simp add: get_next_available_ip_def sample_ipam_def pools_to_search_def occupied_addresses_def
      sample_candidates)

theorem ipam_run_sound_witness:
  "ipam_inv (snd (release_ip ''10.0.0.2'' None None sample_ipam))"
proof -
  obtain r t where rt: "release_ip ''10.0.0.2'' None None sample_ipam = (r, t)" by fastforce
  then have "ipam_step\<^sup>*\<^sup>* sample_ipam t" by (intro r_into_rtranclp) (rule ipam_step.release)
  from ipam_run_sound [OF this sample_inv] rt show ?thesis by simp
qed

theorem allocate_ip_outcome_witness:
  "\<exists>a st'. allocate_ip (request_for ''10.0.0.4'' 1) sample_ipam = Inr (Inr a, st') \<and>
     allocations st' = allocations sample_ipam @ [a]"
proof -
  have "net_contains (Net (IPv4 167772160) 29) (IPv4 167772164)"
    by (simp add: net_contains_def net_size_def max_prefixlen_def)
  then obtain q where "allocate_ip (request_for ''10.0.0.4'' 1) sample_ipam =
      Inr (Inr (new_allocation (request_for ''10.0.0.4'' 1) q (hd (networks sample_ipam)) sample_ipam),
           add_allocation (new_allocation (request_for ''10.0.0.4'' 1) q (hd (networks sample_ipam)) sample_ipam)
             sample_ipam)"
    using allocate_ip_ok [of "request_for ''10.0.0.4'' 1" sample_ipam "hd (networks sample_ipam)"
        "Net (IPv4 167772160) 29" "IPv4 167772164" "Some 1"]
    by (auto simp: request_for_def sample_ipam_def find_allocation_def find_network_def sample_addresses
        sample_network in_range_def ip_le_def ip_lt_def)
  then show ?thesis
    using allocate_ip_outcome [of "request_for ''10.0.0.4'' 1" sample_ipam] by blast
qed

theorem next_available_ip_free_witness:
  "''10.0.0.4'' \<notin> a_ip_address ` set (allocations sample_ipam)"
  using next_available_ip_free [OF sample_next] by blast

theorem next_available_ip_complete_witness:
  "''10.0.0.2'' \<in> a_ip_address ` set (allocations sample_ipam) \<and>
   ''10.0.0.3'' \<in> a_ip_address ` set (allocations sample_ipam)"
proof -
  let ?st = "sample_ipam\<lparr>pools := [sample_pool ''10.0.0.3'']\<rparr>"
  have "get_next_available_ip 1 None False ?st = None"
    by (simp add: get_next_available_ip_def sample_ipam_def pools_to_search_def occupied_addresses_def
        sample_candidates)
  from next_available_ip_complete [OF this, of "hd (networks sample_ipam)"] show ?thesis
    by (simp add: sample_ipam_def pools_to_search_def sample_candidates)
qed

theorem auto_allocate_ip_succeeds_witness:
  "\<exists>a st'. auto_allocate_ip 1 None (request_for [] 0) sample_ipam = Inr (Inr a, st') \<and> a_ip_address a = ''10.0.0.4''"
  using auto_allocate_ip_succeeds [of sample_ipam 1 "hd (networks sample_ipam)" "Net (IPv4 167772160) 29" None
      "request_for [] 0", unfolded sample_next option.case]
  by (auto simp: sample_ipam_def unique_on_def find_network_def sample_network pool_bounds_ok_def sample_addresses
      net_contains_def net_size_def max_prefixlen_def)

lemma sample_guest: "find_allocations_by_resource 1 100 sample_ipam = allocations sample_ipam"
  by (simp add: find_allocations_by_resource_def sample_ipam_def)

theorem release_ip_by_vmid_frees_witness:
  "fst (release_ip_by_vmid 1 100 None None sample_ipam) = Released [''10.0.0.2'', ''10.0.0.3'']"
proof -
  have ne: "find_allocations_by_resource 1 100 sample_ipam \<noteq> []"
    by (simp add: sample_guest) (simp add: sample_ipam_def)
  show ?thesis
    using release_ip_by_vmid_frees [OF sample_inv ne, of None None]
    by (auto simp: sample_guest) (auto simp: sample_ipam_def)
qed

theorem set_primary_exactly_one_witness:
  "case set_primary 1 100 2 None sample_ipam of
     (Inr a, st') \<Rightarrow> primaries (Some 1) (Some 100) st' = [a] \<and> a_ip_address a = ''10.0.0.3''
   | (Inl e, st') \<Rightarrow> False"
  using set_primary_exactly_one [OF sample_inv, of 1 100 2 None]
  by (auto simp: set_primary_def sample_ipam_def primaries_def)

theorem primary_at_most_one_witness:
  "primaries_ok (snd (set_primary 1 100 2 None sample_ipam))"
proof -
  have "primaries_ok sample_ipam" by (auto simp: primaries_ok_def primaries_def sample_ipam_def)
  from primary_at_most_one [OF this sample_inv] show ?thesis by blast
qed

theorem validate_pool_range_sound_witness:
  "{167772165..167772166} \<inter> {167772162..(167772164 :: nat)} = {}"
proof -
  have "validate_pool_range 1 ''10.0.0.5'' ''10.0.0.6'' None sample_ipam = Inr None"
    by (simp add: validate_pool_range_def sample_ipam_def find_network_def sample_addresses sample_network
        net_contains_def net_size_def max_prefixlen_def ip_gt_def ip_lt_def)
  from validate_pool_range_sound [OF this, of 167772165 167772166]
  have "\<forall>p \<in> set (pools sample_ipam). \<forall>a b. p_network_id p = 1 \<and>
      ip_address (p_range_start p) = Some a \<and> ip_address (p_range_end p) = Some b \<longrightarrow>
      {167772165..167772166} \<inter> {ip_int a..ip_int b} = {}"
    by (simp add: sample_addresses)
  then show ?thesis by (simp add: sample_ipam_def sample_addresses)
qed

theorem detect_conflicts_exact_witness: "detect_conflicts None sample_ipam = []"
  using detect_conflicts_exact sample_inv by blast

section \<open>Deviations\<close>

text \<open>
  Taking over the address of a deleted guest keeps the flag of the old owner: the new guest, which had a
  primary address, then has two.
\<close>

definition taken_over :: ipam_state where
  "taken_over = sample_ipam\<lparr>allocations := [sample_row 1 ''10.0.0.2'' 100 True, sample_row 2 ''10.0.0.3'' 200 True]\<rparr>"

lemma sync_makes_two_primaries:
  "length (primaries (Some 1) (Some 100) taken_over) = 1 \<and> length (primaries (Some 1) (Some 200) taken_over) = 1 \<and>
   (case sync_from_proxmox_vm 0 1 1 200 ''db'' ''vm'' ''10.0.0.2'' ''pve'' None ''system'' None ''primary'' taken_over of
      Inr (Inr a, st') \<Rightarrow> length (primaries (Some 1) (Some 200) st') = 2
    | _ \<Rightarrow> False)"
  by code_simp

text \<open>
  Addresses are compared as texts. An IPv4 address has one text, an IPv6 address several: one address can
  be allocated twice.
\<close>

lemma v6_texts:
  "parse_v4 ''fd::A'' = None" "parse_v4 ''fd::a'' = None" "parse_v4 ''fd::'' = None"
  "split_on CHR '':'' ''fd::A'' = [''fd'', [], ''A'']" "split_on CHR '':'' ''fd::a'' = [''fd'', [], ''a'']"
  "split_on CHR '':'' ''fd::'' = [''fd'', [], []]"
  "parse_hextet ''fd'' = Some 253" "parse_hextet ''A'' = Some 10" "parse_hextet ''a'' = Some 10"
  "inner_empty [''fd'', [], ''A''] = [1]" "inner_empty [''fd'', [], ''a''] = [1]"
  "inner_empty [''fd'', [], []] = [1]" "split_on CHR ''/'' ''fd::/16'' = [''fd::'', ''16'']"
  "prefix_of_string 128 ''16'' = Some 16" "replicate 6 (0 :: nat) = [0, 0, 0, 0, 0, 0]"
  "replicate 7 (0 :: nat) = [0, 0, 0, 0, 0, 0, 0]"
  by code_simp+

lemma v6_addresses:
  "ip_address ''fd::A'' = Some (IPv6 (253 * 2 ^ 112 + 10) None)"
  "ip_address ''fd::a'' = Some (IPv6 (253 * 2 ^ 112 + 10) None)"
  "ip_network ''fd::/16'' = Some (Net (IPv6 (253 * 2 ^ 112) None) 16)"
  by (simp_all add: ip_address_def parse_v6_def split_scope_def parse_v6_int_def expand_v4_tail_def v6_value_def
      be_value_def v6_texts ip_network_def v4_network_def v6_network_def clear_host_bits_def max_prefixlen_def Let_def)

definition sample_v6 :: ipam_state where
  "sample_v6 = sample_ipam\<lparr>allocations := [], pools := [],
     networks := [\<lparr>n_id = 1, n_name = ''six'', n_network = ''fd::/16'', n_gateway = None, n_dns_domain = None,
       n_is_active = True\<rparr>]\<rparr>"

lemma v6_allocated_twice:
  "\<exists>a b st1 st2. allocate_ip (request_for ''fd::a'' 1) sample_v6 = Inr (Inr a, st1) \<and>
     allocate_ip (request_for ''fd::A'' 1) st1 = Inr (Inr b, st2) \<and>
     ip_address (a_ip_address a) = ip_address (a_ip_address b)"
proof -
  let ?net = "Net (IPv6 (253 * 2 ^ 112) None) 16"
  have inside: "net_contains ?net (IPv6 (253 * 2 ^ 112 + 10) None)"
    by (simp add: net_contains_def net_size_def max_prefixlen_def)
  obtain q where 1: "allocate_ip (request_for ''fd::a'' 1) sample_v6 =
      Inr (Inr (new_allocation (request_for ''fd::a'' 1) q (hd (networks sample_v6)) sample_v6),
           add_allocation (new_allocation (request_for ''fd::a'' 1) q (hd (networks sample_v6)) sample_v6) sample_v6)"
    using allocate_ip_ok [of "request_for ''fd::a'' 1" sample_v6 "hd (networks sample_v6)" ?net, OF _ _ _ _ inside, of None]
    by (auto simp: request_for_def sample_v6_def find_allocation_def find_network_def v6_addresses)
  let ?a = "new_allocation (request_for ''fd::a'' 1) q (hd (networks sample_v6)) sample_v6"
  let ?st = "add_allocation ?a sample_v6"
  have frame: "networks ?st = networks sample_v6" "pools ?st = []" "allocations ?st = [?a]"
    by (simp_all add: add_allocation_def sample_v6_def)
  then obtain q' where 2: "allocate_ip (request_for ''fd::A'' 1) ?st =
      Inr (Inr (new_allocation (request_for ''fd::A'' 1) q' (hd (networks sample_v6)) ?st),
           add_allocation (new_allocation (request_for ''fd::A'' 1) q' (hd (networks sample_v6)) ?st) ?st)"
    using allocate_ip_ok [of "request_for ''fd::A'' 1" ?st "hd (networks sample_v6)" ?net, OF _ _ _ _ inside, of None]
    by (auto simp: request_for_def sample_v6_def find_allocation_def find_network_def v6_addresses)
  show ?thesis
    using 1 2 by (simp add: request_for_def v6_addresses)
qed

end
