(* ===== verification/Auth.thy ===== *)
theory Auth
  imports Security RbacEngine PyIp
begin

text \<open>
  \<^verbatim>\<open>backend/app/auth.py\<close> and \<^verbatim>\<open>backend/app/rbac/middleware.py\<close>: access tokens, the authenticated user of
  a request, the permission guards of the endpoints, the address of the client.

  The JWT library is a parameter: \<open>encode\<close> turns claims into a token, \<open>decode\<close> checks a token at an
  instant and returns its claims or an error. \<open>jwt_ok\<close> is what the code relies on: a token just encoded
  decodes to its claims until the whole second \<open>exp\<close>, and is expired from then on. The claims \<open>exp\<close> and
  \<open>iat\<close> are whole seconds, to which the library cuts the datetimes the code passes.

  A request takes one instant \<open>now\<close>. The functions that validate a session return the state, since
  validation extends the session or ends an expired one, also when the request is refused later on.
\<close>

section \<open>Tokens\<close>

record claims =
  c_sub :: "string option"
  c_session :: "string option"
  c_impersonator :: "string option"
  c_exp :: int
  c_iat :: int

datatype jwt_error = ExpiredSignatureError | PyJWTError

type_synonym encoder = "claims \<Rightarrow> string"
type_synonym decoder = "int \<Rightarrow> string \<Rightarrow> jwt_error + claims"

definition jwt_ok :: "encoder \<Rightarrow> decoder \<Rightarrow> bool" where
  "jwt_ok encode decode \<longleftrightarrow>
     (\<forall>c now. c_iat c * second \<le> now \<longrightarrow>
        decode now (encode c) = (if c_exp c * second \<le> now then Inl ExpiredSignatureError else Inr c))"

text \<open>
  \<open>expires_delta\<close> is a duration in microseconds; a duration of zero is falsy. \<open>access_minutes\<close> is the
  configured \<open>ACCESS_TOKEN_EXPIRE_MINUTES\<close>, \<open>sub\<close> and \<open>impersonator\<close> are the entries of \<open>data\<close>.
\<close>

definition create_access_token ::
    "encoder \<Rightarrow> int \<Rightarrow> int \<Rightarrow> string \<Rightarrow> string option \<Rightarrow> string option \<Rightarrow> int option \<Rightarrow> string" where
  "create_access_token encode access_minutes now sub impersonator session_token expires_delta =
     (let expire = (if truthy_int expires_delta then now + the expires_delta else now + access_minutes * minute)
      in encode \<lparr>c_sub = Some sub,
                 c_session = (if truthy_str session_token then session_token else None),
                 c_impersonator = impersonator,
                 c_exp = expire div second, c_iat = now div second\<rparr>)"

definition decode_access_token :: "decoder \<Rightarrow> int \<Rightarrow> string \<Rightarrow> http_error + claims" where
  "decode_access_token decode now token =
     (case decode now token of
        Inr payload \<Rightarrow> Inr payload
      | Inl ExpiredSignatureError \<Rightarrow> Inl (HTTPException 401 (Msg ''Token has expired''))
      | Inl PyJWTError \<Rightarrow> Inl (HTTPException 401 (Msg ''Could not validate credentials'')))"

section \<open>The current user\<close>

definition find_user_by_name :: "string \<Rightarrow> sec_state \<Rightarrow> user option" where
  "find_user_by_name name st = map_option (load_user (roles st)) (find (\<lambda>u. username u = name) (users st))"

text \<open>The check of the session a token is bound to; a token without a session passes.\<close>

definition session_gate :: "int \<Rightarrow> string option \<Rightarrow> sec_state \<Rightarrow> bool \<times> sec_state" where
  "session_gate now session_token st =
     (if truthy_str session_token
      then (let (session, st') = validate_session now (the session_token) st in (session \<noteq> None, st'))
      else (True, st))"

definition get_current_user :: "decoder \<Rightarrow> int \<Rightarrow> string \<Rightarrow> sec_state \<Rightarrow> (http_error + user) \<times> sec_state" where
  "get_current_user decode now token st =
     (case decode_access_token decode now token of
        Inl e \<Rightarrow> (Inl e, st)
      | Inr payload \<Rightarrow>
          (case c_sub payload of
             None \<Rightarrow> (Inl (HTTPException 401 (Msg ''Could not validate credentials'')), st)
           | Some name \<Rightarrow>
               (let (session_ok, st1) = session_gate now (c_session payload) st
                in if \<not> session_ok
                   then (Inl (HTTPException 401 (Msg ''Session expired or invalid. Please login again.'')), st1)
                   else (case find_user_by_name name st1 of
                      None \<Rightarrow> (Inl (HTTPException 401 (Msg ''User not found'')), st1)
                    | Some u \<Rightarrow>
                        (if \<not> is_active u then (Inl (HTTPException 403 (Msg ''User account is disabled'')), st1)
                         else if is_locked now u
                           then (Inl (HTTPException 403 (Msg ''Account is locked. Please try again later.'')), st1)
                         else (Inr u, st1))))))"

definition get_current_session_token :: "decoder \<Rightarrow> int \<Rightarrow> string \<Rightarrow> http_error + string option" where
  "get_current_session_token decode now token =
     (case decode_access_token decode now token of Inl e \<Rightarrow> Inl e | Inr payload \<Rightarrow> Inr (c_session payload))"

definition authenticate_ws_token ::
    "decoder \<Rightarrow> int \<Rightarrow> string option \<Rightarrow> sec_state \<Rightarrow> user option \<times> sec_state" where
  "authenticate_ws_token decode now token st =
     (if \<not> truthy_str token then (None, st)
      else (case decode now (the token) of
        Inl _ \<Rightarrow> (None, st)
      | Inr payload \<Rightarrow>
          (if \<not> truthy_str (c_sub payload) then (None, st)
           else let (session_ok, st1) = session_gate now (c_session payload) st
             in if \<not> session_ok then (None, st1)
                else (case find_user_by_name (the (c_sub payload)) st1 of
                        None \<Rightarrow> (None, st1)
                      | Some u \<Rightarrow>
                          (if \<not> is_active u then (None, st1)
                           else if is_locked now u then (None, st1)
                           else (Some u, st1))))))"

text \<open>\<open>credentials\<close> is \<open>None\<close> for a request without a bearer token.\<close>

definition get_current_user_optional ::
    "decoder \<Rightarrow> int \<Rightarrow> string option \<Rightarrow> sec_state \<Rightarrow> user option \<times> sec_state" where
  "get_current_user_optional decode now credentials st =
     (case credentials of
        None \<Rightarrow> (None, st)
      | Some token \<Rightarrow>
          (case get_current_user decode now token st of
             (Inr u, st') \<Rightarrow> (Some u, st') | (Inl _, st') \<Rightarrow> (None, st')))"

section \<open>Guards\<close>

definition admin_access :: "user \<Rightarrow> bool" where
  "admin_access u \<longleftrightarrow> is_admin u \<or> (case user_role u of None \<Rightarrow> False | Some r \<Rightarrow> role_name r = ''admin'')"

definition get_current_active_admin :: "user \<Rightarrow> http_error + user" where
  "get_current_active_admin current_user =
     (if \<not> is_admin current_user \<and>
         (case user_role current_user of None \<Rightarrow> True | Some r \<Rightarrow> role_name r \<noteq> ''admin'')
      then Inl (HTTPException 403 (Msg ''Administrator access required'')) else Inr current_user)"

definition PermissionChecker :: "string \<Rightarrow> user \<Rightarrow> http_error + user" where
  "PermissionChecker p current_user =
     (if \<not> has_perm current_user p then Inl (HTTPException 403 (PermissionDenied p)) else Inr current_user)"

definition auth_check_permission :: "user \<Rightarrow> string \<Rightarrow> bool" where
  "auth_check_permission u p = has_perm u p"

definition user_has_permission :: "user \<Rightarrow> string \<Rightarrow> bool" where
  "user_has_permission u p = has_perm u p"

definition require_permission :: "user \<Rightarrow> string \<Rightarrow> http_error + unit" where
  "require_permission u p = check_permission u p GLOBAL None None None"

text \<open>An endpoint behind the bearer scheme and a guard: \<open>Depends(guard)\<close> over \<open>get_current_user\<close>.\<close>

definition guarded ::
    "decoder \<Rightarrow> (user \<Rightarrow> http_error + user) \<Rightarrow> int \<Rightarrow> string \<Rightarrow> sec_state \<Rightarrow> (http_error + user) \<times> sec_state" where
  "guarded decode guard now token st =
     (case get_current_user decode now token st of
        (Inl e, st') \<Rightarrow> (Inl e, st') | (Inr u, st') \<Rightarrow> (guard u, st'))"

section \<open>The client\<close>

text \<open>Header names are in lower case, which is how the framework looks them up.\<close>

record request =
  headers :: "(string, string) pydict"
  client_host :: "string option"
  path_params :: "(string, string) pydict"
  base_url :: string
  state_user :: "user option"

definition validate_ip :: "string \<Rightarrow> bool" where
  "validate_ip ip = (ip_address ip \<noteq> None)"

definition header :: "request \<Rightarrow> string \<Rightarrow> string \<Rightarrow> string" where
  "header r name dflt = (case map_of (headers r) name of None \<Rightarrow> dflt | Some v \<Rightarrow> v)"

definition get_client_ip :: "request \<Rightarrow> string" where
  "get_client_ip r =
     (let forwarded = map_of (headers r) ''x-forwarded-for'';
          candidate = (if truthy_str forwarded then Some (strip (hd (split_on CHR '','' (the forwarded)))) else None)
      in if candidate \<noteq> None \<and> validate_ip (the candidate) then the candidate
         else let real_ip = strip (header r ''x-real-ip'' []) in
           if real_ip \<noteq> [] \<and> validate_ip real_ip then real_ip
           else (case client_host r of Some h \<Rightarrow> h | None \<Rightarrow> ''unknown''))"

section \<open>The checkers of the middleware\<close>

text \<open>
  These three classes find the user themselves: from \<open>request.state\<close> where something put one there, from
  the bearer token otherwise. The conversion of a path parameter that is no number raises; the framework
  answers 500.
\<close>

definition bearer_token :: "request \<Rightarrow> string option" where
  "bearer_token r =
     (case map_of (headers r) ''authorization'' of
        None \<Rightarrow> None
      | Some h \<Rightarrow> if h \<noteq> [] \<and> prefix ''Bearer '' h then Some (split_on CHR '' '' h ! 1) else None)"

definition token_user :: "decoder \<Rightarrow> int \<Rightarrow> request \<Rightarrow> sec_state \<Rightarrow> http_error + user" where
  "token_user decode now r st =
     (case bearer_token r of
        None \<Rightarrow> Inl (HTTPException 401 (Msg ''Not authenticated''))
      | Some token \<Rightarrow>
          (case decode_access_token decode now token of
             Inl e \<Rightarrow> Inl e
           | Inr payload \<Rightarrow>
               (case Option.bind (c_sub payload) (\<lambda>name. find_user_by_name name st) of
                  None \<Rightarrow> Inl (HTTPException 401 (Msg ''User not found''))
                | Some u \<Rightarrow> Inr u)))"

fun first_denied :: "user \<Rightarrow> scope_type \<Rightarrow> string list \<Rightarrow> string option" where
  "first_denied u scope [] = None"
| "first_denied u scope (p # ps) =
     (if \<not> has_permission u p scope None None None then Some p else first_denied u scope ps)"

fun any_granted :: "user \<Rightarrow> scope_type \<Rightarrow> string list \<Rightarrow> bool" where
  "any_granted u scope [] = False"
| "any_granted u scope (p # ps) =
     (if has_permission u p scope None None None then True else any_granted u scope ps)"

definition MiddlewareChecker ::
    "decoder \<Rightarrow> string list \<Rightarrow> bool \<Rightarrow> scope_type \<Rightarrow> int \<Rightarrow> request \<Rightarrow> sec_state \<Rightarrow> http_error + user" where
  "MiddlewareChecker decode perms require_all scope now r st =
     (case (case state_user r of Some u \<Rightarrow> Inr u | None \<Rightarrow> token_user decode now r st) of
        Inl e \<Rightarrow> Inl e
      | Inr u \<Rightarrow>
          (if require_all
           then (case first_denied u scope perms of
                   Some p \<Rightarrow> Inl (HTTPException 403 (PermissionDenied p)) | None \<Rightarrow> Inr u)
           else if \<not> any_granted u scope perms then Inl (HTTPException 403 (RequiresOneOf perms))
           else Inr u))"

definition path_int :: "request \<Rightarrow> string option \<Rightarrow> http_error + int option" where
  "path_int r param =
     (case Option.bind param (map_of (path_params r)) of
        None \<Rightarrow> Inr None
      | Some v \<Rightarrow>
          (if v = [] then Inr None
           else (case py_int v of
                   Some n \<Rightarrow> Inr (Some n) | None \<Rightarrow> Inl (HTTPException 500 (Msg ''Internal Server Error'')))))"

definition ScopedPermissionChecker ::
    "decoder \<Rightarrow> string \<Rightarrow> scope_type \<Rightarrow> string \<Rightarrow> string option \<Rightarrow> string option \<Rightarrow> int \<Rightarrow> request \<Rightarrow> sec_state \<Rightarrow>
     http_error + user" where
  "ScopedPermissionChecker decode p scope resource_param organization_param workspace_param now r st =
     (case token_user decode now r st of
        Inl e \<Rightarrow> Inl e
      | Inr u \<Rightarrow>
          (case path_int r (Some resource_param) of
             Inl e \<Rightarrow> Inl e
           | Inr res \<Rightarrow>
               (case path_int r organization_param of
                  Inl e \<Rightarrow> Inl e
                | Inr org \<Rightarrow>
                    (case path_int r workspace_param of
                       Inl e \<Rightarrow> Inl e
                     | Inr ws \<Rightarrow>
                         (if \<not> has_permission u p scope res org ws
                          then Inl (HTTPException 403 (PermissionDenied p)) else Inr u)))))"

definition ResourceAccessChecker :: "decoder \<Rightarrow> string \<Rightarrow> int \<Rightarrow> request \<Rightarrow> sec_state \<Rightarrow> http_error + user" where
  "ResourceAccessChecker decode p now r st = MiddlewareChecker decode [p] False GLOBAL now r st"

section \<open>Validation touches sessions and the cache only\<close>

lemma validate_session_frame [simp]:
  "users (snd (validate_session now t st)) = users st"
  "roles (snd (validate_session now t st)) = roles st"
  "blocked_ips (snd (validate_session now t st)) = blocked_ips st"
  "login_attempts (snd (validate_session now t st)) = login_attempts st"
  "security_settings (snd (validate_session now t st)) = security_settings st"
  "next_session_id (snd (validate_session now t st)) = next_session_id st"
  by (auto simp: validate_session_def case_prod_beta Let_def split: option.splits)

lemma session_gate_frame [simp]:
  "users (snd (session_gate now s st)) = users st"
  "roles (snd (session_gate now s st)) = roles st"
  "blocked_ips (snd (session_gate now s st)) = blocked_ips st"
  "login_attempts (snd (session_gate now s st)) = login_attempts st"
  "security_settings (snd (session_gate now s st)) = security_settings st"
  "next_session_id (snd (session_gate now s st)) = next_session_id st"
  by (simp_all add: session_gate_def case_prod_beta Let_def)

lemma find_user_by_name_frame [simp]:
  "find_user_by_name name (snd (session_gate now s st)) = find_user_by_name name st"
  by (simp add: find_user_by_name_def)

lemma find_user_by_nameD: "find_user_by_name name st = Some u \<Longrightarrow> username u = name"
  by (auto simp: find_user_by_name_def dest: find_SomeD)

text \<open>A session row that lets a token through: active, not past its expiry.\<close>

definition session_alive :: "int \<Rightarrow> string \<Rightarrow> sec_state \<Rightarrow> bool" where
  "session_alive now t st =
     list_ex (\<lambda>s. s_session_token s = t \<and> s_is_active s \<and> now \<le> s_expires_at s) (active_sessions st)"

definition bound_session_alive :: "int \<Rightarrow> string option \<Rightarrow> sec_state \<Rightarrow> bool" where
  "bound_session_alive now s st =
     (case s of None \<Rightarrow> True | Some t \<Rightarrow> if t = [] then True else session_alive now t st)"

lemma validate_session_alive:
  assumes "unique_on s_session_token (active_sessions st)"
  shows "fst (validate_session now t st) \<noteq> None \<longleftrightarrow> session_alive now t st"
proof (cases "find (live t) (active_sessions st)")
  case None
  then have "\<not> session_alive now t st"
    by (auto simp: session_alive_def find_None_iff live_def list_ex_iff)
  with None show ?thesis by (simp add: validate_session_def)
next
  case (Some s)
  then have s: "s \<in> set (active_sessions st)" "s_session_token s = t" "s_is_active s"
    by (auto dest!: find_SomeD simp: live_def)
  have "x = s" if "x \<in> set (active_sessions st)" "s_session_token x = t" for x
    using assms that s by (metis unique_find option.inject)
  then have "session_alive now t st \<longleftrightarrow> now \<le> s_expires_at s"
    unfolding session_alive_def list_ex_iff using s by blast
  moreover have "fst (validate_session now t st) \<noteq> None \<longleftrightarrow> \<not> s_expires_at s < now"
    unfolding validate_session_def Some by (simp add: case_prod_beta Let_def)
  ultimately show ?thesis by linarith
qed

lemma session_gate_alive:
  "unique_on s_session_token (active_sessions st) \<Longrightarrow>
   fst (session_gate now s st) \<longleftrightarrow> bound_session_alive now s st"
  by (cases s)
     (simp_all add: session_gate_def bound_session_alive_def case_prod_beta Let_def validate_session_alive
       del: not_None_eq)

lemma decode_access_token_Inr [simp]:
  "decode_access_token decode now token = Inr c \<longleftrightarrow> decode now token = Inr c"
  by (auto simp: decode_access_token_def split: sum.splits jwt_error.splits)

lemma decode_access_token_Inl:
  "decode_access_token decode now token = Inl e \<Longrightarrow> status_code e = 401 \<and> (\<exists>x. decode now token = Inl x)"
  by (auto simp: decode_access_token_def split: sum.splits jwt_error.splits)

lemma get_current_user_Inr:
  "fst (get_current_user decode now token st) = Inr u \<longleftrightarrow>
     (\<exists>c name. decode now token = Inr c \<and> c_sub c = Some name \<and> fst (session_gate now (c_session c) st) \<and>
        find_user_by_name name st = Some u \<and> is_active u \<and> \<not> is_locked now u)"
  by (auto simp: get_current_user_def case_prod_beta Let_def split: sum.splits option.splits)
     (metis decode_access_token_Inr sum.inject(2) option.inject sum.distinct(1) option.distinct(1))+

lemma get_current_user_state:
  "snd (get_current_user decode now token st) =
     (case decode now token of
        Inl _ \<Rightarrow> st
      | Inr c \<Rightarrow> (case c_sub c of None \<Rightarrow> st | Some _ \<Rightarrow> snd (session_gate now (c_session c) st)))"
  by (auto simp: get_current_user_def decode_access_token_def case_prod_beta Let_def
      split: sum.splits option.splits jwt_error.splits)

lemma get_current_user_frame [simp]:
  "users (snd (get_current_user decode now token st)) = users st"
  "roles (snd (get_current_user decode now token st)) = roles st"
  by (auto simp: get_current_user_state split: sum.splits option.splits)

lemma get_current_user_Inl:
  assumes "fst (get_current_user decode now token st) = Inl e"
  shows "status_code e = 401 \<or>
    status_code e = 403 \<and>
      (\<exists>c name v. decode now token = Inr c \<and> c_sub c = Some name \<and> find_user_by_name name st = Some v \<and>
         (\<not> is_active v \<or> is_locked now v))"
proof (cases "decode now token")
  case (Inl x)
  then show ?thesis using assms
    by (cases x) (auto simp: get_current_user_def decode_access_token_def)
next
  case (Inr c)
  then have dec: "decode_access_token decode now token = Inr c" by simp
  show ?thesis using assms Inr
    unfolding get_current_user_def dec
    by (auto simp: case_prod_beta Let_def split: option.splits if_splits)
qed

end
