(* ===== verification/AuthDb.thy ===== *)
theory AuthDb
  imports Auth
begin

text \<open>
  The state of the endpoints under \<^verbatim>\<open>backend/app/api/auth.py\<close> and \<^verbatim>\<open>backend/app/api/users.py\<close>: the tables
  of the security service, the password reset tokens, the audit log (\<^verbatim>\<open>backend/app/logging_service.py\<close>) and
  the mails handed to the background; and \<^verbatim>\<open>backend/app/services/two_factor_service.py\<close>.

  \<open>env\<close> gathers what is not this program: the JWT library, the password hashing of passlib, SHA-256, the
  TOTP check of pyotp (\<open>None\<close> where it raises), and the two configured durations in minutes. Random values
  (session tokens, salts, secrets, codes) are arguments of the operations that draw them.

  \<open>ssh_key_owners\<close> is the column \<open>user_id\<close> of the table \<open>user_ssh_keys\<close>. The JSON column \<open>details\<close> of the
  audit log, and a failure to write the log, are left out.
\<close>

record env =
  jwt_encode :: encoder
  jwt_decode :: decoder
  verify_password :: "string \<Rightarrow> string \<Rightarrow> bool"
  get_password_hash :: "string \<Rightarrow> string \<Rightarrow> string"
  sha256 :: "string \<Rightarrow> string"
  totp_verify :: "int \<Rightarrow> string \<Rightarrow> string \<Rightarrow> bool option"
  access_minutes :: int
  reset_minutes :: int

record audit_log =
  l_level :: string
  l_category :: string
  l_action :: string
  l_message :: string
  l_user_id :: "int option"
  l_username :: "string option"
  l_ip_address :: "string option"
  l_user_agent :: "string option"
  l_resource_type :: "string option"
  l_resource_id :: "string option"
  l_resource_name :: "string option"
  l_success :: bool
  l_error_message :: "string option"

record password_reset_token =
  pr_id :: int
  pr_user_id :: int
  pr_token_hash :: string
  pr_expires_at :: int
  pr_used_at :: "int option"
  pr_ip_address :: "string option"
  pr_created_at :: int

record mail =
  mail_to :: string
  mail_name :: string
  mail_language :: string
  mail_link :: string

record auth_db =
  sec :: sec_state
  next_user_id :: int
  reset_tokens :: "password_reset_token list"
  next_reset_id :: int
  ssh_key_owners :: "int list"
  audit_logs :: "audit_log list"
  outbox :: "mail list"

section \<open>Running the security service on the database\<close>

definition on_sec :: "(sec_state \<Rightarrow> 'a \<times> sec_state) \<Rightarrow> auth_db \<Rightarrow> 'a \<times> auth_db" where
  "on_sec f db = (let (a, s) = f (sec db) in (a, db\<lparr>sec := s\<rparr>))"

definition do_sec :: "(sec_state \<Rightarrow> sec_state) \<Rightarrow> auth_db \<Rightarrow> auth_db" where
  "do_sec f db = db\<lparr>sec := f (sec db)\<rparr>"

section \<open>Audit log\<close>

definition log_auth ::
    "string \<Rightarrow> string \<Rightarrow> string \<Rightarrow> bool \<Rightarrow> string option \<Rightarrow> string option \<Rightarrow> int option \<Rightarrow> auth_db \<Rightarrow> auth_db" where
  "log_auth act uname ip success error_message user_agent uid db =
     (let level = (if success then ''info'' else ''warning'');
          base = ''User '' @ [CHR 0x27] @ uname @ [CHR 0x27] @ '' '' @ act;
          message = (if success then base
                     else base @ '' failed: '' @ (case error_message of None \<Rightarrow> ''None'' | Some e \<Rightarrow> e))
      in db\<lparr>audit_logs := audit_logs db @
           [\<lparr>l_level = level, l_category = ''auth'', l_action = act, l_message = message,
             l_user_id = uid, l_username = Some uname, l_ip_address = Some ip, l_user_agent = user_agent,
             l_resource_type = None, l_resource_id = None, l_resource_name = None,
             l_success = success, l_error_message = error_message\<rparr>]\<rparr>)"

section \<open>Requests with a user\<close>

text \<open>An endpoint whose parameter \<open>current_user\<close> comes from \<open>get_current_user\<close>, behind a guard.\<close>

definition with_guard ::
    "env \<Rightarrow> (user \<Rightarrow> http_error + user) \<Rightarrow> int \<Rightarrow> string \<Rightarrow>
     (user \<Rightarrow> auth_db \<Rightarrow> (http_error + 'r) \<times> auth_db) \<Rightarrow> auth_db \<Rightarrow> (http_error + 'r) \<times> auth_db" where
  "with_guard E guard now token f db =
     (case on_sec (guarded (jwt_decode E) guard now token) db of
        (Inl e, db') \<Rightarrow> (Inl e, db') | (Inr u, db') \<Rightarrow> f u db')"

abbreviation with_user where "with_user E \<equiv> with_guard E Inr"
abbreviation with_admin where "with_admin E \<equiv> with_guard E get_current_active_admin"
abbreviation with_permission where "with_permission E p \<equiv> with_guard E (PermissionChecker p)"

section \<open>Two-factor service\<close>

definition replace_char :: "char \<Rightarrow> string \<Rightarrow> string" where
  "replace_char c s = filter (\<lambda>x. x \<noteq> c) s"

definition verify_totp :: "env \<Rightarrow> int \<Rightarrow> string option \<Rightarrow> string \<Rightarrow> bool" where
  "verify_totp E now secret given =
     (if \<not> truthy_str secret \<or> given = [] then False
      else let given' = replace_char CHR '' '' (strip given) in
        if given' = [] \<or> \<not> list_all is_digit given' then False
        else (case totp_verify E now (the secret) given' of None \<Rightarrow> False | Some b \<Rightarrow> b))"

definition generate_backup_codes :: "string list \<Rightarrow> string list" where
  "generate_backup_codes raws = map (\<lambda>raw. take 4 raw @ ''-'' @ drop 4 raw) raws"

definition normalized_code :: "string \<Rightarrow> string" where
  "normalized_code given = replace_char CHR '' '' (replace_char CHR ''-'' (lower (strip given)))"

definition hash_backup_code :: "env \<Rightarrow> string \<Rightarrow> string" where
  "hash_backup_code E given = sha256 E (normalized_code given)"

definition hash_backup_codes :: "env \<Rightarrow> string list \<Rightarrow> string list" where
  "hash_backup_codes E codes = map (hash_backup_code E) codes"

text \<open>The list of hashes is changed in place; the result carries it.\<close>

definition consume_backup_code :: "env \<Rightarrow> string \<Rightarrow> string list \<Rightarrow> bool \<times> string list" where
  "consume_backup_code E given stored_hashes =
     (if given = [] \<or> stored_hashes = [] then (False, stored_hashes)
      else let h = hash_backup_code E given in
        if h \<in> set stored_hashes then (True, remove1 h stored_hashes) else (False, stored_hashes))"

section \<open>Reset tokens\<close>

definition reset_token_is_valid :: "int \<Rightarrow> password_reset_token \<Rightarrow> bool" where
  "reset_token_is_valid now t =
     (if pr_used_at t \<noteq> None then False else if pr_expires_at t \<le> now then False else True)"

section \<open>Frames\<close>

lemma do_sec_simps [simp]:
  "sec (do_sec f db) = f (sec db)" "next_user_id (do_sec f db) = next_user_id db"
  "reset_tokens (do_sec f db) = reset_tokens db" "next_reset_id (do_sec f db) = next_reset_id db"
  "ssh_key_owners (do_sec f db) = ssh_key_owners db" "outbox (do_sec f db) = outbox db"
  by (simp_all add: do_sec_def)

lemma on_sec_simps [simp]:
  "fst (on_sec f db) = fst (f (sec db))" "sec (snd (on_sec f db)) = snd (f (sec db))"
  "next_user_id (snd (on_sec f db)) = next_user_id db"
  "reset_tokens (snd (on_sec f db)) = reset_tokens db" "next_reset_id (snd (on_sec f db)) = next_reset_id db"
  "ssh_key_owners (snd (on_sec f db)) = ssh_key_owners db" "outbox (snd (on_sec f db)) = outbox db"
  by (simp_all add: on_sec_def case_prod_beta)

lemma log_auth_simps [simp]:
  "sec (log_auth a n ip ok err ua uid db) = sec db"
  "next_user_id (log_auth a n ip ok err ua uid db) = next_user_id db"
  "reset_tokens (log_auth a n ip ok err ua uid db) = reset_tokens db"
  "next_reset_id (log_auth a n ip ok err ua uid db) = next_reset_id db"
  "ssh_key_owners (log_auth a n ip ok err ua uid db) = ssh_key_owners db"
  "outbox (log_auth a n ip ok err ua uid db) = outbox db"
  by (simp_all add: log_auth_def Let_def)

end
