(* ===== verification/Login.thy ===== *)
theory Login
  imports AuthDb
begin

text \<open>
  The endpoints of \<^verbatim>\<open>backend/app/api/auth.py\<close> that issue, renew and end sessions and that manage the second
  factor: login, refresh, logout, impersonation, two-factor enrolment. The argument \<open>fresh\<close> is the session
  token the service draws, \<open>token\<close> the bearer token of the request.
\<close>

record login_data =
  login_username :: string
  login_password :: string
  login_code :: "string option"

datatype token_reply =
    TwoFactorRequired
  | Token (access_token: string) (reply_session_id: "int option")

definition user_agent_of :: "request \<Rightarrow> string" where
  "user_agent_of req = take 500 (header req ''user-agent'' [])"

text \<open>\<open>create_access_token\<close> with the lifetime the settings give a session.\<close>

definition session_access_token ::
    "env \<Rightarrow> int \<Rightarrow> string \<Rightarrow> string option \<Rightarrow> string option \<Rightarrow> auth_db \<Rightarrow> string \<times> auth_db" where
  "session_access_token E now sub impersonator session_token db =
     (let (session_timeout, db1) = on_sec (get_setting_int now ''session_timeout_minutes'' 60) db
      in (create_access_token (jwt_encode E) (access_minutes E) now sub impersonator session_token
            (Some (session_timeout * minute)), db1))"

section \<open>Login\<close>

text \<open>A refusal records the attempt, and an entry of the audit log where the code writes one.\<close>

definition refuse_login ::
    "int \<Rightarrow> string \<Rightarrow> string \<Rightarrow> login_data \<Rightarrow> string \<Rightarrow> (string \<times> string \<times> int option) option \<Rightarrow> http_error \<Rightarrow> auth_db \<Rightarrow>
     (http_error + token_reply) \<times> auth_db" where
  "refuse_login now ip ua d reason log error db =
     (let db1 = do_sec (record_login_attempt now ip (Some (login_username d)) False (Some reason) (Some ua)) db
      in (Inl error,
          case log of None \<Rightarrow> db1
          | Some (act, message, uid) \<Rightarrow>
              log_auth act (login_username d) ip False (Some message) (Some ua) uid db1))"

text \<open>From the comment \<open>SUCCESS\<close> on: session, last login, token, records.\<close>

definition login_success ::
    "env \<Rightarrow> int \<Rightarrow> string \<Rightarrow> string \<Rightarrow> string \<Rightarrow> login_data \<Rightarrow> user \<Rightarrow> auth_db \<Rightarrow> (http_error + token_reply) \<times> auth_db" where
  "login_success E now fresh ip ua d u db =
     (let (u1, db1) = on_sec (reset_failed_attempts u) db;
          ((session, _), db2) = on_sec (create_session now fresh u1 (Some ip) (Some ua)) db1;
          u2 = u1\<lparr>last_login := Some now\<rparr>;
          db3 = do_sec (store_user u2) db2;
          (token, db4) = session_access_token E now (username u2) None (Some (s_session_token session)) db3;
          db5 = do_sec (record_login_attempt now ip (Some (login_username d)) True None (Some ua)) db4;
          db6 = log_auth ''login'' (username u2) ip True None (Some ua) (Some (user_id u2)) db5
      in (Inr (Token token (Some (s_id session))), db6))"

text \<open>
  The second factor: the code is a TOTP code, or else a backup code, which is then removed from the stored
  hashes. The user object carries the change on.
\<close>

definition second_factor :: "env \<Rightarrow> int \<Rightarrow> string \<Rightarrow> user \<Rightarrow> auth_db \<Rightarrow> (bool \<times> user) \<times> auth_db" where
  "second_factor E now given u db =
     (if verify_totp E now (two_factor_secret u) given then ((True, u), db)
      else let backup = (case two_factor_backup_codes u of None \<Rightarrow> [] | Some hs \<Rightarrow> hs);
               (found, backup') = consume_backup_code E given backup
        in if found
           then let u1 = u\<lparr>two_factor_backup_codes := Some backup'\<rparr> in ((True, u1), do_sec (store_user u1) db)
           else ((False, u), db))"

definition login_user ::
    "env \<Rightarrow> int \<Rightarrow> string \<Rightarrow> string \<Rightarrow> string \<Rightarrow> login_data \<Rightarrow> user \<Rightarrow> auth_db \<Rightarrow> (http_error + token_reply) \<times> auth_db" where
  "login_user E now fresh ip ua d u db =
     (let (locked, locked_until) = is_account_locked now u
      in if locked
         then refuse_login now ip ua d ''Account locked''
                (Some (''login_blocked'', ''Account locked'', Some (user_id u)))
                (HTTPException 403 (LockedUntil (the locked_until))) db
      else if \<not> verify_password E (login_password d) (hashed_password u)
         then let db1 = do_sec (record_login_attempt now ip (Some (login_username d)) False
                    (Some ''Wrong password'') (Some ua)) db;
                  ((was_locked, u1), db2) = on_sec (increment_failed_attempts now u) db1;
                  db3 = log_auth ''login_failed'' (login_username d) ip False
                    (Some (''Incorrect password'' @ (if was_locked then '' - account locked'' else [])))
                    (Some ua) (Some (user_id u1)) db2
           in (Inl (if was_locked
                    then HTTPException 403 (Msg ''Account locked due to too many failed attempts'')
                    else HTTPException 401 (Msg ''Incorrect username or password'')), db3)
      else if \<not> is_active u
         then refuse_login now ip ua d ''Account disabled''
                (Some (''login_blocked'', ''Account disabled'', Some (user_id u)))
                (HTTPException 403 (Msg ''User account is disabled'')) db
      else if two_factor_enabled u
         then (if \<not> truthy_str (login_code d) then (Inr TwoFactorRequired, db)
               else let ((code_ok, u1), db1) = second_factor E now (the (login_code d)) u db
                 in if \<not> code_ok
                    then refuse_login now ip ua d ''Invalid 2FA code''
                           (Some (''login_failed'', ''Invalid two-factor code'', Some (user_id u)))
                           (HTTPException 400 (Msg ''Invalid two-factor code'')) db1
                    else login_success E now fresh ip ua d u1 db1)
      else login_success E now fresh ip ua d u db)"

definition login ::
    "env \<Rightarrow> int \<Rightarrow> string \<Rightarrow> login_data \<Rightarrow> request \<Rightarrow> auth_db \<Rightarrow> (http_error + token_reply) \<times> auth_db" where
  "login E now fresh d req db =
     (let ip = get_client_ip req; ua = user_agent_of req;
          ((is_blocked, block_reason), db1) = on_sec (is_ip_blocked now ip) db
      in if is_blocked
         then refuse_login now ip ua d ''IP blocked'' None (HTTPException 403 (AccessDenied block_reason)) db1
      else let ((should_block, reason), db2) = on_sec (check_brute_force now ip) db1
        in if should_block
           then let (block_duration, db3) = on_sec (get_setting_int now ''ip_block_duration_minutes'' 60) db2;
                    db4 = do_sec (block_ip now ip reason ''system'' block_duration False) db3
             in refuse_login now ip ua d ''Brute force detected'' None
                  (HTTPException 403 (Msg ''Too many failed attempts. IP blocked temporarily.'')) db4
        else (case find_user_by_name (login_username d) (sec db2) of
                None \<Rightarrow> refuse_login now ip ua d ''User not found'' (Some (''login_failed'', ''User not found'', None))
                          (HTTPException 401 (Msg ''Incorrect username or password'')) db2
              | Some u \<Rightarrow> login_user E now fresh ip ua d u db2))"

section \<open>Refresh and logout\<close>

definition refresh_token :: "env \<Rightarrow> int \<Rightarrow> string \<Rightarrow> auth_db \<Rightarrow> (http_error + token_reply) \<times> auth_db" where
  "refresh_token E now token = with_user E now token (\<lambda>u db.
     case get_current_session_token (jwt_decode E) now token of
       Inl e \<Rightarrow> (Inl e, db)
     | Inr session_token \<Rightarrow>
         (let (new_token, db1) = session_access_token E now (username u) None session_token db
          in (Inr (Token new_token None), db1)))"

definition logout :: "env \<Rightarrow> int \<Rightarrow> string \<Rightarrow> request \<Rightarrow> auth_db \<Rightarrow> (http_error + unit) \<times> auth_db" where
  "logout E now token req = with_user E now token (\<lambda>u db.
     case get_current_session_token (jwt_decode E) now token of
       Inl e \<Rightarrow> (Inl e, db)
     | Inr session_token \<Rightarrow>
         (let db1 = (if truthy_str session_token then snd (on_sec (terminate_session (the session_token)) db) else db)
          in (Inr (), log_auth ''logout'' (username u) (get_client_ip req) True None None (Some (user_id u)) db1)))"

section \<open>Impersonation\<close>

definition start_impersonation ::
    "env \<Rightarrow> int \<Rightarrow> string \<Rightarrow> user \<Rightarrow> user \<Rightarrow> request \<Rightarrow> auth_db \<Rightarrow> (http_error + token_reply) \<times> auth_db" where
  "start_impersonation E now fresh admin target req db =
     (let ip = get_client_ip req; ua = user_agent_of req;
          ((session, _), db1) = on_sec (create_session now fresh target (Some ip) (Some ua)) db;
          (new_token, db2) = session_access_token E now (username target) (Some (username admin))
            (Some (s_session_token session)) db1
      in (Inr (Token new_token None),
          log_auth ''impersonate_start'' (username admin) ip True None (Some ua) (Some (user_id admin)) db2))"

definition impersonate_user ::
    "env \<Rightarrow> int \<Rightarrow> string \<Rightarrow> int \<Rightarrow> string \<Rightarrow> request \<Rightarrow> auth_db \<Rightarrow> (http_error + token_reply) \<times> auth_db" where
  "impersonate_user E now fresh uid token req = with_admin E now token (\<lambda>admin db.
     case decode_access_token (jwt_decode E) now token of
       Inl e \<Rightarrow> (Inl e, db)
     | Inr payload \<Rightarrow>
         (if truthy_str (c_impersonator payload)
          then (Inl (HTTPException 400 (Msg ''Already impersonating. Return to your admin account first.'')), db)
          else (case map_option (load_user (roles (sec db))) (find (\<lambda>u. user_id u = uid) (users (sec db))) of
             None \<Rightarrow> (Inl (HTTPException 404 (Msg ''User not found'')), db)
           | Some target \<Rightarrow>
               (if user_id target = user_id admin
                then (Inl (HTTPException 400 (Msg ''Cannot impersonate yourself'')), db)
                else if \<not> is_active target
                then (Inl (HTTPException 400 (Msg ''Cannot impersonate a disabled user'')), db)
                else if admin_access target
                then (Inl (HTTPException 403 (Msg ''Cannot impersonate another administrator'')), db)
                else start_impersonation E now fresh admin target req db))))"

definition stop_impersonating ::
    "env \<Rightarrow> int \<Rightarrow> string \<Rightarrow> string \<Rightarrow> request \<Rightarrow> auth_db \<Rightarrow> (http_error + token_reply) \<times> auth_db" where
  "stop_impersonating E now fresh token req db =
     (case decode_access_token (jwt_decode E) now token of
        Inl e \<Rightarrow> (Inl e, db)
      | Inr payload \<Rightarrow>
          (if \<not> truthy_str (c_impersonator payload)
           then (Inl (HTTPException 400 (Msg ''Not currently impersonating'')), db)
           else (case find_user_by_name (the (c_impersonator payload)) (sec db) of
               None \<Rightarrow> (Inl (HTTPException 403 (Msg ''Original administrator account is no longer available'')), db)
             | Some admin \<Rightarrow>
                 (if \<not> is_active admin \<or> \<not> admin_access admin
                  then (Inl (HTTPException 403 (Msg ''Original administrator account is no longer available'')), db)
                  else let db1 = (if truthy_str (c_session payload)
                              then snd (on_sec (terminate_session (the (c_session payload))) db) else db);
                           ip = get_client_ip req; ua = user_agent_of req;
                           ((session, _), db2) = on_sec (create_session now fresh admin (Some ip) (Some ua)) db1;
                           (new_token, db3) = session_access_token E now (username admin) None
                             (Some (s_session_token session)) db2
                    in (Inr (Token new_token None),
                        log_auth ''impersonate_stop'' (username admin) ip True None (Some ua)
                          (Some (user_id admin)) db3)))))"

section \<open>Two-factor enrolment\<close>

definition two_factor_status :: "user \<Rightarrow> bool \<times> nat" where
  "two_factor_status u =
     (two_factor_enabled u,
      if two_factor_enabled u then length (case two_factor_backup_codes u of None \<Rightarrow> [] | Some hs \<Rightarrow> hs) else 0)"

definition two_factor_setup :: "env \<Rightarrow> int \<Rightarrow> string \<Rightarrow> string \<Rightarrow> auth_db \<Rightarrow> (http_error + string) \<times> auth_db" where
  "two_factor_setup E now secret token = with_user E now token (\<lambda>u db.
     if two_factor_enabled u then (Inl (HTTPException 400 (Msg ''2FA is already enabled'')), db)
     else (Inr secret, do_sec (store_user (u\<lparr>two_factor_secret := Some secret\<rparr>)) db))"

definition two_factor_enable ::
    "env \<Rightarrow> int \<Rightarrow> string list \<Rightarrow> string \<Rightarrow> string \<Rightarrow> request \<Rightarrow> auth_db \<Rightarrow> (http_error + string list) \<times> auth_db" where
  "two_factor_enable E now raws given token req = with_user E now token (\<lambda>u db.
     if two_factor_enabled u then (Inl (HTTPException 400 (Msg ''2FA is already enabled'')), db)
     else if \<not> truthy_str (two_factor_secret u) then (Inl (HTTPException 400 (Msg ''Run 2FA setup first'')), db)
     else if \<not> verify_totp E now (two_factor_secret u) given
       then (Inl (HTTPException 400 (Msg ''Invalid verification code'')), db)
     else let backup_codes = generate_backup_codes raws;
              u1 = u\<lparr>two_factor_backup_codes := Some (hash_backup_codes E backup_codes), two_factor_enabled := True\<rparr>
       in (Inr backup_codes,
           log_auth ''2fa_enabled'' (username u) (get_client_ip req) True None None (Some (user_id u))
             (do_sec (store_user u1) db)))"

definition two_factor_disable ::
    "env \<Rightarrow> int \<Rightarrow> string \<Rightarrow> string option \<Rightarrow> string \<Rightarrow> request \<Rightarrow> auth_db \<Rightarrow> (http_error + unit) \<times> auth_db" where
  "two_factor_disable E now password given token req = with_user E now token (\<lambda>u db.
     let given' = (if truthy_str given then the given else []) in
     if \<not> verify_password E password (hashed_password u)
     then (Inl (HTTPException 400 (Msg ''Incorrect password'')), db)
     else if two_factor_enabled u \<and> \<not> verify_totp E now (two_factor_secret u) given' \<and>
             \<not> fst (consume_backup_code E given'
                      (case two_factor_backup_codes u of None \<Rightarrow> [] | Some hs \<Rightarrow> hs))
     then (Inl (HTTPException 400 (Msg ''Invalid two-factor code'')), db)
     else let u1 = u\<lparr>two_factor_enabled := False, two_factor_secret := None, two_factor_backup_codes := None\<rparr>
       in (Inr (), log_auth ''2fa_disabled'' (username u) (get_client_ip req) True None None (Some (user_id u))
                     (do_sec (store_user u1) db)))"

end
