(* ===== verification/Passwords.thy ===== *)
theory Passwords
  imports AuthDb
begin

text \<open>
  The endpoints of \<^verbatim>\<open>backend/app/api/auth.py\<close> that create and remove accounts and change passwords:
  registration and deletion by an administrator, the change of one's own password, the self-service reset.
  \<open>salt\<close> is what the password hash draws. The errors of the password policy are the message keys of
  \<open>validate_password\<close>.
\<close>

section \<open>Registration and deletion\<close>

definition new_user :: "int \<Rightarrow> string \<Rightarrow> string \<Rightarrow> string \<Rightarrow> string option \<Rightarrow> int \<Rightarrow> user" where
  "new_user uid uname mail hashed full now =
     \<lparr>user_id = uid, username = uname, email = mail, hashed_password = hashed, full_name = full,
      is_active = True, is_admin = False, user_role_id = None, user_role = None, language = ''ru'',
      failed_login_attempts = 0, locked_until = None, last_password_change = Some now,
      require_password_change = False, two_factor_enabled = False, two_factor_secret = None,
      two_factor_backup_codes = None, last_login = None\<rparr>"

definition add_user :: "user \<Rightarrow> auth_db \<Rightarrow> auth_db" where
  "add_user u db = (do_sec (\<lambda>st. st\<lparr>users := users st @ [u]\<rparr>) db)\<lparr>next_user_id := next_user_id db + 1\<rparr>"

record register_data =
  reg_username :: string
  reg_email :: string
  reg_password :: string
  reg_full_name :: "string option"

definition register_user ::
    "env \<Rightarrow> int \<Rightarrow> string \<Rightarrow> register_data \<Rightarrow> string \<Rightarrow> request \<Rightarrow> auth_db \<Rightarrow> (http_error + user) \<times> auth_db" where
  "register_user E now salt d token req = with_admin E now token (\<lambda>admin db.
     if find (\<lambda>u. username u = reg_username d) (users (sec db)) \<noteq> None
     then (Inl (HTTPException 400 (Msg ''Username already registered'')), db)
     else if find (\<lambda>u. email u = reg_email d) (users (sec db)) \<noteq> None
     then (Inl (HTTPException 400 (Msg ''Email already registered'')), db)
     else let ((is_valid, errors), db1) = on_sec (validate_password now (reg_password d)) db
       in if \<not> is_valid then (Inl (HTTPException 400 (PasswordErrors errors)), db1)
          else let u = new_user (next_user_id db1) (reg_username d) (reg_email d)
                         (get_password_hash E salt (reg_password d)) (reg_full_name d) now
            in (Inr u, log_auth ''user_created'' (username admin) (get_client_ip req) True None None
                         (Some (user_id admin)) (add_user u db1)))"

text \<open>
  Deleting a user row: the relationship \<open>sessions\<close> cascades, the foreign key of \<open>password_reset_tokens\<close>
  does so in the database. The backref \<open>ssh_keys_pool\<close> has no cascade: the mapper sets \<open>user_id\<close> of the
  user's keys to null, which the column forbids. The commit then raises, and the rows stay.
\<close>

definition delete_user_row :: "int \<Rightarrow> auth_db \<Rightarrow> (http_error + unit) \<times> auth_db" where
  "delete_user_row uid db =
     (if uid \<in> set (ssh_key_owners db) then (Inl (HTTPException 500 (Msg ''Internal Server Error'')), db)
      else (Inr (),
        (do_sec (\<lambda>st. st\<lparr>users := remove_first (\<lambda>u. user_id u = uid) (users st),
                         active_sessions := filter (\<lambda>s. s_user_id s \<noteq> uid) (active_sessions st)\<rparr>) db)
          \<lparr>reset_tokens := filter (\<lambda>t. pr_user_id t \<noteq> uid) (reset_tokens db)\<rparr>))"

definition delete_user :: "env \<Rightarrow> int \<Rightarrow> int \<Rightarrow> string \<Rightarrow> request \<Rightarrow> auth_db \<Rightarrow> (http_error + unit) \<times> auth_db" where
  "delete_user E now uid token req = with_admin E now token (\<lambda>admin db.
     case find (\<lambda>u. user_id u = uid) (users (sec db)) of
       None \<Rightarrow> (Inl (HTTPException 404 (Msg ''User not found'')), db)
     | Some u \<Rightarrow>
         (if user_id u = user_id admin
          then (Inl (HTTPException 400 (Msg ''Cannot delete your own account'')), db)
          else let db1 = snd (on_sec (terminate_all_user_sessions uid) db)
            in (case delete_user_row uid db1 of
                  (Inl e, db2) \<Rightarrow> (Inl e, db2)
                | (Inr _, db2) \<Rightarrow>
                    (Inr (), log_auth ''user_deleted'' (username admin) (get_client_ip req) True None None
                               (Some (user_id admin)) db2))))"

section \<open>Change of one's own password\<close>

definition change_password ::
    "env \<Rightarrow> int \<Rightarrow> string \<Rightarrow> string \<Rightarrow> string \<Rightarrow> string \<Rightarrow> request \<Rightarrow> auth_db \<Rightarrow> (http_error + unit) \<times> auth_db" where
  "change_password E now salt old_password new_password token req = with_user E now token (\<lambda>u db.
     if \<not> verify_password E old_password (hashed_password u)
     then (Inl (HTTPException 400 (Msg ''Incorrect password'')),
           log_auth ''password_change_failed'' (username u) (get_client_ip req) False
             (Some ''Incorrect current password'') None (Some (user_id u)) db)
     else let ((is_valid, errors), db1) = on_sec (validate_password now new_password) db
       in if \<not> is_valid then (Inl (HTTPException 400 (PasswordErrors errors)), db1)
          else let u1 = u\<lparr>hashed_password := get_password_hash E salt new_password,
                          last_password_change := Some now, require_password_change := False\<rparr>
            in (Inr (), log_auth ''password_changed'' (username u) (get_client_ip req) True None None
                          (Some (user_id u)) (do_sec (store_user u1) db1)))"

section \<open>Reset of a forgotten password\<close>

text \<open>
  The SQL operator \<open>ILIKE\<close>, pattern first: \<open>%\<close> stands for any text, \<open>_\<close> for any character, a backslash
  takes the next character literally; letters match without regard to case.
\<close>

function like :: "string \<Rightarrow> string \<Rightarrow> bool" where
  "like [] s = (s = [])"
| "like (p # ps) s =
     (if p = CHR ''%'' then like ps s \<or> (case s of [] \<Rightarrow> False | _ # s' \<Rightarrow> like (p # ps) s')
      else (case s of
              [] \<Rightarrow> False
            | c # s' \<Rightarrow>
                if p = CHR ''_'' then like ps s'
                else if p = CHR 0x5C then (case ps of [] \<Rightarrow> False | q # ps' \<Rightarrow> c = q \<and> like ps' s')
                else c = p \<and> like ps s'))"
  by pat_completeness auto
termination by (relation "measure (\<lambda>(p, s). length p + length s)") auto

definition ilike :: "string \<Rightarrow> string \<Rightarrow> bool" where
  "ilike s pat = like (lower pat) (lower s)"

definition rstrip_slash :: "string \<Rightarrow> string" where
  "rstrip_slash s = rev (dropWhile (\<lambda>c. c = CHR ''/'') (rev s))"

definition use_outstanding :: "int \<Rightarrow> int \<Rightarrow> password_reset_token list \<Rightarrow> password_reset_token list" where
  "use_outstanding now uid ts =
     map (\<lambda>t. if pr_user_id t = uid \<and> pr_used_at t = None then t\<lparr>pr_used_at := Some now\<rparr> else t) ts"

text \<open>The reply is the same in every case; \<open>raw\<close> is the drawn token.\<close>

definition forgot_password :: "env \<Rightarrow> int \<Rightarrow> string \<Rightarrow> string \<Rightarrow> request \<Rightarrow> auth_db \<Rightarrow> unit \<times> auth_db" where
  "forgot_password E now raw mail_address req db =
     (let ip = get_client_ip req; address = strip mail_address
      in case find (\<lambda>u. ilike (email u) address) (users (sec db)) of
           None \<Rightarrow> ((), log_auth ''password_reset_requested'' address ip False
                          (Some ''Unknown or inactive email'') None None db)
         | Some u \<Rightarrow>
             (if \<not> is_active u
              then ((), log_auth ''password_reset_requested'' address ip False
                          (Some ''Unknown or inactive email'') None None db)
              else if find (\<lambda>t. pr_user_id t = user_id u \<and> now - 60 * second \<le> pr_created_at t) (reset_tokens db) \<noteq> None
              then ((), db)
              else let reset = \<lparr>pr_id = next_reset_id db, pr_user_id = user_id u, pr_token_hash = sha256 E raw,
                                pr_expires_at = now + reset_minutes E * minute, pr_used_at = None,
                                pr_ip_address = Some ip, pr_created_at = now\<rparr>;
                       db1 = db\<lparr>reset_tokens := use_outstanding now (user_id u) (reset_tokens db) @ [reset],
                                next_reset_id := next_reset_id db + 1\<rparr>;
                       origin_header = map_of (headers req) ''origin'';
                       origin = (if truthy_str origin_header then the origin_header else rstrip_slash (base_url req));
                       link = origin @ ''/reset-password?token='' @ raw;
                       message = \<lparr>mail_to = email u,
                         mail_name = (if truthy_str (full_name u) then the (full_name u) else username u),
                         mail_language = (if language u = [] then ''ru'' else language u), mail_link = link\<rparr>
                in ((), log_auth ''password_reset_requested'' (username u) ip True None None (Some (user_id u))
                          (db1\<lparr>outbox := outbox db1 @ [message]\<rparr>))))"

definition find_reset :: "env \<Rightarrow> string \<Rightarrow> auth_db \<Rightarrow> password_reset_token option" where
  "find_reset E raw db = find (\<lambda>t. pr_token_hash t = sha256 E raw) (reset_tokens db)"

definition validate_reset_token :: "env \<Rightarrow> int \<Rightarrow> string \<Rightarrow> auth_db \<Rightarrow> bool" where
  "validate_reset_token E now raw db =
     (case find_reset E raw db of None \<Rightarrow> False | Some t \<Rightarrow> reset_token_is_valid now t)"

definition reset_password ::
    "env \<Rightarrow> int \<Rightarrow> string \<Rightarrow> string \<Rightarrow> string \<Rightarrow> request \<Rightarrow> auth_db \<Rightarrow> (http_error + unit) \<times> auth_db" where
  "reset_password E now salt raw new_password req db =
     (let ip = get_client_ip req;
          expired = HTTPException 400 (Msg ''Reset link is invalid or has expired'')
      in case find_reset E raw db of
           None \<Rightarrow> (Inl expired, log_auth ''password_reset_failed'' ''unknown'' ip False
                      (Some ''Invalid or expired reset token'') None None db)
         | Some reset \<Rightarrow>
             (if \<not> reset_token_is_valid now reset
              then (Inl expired, log_auth ''password_reset_failed'' ''unknown'' ip False
                      (Some ''Invalid or expired reset token'') None None db)
              else (case find (\<lambda>u. user_id u = pr_user_id reset) (users (sec db)) of
                  None \<Rightarrow> (Inl expired, db)
                | Some u \<Rightarrow>
                    (if \<not> is_active u then (Inl expired, db)
                     else let ((is_valid, errors), db1) = on_sec (validate_password now new_password) db
                       in if \<not> is_valid then (Inl (HTTPException 400 (PasswordErrors errors)), db1)
                          else let u1 = u\<lparr>hashed_password := get_password_hash E salt new_password,
                                     last_password_change := Some now, require_password_change := False,
                                     failed_login_attempts := 0, locked_until := None\<rparr>;
                                   db2 = do_sec (store_user u1) db1;
                                   db3 = db2\<lparr>reset_tokens := use_outstanding now (user_id u1)
                                     (update_first (\<lambda>t. pr_id t = pr_id reset) (\<lambda>t. t\<lparr>pr_used_at := Some now\<rparr>)
                                        (reset_tokens db2))\<rparr>;
                                   db4 = snd (on_sec (terminate_all_user_sessions (user_id u1)) db3)
                            in (Inr (), log_auth ''password_reset'' (username u1) ip True None None
                                          (Some (user_id u1)) db4)))))"

end
