(* ===== verification/UserApi.thy ===== *)
theory UserApi
  imports Passwords
begin

text \<open>
  \<^verbatim>\<open>backend/app/api/users.py\<close>: roles, accounts, security settings, blocked addresses and sessions, behind
  the permission guards of the engine. The reply of an endpoint is left out where it only repeats stored
  columns. A handler changes the loaded row in memory; what is not committed when it raises is lost.
\<close>

section \<open>Audit log entries of these endpoints\<close>

definition log_event ::
    "string \<Rightarrow> string \<Rightarrow> string \<Rightarrow> user \<Rightarrow> request \<Rightarrow> (string \<times> string \<times> string option) option \<Rightarrow> auth_db \<Rightarrow> auth_db" where
  "log_event level act message u req res db =
     db\<lparr>audit_logs := audit_logs db @
       [\<lparr>l_level = level, l_category = ''auth'', l_action = act, l_message = message,
         l_user_id = Some (user_id u), l_username = Some (username u), l_ip_address = Some (get_client_ip req),
         l_user_agent = None, l_resource_type = map_option fst res,
         l_resource_id = map_option (\<lambda>(_, i, _). i) res, l_resource_name = Option.bind res (\<lambda>(_, _, n). n),
         l_success = True, l_error_message = None\<rparr>]\<rparr>"

definition quoted :: "string \<Rightarrow> string" where
  "quoted s = [CHR 0x27] @ s @ [CHR 0x27]"

definition on_role :: "role \<Rightarrow> (string \<times> string \<times> string option) option" where
  "on_role r = Some (''role'', dec_int (role_id r), Some (role_name r))"

definition on_user :: "user \<Rightarrow> (string \<times> string \<times> string option) option" where
  "on_user u = Some (''user'', dec_int (user_id u), Some (username u))"

section \<open>Roles\<close>

record role_create =
  rc_name :: string
  rc_display_name :: string
  rc_description :: "string option"
  rc_permissions :: "(string, bool) pydict"

record role_update =
  ru_display_name :: "string option"
  ru_description :: "string option"
  ru_permissions :: "(string, bool) pydict option"
  ru_is_active :: "bool option"

definition api_create_role ::
    "env \<Rightarrow> int \<Rightarrow> role_create \<Rightarrow> string \<Rightarrow> request \<Rightarrow> auth_db \<Rightarrow> (http_error + role) \<times> auth_db" where
  "api_create_role E now d token req = with_permission E ''role:manage'' now token (\<lambda>cur db.
     if get_role (lower (rc_name d)) (sec db) \<noteq> None
     then (Inl (HTTPException 400 (Msg ''Role name already exists'')), db)
     else let (r, db1) = on_sec (create_role (rc_name d) (rc_display_name d) (rc_description d)
                (Some (rc_permissions d))) db
       in (Inr r, log_event ''info'' ''role_created''
             (''Role '' @ quoted (role_name r) @ '' created by '' @ username cur) cur req (on_role r) db1))"

definition api_update_role ::
    "env \<Rightarrow> int \<Rightarrow> int \<Rightarrow> role_update \<Rightarrow> string \<Rightarrow> request \<Rightarrow> auth_db \<Rightarrow> (http_error + role) \<times> auth_db" where
  "api_update_role E now rid d token req = with_permission E ''role:manage'' now token (\<lambda>cur db.
     case find (\<lambda>r. role_id r = rid) (roles (sec db)) of
       None \<Rightarrow> (Inl (HTTPException 404 (Msg ''Role not found'')), db)
     | Some r \<Rightarrow>
         (let r1 = (case ru_display_name d of None \<Rightarrow> r | Some n \<Rightarrow> r\<lparr>role_display_name := n\<rparr>);
              r2 = (case ru_description d of None \<Rightarrow> r1 | Some t \<Rightarrow> r1\<lparr>role_description := Some t\<rparr>);
              r3 = (case ru_permissions d of None \<Rightarrow> r2 | Some ps \<Rightarrow> r2\<lparr>role_permissions := ps\<rparr>);
              r4 = (case ru_is_active d of None \<Rightarrow> r3 | Some b \<Rightarrow> r3\<lparr>role_is_active := b\<rparr>);
              db1 = do_sec (\<lambda>st. st\<lparr>roles := update_first (\<lambda>r. role_id r = rid) (\<lambda>_. r4) (roles st)\<rparr>) db
          in (Inr r4, log_event ''info'' ''role_updated''
                (''Role '' @ quoted (role_name r4) @ '' updated by '' @ username cur) cur req (on_role r4) db1)))"

definition api_delete_role ::
    "env \<Rightarrow> int \<Rightarrow> int \<Rightarrow> string \<Rightarrow> request \<Rightarrow> auth_db \<Rightarrow> (http_error + unit) \<times> auth_db" where
  "api_delete_role E now rid token req = with_permission E ''role:manage'' now token (\<lambda>cur db.
     let ((success, message), db1) = on_sec (delete_role rid) db
     in if \<not> success then (Inl (HTTPException 400 (Msg message)), db1)
        else (Inr (), log_event ''warning'' ''role_deleted''
               (''Role ID '' @ dec_int rid @ '' deleted by '' @ username cur) cur req
               (Some (''role'', dec_int rid, None)) db1))"

section \<open>Accounts\<close>

record user_create =
  uc_username :: string
  uc_email :: string
  uc_password :: string
  uc_full_name :: "string option"
  uc_role_id :: "int option"
  uc_is_active :: bool
  uc_is_admin :: bool

record user_update =
  uu_email :: "string option"
  uu_full_name :: "string option"
  uu_password :: "string option"
  uu_role_id :: "int option"
  uu_is_active :: "bool option"
  uu_is_admin :: "bool option"
  uu_require_password_change :: "bool option"

definition role_exists :: "int \<Rightarrow> sec_state \<Rightarrow> bool" where
  "role_exists rid st = (find (\<lambda>r. role_id r = rid) (roles st) \<noteq> None)"

definition find_user :: "int \<Rightarrow> sec_state \<Rightarrow> user option" where
  "find_user uid st = map_option (load_user (roles st)) (find (\<lambda>u. user_id u = uid) (users st))"

text \<open>A role id of zero is not looked up; the foreign key then refuses the row.\<close>

definition api_create_user ::
    "env \<Rightarrow> int \<Rightarrow> string \<Rightarrow> user_create \<Rightarrow> string \<Rightarrow> request \<Rightarrow> auth_db \<Rightarrow> (http_error + user) \<times> auth_db" where
  "api_create_user E now salt d token req = with_permission E ''user:create'' now token (\<lambda>cur db.
     if find (\<lambda>u. username u = uc_username d) (users (sec db)) \<noteq> None
     then (Inl (HTTPException 400 (Msg ''Username already exists'')), db)
     else if find (\<lambda>u. email u = uc_email d) (users (sec db)) \<noteq> None
     then (Inl (HTTPException 400 (Msg ''Email already exists'')), db)
     else let ((is_valid, errors), db1) = on_sec (validate_password now (uc_password d)) db
       in if \<not> is_valid then (Inl (HTTPException 400 (PasswordErrors errors)), db1)
          else if truthy_int (uc_role_id d) \<and> \<not> role_exists (the (uc_role_id d)) (sec db1)
          then (Inl (HTTPException 400 (Msg ''Invalid role'')), db1)
          else if uc_role_id d = Some 0 \<and> \<not> role_exists 0 (sec db1)
          then (Inl (HTTPException 500 (Msg ''Internal Server Error'')), db1)
          else let u = (new_user (next_user_id db1) (uc_username d) (uc_email d)
                         (get_password_hash E salt (uc_password d)) (uc_full_name d) now)
                       \<lparr>user_role_id := uc_role_id d, is_active := uc_is_active d, is_admin := uc_is_admin d\<rparr>
            in (Inr (load_user (roles (sec db1)) u), log_event ''info'' ''user_created''
                  (''User '' @ quoted (username u) @ '' created by '' @ username cur) cur req (on_user u)
                  (add_user u db1)))"

text \<open>
  The steps of \<open>update_user\<close> after the first two guards. \<open>u\<close> is the row in memory; the call that ends the
  sessions of a deactivated user commits, and with it everything changed so far.
\<close>

definition update_user_admin_flag ::
    "user \<Rightarrow> int \<Rightarrow> user_update \<Rightarrow> request \<Rightarrow> user \<Rightarrow> auth_db \<Rightarrow> (http_error + user) \<times> auth_db" where
  "update_user_admin_flag cur uid d req u db =
     (let finish = (\<lambda>u. (Inr (load_user (roles (sec db)) u), log_event ''info'' ''user_updated''
            (''User '' @ quoted (username u) @ '' updated by '' @ username cur) cur req (on_user u)
            (do_sec (store_user u) db)))
      in case uu_is_admin d of
           None \<Rightarrow> finish u
         | Some b \<Rightarrow>
             (if \<not> is_admin cur then (Inl (HTTPException 403 (Msg ''Only admin can change admin status'')), db)
              else if uid = user_id cur \<and> \<not> b
              then (Inl (HTTPException 400 (Msg ''Cannot remove your own admin status'')), db)
              else finish (u\<lparr>is_admin := b\<rparr>)))"

definition update_user_active ::
    "user \<Rightarrow> int \<Rightarrow> user_update \<Rightarrow> request \<Rightarrow> user \<Rightarrow> auth_db \<Rightarrow> (http_error + user) \<times> auth_db" where
  "update_user_active cur uid d req u db =
     (if uid = user_id cur \<and> uu_is_active d = Some False
      then (Inl (HTTPException 400 (Msg ''Cannot deactivate yourself'')), db)
      else let u1 = (case uu_is_active d of None \<Rightarrow> u | Some b \<Rightarrow> u\<lparr>is_active := b\<rparr>);
               db1 = (if uu_is_active d = Some False
                      then snd (on_sec (terminate_all_user_sessions uid) (do_sec (store_user u1) db)) else db);
               u2 = (case uu_require_password_change d of None \<Rightarrow> u1 | Some b \<Rightarrow> u1\<lparr>require_password_change := b\<rparr>)
        in update_user_admin_flag cur uid d req u2 db1)"

definition update_user_role ::
    "user \<Rightarrow> int \<Rightarrow> user_update \<Rightarrow> request \<Rightarrow> user \<Rightarrow> auth_db \<Rightarrow> (http_error + user) \<times> auth_db" where
  "update_user_role cur uid d req u db =
     (case uu_role_id d of
        None \<Rightarrow> update_user_active cur uid d req u db
      | Some rid \<Rightarrow>
          (if \<not> role_exists rid (sec db) then (Inl (HTTPException 400 (Msg ''Invalid role'')), db)
           else update_user_active cur uid d req (u\<lparr>user_role_id := Some rid\<rparr>) db))"

definition api_update_user ::
    "env \<Rightarrow> int \<Rightarrow> string \<Rightarrow> int \<Rightarrow> user_update \<Rightarrow> string \<Rightarrow> request \<Rightarrow> auth_db \<Rightarrow> (http_error + user) \<times> auth_db" where
  "api_update_user E now salt uid d token req = with_permission E ''user:update'' now token (\<lambda>cur db.
     case find_user uid (sec db) of
       None \<Rightarrow> (Inl (HTTPException 404 (Msg ''User not found'')), db)
     | Some u \<Rightarrow>
         (if is_admin u \<and> \<not> is_admin cur then (Inl (HTTPException 403 (Msg ''Cannot edit admin user'')), db)
          else if (case uu_email d of None \<Rightarrow> False
                   | Some m \<Rightarrow> find (\<lambda>x. email x = m \<and> user_id x \<noteq> uid) (users (sec db)) \<noteq> None)
          then (Inl (HTTPException 400 (Msg ''Email already exists'')), db)
          else let u1 = (case uu_email d of None \<Rightarrow> u | Some m \<Rightarrow> u\<lparr>email := m\<rparr>);
                   u2 = (case uu_full_name d of None \<Rightarrow> u1 | Some n \<Rightarrow> u1\<lparr>full_name := Some n\<rparr>)
            in (case uu_password d of
                  None \<Rightarrow> update_user_role cur uid d req u2 db
                | Some p \<Rightarrow>
                    (let ((is_valid, errors), db1) = on_sec (validate_password now p) db
                     in if \<not> is_valid then (Inl (HTTPException 400 (PasswordErrors errors)), db1)
                        else update_user_role cur uid d req
                               (u2\<lparr>hashed_password := get_password_hash E salt p,
                                   last_password_change := Some now\<rparr>) db1))))"

definition api_delete_user :: "env \<Rightarrow> int \<Rightarrow> int \<Rightarrow> string \<Rightarrow> request \<Rightarrow> auth_db \<Rightarrow> (http_error + unit) \<times> auth_db" where
  "api_delete_user E now uid token req = with_permission E ''user:delete'' now token (\<lambda>cur db.
     case find_user uid (sec db) of
       None \<Rightarrow> (Inl (HTTPException 404 (Msg ''User not found'')), db)
     | Some u \<Rightarrow>
         (if uid = user_id cur then (Inl (HTTPException 400 (Msg ''Cannot delete yourself'')), db)
          else if is_admin u then (Inl (HTTPException 400 (Msg ''Cannot delete admin user'')), db)
          else let db1 = snd (on_sec (terminate_all_user_sessions uid) db)
            in (case delete_user_row uid db1 of
                  (Inl e, db2) \<Rightarrow> (Inl e, db2)
                | (Inr _, db2) \<Rightarrow>
                    (Inr (), log_event ''warning'' ''user_deleted''
                       (''User '' @ quoted (username u) @ '' deleted by '' @ username cur) cur req (on_user u) db2))))"

text \<open>The endpoints that act on one account share the lookup.\<close>

definition with_account ::
    "env \<Rightarrow> int \<Rightarrow> string \<Rightarrow> int \<Rightarrow> (user \<Rightarrow> user \<Rightarrow> auth_db \<Rightarrow> (http_error + 'r) \<times> auth_db) \<Rightarrow> auth_db \<Rightarrow>
     (http_error + 'r) \<times> auth_db" where
  "with_account E now token uid f = with_permission E ''user:update'' now token (\<lambda>cur db.
     case find_user uid (sec db) of
       None \<Rightarrow> (Inl (HTTPException 404 (Msg ''User not found'')), db)
     | Some u \<Rightarrow> f cur u db)"

definition reset_user_password ::
    "env \<Rightarrow> int \<Rightarrow> string \<Rightarrow> int \<Rightarrow> string \<Rightarrow> string \<Rightarrow> request \<Rightarrow> auth_db \<Rightarrow> (http_error + unit) \<times> auth_db" where
  "reset_user_password E now salt uid new_password token req = with_account E now token uid (\<lambda>cur u db.
     let ((is_valid, errors), db1) = on_sec (validate_password now new_password) db
     in if \<not> is_valid then (Inl (HTTPException 400 (PasswordErrors errors)), db1)
        else let u1 = u\<lparr>hashed_password := get_password_hash E salt new_password, last_password_change := Some now,
                        require_password_change := True, failed_login_attempts := 0, locked_until := None\<rparr>;
                 db2 = snd (on_sec (terminate_all_user_sessions uid) (do_sec (store_user u1) db1))
          in (Inr (), log_event ''warning'' ''password_reset''
                (''Password reset for user '' @ quoted (username u1) @ '' by '' @ username cur) cur req (on_user u1) db2))"

definition unlock_user :: "env \<Rightarrow> int \<Rightarrow> int \<Rightarrow> string \<Rightarrow> request \<Rightarrow> auth_db \<Rightarrow> (http_error + unit) \<times> auth_db" where
  "unlock_user E now uid token req = with_account E now token uid (\<lambda>cur u db.
     (Inr (), log_event ''info'' ''user_unlocked''
        (''User '' @ quoted (username u) @ '' unlocked by '' @ username cur) cur req (on_user u)
        (do_sec (store_user (u\<lparr>failed_login_attempts := 0, locked_until := None\<rparr>)) db)))"

definition admin_disable_two_factor ::
    "env \<Rightarrow> int \<Rightarrow> int \<Rightarrow> string \<Rightarrow> request \<Rightarrow> auth_db \<Rightarrow> (http_error + unit) \<times> auth_db" where
  "admin_disable_two_factor E now uid token req = with_account E now token uid (\<lambda>cur u db.
     if \<not> two_factor_enabled u \<and> \<not> truthy_str (two_factor_secret u) then (Inr (), db)
     else (Inr (), log_event ''warning'' ''user_2fa_disabled''
        (''2FA for user '' @ quoted (username u) @ '' disabled by '' @ username cur) cur req (on_user u)
        (do_sec (store_user (u\<lparr>two_factor_enabled := False, two_factor_secret := None,
                                two_factor_backup_codes := None\<rparr>)) db)))"

definition terminate_user_sessions ::
    "env \<Rightarrow> int \<Rightarrow> int \<Rightarrow> string \<Rightarrow> request \<Rightarrow> auth_db \<Rightarrow> (http_error + nat) \<times> auth_db" where
  "terminate_user_sessions E now uid token req = with_account E now token uid (\<lambda>cur u db.
     let (count, db1) = on_sec (terminate_all_user_sessions uid) db
     in (Inr count, log_event ''info'' ''sessions_terminated''
           (''Terminated '' @ dec_string count @ '' sessions for user '' @ quoted (username u) @ '' by '' @ username cur)
           cur req (on_user u) db1))"

section \<open>Security settings\<close>

text \<open>
  The fields the request names, in the order of the model; \<open>None\<close> is an explicit null, which the code
  turns into the text \<open>None\<close>.
\<close>

datatype setting_value = SInt int | SBool bool | SNull

definition setting_text :: "setting_value \<Rightarrow> string" where
  "setting_text v = (case v of SInt n \<Rightarrow> dec_int n | SBool b \<Rightarrow> if b then ''true'' else ''false'' | SNull \<Rightarrow> ''None'')"

fun update_settings :: "(string \<times> setting_value) list \<Rightarrow> sec_state \<Rightarrow> sec_state" where
  "update_settings [] st = st"
| "update_settings ((k, v) # kvs) st = update_settings kvs (update_setting k (setting_text v) st)"

definition update_security_settings ::
    "env \<Rightarrow> int \<Rightarrow> (string \<times> setting_value) list \<Rightarrow> string \<Rightarrow> request \<Rightarrow> auth_db \<Rightarrow>
     (http_error + string list) \<times> auth_db" where
  "update_security_settings E now d token req = with_permission E ''setting:manage'' now token (\<lambda>cur db.
     let db1 = do_sec (update_settings d) db; updated = map fst d
     in (Inr updated,
         if updated = [] then db1
         else log_event ''info'' ''security_settings_updated''
           (''Security settings updated by '' @ username cur @ '': '' @ join_with '', '' updated) cur req None db1))"

section \<open>Blocked addresses\<close>

text \<open>\<open>reason\<close> is the entry of the request, if it has one, which may be null.\<close>

definition api_block_ip ::
    "env \<Rightarrow> int \<Rightarrow> string \<Rightarrow> string option option \<Rightarrow> int option \<Rightarrow> string \<Rightarrow> request \<Rightarrow> auth_db \<Rightarrow>
     (http_error + unit) \<times> auth_db" where
  "api_block_ip E now ip reason duration_minutes token req = with_permission E ''setting:manage'' now token (\<lambda>cur db.
     if ip = [] then (Inl (HTTPException 400 (Msg ''IP address is required'')), db)
     else if find (\<lambda>b. b_ip_address b = ip) (blocked_ips (sec db)) \<noteq> None
     then (Inl (HTTPException 400 (Msg ''IP is already blocked'')), db)
     else let why = (case reason of None \<Rightarrow> Some ''Manual block'' | Some r \<Rightarrow> r);
              b = \<lparr>b_ip_address = ip, b_reason = why, b_blocked_by = Some (username cur), b_blocked_at = now,
                   b_expires_at = (if truthy_int duration_minutes then Some (now + the duration_minutes * minute) else None),
                   b_is_permanent = (\<not> truthy_int duration_minutes), b_attempts_count = 0\<rparr>
       in (Inr (), log_event ''warning'' ''ip_blocked_manual''
             (''IP '' @ ip @ '' blocked manually by '' @ username cur @ '': '' @
              (case why of None \<Rightarrow> ''None'' | Some r \<Rightarrow> r)) cur req None
             (do_sec (\<lambda>st. st\<lparr>blocked_ips := blocked_ips st @ [b]\<rparr>) db)))"

definition api_unblock_ip :: "env \<Rightarrow> int \<Rightarrow> string \<Rightarrow> string \<Rightarrow> request \<Rightarrow> auth_db \<Rightarrow> (http_error + unit) \<times> auth_db" where
  "api_unblock_ip E now ip token req = with_permission E ''setting:manage'' now token (\<lambda>cur db.
     let (found, db1) = on_sec (unblock_ip ip) db
     in if found then (Inr (), log_event ''info'' ''ip_unblocked''
                         (''IP '' @ ip @ '' unblocked by '' @ username cur) cur req None db1)
        else (Inl (HTTPException 404 (Msg ''IP not found in blocked list'')), db1))"

section \<open>Sessions\<close>

definition delete_session ::
    "env \<Rightarrow> int \<Rightarrow> int \<Rightarrow> string \<Rightarrow> request \<Rightarrow> auth_db \<Rightarrow> (http_error + unit) \<times> auth_db" where
  "delete_session E now sid token req = with_permission E ''user:update'' now token (\<lambda>cur db.
     if find (\<lambda>s. s_id s = sid) (active_sessions (sec db)) = None
     then (Inl (HTTPException 404 (Msg ''Session not found'')), db)
     else (Inr (), log_event ''info'' ''session_terminated''
             (''Session '' @ dec_int sid @ '' terminated by '' @ username cur) cur req None
             (do_sec (\<lambda>st. st\<lparr>active_sessions := remove_first (\<lambda>s. s_id s = sid) (active_sessions st)\<rparr>) db)))"

definition delete_all_sessions :: "env \<Rightarrow> int \<Rightarrow> string \<Rightarrow> request \<Rightarrow> auth_db \<Rightarrow> (http_error + nat) \<times> auth_db" where
  "delete_all_sessions E now token req = with_permission E ''user:update'' now token (\<lambda>cur db.
     let deleted = length (filter (\<lambda>s. s_user_id s \<noteq> user_id cur) (active_sessions (sec db)))
     in (Inr deleted, log_event ''warning'' ''all_sessions_terminated''
           (''All sessions ('' @ dec_string deleted @ '') terminated by '' @ username cur) cur req None
           (do_sec (\<lambda>st. st\<lparr>active_sessions := filter (\<lambda>s. s_user_id s = user_id cur) (active_sessions st)\<rparr>) db)))"

lemma log_event_simps [simp]:
  "sec (log_event lv a m u req res db) = sec db"
  "next_user_id (log_event lv a m u req res db) = next_user_id db"
  "reset_tokens (log_event lv a m u req res db) = reset_tokens db"
  "next_reset_id (log_event lv a m u req res db) = next_reset_id db"
  "ssh_key_owners (log_event lv a m u req res db) = ssh_key_owners db"
  "outbox (log_event lv a m u req res db) = outbox db"
  by (simp_all add: log_event_def)

end
