(* ===== verification/ApiRuns.thy ===== *)
theory ApiRuns
  imports Login UserApi
begin

text \<open>
  Runs of the endpoints under \<^verbatim>\<open>api/auth.py\<close> and \<^verbatim>\<open>api/users.py\<close> together. \<open>api_request\<close> has one
  constructor per endpoint that changes state, \<open>handle\<close> is the router. Every endpoint is shown to be a
  sequence of primitive effects on the tables (\<open>effect\<close>), and the invariants of the tables are proved of
  the effects: \<open>accounts\<close>, \<open>logged_out\<close> and \<open>spent\<close> below are interpretations of the machine locales.
\<close>

section \<open>The router\<close>

datatype api_request =
    Login string login_data request
  | Refresh string
  | Logout string request
  | Impersonate string int string request
  | StopImpersonating string string request
  | TwoFactorSetup string string
  | TwoFactorEnable "string list" string string request
  | TwoFactorDisable string "string option" string request
  | Register string register_data string request
  | DeleteAccount int string request
  | ChangePassword string string string string request
  | ForgotPassword string string request
  | ResetPassword string string string request
  | CreateRole role_create string request
  | UpdateRole int role_update string request
  | DeleteRole int string request
  | CreateUser string user_create string request
  | UpdateUser string int user_update string request
  | DeleteUser int string request
  | ResetUserPassword string int string string request
  | UnlockUser int string request
  | DisableTwoFactor int string request
  | TerminateUserSessions int string request
  | UpdateSettings "(string \<times> setting_value) list" string request
  | BlockIp string "string option option" "int option" string request
  | UnblockIp string string request
  | DeleteSession int string request
  | DeleteAllSessions string request

fun handle :: "env \<Rightarrow> int \<Rightarrow> api_request \<Rightarrow> auth_db \<Rightarrow> auth_db" where
  "handle E now (Login fresh d req) db = snd (login E now fresh d req db)"
| "handle E now (Refresh token) db = snd (refresh_token E now token db)"
| "handle E now (Logout token req) db = snd (logout E now token req db)"
| "handle E now (Impersonate fresh uid token req) db = snd (impersonate_user E now fresh uid token req db)"
| "handle E now (StopImpersonating fresh token req) db = snd (stop_impersonating E now fresh token req db)"
| "handle E now (TwoFactorSetup secret token) db = snd (two_factor_setup E now secret token db)"
| "handle E now (TwoFactorEnable raws given token req) db = snd (two_factor_enable E now raws given token req db)"
| "handle E now (TwoFactorDisable pw given token req) db = snd (two_factor_disable E now pw given token req db)"
| "handle E now (Register salt d token req) db = snd (register_user E now salt d token req db)"
| "handle E now (DeleteAccount uid token req) db = snd (delete_user E now uid token req db)"
| "handle E now (ChangePassword salt old new token req) db = snd (change_password E now salt old new token req db)"
| "handle E now (ForgotPassword raw address req) db = snd (forgot_password E now raw address req db)"
| "handle E now (ResetPassword salt raw new req) db = snd (reset_password E now salt raw new req db)"
| "handle E now (CreateRole d token req) db = snd (api_create_role E now d token req db)"
| "handle E now (UpdateRole rid d token req) db = snd (api_update_role E now rid d token req db)"
| "handle E now (DeleteRole rid token req) db = snd (api_delete_role E now rid token req db)"
| "handle E now (CreateUser salt d token req) db = snd (api_create_user E now salt d token req db)"
| "handle E now (UpdateUser salt uid d token req) db = snd (api_update_user E now salt uid d token req db)"
| "handle E now (DeleteUser uid token req) db = snd (api_delete_user E now uid token req db)"
| "handle E now (ResetUserPassword salt uid new token req) db = snd (reset_user_password E now salt uid new token req db)"
| "handle E now (UnlockUser uid token req) db = snd (unlock_user E now uid token req db)"
| "handle E now (DisableTwoFactor uid token req) db = snd (admin_disable_two_factor E now uid token req db)"
| "handle E now (TerminateUserSessions uid token req) db = snd (terminate_user_sessions E now uid token req db)"
| "handle E now (UpdateSettings d token req) db = snd (update_security_settings E now d token req db)"
| "handle E now (BlockIp ip reason mins token req) db = snd (api_block_ip E now ip reason mins token req db)"
| "handle E now (UnblockIp ip token req) db = snd (api_unblock_ip E now ip token req db)"
| "handle E now (DeleteSession sid token req) db = snd (delete_session E now sid token req db)"
| "handle E now (DeleteAllSessions token req) db = snd (delete_all_sessions E now token req db)"

text \<open>The random session token and reset token a request draws.\<close>

fun drawn_session :: "api_request \<Rightarrow> string option" where
  "drawn_session (Login fresh _ _) = Some fresh"
| "drawn_session (Impersonate fresh _ _ _) = Some fresh"
| "drawn_session (StopImpersonating fresh _ _) = Some fresh"
| "drawn_session _ = None"

fun drawn_reset :: "api_request \<Rightarrow> string option" where
  "drawn_reset (ForgotPassword raw _ _) = Some raw"
| "drawn_reset _ = None"

definition session_tokens :: "sec_state \<Rightarrow> string set" where
  "session_tokens st = s_session_token ` set (active_sessions st)"

text \<open>
  A drawn token is new: no stored row has it, and it is neither the session token \<open>t\<close> nor the reset
  token with the hash \<open>h\<close> that a run is about.
\<close>

definition draws_fresh :: "env \<Rightarrow> string \<Rightarrow> string \<Rightarrow> api_request \<Rightarrow> auth_db \<Rightarrow> bool" where
  "draws_fresh E t h r db \<longleftrightarrow>
     (case drawn_session r of None \<Rightarrow> True
      | Some f \<Rightarrow> f \<noteq> t \<and> f \<notin> session_tokens (sec db)) \<and>
     (case drawn_reset r of None \<Rightarrow> True
      | Some raw \<Rightarrow> sha256 E raw \<noteq> h \<and> sha256 E raw \<notin> pr_token_hash ` set (reset_tokens db))"

inductive api_step :: "env \<Rightarrow> string \<Rightarrow> string \<Rightarrow> auth_db \<Rightarrow> auth_db \<Rightarrow> bool" for E t h where
  request: "draws_fresh E t h r db \<Longrightarrow> api_step E t h db (handle E now r db)"

section \<open>Primitive effects\<close>

text \<open>The keys of an account: what the tables hold unique or reference.\<close>

definition same_keys :: "user \<Rightarrow> user \<Rightarrow> bool" where
  "same_keys u v \<longleftrightarrow>
     user_id u = user_id v \<and> username u = username v \<and> email u = email v \<and> user_role_id u = user_role_id v"

definition known :: "user \<Rightarrow> user list \<Rightarrow> bool" where
  "known v us \<longleftrightarrow> (\<exists>u \<in> set us. same_keys v u)"

text \<open>
  What \<open>update_user\<close> may write: the row of a stored account with the same name, an e-mail address no other
  account has, and a role that exists.
\<close>

definition storable :: "user \<Rightarrow> sec_state \<Rightarrow> bool" where
  "storable v st \<longleftrightarrow>
     (\<exists>u \<in> set (users st). user_id v = user_id u \<and> username v = username u \<and>
        (email v = email u \<or> (\<forall>x \<in> set (users st). email x = email v \<longrightarrow> user_id x = user_id v)) \<and>
        (user_role_id v = user_role_id u \<or> (\<exists>i. user_role_id v = Some i \<and> role_exists i st)))"

text \<open>The tables the invariants speak of are left as they are.\<close>

definition same_tables :: "auth_db \<Rightarrow> auth_db \<Rightarrow> bool" where
  "same_tables db db' \<longleftrightarrow>
     users (sec db') = users (sec db) \<and> roles (sec db') = roles (sec db) \<and>
     next_role_id (sec db') = next_role_id (sec db) \<and> active_sessions (sec db') = active_sessions (sec db) \<and>
     next_user_id db' = next_user_id db \<and> reset_tokens db' = reset_tokens db \<and>
     next_reset_id db' = next_reset_id db"

inductive effect :: "env \<Rightarrow> string \<Rightarrow> string \<Rightarrow> auth_db \<Rightarrow> auth_db \<Rightarrow> bool" for E t h where
  quiet: "same_tables db db' \<Longrightarrow> effect E t h db db'"
| validate: "effect E t h db (snd (on_sec (validate_session now s) db))"
| create: "f \<noteq> t \<Longrightarrow> f \<notin> session_tokens (sec db) \<Longrightarrow>
    effect E t h db (snd (on_sec (create_session now f u ip ua) db))"
| terminate: "effect E t h db (snd (on_sec (terminate_session s) db))"
| terminate_all: "effect E t h db (snd (on_sec (terminate_all_user_sessions uid) db))"
| drop_sessions:
    "effect E t h db (do_sec (\<lambda>st. st\<lparr>active_sessions := filter P (active_sessions st)\<rparr>) db)"
| drop_session:
    "effect E t h db (do_sec (\<lambda>st. st\<lparr>active_sessions := remove_first P (active_sessions st)\<rparr>) db)"
| store: "known v (users (sec db)) \<Longrightarrow> effect E t h db (do_sec (store_user v) db)"
| rekey: "storable v (sec db) \<Longrightarrow> effect E t h db (do_sec (store_user v) db)"
| add: "user_id u = next_user_id db \<Longrightarrow>
    \<forall>x \<in> set (users (sec db)). username x \<noteq> username u \<and> email x \<noteq> email u \<Longrightarrow>
    (case user_role_id u of None \<Rightarrow> True | Some i \<Rightarrow> role_exists i (sec db)) \<Longrightarrow>
    effect E t h db (add_user u db)"
| delete: "effect E t h db (snd (delete_user_row uid db))"
| new_role: "get_role (lower name) (sec db) = None \<Longrightarrow>
    effect E t h db (snd (on_sec (create_role name dname descr perms) db))"
| change_role: "find (\<lambda>r. role_id r = rid) (roles (sec db)) = Some r \<Longrightarrow> role_id r' = role_id r \<Longrightarrow>
    role_name r' = role_name r \<Longrightarrow>
    effect E t h db (do_sec (\<lambda>st. st\<lparr>roles := update_first (\<lambda>r. role_id r = rid) (\<lambda>_. r') (roles st)\<rparr>) db)"
| remove_role: "effect E t h db (snd (on_sec (delete_role rid) db))"
| issue_reset: "pr_token_hash reset \<noteq> h \<Longrightarrow> pr_token_hash reset \<notin> pr_token_hash ` set (reset_tokens db) \<Longrightarrow>
    effect E t h db (db\<lparr>reset_tokens := use_outstanding now uid (reset_tokens db) @ [reset],
                        next_reset_id := next_reset_id db + 1\<rparr>)"
| use_reset:
    "effect E t h db (db\<lparr>reset_tokens := use_outstanding now uid
       (update_first P (\<lambda>x. x\<lparr>pr_used_at := Some now\<rparr>) (reset_tokens db))\<rparr>)"

abbreviation effects :: "env \<Rightarrow> string \<Rightarrow> string \<Rightarrow> auth_db \<Rightarrow> auth_db \<Rightarrow> bool" where
  "effects E t h \<equiv> (effect E t h)\<^sup>*\<^sup>*"

section \<open>Endpoints are sequences of effects\<close>

text \<open>
  The rules of \<open>reach\<close> follow a state expression from the outside in: the state after a call is reached
  when the state before it is.
\<close>

named_theorems reach

lemmas reach_step = rtranclp.rtrancl_into_rtrancl [of "effect E t h" for E t h]

lemma reach_quiet: "effects E t h a b \<Longrightarrow> same_tables b c \<Longrightarrow> effects E t h a c"
  by (blast intro: reach_step effect.quiet)

lemma same_tables_on_sec:
  assumes "users (snd (f (sec db))) = users (sec db)" "roles (snd (f (sec db))) = roles (sec db)"
    and "next_role_id (snd (f (sec db))) = next_role_id (sec db)"
    and "active_sessions (snd (f (sec db))) = active_sessions (sec db)"
  shows "same_tables db (snd (on_sec f db))"
  using assms by (simp add: same_tables_def)

lemma same_tables_do_sec:
  assumes "users (f (sec db)) = users (sec db)" "roles (f (sec db)) = roles (sec db)"
    and "next_role_id (f (sec db)) = next_role_id (sec db)"
    and "active_sessions (f (sec db)) = active_sessions (sec db)"
  shows "same_tables db (do_sec f db)"
  using assms by (simp add: same_tables_def)

lemma get_setting_bool_frame [simp]:
  "users (snd (get_setting_bool now k i st)) = users st"
  "roles (snd (get_setting_bool now k i st)) = roles st"
  "next_role_id (snd (get_setting_bool now k i st)) = next_role_id st"
  "active_sessions (snd (get_setting_bool now k i st)) = active_sessions st"
  by (simp_all add: get_setting_bool_eq)

lemma quiet_calls_frame [simp]:
  "users (snd (validate_password now p st)) = users st"
  "roles (snd (validate_password now p st)) = roles st"
  "next_role_id (snd (validate_password now p st)) = next_role_id st"
  "active_sessions (snd (validate_password now p st)) = active_sessions st"
  "users (snd (check_brute_force now ip st)) = users st"
  "roles (snd (check_brute_force now ip st)) = roles st"
  "next_role_id (snd (check_brute_force now ip st)) = next_role_id st"
  "active_sessions (snd (check_brute_force now ip st)) = active_sessions st"
  by (simp_all add: validate_password_def check_brute_force_def case_prod_beta Let_def)

lemma is_ip_blocked_frame [simp]:
  "users (snd (is_ip_blocked now ip st)) = users st"
  "roles (snd (is_ip_blocked now ip st)) = roles st"
  "next_role_id (snd (is_ip_blocked now ip st)) = next_role_id st"
  "active_sessions (snd (is_ip_blocked now ip st)) = active_sessions st"
  "login_attempts (snd (is_ip_blocked now ip st)) = login_attempts st"
  by (auto simp: is_ip_blocked_def split: option.splits)

lemma block_frames [simp]:
  "users (block_ip now ip r by m perm st) = users st" "roles (block_ip now ip r by m perm st) = roles st"
  "next_role_id (block_ip now ip r by m perm st) = next_role_id st"
  "users (snd (unblock_ip ip st)) = users st" "roles (snd (unblock_ip ip st)) = roles st"
  "next_role_id (snd (unblock_ip ip st)) = next_role_id st"
  "users (record_login_attempt now ip un ok why ua st) = users st"
  "roles (record_login_attempt now ip un ok why ua st) = roles st"
  "next_role_id (record_login_attempt now ip un ok why ua st) = next_role_id st"
  by (simp_all add: block_ip_def unblock_ip_def record_login_attempt_def)

lemma update_settings_frame [simp]:
  "users (update_settings kvs st) = users st" "roles (update_settings kvs st) = roles st"
  "next_role_id (update_settings kvs st) = next_role_id st"
  "active_sessions (update_settings kvs st) = active_sessions st"
  by (induction kvs st rule: update_settings.induct) (simp_all add: update_setting_def)

lemma session_calls_frame [simp]:
  "users (snd (create_session now f u ip ua st)) = users st"
  "roles (snd (create_session now f u ip ua st)) = roles st"
  "users (snd (terminate_session s st)) = users st" "roles (snd (terminate_session s st)) = roles st"
  "users (snd (terminate_all_user_sessions uid st)) = users st"
  "roles (snd (terminate_all_user_sessions uid st)) = roles st"
  by (simp_all add: create_session_def terminate_session_def terminate_all_user_sessions_def
      case_prod_beta Let_def)

lemma reach_refl [reach]: "effects E t h db db"
  by simp

lemma reach_log [reach]:
  "effects E t h a b \<Longrightarrow> effects E t h a (log_auth act n ip ok err ua uid b)"
  "effects E t h a b \<Longrightarrow> effects E t h a (log_event lv act m u req res b)"
  "effects E t h a b \<Longrightarrow> effects E t h a (b\<lparr>outbox := ms\<rparr>)"
  by (erule reach_quiet, simp add: same_tables_def)+

lemma reach_quiet_calls [reach]:
  "effects E t h a b \<Longrightarrow> effects E t h a (snd (on_sec (get_setting_int now k i) b))"
  "effects E t h a b \<Longrightarrow> effects E t h a (snd (on_sec (validate_password now p) b))"
  "effects E t h a b \<Longrightarrow> effects E t h a (snd (on_sec (check_brute_force now ip) b))"
  "effects E t h a b \<Longrightarrow> effects E t h a (snd (on_sec (is_ip_blocked now ip) b))"
  "effects E t h a b \<Longrightarrow> effects E t h a (snd (on_sec (unblock_ip ip) b))"
  by (erule reach_quiet, rule same_tables_on_sec; simp)+

lemma reach_quiet_updates [reach]:
  "effects E t h a b \<Longrightarrow> effects E t h a (do_sec (record_login_attempt now ip un ok why ua) b)"
  "effects E t h a b \<Longrightarrow> effects E t h a (do_sec (block_ip now ip r by m perm) b)"
  "effects E t h a b \<Longrightarrow> effects E t h a (do_sec (update_settings kvs) b)"
  "effects E t h a b \<Longrightarrow> effects E t h a (do_sec (\<lambda>st. st\<lparr>blocked_ips := blocked_ips st @ bs\<rparr>) b)"
  by (erule reach_quiet, rule same_tables_do_sec; simp)+

lemmas reach_effects [reach] =
  reach_step [OF _ effect.validate] reach_step [OF _ effect.terminate] reach_step [OF _ effect.terminate_all]
  reach_step [OF _ effect.drop_sessions] reach_step [OF _ effect.drop_session]
  reach_step [OF _ effect.create] reach_step [OF _ effect.store] reach_step [OF _ effect.add]
  reach_step [OF _ effect.delete] reach_step [OF _ effect.new_role] reach_step [OF _ effect.change_role]
  reach_step [OF _ effect.remove_role] reach_step [OF _ effect.issue_reset] reach_step [OF _ effect.use_reset]

lemma same_keys_load [simp]: "same_keys (load_user rs u) v = same_keys u v"
  by (simp add: same_keys_def)

lemma same_keys_refl [simp]: "same_keys u u"
  by (simp add: same_keys_def)

lemma known_keys: "known u us \<Longrightarrow> same_keys v u \<Longrightarrow> known v us"
  by (auto simp: known_def same_keys_def)

lemma known_stored: "known w us \<Longrightarrow> known w (update_first (\<lambda>x. user_id x = user_id w) (\<lambda>_. w) us)"
proof -
  have "w \<in> set (update_first (\<lambda>x. user_id x = user_id w) (\<lambda>_. w) us)"
    if "u \<in> set us" "user_id u = user_id w" for u
    using that by (induction us) auto
  then show "known w us \<Longrightarrow> ?thesis"
    by (auto simp: known_def same_keys_def)
qed

lemma users_store_user [simp]:
  "users (store_user w st) = update_first (\<lambda>x. user_id x = user_id w) (\<lambda>_. w) (users st)"
  by (simp add: store_user_def)

lemma store_user_frame [simp]:
  "roles (store_user w st) = roles st" "next_role_id (store_user w st) = next_role_id st"
  "active_sessions (store_user w st) = active_sessions st"
  by (simp_all add: store_user_def)

lemma reach_increment [reach]:
  assumes "effects E t h a b" and "known u (users (sec b))"
  shows "effects E t h a (snd (on_sec (increment_failed_attempts now u) b))"
proof -
  let ?f = "\<lambda>st. snd (get_setting_int now ''lockout_duration_minutes'' 30
                 (snd (get_setting_int now ''max_login_attempts'' 5 st)))"
  have "snd (on_sec (increment_failed_attempts now u) b) =
      do_sec (store_user (snd (fst (increment_failed_attempts now u (sec b))))) (do_sec ?f b)"
    by (simp add: on_sec_def do_sec_def increment_failed_attempts_def case_prod_beta Let_def)
  moreover have "effects E t h a (do_sec ?f b)"
    using assms(1) by (rule reach_quiet) (simp add: same_tables_do_sec)
  moreover have "same_keys (snd (fst (increment_failed_attempts now u (sec b)))) u"
    by (simp add: increment_failed_attempts_def same_keys_def case_prod_beta Let_def)
  ultimately show ?thesis
    using assms(2) by (auto intro!: reach_step [OF _ effect.store] intro: known_keys)
qed

lemma reach_reset_failed [reach]:
  assumes "effects E t h a b" and "known u (users (sec b))"
  shows "effects E t h a (snd (on_sec (reset_failed_attempts u) b))"
proof -
  have "snd (on_sec (reset_failed_attempts u) b) = do_sec (store_user (fst (reset_failed_attempts u (sec b)))) b"
    by (simp add: on_sec_def do_sec_def reset_failed_attempts_def Let_def)
  moreover have "same_keys (fst (reset_failed_attempts u (sec b))) u"
    by (simp add: reset_failed_attempts_def same_keys_def Let_def)
  ultimately show ?thesis
    using assms by (auto intro!: reach_step [OF _ effect.store] intro: known_keys)
qed

lemma users_reset_failed [simp]:
  "users (snd (reset_failed_attempts u st)) =
     update_first (\<lambda>x. user_id x = user_id u) (\<lambda>_. fst (reset_failed_attempts u st)) (users st)"
  by (simp add: reset_failed_attempts_def Let_def)

lemma known_updates [simp]:
  "known (u\<lparr>hashed_password := a\<rparr>) us = known u us" "known (u\<lparr>full_name := b\<rparr>) us = known u us"
  "known (u\<lparr>is_active := c\<rparr>) us = known u us" "known (u\<lparr>is_admin := c\<rparr>) us = known u us"
  "known (u\<lparr>failed_login_attempts := d\<rparr>) us = known u us" "known (u\<lparr>locked_until := e\<rparr>) us = known u us"
  "known (u\<lparr>last_password_change := e\<rparr>) us = known u us"
  "known (u\<lparr>require_password_change := c\<rparr>) us = known u us"
  "known (u\<lparr>two_factor_enabled := c\<rparr>) us = known u us" "known (u\<lparr>two_factor_secret := b\<rparr>) us = known u us"
  "known (u\<lparr>two_factor_backup_codes := f\<rparr>) us = known u us" "known (u\<lparr>last_login := e\<rparr>) us = known u us"
  by (simp_all add: known_def same_keys_def)

lemma known_in: "u \<in> set us \<Longrightarrow> known u us"
  unfolding known_def by (blast intro: same_keys_refl)

lemma known_load [simp]: "known (load_user rs u) us = known u us"
  by (simp add: known_def)

lemma find_known: "find P us = Some u \<Longrightarrow> known u us"
  by (auto intro: known_in dest: find_SomeD)

lemma tokens_update_first:
  assumes "\<And>s. s_session_token (f s) = s_session_token s"
  shows "s_session_token ` set (update_first P f ss) = s_session_token ` set ss"
  using assms by (induction ss) auto

lemma tokens_validate [simp]: "session_tokens (snd (validate_session now s st)) = session_tokens st"
  by (simp add: session_tokens_def validate_session_def tokens_update_first case_prod_beta Let_def
      split: option.split)

lemma tokens_terminate [simp]: "session_tokens (snd (terminate_session s st)) = session_tokens st"
  by (simp add: session_tokens_def terminate_session_def tokens_update_first)

lemma tokens_quiet [simp]:
  "session_tokens (snd (validate_password now p st)) = session_tokens st"
  "session_tokens (snd (check_brute_force now ip st)) = session_tokens st"
  "session_tokens (snd (is_ip_blocked now ip st)) = session_tokens st"
  "session_tokens (record_login_attempt now ip un ok why ua st) = session_tokens st"
  "session_tokens (snd (reset_failed_attempts u st)) = session_tokens st"
  by (simp_all add: session_tokens_def)

lemma find_user_by_name_known: "find_user_by_name n st = Some u \<Longrightarrow> known u (users st)"
  by (auto simp: find_user_by_name_def intro: find_known)

lemma find_user_known: "find_user uid st = Some u \<Longrightarrow> known u (users st)"
  by (auto simp: find_user_def intro: find_known)

text \<open>A request with a user: the user is a stored account, the guard has validated a session at most.\<close>

lemma reach_guard:
  assumes "\<And>v u. guard v = Inr u \<Longrightarrow> u = v"
    and "\<And>u b. effects E t h db b \<Longrightarrow> known u (users (sec b)) \<Longrightarrow>
      session_tokens (sec b) = session_tokens (sec db) \<Longrightarrow>
      effects E t h db (snd (f u b))"
  shows "effects E t h db (snd (with_guard E guard now token f db))"
proof -
  let ?g = "guarded (jwt_decode E) guard now token"
  let ?b = "snd (on_sec ?g db)"
  have "snd (?g (sec db)) = snd (get_current_user (jwt_decode E) now token (sec db))"
    by (simp add: guarded_def split: prod.split sum.split)
  then have b': "?b = db \<or> (\<exists>s. ?b = snd (on_sec (validate_session now s) db))"
    by (auto simp: get_current_user_state session_gate_def on_sec_def case_prod_beta Let_def
        split: sum.splits option.splits)
  then have b: "effects E t h db ?b" by (auto intro: reach)
  show ?thesis
  proof (cases "fst (on_sec ?g db)")
    case (Inl e)
    then show ?thesis using b by (simp add: with_guard_def case_prod_beta)
  next
    case (Inr u)
    then obtain v where "fst (get_current_user (jwt_decode E) now token (sec db)) = Inr v" and "guard v = Inr u"
      by (auto simp: guarded_def split: prod.splits sum.splits)
    with assms(1) have "fst (get_current_user (jwt_decode E) now token (sec db)) = Inr u" by blast
    then have "known u (users (sec db))"
      by (auto simp: get_current_user_Inr intro: find_user_by_name_known)
    moreover have "users (sec ?b) = users (sec db)"
      by (simp add: guarded_def split: prod.split sum.split)
         (metis get_current_user_frame(1) snd_conv)
    moreover have "session_tokens (sec ?b) = session_tokens (sec db)"
      using b' by (elim disjE exE) (simp_all only: on_sec_simps tokens_validate)
    ultimately show ?thesis using Inr assms(2) [OF b, of u]
      by (simp add: with_guard_def case_prod_beta)
  qed
qed

lemma guard_user: "PermissionChecker p v = Inr u \<Longrightarrow> u = v" "get_current_active_admin v = Inr u \<Longrightarrow> u = v"
  "Inr v = (Inr u :: http_error + user) \<Longrightarrow> u = v"
  by (auto simp: PermissionChecker_def get_current_active_admin_def split: if_splits)

lemma reach_token [reach]:
  "effects E t h a b \<Longrightarrow> effects E t h a (snd (session_access_token E now sub imp s b))"
  by (simp add: session_access_token_def case_prod_beta Let_def reach)

lemma reach_refusal [reach]:
  "effects E t h a b \<Longrightarrow> effects E t h a (snd (refuse_login now ip ua d why lg err b))"
  by (simp add: refuse_login_def Let_def reach split: option.split)

lemma session_access_token_frame [simp]:
  "users (sec (snd (session_access_token E now sub imp s b))) = users (sec b)"
  "active_sessions (sec (snd (session_access_token E now sub imp s b))) = active_sessions (sec b)"
  by (simp_all add: session_access_token_def case_prod_beta Let_def)

lemma reach_login_success:
  assumes "effects E t h a b" and "known u (users (sec b))"
    and "fresh \<noteq> t" and "fresh \<notin> session_tokens (sec b)"
  shows "effects E t h a (snd (login_success E now fresh ip ua d u b))"
proof -
  let ?u1 = "fst (reset_failed_attempts u (sec b))"
  have k: "same_keys ?u1 u" "same_keys (?u1\<lparr>last_login := Some now\<rparr>) ?u1" "user_id ?u1 = user_id u"
    by (simp_all add: reset_failed_attempts_def same_keys_def Let_def)
  then have "known ?u1 (users (snd (reset_failed_attempts u (sec b))))"
    using known_stored [OF known_keys [OF assms(2) k(1)]] by simp
  then have "known (?u1\<lparr>last_login := Some now\<rparr>) (users (snd (reset_failed_attempts u (sec b))))"
    using k(2) by (rule known_keys)
  then show ?thesis using assms
    by (simp add: login_success_def case_prod_beta Let_def) (intro reach; simp)
qed

lemma second_factor_effect:
  assumes "effects E t h a b" and "known u (users (sec b))"
  shows "effects E t h a (snd (second_factor E now given u b)) \<and>
    known (snd (fst (second_factor E now given u b))) (users (sec (snd (second_factor E now given u b)))) \<and>
    session_tokens (sec (snd (second_factor E now given u b))) = session_tokens (sec b)"
proof -
  have k: "known (u\<lparr>two_factor_backup_codes := x\<rparr>) (users (sec b))" for x
    using assms(2) by (rule known_keys) (simp add: same_keys_def)
  have "known (u\<lparr>two_factor_backup_codes := x\<rparr>)
      (update_first (\<lambda>y. user_id y = user_id u) (\<lambda>_. u\<lparr>two_factor_backup_codes := x\<rparr>) (users (sec b)))" for x
    using known_stored [OF k] by simp
  then show ?thesis using assms k
    by (auto simp: second_factor_def session_tokens_def case_prod_beta Let_def intro: reach)
qed

lemma reach_login_user:
  assumes "effects E t h a b" and "known u (users (sec b))"
    and "fresh \<noteq> t" and "fresh \<notin> session_tokens (sec b)"
  shows "effects E t h a (snd (login_user E now fresh ip ua d u b))"
  using assms second_factor_effect [OF assms(1,2), of now "the (login_code d)"]
  by (simp add: login_user_def case_prod_beta Let_def reach reach_login_success)

lemma reach_login:
  assumes "fresh \<noteq> t" and "fresh \<notin> session_tokens (sec db)"
  shows "effects E t h db (snd (login E now fresh d req db))"
  using assms
  by (auto simp: login_def case_prod_beta Let_def split: option.split
      intro!: reach reach_login_user dest: find_user_by_name_known)

lemma reach_sessions:
  "effects E t h db (snd (refresh_token E now token db))"
  "effects E t h db (snd (logout E now token req db))"
  by (auto simp: refresh_token_def logout_def case_prod_beta Let_def split: sum.split
      intro!: reach_guard reach dest: guard_user)

lemma reach_impersonate:
  assumes "fresh \<noteq> t" and "fresh \<notin> session_tokens (sec db)"
  shows "effects E t h db (snd (impersonate_user E now fresh uid token req db))"
    and "effects E t h db (snd (stop_impersonating E now fresh token req db))"
  using assms
  by (auto simp: impersonate_user_def start_impersonation_def stop_impersonating_def case_prod_beta Let_def split: sum.split option.split
      intro!: reach_guard reach dest: guard_user)

lemma reach_two_factor:
  "effects E t h db (snd (two_factor_setup E now secret token db))"
  "effects E t h db (snd (two_factor_enable E now raws given token req db))"
  "effects E t h db (snd (two_factor_disable E now pw given' token req db))"
  by (auto simp: two_factor_setup_def two_factor_enable_def two_factor_disable_def case_prod_beta Let_def
      intro!: reach_guard reach dest: guard_user)

lemma reach_passwords:
  "effects E t h db (snd (change_password E now salt old new token req db))"
  "sha256 E raw \<noteq> h \<Longrightarrow> sha256 E raw \<notin> pr_token_hash ` set (reset_tokens db) \<Longrightarrow>
     effects E t h db (snd (forgot_password E now raw address req db))"
  by (auto simp: change_password_def forgot_password_def case_prod_beta Let_def
      split: option.split intro!: reach_guard reach dest: guard_user find_known)

lemma reach_reset_password:
  "effects E t h db (snd (reset_password E now salt raw new req db))"
  by (auto simp: reset_password_def case_prod_beta Let_def simp del: do_sec_simps(3) on_sec_simps(4)
      split: option.split intro!: reach dest: find_known)

lemma reach_register:
  "effects E t h db (snd (register_user E now salt d token req db))"
  "effects E t h db (snd (delete_user E now uid token req db))"
  by (auto simp: register_user_def delete_user_def new_user_def case_prod_beta Let_def find_None_iff
      split: option.split sum.split prod.split intro!: reach_guard reach dest: guard_user)

lemma reach_roles:
  "effects E t h db (snd (api_create_role E now rc token req db))"
  "effects E t h db (snd (api_update_role E now rid ru token req db))"
  "effects E t h db (snd (api_delete_role E now rid token req db))"
  by (auto simp: api_create_role_def api_update_role_def api_delete_role_def case_prod_beta Let_def
      split: option.split intro!: reach_guard reach dest: guard_user)

lemma reach_delete_user:
  "effects E t h db (snd (api_delete_user E now uid token req db))"
  by (auto simp: api_delete_user_def case_prod_beta Let_def
      split: option.split sum.split prod.split intro!: reach_guard reach dest: guard_user)

lemma reach_account_calls:
  "effects E t h db (snd (reset_user_password E now salt uid new token req db))"
  "effects E t h db (snd (unlock_user E now uid token req db))"
  "effects E t h db (snd (admin_disable_two_factor E now uid token req db))"
  "effects E t h db (snd (terminate_user_sessions E now uid token req db))"
  by (auto simp: with_account_def reset_user_password_def unlock_user_def admin_disable_two_factor_def
      terminate_user_sessions_def case_prod_beta Let_def split: option.split
      intro!: reach_guard reach dest: guard_user) (erule find_user_known)+

lemma reach_settings:
  "effects E t h db (snd (update_security_settings E now kvs token req db))"
  "effects E t h db (snd (api_block_ip E now ip reason mins token req db))"
  "effects E t h db (snd (api_unblock_ip E now ip token req db))"
  "effects E t h db (snd (delete_session E now sid token req db))"
  "effects E t h db (snd (delete_all_sessions E now token req db))"
  by (auto simp: update_security_settings_def api_block_ip_def api_unblock_ip_def delete_session_def
      delete_all_sessions_def case_prod_beta Let_def split: option.split
      intro!: reach_guard reach dest: guard_user)

lemma known_storable: "known v (users st) \<Longrightarrow> storable v st"
  unfolding known_def same_keys_def storable_def by blast

lemma storable_updates [simp]:
  "storable (u\<lparr>hashed_password := a\<rparr>) st = storable u st" "storable (u\<lparr>full_name := b\<rparr>) st = storable u st"
  "storable (u\<lparr>is_active := c\<rparr>) st = storable u st" "storable (u\<lparr>is_admin := c\<rparr>) st = storable u st"
  "storable (u\<lparr>last_password_change := e\<rparr>) st = storable u st"
  "storable (u\<lparr>require_password_change := c\<rparr>) st = storable u st"
  by (simp_all add: storable_def)

lemma storable_frame:
  "users st' = users st \<Longrightarrow> roles st' = roles st \<Longrightarrow> storable v st \<Longrightarrow> storable v st'"
  by (simp add: storable_def role_exists_def)

lemma storable_stored: "storable v st \<Longrightarrow> known v (users (store_user v st))"
proof -
  have "v \<in> set (update_first (\<lambda>x. user_id x = user_id v) (\<lambda>_. v) us)"
    if "u \<in> set us" "user_id v = user_id u" for u us
    using that by (induction us) auto
  then show "storable v st \<Longrightarrow> ?thesis"
    by (auto simp: storable_def intro: known_in)
qed

lemma storable_role:
  "storable v st \<Longrightarrow> role_exists i st \<Longrightarrow> storable (v\<lparr>user_role_id := Some i\<rparr>) st"
  unfolding storable_def by force

lemma storable_email:
  "known v (users st) \<Longrightarrow> find (\<lambda>x. email x = m \<and> user_id x \<noteq> user_id v) (users st) = None \<Longrightarrow>
   storable (v\<lparr>email := m\<rparr>) st"
  unfolding known_def same_keys_def storable_def find_None_iff by auto

lemma reach_rekey [reach]:
  "effects E t h a b \<Longrightarrow> storable v (sec b) \<Longrightarrow> effects E t h a (do_sec (store_user v) b)"
  by (rule reach_step [OF _ effect.rekey])

lemma reach_admin_flag:
  "effects E t h a b \<Longrightarrow> storable v (sec b) \<Longrightarrow>
   effects E t h a (snd (update_user_admin_flag cur uid d req v b))"
  by (simp add: update_user_admin_flag_def Let_def reach_log reach_rekey split: option.split)

lemma reach_active:
  assumes "effects E t h a b" and "storable v (sec b)"
  shows "effects E t h a (snd (update_user_active cur uid d req v b))"
proof (cases "uu_is_active d = Some False")
  case True
  let ?b = "snd (on_sec (terminate_all_user_sessions uid) (do_sec (store_user (v\<lparr>is_active := False\<rparr>)) b))"
  have st: "storable (v\<lparr>is_active := False\<rparr>) (sec b)" using assms(2) by simp
  have "known (v\<lparr>is_active := False\<rparr>) (users (sec ?b))"
    using storable_stored [OF st] by simp
  then have "storable v (sec ?b)"
    using known_storable by fastforce
  moreover have "effects E t h a ?b"
    using st assms(1) by (intro reach)
  ultimately show ?thesis
    using assms(1) True
    by (simp add: update_user_active_def Let_def reach_admin_flag split: option.split)
next
  case False
  then show ?thesis using assms
    by (simp add: update_user_active_def Let_def reach_admin_flag split: option.split)
qed

lemma reach_role:
  "effects E t h a b \<Longrightarrow> storable v (sec b) \<Longrightarrow>
   effects E t h a (snd (update_user_role cur uid d req v b))"
  by (simp add: update_user_role_def reach_active storable_role split: option.split)

lemma role_exists_validate_password [simp]:
  "role_exists i (snd (validate_password now p st)) = role_exists i st"
  by (simp add: role_exists_def)

lemma storable_validate_password [simp]:
  "storable v (snd (validate_password now p st)) = storable v st"
  by (simp add: storable_def)

lemma reach_update_user:
  "effects E t h db (snd (api_update_user E now salt uid d token req db))"
  unfolding api_update_user_def
proof (rule reach_guard)
  fix u b
  assume b: "effects E t h db b"
  show "effects E t h db (snd (case find_user uid (sec b) of
        None \<Rightarrow> (Inl (HTTPException 404 (Msg ''User not found'')), b)
      | Some v \<Rightarrow> (if is_admin v \<and> \<not> is_admin u then (Inl (HTTPException 403 (Msg ''Cannot edit admin user'')), b)
          else if (case uu_email d of None \<Rightarrow> False
                   | Some m \<Rightarrow> find (\<lambda>x. email x = m \<and> user_id x \<noteq> uid) (users (sec b)) \<noteq> None)
          then (Inl (HTTPException 400 (Msg ''Email already exists'')), b)
          else let u1 = (case uu_email d of None \<Rightarrow> v | Some m \<Rightarrow> v\<lparr>email := m\<rparr>);
                   u2 = (case uu_full_name d of None \<Rightarrow> u1 | Some n \<Rightarrow> u1\<lparr>full_name := Some n\<rparr>)
            in (case uu_password d of
                  None \<Rightarrow> update_user_role u uid d req u2 b
                | Some p \<Rightarrow>
                    (let ((is_valid, errors), db1) = on_sec (validate_password now p) b
                     in if \<not> is_valid then (Inl (HTTPException 400 (PasswordErrors errors)), db1)
                        else update_user_role u uid d req
                               (u2\<lparr>hashed_password := get_password_hash E salt p,
                                   last_password_change := Some now\<rparr>) db1)))))"
  proof (cases "find_user uid (sec b)")
    case (Some v)
    then have k: "known v (users (sec b))" by (rule find_user_known)
    from Some have uid: "user_id v = uid" by (auto simp: find_user_def dest!: find_SomeD)
    show ?thesis using b Some k known_storable [OF k] storable_email [OF k]
      by (auto simp: uid case_prod_beta Let_def reach reach_role split: option.split)
  qed (simp add: b)
qed (rule guard_user)

lemma reach_create_user:
  "effects E t h db (snd (api_create_user E now salt d token req db))"
  by (auto simp: api_create_user_def new_user_def truthy_int_def case_prod_beta Let_def find_None_iff
      split: option.split option.split_asm intro!: reach_guard reach dest: guard_user)

lemma request_effects:
  "draws_fresh E t h r db \<Longrightarrow> effects E t h db (handle E now r db)"
  by (cases r)
     (simp_all add: draws_fresh_def reach_login reach_sessions reach_impersonate reach_two_factor reach_passwords
       reach_reset_password reach_register reach_roles reach_delete_user reach_account_calls reach_settings
       reach_update_user reach_create_user)

end
