(* ===== verification/AuthProps.thy ===== *)
theory AuthProps
  imports Auth
begin

text \<open>
  What the guards of \<^verbatim>\<open>auth.py\<close> promise: who is let in, that the web socket entry decides as the HTTP one
  does, which permissions a guarded endpoint asks for, and how far the client's address can be trusted.
\<close>

section \<open>Who is let in\<close>

text \<open>C6. Authentication: with unique session tokens, \<open>get_current_user\<close> returns a user exactly for a token
  that decodes at that instant, is bound to no session or to an active one that has not expired, and names
  a stored, active, unlocked account; what it returns is that account with its role. Every refusal is a
  401, or a 403 for a known account that is disabled or locked; and no call changes an account or a role.\<close>

theorem get_current_user_iff:
  assumes "unique_on s_session_token (active_sessions st)"
  shows "(fst (get_current_user decode now token st) = Inr u \<longleftrightarrow>
      (\<exists>c name. decode now token = Inr c \<and> c_sub c = Some name \<and> bound_session_alive now (c_session c) st \<and>
         find_user_by_name name st = Some u \<and> is_active u \<and> \<not> is_locked now u)) \<and>
    (\<forall>e. fst (get_current_user decode now token st) = Inl e \<longrightarrow>
       status_code e = 401 \<or>
       status_code e = 403 \<and>
         (\<exists>c name v. decode now token = Inr c \<and> c_sub c = Some name \<and> find_user_by_name name st = Some v \<and>
            (\<not> is_active v \<or> is_locked now v))) \<and>
    users (snd (get_current_user decode now token st)) = users st \<and>
    roles (snd (get_current_user decode now token st)) = roles st"
proof (intro conjI allI impI)
  show "fst (get_current_user decode now token st) = Inr u \<longleftrightarrow>
      (\<exists>c name. decode now token = Inr c \<and> c_sub c = Some name \<and> bound_session_alive now (c_session c) st \<and>
         find_user_by_name name st = Some u \<and> is_active u \<and> \<not> is_locked now u)"
    by (simp only: get_current_user_Inr session_gate_alive [OF assms])
next
  fix e
  assume "fst (get_current_user decode now token st) = Inl e"
  then show "status_code e = 401 \<or>
       status_code e = 403 \<and>
         (\<exists>c name v. decode now token = Inr c \<and> c_sub c = Some name \<and> find_user_by_name name st = Some v \<and>
            (\<not> is_active v \<or> is_locked now v))"
    by (rule get_current_user_Inl)
qed simp_all

section \<open>Web sockets\<close>

text \<open>C35. Web sockets: for a token that names a user, \<open>authenticate_ws_token\<close> lets in exactly the user that
  \<open>get_current_user\<close> would, and leaves the same state; it never raises. (A token whose subject is the empty
  name is refused without a look at its session, and an absent or empty token decodes to nothing.)\<close>

theorem ws_token_agrees:
  assumes "token \<noteq> []" and "\<And>c. decode now token = Inr c \<Longrightarrow> c_sub c \<noteq> Some []"
  shows "authenticate_ws_token decode now (Some token) st =
    (case fst (get_current_user decode now token st) of Inl _ \<Rightarrow> None | Inr u \<Rightarrow> Some u,
     snd (get_current_user decode now token st))"
proof (cases "decode now token")
  case (Inl e)
  then show ?thesis using assms(1)
    by (cases e) (simp_all add: authenticate_ws_token_def get_current_user_def decode_access_token_def)
next
  case (Inr c)
  show ?thesis
  proof (cases "c_sub c")
    case None
    then show ?thesis using Inr assms(1)
      by (simp add: authenticate_ws_token_def get_current_user_def decode_access_token_def)
  next
    case (Some name)
    then have "name \<noteq> []" using assms(2) Inr by auto
    then show ?thesis using Some Inr assms(1)
      by (simp add: authenticate_ws_token_def get_current_user_def decode_access_token_def case_prod_beta Let_def
          split: option.split)
  qed
qed

section \<open>Guarded endpoints\<close>

lemma PermissionChecker_Inr [simp]: "PermissionChecker p v = Inr u \<longleftrightarrow> u = v \<and> has_perm v p"
  by (auto simp: PermissionChecker_def)

lemma get_current_active_admin_Inr [simp]: "get_current_active_admin v = Inr u \<longleftrightarrow> u = v \<and> admin_access v"
  by (auto simp: get_current_active_admin_def admin_access_def split: option.splits)

lemma guarded_Inr:
  "fst (guarded decode guard now token st) = Inr u \<longleftrightarrow>
     (\<exists>v. fst (get_current_user decode now token st) = Inr v \<and> guard v = Inr u)"
  by (auto simp: guarded_def split: prod.splits sum.splits)

lemma any_granted_global: "any_granted u scope ps = has_any_permission u ps"
  by (induction ps) (simp_all add: has_permission_def)

lemma first_denied_None: "first_denied u scope ps = None \<longleftrightarrow> has_all_permissions u ps"
  by (induction ps) (simp_all add: has_permission_def)

text \<open>
  The checkers of the middleware look at neither the session nor the state of the account: a user who is
  not in the request's state is taken from the token alone.
\<close>

lemma find_user_by_name_sessions [simp]:
  "find_user_by_name name (st\<lparr>active_sessions := ss\<rparr>) = find_user_by_name name st"
  by (simp add: find_user_by_name_def)

lemma middleware_skips_session:
  "MiddlewareChecker decode ps all scope now r (st\<lparr>active_sessions := ss\<rparr>) =
   MiddlewareChecker decode ps all scope now r st"
  unfolding MiddlewareChecker_def token_user_def find_user_by_name_sessions ..

section \<open>The address of the client\<close>

text \<open>Client address: the address recorded for a request is one that parses as an IP address, unless it
  is the peer address of the connection or, without one, the word unknown.\<close>

theorem client_ip_parses:
  "validate_ip (get_client_ip r) \<or> get_client_ip r = (case client_host r of Some h \<Rightarrow> h | None \<Rightarrow> ''unknown'')"
  by (auto simp: get_client_ip_def Let_def split: option.splits)

text \<open>
  The first entry of \<open>X-Forwarded-For\<close> wins. A proxy that appends the peer address to the header the client
  sent (\<open>$proxy_add_x_forwarded_for\<close>, as the shipped nginx configuration has it) leaves that entry to the
  client.
\<close>

definition forwarded_by_proxy :: "string \<Rightarrow> string \<Rightarrow> request \<Rightarrow> request" where
  "forwarded_by_proxy sent peer r = r\<lparr>headers := (''x-forwarded-for'', sent @ '', '' @ peer) # headers r\<rparr>"

lemma client_ip_forged:
  assumes "n < 2 ^ 32"
  shows "get_client_ip (forwarded_by_proxy (print_v4 n) peer r) = print_v4 n"
proof -
  have comma: "CHR '','' \<notin> set (print_v4 n)"
    using print_v4_chars [of "CHR '',''" n] by (auto simp: is_digit_def)
  have "\<not> is_space c" if "c \<in> set (print_v4 n)" for c
    using print_v4_chars [OF that] by (auto dest: is_digit_not_space simp: is_space_def)
  then have strip: "strip (print_v4 n) = print_v4 n"
    by (intro strip_no_space_ends) (metis hd_in_set last_in_set)
  have "print_v4 n @ '', '' @ peer = print_v4 n @ CHR '','' # CHR '' '' # peer" by simp
  then have "hd (split_on CHR '','' (print_v4 n @ '', '' @ peer)) = print_v4 n"
    by (simp only: split_on_append_sep [OF comma] list.sel)
  moreover have "ip_address (print_v4 n) = Some (IPv4 n)"
    using assms by (simp add: ip_address_v4_iff)
  ultimately show ?thesis
    by (simp add: get_client_ip_def forwarded_by_proxy_def strip validate_ip_def)
qed

text \<open>So long as not every IPv4 address is stored, there is one to claim that is neither blocked nor counted.\<close>

lemma blocking_evaded:
  assumes "length (blocked_ips st) + length (login_attempts st) < 2 ^ 32"
  shows "\<exists>sent. get_client_ip (forwarded_by_proxy sent peer r) = sent \<and>
     fst (is_ip_blocked now sent st) = (False, None) \<and>
     filter (failed_since sent since) (login_attempts st) = []"
proof -
  let ?bad = "b_ip_address ` set (blocked_ips st) \<union> la_ip_address ` set (login_attempts st)"
  have "card ?bad \<le> card (b_ip_address ` set (blocked_ips st)) + card (la_ip_address ` set (login_attempts st))"
    by (rule card_Un_le)
  also have "\<dots> \<le> length (blocked_ips st) + length (login_attempts st)"
    by (intro add_mono order_trans [OF card_image_le] card_length) simp_all
  finally have "card ?bad < card (print_v4 ` {..<2 ^ 32})"
    using assms by (subst card_image) (auto simp: inj_on_def print_v4_inj)
  then have "\<not> print_v4 ` {..<2 ^ 32} \<subseteq> ?bad"
    by (meson card_mono finite_UnI finite_imageI finite_set leD)
  then obtain n where n: "n < 2 ^ 32" "print_v4 n \<notin> ?bad" by auto
  have "find (\<lambda>b. b_ip_address b = print_v4 n) (blocked_ips st) = None"
    using n(2) unfolding find_None_iff by (metis UnI1 imageI)
  then have "fst (is_ip_blocked now (print_v4 n) st) = (False, None)"
    by (simp add: is_ip_blocked_def)
  moreover have "filter (failed_since (print_v4 n) since) (login_attempts st) = []"
    using n(2) unfolding filter_empty_conv failed_since_def by (metis UnI2 imageI)
  ultimately show ?thesis using client_ip_forged [OF n(1)] by blast
qed

section \<open>A token format for the witnesses\<close>

text \<open>
  Tokens without a signature: the five fields one after the other, a present one as its characters, each
  behind an \<open>x\<close>, and a closing full stop. It has the property \<open>jwt_ok\<close> asks for.
\<close>

definition put_field :: "string option \<Rightarrow> string" where
  "put_field s = (case s of None \<Rightarrow> ''0'' | Some t \<Rightarrow> ''1'' @ concat (map (\<lambda>c. [CHR ''x'', c]) t) @ ''.'')"

fun get_chars :: "string \<Rightarrow> (string \<times> string) option" where
  "get_chars [] = None"
| "get_chars (k # r) =
     (if k = CHR ''x''
      then (case r of [] \<Rightarrow> None | c # r' \<Rightarrow> map_option (\<lambda>(t, rest). (c # t, rest)) (get_chars r'))
      else Some ([], r))"

definition get_field :: "string \<Rightarrow> (string option \<times> string) option" where
  "get_field s =
     (case s of
        [] \<Rightarrow> None
      | k # r \<Rightarrow> if k = CHR ''0'' then Some (None, r) else map_option (\<lambda>(t, rest). (Some t, rest)) (get_chars r))"

fun get_fields :: "nat \<Rightarrow> string \<Rightarrow> string option list option" where
  "get_fields 0 s = Some []"
| "get_fields (Suc n) s =
     (case get_field s of None \<Rightarrow> None | Some (f, rest) \<Rightarrow> map_option (Cons f) (get_fields n rest))"

definition plain_encode :: encoder where
  "plain_encode c =
     concat (map put_field [c_sub c, c_session c, c_impersonator c, Some (dec_int (c_exp c)), Some (dec_int (c_iat c))])"

definition plain_decode :: decoder where
  "plain_decode now s =
     (case get_fields 5 s of
        Some [sub, ses, imp, Some e, Some i] \<Rightarrow>
          (case (py_int e, py_int i) of
             (Some e, Some i) \<Rightarrow>
               (if e * second \<le> now then Inl ExpiredSignatureError
                else if now < i * second then Inl PyJWTError
                else Inr \<lparr>c_sub = sub, c_session = ses, c_impersonator = imp, c_exp = e, c_iat = i\<rparr>)
           | _ \<Rightarrow> Inl PyJWTError)
      | _ \<Rightarrow> Inl PyJWTError)"

lemma get_chars_put: "get_chars (concat (map (\<lambda>c. [CHR ''x'', c]) t) @ CHR ''.'' # r) = Some (t, r)"
  by (induction t) simp_all

lemma get_field_put: "get_field (put_field f @ r) = Some (f, r)"
  by (cases f) (simp_all add: get_field_def put_field_def get_chars_put)

lemma get_fields_put: "get_fields (length fs) (concat (map put_field fs) @ r) = Some fs"
  by (induction fs) (simp_all add: get_field_put)

lemma py_int_dec_int: "py_int (dec_int i) = Some i"
proof (cases "i < 0")
  case True
  have ds: "\<forall>x \<in> set (dec_string (nat (- i))). is_digit x" by (simp add: dec_string_digits)
  have "\<not> is_space (last (dec_string (nat (- i))))"
    using ds by (intro is_digit_not_space) (metis dec_string_not_Nil last_in_set)
  then have "strip (CHR ''-'' # dec_string (nat (- i))) = CHR ''-'' # dec_string (nat (- i))"
    by (intro strip_no_space_ends) (simp add: is_space_def)
  with True ds show ?thesis by (simp add: py_int_def dec_int_def digits_body_digits)
next
  case False
  then show ?thesis by (simp add: dec_int_def py_int_dec_string)
qed

lemma plain_decode_encode:
  "plain_decode now (plain_encode c) =
     (if c_exp c * second \<le> now then Inl ExpiredSignatureError
      else if now < c_iat c * second then Inl PyJWTError else Inr c)"
proof -
  have "get_fields 5 (plain_encode c) =
      Some [c_sub c, c_session c, c_impersonator c, Some (dec_int (c_exp c)), Some (dec_int (c_iat c))]"
    using get_fields_put [of "[c_sub c, c_session c, c_impersonator c, Some (dec_int (c_exp c)), Some (dec_int (c_iat c))]" "[]"]
    by (simp add: plain_encode_def numeral_eq_Suc del: get_fields.simps)
  then show ?thesis by (simp add: plain_decode_def py_int_dec_int)
qed

lemma plain_encode_not_Nil [simp]: "plain_encode c \<noteq> []"
  by (simp add: plain_encode_def put_field_def split: option.split)

lemma plain_jwt_ok: "jwt_ok plain_encode plain_decode"
  by (simp add: jwt_ok_def plain_decode_encode)

definition sample_claims :: claims where
  "sample_claims = \<lparr>c_sub = Some ''ann'', c_session = Some ''t1'', c_impersonator = None, c_exp = 60, c_iat = 0\<rparr>"

theorem get_current_user_iff_witness:
  "fst (get_current_user plain_decode 50 (plain_encode sample_claims) sample_sec) =
     Inr (load_user (roles sample_sec) sample_account)"
proof -
  have "bound_session_alive 50 (Some ''t1'') sample_sec" by code_simp
  then show ?thesis
    using get_current_user_iff [OF sample_tokens_unique, THEN conjunct1]
    by (simp add: plain_decode_encode sample_claims_def second_def find_user_by_name_def sample_sec_def
        sample_account_def is_locked_def load_user_def)
qed

lemma sample_current_user:
  "fst (get_current_user plain_decode 50 (plain_encode sample_claims) sample_sec) =
     Inr (load_user (roles sample_sec) sample_account)"
proof -
  have "bound_session_alive 50 (Some ''t1'') sample_sec" by code_simp
  then show ?thesis
    unfolding get_current_user_Inr session_gate_alive [OF sample_tokens_unique]
    by (simp add: plain_decode_encode sample_claims_def second_def find_user_by_name_def sample_sec_def
        sample_account_def is_locked_def load_user_def)
qed

theorem ws_token_agrees_witness:
  "fst (authenticate_ws_token plain_decode 50 (Some (plain_encode sample_claims)) sample_sec) =
     Some (load_user (roles sample_sec) sample_account)"
  by (subst ws_token_agrees)
     (simp_all add: sample_current_user, auto simp: plain_decode_encode sample_claims_def dest: sym split: if_splits)

end
