(* ===== verification/ApiProps.thy ===== *)
theory ApiProps
  imports ApiRuns AuthProps
begin

text \<open>
  What every run of the endpoints keeps, whatever requests arrive in whatever order and whoever sends them:
  the keys of the account and role tables (\<open>accounts\<close>), the end of a session (\<open>ended\<close>), the use of a reset
  token (\<open>spent\<close>).
\<close>

section \<open>Machines that run by sequences of small steps\<close>

locale simulated_machine = guarded_machine step inv
  for step :: "'s \<Rightarrow> 's \<Rightarrow> bool" and inv :: "'s \<Rightarrow> bool" +
  fixes request :: "'s \<Rightarrow> 's \<Rightarrow> bool"
  assumes request_steps: "request s t \<Longrightarrow> step\<^sup>*\<^sup>* s t"
begin

lemma requests_steps: "request\<^sup>*\<^sup>* s t \<Longrightarrow> step\<^sup>*\<^sup>* s t"
  by (induction rule: rtranclp_induct) (auto dest: request_steps)

lemma requests_inv: "request\<^sup>*\<^sup>* s t \<Longrightarrow> inv s \<Longrightarrow> inv t"
  by (rule steps_inv [OF requests_steps])

end

section \<open>Accounts and roles\<close>

definition accounts_inv :: "auth_db \<Rightarrow> bool" where
  "accounts_inv db \<longleftrightarrow>
     unique_on user_id (users (sec db)) \<and> list_all (\<lambda>u. user_id u < next_user_id db) (users (sec db)) \<and>
     unique_on username (users (sec db)) \<and> unique_on email (users (sec db)) \<and>
     roles_inv (sec db) \<and> unique_on role_name (roles (sec db))"

lemma unique_on_replace:
  assumes "unique_on key us" and "\<forall>x \<in> set us. key x = key v \<longrightarrow> P x" and "\<And>x. P x \<Longrightarrow> P v"
    and "unique_on i us" and "\<And>x y. P x \<Longrightarrow> P y \<Longrightarrow> i x = i y"
  shows "unique_on key (update_first P (\<lambda>_. v) us)"
  using assms(1,2,4)
proof (induction us)
  case (Cons x us)
  then have tail: "unique_on key us" "unique_on i us" "key x \<notin> key ` set us" "i x \<notin> i ` set us"
    by (simp_all add: unique_on_def)
  show ?case
  proof (cases "P x")
    case True
    have "key v \<noteq> key y" if "y \<in> set us" for y
    proof
      assume "key v = key y"
      then have "P y" using Cons.prems(2) that by simp
      then have "i x = i y" by (rule assms(5) [OF True])
      with tail(4) that show False by auto
    qed
    with True tail(1) show ?thesis by (auto simp: unique_on_def)
  next
    case False
    have "key x \<notin> key ` set (update_first P (\<lambda>_. v) us)"
      using False Cons.prems(2) tail(3) by (auto dest!: in_set_update_first)
    moreover have "unique_on key (update_first P (\<lambda>_. v) us)"
      using Cons.IH Cons.prems(2) tail(1,2) by simp
    ultimately show ?thesis using False by (simp add: unique_on_def)
  qed
qed (simp add: unique_on_def)

lemma accounts_store:
  assumes inv: "accounts_inv db" and v: "storable v (sec db)"
  shows "accounts_inv (do_sec (store_user v) db)"
proof -
  let ?us = "users (sec db)" and ?P = "\<lambda>x. user_id x = user_id v"
  from v obtain u where u: "u \<in> set ?us" "user_id v = user_id u" "username v = username u"
      "email v = email u \<or> (\<forall>x \<in> set ?us. email x = email v \<longrightarrow> user_id x = user_id v)"
      "user_role_id v = user_role_id u \<or> (\<exists>i. user_role_id v = Some i \<and> role_exists i (sec db))"
    by (auto simp: storable_def)
  have uniq: "unique_on user_id ?us" "unique_on username ?us" "unique_on email ?us"
    using inv by (simp_all add: accounts_inv_def)
  have names: "\<forall>x \<in> set ?us. username x = username v \<longrightarrow> ?P x"
    using u uniq(2) by (metis unique_find option.inject)
  have emails: "\<forall>x \<in> set ?us. email x = email v \<longrightarrow> ?P x"
    using u uniq(3) by (metis unique_find option.inject)
  note replace = unique_on_replace [where P = ?P and v = v and i = user_id and us = ?us]
  have "unique_on user_id (update_first ?P (\<lambda>_. v) ?us)"
    using uniq(1) by (subst unique_on_update_first) simp_all
  moreover have "unique_on username (update_first ?P (\<lambda>_. v) ?us)"
    using names uniq by (intro replace) simp_all
  moreover have "unique_on email (update_first ?P (\<lambda>_. v) ?us)"
    using emails uniq by (intro replace) simp_all
  moreover have "role_refs_ok (update_first ?P (\<lambda>_. v) ?us) (roles (sec db))"
    using inv u(1,5)
    by (auto simp: accounts_inv_def roles_inv_def role_refs_ok_def role_exists_def list_all_iff list_ex_iff
        find_None_iff split: option.splits dest!: in_set_update_first)
  moreover have "list_all (\<lambda>u. user_id u < next_user_id db) (update_first ?P (\<lambda>_. v) ?us)"
    using inv u(1,2) by (auto simp: accounts_inv_def list_all_iff dest!: in_set_update_first)
  ultimately show ?thesis using inv by (simp add: accounts_inv_def roles_inv_def)
qed

lemma accounts_add:
  assumes inv: "accounts_inv db" and "user_id u = next_user_id db"
    and new: "\<forall>x \<in> set (users (sec db)). username x \<noteq> username u \<and> email x \<noteq> email u"
    and "case user_role_id u of None \<Rightarrow> True | Some i \<Rightarrow> role_exists i (sec db)"
  shows "accounts_inv (add_user u db)"
proof -
  have "role_refs_ok (users (sec db) @ [u]) (roles (sec db))"
    using inv assms(4)
    by (auto simp: accounts_inv_def roles_inv_def role_refs_ok_def role_exists_def find_None_iff list_ex_iff
        split: option.splits)
  moreover have "user_id x \<noteq> next_user_id db \<and> user_id x \<le> next_user_id db" if "x \<in> set (users (sec db))" for x
    using inv that by (force simp: accounts_inv_def list_all_iff)
  ultimately show ?thesis using inv assms(2) new
    by (auto simp: accounts_inv_def add_user_def roles_inv_def unique_on_append find_None_iff list_all_iff)
qed

lemma role_refs_filter:
  "role_refs_ok us rs \<Longrightarrow> role_refs_ok (remove_first P us) rs"
  using set_remove_first [of P us] by (auto simp: role_refs_ok_def list_all_iff)

lemma accounts_delete:
  assumes "accounts_inv db"
  shows "accounts_inv (snd (delete_user_row uid db))"
  using assms set_remove_first [of "\<lambda>u. user_id u = uid" "users (sec db)"]
  by (auto simp: delete_user_row_def accounts_inv_def roles_inv_def unique_on_remove_first role_refs_filter
      list_all_iff)

lemma delete_role_names:
  "unique_on role_name (roles st) \<Longrightarrow> unique_on role_name (roles (snd (delete_role rid st)))"
  by (auto simp: delete_role_def Let_def unique_on_remove_first split: option.split)

lemma delete_role_users [simp]: "users (snd (delete_role rid st)) = users st"
  by (simp add: delete_role_def Let_def split: option.split)

lemma accounts_change_role:
  assumes "accounts_inv db" and "find (\<lambda>r. role_id r = rid) (roles (sec db)) = Some r"
    and "role_id r' = role_id r" and "role_name r' = role_name r"
  shows "accounts_inv (do_sec (\<lambda>st. st\<lparr>roles := update_first (\<lambda>r. role_id r = rid) (\<lambda>_. r') (roles st)\<rparr>) db)"
proof -
  let ?rs = "roles (sec db)"
  from assms(2) have r: "r \<in> set ?rs" "role_id r = rid" by (auto dest: find_SomeD)
  have uniq: "unique_on role_id ?rs" "unique_on role_name ?rs"
    using assms(1) by (simp_all add: accounts_inv_def roles_inv_def)
  have names: "\<forall>x \<in> set ?rs. role_name x = role_name r' \<longrightarrow> role_id x = rid"
    using r uniq(2) assms(4) by (metis unique_find option.inject)
  have "unique_on role_name (update_first (\<lambda>r. role_id r = rid) (\<lambda>_. r') ?rs)"
    using names uniq assms(3) r(2)
    by (intro unique_on_replace [where P = "\<lambda>r. role_id r = rid" and i = role_id]) simp_all
  moreover have "unique_on role_id (update_first (\<lambda>r. role_id r = rid) (\<lambda>_. r') ?rs)"
    using uniq(1) assms(3) r(2) by (subst unique_on_update_first) simp_all
  ultimately show ?thesis using assms(1,3) r
    by (auto simp: accounts_inv_def roles_inv_def role_refs_ok_def list_ex_role_update list_all_iff
        dest!: in_set_update_first split: option.splits)
qed

lemma accounts_effect:
  assumes "effect E t h db db'" and "accounts_inv db"
  shows "accounts_inv db'"
  using assms(1)
proof cases
  case quiet
  then show ?thesis using assms(2) by (simp add: same_tables_def accounts_inv_def roles_inv_def)
next
  case (store v)
  then show ?thesis using assms(2) by (simp add: accounts_store known_storable)
next
  case (rekey v)
  then show ?thesis using assms(2) by (simp add: accounts_store)
next
  case (add u)
  then show ?thesis using assms(2) by (simp add: accounts_add)
next
  case (delete uid)
  then show ?thesis using assms(2) by (simp add: accounts_delete)
next
  case (new_role name dname descr perms)
  then show ?thesis using assms(2) roles_inv_create [of "sec db" name dname descr perms]
    by (auto simp: accounts_inv_def get_role_def create_role_def Let_def unique_on_append)
next
  case (change_role rid r r')
  then show ?thesis using accounts_change_role [OF assms(2)] by simp
next
  case (remove_role rid)
  then show ?thesis using assms(2) by (simp add: accounts_inv_def roles_inv_delete delete_role_names)
qed (use assms(2) in \<open>simp_all add: accounts_inv_def roles_inv_def create_session_def validate_session_def
      terminate_session_def terminate_all_user_sessions_def case_prod_beta Let_def split: option.split\<close>)

interpretation accounts: simulated_machine "effect E t h" accounts_inv "api_step E t h" for E t h
proof unfold_locales
  show "accounts_inv db'" if "effect E t h db db'" "accounts_inv db" for db db'
    using that by (rule accounts_effect)
  show "(effect E t h)\<^sup>*\<^sup>* db db'" if "api_step E t h db db'" for db db'
    using that by cases (simp add: request_effects)
qed

text \<open>C2. Accounts: in every run of the endpoints, whatever they are sent, user ids, user names, e-mail
  addresses, role ids and role names stay unique and every account's role exists.\<close>

theorem api_runs_keep_accounts:
  assumes "(api_step E t h)\<^sup>*\<^sup>* db db'" and "accounts_inv db"
  shows "accounts_inv db'"
  using assms by (rule accounts.requests_inv)

section \<open>Sessions\<close>

definition sessions_inv :: "string \<Rightarrow> auth_db \<Rightarrow> bool" where
  "sessions_inv t db \<longleftrightarrow>
     unique_on s_session_token (active_sessions (sec db)) \<and> session_dead t (sec db)"

lemma list_all_remove_first: "list_all Q xs \<Longrightarrow> list_all Q (remove_first P xs)"
  using set_remove_first [of P xs] by (auto simp: list_all_iff)

lemma tokens_unique_create:
  "unique_on s_session_token (active_sessions st) \<Longrightarrow> f \<notin> session_tokens st \<Longrightarrow>
   unique_on s_session_token (active_sessions (snd (create_session now f u ip ua st)))"
  by (auto simp: create_session_def session_tokens_def unique_on_append find_None_iff case_prod_beta Let_def)

lemma sessions_drop:
  "sessions_inv t db \<Longrightarrow>
   sessions_inv t (do_sec (\<lambda>st. st\<lparr>active_sessions := filter P (active_sessions st)\<rparr>) db)"
  "sessions_inv t db \<Longrightarrow>
   sessions_inv t (do_sec (\<lambda>st. st\<lparr>active_sessions := remove_first Q (active_sessions st)\<rparr>) db)"
  by (auto simp: sessions_inv_def session_dead_def unique_on_filter unique_on_remove_first
      list_all_remove_first list_all_iff dest: subsetD [OF set_remove_first])

lemma sessions_same:
  "active_sessions (sec db') = active_sessions (sec db) \<Longrightarrow> sessions_inv t db \<Longrightarrow> sessions_inv t db'"
  by (simp add: sessions_inv_def session_dead_def)

lemma sessions_effect:
  assumes "effect E t h db db'" and "sessions_inv t db"
  shows "sessions_inv t db'"
  using assms(1)
proof cases
  case quiet
  then show ?thesis using assms(2) by (intro sessions_same [OF _ assms(2)]) (simp add: same_tables_def)
next
  case (validate now s)
  then show ?thesis using assms(2)
    by (simp add: sessions_inv_def active_sessions_unique session_dead_step [OF session_step.validate])
next
  case (create f now u ip ua)
  then show ?thesis using assms(2)
    by (simp add: sessions_inv_def tokens_unique_create session_dead_step [OF session_step.create])
next
  case (terminate s)
  then show ?thesis using assms(2)
    by (simp add: sessions_inv_def active_sessions_unique session_dead_step [OF session_step.terminate])
next
  case (terminate_all uid)
  then show ?thesis using assms(2)
    by (simp add: sessions_inv_def active_sessions_unique session_dead_step [OF session_step.terminate_all])
next
  case (drop_sessions P)
  then show ?thesis using assms(2) by (simp add: sessions_drop)
next
  case (drop_session P)
  then show ?thesis using assms(2) by (simp add: sessions_drop)
next
  case (delete uid)
  then show ?thesis using assms(2)
    by (auto simp: delete_user_row_def sessions_inv_def session_dead_def unique_on_filter list_all_iff)
qed (rule sessions_same [OF _ assms(2)], simp add: add_user_def create_role_def delete_role_def Let_def
      split: option.split)+

interpretation ended: simulated_machine "effect E t h" "sessions_inv t" "api_step E t h" for E t h
proof unfold_locales
  show "sessions_inv t db'" if "effect E t h db db'" "sessions_inv t db" for db db'
    using that by (rule sessions_effect)
qed (erule api_step.cases, simp add: request_effects)

section \<open>Reset tokens\<close>

definition spent_rows :: "string \<Rightarrow> password_reset_token list \<Rightarrow> bool" where
  "spent_rows h rs = list_all (\<lambda>r. pr_token_hash r = h \<longrightarrow> pr_used_at r \<noteq> None) rs"

definition spent_inv :: "string \<Rightarrow> auth_db \<Rightarrow> bool" where
  "spent_inv h db = spent_rows h (reset_tokens db)"

lemma spent_use_outstanding [simp]: "spent_rows h rs \<Longrightarrow> spent_rows h (use_outstanding now uid rs)"
  by (auto simp: spent_rows_def use_outstanding_def list_all_iff)

lemma spent_rows_simps [simp]:
  "spent_rows h (rs @ [r]) \<longleftrightarrow> spent_rows h rs \<and> (pr_token_hash r = h \<longrightarrow> pr_used_at r \<noteq> None)"
  "spent_rows h rs \<Longrightarrow> spent_rows h (filter P rs)"
  "spent_rows h rs \<Longrightarrow> spent_rows h (update_first P (\<lambda>x. x\<lparr>pr_used_at := Some now\<rparr>) rs)"
  by (auto simp: spent_rows_def list_all_iff dest!: in_set_update_first)

lemma spent_effect:
  assumes "effect E t h db db'" and "spent_inv h db"
  shows "spent_inv h db'"
  using assms(1)
proof cases
  case quiet
  then show ?thesis using assms(2) by (simp add: same_tables_def spent_inv_def)
qed (use assms(2) in \<open>simp_all add: spent_inv_def add_user_def delete_user_row_def\<close>)

interpretation spent: simulated_machine "effect E t h" "spent_inv h" "api_step E t h" for E t h
proof unfold_locales
  show "spent_inv h db'" if "effect E t h db db'" "spent_inv h db" for db db'
    using that by (rule spent_effect)
qed (erule api_step.cases, simp add: request_effects)

section \<open>Logging out\<close>

lemma with_guard_Inr:
  "fst (with_guard E guard now token f db) = Inr x \<longleftrightarrow>
     (\<exists>u. fst (guarded (jwt_decode E) guard now token (sec db)) = Inr u \<and>
          fst (f u (snd (on_sec (guarded (jwt_decode E) guard now token) db))) = Inr x)"
  by (cases "fst (guarded (jwt_decode E) guard now token (sec db))")
     (simp_all add: with_guard_def case_prod_beta)

lemma dead_session_401:
  assumes "session_dead t st" and "t \<noteq> []" and "jwt_decode E now token = Inr c" and "c_session c = Some t"
  shows "\<exists>e. fst (get_current_user (jwt_decode E) now token st) = Inl e \<and> status_code e = 401"
  using dead_not_validated [OF assms(1), of now] assms(2-4)
  by (cases "c_sub c")
     (simp_all add: get_current_user_def session_gate_def case_prod_beta Let_def decode_access_token_def)

lemma logout_session_dead:
  assumes "unique_on s_session_token (active_sessions (sec db))"
    and "fst (logout E now token req db) = Inr ()"
    and "jwt_decode E now token = Inr c" and "c_session c = Some t" and "t \<noteq> []"
  shows "sessions_inv t (snd (logout E now token req db))"
proof -
  let ?g = "guarded (jwt_decode E) Inr now token"
  from assms(2) obtain u where u: "fst (?g (sec db)) = Inr u"
    unfolding logout_def by (auto simp: with_guard_Inr)
  have "unique_on s_session_token (active_sessions (snd (?g (sec db))))"
    using assms(1)
    by (auto simp: guarded_def get_current_user_state session_gate_def case_prod_beta Let_def
        active_sessions_unique split: prod.split sum.split option.split)
  then show ?thesis using u assms(3-5)
    by (simp add: logout_def with_guard_def case_prod_beta get_current_session_token_def decode_access_token_def
        sessions_inv_def active_sessions_unique terminate_session_dead)
qed

text \<open>C3. Logging out: after a logout with a token bound to the session \<open>t\<close>, in every run of the endpoints
  that does not draw the same session token again, every token bound to that session is refused with 401 by
  \<open>get_current_user\<close>, and so is every request that authenticates through it, whatever else the endpoint asks of the
  user and whatever it does; whoever sends the token and at whatever instant, also one that is renewed or issued in
  between. The endpoint that ends an impersonation reads its token without \<open>get_current_user\<close> and is not among them: lemma
  \<open>stop_impersonating_skips_session\<close> of theory ApiFindings.\<close>

theorem logged_out_for_good:
  assumes "unique_on s_session_token (active_sessions (sec db))"
    and "fst (logout E now token req db) = Inr ()"
    and "jwt_decode E now token = Inr c" and "c_session c = Some t" and "t \<noteq> []"
    and "(api_step E t h)\<^sup>*\<^sup>* (snd (logout E now token req db)) db'"
    and "jwt_decode E now' token' = Inr c'" and "c_session c' = Some t"
  shows "\<exists>e. status_code e = 401 \<and> fst (get_current_user (jwt_decode E) now' token' (sec db')) = Inl e \<and>
    fst (with_guard E guard now' token' endpoint db') = Inl e"
proof -
  have "sessions_inv t db'"
    using assms(6) logout_session_dead [OF assms(1-5)] by (rule ended.requests_inv)
  then obtain e where "fst (get_current_user (jwt_decode E) now' token' (sec db')) = Inl e" "status_code e = 401"
    using dead_session_401 [OF _ assms(5,7,8)] by (auto simp: sessions_inv_def)
  moreover from this(1) have "fst (with_guard E guard now' token' endpoint db') = Inl e"
    by (simp add: with_guard_def on_sec_def guarded_def case_prod_beta split: sum.split)
  ultimately show ?thesis by blast
qed

section \<open>Resetting a password\<close>

lemma reset_password_Inr:
  assumes "fst (reset_password E now salt raw pw req db) = Inr ()"
  obtains r u where "find_reset E raw db = Some r" and "reset_token_is_valid now r"
    and "find (\<lambda>u. user_id u = pr_user_id r) (users (sec db)) = Some u" and "is_active u"
    and "reset_tokens (snd (reset_password E now salt raw pw req db)) =
      use_outstanding now (user_id u)
        (update_first (\<lambda>t. pr_id t = pr_id r) (\<lambda>t. t\<lparr>pr_used_at := Some now\<rparr>) (reset_tokens db))"
    and "active_sessions (sec (snd (reset_password E now salt raw pw req db))) =
      active_sessions (snd (terminate_all_user_sessions (user_id u) (sec db)))"
  using assms
  by (auto simp: reset_password_def case_prod_beta Let_def terminate_all_user_sessions_def
      split: option.splits if_splits)

lemma spent_after_reset:
  assumes "unique_on pr_token_hash rs" and "unique_on pr_id rs" and "find (\<lambda>t. pr_token_hash t = h) rs = Some r"
  shows "spent_rows h (update_first (\<lambda>t. pr_id t = pr_id r) (\<lambda>t. t\<lparr>pr_used_at := Some now\<rparr>) rs)"
  using assms
proof (induction rs)
  case (Cons x rs)
  show ?case
  proof (cases "x = r")
    case True
    then have "pr_token_hash x = h" using find_SomeD [OF Cons.prems(3)] by simp
    then have "pr_token_hash y \<noteq> h" if "y \<in> set rs" for y
      using Cons.prems(1) that by (auto simp: unique_on_def image_iff)
    with True show ?thesis by (simp add: spent_rows_def list_all_iff)
  next
    case False
    then have x: "pr_token_hash x \<noteq> h" "find (\<lambda>t. pr_token_hash t = h) rs = Some r"
      using Cons.prems(3) by (auto split: if_splits)
    then have "r \<in> set rs" by (auto dest: find_SomeD)
    then have "pr_id x \<noteq> pr_id r" using Cons.prems(2) by (auto simp: unique_on_def)
    with x Cons show ?thesis by (simp add: spent_rows_def unique_on_def)
  qed
qed simp

text \<open>C28. Reset of a password: a reset that succeeds ends every session of the account it is for, and its
  token is spent: in every run of the endpoints that does not draw the same token again, the link is
  reported invalid and a second reset with it is answered 400.\<close>

theorem reset_link_used_once:
  assumes "unique_on pr_token_hash (reset_tokens db)" and "unique_on pr_id (reset_tokens db)"
    and "db1 = snd (reset_password E now salt raw pw req db)"
    and "fst (reset_password E now salt raw pw req db) = Inr ()"
    and "(api_step E t (sha256 E raw))\<^sup>*\<^sup>* db1 db'"
  shows "(\<exists>r. find_reset E raw db = Some r \<and> get_user_sessions (pr_user_id r) (sec db1) = []) \<and>
    \<not> validate_reset_token E now' raw db' \<and>
    (\<exists>e. fst (reset_password E now' salt' raw pw' req' db') = Inl e \<and> status_code e = 400)"
proof -
  obtain r u where r: "find_reset E raw db = Some r" "find (\<lambda>u. user_id u = pr_user_id r) (users (sec db)) = Some u"
    and rows: "reset_tokens db1 = use_outstanding now (user_id u)
        (update_first (\<lambda>t. pr_id t = pr_id r) (\<lambda>t. t\<lparr>pr_used_at := Some now\<rparr>) (reset_tokens db))"
    and ss: "active_sessions (sec db1) = active_sessions (snd (terminate_all_user_sessions (user_id u) (sec db)))"
    using assms(3,4) by (elim reset_password_Inr) blast
  have "spent_inv (sha256 E raw) db1"
    unfolding spent_inv_def rows using r(1) spent_after_reset [OF assms(1,2)] by (simp add: find_reset_def)
  with assms(5) have "spent_inv (sha256 E raw) db'" by (rule spent.requests_inv)
  then have used: "\<not> reset_token_is_valid now' x" if "find_reset E raw db' = Some x" for x
    using that by (auto simp: find_reset_def spent_inv_def spent_rows_def reset_token_is_valid_def list_all_iff
        dest!: find_SomeD)
  have "user_id u = pr_user_id r" using r(2) by (auto dest: find_SomeD)
  then have "get_user_sessions (pr_user_id r) (sec db1) = []"
    using ss by (simp add: get_user_sessions_def terminate_all_user_sessions_def deactivated_rows)
  moreover have "\<not> validate_reset_token E now' raw db'"
    using used by (simp add: validate_reset_token_def split: option.split)
  moreover have "\<exists>e. fst (reset_password E now' salt' raw pw' req' db') = Inl e \<and> status_code e = 400"
    using used by (cases "find_reset E raw db'") (simp_all add: reset_password_def Let_def)
  ultimately show ?thesis using r(1) by blast
qed

end
