(* ===== verification/LoginProps.thy ===== *)
theory LoginProps
  imports ApiProps
begin

text \<open>
  What the login endpoint promises: when it issues a token, what a refusal leaves behind, and that an issued
  token is accepted by \<open>get_current_user\<close>; backup codes; impersonation.
\<close>

section \<open>The gates of a login\<close>

text \<open>The second factor of an account that asks for one: a TOTP code, or a backup code not yet used.\<close>

definition factor_ok :: "env \<Rightarrow> int \<Rightarrow> string option \<Rightarrow> user \<Rightarrow> bool" where
  "factor_ok E now given u \<longleftrightarrow>
     \<not> two_factor_enabled u \<or>
     truthy_str given \<and>
       (verify_totp E now (two_factor_secret u) (the given) \<or>
        (case two_factor_backup_codes u of None \<Rightarrow> False | Some hs \<Rightarrow> hash_backup_code E (the given) \<in> set hs))"

text \<open>What a login has to get past: the address, the attempts from it, the account, the password, the factor.\<close>

definition may_log_in :: "env \<Rightarrow> int \<Rightarrow> login_data \<Rightarrow> string \<Rightarrow> user \<Rightarrow> sec_state \<Rightarrow> bool" where
  "may_log_in E now d ip u st \<longleftrightarrow>
     list_all (\<lambda>b. b_ip_address b = ip \<longrightarrow> \<not> row_is_blocked now b) (blocked_ips st) \<and>
     int (length (filter (failed_since ip (now - 30 * minute)) (login_attempts st)))
       < fst (get_setting_int now ''ip_block_threshold'' 10 st) \<and>
     find_user_by_name (login_username d) st = Some u \<and> \<not> is_locked now u \<and>
     verify_password E (login_password d) (hashed_password u) \<and> is_active u \<and>
     factor_ok E now (login_code d) u"

lemma get_setting_blocked [simp]:
  "fst (get_setting now k v (st\<lparr>blocked_ips := bs\<rparr>)) = fst (get_setting now k v st)"
  by (simp add: get_setting_def Let_def split: option.split)

lemma get_setting_after_block_check:
  "fst (get_setting_int now k v (snd (is_ip_blocked now' ip st))) = fst (get_setting_int now k v st)"
  by (auto simp: is_ip_blocked_def get_setting_int_eq split: option.split)

lemma block_check:
  assumes "unique_on b_ip_address (blocked_ips st)"
  shows "fst (fst (is_ip_blocked now ip st)) \<longleftrightarrow>
    \<not> list_all (\<lambda>b. b_ip_address b = ip \<longrightarrow> \<not> row_is_blocked now b) (blocked_ips st)"
proof (cases "find (\<lambda>b. b_ip_address b = ip) (blocked_ips st)")
  case None
  then have "list_all (\<lambda>b. b_ip_address b = ip \<longrightarrow> \<not> row_is_blocked now b) (blocked_ips st)"
    by (auto simp: find_None_iff list_all_iff)
  with None show ?thesis by (simp add: is_ip_blocked_row)
next
  case (Some b)
  then have b: "b \<in> set (blocked_ips st)" "b_ip_address b = ip" by (auto dest: find_SomeD)
  have "x = b" if "x \<in> set (blocked_ips st)" "b_ip_address x = ip" for x
    using assms b that by (metis unique_find option.inject)
  then have "(\<exists>x \<in> set (blocked_ips st). b_ip_address x = ip \<and> row_is_blocked now x) \<longleftrightarrow> row_is_blocked now b"
    using b by blast
  with Some show ?thesis by (auto simp: is_ip_blocked_row list_all_iff)
qed

lemma find_user_by_name_quiet [simp]:
  "find_user_by_name n (snd (is_ip_blocked now ip st)) = find_user_by_name n st"
  "find_user_by_name n (snd (check_brute_force now ip st)) = find_user_by_name n st"
  by (simp_all add: find_user_by_name_def)

lemma second_factor_ok:
  "two_factor_enabled u \<Longrightarrow> truthy_str (login_code d) \<Longrightarrow>
   fst (fst (second_factor E now (the (login_code d)) u db)) = factor_ok E now (login_code d) u"
  by (auto simp: second_factor_def factor_ok_def consume_backup_code_def truthy_str_def case_prod_beta Let_def
      split: option.splits)

lemma is_account_locked_fst [simp]: "fst (is_account_locked now u) = is_locked now u"
  by (simp add: is_account_locked_def is_locked_def split: option.split)

lemma login_success_token: "\<exists>tok sid. fst (login_success E now fresh ip ua d u db) = Inr (Token tok sid)"
  by (simp add: login_success_def case_prod_beta Let_def)

lemma refuse_login_fst [simp]: "fst (refuse_login now ip ua d why lg err db) = Inl err"
  by (simp add: refuse_login_def Let_def)

lemma login_user_token:
  "(\<exists>tok sid. fst (login_user E now fresh ip ua d u db) = Inr (Token tok sid)) \<longleftrightarrow>
   \<not> is_locked now u \<and> verify_password E (login_password d) (hashed_password u) \<and> is_active u \<and>
   factor_ok E now (login_code d) u"
proof (cases "two_factor_enabled u")
  case True
  then show ?thesis
    using second_factor_ok [OF True, of d E now db]
    by (simp add: login_user_def case_prod_beta Let_def login_success_token factor_ok_def)
next
  case False
  then show ?thesis
    by (simp add: login_user_def case_prod_beta Let_def login_success_token factor_ok_def)
qed

lemma login_token_gates:
  assumes "unique_on b_ip_address (blocked_ips (sec db))"
  shows "(\<exists>tok sid. fst (login E now fresh d req db) = Inr (Token tok sid)) \<longleftrightarrow>
    (\<exists>u. may_log_in E now d (get_client_ip req) u (sec db))"
  using check_brute_force_verdict [of now "get_client_ip req" "snd (is_ip_blocked now (get_client_ip req) (sec db))"]
  by (simp add: login_def case_prod_beta Let_def block_check [OF assms] may_log_in_def login_user_token
      get_setting_after_block_check not_le split: option.split)

text \<open>C4. Login: with unique addresses in the block list, a login issues a token exactly when the address is not
  blocked, fewer than the configured number of attempts from it failed in the last half hour, and the
  named account exists, is not locked, has that password, is active and, where it asks for a second
  factor, is given a valid TOTP code or an unused backup code.\<close>

theorem login_issues_token_iff:
  assumes "unique_on b_ip_address (blocked_ips (sec db))"
  shows "(\<exists>tok sid. fst (login E now fresh d req db) = Inr (Token tok sid)) \<longleftrightarrow>
    (\<exists>u. may_log_in E now d (get_client_ip req) u (sec db))"
  using assms by (rule login_token_gates)

section \<open>Sessions of a login\<close>

definition new_session :: "env \<Rightarrow> int \<Rightarrow> string \<Rightarrow> user \<Rightarrow> active_session list \<Rightarrow> active_session list \<Rightarrow> int option \<Rightarrow> bool" where
  "new_session E now fresh u old new sid \<longleftrightarrow>
     (\<exists>s. new = old @ [s] \<and> s_session_token s = fresh \<and> s_user_id s = user_id u \<and> s_is_active s \<and>
          s_last_activity s = now \<and> sid = Some (s_id s))"

lemma login_success_sessions:
  "fst (login_success E now fresh ip ua d u db) = Inr (Token tok sid) \<Longrightarrow>
   new_session E now fresh u (active_sessions (sec db))
     (active_sessions (sec (snd (login_success E now fresh ip ua d u db)))) sid"
  by (auto simp: login_success_def new_session_def create_session_def reset_failed_attempts_def
      case_prod_beta Let_def)

lemma refuse_login_sessions [simp]:
  "active_sessions (sec (snd (refuse_login now ip ua d why lg err db))) = active_sessions (sec db)"
  by (simp add: refuse_login_def Let_def split: option.split)

lemma second_factor_sessions [simp]:
  "active_sessions (sec (snd (second_factor E now given u db))) = active_sessions (sec db)"
  "user_id (snd (fst (second_factor E now given u db))) = user_id u"
  by (simp_all add: second_factor_def case_prod_beta Let_def)

lemma new_session_user:
  "user_id u = user_id v \<Longrightarrow> new_session E now fresh u = new_session E now fresh v"
  by (intro ext) (simp add: new_session_def)

definition login_outcome ::
    "env \<Rightarrow> int \<Rightarrow> string \<Rightarrow> user option \<Rightarrow> auth_db \<Rightarrow> (http_error + token_reply) \<times> auth_db \<Rightarrow> bool" where
  "login_outcome E now fresh found db r \<longleftrightarrow>
     (case fst r of
        Inr (Token tok sid) \<Rightarrow>
          (\<exists>u. found = Some u \<and> new_session E now fresh u (active_sessions (sec db)) (active_sessions (sec (snd r))) sid)
      | _ \<Rightarrow> active_sessions (sec (snd r)) = active_sessions (sec db))"

lemma login_success_outcome:
  "user_id v = user_id u \<Longrightarrow> active_sessions (sec db') = active_sessions (sec db) \<Longrightarrow>
   login_outcome E now fresh (Some u) db (login_success E now fresh ip ua d v db')"
  using login_success_token [of E now fresh ip ua d v db'] login_success_sessions [of E now fresh ip ua d v db']
  by (auto simp: login_outcome_def new_session_user [of v u])

lemma login_user_outcome:
  "active_sessions (sec db') = active_sessions (sec db) \<Longrightarrow>
   login_outcome E now fresh (Some u) db (login_user E now fresh ip ua d u db')"
  unfolding login_user_def case_prod_beta Let_def
  by (simp add: login_success_outcome) (simp add: login_outcome_def)

text \<open>Sessions of a login: a login that issues a token stores one new active session, with the drawn
  token, of the named account, and touches no other; a login that is refused, or that only asks for the
  second factor, stores none and touches none.\<close>

theorem login_sessions:
  "case fst (login E now fresh d req db) of
     Inr (Token tok sid) \<Rightarrow>
       (\<exists>u. find_user_by_name (login_username d) (sec db) = Some u \<and>
          new_session E now fresh u (active_sessions (sec db))
            (active_sessions (sec (snd (login E now fresh d req db)))) sid)
   | _ \<Rightarrow> active_sessions (sec (snd (login E now fresh d req db))) = active_sessions (sec db)"
proof -
  have "login_outcome E now fresh (find_user_by_name (login_username d) (sec db)) db (login E now fresh d req db)"
    by (auto simp: login_def case_prod_beta Let_def login_user_outcome split: option.split)
       (simp_all add: login_outcome_def)
  then show ?thesis by (simp add: login_outcome_def)
qed

section \<open>A token that was issued is accepted\<close>

text \<open>The configured session timeout, in a state whose cache agrees with the stored settings.\<close>

definition timeout_is :: "int \<Rightarrow> sec_state \<Rightarrow> bool" where
  "timeout_is m st \<longleftrightarrow> cache_coherent st \<and>
     (\<exists>v. map_of (security_settings st) ''session_timeout_minutes'' = Some v \<and> py_int v = Some m)"

lemma timeout_isD: "timeout_is m st \<Longrightarrow> fst (get_setting_int now ''session_timeout_minutes'' d st) = m"
  by (auto simp: timeout_is_def get_setting_int_eq coherent_get)

lemma timeout_is_cong:
  "settings_cache st' = settings_cache st \<Longrightarrow> security_settings st' = security_settings st \<Longrightarrow>
   timeout_is m st' = timeout_is m st"
  by (simp add: timeout_is_def cache_coherent_def)

lemma timeout_is_get [simp]: "timeout_is m st \<Longrightarrow> timeout_is m (snd (get_setting_int now k d st))"
  by (auto simp: timeout_is_def get_setting_int_eq cache_coherent_get)

lemma timeout_is_calls:
  assumes "timeout_is m st"
  shows "timeout_is m (snd (is_ip_blocked now ip st))"
    and "timeout_is m (snd (check_brute_force now ip st))"
    and "timeout_is m (snd (reset_failed_attempts u st))"
    and "timeout_is m (store_user u st)"
    and "timeout_is m (snd (create_session now f u ip' ua st))"
proof -
  show "timeout_is m (snd (is_ip_blocked now ip st))"
    using assms by (subst timeout_is_cong [of _ st]) (auto simp: is_ip_blocked_def split: option.splits)
  show "timeout_is m (snd (check_brute_force now ip st))"
    using assms by (simp add: check_brute_force_def case_prod_beta Let_def)
  show "timeout_is m (snd (reset_failed_attempts u st))" and "timeout_is m (store_user u st)"
    using assms by (subst timeout_is_cong [of _ st]; simp add: reset_failed_attempts_def store_user_def Let_def)+
  show "timeout_is m (snd (create_session now f u ip' ua st))"
    using timeout_is_get [OF assms, of now "''session_timeout_minutes''" 60]
    by (subst timeout_is_cong [of _ "snd (get_setting_int now ''session_timeout_minutes'' 60 st)"])
       (simp_all add: create_session_def case_prod_beta Let_def)
qed

text \<open>The account a name leads to, in a table with unique ids.\<close>

definition named :: "user \<Rightarrow> user list \<Rightarrow> bool" where
  "named v us \<longleftrightarrow> unique_on user_id us \<and>
     (\<exists>u. find (\<lambda>x. username x = username v) us = Some u \<and> user_id u = user_id v)"

lemma find_named:
  assumes "unique_on user_id us" and "find (\<lambda>x. username x = username v) us = Some u" and "user_id u = user_id v"
  shows "find (\<lambda>x. username x = username v) (update_first (\<lambda>x. user_id x = user_id v) (\<lambda>_. v) us) = Some v"
  using assms
proof (induction us)
  case (Cons x us)
  show ?case
  proof (cases "username x = username v")
    case True
    with Cons.prems show ?thesis by simp
  next
    case False
    then have "find (\<lambda>x. username x = username v) us = Some u" using Cons.prems(2) by simp
    moreover from this have "u \<in> set us" by (auto dest: find_SomeD)
    then have "user_id x \<noteq> user_id v"
      using Cons.prems(1,3) by (auto simp: unique_on_def image_iff)
    ultimately show ?thesis using Cons False by (simp add: unique_on_def)
  qed
qed simp

lemma named_store:
  assumes "named v us"
  shows "find (\<lambda>x. username x = username v) (update_first (\<lambda>x. user_id x = user_id v) (\<lambda>_. v) us) = Some v \<and>
    named v (update_first (\<lambda>x. user_id x = user_id v) (\<lambda>_. v) us)"
proof -
  have "unique_on user_id (update_first (\<lambda>x. user_id x = user_id v) (\<lambda>_. v) us)"
    using assms by (subst unique_on_update_first) (auto simp: named_def)
  then show ?thesis using assms find_named [of us v] by (auto simp: named_def)
qed

lemma named_cong: "username v = username w \<Longrightarrow> user_id v = user_id w \<Longrightarrow> named v us = named w us"
  by (simp add: named_def)

lemma find_user_by_name_named:
  assumes "unique_on user_id (users st)" and "find_user_by_name n st = Some u"
  shows "named u (users st)"
proof -
  obtain z where z: "find (\<lambda>u. username u = n) (users st) = Some z" "u = load_user (roles st) z"
    using assms(2) by (auto simp: find_user_by_name_def)
  then have "username z = n" by (auto dest: find_SomeD)
  with z assms(1) show ?thesis by (simp add: named_def)
qed

definition accepted_claims :: "int \<Rightarrow> int \<Rightarrow> string \<Rightarrow> string \<Rightarrow> claims" where
  "accepted_claims now m name fresh =
     \<lparr>c_sub = Some name, c_session = Some fresh, c_impersonator = None,
      c_exp = (now + m * minute) div second, c_iat = now div second\<rparr>"

lemma login_success_state:
  assumes "named u (users (sec db))" and "timeout_is m (sec db)" and "m \<noteq> 0" and "fresh \<noteq> []"
    and "is_active u" and r_def: "r = login_success E now fresh ip ua d u db"
  shows "(\<exists>sid. fst r = Inr (Token (jwt_encode E (accepted_claims now m (username u) fresh)) sid)) \<and>
    (\<exists>v. find (\<lambda>x. username x = username u) (users (sec (snd r))) = Some v \<and> is_active v \<and> locked_until v = None \<and>
       user_id v = user_id u) \<and>
    (\<exists>s. active_sessions (sec (snd r)) = active_sessions (sec db) @ [s] \<and> s_session_token s = fresh \<and>
       s_is_active s \<and> s_expires_at s = now + m * minute)"
proof -
  let ?u1 = "fst (reset_failed_attempts u (sec db))"
  let ?u2 = "?u1\<lparr>last_login := Some now\<rparr>"
  let ?P = "\<lambda>x. user_id x = user_id u"
  have u: "username ?u1 = username u" "user_id ?u1 = user_id u" "is_active ?u1" "locked_until ?u1 = None"
    using assms(5) by (simp_all add: reset_failed_attempts_def Let_def)
  have "named ?u1 (users (sec db))" using assms(1) u by (simp add: named_def)
  then have "named ?u1 (update_first ?P (\<lambda>_. ?u1) (users (sec db)))"
    using named_store [of ?u1 "users (sec db)"] u by simp
  then have "named ?u2 (update_first ?P (\<lambda>_. ?u1) (users (sec db)))" by (simp add: named_def)
  then have found: "find (\<lambda>x. username x = username u)
      (update_first ?P (\<lambda>_. ?u2) (update_first ?P (\<lambda>_. ?u1) (users (sec db)))) = Some ?u2"
    using named_store [of ?u2 "update_first ?P (\<lambda>_. ?u1) (users (sec db))"] u by simp
  have us: "users (sec (snd r)) = update_first ?P (\<lambda>_. ?u2) (update_first ?P (\<lambda>_. ?u1) (users (sec db)))"
    using u by (simp add: r_def login_success_def case_prod_beta Let_def)
  let ?st = "snd (reset_failed_attempts u (sec db))"
  have t: "timeout_is m ?st" "timeout_is m (store_user ?u2 (snd (create_session now fresh ?u1 (Some ip) (Some ua) ?st)))"
    using assms(2) by (simp_all add: timeout_is_calls)
  have "m * minute \<noteq> 0" using assms(3) by (simp add: minute_def second_def)
  then have "\<exists>sid. fst r = Inr (Token (jwt_encode E (accepted_claims now m (username u) fresh)) sid)"
    using t u assms(4)
    by (simp add: r_def login_success_def session_access_token_def create_access_token_def accepted_claims_def
        truthy_int_def timeout_isD create_session_def case_prod_beta Let_def)
  moreover have "\<exists>s. active_sessions (sec (snd r)) = active_sessions (sec db) @ [s] \<and> s_session_token s = fresh \<and>
       s_is_active s \<and> s_expires_at s = now + m * minute"
    using t(1) by (simp add: r_def login_success_def create_session_def timeout_isD case_prod_beta Let_def)
  ultimately show ?thesis using found us u by simp
qed

lemma second_factor_named:
  assumes "named u (users (sec db))" and "timeout_is m (sec db)"
  shows "named (snd (fst (second_factor E now given u db))) (users (sec (snd (second_factor E now given u db)))) \<and>
    timeout_is m (sec (snd (second_factor E now given u db))) \<and>
    username (snd (fst (second_factor E now given u db))) = username u \<and>
    is_active (snd (fst (second_factor E now given u db))) = is_active u"
proof -
  have "named (u\<lparr>two_factor_backup_codes := c\<rparr>) (users (sec db))" for c
    using assms(1) by (simp add: named_def)
  then have "named (u\<lparr>two_factor_backup_codes := c\<rparr>)
      (update_first (\<lambda>x. user_id x = user_id u) (\<lambda>_. u\<lparr>two_factor_backup_codes := c\<rparr>) (users (sec db)))" for c
    using named_store [of "u\<lparr>two_factor_backup_codes := c\<rparr>" "users (sec db)"] by simp
  then show ?thesis using assms
    by (auto simp: second_factor_def timeout_is_calls case_prod_beta Let_def)
qed

lemma login_via_success:
  assumes "unique_on user_id (users (sec db))" and "timeout_is m (sec db)"
    and "fst (login E now fresh d req db) = Inr (Token tok sid)"
  obtains u db1 where "named u (users (sec db1))" and "timeout_is m (sec db1)" and "is_active u"
    and "username u = login_username d" and "active_sessions (sec db1) = active_sessions (sec db)"
    and "login E now fresh d req db = login_success E now fresh (get_client_ip req) (user_agent_of req) d u db1"
proof -
  let ?ip = "get_client_ip req" and ?ua = "user_agent_of req"
  let ?db2 = "snd (on_sec (check_brute_force now ?ip) (snd (on_sec (is_ip_blocked now ?ip) db)))"
  from assms(3) obtain u where u: "find_user_by_name (login_username d) (sec ?db2) = Some u"
    and eq: "login E now fresh d req db = login_user E now fresh ?ip ?ua d u ?db2"
    by (auto simp: login_def case_prod_beta Let_def split: if_splits option.splits)
  have named: "named u (users (sec ?db2))" and t: "timeout_is m (sec ?db2)"
    using find_user_by_name_named [OF _ u] assms(1,2) by (simp_all add: timeout_is_calls)
  have tok: "fst (login_user E now fresh ?ip ?ua d u ?db2) = Inr (Token tok sid)" using assms(3) eq by simp
  then have act: "is_active u" using login_user_token [of E now fresh ?ip ?ua d u ?db2] by blast
  have name: "username u = login_username d" using find_user_by_nameD [OF u] by simp
  show thesis
  proof (cases "two_factor_enabled u")
    case True
    let ?sf = "second_factor E now (the (login_code d)) u ?db2"
    have "login_user E now fresh ?ip ?ua d u ?db2 = login_success E now fresh ?ip ?ua d (snd (fst ?sf)) (snd ?sf)"
      using True tok by (simp add: login_user_def case_prod_beta Let_def split: if_splits)
    with second_factor_named [OF named t, of E now "the (login_code d)"] show thesis
      using act name eq by (intro that [of "snd (fst ?sf)" "snd ?sf"]) simp_all
  next
    case False
    have "login_user E now fresh ?ip ?ua d u ?db2 = login_success E now fresh ?ip ?ua d u ?db2"
      using False tok by (simp add: login_user_def case_prod_beta Let_def split: if_splits)
    with named t act name eq show thesis by (intro that [of u ?db2]) simp_all
  qed
qed

text \<open>C5. Login and authentication: a token a login has issued is accepted. From the login until the second in
  which the configured session timeout ends, \<open>get_current_user\<close> returns the account that logged in.\<close>

theorem login_then_authenticated:
  assumes "jwt_ok (jwt_encode E) (jwt_decode E)"
    and "unique_on user_id (users (sec db))" and "unique_on s_session_token (active_sessions (sec db))"
    and "fresh \<notin> session_tokens (sec db)" and "fresh \<noteq> []" and "timeout_is m (sec db)"
    and "fst (login E now fresh d req db) = Inr (Token tok sid)"
    and "now \<le> now'" and "now' < (now + m * minute) div second * second"
  shows "\<exists>v. fst (get_current_user (jwt_decode E) now' tok (sec (snd (login E now fresh d req db)))) = Inr v \<and>
    username v = login_username d"
proof -
  let ?st = "sec (snd (login E now fresh d req db))"
  obtain u db1 where u: "named u (users (sec db1))" "timeout_is m (sec db1)" "is_active u"
      "username u = login_username d" "active_sessions (sec db1) = active_sessions (sec db)"
      "login E now fresh d req db = login_success E now fresh (get_client_ip req) (user_agent_of req) d u db1"
    using login_via_success [OF assms(2,6,7)] by blast
  have second: "x div second * second \<le> x" for x by (simp add: second_def)
  have "m \<noteq> 0" using assms(8,9) second [of now] by auto
  note r = login_success_state [OF u(1,2) this assms(5) u(3) u(6)]
  then have tok: "tok = jwt_encode E (accepted_claims now m (username u) fresh)"
    using assms(7) by simp
  obtain s where s: "active_sessions ?st = active_sessions (sec db) @ [s]" "s_session_token s = fresh"
      "s_is_active s" "s_expires_at s = now + m * minute"
    using r u(5) by auto
  obtain v where v: "find (\<lambda>x. username x = username u) (users ?st) = Some v" "is_active v" "locked_until v = None"
    using r by blast
  have "unique_on s_session_token (active_sessions ?st)"
    using assms(3,4) s(1,2) by (auto simp: unique_on_append session_tokens_def find_None_iff image_iff)
  moreover have "session_alive now' fresh ?st"
    using s assms(9) second [of "now + m * minute"] by (simp add: session_alive_def)
  moreover have "jwt_decode E now' tok = Inr (accepted_claims now m (username u) fresh)"
    using assms(1,8,9) second [of now] by (simp add: tok jwt_ok_def accepted_claims_def)
  ultimately have "fst (get_current_user (jwt_decode E) now' tok ?st) = Inr (load_user (roles ?st) v)"
    using v assms(5)
    by (simp add: get_current_user_Inr session_gate_alive accepted_claims_def bound_session_alive_def
        find_user_by_name_def is_locked_def)
  moreover have "username v = login_username d" using v(1) u(4) by (auto dest: find_SomeD)
  ultimately show ?thesis by simp
qed

section \<open>Backup codes\<close>

definition is_hex :: "char \<Rightarrow> bool" where
  "is_hex c = (c \<in> set ''0123456789abcdef'')"

lemma hex_char: "is_hex c \<Longrightarrow> lower_char c = c \<and> \<not> is_space c \<and> c \<noteq> CHR '' '' \<and> c \<noteq> CHR ''-''"
  by (auto simp: is_hex_def lower_char_def is_upper_def is_space_def)

text \<open>The code as it is shown, with its hyphen, stands for the drawn digits.\<close>

lemma shown_code_normal:
  assumes "list_all is_hex raw"
  shows "normalized_code (take 4 raw @ CHR ''-'' # drop 4 raw) = raw"
proof -
  have hex: "c \<in> set raw \<Longrightarrow> is_hex c" for c using assms by (simp add: list_all_iff)
  let ?shown = "take 4 raw @ CHR ''-'' # drop 4 raw"
  have chars: "c \<in> set ?shown \<Longrightarrow> is_hex c \<or> c = CHR ''-''" for c
    using hex by (auto dest: in_set_takeD in_set_dropD)
  have no_space: "\<not> is_space c" if "c \<in> set ?shown" for c
    using chars [OF that] hex_char [of c] by (auto simp: is_space_def)
  have ne: "?shown \<noteq> []" by simp
  have strip: "strip ?shown = ?shown"
    using no_space [OF hd_in_set [OF ne]] no_space [OF last_in_set [OF ne]]
    by (simp add: strip_no_space_ends)
  have "lower_char c = c" if "c \<in> set ?shown" for c
    using chars [OF that] hex_char [of c] by (auto simp: lower_char_def is_upper_def)
  then have lower: "lower ?shown = ?shown"
    unfolding lower_def by (rule map_idI)
  have keep: "filter (\<lambda>x. x \<noteq> CHR ''-'' \<and> x \<noteq> CHR '' '') ys = ys" if "set ys \<subseteq> set raw" for ys
    using hex hex_char that by (intro filter_True) blast
  show ?thesis
    unfolding normalized_code_def strip lower
    by (simp add: replace_char_def keep set_take_subset set_drop_subset)
qed

lemma consume_known:
  "given \<noteq> [] \<Longrightarrow> hash_backup_code E given \<in> set hs \<Longrightarrow>
   consume_backup_code E given hs = (True, remove1 (hash_backup_code E given) hs)"
  by (auto simp: consume_backup_code_def Let_def)

lemma consume_unknown:
  "hash_backup_code E given \<notin> set hs \<Longrightarrow> consume_backup_code E given hs = (False, hs)"
  by (auto simp: consume_backup_code_def Let_def)

text \<open>C30. Backup codes: of the codes handed out at enrolment each is accepted, in any spelling that has the same
  digits (the hyphen, spaces and the case of letters do not matter), for as long as it is unused; using it
  removes it and no other: a second use is refused, and every other code is still accepted.\<close>

theorem backup_codes_work_once:
  assumes "list_all (list_all is_hex) raws" and "distinct raws" and "inj_on (sha256 E) (set raws)"
    and "hs = hash_backup_codes E (generate_backup_codes raws)"
    and "raw \<in> set raws" and "normalized_code given = raw" and "given \<noteq> []"
    and "normalized_code given' = raw" and "raw' \<in> set raws" and "raw' \<noteq> raw"
    and "normalized_code other = raw'" and "other \<noteq> []"
  shows "\<exists>hs'. consume_backup_code E given hs = (True, hs') \<and>
    fst (consume_backup_code E given' hs') = False \<and> fst (consume_backup_code E other hs') = True"
proof -
  have hs: "hs = map (sha256 E) raws"
    using assms(1,4)
    by (auto simp: hash_backup_codes_def generate_backup_codes_def hash_backup_code_def shown_code_normal list_all_iff)
  have "distinct hs" using assms(2,3) by (simp add: hs distinct_map)
  moreover have "sha256 E raw \<noteq> sha256 E raw'"
    using assms(3,5,9,10) by (metis inj_on_contraD)
  moreover have "sha256 E raw \<in> set hs" "sha256 E raw' \<in> set hs" using assms(5,9) by (simp_all add: hs)
  ultimately show ?thesis
    using assms(6-8,11,12)
    by (auto simp: consume_known consume_unknown hash_backup_code_def)
qed

section \<open>Impersonation\<close>

lemma timeout_is_validate [simp]:
  assumes "timeout_is m st"
  shows "timeout_is m (snd (validate_session now s st))"
proof -
  have "settings_cache (snd (validate_session now s st)) = settings_cache st \<or>
      settings_cache (snd (validate_session now s st)) =
        settings_cache (snd (get_setting_int now ''session_timeout_minutes'' 60 st))"
    by (auto simp: validate_session_def case_prod_beta Let_def split: option.split)
  then show ?thesis
    using assms timeout_is_get [OF assms, of now "''session_timeout_minutes''" 60]
    by (auto simp: timeout_is_def cache_coherent_def)
qed

lemma timeout_is_guarded [simp]:
  assumes "timeout_is m st"
  shows "timeout_is m (snd (guarded dec guard now token st))"
proof -
  have "snd (guarded dec guard now token st) = snd (get_current_user dec now token st)"
    by (simp add: guarded_def split: prod.split sum.split)
  then show ?thesis using assms
    by (simp add: get_current_user_state session_gate_def case_prod_beta Let_def split: sum.split option.split)
qed

lemma guarded_frame [simp]:
  "users (snd (guarded dec guard now token st)) = users st"
  "roles (snd (guarded dec guard now token st)) = roles st"
proof -
  have "snd (guarded dec guard now token st) = snd (get_current_user dec now token st)"
    by (simp add: guarded_def split: prod.split sum.split)
  then show "users (snd (guarded dec guard now token st)) = users st"
    and "roles (snd (guarded dec guard now token st)) = roles st" by simp_all
qed

definition issued_claims :: "int \<Rightarrow> int \<Rightarrow> string \<Rightarrow> string option \<Rightarrow> string \<Rightarrow> claims" where
  "issued_claims now m name imp fresh =
     \<lparr>c_sub = Some name, c_session = (if fresh = [] then None else Some fresh), c_impersonator = imp,
      c_exp = (now + m * minute) div second, c_iat = now div second\<rparr>"

lemma session_access_token_claims:
  "timeout_is m (sec db) \<Longrightarrow> 0 < m \<Longrightarrow>
   fst (session_access_token E now name imp (Some fresh) db) = jwt_encode E (issued_claims now m name imp fresh)"
  by (simp add: session_access_token_def create_access_token_def issued_claims_def truthy_int_def timeout_isD
      minute_def second_def case_prod_beta Let_def)

lemma issued_decodes:
  assumes "jwt_ok (jwt_encode E) (jwt_decode E)" and "now \<le> now'" and "now' < (now + m * minute) div second * second"
  shows "jwt_decode E now' (jwt_encode E (issued_claims now m name imp fresh)) = Inr (issued_claims now m name imp fresh)"
proof -
  have "now div second * second \<le> now" by (simp add: second_def)
  with assms show ?thesis by (simp add: jwt_ok_def issued_claims_def)
qed

lemma find_user_by_name_stored:
  assumes "find_user_by_name n st = Some u"
  shows "username u \<in> username ` set (users st)"
proof -
  obtain z where "find (\<lambda>u. username u = n) (users st) = Some z" "u = load_user (roles st) z"
    using assms by (auto simp: find_user_by_name_def)
  then show ?thesis by (auto dest: find_SomeD)
qed

lemma start_impersonation_state:
  assumes "timeout_is m (sec db)" and "0 < m"
  shows "fst (start_impersonation E now fresh admin target req db) =
      Inr (Token (jwt_encode E (issued_claims now m (username target) (Some (username admin)) fresh)) None) \<and>
    timeout_is m (sec (snd (start_impersonation E now fresh admin target req db))) \<and>
    users (sec (snd (start_impersonation E now fresh admin target req db))) = users (sec db) \<and>
    roles (sec (snd (start_impersonation E now fresh admin target req db))) = roles (sec db)"
proof -
  let ?db1 = "snd (on_sec (create_session now fresh target (Some (get_client_ip req)) (Some (user_agent_of req))) db)"
  have t: "timeout_is m (sec ?db1)" using assms(1) by (simp add: timeout_is_calls)
  have "timeout_is m (sec (snd (session_access_token E now n i s ?db1)))" for n i s
    using t by (simp add: session_access_token_def case_prod_beta Let_def)
  moreover have "s_session_token (fst (fst (create_session now f u ip ua st))) = f" for f u ip ua st
    by (simp add: create_session_def case_prod_beta Let_def)
  ultimately show ?thesis
    using session_access_token_claims [OF t assms(2)]
    by (simp add: start_impersonation_def session_access_token_def case_prod_beta Let_def)
qed

lemma impersonate_Inr:
  assumes "fst (impersonate_user E now fresh uid token req db) = Inr (Token tok sid)"
  obtains admin target b where
    "fst (get_current_user (jwt_decode E) now token (sec db)) = Inr admin" and "admin_access admin"
    and "find_user uid (sec db) = Some target" and "\<not> admin_access target" and "is_active target"
    and "user_id target \<noteq> user_id admin" and "users (sec b) = users (sec db)" and "roles (sec b) = roles (sec db)"
    and "\<And>m. timeout_is m (sec db) \<Longrightarrow> timeout_is m (sec b)"
    and "impersonate_user E now fresh uid token req db = start_impersonation E now fresh admin target req b"
proof -
  let ?g = "guarded (jwt_decode E) get_current_active_admin now token"
  let ?b = "snd (on_sec ?g db)"
  obtain admin where g: "fst (?g (sec db)) = Inr admin"
    using assms by (auto simp: impersonate_user_def with_guard_Inr)
  then have admin: "fst (get_current_user (jwt_decode E) now token (sec db)) = Inr admin" "admin_access admin"
    by (auto simp: guarded_Inr)
  obtain target where "find_user uid (sec db) = Some target" "\<not> admin_access target" "is_active target"
      "user_id target \<noteq> user_id admin"
      "impersonate_user E now fresh uid token req db = start_impersonation E now fresh admin target req ?b"
    using assms g
    by (auto simp: impersonate_user_def with_guard_def case_prod_beta find_user_def
        split: sum.splits if_splits option.splits)
  with admin show thesis by (intro that [of admin target ?b]) simp_all
qed

lemma impersonate_issues:
  assumes "fst (get_current_user (jwt_decode E) now token (sec db)) = Inr admin" and "admin_access admin"
    and "jwt_decode E now token = Inr c" and "c_impersonator c = None"
    and "find_user uid (sec db) = Some target" and "\<not> admin_access target" and "is_active target"
    and "user_id target \<noteq> user_id admin"
  shows "\<exists>tok. fst (impersonate_user E now fresh uid token req db) = Inr (Token tok None)"
proof -
  have "fst (guarded (jwt_decode E) get_current_active_admin now token (sec db)) = Inr admin"
    using assms(1,2) by (simp add: guarded_Inr)
  then show ?thesis using assms(3-8)
    by (auto simp: impersonate_user_def start_impersonation_def with_guard_def decode_access_token_def find_user_def
        case_prod_beta Let_def)
qed

lemma logout_succeeds:
  assumes "fst (get_current_user (jwt_decode E) now token (sec db)) = Inr u" and "jwt_decode E now token = Inr c"
  shows "fst (logout E now token req db) = Inr ()"
proof -
  have "fst (guarded (jwt_decode E) Inr now token (sec db)) = Inr u"
    using assms(1) by (simp add: guarded_Inr)
  then show ?thesis using assms(2)
    by (simp add: logout_def with_guard_def get_current_session_token_def decode_access_token_def case_prod_beta Let_def)
qed

lemma stop_impersonating_state:
  assumes "jwt_decode E now token = Inr c" and "c_impersonator c = Some name" and "name \<noteq> []"
    and "find_user_by_name name (sec db) = Some admin" and "is_active admin" and "admin_access admin"
    and "timeout_is m (sec db)" and "0 < m"
  shows "fst (stop_impersonating E now fresh token req db) =
    Inr (Token (jwt_encode E (issued_claims now m (username admin) None fresh)) None)"
proof -
  have t: "timeout_is m (snd (terminate_session s (sec db)))" for s
    using assms(7) by (subst timeout_is_cong [of _ "sec db"]) (simp_all add: terminate_session_def)
  have "s_session_token (fst (fst (create_session now f u ip ua st))) = f" for f u ip ua st
    by (simp add: create_session_def case_prod_beta Let_def)
  then show ?thesis using assms
    by (simp add: stop_impersonating_def decode_access_token_def session_access_token_claims timeout_is_calls t
        case_prod_beta Let_def)
qed

text \<open>C29. Impersonation: only an administrator gets a token for another account, and never for another
  administrator, a disabled account or himself; the token says who he is, and with it he returns to his own
  account: until it expires, stopping issues a token in his name without an impersonator.\<close>

theorem impersonation_round_trip:
  assumes "jwt_ok (jwt_encode E) (jwt_decode E)" and "timeout_is m (sec db)" and "0 < m"
    and "list_all (\<lambda>u. username u \<noteq> []) (users (sec db))"
    and "fst (impersonate_user E now fresh uid token req db) = Inr (Token tok sid)"
    and "now \<le> now'" and "now' < (now + m * minute) div second * second"
  shows "\<exists>admin target tok'.
    fst (get_current_user (jwt_decode E) now token (sec db)) = Inr admin \<and> admin_access admin \<and>
    find_user uid (sec db) = Some target \<and> \<not> admin_access target \<and> is_active target \<and>
    user_id target \<noteq> user_id admin \<and>
    jwt_decode E now' tok = Inr (issued_claims now m (username target) (Some (username admin)) fresh) \<and>
    fst (stop_impersonating E now' fresh' tok req' (snd (impersonate_user E now fresh uid token req db))) =
      Inr (Token tok' None) \<and>
    jwt_decode E now' tok' = Inr (issued_claims now' m (username admin) None fresh')"
proof -
  let ?db1 = "snd (impersonate_user E now fresh uid token req db)"
  obtain admin target b where a: "fst (get_current_user (jwt_decode E) now token (sec db)) = Inr admin"
      "admin_access admin" "find_user uid (sec db) = Some target" "\<not> admin_access target" "is_active target"
      "user_id target \<noteq> user_id admin" "users (sec b) = users (sec db)" "roles (sec b) = roles (sec db)"
      "timeout_is m (sec b)"
      "impersonate_user E now fresh uid token req db = start_impersonation E now fresh admin target req b"
    using impersonate_Inr [OF assms(5)] assms(2) by metis
  note start = start_impersonation_state [OF a(9) assms(3), of E now fresh admin target req]
  have tok: "tok = jwt_encode E (issued_claims now m (username target) (Some (username admin)) fresh)"
    using assms(5) a(10) start by simp
  note dec = issued_decodes [OF assms(1,6,7), of "username target" "Some (username admin)" fresh]
  have known: "find_user_by_name (username admin) (sec db) = Some admin" "is_active admin"
    using a(1) by (auto simp: get_current_user_Inr dest: find_user_by_nameD)
  then have "find_user_by_name (username admin) (sec ?db1) = Some admin"
    using start a(7,8,10) by (simp add: find_user_by_name_def)
  moreover have "username admin \<noteq> []"
    using find_user_by_name_stored [OF known(1)] assms(4) by (auto simp: list_all_iff)
  ultimately have stop: "fst (stop_impersonating E now' fresh' tok req' ?db1) =
      Inr (Token (jwt_encode E (issued_claims now' m (username admin) None fresh')) None)"
    using stop_impersonating_state [of E now' tok "issued_claims now m (username target) (Some (username admin)) fresh"
        "username admin" ?db1 admin m fresh' req'] dec known(2) a(2,10) start assms(3)
    by (simp add: tok) (simp add: issued_claims_def)
  have "now' < (now' + m * minute) div second * second"
    using assms(3) by (simp add: minute_def second_def)
  then have "jwt_decode E now' (jwt_encode E (issued_claims now' m (username admin) None fresh')) =
      Inr (issued_claims now' m (username admin) None fresh')"
    using issued_decodes [OF assms(1), of now' now' m] by simp
  with a(1-6) stop dec show ?thesis unfolding tok by blast
qed

end
