(* ===== verification/ApiWitnesses.thy ===== *)
theory ApiWitnesses
  imports LoginProps
begin

text \<open>
  The properties of the endpoints at a concrete installation: an administrator with a session, an account
  with a second factor, a reset token. Passwords are stored behind a prefix, the digest is injective, the
  tokens are those of \<open>plain_encode\<close>.
\<close>

definition sample_env :: env where
  "sample_env = \<lparr>jwt_encode = plain_encode, jwt_decode = plain_decode,
     verify_password = (\<lambda>p h. h = ''h:'' @ p), get_password_hash = (\<lambda>salt p. ''h:'' @ p),
     sha256 = (\<lambda>s. CHR ''#'' # s), totp_verify = (\<lambda>now secret given. Some (given = ''123456'')),
     access_minutes = 480, reset_minutes = 30\<rparr>"

definition sample_admin :: user where
  "sample_admin = sample_account\<lparr>user_id := 1, username := ''root'', email := ''r@x'', hashed_password := ''h:top'',
     is_admin := True, user_role_id := Some 1, failed_login_attempts := 0\<rparr>"

definition sample_ann :: user where
  "sample_ann = sample_account\<lparr>hashed_password := ''h:pw'', two_factor_enabled := True,
     two_factor_secret := Some ''S'', two_factor_backup_codes := Some [''#abcd1234'']\<rparr>"

definition sample_db :: auth_db where
  "sample_db = \<lparr>
     sec = sample_sec\<lparr>users := [sample_admin, sample_ann],
       security_settings := [(''session_timeout_minutes'', ''60'')],
       active_sessions := [(sample_session ''t1'')\<lparr>s_user_id := 1, s_expires_at := 3600000000\<rparr>]\<rparr>,
     next_user_id = 8,
     reset_tokens = [\<lparr>pr_id = 1, pr_user_id = 7, pr_token_hash = ''#rst'', pr_expires_at = 1800000000,
       pr_used_at = None, pr_ip_address = None, pr_created_at = 0\<rparr>],
     next_reset_id = 2, ssh_key_owners = [], audit_logs = [], outbox = []\<rparr>"

definition sample_request :: request where
  "sample_request = \<lparr>headers = [(''user-agent'', ''curl'')], client_host = Some ''10.0.0.9'', path_params = [],
     base_url = ''https://pve/'', state_user = None\<rparr>"

definition sample_login :: login_data where
  "sample_login = \<lparr>login_username = ''ann'', login_password = ''pw'', login_code = Some ''123 456''\<rparr>"

definition admin_claims :: claims where
  "admin_claims = \<lparr>c_sub = Some ''root'', c_session = Some ''t1'', c_impersonator = None, c_exp = 3600, c_iat = 0\<rparr>"

lemma sample_jwt [simp]: "jwt_encode sample_env = plain_encode" "jwt_decode sample_env = plain_decode"
  by (simp_all add: sample_env_def)

lemma sample_ids: "unique_on user_id (users (sec sample_db))"
  by code_simp

lemma sample_session_tokens: "unique_on s_session_token (active_sessions (sec sample_db))"
  by code_simp

lemma sample_may_log_in:
  "may_log_in sample_env 5000000 sample_login (get_client_ip sample_request) (load_user (roles (sec sample_db)) sample_ann)
     (sec sample_db)"
  by code_simp

theorem login_issues_token_iff_witness:
  "\<exists>tok sid. fst (login sample_env 5000000 ''f1'' sample_login sample_request sample_db) = Inr (Token tok sid)"
  using login_issues_token_iff [of sample_db sample_env 5000000 "''f1''" sample_login sample_request] sample_may_log_in
  by (auto simp: sample_db_def sample_sec_def unique_on_def)

lemma sample_timeout: "timeout_is 60 (sec sample_db)"
proof -
  have "py_int ''60'' = Some 60" by code_simp
  then show ?thesis by (simp add: timeout_is_def cache_coherent_def sample_db_def sample_sec_def)
qed

theorem login_then_authenticated_witness:
  "\<exists>tok sid v. fst (login sample_env 5000000 ''f1'' sample_login sample_request sample_db) = Inr (Token tok sid) \<and>
     fst (get_current_user plain_decode 10000000 tok
       (sec (snd (login sample_env 5000000 ''f1'' sample_login sample_request sample_db)))) = Inr v \<and>
     username v = ''ann''"
proof -
  have "unique_on b_ip_address (blocked_ips (sec sample_db))" by code_simp
  then obtain tok sid where tok: "fst (login sample_env 5000000 ''f1'' sample_login sample_request sample_db) = Inr (Token tok sid)"
    using login_token_gates [of sample_db sample_env 5000000 "''f1''" sample_login sample_request] sample_may_log_in
    by blast
  have "''f1'' \<notin> session_tokens (sec sample_db)"
    by (simp add: session_tokens_def sample_db_def sample_sec_def sample_session_def)
  with login_then_authenticated [OF _ sample_ids sample_session_tokens _ _ sample_timeout tok, of 10000000]
  show ?thesis using tok
    by (simp add: plain_jwt_ok second_def minute_def) (simp add: sample_login_def)
qed

theorem backup_codes_work_once_witness:
  "\<exists>hs'. consume_backup_code sample_env ''ABCD-1234''
      (hash_backup_codes sample_env (generate_backup_codes [''abcd1234'', ''00ff00ff''])) = (True, hs') \<and>
    fst (consume_backup_code sample_env ''abcd1234'' hs') = False \<and>
    fst (consume_backup_code sample_env ''00ff 00ff'' hs') = True"
  by (rule backup_codes_work_once [where raws = "[''abcd1234'', ''00ff00ff'']" and raw = "''abcd1234''"
        and raw' = "''00ff00ff''"])
     (simp_all add: sample_env_def inj_on_def, code_simp+)

lemma admin_token_accepted:
  "fst (get_current_user plain_decode 5000000 (plain_encode admin_claims) (sec sample_db)) =
     Inr (load_user (roles (sec sample_db)) sample_admin)"
proof -
  have "bound_session_alive 5000000 (Some ''t1'') (sec sample_db)" by code_simp
  then show ?thesis
    unfolding get_current_user_Inr session_gate_alive [OF sample_session_tokens]
    by (simp add: plain_decode_encode admin_claims_def second_def find_user_by_name_def sample_db_def sample_sec_def
        sample_admin_def sample_account_def is_locked_def load_user_def)
qed

lemma admin_claims_decoded: "plain_decode 5000000 (plain_encode admin_claims) = Inr admin_claims"
  by (simp add: plain_decode_encode admin_claims_def second_def)

theorem impersonation_round_trip_witness:
  "\<exists>tok tok'. fst (impersonate_user sample_env 5000000 ''f1'' 7 (plain_encode admin_claims) sample_request sample_db) =
      Inr (Token tok None) \<and>
    fst (stop_impersonating sample_env 9000000 ''f2'' tok sample_request
      (snd (impersonate_user sample_env 5000000 ''f1'' 7 (plain_encode admin_claims) sample_request sample_db))) =
      Inr (Token tok' None) \<and>
    plain_decode 9000000 tok' = Inr (issued_claims 9000000 60 ''root'' None ''f2'')"
proof -
  let ?admin = "load_user (roles (sec sample_db)) sample_admin"
  have target: "find_user 7 (sec sample_db) = Some (load_user (roles (sec sample_db)) sample_ann)"
    by (simp add: find_user_def sample_db_def sample_sec_def sample_admin_def sample_ann_def sample_account_def)
  let ?ann = "load_user (roles (sec sample_db)) sample_ann"
  have who: "admin_access ?admin" "c_impersonator admin_claims = None" "\<not> admin_access ?ann" "is_active ?ann"
      "user_id ?ann \<noteq> user_id ?admin" by code_simp+
  obtain tok where tok: "fst (impersonate_user sample_env 5000000 ''f1'' 7 (plain_encode admin_claims) sample_request sample_db) =
      Inr (Token tok None)"
    using impersonate_issues [OF _ who(1) _ who(2) target who(3-5), of sample_env 5000000 "plain_encode admin_claims"]
    by (auto simp: admin_token_accepted admin_claims_decoded)
  have "list_all (\<lambda>u. username u \<noteq> []) (users (sec sample_db))" by code_simp
  from impersonation_round_trip [OF _ sample_timeout _ this tok, of 9000000 "''f2''" sample_request] tok
  show ?thesis
    by (auto simp: plain_jwt_ok second_def minute_def admin_token_accepted sample_admin_def)
qed

theorem logged_out_for_good_witness:
  "\<exists>e. status_code e = 401 \<and> fst (with_guard sample_env Inr 20000000 (plain_encode admin_claims)
      (\<lambda>u db. (Inr (user_id u), db))
      (handle sample_env 10000000 (Refresh (plain_encode admin_claims))
        (snd (logout sample_env 5000000 (plain_encode admin_claims) sample_request sample_db)))) = Inl e"
proof -
  have out: "fst (logout sample_env 5000000 (plain_encode admin_claims) sample_request sample_db) = Inr ()"
    by (rule logout_succeeds) (simp_all add: admin_token_accepted admin_claims_decoded)
  let ?db = "snd (logout sample_env 5000000 (plain_encode admin_claims) sample_request sample_db)"
  have step: "(api_step sample_env ''t1'' [])\<^sup>*\<^sup>* ?db (handle sample_env 10000000 (Refresh (plain_encode admin_claims)) ?db)"
    by (intro r_into_rtranclp api_step.request) (simp add: draws_fresh_def)
  have "jwt_decode sample_env 20000000 (plain_encode admin_claims) = Inr admin_claims"
    by (simp add: plain_decode_encode admin_claims_def second_def)
  with logged_out_for_good [OF sample_session_tokens out _ _ _ step, where c = admin_claims and c' = admin_claims and now' = 20000000 and
      token' = "plain_encode admin_claims" and guard = Inr and endpoint = "\<lambda>u db. (Inr (user_id u), db)"]
  show ?thesis by (simp add: admin_claims_decoded) (auto simp: admin_claims_def)
qed

theorem reset_link_used_once_witness:
  "get_user_sessions 7 (sec (snd (reset_password sample_env 5000000 ''s'' ''rst'' ''Abcdef12'' sample_request sample_db))) = [] \<and>
   validate_reset_token sample_env 6000000 ''rst''
     (snd (reset_password sample_env 5000000 ''s'' ''rst'' ''Abcdef12'' sample_request sample_db)) = False"
proof -
  have ok: "fst (reset_password sample_env 5000000 ''s'' ''rst'' ''Abcdef12'' sample_request sample_db) = Inr ()"
    by code_simp
  have "unique_on pr_token_hash (reset_tokens sample_db)" "unique_on pr_id (reset_tokens sample_db)" by code_simp+
  from reset_link_used_once [OF this refl ok rtranclp.rtrancl_refl, of 6000000]
  show ?thesis by (simp add: find_reset_def sample_db_def sample_env_def)
qed

theorem api_runs_keep_accounts_witness:
  "accounts_inv (handle sample_env 5000000 (DeleteUser 7 (plain_encode admin_claims) sample_request) sample_db)"
proof -
  have "accounts_inv sample_db" by code_simp
  moreover have "(api_step sample_env [] [])\<^sup>*\<^sup>* sample_db
      (handle sample_env 5000000 (DeleteUser 7 (plain_encode admin_claims) sample_request) sample_db)"
    by (intro r_into_rtranclp api_step.request) (simp add: draws_fresh_def)
  ultimately show ?thesis by (rule api_runs_keep_accounts [rotated])
qed

end
