(* ===== verification/ApiFindings.thy ===== *)
theory ApiFindings
  imports ApiWitnesses
begin

text \<open>
  Where the endpoints do something other than what their comments, or the endpoints beside them, say.
\<close>

section \<open>Tokens and sessions\<close>

text \<open>\<open>stop_impersonating\<close> reads the token only: a token whose session has ended still gets an
  administrator's session, until it expires.\<close>

lemma stop_impersonating_skips_session:
  assumes "jwt_decode E now token = Inr c" and "c_impersonator c = Some name" and "name \<noteq> []"
    and "find_user_by_name name (sec db) = Some admin" and "is_active admin" and "admin_access admin"
    and "c_session c = Some t" and "session_dead t (sec db)"
  shows "\<exists>tok. fst (stop_impersonating E now fresh token req db) = Inr (Token tok None)"
  using assms(1-6) by (simp add: stop_impersonating_def decode_access_token_def case_prod_beta Let_def)

text \<open>A renewed token has no impersonator, whatever the old one had: the way back is lost.\<close>

lemma refresh_drops_impersonator:
  assumes "fst (refresh_token E now token db) = Inr (Token tok sid)"
  shows "\<exists>c. tok = jwt_encode E c \<and> c_impersonator c = None"
proof -
  have *: "\<exists>c. create_access_token enc mins now sub None ses delta = enc c \<and> c_impersonator c = None"
    for enc :: encoder and mins sub ses delta
    unfolding create_access_token_def Let_def by (intro exI conjI, rule refl) simp
  show ?thesis using assms *
    by (cases "get_current_session_token (jwt_decode E) now token")
       (auto simp: refresh_token_def with_guard_Inr session_access_token_def case_prod_beta Let_def)
qed

text \<open>A wrong second factor is not counted towards the lock of the account.\<close>

lemma wrong_factor_not_counted:
  assumes "\<not> is_locked now u" and "verify_password E (login_password d) (hashed_password u)" and "is_active u"
    and "two_factor_enabled u" and "\<not> factor_ok E now (login_code d) u"
  shows "users (sec (snd (login_user E now fresh ip ua d u db))) = users (sec db)"
proof (cases "truthy_str (login_code d)")
  case True
  have "snd (second_factor E now (the (login_code d)) u db) = db"
    using True assms(4,5)
    by (auto simp: second_factor_def factor_ok_def consume_backup_code_def truthy_str_def case_prod_beta Let_def
        split: option.splits)
  then show ?thesis using True assms second_factor_ok [OF assms(4) True, of E now db]
    by (simp add: login_user_def refuse_login_def case_prod_beta Let_def)
qed (use assms in \<open>simp add: login_user_def case_prod_beta Let_def\<close>)

text \<open>The settings cache has one time stamp: reading a setting that is not cached renews all the others. A
  value another process has changed is served beyond the time to live.\<close>

lemma cache_outlives_ttl:
  assumes "map_of (settings_cache st) k = Some old" and "cache_time st = Some 0"
    and "map_of (settings_cache st) j = None" and "j \<noteq> k"
    and "st' = snd (get_setting (cache_ttl * second) j d st)"
  shows "fst (get_setting (2 * cache_ttl * second - second) k d' st') = old"
  using assms
  by (simp add: get_setting_def Let_def timedelta_seconds_def cache_ttl_def second_def update_conv')

section \<open>Password reset\<close>

text \<open>The link of the mail starts with whatever the request says its origin is.\<close>

lemma reset_link_follows_origin:
  assumes "find (\<lambda>u. ilike (email u) (strip address)) (users (sec db)) = Some u" and "is_active u"
    and "find (\<lambda>t. pr_user_id t = user_id u \<and> now - 60 * second \<le> pr_created_at t) (reset_tokens db) = None"
    and "map_of (headers req) ''origin'' = Some origin" and "origin \<noteq> []"
  shows "\<exists>m. outbox (snd (forgot_password E now raw address req db)) = outbox db @ [m] \<and>
    mail_to m = email u \<and> mail_link m = origin @ ''/reset-password?token='' @ raw"
  using assms by (simp add: forgot_password_def Let_def)

text \<open>The address is a pattern: an underscore in it matches any character of another account's address.\<close>

lemma reset_address_is_pattern: "ilike ''annxb@x'' ''ann_b@x''"
  by code_simp

section \<open>Account administration\<close>

text \<open>Any holder of \<open>user:create\<close> can create an administrator; \<open>update_user\<close> keeps that flag to
  administrators.\<close>

lemma create_user_makes_admin:
  assumes "fst (api_create_user E now salt d token req db) = Inr u"
  shows "is_admin u = uc_is_admin d"
  using assms
  by (auto simp: api_create_user_def with_guard_Inr new_user_def load_user_def case_prod_beta Let_def split: if_splits)

text \<open>Any holder of \<open>user:update\<close> can set an administrator's password; \<open>update_user\<close> refuses to edit
  administrators for others.\<close>

lemma reset_of_admin_password:
  assumes "fst (get_current_user (jwt_decode E) now token (sec db)) = Inr cur" and "has_perm cur ''user:update''"
    and "find_user uid (sec db) = Some u"
    and "fst (fst (validate_password now pw
          (snd (guarded (jwt_decode E) (PermissionChecker ''user:update'') now token (sec db)))))"
  shows "fst (reset_user_password E now salt uid pw token req db) = Inr ()"
proof -
  have "fst (guarded (jwt_decode E) (PermissionChecker ''user:update'') now token (sec db)) = Inr cur"
    using assms(1,2) by (simp add: guarded_Inr)
  moreover have "find_user uid (snd (guarded (jwt_decode E) (PermissionChecker ''user:update'') now token (sec db))) = Some u"
    using assms(3) by (simp add: find_user_def)
  ultimately show ?thesis using assms(4)
    by (simp add: reset_user_password_def with_account_def with_guard_def case_prod_beta Let_def)
qed

text \<open>A request to \<open>update_user\<close> that is refused for its admin flag has already stored the rest of it when it
  also deactivates the account.\<close>

lemma refused_update_is_stored:
  assumes "\<not> is_admin cur" and "uu_is_active d = Some False" and "uu_is_admin d = Some b" and "uid \<noteq> user_id cur"
    and "user_id u = uid" and "named u (users (sec db))"
  shows "fst (update_user_active cur uid d req u db) = Inl (HTTPException 403 (Msg ''Only admin can change admin status'')) \<and>
    find (\<lambda>x. username x = username u) (users (sec (snd (update_user_active cur uid d req u db)))) =
      Some (u\<lparr>is_active := False\<rparr>)"
proof -
  have "named (u\<lparr>is_active := False\<rparr>) (users (sec db))" using assms(6) by (simp add: named_def)
  then show ?thesis using assms named_store [of "u\<lparr>is_active := False\<rparr>" "users (sec db)"]
    by (simp add: update_user_active_def update_user_admin_flag_def Let_def)
qed

text \<open>An account with an ssh key cannot be deleted.\<close>

lemma ssh_key_blocks_deletion:
  "uid \<in> set (ssh_key_owners db) \<Longrightarrow>
   delete_user_row uid db = (Inl (HTTPException 500 (Msg ''Internal Server Error'')), db)"
  by (simp add: delete_user_row_def)

text \<open>An explicit null stores the text \<open>None\<close>: a flag that is on by default is then off.\<close>

lemma null_switches_flag_off:
  assumes "map_of (settings_cache st) k = None"
  shows "fst (get_setting_bool now k True (update_settings [(k, SNull)] st)) = False"
proof -
  have off: "lower ''None'' \<notin> {''true'', ''1'', ''yes'', ''on''}" by code_simp
  have "fst (get_setting now k d (update_setting k ''None'' st)) = Some ''None''" for d
    using assms
    by (auto simp: get_setting_def update_setting_def Let_def update_conv' delete_conv' split: option.split)
  with off show ?thesis by (simp add: get_setting_bool_eq setting_text_def)
qed

end
