(* ===== verification/Proxmox.thy ===== *)
theory Proxmox
  imports Pve_Prelude "HOL-Library.State_Monad"
begin

text \<open>
  The client of the Proxmox VE API: \<open>app/proxmox/client.py\<close>, the part every other method rests on
  (connections and their process-wide cache, errors, tasks), and the loops that poll.

  The library \<open>proxmoxer\<close> and the servers behind it are the parameter \<open>proxmox_api\<close>: what connecting
  and a request answer, and what they do to the rest of the world, of the abstract type \<open>'w\<close>. The
  clock and \<open>time.sleep\<close> belong to the same parameter, because waiting is what the loops do. A
  computation is a \<open>state\<close> of HOL-Library over \<open>px_state\<close>: the dictionary \<open>connection_cache\<close> and
  that world. A raised exception is \<^term>\<open>Inl\<close>; only its text, its \<open>status_code\<close> and whether it is
  an \<open>AuthenticationError\<close> are ever looked at. Times and timeouts are in microseconds.
\<close>

section \<open>Values and errors\<close>

datatype json =
    JNull
  | JBool bool
  | JInt int
  | JStr string
  | JList "json list"
  | JObj "(string \<times> json) list"

datatype py_exception =
  PyException (exn_text: string) (exn_status: "int option") (exn_auth: bool)

fun truthy_json :: "json \<Rightarrow> bool" where
  "truthy_json JNull = False"
| "truthy_json (JBool b) = b"
| "truthy_json (JInt n) = (n \<noteq> 0)"
| "truthy_json (JStr s) = (s \<noteq> [])"
| "truthy_json (JList l) = (l \<noteq> [])"
| "truthy_json (JObj d) = (d \<noteq> [])"

definition dget :: "(string, json) pydict \<Rightarrow> string \<Rightarrow> json" where
  "dget d k = (case map_of d k of None \<Rightarrow> JNull | Some v \<Rightarrow> v)"

text \<open>\<open>x.get(k)\<close>: a value that is not a dictionary raises \<open>AttributeError\<close>.\<close>

fun json_type :: "json \<Rightarrow> string" where
  "json_type JNull = ''NoneType''"
| "json_type (JBool b) = ''bool''"
| "json_type (JInt n) = ''int''"
| "json_type (JStr s) = ''str''"
| "json_type (JList l) = ''list''"
| "json_type (JObj d) = ''dict''"

fun json_get :: "json \<Rightarrow> string \<Rightarrow> py_exception + json" where
  "json_get (JObj d) k = Inr (dget d k)"
| "json_get j k = Inl (PyException (CHR 0x27 # json_type j @ CHR 0x27 # '' object has no attribute '' @
     [CHR 0x27] @ ''get'' @ [CHR 0x27]) None False)"

fun json_str :: "json \<Rightarrow> string option" where
  "json_str (JStr s) = Some s"
| "json_str j = None"

section \<open>The parameter: the API, the clock and the world\<close>

datatype credential = PasswordAuth string | TokenAuth string string

record api_args =
  aa_host :: string
  aa_user :: string
  aa_credential :: credential
  aa_verify_ssl :: bool
  aa_timeout :: int

datatype http_method = GET | POST | PUT | DELETE

datatype path_segment = Name string | Id int

datatype api_request =
  Request (rq_method: http_method) (rq_path: "path_segment list") (rq_params: "(string \<times> json) list")

record 'w proxmox_api =
  api_connect :: "api_args \<Rightarrow> 'w \<Rightarrow> py_exception option \<times> 'w"
  api_call :: "api_args \<Rightarrow> api_request \<Rightarrow> 'w \<Rightarrow> (py_exception + json) \<times> 'w"
  api_now :: "'w \<Rightarrow> int"
  api_sleep :: "int \<Rightarrow> 'w \<Rightarrow> 'w"

record cached_connection =
  cc_client :: api_args
  cc_created :: int

record 'w px_state =
  connection_cache :: "(string, cached_connection) pydict"
  px_world :: 'w

abbreviation "return \<equiv> State_Monad.return"

definition clock :: "'w proxmox_api \<Rightarrow> ('w px_state, int) state" where
  "clock E = State (\<lambda>s. (api_now E (px_world s), s))"

definition sleep :: "'w proxmox_api \<Rightarrow> int \<Rightarrow> ('w px_state, unit) state" where
  "sleep E t = State (\<lambda>s. ((), s\<lparr>px_world := api_sleep E t (px_world s)\<rparr>))"

definition open_api :: "'w proxmox_api \<Rightarrow> api_args \<Rightarrow> ('w px_state, py_exception option) state" where
  "open_api E a = State (\<lambda>s. case api_connect E a (px_world s) of (r, w) \<Rightarrow> (r, s\<lparr>px_world := w\<rparr>))"

definition send :: "'w proxmox_api \<Rightarrow> api_args \<Rightarrow> api_request \<Rightarrow> ('w px_state, py_exception + json) state"
  where
  "send E a rq = State (\<lambda>s. case api_call E a rq (px_world s) of (r, w) \<Rightarrow> (r, s\<lparr>px_world := w\<rparr>))"

definition seconds :: "int \<Rightarrow> int" where
  "seconds n = n * 1000000"

lemma run_primitives [simp]:
  "run_state (clock E) s = (api_now E (px_world s), s)"
  "run_state (sleep E t) s = ((), s\<lparr>px_world := api_sleep E t (px_world s)\<rparr>)"
  "run_state (open_api E a) s = (fst (api_connect E a (px_world s)),
     s\<lparr>px_world := snd (api_connect E a (px_world s))\<rparr>)"
  "run_state (send E a rq) s = (fst (api_call E a rq (px_world s)),
     s\<lparr>px_world := snd (api_call E a rq (px_world s))\<rparr>)"
  by (simp_all add: clock_def sleep_def open_api_def send_def case_prod_beta)

section \<open>Client objects and the connection cache\<close>

record client_args =
  ca_host :: string
  ca_user :: string
  ca_password :: "string option"
  ca_token_name :: "string option"
  ca_token_value :: "string option"
  ca_verify_ssl :: bool
  ca_timeout :: int

record proxmox_client =
  pc_host :: string
  pc_user :: string
  pc_timeout :: int
  pc_password :: "string option"
  connection_key :: string
  proxmox :: "api_args option"
  connect_error_kind :: "string option"
  connect_error :: "string option"

definition CACHE_TTL :: int where
  "CACHE_TTL = seconds 3600"

definition MAX_CACHE_SIZE :: nat where
  "MAX_CACHE_SIZE = 50"

definition cache_key :: "client_args \<Rightarrow> string" where
  "cache_key a = ca_host a @ '':'' @ ca_user a @ '':'' @
     (if truthy_str (ca_token_name a) then the (ca_token_name a) else ''password'')"

text \<open>The branch of the constructor on the credentials; \<^term>\<open>None\<close> where it logs that both are missing.\<close>

definition credential_of :: "client_args \<Rightarrow> credential option" where
  "credential_of a =
     (if truthy_str (ca_token_name a) \<and> truthy_str (ca_token_value a)
      then Some (TokenAuth (the (ca_token_name a)) (the (ca_token_value a)))
      else if truthy_str (ca_password a) then Some (PasswordAuth (the (ca_password a)))
      else None)"

definition api_args_of :: "client_args \<Rightarrow> credential \<Rightarrow> api_args" where
  "api_args_of a cr = \<lparr>aa_host = ca_host a, aa_user = ca_user a, aa_credential = cr,
     aa_verify_ssl = ca_verify_ssl a, aa_timeout = ca_timeout a\<rparr>"

definition fresh_client :: "client_args \<Rightarrow> proxmox_client" where
  "fresh_client a = \<lparr>pc_host = ca_host a, pc_user = ca_user a, pc_timeout = ca_timeout a,
     pc_password = ca_password a, connection_key = cache_key a, proxmox = None,
     connect_error_kind = None, connect_error = None\<rparr>"

definition cache_forget :: "string \<Rightarrow> 'w px_state \<Rightarrow> 'w px_state" where
  "cache_forget k s = s\<lparr>connection_cache := AList.delete k (connection_cache s)\<rparr>"

text \<open>
  \<open>min(connection_cache.keys(), key=...)\<close>: the first of the entries with the smallest \<open>created\<close>.
\<close>

fun oldest :: "(string, cached_connection) pydict \<Rightarrow> string option" where
  "oldest [] = None"
| "oldest ((k, e) # d) = (case oldest d of
       None \<Rightarrow> Some k
     | Some k' \<Rightarrow> if cc_created (the (map_of d k')) < cc_created e then Some k' else Some k)"

definition cache_store :: "string \<Rightarrow> cached_connection \<Rightarrow> 'w px_state \<Rightarrow> 'w px_state" where
  "cache_store k e s =
     (let d = connection_cache s;
          d' = (if length d \<ge> MAX_CACHE_SIZE
                then (case oldest d of None \<Rightarrow> d | Some k' \<Rightarrow> AList.delete k' d) else d)
      in s\<lparr>connection_cache := AList.update k e d'\<rparr>)"

definition update_state :: "('s \<Rightarrow> 's) \<Rightarrow> ('s, unit) state" where
  "update_state f = State (\<lambda>s. ((), f s))"

definition reads :: "('s \<Rightarrow> 'a) \<Rightarrow> ('s, 'a) state" where
  "reads f = State (\<lambda>s. (f s, s))"

lemma run_update [simp]:
  "run_state (update_state f) s = ((), f s)"
  "run_state (reads g) s = (g s, s)"
  by (simp_all add: update_state_def reads_def)

text \<open>
  The lookup at the start of the constructor. A connection in use gets a new time stamp, so the hour
  is one without use.
\<close>

definition cached :: "'w proxmox_api \<Rightarrow> string \<Rightarrow> ('w px_state, api_args option) state" where
  "cached E k = do {
     entry \<leftarrow> reads (\<lambda>s. map_of (connection_cache s) k);
     case entry of
       None \<Rightarrow> return None
     | Some e \<Rightarrow> do {
         t \<leftarrow> clock E;
         if t - cc_created e < CACHE_TTL then do {
           t' \<leftarrow> clock E;
           update_state (\<lambda>s. s\<lparr>connection_cache :=
             AList.update k (e\<lparr>cc_created := t'\<rparr>) (connection_cache s)\<rparr>);
           return (Some (cc_client e))
         } else do {
           update_state (cache_forget k);
           return None
         }
       }
   }"

definition version_request :: api_request where
  "version_request = Request GET [Name ''version''] []"

definition kind_by_status :: "py_exception \<Rightarrow> string" where
  "kind_by_status e = (if exn_status e = Some 401 then ''auth'' else ''connection'')"

definition failed_client :: "client_args \<Rightarrow> string \<Rightarrow> py_exception \<Rightarrow> proxmox_client" where
  "failed_client a kind e = (fresh_client a)\<lparr>connect_error_kind := Some kind,
     connect_error := Some (exn_text e)\<rparr>"

definition proxmox_client_init :: "'w proxmox_api \<Rightarrow> client_args \<Rightarrow> ('w px_state, proxmox_client) state"
  where
  "proxmox_client_init E a = do {
     hit \<leftarrow> cached E (cache_key a);
     case hit of
       Some h \<Rightarrow> return ((fresh_client a)\<lparr>proxmox := Some h\<rparr>)
     | None \<Rightarrow> (case credential_of a of
         None \<Rightarrow> return (fresh_client a)
       | Some cr \<Rightarrow> do {
           err \<leftarrow> open_api E (api_args_of a cr);
           case err of
             Some e \<Rightarrow> do {
               update_state (cache_forget (cache_key a));
               return (failed_client a (if exn_auth e then ''auth'' else kind_by_status e) e)
             }
           | None \<Rightarrow> do {
               r \<leftarrow> send E (api_args_of a cr) version_request;
               case r of
                 Inl e \<Rightarrow> do {
                   update_state (cache_forget (cache_key a));
                   return (failed_client a (kind_by_status e) e)
                 }
               | Inr _ \<Rightarrow> do {
                   t \<leftarrow> clock E;
                   update_state (cache_store (cache_key a)
                     \<lparr>cc_client = api_args_of a cr, cc_created = t\<rparr>);
                   return ((fresh_client a)\<lparr>proxmox := Some (api_args_of a cr)\<rparr>)
                 }
             }
         })
   }"

record server =
  sv_id :: int
  sv_name :: string
  sv_hostname :: string
  sv_ip_address :: string
  sv_port :: int
  sv_api_user :: string
  sv_api_token_name :: "string option"
  sv_api_token_value :: "string option"
  sv_use_password :: bool
  sv_password :: "string option"
  sv_verify_ssl :: bool

definition server_host :: "server \<Rightarrow> string" where
  "server_host sv =
     (let host = (if sv_ip_address sv \<noteq> [] then sv_ip_address sv else sv_hostname sv)
      in if sv_port sv \<noteq> 0 \<and> sv_port sv \<noteq> 8006 then host @ '':'' @ dec_int (sv_port sv) else host)"

definition server_client_args :: "server \<Rightarrow> client_args" where
  "server_client_args sv =
     (if sv_use_password sv \<and> truthy_str (sv_password sv)
      then \<lparr>ca_host = server_host sv, ca_user = sv_api_user sv, ca_password = sv_password sv,
            ca_token_name = None, ca_token_value = None, ca_verify_ssl = sv_verify_ssl sv,
            ca_timeout = 30\<rparr>
      else \<lparr>ca_host = server_host sv, ca_user = sv_api_user sv, ca_password = None,
            ca_token_name = sv_api_token_name sv, ca_token_value = sv_api_token_value sv,
            ca_verify_ssl = sv_verify_ssl sv, ca_timeout = 30\<rparr>)"

definition from_server :: "'w proxmox_api \<Rightarrow> server \<Rightarrow> ('w px_state, proxmox_client) state" where
  "from_server E sv = proxmox_client_init E (server_client_args sv)"

text \<open>A request of a client object whose \<open>self.proxmox\<close> is set; callers test for it first.\<close>

definition client_request :: "'w proxmox_api \<Rightarrow> proxmox_client \<Rightarrow> api_request \<Rightarrow>
    ('w px_state, py_exception + json) state" where
  "client_request E c rq = (case proxmox c of
       None \<Rightarrow> return (Inl (PyException
         (CHR 0x27 # ''NoneType'' @ CHR 0x27 # '' object is not callable'') None False))
     | Some h \<Rightarrow> send E h rq)"

definition is_connected :: "'w proxmox_api \<Rightarrow> proxmox_client \<Rightarrow> ('w px_state, bool) state" where
  "is_connected E c = (case proxmox c of
       None \<Rightarrow> return False
     | Some h \<Rightarrow> do {
         r \<leftarrow> send E h version_request;
         return (case r of Inl _ \<Rightarrow> False | Inr _ \<Rightarrow> True)
       })"

definition check_connection :: "'w proxmox_api \<Rightarrow> proxmox_client \<Rightarrow>
    ('w px_state, bool \<times> string option \<times> string option) state" where
  "check_connection E c = (case proxmox c of
       None \<Rightarrow> return (False,
         Some (if truthy_str (connect_error_kind c) then the (connect_error_kind c) else ''connection''),
         Some (if truthy_str (connect_error c) then the (connect_error c) else ''Failed to connect''))
     | Some h \<Rightarrow> do {
         r \<leftarrow> send E h version_request;
         return (case r of
             Inr _ \<Rightarrow> (True, None, None)
           | Inl e \<Rightarrow> (False, Some (if exn_auth e then ''auth'' else kind_by_status e),
                       Some (exn_text e)))
       })"

definition clear_all_cache :: "('w px_state, unit) state" where
  "clear_all_cache = update_state (\<lambda>s. s\<lparr>connection_cache := []\<rparr>)"

definition clear_server_cache :: "string \<Rightarrow> ('w px_state, unit) state" where
  "clear_server_cache host = update_state (\<lambda>s. s\<lparr>connection_cache :=
     filter (\<lambda>(k, e). \<not> prefix (host @ '':'') k) (connection_cache s)\<rparr>)"

definition cleanup_expired_connections :: "'w proxmox_api \<Rightarrow> ('w px_state, unit) state" where
  "cleanup_expired_connections E = do {
     t \<leftarrow> clock E;
     update_state (\<lambda>s. s\<lparr>connection_cache :=
       filter (\<lambda>(k, e). t - cc_created e \<le> CACHE_TTL) (connection_cache s)\<rparr>)
   }"

section \<open>Polling loops\<close>

text \<open>
  \<open>while cond: body; sleep\<close>, where the body may leave the loop with a value. \<^term>\<open>None\<close> outside
  stands for a loop that never ends: nothing but the clock ends these loops, and the clock is a
  parameter.
\<close>

partial_function (option) poll ::
    "('s, bool) state \<Rightarrow> ('s, 'a option) state \<Rightarrow> 's \<Rightarrow> ('a option \<times> 's) option" where
  "poll cond body s = (case run_state cond s of (go, s1) \<Rightarrow>
     if \<not> go then Some (None, s1)
     else (case run_state body s1 of (r, s2) \<Rightarrow>
       (case r of Some x \<Rightarrow> Some (Some x, s2) | None \<Rightarrow> poll cond body s2)))"

text \<open>\<open>get_task_status(..., raise_on_error=True)\<close> passes an exception on; otherwise it becomes \<open>{}\<close>.\<close>

definition task_status_request :: "string \<Rightarrow> string \<Rightarrow> api_request" where
  "task_status_request node upid =
     Request GET [Name ''nodes'', Name node, Name ''tasks'', Name upid, Name ''status''] []"

definition get_task_status :: "'w proxmox_api \<Rightarrow> proxmox_client \<Rightarrow> string \<Rightarrow> string \<Rightarrow> bool \<Rightarrow>
    ('w px_state, py_exception + json) state" where
  "get_task_status E c node upid raise_on_error = (case proxmox c of
       None \<Rightarrow> return (if raise_on_error
         then Inl (PyException (''Proxmox client for '' @ pc_host c @ '' is not connected'') None False)
         else Inr (JObj []))
     | Some h \<Rightarrow> do {
         r \<leftarrow> send E h (task_status_request node upid);
         return (case r of
             Inl e \<Rightarrow> if raise_on_error then Inl e else Inr (JObj [])
           | Inr j \<Rightarrow> Inr j)
       })"

text \<open>
  What \<open>wait_for_task\<close> makes of one status: \<^term>\<open>None\<close> keeps waiting; an answer that is not a
  dictionary raises. An exit status of \<open>WARNINGS: n\<close> is a success.
\<close>

definition task_verdict :: "json \<Rightarrow> (py_exception + bool) option" where
  "task_verdict st =
     (if \<not> truthy_json st then None
      else (case json_get st ''status'' of
        Inl e \<Rightarrow> Some (Inl e)
      | Inr j \<Rightarrow> if j = JStr ''stopped''
          then (case json_get st ''exitstatus'' of
              Inl e \<Rightarrow> Some (Inl e)
            | Inr x \<Rightarrow> Some (Inr (x = JStr ''OK'' \<or>
                (case x of JStr t \<Rightarrow> prefix ''WARNINGS:'' t | _ \<Rightarrow> False))))
          else None))"

definition task_round :: "'w proxmox_api \<Rightarrow> proxmox_client \<Rightarrow> string \<Rightarrow> string \<Rightarrow>
    ('w px_state, (py_exception + bool) option) state" where
  "task_round E c node upid = do {
     st \<leftarrow> get_task_status E c node upid False;
     case (case st of Inl e \<Rightarrow> Some (Inl e) | Inr j \<Rightarrow> task_verdict j) of
       Some v \<Rightarrow> return (Some v)
     | None \<Rightarrow> do { sleep E (seconds 2); return None }
   }"

definition before_deadline :: "'w proxmox_api \<Rightarrow> int \<Rightarrow> int \<Rightarrow> ('w px_state, bool) state" where
  "before_deadline E start timeout = do { t \<leftarrow> clock E; return (t - start < timeout) }"

definition wait_for_task :: "'w proxmox_api \<Rightarrow> proxmox_client \<Rightarrow> string \<Rightarrow> string \<Rightarrow> int \<Rightarrow> 'w px_state \<Rightarrow>
    ((py_exception + bool) \<times> 'w px_state) option" where
  "wait_for_task E c node upid timeout s =
     (case poll (before_deadline E (api_now E (px_world s)) timeout) (task_round E c node upid) s of
        None \<Rightarrow> None
      | Some (None, s') \<Rightarrow> Some (Inr False, s')
      | Some (Some v, s') \<Rightarrow> Some (v, s'))"

definition get_next_vmid :: "'w proxmox_api \<Rightarrow> proxmox_client \<Rightarrow> ('w px_state, int option) state" where
  "get_next_vmid E c = (case proxmox c of
       None \<Rightarrow> return None
     | Some h \<Rightarrow> do {
         r \<leftarrow> send E h (Request GET [Name ''cluster'', Name ''nextid''] []);
         return (case r of
             Inr (JInt n) \<Rightarrow> Some n
           | Inr (JStr t) \<Rightarrow> py_int t
           | Inr (JBool b) \<Rightarrow> Some (if b then 1 else 0)
           | _ \<Rightarrow> None)
       })"

end
