(* ===== verification/Guests.thy ===== *)
theory Guests
  imports Proxmox
begin

text \<open>
  The operations of the client on one guest: power, snapshots, deletion, migration, clones and boot
  order, from \<open>app/proxmox/client.py\<close> and the mixins \<open>vm\<close>, \<open>lxc\<close> and \<open>snapshot\<close> under
  \<open>app/proxmox/mixins\<close>. A method that answers a UPID or \<open>None\<close> is a \<open>state\<close> with an option; one that
  answers \<open>{'success': ..., 'error': ...}\<close> gives an \<open>outcome\<close>; one that lets an exception through
  gives a sum.
\<close>

section \<open>Shapes of answers\<close>

datatype guest_kind = Qemu | Lxc

fun kind_name :: "guest_kind \<Rightarrow> string" where
  "kind_name Qemu = ''qemu''"
| "kind_name Lxc = ''lxc''"

definition guest_path :: "guest_kind \<Rightarrow> string \<Rightarrow> int \<Rightarrow> string list \<Rightarrow> path_segment list" where
  "guest_path g node vmid rest =
     [Name ''nodes'', Name node, Name (kind_name g), Id vmid] @ map Name rest"

datatype outcome = Success "json option" | Failure string "json option"

definition succeeded :: "outcome \<Rightarrow> bool" where
  "succeeded r = (case r of Success _ \<Rightarrow> True | Failure _ _ \<Rightarrow> False)"

text \<open>
  \<open>if not self.proxmox: return None; try: upid = ...post(); return upid if isinstance(upid, str) else
  None; except: return None\<close>, the body of most power operations.
\<close>

definition upid_of :: "py_exception + json \<Rightarrow> string option" where
  "upid_of r = (case r of Inl _ \<Rightarrow> None | Inr j \<Rightarrow> json_str j)"

definition upid_call :: "'w proxmox_api \<Rightarrow> proxmox_client \<Rightarrow> api_request \<Rightarrow>
    ('w px_state, string option) state" where
  "upid_call E c rq = (case proxmox c of
       None \<Rightarrow> return None
     | Some h \<Rightarrow> do { r \<leftarrow> send E h rq; return (upid_of r) })"

text \<open>The same with \<open>True\<close> or \<open>False\<close> for an answer.\<close>

definition bool_call :: "'w proxmox_api \<Rightarrow> proxmox_client \<Rightarrow> api_request \<Rightarrow> ('w px_state, bool) state"
  where
  "bool_call E c rq = (case proxmox c of
       None \<Rightarrow> return False
     | Some h \<Rightarrow> do { r \<leftarrow> send E h rq; return (case r of Inl _ \<Rightarrow> False | Inr _ \<Rightarrow> True) })"

text \<open>
  The same with a dictionary: \<open>not_connected\<close> is the text for a client that has no connection, and
  \<open>with_upid\<close> tells whether the answer of the API is passed on.
\<close>

definition outcome_call :: "'w proxmox_api \<Rightarrow> proxmox_client \<Rightarrow> string \<Rightarrow> bool \<Rightarrow> api_request \<Rightarrow>
    ('w px_state, outcome) state" where
  "outcome_call E c not_connected with_upid rq = (case proxmox c of
       None \<Rightarrow> return (Failure not_connected None)
     | Some h \<Rightarrow> do {
         r \<leftarrow> send E h rq;
         return (case r of
             Inl e \<Rightarrow> Failure (exn_text e) None
           | Inr j \<Rightarrow> Success (if with_upid then Some j else None))
       })"

section \<open>Power\<close>

definition status_post :: "guest_kind \<Rightarrow> string \<Rightarrow> int \<Rightarrow> string \<Rightarrow> (string \<times> json) list \<Rightarrow> api_request" where
  "status_post g node vmid command ps = Request POST (guest_path g node vmid [''status'', command]) ps"

definition start_vm :: "'w proxmox_api \<Rightarrow> proxmox_client \<Rightarrow> string \<Rightarrow> int \<Rightarrow>
    ('w px_state, string option) state" where
  "start_vm E c node vmid = upid_call E c (status_post Qemu node vmid ''start'' [])"

definition stop_vm :: "'w proxmox_api \<Rightarrow> proxmox_client \<Rightarrow> string \<Rightarrow> int \<Rightarrow>
    ('w px_state, string option) state" where
  "stop_vm E c node vmid = upid_call E c (status_post Qemu node vmid ''stop'' [])"

definition restart_vm :: "'w proxmox_api \<Rightarrow> proxmox_client \<Rightarrow> string \<Rightarrow> int \<Rightarrow>
    ('w px_state, string option) state" where
  "restart_vm E c node vmid = upid_call E c (status_post Qemu node vmid ''reboot'' [])"

definition reset_vm :: "'w proxmox_api \<Rightarrow> proxmox_client \<Rightarrow> string \<Rightarrow> int \<Rightarrow>
    ('w px_state, string option) state" where
  "reset_vm E c node vmid = upid_call E c (status_post Qemu node vmid ''reset'' [])"

definition shutdown_vm :: "'w proxmox_api \<Rightarrow> proxmox_client \<Rightarrow> string \<Rightarrow> int \<Rightarrow> int \<Rightarrow>
    ('w px_state, string option) state" where
  "shutdown_vm E c node vmid timeout =
     upid_call E c (status_post Qemu node vmid ''shutdown'' [(''timeout'', JInt timeout)])"

definition start_container :: "'w proxmox_api \<Rightarrow> proxmox_client \<Rightarrow> string \<Rightarrow> int \<Rightarrow>
    ('w px_state, string option) state" where
  "start_container E c node vmid = upid_call E c (status_post Lxc node vmid ''start'' [])"

definition stop_container :: "'w proxmox_api \<Rightarrow> proxmox_client \<Rightarrow> string \<Rightarrow> int \<Rightarrow>
    ('w px_state, string option) state" where
  "stop_container E c node vmid = upid_call E c (status_post Lxc node vmid ''stop'' [])"

definition restart_container :: "'w proxmox_api \<Rightarrow> proxmox_client \<Rightarrow> string \<Rightarrow> int \<Rightarrow>
    ('w px_state, string option) state" where
  "restart_container E c node vmid = upid_call E c (status_post Lxc node vmid ''reboot'' [])"

definition shutdown_container :: "'w proxmox_api \<Rightarrow> proxmox_client \<Rightarrow> string \<Rightarrow> int \<Rightarrow> int \<Rightarrow>
    ('w px_state, string option) state" where
  "shutdown_container E c node vmid timeout =
     upid_call E c (status_post Lxc node vmid ''shutdown'' [(''timeout'', JInt timeout)])"

definition status_request :: "guest_kind \<Rightarrow> string \<Rightarrow> int \<Rightarrow> api_request" where
  "status_request g node vmid = Request GET (guest_path g node vmid [''status'', ''current'']) []"

definition guest_status :: "guest_kind \<Rightarrow> 'w proxmox_api \<Rightarrow> proxmox_client \<Rightarrow> string \<Rightarrow> int \<Rightarrow>
    ('w px_state, json) state" where
  "guest_status g E c node vmid = (case proxmox c of
       None \<Rightarrow> return JNull
     | Some h \<Rightarrow> do {
         r \<leftarrow> send E h (status_request g node vmid);
         return (case r of Inl _ \<Rightarrow> JNull | Inr j \<Rightarrow> j)
       })"

definition get_vm_status :: "'w proxmox_api \<Rightarrow> proxmox_client \<Rightarrow> string \<Rightarrow> int \<Rightarrow> ('w px_state, json) state"
  where "get_vm_status E c node vmid = guest_status Qemu E c node vmid"

definition get_container_status :: "'w proxmox_api \<Rightarrow> proxmox_client \<Rightarrow> string \<Rightarrow> int \<Rightarrow>
    ('w px_state, json) state"
  where "get_container_status E c node vmid = guest_status Lxc E c node vmid"

text \<open>
  \<open>force_stop_vm\<close> and \<open>force_stop_container\<close>: a guest that does not run is left alone, and a stop that
  the API refuses answers \<open>False\<close>.
\<close>

definition force_stop :: "guest_kind \<Rightarrow> 'w proxmox_api \<Rightarrow> proxmox_client \<Rightarrow> string \<Rightarrow> int \<Rightarrow>
    ('w px_state, bool) state" where
  "force_stop g E c node vmid = (case proxmox c of
       None \<Rightarrow> return False
     | Some h \<Rightarrow> if pc_host c = [] then return False else do {
         r \<leftarrow> send E h (status_request g node vmid);
         case r of
           Inl _ \<Rightarrow> return False
         | Inr info \<Rightarrow> (case json_get info ''status'' of
             Inl _ \<Rightarrow> return False
           | Inr st \<Rightarrow> if st \<noteq> JStr ''running'' then return True
               else bool_call E c (status_post g node vmid ''stop'' []))
       })"

definition force_stop_vm :: "'w proxmox_api \<Rightarrow> proxmox_client \<Rightarrow> string \<Rightarrow> int \<Rightarrow> ('w px_state, bool) state"
  where "force_stop_vm E c node vmid = force_stop Qemu E c node vmid"

definition force_stop_container :: "'w proxmox_api \<Rightarrow> proxmox_client \<Rightarrow> string \<Rightarrow> int \<Rightarrow>
    ('w px_state, bool) state"
  where "force_stop_container E c node vmid = force_stop Lxc E c node vmid"

text \<open>
  \<open>_wait_vm_stopped\<close>: one round asks for the status, \<open>self.get_vm_status(...) or {}\<close>, and sleeps a
  second unless the guest has stopped. A status that is no dictionary raises in \<open>.get\<close>.
\<close>

definition stopped_round :: "'w proxmox_api \<Rightarrow> proxmox_client \<Rightarrow> string \<Rightarrow> int \<Rightarrow>
    ('w px_state, (py_exception + bool) option) state" where
  "stopped_round E c node vmid = do {
     st \<leftarrow> get_vm_status E c node vmid;
     case json_get (if truthy_json st then st else JObj []) ''status'' of
       Inl e \<Rightarrow> return (Some (Inl e))
     | Inr v \<Rightarrow> if v = JStr ''stopped'' then return (Some (Inr True))
         else do { sleep E (seconds 1); return None }
   }"

definition wait_vm_stopped :: "'w proxmox_api \<Rightarrow> proxmox_client \<Rightarrow> string \<Rightarrow> int \<Rightarrow> int \<Rightarrow> 'w px_state \<Rightarrow>
    ((py_exception + bool) \<times> 'w px_state) option" where
  "wait_vm_stopped E c node vmid timeout s =
     (case poll (before_deadline E (api_now E (px_world s)) timeout) (stopped_round E c node vmid) s of
        None \<Rightarrow> None
      | Some (None, s') \<Rightarrow> Some (Inr False, s')
      | Some (Some v, s') \<Rightarrow> Some (v, s'))"

text \<open>
  \<open>hybrid_restart_vm\<close>: shut down with \<open>forceStop\<close>, wait; if the guest is still up, stop it and wait
  again; start it only when it was seen stopped. Every exception becomes \<open>False\<close>.
\<close>

definition started :: "'w proxmox_api \<Rightarrow> api_args \<Rightarrow> string \<Rightarrow> int \<Rightarrow> 'w px_state \<Rightarrow>
    (bool \<times> 'w px_state) option" where
  "started E h node vmid s = Some (case run_state (send E h (status_post Qemu node vmid ''start'' [])) s of
     (r, s') \<Rightarrow> (upid_of r \<noteq> None, s'))"

definition hard_stop :: "'w proxmox_api \<Rightarrow> proxmox_client \<Rightarrow> api_args \<Rightarrow> string \<Rightarrow> int \<Rightarrow> 'w px_state \<Rightarrow>
    (bool \<times> 'w px_state) option" where
  "hard_stop E c h node vmid s =
     (case run_state (send E h (status_post Qemu node vmid ''stop'' [])) s of
        (Inl _, s1) \<Rightarrow> Some (False, s1)
      | (Inr _, s1) \<Rightarrow> (case wait_vm_stopped E c node vmid (seconds 15) s1 of
            None \<Rightarrow> None
          | Some (Inr True, s2) \<Rightarrow> started E h node vmid s2
          | Some (_, s2) \<Rightarrow> Some (False, s2)))"

definition hybrid_restart_vm :: "'w proxmox_api \<Rightarrow> proxmox_client \<Rightarrow> string \<Rightarrow> int \<Rightarrow> int \<Rightarrow>
    'w px_state \<Rightarrow> (bool \<times> 'w px_state) option" where
  "hybrid_restart_vm E c node vmid graceful_timeout s = (case proxmox c of
       None \<Rightarrow> Some (False, s)
     | Some h \<Rightarrow> (case run_state (send E h (status_post Qemu node vmid ''shutdown''
           [(''timeout'', JInt graceful_timeout), (''forceStop'', JInt 1)])) s of
         (Inl _, s1) \<Rightarrow> Some (False, s1)
       | (Inr _, s1) \<Rightarrow> (case wait_vm_stopped E c node vmid (seconds (graceful_timeout + 20)) s1 of
             None \<Rightarrow> None
           | Some (Inl _, s2) \<Rightarrow> Some (False, s2)
           | Some (Inr True, s2) \<Rightarrow> started E h node vmid s2
           | Some (Inr False, s2) \<Rightarrow> hard_stop E c h node vmid s2)))"

section \<open>Snapshots\<close>

definition snapshots_of :: "guest_kind \<Rightarrow> 'w proxmox_api \<Rightarrow> proxmox_client \<Rightarrow> string \<Rightarrow> int \<Rightarrow>
    ('w px_state, json list) state" where
  "snapshots_of g E c node vmid = (case proxmox c of
       None \<Rightarrow> return []
     | Some h \<Rightarrow> do {
         r \<leftarrow> send E h (Request GET (guest_path g node vmid [''snapshot'']) []);
         return (case r of Inr (JList l) \<Rightarrow> l | _ \<Rightarrow> [])
       })"

definition get_vm_snapshots :: "'w proxmox_api \<Rightarrow> proxmox_client \<Rightarrow> string \<Rightarrow> int \<Rightarrow>
    ('w px_state, json list) state"
  where "get_vm_snapshots E c node vmid = snapshots_of Qemu E c node vmid"

definition get_container_snapshots :: "'w proxmox_api \<Rightarrow> proxmox_client \<Rightarrow> string \<Rightarrow> int \<Rightarrow>
    ('w px_state, json list) state"
  where "get_container_snapshots E c node vmid = snapshots_of Lxc E c node vmid"

definition snapshot_params :: "string \<Rightarrow> string option \<Rightarrow> bool \<Rightarrow> (string \<times> json) list" where
  "snapshot_params snapname descr vmstate = [(''snapname'', JStr snapname)]
     @ (if truthy_str descr then [(''description'', JStr (the descr))] else [])
     @ (if vmstate then [(''vmstate'', JInt 1)] else [])"

text \<open>
  The wait for the snapshot task. The API answers the UPID as a text; for any other answer there is no
  task of that name, every poll fails, and the wait runs into its timeout of five minutes. A task that
  did not succeed is reported with its \<open>exitstatus\<close>.
\<close>

definition failure_reason :: "py_exception + json \<Rightarrow> string \<Rightarrow> py_exception + string" where
  "failure_reason st otherwise = (case st of
       Inl e \<Rightarrow> Inl e
     | Inr j \<Rightarrow> (case json_get j ''exitstatus'' of
           Inl e \<Rightarrow> Inl e
         | Inr x \<Rightarrow> Inr (case x of JStr (t # ts) \<Rightarrow> t # ts | _ \<Rightarrow> otherwise)))"

definition create_snapshot :: "guest_kind \<Rightarrow> 'w proxmox_api \<Rightarrow> proxmox_client \<Rightarrow> string \<Rightarrow> int \<Rightarrow>
    (string \<times> json) list \<Rightarrow> 'w px_state \<Rightarrow> (outcome \<times> 'w px_state) option" where
  "create_snapshot g E c node vmid ps s = (case proxmox c of
       None \<Rightarrow> Some (Failure ''Not connected'' None, s)
     | Some h \<Rightarrow> (case run_state (send E h (Request POST (guest_path g node vmid [''snapshot'']) ps)) s of
         (Inl e, s1) \<Rightarrow> Some (Failure (exn_text e) None, s1)
       | (Inr j, s1) \<Rightarrow> (case json_str j of
             None \<Rightarrow> Some (Failure ''Snapshot task failed: task failed or timed out'' (Some j),
                 s1\<lparr>px_world := api_sleep E (seconds 300) (px_world s1)\<rparr>)
           | Some upid \<Rightarrow> (case wait_for_task E c node upid (seconds 300) s1 of
                 None \<Rightarrow> None
               | Some (Inl e, s2) \<Rightarrow> Some (Failure (exn_text e) None, s2)
               | Some (Inr True, s2) \<Rightarrow> Some (Success (Some j), s2)
               | Some (Inr False, s2) \<Rightarrow>
                   (case run_state (get_task_status E c node upid False) s2 of (st, s3) \<Rightarrow>
                     (case failure_reason st ''task failed or timed out'' of
                        Inl e \<Rightarrow> Some (Failure (exn_text e) None, s3)
                      | Inr why \<Rightarrow> Some (Failure (''Snapshot task failed: '' @ why) (Some j), s3)))))))"

definition create_vm_snapshot :: "'w proxmox_api \<Rightarrow> proxmox_client \<Rightarrow> string \<Rightarrow> int \<Rightarrow> string \<Rightarrow>
    string option \<Rightarrow> bool \<Rightarrow> 'w px_state \<Rightarrow> (outcome \<times> 'w px_state) option" where
  "create_vm_snapshot E c node vmid snapname descr vmstate =
     create_snapshot Qemu E c node vmid (snapshot_params snapname descr vmstate)"

definition create_container_snapshot :: "'w proxmox_api \<Rightarrow> proxmox_client \<Rightarrow> string \<Rightarrow> int \<Rightarrow> string \<Rightarrow>
    string option \<Rightarrow> 'w px_state \<Rightarrow> (outcome \<times> 'w px_state) option" where
  "create_container_snapshot E c node vmid snapname descr =
     create_snapshot Lxc E c node vmid (snapshot_params snapname descr False)"

definition rollback_snapshot :: "guest_kind \<Rightarrow> 'w proxmox_api \<Rightarrow> proxmox_client \<Rightarrow> string \<Rightarrow> int \<Rightarrow> string \<Rightarrow>
    bool \<Rightarrow> ('w px_state, outcome) state" where
  "rollback_snapshot g E c node vmid snapname start_after = outcome_call E c ''Not connected'' True
     (Request POST (guest_path g node vmid [''snapshot'', snapname, ''rollback''])
        (if start_after then [(''start'', JInt 1)] else []))"

definition rollback_vm_snapshot :: "'w proxmox_api \<Rightarrow> proxmox_client \<Rightarrow> string \<Rightarrow> int \<Rightarrow> string \<Rightarrow>
    bool \<Rightarrow> ('w px_state, outcome) state"
  where "rollback_vm_snapshot E c = rollback_snapshot Qemu E c"

definition rollback_container_snapshot :: "'w proxmox_api \<Rightarrow> proxmox_client \<Rightarrow> string \<Rightarrow> int \<Rightarrow> string \<Rightarrow>
    bool \<Rightarrow> ('w px_state, outcome) state"
  where "rollback_container_snapshot E c = rollback_snapshot Lxc E c"

definition delete_snapshot :: "guest_kind \<Rightarrow> 'w proxmox_api \<Rightarrow> proxmox_client \<Rightarrow> string \<Rightarrow> int \<Rightarrow> string \<Rightarrow>
    bool \<Rightarrow> ('w px_state, outcome) state" where
  "delete_snapshot g E c node vmid snapname force = outcome_call E c ''Not connected'' True
     (Request DELETE (guest_path g node vmid [''snapshot'', snapname])
        (if force then [(''force'', JInt 1)] else []))"

definition delete_vm_snapshot :: "'w proxmox_api \<Rightarrow> proxmox_client \<Rightarrow> string \<Rightarrow> int \<Rightarrow> string \<Rightarrow>
    bool \<Rightarrow> ('w px_state, outcome) state"
  where "delete_vm_snapshot E c = delete_snapshot Qemu E c"

definition delete_container_snapshot :: "'w proxmox_api \<Rightarrow> proxmox_client \<Rightarrow> string \<Rightarrow> int \<Rightarrow> string \<Rightarrow>
    bool \<Rightarrow> ('w px_state, outcome) state"
  where "delete_container_snapshot E c = delete_snapshot Lxc E c"

section \<open>Deletion and migration\<close>

text \<open>
  \<open>delete_vm\<close> and \<open>delete_container\<close>: whatever happens while the guest is taken out of high
  availability is ignored; the deletion itself may raise.
\<close>

definition ha_managed :: "py_exception + json \<Rightarrow> bool" where
  "ha_managed r = (case r of
       Inr (JObj d) \<Rightarrow> d \<noteq> [] \<and>
         (case map_of d ''ha'' of Some (JObj ha) \<Rightarrow> truthy_json (dget ha ''managed'') | _ \<Rightarrow> False)
     | _ \<Rightarrow> False)"

definition not_connected :: py_exception where
  "not_connected = PyException ''Proxmox client not connected'' None False"

definition delete_guest :: "guest_kind \<Rightarrow> string \<Rightarrow> 'w proxmox_api \<Rightarrow> proxmox_client \<Rightarrow> string \<Rightarrow> int \<Rightarrow>
    bool \<Rightarrow> ('w px_state, py_exception + json) state" where
  "delete_guest g ha_prefix E c node vmid force = (case proxmox c of
       None \<Rightarrow> return (Inl not_connected)
     | Some h \<Rightarrow> do {
         st \<leftarrow> send E h (status_request g node vmid);
         (if ha_managed st
          then send E h (Request DELETE [Name ''cluster'', Name ''ha'', Name ''resources'',
                 Name (ha_prefix @ dec_int vmid)] [])
          else return (Inr JNull));
         r \<leftarrow> send E h (Request DELETE (guest_path g node vmid [])
                ([(''purge'', JInt 1)] @ (if force then [(''force'', JInt 1)] else [])));
         return (case r of Inl e \<Rightarrow> Inl e | Inr j \<Rightarrow> Inr (if truthy_json j then j else JBool True))
       })"

definition delete_vm :: "'w proxmox_api \<Rightarrow> proxmox_client \<Rightarrow> string \<Rightarrow> int \<Rightarrow> bool \<Rightarrow>
    ('w px_state, py_exception + json) state"
  where "delete_vm E c = delete_guest Qemu ''vm:'' E c"

definition delete_container :: "'w proxmox_api \<Rightarrow> proxmox_client \<Rightarrow> string \<Rightarrow> int \<Rightarrow> bool \<Rightarrow>
    ('w px_state, py_exception + json) state"
  where "delete_container E c = delete_guest Lxc ''ct:'' E c"

text \<open>A migration that the API refuses raises \<open>RuntimeError\<close>; a client without a connection does not.\<close>

definition migrate_call :: "'w proxmox_api \<Rightarrow> proxmox_client \<Rightarrow> api_request \<Rightarrow>
    ('w px_state, py_exception + string option) state" where
  "migrate_call E c rq = (case proxmox c of
       None \<Rightarrow> return (Inr None)
     | Some h \<Rightarrow> do {
         r \<leftarrow> send E h rq;
         return (case r of
             Inl e \<Rightarrow> Inl (PyException (''Proxmox: '' @ exn_text e) None False)
           | Inr j \<Rightarrow> Inr (json_str j))
       })"

definition migrate_vm :: "'w proxmox_api \<Rightarrow> proxmox_client \<Rightarrow> string \<Rightarrow> int \<Rightarrow> string \<Rightarrow> string option \<Rightarrow>
    bool \<Rightarrow> bool \<Rightarrow> ('w px_state, py_exception + string option) state" where
  "migrate_vm E c node vmid target_node target_storage online with_local_disks =
     migrate_call E c (Request POST (guest_path Qemu node vmid [''migrate''])
       ([(''target'', JStr target_node)]
        @ (if online then [(''online'', JInt 1)] else [])
        @ (if with_local_disks then [(''with-local-disks'', JInt 1)] else [])
        @ (if truthy_str target_storage then [(''targetstorage'', JStr (the target_storage))] else [])))"

definition migrate_container :: "'w proxmox_api \<Rightarrow> proxmox_client \<Rightarrow> string \<Rightarrow> int \<Rightarrow> string \<Rightarrow>
    string option \<Rightarrow> bool \<Rightarrow> ('w px_state, py_exception + string option) state" where
  "migrate_container E c node vmid target_node target_storage online =
     migrate_call E c (Request POST (guest_path Lxc node vmid [''migrate''])
       ([(''target'', JStr target_node)]
        @ (if truthy_str target_storage then [(''target-storage'', JStr (the target_storage))] else [])
        @ (if online then [(''online'', JInt 1)] else [])))"

section \<open>Clones\<close>

definition clone_params :: "string \<Rightarrow> string \<Rightarrow> int \<Rightarrow> string \<Rightarrow> bool \<Rightarrow> string option \<Rightarrow> string option \<Rightarrow>
    string option \<Rightarrow> (string \<times> json) list" where
  "clone_params name_key node new_vmid name full target_node target_storage descr =
     [(''newid'', JInt new_vmid), (name_key, JStr name), (''full'', JInt (if full then 1 else 0))]
     @ (if truthy_str target_storage then [(''storage'', JStr (the target_storage))] else [])
     @ (if truthy_str target_node \<and> the target_node \<noteq> node
        then [(''target'', JStr (the target_node))] else [])
     @ (if truthy_str descr then [(''description'', JStr (the descr))] else [])"

definition clone_vm :: "'w proxmox_api \<Rightarrow> proxmox_client \<Rightarrow> string \<Rightarrow> int \<Rightarrow> int \<Rightarrow> string \<Rightarrow> bool \<Rightarrow>
    string option \<Rightarrow> string option \<Rightarrow> string option \<Rightarrow> ('w px_state, string option) state" where
  "clone_vm E c node vmid new_vmid name full target_node target_storage descr =
     upid_call E c (Request POST (guest_path Qemu node vmid [''clone''])
       (clone_params ''name'' node new_vmid name full target_node target_storage descr))"

definition clone_container :: "'w proxmox_api \<Rightarrow> proxmox_client \<Rightarrow> string \<Rightarrow> int \<Rightarrow> int \<Rightarrow> string \<Rightarrow> bool \<Rightarrow>
    string option \<Rightarrow> string option \<Rightarrow> string option \<Rightarrow> ('w px_state, string option) state" where
  "clone_container E c node vmid new_vmid hostname full target_node target_storage descr =
     upid_call E c (Request POST (guest_path Lxc node vmid [''clone''])
       (clone_params ''hostname'' node new_vmid hostname full target_node target_storage descr))"

definition convert_to_template :: "'w proxmox_api \<Rightarrow> proxmox_client \<Rightarrow> string \<Rightarrow> int \<Rightarrow>
    ('w px_state, bool) state" where
  "convert_to_template E c node vmid =
     bool_call E c (Request POST (guest_path Qemu node vmid [''template'']) [])"

text \<open>
  \<open>wait_for_vm_unlock\<close> does not look whether the client is connected: the exception is one of those
  the loop swallows. \<open>'lock' in config\<close> also holds of a text or list that contains it.
\<close>

definition has_lock :: "json \<Rightarrow> bool option" where
  "has_lock j = (case j of
       JObj d \<Rightarrow> Some (map_of d ''lock'' \<noteq> None)
     | JStr t \<Rightarrow> Some (substring_of ''lock'' t)
     | JList l \<Rightarrow> Some (JStr ''lock'' \<in> set l)
     | _ \<Rightarrow> None)"

definition unlock_round :: "'w proxmox_api \<Rightarrow> proxmox_client \<Rightarrow> string \<Rightarrow> int \<Rightarrow>
    ('w px_state, unit option) state" where
  "unlock_round E c node vmid = do {
     r \<leftarrow> client_request E c (Request GET (guest_path Qemu node vmid [''config'']) []);
     if (case r of Inl _ \<Rightarrow> False | Inr j \<Rightarrow> has_lock j = Some False) then return (Some ())
     else do { sleep E (seconds 2); return None }
   }"

definition wait_for_vm_unlock :: "'w proxmox_api \<Rightarrow> proxmox_client \<Rightarrow> string \<Rightarrow> int \<Rightarrow> int \<Rightarrow> 'w px_state \<Rightarrow>
    (bool \<times> 'w px_state) option" where
  "wait_for_vm_unlock E c node vmid timeout s =
     (case poll (before_deadline E (api_now E (px_world s)) timeout) (unlock_round E c node vmid) s of
        None \<Rightarrow> None
      | Some (r, s') \<Rightarrow> Some (r \<noteq> None, s'))"

end
