(* ===== verification/TaskQueue.thy ===== *)
theory TaskQueue
  imports Guests Auth
begin

text \<open>
  The queue of bulk operations: \<open>app/services/task_queue_service.py\<close>, \<open>TaskQueue\<close> in
  \<open>app/models/tasks.py\<close>, the endpoint \<open>/api/bulk-operation\<close> of \<open>app/api/proxmox/vms.py\<close> and the
  endpoints that cancel and clear tasks in \<open>app/api/proxmox/tasks.py\<close>.

  \<open>bulk_state\<close> holds the table, the table of servers, the client objects the processor keeps and the
  state of the Proxmox layer. An item is what \<open>BulkOperationItem.model_dump()\<close> stores, all keys
  present, so the defaults of \<open>item.get\<close> are never used. Errors of the database itself, the
  broadcast over web sockets and \<open>progress_percent\<close> (floating point) are left out.

  Each commit is a function of its own (\<open>begin_task\<close>, \<open>run_item\<close>, \<open>finish_task\<close>): \<open>process_task\<close>
  composes them, and \<open>bulk_step\<close> lets the requests of users come in between.
\<close>

section \<open>Data\<close>

record bulk_item =
  it_server_id :: int
  it_vmid :: int
  it_vm_type :: string
  it_name :: string
  it_node :: string
  it_target_node :: "string option"
  it_online :: "bool option"

record item_result =
  re_server_id :: int
  re_vmid :: int
  re_name :: string
  re_success :: bool
  re_message :: string

datatype task_status = Pending | Running | Completed | Failed | Cancelled

record queue_task =
  qt_id :: int
  qt_type :: string
  qt_status :: task_status
  qt_user_id :: int
  qt_total :: nat
  qt_completed :: nat
  qt_failed :: nat
  qt_data :: "bulk_item list"
  qt_results :: "item_result list"
  qt_error :: "string option"
  qt_created_at :: int
  qt_started_at :: "int option"
  qt_completed_at :: "int option"

record 'w bulk_state =
  task_queue :: "queue_task list"
  next_task_id :: int
  servers :: "server list"
  proxmox_clients :: "(int, proxmox_client) pydict"
  px :: "'w px_state"

definition utcnow :: "'w proxmox_api \<Rightarrow> 'w bulk_state \<Rightarrow> int" where
  "utcnow E s = api_now E (px_world (px s))"

text \<open>A computation of the Proxmox layer inside the queue.\<close>

definition on_px :: "('w px_state, 'a) state \<Rightarrow> 'w bulk_state \<Rightarrow> 'a \<times> 'w bulk_state" where
  "on_px m s = (case run_state m (px s) of (x, p) \<Rightarrow> (x, s\<lparr>px := p\<rparr>))"

definition find_task :: "int \<Rightarrow> 'w bulk_state \<Rightarrow> queue_task option" where
  "find_task i s = find (\<lambda>t. qt_id t = i) (task_queue s)"

definition store_task :: "int \<Rightarrow> (queue_task \<Rightarrow> queue_task) \<Rightarrow> 'w bulk_state \<Rightarrow> 'w bulk_state" where
  "store_task i f s = s\<lparr>task_queue := update_first (\<lambda>t. qt_id t = i) f (task_queue s)\<rparr>"

section \<open>TaskQueueService\<close>

definition TASK_TYPES :: "string list" where
  "TASK_TYPES = [''bulk_start'', ''bulk_stop'', ''bulk_restart'', ''bulk_delete'', ''bulk_shutdown'',
     ''bulk_migrate'']"

definition create_task :: "'w proxmox_api \<Rightarrow> string \<Rightarrow> int \<Rightarrow> bulk_item list \<Rightarrow> 'w bulk_state \<Rightarrow>
    (string + int) \<times> 'w bulk_state" where
  "create_task E task_type uid items s =
     (if task_type \<notin> set TASK_TYPES then (Inl (''Invalid task type: '' @ task_type), s)
      else if items = [] then (Inl ''No items provided for bulk operation'', s)
      else (Inr (next_task_id s),
        s\<lparr>next_task_id := next_task_id s + 1,
          task_queue := task_queue s @
            [\<lparr>qt_id = next_task_id s, qt_type = task_type, qt_status = Pending, qt_user_id = uid,
              qt_total = length items, qt_completed = 0, qt_failed = 0, qt_data = items,
              qt_results = [], qt_error = None, qt_created_at = utcnow E s,
              qt_started_at = None, qt_completed_at = None\<rparr>]\<rparr>))"

definition get_pending_tasks :: "'w bulk_state \<Rightarrow> queue_task list" where
  "get_pending_tasks s = sort_key qt_created_at (filter (\<lambda>t. qt_status t = Pending) (task_queue s))"

definition get_running_tasks :: "'w bulk_state \<Rightarrow> queue_task list" where
  "get_running_tasks s = filter (\<lambda>t. qt_status t = Running) (task_queue s)"

definition cancel_task :: "'w proxmox_api \<Rightarrow> int \<Rightarrow> int \<Rightarrow> 'w bulk_state \<Rightarrow> bool \<times> 'w bulk_state" where
  "cancel_task E i uid s =
     (case find (\<lambda>t. qt_id t = i \<and> qt_user_id t = uid \<and> qt_status t = Pending) (task_queue s) of
        None \<Rightarrow> (False, s)
      | Some t \<Rightarrow> (True, store_task (qt_id t)
          (\<lambda>t. t\<lparr>qt_status := Cancelled, qt_completed_at := Some (utcnow E s)\<rparr>) s))"

section \<open>Endpoints\<close>

definition action_to_task_type :: "(string, string) pydict" where
  "action_to_task_type = [(''start'', ''bulk_start''), (''stop'', ''bulk_stop''),
     (''restart'', ''bulk_restart''), (''shutdown'', ''bulk_shutdown''), (''delete'', ''bulk_delete''),
     (''migrate'', ''bulk_migrate'')]"

text \<open>The guard \<open>PermissionChecker("vm:manage")\<close> comes before the body.\<close>

definition create_bulk_operation :: "'w proxmox_api \<Rightarrow> user \<Rightarrow> string \<Rightarrow> bulk_item list \<Rightarrow>
    'w bulk_state \<Rightarrow> (http_error + int) \<times> 'w bulk_state" where
  "create_bulk_operation E current_user act items s =
     (case PermissionChecker ''vm:manage'' current_user of
        Inl e \<Rightarrow> (Inl e, s)
      | Inr _ \<Rightarrow> (case map_of action_to_task_type act of
          None \<Rightarrow> (Inl (HTTPException 400 (Msg (''Invalid action: '' @ act))), s)
        | Some task_type \<Rightarrow>
            if items = [] then (Inl (HTTPException 400 (Msg ''No items selected'')), s)
            else if act = ''delete'' \<and> \<not> auth_check_permission current_user ''vm:delete''
            then (Inl (HTTPException 403 (Msg ''Delete permission required'')), s)
            else if act = ''migrate'' \<and> list_ex (\<lambda>i. \<not> truthy_str (it_target_node i)) items
            then (Inl (HTTPException 400 (Msg ''target_node is required for migrate'')), s)
            else (case create_task E task_type (user_id current_user) items s of
                (Inl e, s') \<Rightarrow> (Inl (HTTPException 400 (Msg e)), s')
              | (Inr i, s') \<Rightarrow> (Inr i, s'))))"

definition cancel_task_endpoint :: "'w proxmox_api \<Rightarrow> user \<Rightarrow> int \<Rightarrow> 'w bulk_state \<Rightarrow>
    (http_error + unit) \<times> 'w bulk_state" where
  "cancel_task_endpoint E current_user i s =
     (case cancel_task E i (user_id current_user) s of
        (True, s') \<Rightarrow> (Inr (), s')
      | (False, s') \<Rightarrow> (Inl (HTTPException 400
          (Msg ''Task cannot be cancelled (not found, not pending, or not yours)'')), s'))"

text \<open>\<open>DELETE /api/all-tasks/completed\<close>, the part on this table; the answer is the number of rows.\<close>

definition finished :: "task_status \<Rightarrow> bool" where
  "finished st \<longleftrightarrow> st = Completed \<or> st = Failed \<or> st = Cancelled"

definition clear_completed_tasks :: "user \<Rightarrow> 'w bulk_state \<Rightarrow> nat \<times> 'w bulk_state" where
  "clear_completed_tasks current_user s =
     (let gone = (\<lambda>t. qt_user_id t = user_id current_user \<and> finished (qt_status t))
      in (length (filter gone (task_queue s)),
          s\<lparr>task_queue := filter (\<lambda>t. \<not> gone t) (task_queue s)\<rparr>))"

section \<open>TaskQueueProcessor\<close>

definition has_credentials :: "server \<Rightarrow> bool" where
  "has_credentials sv \<longleftrightarrow> sv_use_password sv \<and> truthy_str (sv_password sv) \<or>
     truthy_str (sv_api_token_name sv) \<and> truthy_str (sv_api_token_value sv)"

text \<open>
  A client that still answers is kept; otherwise a new one is built from the row. Building a client
  does not raise: without a connection it is an object whose \<open>proxmox\<close> is \<open>None\<close>.
\<close>

definition new_proxmox_client :: "'w proxmox_api \<Rightarrow> int \<Rightarrow> 'w bulk_state \<Rightarrow>
    proxmox_client option \<times> 'w bulk_state" where
  "new_proxmox_client E server_id s =
     (case find (\<lambda>sv. sv_id sv = server_id) (servers s) of
        None \<Rightarrow> (None, s)
      | Some sv \<Rightarrow>
          if \<not> has_credentials sv then (None, s)
          else (case on_px (from_server E sv) s of
              (c, s') \<Rightarrow> (Some c, s'\<lparr>proxmox_clients := AList.update server_id c (proxmox_clients s')\<rparr>)))"

definition get_proxmox_client :: "'w proxmox_api \<Rightarrow> int \<Rightarrow> 'w bulk_state \<Rightarrow>
    proxmox_client option \<times> 'w bulk_state" where
  "get_proxmox_client E server_id s =
     (case map_of (proxmox_clients s) server_id of
        None \<Rightarrow> new_proxmox_client E server_id s
      | Some c \<Rightarrow> (case on_px (is_connected E c) s of
            (True, s') \<Rightarrow> (Some c, s')
          | (False, s') \<Rightarrow> new_proxmox_client E server_id s'))"

text \<open>The answer of a power operation is not looked at: only an exception makes the action fail.\<close>

definition ignored :: "('s, 'a) state \<Rightarrow> ('s, bool \<times> string) state" where
  "ignored m = do { _ \<leftarrow> m; return (True, ''OK'') }"

definition caught :: "('s, py_exception + 'a) state \<Rightarrow> ('s, bool \<times> string) state" where
  "caught m = do {
     r \<leftarrow> m;
     return (case r of Inl e \<Rightarrow> (False, exn_text e) | Inr _ \<Rightarrow> (True, ''OK''))
   }"

definition execute_vm_action :: "'w proxmox_api \<Rightarrow> proxmox_client \<Rightarrow> string \<Rightarrow> int \<Rightarrow> string \<Rightarrow> string \<Rightarrow>
    string option \<Rightarrow> bool \<Rightarrow> ('w px_state, bool \<times> string) state" where
  "execute_vm_action E c act vmid vm_type node target_node online =
     (if vm_type = ''lxc'' then
        (if act = ''start'' then ignored (start_container E c node vmid)
         else if act = ''stop'' then ignored (stop_container E c node vmid)
         else if act = ''restart'' then ignored (restart_container E c node vmid)
         else if act = ''shutdown'' then ignored (shutdown_container E c node vmid 60)
         else if act = ''delete'' then caught (delete_container E c node vmid False)
         else if act = ''migrate'' then
           (if \<not> truthy_str target_node then return (False, ''target_node is required'')
            else caught (migrate_container E c node vmid (the target_node) None online))
         else return (False, ''Unknown action: '' @ act))
      else
        (if act = ''start'' then ignored (start_vm E c node vmid)
         else if act = ''stop'' then ignored (stop_vm E c node vmid)
         else if act = ''restart'' then ignored (restart_vm E c node vmid)
         else if act = ''shutdown'' then ignored (shutdown_vm E c node vmid 60)
         else if act = ''delete'' then caught (delete_vm E c node vmid False)
         else if act = ''migrate'' then
           (if \<not> truthy_str target_node then return (False, ''target_node is required'')
            else caught (migrate_vm E c node vmid (the target_node) None online True))
         else return (False, ''Unknown action: '' @ act)))"

definition action_map :: "(string, string) pydict" where
  "action_map = [(''bulk_start'', ''start''), (''bulk_stop'', ''stop''), (''bulk_restart'', ''restart''),
     (''bulk_shutdown'', ''shutdown''), (''bulk_delete'', ''delete''), (''bulk_migrate'', ''migrate'')]"

text \<open>\<open>process_task\<close> up to the loop: \<^term>\<open>None\<close> where it returns at once.\<close>

definition begin_task :: "'w proxmox_api \<Rightarrow> int \<Rightarrow> 'w bulk_state \<Rightarrow>
    (string \<times> bulk_item list) option \<times> 'w bulk_state" where
  "begin_task E i s =
     (case find_task i s of
        None \<Rightarrow> (None, s)
      | Some t \<Rightarrow>
          if qt_status t \<noteq> Pending then (None, s)
          else let s1 = store_task i (\<lambda>t. t\<lparr>qt_status := Running, qt_started_at := Some (utcnow E s)\<rparr>) s
            in (case map_of action_map (qt_type t) of
                  None \<Rightarrow> (None, store_task i (\<lambda>t. t\<lparr>qt_status := Failed,
                    qt_error := Some (''Unknown task type: '' @ qt_type t),
                    qt_completed_at := Some (utcnow E s1)\<rparr>) s1)
                | Some act \<Rightarrow> (Some (act, qt_data t), s1)))"

definition item_result_of :: "bulk_item \<Rightarrow> bool \<Rightarrow> string \<Rightarrow> item_result" where
  "item_result_of it ok msg = \<lparr>re_server_id = it_server_id it, re_vmid = it_vmid it,
     re_name = it_name it, re_success = ok, re_message = msg\<rparr>"

text \<open>One turn of the loop, with the list \<open>results\<close> built so far.\<close>

definition perform_item :: "'w proxmox_api \<Rightarrow> string \<Rightarrow> bulk_item \<Rightarrow> 'w bulk_state \<Rightarrow>
    item_result \<times> 'w bulk_state" where
  "perform_item E act it s =
     (case get_proxmox_client E (it_server_id it) s of
        (None, s1) \<Rightarrow> (item_result_of it False ''Failed to connect to Proxmox server'', s1)
      | (Some c, s1) \<Rightarrow>
          (case on_px (execute_vm_action E c act (it_vmid it) (it_vm_type it) (it_node it)
                 (it_target_node it) (it_online it = Some True)) s1 of
             ((ok, msg), s2) \<Rightarrow> (item_result_of it ok msg, s2)))"

definition count_result :: "item_result list \<Rightarrow> item_result \<Rightarrow> queue_task \<Rightarrow> queue_task" where
  "count_result results r t =
     (let t' = t\<lparr>qt_results := results @ [r]\<rparr>
      in if re_success r then t'\<lparr>qt_completed := qt_completed t + 1\<rparr>
         else t'\<lparr>qt_failed := qt_failed t + 1\<rparr>)"

definition run_item :: "'w proxmox_api \<Rightarrow> int \<Rightarrow> string \<Rightarrow> item_result list \<Rightarrow> bulk_item \<Rightarrow>
    'w bulk_state \<Rightarrow> item_result list \<times> 'w bulk_state" where
  "run_item E i act results it s =
     (case perform_item E act it s of
        (r, s') \<Rightarrow> (results @ [r], store_task i (count_result results r) s'))"

fun run_items :: "'w proxmox_api \<Rightarrow> int \<Rightarrow> string \<Rightarrow> item_result list \<Rightarrow> bulk_item list \<Rightarrow>
    'w bulk_state \<Rightarrow> 'w bulk_state" where
  "run_items E i act results [] s = s"
| "run_items E i act results (it # its) s =
     (case run_item E i act results it s of (results', s') \<Rightarrow> run_items E i act results' its s')"

definition finish_task :: "'w proxmox_api \<Rightarrow> int \<Rightarrow> 'w bulk_state \<Rightarrow> 'w bulk_state" where
  "finish_task E i s =
     store_task i (\<lambda>t. t\<lparr>qt_status := Completed, qt_completed_at := Some (utcnow E s)\<rparr>) s"

definition process_task :: "'w proxmox_api \<Rightarrow> int \<Rightarrow> 'w bulk_state \<Rightarrow> 'w bulk_state" where
  "process_task E i s =
     (case begin_task E i s of
        (None, s1) \<Rightarrow> s1
      | (Some (act, items), s1) \<Rightarrow> finish_task E i (run_items E i act [] items s1))"

definition next_task :: "'w bulk_state \<Rightarrow> queue_task option" where
  "next_task s = (case get_pending_tasks s of
       [] \<Rightarrow> None
     | t # ts \<Rightarrow> if get_running_tasks s \<noteq> [] then None else Some t)"

definition process_pending_tasks :: "'w proxmox_api \<Rightarrow> 'w bulk_state \<Rightarrow> nat \<times> 'w bulk_state" where
  "process_pending_tasks E s =
     (case next_task s of None \<Rightarrow> (0, s) | Some t \<Rightarrow> (1, process_task E (qt_id t) s))"

definition interrupt :: "int \<Rightarrow> queue_task \<Rightarrow> queue_task" where
  "interrupt t0 t = (if qt_status t = Running
     then t\<lparr>qt_status := Failed, qt_error := Some ''Interrupted by backend restart'',
            qt_completed_at := Some t0\<rparr>
     else t)"

definition recover_interrupted_tasks :: "'w proxmox_api \<Rightarrow> 'w bulk_state \<Rightarrow> nat \<times> 'w bulk_state" where
  "recover_interrupted_tasks E s =
     (length (get_running_tasks s), s\<lparr>task_queue := map (interrupt (utcnow E s)) (task_queue s)\<rparr>)"

section \<open>Users and the processor side by side\<close>

text \<open>
  The scheduler runs one \<open>process_task_queue\<close> at a time. \<open>worker\<close> is the local state of that run
  between two commits: the task, the action, the items to come and the results so far. A restart
  loses it together with the cached clients and connections; \<open>Recovered\<close> is the clean-up at start.
\<close>

record job =
  jb_task :: int
  jb_action :: string
  jb_items :: "bulk_item list"
  jb_results :: "item_result list"

type_synonym 'w bulk_config = "job option \<times> 'w bulk_state"

inductive bulk_step :: "'w proxmox_api \<Rightarrow> 'w bulk_config \<Rightarrow> 'w bulk_config \<Rightarrow> bool"
  for E :: "'w proxmox_api" where
  Created: "create_bulk_operation E u act items s = (r, s') \<Longrightarrow> bulk_step E (w, s) (w, s')"
| Cancel: "cancel_task_endpoint E u i s = (r, s') \<Longrightarrow> bulk_step E (w, s) (w, s')"
| Cleared: "clear_completed_tasks u s = (n, s') \<Longrightarrow> bulk_step E (w, s) (w, s')"
| Picked: "next_task s = Some t \<Longrightarrow> begin_task E (qt_id t) s = (Some (act, items), s') \<Longrightarrow>
    bulk_step E (None, s) (Some \<lparr>jb_task = qt_id t, jb_action = act, jb_items = items, jb_results = []\<rparr>, s')"
| Refused: "next_task s = Some t \<Longrightarrow> begin_task E (qt_id t) s = (None, s') \<Longrightarrow>
    bulk_step E (None, s) (None, s')"
| Item: "jb_items j = it # its \<Longrightarrow> run_item E (jb_task j) (jb_action j) (jb_results j) it s = (rs, s') \<Longrightarrow>
    bulk_step E (Some j, s) (Some (j\<lparr>jb_items := its, jb_results := rs\<rparr>), s')"
| Finished: "jb_items j = [] \<Longrightarrow> bulk_step E (Some j, s) (None, finish_task E (jb_task j) s)"
| Restarted: "bulk_step E (w, s) (None, s\<lparr>proxmox_clients := [],
    px := (px s)\<lparr>connection_cache := []\<rparr>\<rparr>)"
| Recovered: "bulk_step E (None, s) (None, snd (recover_interrupted_tasks E s))"
| Elsewhere: "bulk_step E (w, s) (w, s\<lparr>servers := svs, px := p\<rparr>)"

inductive_cases bulk_stepE: "bulk_step E c c'"

end
