(* ===== verification/QueueProps.thy ===== *)
theory QueueProps
  imports TaskQueue
begin

text \<open>
  What the queue of bulk operations guarantees. \<open>bulk_inv\<close> is the invariant of the table and of the
  processor between two commits, \<open>task_below\<close> what one task may become, and both hold along every run
  of \<open>bulk_step\<close>: requests of any users, restarts at any commit, changes elsewhere in the program.
  The functions that process a whole task are runs of that relation, finish every task with one
  result per item, and empty the queue.
\<close>

section \<open>Rows\<close>

definition item_key :: "bulk_item \<Rightarrow> int \<times> int \<times> string" where
  "item_key it = (it_server_id it, it_vmid it, it_name it)"

definition result_key :: "item_result \<Rightarrow> int \<times> int \<times> string" where
  "result_key r = (re_server_id r, re_vmid r, re_name r)"

text \<open>The counters count the results, and the results are those of the first items, in order.\<close>

definition task_ok :: "queue_task \<Rightarrow> bool" where
  "task_ok t \<longleftrightarrow>
     qt_type t \<in> set TASK_TYPES \<and> qt_total t = length (qt_data t) \<and>
     qt_completed t = length (filter re_success (qt_results t)) \<and>
     qt_failed t = length (filter (\<lambda>r. \<not> re_success r) (qt_results t)) \<and>
     length (qt_results t) \<le> length (qt_data t) \<and>
     map result_key (qt_results t) = map item_key (take (length (qt_results t)) (qt_data t)) \<and>
     (qt_status t = Pending \<or> qt_status t = Cancelled \<longrightarrow> qt_results t = []) \<and>
     (qt_status t = Completed \<longrightarrow> length (qt_results t) = length (qt_data t))"

definition task_below :: "queue_task \<Rightarrow> queue_task \<Rightarrow> bool" where
  "task_below t t' \<longleftrightarrow>
     qt_id t' = qt_id t \<and> qt_type t' = qt_type t \<and> qt_user_id t' = qt_user_id t \<and>
     qt_data t' = qt_data t \<and> qt_created_at t' = qt_created_at t \<and>
     prefix (qt_results t) (qt_results t') \<and>
     (finished (qt_status t) \<longrightarrow> t' = t) \<and>
     (qt_status t = Running \<longrightarrow> qt_status t' \<noteq> Pending \<and> qt_status t' \<noteq> Cancelled)"

lemma task_below_refl [simp]: "task_below t t"
  by (simp add: task_below_def)

lemma task_below_trans: "task_below t u \<Longrightarrow> task_below u v \<Longrightarrow> task_below t v"
  by (cases "qt_status u") (auto simp: task_below_def finished_def intro: prefix_order.trans)

text \<open>The table and the state of the processor.\<close>

definition job_ok :: "job option \<Rightarrow> queue_task list \<Rightarrow> bool" where
  "job_ok w q \<longleftrightarrow> (case w of None \<Rightarrow> True | Some j \<Rightarrow>
     (\<exists>t \<in> set q. qt_id t = jb_task j \<and> qt_status t = Running \<and> qt_results t = jb_results j \<and>
        jb_items j = drop (length (jb_results j)) (qt_data t)))"

definition table_ok :: "int \<Rightarrow> queue_task list \<Rightarrow> bool" where
  "table_ok n q \<longleftrightarrow> unique_on qt_id q \<and> (\<forall>t \<in> set q. qt_id t < n \<and> task_ok t) \<and>
     length (filter (\<lambda>t. qt_status t = Running) q) \<le> 1"

definition bulk_inv :: "'w bulk_config \<Rightarrow> bool" where
  "bulk_inv c \<longleftrightarrow> table_ok (next_task_id (snd c)) (task_queue (snd c)) \<and>
     job_ok (fst c) (task_queue (snd c))"

definition table_below :: "int \<Rightarrow> queue_task list \<Rightarrow> queue_task list \<Rightarrow> bool" where
  "table_below n q q' \<longleftrightarrow> (\<forall>t' \<in> set q'. qt_id t' < n \<longrightarrow> (\<exists>t \<in> set q. task_below t t'))"

definition bulk_below :: "'w bulk_config \<Rightarrow> 'w bulk_config \<Rightarrow> bool" where
  "bulk_below c c' \<longleftrightarrow> next_task_id (snd c) \<le> next_task_id (snd c') \<and>
     table_below (next_task_id (snd c)) (task_queue (snd c)) (task_queue (snd c'))"

lemma table_below_refl [simp]: "table_below n q q"
  unfolding table_below_def using task_below_refl by blast

lemma table_below_filter: "table_below n q (filter P q)"
  unfolding table_below_def by (meson filter_is_subset subsetD task_below_refl)

lemma table_below_trans:
  assumes "table_below n q r" and "table_below m r s" and "n \<le> m"
  shows "table_below n q s"
  unfolding table_below_def
proof (intro ballI impI)
  fix v assume "v \<in> set s" "qt_id v < n"
  with assms(2,3) obtain u where u: "u \<in> set r" "task_below u v"
    unfolding table_below_def by fastforce
  then have "qt_id u < n" using \<open>qt_id v < n\<close> by (simp add: task_below_def)
  with u(1) assms(1) obtain t where "t \<in> set q" "task_below t u"
    unfolding table_below_def by blast
  with u(2) show "\<exists>t \<in> set q. task_below t v" by (blast intro: task_below_trans)
qed

section \<open>Writing one row\<close>

lemma length_filter_mono:
  "(\<forall>v \<in> set q. P v \<longrightarrow> Q v) \<Longrightarrow> length (filter P q) \<le> length (filter Q q)"
  by (induction q) auto

lemma unique_row: "unique_on qt_id q \<Longrightarrow> v \<in> set q \<Longrightarrow> t \<in> set q \<Longrightarrow> qt_id v = qt_id t \<Longrightarrow> v = t"
  by (auto simp: unique_on_def distinct_map dest: inj_onD)

lemma unique_Cons: "unique_on qt_id (a # q) \<longleftrightarrow> unique_on qt_id q \<and> (\<forall>t \<in> set q. qt_id t \<noteq> qt_id a)"
  unfolding unique_on_def by (auto simp: image_iff)

lemma one_running_map:
  assumes "unique_on qt_id q" and "length (filter P q) \<le> 1"
    and "t \<in> set q" "qt_id t = i" "P t \<or> filter P q = []"
  shows "length (filter P (map (\<lambda>t. if qt_id t = i then f t else t) q)) \<le> 1"
proof -
  have other: "\<not> P u" if "u \<in> set q" "qt_id u \<noteq> i" for u
  proof
    assume "P u"
    then have "u \<in> set (filter P q)" using that(1) by simp
    with assms(5) have "P t" by (auto simp: filter_empty_conv)
    then have "t \<in> set (filter P q)" using assms(3) by simp
    with \<open>u \<in> set (filter P q)\<close> assms(2) have "u = t"
      by (cases "filter P q"; cases "tl (filter P q)") auto
    with that(2) assms(4) show False by simp
  qed
  have "length (filter P (map (\<lambda>t. if qt_id t = i then f t else t) q)) \<le>
        length (filter (\<lambda>t. qt_id t = i) q)"
    using other
  proof (induction q)
    case (Cons a q)
    then show ?case by (cases "qt_id a = i") auto
  qed simp
  also have "\<dots> \<le> 1"
    using assms(1)
  proof (induction q)
    case (Cons a q)
    then have "unique_on qt_id q" and "\<forall>t \<in> set q. qt_id t \<noteq> qt_id a" by (simp_all add: unique_Cons)
    with Cons.IH show ?case by (auto simp: filter_empty_conv)
  qed simp
  finally show ?thesis .
qed

text \<open>
  The rule all writes go through: the new row is in order, comes after the old one, and is running
  only where no other row is.
\<close>

lemma table_ok_write:
  assumes "table_ok n q" and t: "t \<in> set q" "qt_id t = i"
    and f: "task_ok (f t)" "qt_id (f t) = qt_id t"
    and run: "qt_status t = Running \<or> qt_status (f t) \<noteq> Running \<or>
      filter (\<lambda>t. qt_status t = Running) q = []"
  shows "table_ok n (update_first (\<lambda>t. qt_id t = i) f q)"
    (is "table_ok n ?q")
proof -
  let ?R = "\<lambda>t. qt_status t = Running"
  from assms(1) have u: "unique_on qt_id q" and l: "length (filter ?R q) \<le> 1"
    by (auto simp: table_ok_def)
  have map: "?q = map (\<lambda>t. if qt_id t = i then f t else t) q" using u by (rule update_first_map)
  have only: "v = t" if "v \<in> set q" "qt_id v = i" for v
    using unique_row[OF u that(1) t(1)] that(2) t(2) by simp
  have each: "qt_id (if qt_id v = i then f v else v) = qt_id v \<and>
      task_ok (if qt_id v = i then f v else v)" if "v \<in> set q" for v
    using assms(1) only[OF that] f that by (auto simp: table_ok_def)
  have rows: "\<forall>v \<in> set ?q. qt_id v < n \<and> task_ok v"
    unfolding map set_map
  proof (rule ballI)
    fix v assume "v \<in> (\<lambda>t. if qt_id t = i then f t else t) ` set q"
    then obtain u where "u \<in> set q" "v = (if qt_id u = i then f u else u)" by blast
    with each[of u] show "qt_id v < n \<and> task_ok v" using assms(1) by (simp add: table_ok_def)
  qed
  have "map qt_id ?q = map qt_id q"
    using each unfolding map by simp
  with u have "unique_on qt_id ?q" by (simp add: unique_on_def)
  moreover have "length (filter ?R ?q) \<le> 1"
  proof (cases "?R t \<or> filter ?R q = []")
    case True
    with u l t show ?thesis unfolding map by (intro one_running_map) auto
  next
    case False
    with run have "\<not> ?R (f t)" by simp
    with only have "filter ?R ?q = filter ?R (map (\<lambda>v. if qt_id v = i then f v else v) q)"
      and "\<forall>v \<in> set q. ?R (if qt_id v = i then f v else v) \<longrightarrow> ?R v"
      by (auto simp: map)
    then have "length (filter ?R ?q) \<le> length (filter ?R q)"
      by (simp add: filter_map o_def) (auto intro: length_filter_mono)
    with l show ?thesis by simp
  qed
  ultimately show ?thesis using rows by (simp add: table_ok_def)
qed

lemma table_below_write:
  assumes "table_ok n q" and t: "t \<in> set q" "qt_id t = i" and "task_below t (f t)"
  shows "table_below n q (update_first (\<lambda>t. qt_id t = i) f q)"
proof -
  have "update_first (\<lambda>t. qt_id t = i) f q = map (\<lambda>t. if qt_id t = i then f t else t) q"
    using assms(1) by (intro update_first_map) (simp add: table_ok_def)
  moreover have "task_below v (if qt_id v = i then f v else v)" if "v \<in> set q" for v
    using unique_row[OF _ that t(1)] assms(1,4) t(2) by (auto simp: table_ok_def)
  ultimately show ?thesis
    unfolding table_below_def by (metis (no_types, lifting) imageE set_map)
qed

lemma find_write:
  assumes "t \<in> set q" "qt_id t = i" "unique_on qt_id q"
  shows "f t \<in> set (update_first (\<lambda>t. qt_id t = i) f q)"
  using assms by (auto simp: update_first_map intro!: image_eqI[of _ _ t])


section \<open>The steps\<close>

lemma on_px_frame [simp]:
  "task_queue (snd (on_px m s)) = task_queue s"
  "next_task_id (snd (on_px m s)) = next_task_id s"
  "servers (snd (on_px m s)) = servers s"
  by (simp_all add: on_px_def case_prod_beta)

lemma get_client_frame [simp]:
  "task_queue (snd (new_proxmox_client E i s)) = task_queue s"
  "next_task_id (snd (new_proxmox_client E i s)) = next_task_id s"
  "servers (snd (new_proxmox_client E i s)) = servers s"
  "task_queue (snd (get_proxmox_client E i s)) = task_queue s"
  "next_task_id (snd (get_proxmox_client E i s)) = next_task_id s"
  "servers (snd (get_proxmox_client E i s)) = servers s"
  by (simp_all add: new_proxmox_client_def get_proxmox_client_def case_prod_beta
      split: option.split bool.split)

lemma perform_item_frame [simp]:
  "task_queue (snd (perform_item E act it s)) = task_queue s"
  "next_task_id (snd (perform_item E act it s)) = next_task_id s"
  "servers (snd (perform_item E act it s)) = servers s"
  by (simp_all add: perform_item_def case_prod_beta split: option.split)

lemma perform_item_key [simp]: "result_key (fst (perform_item E act it s)) = item_key it"
  by (simp add: perform_item_def item_result_of_def result_key_def item_key_def case_prod_beta
      split: option.split)

lemma store_task_fields [simp]:
  "task_queue (store_task i f s) = update_first (\<lambda>t. qt_id t = i) f (task_queue s)"
  "next_task_id (store_task i f s) = next_task_id s"
  "servers (store_task i f s) = servers s" "px (store_task i f s) = px s"
  "proxmox_clients (store_task i f s) = proxmox_clients s"
  by (simp_all add: store_task_def)

lemma find_task_SomeD: "find_task i s = Some t \<Longrightarrow> t \<in> set (task_queue s) \<and> qt_id t = i"
  unfolding find_task_def by (rule find_SomeD)

lemma job_other:
  assumes "job_ok w q" and "unique_on qt_id q" "t \<in> set q" "qt_id t = i" "qt_status t \<noteq> Running"
  shows "job_ok w (update_first (\<lambda>t. qt_id t = i) f q)"
proof (cases w)
  case (Some j)
  with assms(1) obtain u where u: "u \<in> set q" "qt_id u = jb_task j" "qt_status u = Running"
    "qt_results u = jb_results j" "jb_items j = drop (length (jb_results j)) (qt_data u)"
    unfolding job_ok_def by auto
  then have "qt_id u \<noteq> i" using unique_row[OF assms(2) u(1) assms(3)] assms(4,5) by auto
  then have "u \<in> set (update_first (\<lambda>t. qt_id t = i) f q)"
    using u(1) assms(2) by (auto simp: update_first_map intro!: image_eqI[of _ _ u])
  with u Some show ?thesis unfolding job_ok_def by auto
qed (simp add: job_ok_def)

text \<open>One write that keeps the invariant and the order; the job is settled by the caller.\<close>

lemma write_step:
  assumes "bulk_inv (w, s)" and t: "t \<in> set (task_queue s)" "qt_id t = i"
    and f: "task_ok (f t)" "task_below t (f t)"
    and run: "qt_status t = Running \<or> qt_status (f t) \<noteq> Running \<or> get_running_tasks s = []"
    and job: "job_ok w' (update_first (\<lambda>t. qt_id t = i) f (task_queue s))"
    and s': "task_queue s' = update_first (\<lambda>t. qt_id t = i) f (task_queue s)"
      "next_task_id s' = next_task_id s"
  shows "bulk_inv (w', s') \<and> bulk_below (w, s) (w', s')"
proof -
  have ok: "table_ok (next_task_id s) (task_queue s)" using assms(1) by (simp add: bulk_inv_def)
  have "table_ok (next_task_id s) (task_queue s')"
    unfolding s' using f run
    by (intro table_ok_write[OF ok t]) (auto simp: task_below_def get_running_tasks_def)
  moreover have "table_below (next_task_id s) (task_queue s) (task_queue s')"
    unfolding s' by (rule table_below_write[where f = f, OF ok t f(2)])
  ultimately show ?thesis using job s' by (simp add: bulk_inv_def bulk_below_def)
qed

lemma same_table_step:
  assumes "bulk_inv (w, s)" and "task_queue s' = task_queue s" "next_task_id s' = next_task_id s"
    and "w' = w \<or> w' = None"
  shows "bulk_inv (w', s') \<and> bulk_below (w, s) (w', s')"
  using assms by (auto simp: bulk_inv_def bulk_below_def job_ok_def)

lemma new_task_step:
  assumes inv: "bulk_inv (w, s)" and new: "create_task E ty uid items s = (r, s')"
  shows "bulk_inv (w, s') \<and> bulk_below (w, s) (w, s')"
proof (cases "ty \<in> set TASK_TYPES \<and> items \<noteq> []")
  case True
  then have s': "s' = snd (create_task E ty uid items s)" using new by simp
  obtain t where q: "task_queue s' = task_queue s @ [t]" "next_task_id s' = next_task_id s + 1"
    and t: "qt_id t = next_task_id s" "task_ok t" "qt_status t = Pending"
    unfolding s' using True by (simp add: create_task_def task_ok_def)
  have "unique_on qt_id (task_queue s @ [t])"
    using inv t(1) by (auto simp: bulk_inv_def table_ok_def unique_on_def)
  then show ?thesis
    using inv q t unfolding bulk_inv_def bulk_below_def table_ok_def table_below_def
    by (force simp: job_ok_def split: option.splits)
next
  case False
  then have "s' = s" using new by (auto simp: create_task_def split: if_splits)
  with inv show ?thesis by (simp add: same_table_step)
qed

lemma cancel_step:
  assumes inv: "bulk_inv (w, s)" and c: "cancel_task E i uid s = (r, s')"
  shows "bulk_inv (w, s') \<and> bulk_below (w, s) (w, s')"
proof (cases "find (\<lambda>t. qt_id t = i \<and> qt_user_id t = uid \<and> qt_status t = Pending) (task_queue s)")
  case None
  then have "s' = s" using c by (simp add: cancel_task_def)
  with inv show ?thesis by (simp add: same_table_step)
next
  case (Some t)
  from find_SomeD[OF Some] have t: "t \<in> set (task_queue s)" "qt_id t = i" "qt_status t = Pending" by auto
  have "task_ok t" using inv t(1) by (simp add: bulk_inv_def table_ok_def)
  with t show ?thesis using c Some inv
    by (intro write_step[where t = t and i = i and
          f = "\<lambda>t. t\<lparr>qt_status := Cancelled, qt_completed_at := Some (utcnow E s)\<rparr>"])
      (auto simp: cancel_task_def bulk_inv_def table_ok_def task_ok_def task_below_def finished_def
        intro: job_other)
qed

lemma clear_step:
  assumes inv: "bulk_inv (w, s)" and c: "clear_completed_tasks u s = (n, s')"
  shows "bulk_inv (w, s') \<and> bulk_below (w, s) (w, s')"
proof -
  define gone where "gone t = (qt_user_id t = user_id u \<and> finished (qt_status t))" for t :: queue_task
  have s': "task_queue s' = filter (\<lambda>t. \<not> gone t) (task_queue s)" "next_task_id s' = next_task_id s"
    using c by (auto simp: clear_completed_tasks_def Let_def gone_def)
  have "length (filter (\<lambda>t. qt_status t = Running) (filter (\<lambda>t. \<not> gone t) (task_queue s))) \<le>
      length (filter (\<lambda>t. qt_status t = Running) (task_queue s))"
    by (simp add: length_filter_mono)
  moreover have "job_ok w (filter (\<lambda>t. \<not> gone t) (task_queue s))"
    using inv by (cases w) (auto simp: bulk_inv_def job_ok_def gone_def finished_def)
  ultimately show ?thesis
    using inv by (auto simp: bulk_inv_def bulk_below_def table_ok_def s' row_simps table_below_filter)
qed


lemma begin_step:
  assumes inv: "bulk_inv (None, s)" and nxt: "next_task s = Some t"
    and b: "begin_task E (qt_id t) s = (r, s')"
  shows "bulk_inv (map_option (\<lambda>(act, items). \<lparr>jb_task = qt_id t, jb_action = act, jb_items = items,
      jb_results = []\<rparr>) r, s') \<and>
    bulk_below (None, s) (map_option (\<lambda>(act, items). \<lparr>jb_task = qt_id t, jb_action = act,
      jb_items = items, jb_results = []\<rparr>) r, s')"
proof -
  from nxt have norun: "get_running_tasks s = []" and "t \<in> set (get_pending_tasks s)"
    by (auto simp: next_task_def split: list.splits if_splits)
  then have t: "t \<in> set (task_queue s)" "qt_status t = Pending" by (auto simp: get_pending_tasks_def)
  have uq: "unique_on qt_id (task_queue s)" and tok: "task_ok t"
    using inv t(1) by (auto simp: bulk_inv_def table_ok_def)
  have find: "find_task (qt_id t) s = Some t"
    using unique_find[OF uq t(1)] by (simp add: find_task_def)
  obtain act where act: "map_of action_map (qt_type t) = Some act"
    using tok by (auto simp: task_ok_def TASK_TYPES_def action_map_def)
  let ?f = "\<lambda>t. t\<lparr>qt_status := Running, qt_started_at := Some (utcnow E s)\<rparr>"
  have s': "s' = store_task (qt_id t) ?f s" and r: "r = Some (act, qt_data t)"
    using b by (auto simp: begin_task_def find t(2) act Let_def)
  have "task_ok (?f t)" "task_below t (?f t)" "qt_results t = []"
    using tok t(2) by (auto simp: task_ok_def task_below_def finished_def)
  moreover have "?f t \<in> set (update_first (\<lambda>u. qt_id u = qt_id t) ?f (task_queue s))"
    by (rule find_write[OF t(1) refl uq])
  ultimately show ?thesis
    unfolding r s' using inv norun
    by (intro write_step[where t = t and i = "qt_id t" and f = ?f])
      (auto simp: t(1) job_ok_def intro!: bexI[of _ "?f t"])
qed

lemma item_step:
  assumes inv: "bulk_inv (Some j, s)" and j: "jb_items j = it # its"
    and r: "run_item E (jb_task j) act (jb_results j) it s = (rs, s')"
  shows "bulk_inv (Some (j\<lparr>jb_items := its, jb_results := rs\<rparr>), s') \<and>
    bulk_below (Some j, s) (Some (j\<lparr>jb_items := its, jb_results := rs\<rparr>), s')"
proof -
  from inv obtain t where t: "t \<in> set (task_queue s)" "qt_id t = jb_task j" "qt_status t = Running"
    "qt_results t = jb_results j" "it # its = drop (length (jb_results j)) (qt_data t)"
    by (auto simp: bulk_inv_def job_ok_def j)
  have uq: "unique_on qt_id (task_queue s)" and tok: "task_ok t"
    using inv t(1) by (auto simp: bulk_inv_def table_ok_def)
  define x where "x = fst (perform_item E act it s)"
  define s1 where "s1 = snd (perform_item E act it s)"
  let ?n = "length (jb_results j)" and ?f = "count_result (jb_results j) x"
  have rs: "rs = jb_results j @ [x]" and s': "s' = store_task (jb_task j) ?f s1"
    using r by (auto simp: run_item_def x_def s1_def case_prod_beta)
  have n: "?n < length (qt_data t)" "it = qt_data t ! ?n" "its = drop (Suc ?n) (qt_data t)"
    using t(5) by (metis drop_eq_Nil list.distinct(1) not_le, metis nth_via_drop, metis drop_Suc list.sel(3) tl_drop)
  have key: "result_key x = item_key it" by (simp add: x_def)
  have ft: "qt_results (?f t) = jb_results j @ [x]" "qt_data (?f t) = qt_data t" "qt_status (?f t) = Running"
    "qt_id (?f t) = qt_id t"
    using t(3) by (simp_all add: count_result_def Let_def)
  have "task_ok (?f t)" "task_below t (?f t)"
    using tok t(3,4) n key
    by (auto simp: task_ok_def task_below_def finished_def count_result_def Let_def take_Suc_conv_app_nth)
  moreover have "?f t \<in> set (update_first (\<lambda>u. qt_id u = jb_task j) ?f (task_queue s))"
    by (rule find_write[OF t(1,2) uq])
  ultimately show ?thesis
    unfolding rs s' using t(3) inv ft n
    by (intro write_step[where t = t and i = "jb_task j" and f = ?f])
      (auto simp: t(1,2) s1_def job_ok_def intro!: bexI[of _ "?f t"])
qed

lemma finish_step:
  assumes inv: "bulk_inv (Some j, s)" and j: "jb_items j = []"
  shows "bulk_inv (None, finish_task E (jb_task j) s) \<and>
    bulk_below (Some j, s) (None, finish_task E (jb_task j) s)"
proof -
  from inv obtain t where t: "t \<in> set (task_queue s)" "qt_id t = jb_task j" "qt_status t = Running"
    "qt_results t = jb_results j" "length (qt_data t) \<le> length (jb_results j)"
    by (auto simp: bulk_inv_def job_ok_def j)
  have "task_ok t" using inv t(1) by (auto simp: bulk_inv_def table_ok_def)
  with t inv show ?thesis
    by (intro write_step[where t = t and i = "jb_task j" and
          f = "\<lambda>t. t\<lparr>qt_status := Completed, qt_completed_at := Some (utcnow E s)\<rparr>"])
      (auto simp: finish_task_def task_ok_def task_below_def finished_def job_ok_def)
qed

lemma interrupt_fields [simp]:
  "qt_id (interrupt now t) = qt_id t" "qt_results (interrupt now t) = qt_results t"
  "qt_data (interrupt now t) = qt_data t" "qt_status (interrupt now t) \<noteq> Running"
  by (simp_all add: interrupt_def)

lemma interrupt_ok:
  "task_ok t \<Longrightarrow> task_ok (interrupt now t)" "task_below t (interrupt now t)"
  by (auto simp: interrupt_def task_ok_def task_below_def finished_def)

lemma recover_step:
  assumes inv: "bulk_inv (None, s)"
  shows "bulk_inv (None, snd (recover_interrupted_tasks E s)) \<and>
    bulk_below (None, s) (None, snd (recover_interrupted_tasks E s))"
proof -
  let ?q = "map (interrupt (utcnow E s)) (task_queue s)"
  have "unique_on qt_id ?q" using inv by (simp add: bulk_inv_def table_ok_def unique_on_def o_def)
  moreover have "filter (\<lambda>t. qt_status t = Running) ?q = []" by (simp add: filter_empty_conv)
  ultimately have "table_ok (next_task_id s) ?q"
    using inv by (auto simp: bulk_inv_def table_ok_def interrupt_ok)
  moreover have "table_below (next_task_id s) (task_queue s) ?q"
    by (auto simp: table_below_def intro: interrupt_ok)
  ultimately show ?thesis
    by (simp add: recover_interrupted_tasks_def bulk_inv_def bulk_below_def job_ok_def)
qed

lemma bulk_step_keeps:
  assumes "bulk_step E c c'" and "bulk_inv c"
  shows "bulk_inv c' \<and> bulk_below c c'"
  using assms
proof (induction rule: bulk_step.induct)
  case (Created u act items s r s' w)
  show ?case
  proof (cases "\<exists>ty r'. create_task E ty (user_id u) items s = (r', s')")
    case True
    with Created.prems show ?thesis by (blast dest: new_task_step)
  next
    case False
    with Created.hyps have "s' = s"
      by (auto simp: create_bulk_operation_def split: sum.splits option.splits if_splits prod.splits)
    with Created.prems show ?thesis by (simp add: same_table_step)
  qed
next
  case (Cancel u i s r s' w)
  then show ?case
    by (auto simp: cancel_task_endpoint_def split: prod.splits bool.splits dest: cancel_step)
next
  case (Cleared u s n s' w)
  then show ?case by (blast dest: clear_step)
next
  case (Picked s t act items s')
  with begin_step[OF Picked.prems Picked.hyps] show ?case by simp
next
  case (Refused s t s')
  with begin_step[OF Refused.prems Refused.hyps] show ?case by simp
next
  case (Item j it its s rs s')
  with item_step[OF Item.prems Item.hyps] show ?case by simp
next
  case (Finished j s)
  then show ?case by (blast dest: finish_step)
next
  case (Recovered s)
  then show ?case by (rule recover_step)
qed (simp_all add: same_table_step)

interpretation bulk: monotone_machine "bulk_step E" bulk_inv bulk_below
proof unfold_locales
  fix s t u :: "'a bulk_config"
  show "bulk_step E s t \<Longrightarrow> bulk_inv s \<Longrightarrow> bulk_inv t" by (blast dest: bulk_step_keeps)
  show "bulk_inv s \<Longrightarrow> bulk_step E s t \<Longrightarrow> bulk_below s t" by (blast dest: bulk_step_keeps)
  show "bulk_below s s" by (simp add: bulk_below_def)
  show "bulk_below s t \<Longrightarrow> bulk_below t u \<Longrightarrow> bulk_below s u"
    unfolding bulk_below_def by (metis order.trans table_below_trans)
qed


section \<open>The processor as a run of steps\<close>

lemma run_items_steps:
  "(bulk_step E)\<^sup>*\<^sup>* (Some \<lparr>jb_task = i, jb_action = act, jb_items = its, jb_results = rs\<rparr>, s)
     (None, finish_task E i (run_items E i act rs its s))"
proof (induction its arbitrary: rs s)
  case Nil
  have "bulk_step E (Some \<lparr>jb_task = i, jb_action = act, jb_items = [], jb_results = rs\<rparr>, s)
     (None, finish_task E i s)"
    using bulk_step.Finished[of "\<lparr>jb_task = i, jb_action = act, jb_items = [], jb_results = rs\<rparr>" E s]
    by simp
  then show ?case by simp
next
  case (Cons it its)
  obtain rs' s' where r: "run_item E i act rs it s = (rs', s')" by fastforce
  have "bulk_step E (Some \<lparr>jb_task = i, jb_action = act, jb_items = it # its, jb_results = rs\<rparr>, s)
     (Some \<lparr>jb_task = i, jb_action = act, jb_items = its, jb_results = rs'\<rparr>, s')"
    using bulk_step.Item[of "\<lparr>jb_task = i, jb_action = act, jb_items = it # its, jb_results = rs\<rparr>" it its E s rs' s'] r
    by simp
  with Cons.IH[of rs' s'] show ?case by (simp add: r converse_rtranclp_into_rtranclp)
qed

lemma process_pending_steps:
  "(bulk_step E)\<^sup>*\<^sup>* (None, s) (None, snd (process_pending_tasks E s))"
proof (cases "next_task s")
  case (Some t)
  show ?thesis
  proof (cases "fst (begin_task E (qt_id t) s)")
    case None
    then have "begin_task E (qt_id t) s = (None, snd (begin_task E (qt_id t) s))" by (simp add: prod_eq_iff)
    from bulk_step.Refused[OF Some this] show ?thesis
      by (simp add: process_pending_tasks_def process_task_def Some None case_prod_beta)
  next
    case (Some p)
    obtain act its where p: "p = (act, its)" by fastforce
    then have b: "begin_task E (qt_id t) s = (Some (act, its), snd (begin_task E (qt_id t) s))"
      using Some by (simp add: prod_eq_iff)
    from converse_rtranclp_into_rtranclp[OF bulk_step.Picked[OF \<open>next_task s = Some t\<close> b] run_items_steps]
    show ?thesis
      by (simp add: process_pending_tasks_def process_task_def \<open>next_task s = Some t\<close> Some p case_prod_beta)
  qed
qed (simp add: process_pending_tasks_def)

section \<open>One row at a time\<close>

text \<open>The table after the work on task \<open>i\<close>: the same rows, all others as they were.\<close>

definition only_row :: "int \<Rightarrow> queue_task list \<Rightarrow> queue_task list \<Rightarrow> bool" where
  "only_row i = list_all2 (\<lambda>t t'. qt_id t' = qt_id t \<and> (qt_id t \<noteq> i \<longrightarrow> t' = t))"

lemma only_row_refl [simp]: "only_row i q q"
  by (simp add: only_row_def list_all2_refl)

lemma only_row_trans: "only_row i p q \<Longrightarrow> only_row i q r \<Longrightarrow> only_row i p r"
  unfolding only_row_def by (erule (1) list_all2_trans[rotated]) auto

lemma only_row_write: "(\<And>t. qt_id (f t) = qt_id t) \<Longrightarrow> only_row i q (update_first (\<lambda>t. qt_id t = i) f q)"
  by (induction q) (simp_all add: only_row_def list_all2_refl)

lemma only_row_ids: "only_row i q q' \<Longrightarrow> map qt_id q' = map qt_id q"
  unfolding only_row_def by (induction rule: list_all2_induct) simp_all

lemma only_row_run_items: "only_row i (task_queue s) (task_queue (run_items E i act rs its s))"
proof (induction its arbitrary: rs s)
  case (Cons it its)
  have "only_row i (task_queue s) (task_queue (snd (run_item E i act rs it s)))"
    by (simp add: run_item_def case_prod_beta)
      (rule only_row_write, simp add: count_result_def Let_def)
  with Cons.IH show ?case by (auto simp: case_prod_beta intro: only_row_trans)
qed simp

lemma only_row_process: "only_row i (task_queue s) (task_queue (process_task E i s))"
proof -
  have b: "only_row i (task_queue s) (task_queue (snd (begin_task E i s)))"
    by (auto simp: begin_task_def Let_def split: option.splits
        intro!: only_row_trans[OF only_row_write only_row_write] only_row_write)
  have "only_row i (task_queue (run_items E i act [] its r)) (task_queue (finish_task E i (run_items E i act [] its r)))"
    for act its r by (simp add: finish_task_def) (rule only_row_write, simp)
  then show ?thesis
    using b by (auto simp: process_task_def case_prod_beta split: option.split
        intro: only_row_trans[OF _ only_row_trans[OF only_row_run_items]])
qed

lemma only_row_filter:
  assumes "only_row i q q'"
  shows "filter (\<lambda>t. P t \<and> qt_id t \<noteq> i) q' = filter (\<lambda>t. P t \<and> qt_id t \<noteq> i) q"
  using assms unfolding only_row_def by (induction rule: list_all2_induct) auto

lemma find_updated:
  "(\<And>t. qt_id (f t) = qt_id t) \<Longrightarrow>
   find (\<lambda>t. qt_id t = i) (update_first (\<lambda>t. qt_id t = i) f q) = map_option f (find (\<lambda>t. qt_id t = i) q)"
  by (induction q) auto

lemma finish_status:
  "find_task i s = Some t \<Longrightarrow> \<exists>t'. find_task i (finish_task E i s) = Some t' \<and> qt_status t' = Completed"
  by (simp add: find_task_def finish_task_def find_updated)

lemma find_only_row: "only_row i q q' \<Longrightarrow> find (\<lambda>t. qt_id t = i) q \<noteq> None \<Longrightarrow> find (\<lambda>t. qt_id t = i) q' \<noteq> None"
  unfolding only_row_def by (induction rule: list_all2_induct) auto

lemma next_taskD:
  assumes "bulk_inv (None, s)" and "next_task s = Some t"
  shows "t \<in> set (task_queue s)" "qt_status t = Pending" "get_running_tasks s = []"
    "find_task (qt_id t) s = Some t" "get_pending_tasks s = t # tl (get_pending_tasks s)"
    "\<exists>act. map_of action_map (qt_type t) = Some act" "task_ok t"
proof -
  from assms(2) show p: "get_pending_tasks s = t # tl (get_pending_tasks s)" and "get_running_tasks s = []"
    by (auto simp: next_task_def split: list.splits if_splits)
  then have "t \<in> set (get_pending_tasks s)" by (metis list.set_intros(1))
  then show t: "t \<in> set (task_queue s)" and "qt_status t = Pending" by (auto simp: get_pending_tasks_def)
  show "find_task (qt_id t) s = Some t"
    using unique_find[OF _ t, of qt_id] assms(1) by (simp add: find_task_def bulk_inv_def table_ok_def)
  show tok: "task_ok t" using assms(1) t by (simp add: bulk_inv_def table_ok_def)
  then show "\<exists>act. map_of action_map (qt_type t) = Some act"
    by (auto simp: task_ok_def TASK_TYPES_def action_map_def)
qed

lemma begin_task_pending:
  assumes "bulk_inv (None, s)" and "next_task s = Some t" "map_of action_map (qt_type t) = Some act"
  shows "begin_task E (qt_id t) s = (Some (act, qt_data t),
    store_task (qt_id t) (\<lambda>t. t\<lparr>qt_status := Running, qt_started_at := Some (utcnow E s)\<rparr>) s)"
  using next_taskD[OF assms(1,2)] assms(3) by (simp add: begin_task_def Let_def)

lemma process_pending_round:
  assumes inv: "bulk_inv (None, s)" and nxt: "next_task s = Some t"
    and s': "s' = snd (process_pending_tasks E s)"
  shows "bulk_inv (None, s')" "only_row (qt_id t) (task_queue s) (task_queue s')"
    "\<exists>t'. find_task (qt_id t) s' = Some t' \<and> qt_status t' = Completed \<and> task_below t t'"
proof -
  note t = next_taskD[OF inv nxt]
  have run: "(bulk_step E)\<^sup>*\<^sup>* (None, s) (None, s')" unfolding s' by (rule process_pending_steps)
  show inv': "bulk_inv (None, s')" by (rule bulk.steps_inv[OF run inv])
  have below: "bulk_below (None, s) (None, s')" by (rule bulk.steps_below[OF run inv])
  have eq: "s' = process_task E (qt_id t) s" by (simp add: s' process_pending_tasks_def nxt)
  show "only_row (qt_id t) (task_queue s) (task_queue s')" unfolding eq by (rule only_row_process)
  obtain act where act: "map_of action_map (qt_type t) = Some act" using t(6) by blast
  define r where "r = run_items E (qt_id t) act [] (qt_data t) (snd (begin_task E (qt_id t) s))"
  have "find_task (qt_id t) (snd (begin_task E (qt_id t) s)) \<noteq> None"
    unfolding find_task_def begin_task_pending[OF inv nxt act]
    using t(4) by (simp add: find_task_def find_updated)
  then have "find_task (qt_id t) r \<noteq> None"
    unfolding find_task_def r_def by (rule find_only_row[OF only_row_run_items])
  then obtain t' where t': "find_task (qt_id t) s' = Some t'" "qt_status t' = Completed"
    using finish_status[of "qt_id t" r] by (auto simp: eq process_task_def begin_task_pending[OF inv nxt act] r_def)
  from find_task_SomeD[OF t'(1)] have m: "t' \<in> set (task_queue s')" "qt_id t' = qt_id t" by auto
  have "qt_id t < next_task_id s" using inv t(1) by (auto simp: bulk_inv_def table_ok_def)
  then obtain u where u: "u \<in> set (task_queue s)" "task_below u t'"
    using below m by (auto simp: bulk_below_def table_below_def)
  then have "qt_id u = qt_id t" using m(2) by (simp add: task_below_def)
  then have "u = t" using unique_row[OF _ u(1) t(1)] inv by (simp add: bulk_inv_def table_ok_def)
  with u t' show "\<exists>t'. find_task (qt_id t) s' = Some t' \<and> qt_status t' = Completed \<and> task_below t t'" by blast
qed

end
