(* ===== verification/BulkProps.thy ===== *)
theory BulkProps
  imports QueueProps
begin

text \<open>
  The properties of the bulk task queue: its invariant along every run, the processor as an
  implementation of the step relation, that the queue empties in the order of creation, that a
  restart does not block it, who may queue what, and that the outcome of power operations is not
  looked at.
\<close>

section \<open>Rounds\<close>

definition rounds :: "'w proxmox_api \<Rightarrow> nat \<Rightarrow> 'w bulk_state \<Rightarrow> 'w bulk_state" where
  "rounds E k = (\<lambda>s. snd (process_pending_tasks E s)) ^^ k"

lemma rounds_simps [simp]:
  "rounds E 0 s = s" "rounds E (Suc k) s = rounds E k (snd (process_pending_tasks E s))"
  by (simp_all add: rounds_def funpow_Suc_right del: funpow.simps(2))

lemma find_task_member:
  assumes "bulk_inv (w, s)" and "t \<in> set (task_queue s)"
  shows "find_task (qt_id t) s = Some t"
  using unique_find[OF _ assms(2), of qt_id] assms(1) by (simp add: find_task_def bulk_inv_def table_ok_def)

lemma round_filter:
  assumes inv: "bulk_inv (None, s)" and nxt: "next_task s = Some t"
    and P: "\<And>u. qt_status u = Completed \<Longrightarrow> \<not> P u"
  shows "filter P (task_queue (snd (process_pending_tasks E s))) =
    filter (\<lambda>u. P u \<and> qt_id u \<noteq> qt_id t) (task_queue s)"
proof -
  let ?s = "snd (process_pending_tasks E s)"
  note r = process_pending_round[OF inv nxt refl, of E]
  obtain t' where t': "find_task (qt_id t) ?s = Some t'" "qt_status t' = Completed" using r(3) by blast
  have "\<not> P u" if "u \<in> set (task_queue ?s)" "qt_id u = qt_id t" for u
    using find_task_member[OF r(1) that(1)] that(2) t' P[of u] by simp
  then have "filter P (task_queue ?s) = filter (\<lambda>u. P u \<and> qt_id u \<noteq> qt_id t) (task_queue ?s)"
    by (auto intro: filter_cong)
  also have "\<dots> = filter (\<lambda>u. P u \<and> qt_id u \<noteq> qt_id t) (task_queue s)"
    by (rule only_row_filter[OF r(2)])
  finally show ?thesis .
qed

lemma pending_distinct:
  "bulk_inv (w, s) \<Longrightarrow> distinct (map qt_id (get_pending_tasks s))"
  by (auto simp: bulk_inv_def table_ok_def unique_on_def distinct_map get_pending_tasks_def
      intro: inj_on_subset)

lemma one_round:
  assumes inv: "bulk_inv (None, s)" and run: "get_running_tasks s = []"
    and s': "s' = snd (process_pending_tasks E s)"
  shows "bulk_inv (None, s')" "get_running_tasks s' = []"
    "get_pending_tasks s' = tl (get_pending_tasks s)"
proof -
  show "bulk_inv (None, s')"
    unfolding s' by (rule bulk.steps_inv[OF process_pending_steps inv])
  have "get_running_tasks s' = [] \<and> get_pending_tasks s' = tl (get_pending_tasks s)"
  proof (cases "next_task s")
    case None
    with run have "get_pending_tasks s = []" by (auto simp: next_task_def split: list.splits)
    with None run show ?thesis by (simp add: s' process_pending_tasks_def)
  next
    case (Some t)
    note p = next_taskD(5)[OF inv Some]
    have "\<forall>u \<in> set (tl (get_pending_tasks s)). qt_id u \<noteq> qt_id t"
      using pending_distinct[OF inv] p by (metis distinct.simps(2) image_eqI list.set_map list.simps(9))
    then have "filter (\<lambda>u. qt_id u \<noteq> qt_id t) (get_pending_tasks s) = tl (get_pending_tasks s)"
      by (subst p) simp
    then have "get_pending_tasks s' = tl (get_pending_tasks s)"
      unfolding s' get_pending_tasks_def
      by (subst round_filter[OF inv Some]) (simp_all add: filter_sort conj_commute)
    moreover have "get_running_tasks s' = filter (\<lambda>u. qt_status u = Running \<and> qt_id u \<noteq> qt_id t) (task_queue s)"
      unfolding s' get_running_tasks_def by (rule round_filter[OF inv Some]) simp
    ultimately show ?thesis using run by (auto simp: get_running_tasks_def filter_empty_conv)
  qed
  then show "get_running_tasks s' = []" "get_pending_tasks s' = tl (get_pending_tasks s)" by blast+
qed

lemma round_keeps_others:
  assumes inv: "bulk_inv (None, s)" and u: "u \<in> set (task_queue s)"
    and ne: "next_task s \<noteq> Some u"
  shows "u \<in> set (task_queue (snd (process_pending_tasks E s)))"
proof (cases "next_task s")
  case (Some t)
  have "qt_id u \<noteq> qt_id t"
    using unique_row[OF _ u next_taskD(1)[OF inv Some]] inv ne Some by (auto simp: bulk_inv_def table_ok_def)
  moreover have "filter (\<lambda>t'. True \<and> qt_id t' \<noteq> qt_id t) (task_queue (snd (process_pending_tasks E s))) =
      filter (\<lambda>t'. True \<and> qt_id t' \<noteq> qt_id t) (task_queue s)"
    by (rule only_row_filter[OF process_pending_round(2)[OF inv Some refl]])
  moreover have "u \<in> set (filter (\<lambda>t'. True \<and> qt_id t' \<noteq> qt_id t) (task_queue s))"
    using u calculation(1) by simp
  ultimately have "u \<in> set (filter (\<lambda>t'. True \<and> qt_id t' \<noteq> qt_id t)
      (task_queue (snd (process_pending_tasks E s))))" by simp
  then show ?thesis by simp
qed (simp add: u process_pending_tasks_def)

lemma finished_row_stays:
  assumes "bulk_inv (None, s)" and "get_running_tasks s = []" and "u \<in> set (task_queue s)" "qt_status u = Completed"
  shows "u \<in> set (task_queue (rounds E k s))"
  using assms
proof (induction k arbitrary: s)
  case (Suc k)
  have "next_task s \<noteq> Some u" using next_taskD(2)[OF Suc.prems(1), of u] Suc.prems(4) by auto
  with Suc.IH[OF one_round(1,2)[OF Suc.prems(1,2) refl]] round_keeps_others[OF Suc.prems(1,3)] Suc.prems(4)
  show ?case by simp
qed simp

lemma rounds_inv: "bulk_inv (None, s) \<Longrightarrow> bulk_inv (None, rounds E k s)"
  by (induction k arbitrary: s) (auto intro: bulk.steps_inv[OF process_pending_steps])

lemma pending_done:
  assumes "bulk_inv (None, s)" and "get_running_tasks s = []" and "t \<in> set (get_pending_tasks s)"
  shows "\<exists>t'. find_task (qt_id t) (rounds E (length (get_pending_tasks s)) s) = Some t' \<and>
    qt_status t' = Completed \<and> task_below t t'"
  using assms
proof (induction "length (get_pending_tasks s)" arbitrary: s)
  case (Suc n)
  let ?s = "snd (process_pending_tasks E s)"
  obtain h where nxt: "next_task s = Some h"
    using Suc.hyps(2) Suc.prems(2) by (cases "get_pending_tasks s") (auto simp: next_task_def)
  note p = next_taskD(5)[OF Suc.prems(1) nxt]
  note r = one_round[OF Suc.prems(1,2) refl, of E]
  have n: "n = length (get_pending_tasks ?s)" using Suc.hyps(2) by (simp add: r(3))
  have len: "length (get_pending_tasks s) = Suc n" using Suc.hyps(2) by simp
  have inv: "bulk_inv (None, rounds E n ?s)" by (rule rounds_inv[OF r(1)])
  show ?case
  proof (cases "t = h")
    case True
    obtain t' where t': "find_task (qt_id h) ?s = Some t'" "qt_status t' = Completed" "task_below h t'"
      using process_pending_round(3)[OF Suc.prems(1) nxt refl] by blast
    from find_task_SomeD[OF t'(1)] have "t' \<in> set (task_queue ?s)" and id: "qt_id t' = qt_id h" by auto
    then have "t' \<in> set (task_queue (rounds E n ?s))" using finished_row_stays[OF r(1,2)] t'(2) by blast
    from find_task_member[OF inv this] t' id True show ?thesis by (simp add: len)
  next
    case False
    with Suc.prems(3) p have "t \<in> set (get_pending_tasks ?s)"
      unfolding r(3) by (metis set_ConsD)
    with Suc.hyps(1)[OF n r(1,2)] show ?thesis by (simp add: len n[symmetric])
  qed
qed simp

section \<open>Properties\<close>

text \<open>C21. Whatever users request, wherever the process is restarted and whatever happens elsewhere: ids stay
  unique, at most one task runs, the counters of every task count its results, the results are those of
  its first items in order, a completed task has a result for every item, and the processor works on a
  running task exactly where its results end. No task changes its kind, owner or items; results are only
  appended; a finished task never changes; a cancelled task has no result.
\<close>

theorem bulk_runs_sound:
  assumes "bulk_inv c" and "(bulk_step E)\<^sup>*\<^sup>* c c'"
  shows "bulk_inv c' \<and> bulk_below c c'"
  using bulk.steps_inv[OF assms(2,1)] bulk.steps_below[OF assms(2,1)] by blast

text \<open>The items performed one after the other, without the table of tasks: the reference for \<open>process_task\<close>.\<close>

fun perform_all :: "'w proxmox_api \<Rightarrow> string \<Rightarrow> bulk_item list \<Rightarrow> 'w bulk_state \<Rightarrow> item_result list \<times> 'w bulk_state" where
  "perform_all E act [] s = ([], s)"
| "perform_all E act (it # its) s =
     (case perform_item E act it s of (r, s1) \<Rightarrow>
        (case perform_all E act its s1 of (rs, s2) \<Rightarrow> (r # rs, s2)))"

lemma on_px_queue: "on_px m (s\<lparr>task_queue := q\<rparr>) = (case on_px m s of (x, s1) \<Rightarrow> (x, s1\<lparr>task_queue := q\<rparr>))"
  by (simp add: on_px_def case_prod_beta)

lemma new_client_queue:
  "new_proxmox_client E i (s\<lparr>task_queue := q\<rparr>) =
     (case new_proxmox_client E i s of (x, s1) \<Rightarrow> (x, s1\<lparr>task_queue := q\<rparr>))"
  by (simp add: new_proxmox_client_def on_px_def case_prod_beta split: option.split)

lemma perform_item_queue:
  "perform_item E act it (s\<lparr>task_queue := q\<rparr>) =
     (case perform_item E act it s of (r, s1) \<Rightarrow> (r, s1\<lparr>task_queue := q\<rparr>))"
proof -
  have "get_proxmox_client E i (s\<lparr>task_queue := q\<rparr>) =
      (case get_proxmox_client E i s of (x, s1) \<Rightarrow> (x, s1\<lparr>task_queue := q\<rparr>))" for i
    by (simp add: get_proxmox_client_def new_client_queue on_px_queue case_prod_beta split: option.split bool.split)
  then show ?thesis by (simp add: perform_item_def on_px_queue case_prod_beta split: option.split)
qed

lemma perform_all_keys: "map result_key (fst (perform_all E act its s)) = map item_key its"
  by (induction its arbitrary: s) (simp_all add: case_prod_beta perform_item_key)

definition with_results :: "item_result list \<Rightarrow> item_result list \<Rightarrow> queue_task \<Rightarrow> queue_task" where
  "with_results before rs t = t\<lparr>qt_results := (if rs = [] then qt_results t else before @ rs),
     qt_completed := qt_completed t + length (filter re_success rs),
     qt_failed := qt_failed t + length (filter (\<lambda>r. \<not> re_success r) rs)\<rparr>"

lemma update_first_twice:
  "(\<And>x. P x \<Longrightarrow> P (g x)) \<Longrightarrow> update_first P f (update_first P g xs) = update_first P (\<lambda>x. f (g x)) xs"
  by (induction xs) auto

lemma run_items_reference:
  "run_items E i act before its (s\<lparr>task_queue := q\<rparr>) =
     (case perform_all E act its s of (rs, u) \<Rightarrow>
        u\<lparr>task_queue := update_first (\<lambda>t. qt_id t = i) (with_results before rs) q\<rparr>)"
proof (induction its arbitrary: before s q)
  case Nil
  have "update_first P (with_results before []) xs = xs" for P and xs :: "queue_task list"
    by (induction xs) (simp_all add: with_results_def)
  then show ?case by simp
next
  case (Cons it its)
  obtain r s1 where r: "perform_item E act it s = (r, s1)" by fastforce
  obtain rs u where u: "perform_all E act its s1 = (rs, u)" by fastforce
  have "(\<lambda>t. with_results (before @ [r]) rs (count_result before r t)) = with_results before (r # rs)"
    by (rule ext) (simp add: with_results_def count_result_def Let_def)
  then show ?case
    using Cons.IH [where before = "before @ [r]" and s = s1]
    by (simp add: run_item_def perform_item_queue r u store_task_def update_first_twice count_result_def Let_def)
qed

text \<open>C25. Processing the pending task whose turn it is comes to this: its items are performed one after the other, in
  their order; the task is completed with one result for each of them and with counters that count these results, it
  started before the first item and ended after the last; no other task changes.\<close>

theorem process_pending_reports:
  assumes "bulk_inv (None, s)" and "next_task s = Some t" and "map_of action_map (qt_type t) = Some act"
    and "perform_all E act (qt_data t) s = (rs, u)"
  shows "process_pending_tasks E s = (1, u\<lparr>task_queue := map (\<lambda>x. if qt_id x = qt_id t
       then t\<lparr>qt_status := Completed, qt_results := rs,
              qt_completed := length (filter re_success rs), qt_failed := length (filter (\<lambda>r. \<not> re_success r) rs),
              qt_started_at := Some (utcnow E s), qt_completed_at := Some (utcnow E u)\<rparr>
       else x) (task_queue s)\<rparr>) \<and>
    map (\<lambda>r. (re_server_id r, re_vmid r, re_name r)) rs = map (\<lambda>i. (it_server_id i, it_vmid i, it_name i)) (qt_data t)"
proof -
  note t = next_taskD [OF assms(1,2)]
  have u: "unique_on qt_id (task_queue s)" using assms(1) by (simp add: bulk_inv_def table_ok_def)
  have zero: "qt_results t = []" "qt_completed t = 0" "qt_failed t = 0" "qt_total t = length (qt_data t)"
    using t(2,7) by (auto simp: task_ok_def)
  have only: "x = t" if "x \<in> set (task_queue s)" "qt_id x = qt_id t" for x
    using unique_row [OF u that(1) t(1) that(2)] .
  let ?start = "\<lambda>x. x\<lparr>qt_status := Running, qt_started_at := Some (utcnow E s)\<rparr>"
  have done_t: "(with_results [] rs (?start t))\<lparr>qt_status := Completed, qt_completed_at := Some (utcnow E u)\<rparr> =
      t\<lparr>qt_status := Completed, qt_results := rs,
        qt_completed := length (filter re_success rs), qt_failed := length (filter (\<lambda>r. \<not> re_success r) rs),
        qt_started_at := Some (utcnow E s), qt_completed_at := Some (utcnow E u)\<rparr>"
    using zero by (cases t) (simp add: with_results_def)
  let ?q = "update_first (\<lambda>x. qt_id x = qt_id t) ?start (task_queue s)"
  have run: "run_items E (qt_id t) act [] (qt_data t) (s\<lparr>task_queue := ?q\<rparr>) =
      u\<lparr>task_queue := update_first (\<lambda>x. qt_id x = qt_id t) (with_results [] rs) ?q\<rparr>"
    using run_items_reference [where E = E and i = "qt_id t" and act = act and before = "[]" and its = "qt_data t" and s = s and q = ?q] assms(4) by simp
  have now: "utcnow E (u\<lparr>task_queue := q\<rparr>) = utcnow E u" for q by (simp add: utcnow_def)
  let ?fin = "\<lambda>x. x\<lparr>qt_status := Completed, qt_completed_at := Some (utcnow E u)\<rparr>"
  have "process_pending_tasks E s = (1, finish_task E (qt_id t) (run_items E (qt_id t) act [] (qt_data t) (s\<lparr>task_queue := ?q\<rparr>)))"
    by (simp add: process_pending_tasks_def assms(2) process_task_def begin_task_pending [OF assms(1-3)] store_task_def)
  also have "\<dots> = (1, u\<lparr>task_queue := update_first (\<lambda>x. qt_id x = qt_id t) (\<lambda>x. ?fin (with_results [] rs (?start x))) (task_queue s)\<rparr>)"
    unfolding run by (simp add: finish_task_def store_task_def now update_first_twice with_results_def)
  also have "\<dots> = (1, u\<lparr>task_queue := map (\<lambda>x. if qt_id x = qt_id t then ?fin (with_results [] rs (?start x)) else x) (task_queue s)\<rparr>)"
    by (simp only: update_first_map [OF u])
  also have "map (\<lambda>x. if qt_id x = qt_id t then ?fin (with_results [] rs (?start x)) else x) (task_queue s) =
      map (\<lambda>x. if qt_id x = qt_id t
       then t\<lparr>qt_status := Completed, qt_results := rs,
              qt_completed := length (filter re_success rs), qt_failed := length (filter (\<lambda>r. \<not> re_success r) rs),
              qt_started_at := Some (utcnow E s), qt_completed_at := Some (utcnow E u)\<rparr>
       else x) (task_queue s)"
    using only done_t by (intro map_cong refl) (metis (lifting))
  finally show ?thesis
    using perform_all_keys [of E act "qt_data t" s] assms(4)
    by (simp add: result_key_def [abs_def] item_key_def [abs_def])
qed

text \<open>C22. When no task is running, every round takes the task created first among the pending ones; after as
  many rounds as there are pending tasks each of them is completed with one result per item, whatever
  the servers answered.
\<close>

theorem queue_drains_in_order:
  assumes "bulk_inv (None, s)" and "get_running_tasks s = []"
  shows "(\<forall>k. get_pending_tasks (rounds E k s) = drop k (get_pending_tasks s)) \<and>
    (\<forall>t \<in> set (get_pending_tasks s).
       \<exists>t'. find_task (qt_id t) (rounds E (length (get_pending_tasks s)) s) = Some t' \<and>
         qt_status t' = Completed \<and> task_below t t' \<and>
         map (\<lambda>r. (re_server_id r, re_vmid r, re_name r)) (qt_results t') =
           map (\<lambda>i. (it_server_id i, it_vmid i, it_name i)) (qt_data t) \<and>
         qt_completed t' = length (filter re_success (qt_results t')) \<and>
         qt_completed t' + qt_failed t' = length (qt_data t))"
proof -
  have "get_pending_tasks (rounds E k s) = drop k (get_pending_tasks s)" for k
    using assms
  proof (induction k arbitrary: s)
    case (Suc k)
    then show ?case using one_round[OF Suc.prems refl, of E] by (simp add: drop_Suc)
  qed simp
  moreover have "map (\<lambda>r. (re_server_id r, re_vmid r, re_name r)) (qt_results t') =
        map (\<lambda>i. (it_server_id i, it_vmid i, it_name i)) (qt_data t) \<and>
      qt_completed t' = length (filter re_success (qt_results t')) \<and> qt_completed t' + qt_failed t' = length (qt_data t)"
    if "find_task i (rounds E n s) = Some t'" "qt_status t' = Completed" "task_below t t'" for i n t t'
  proof -
    have "task_ok t'"
      using rounds_inv [OF assms(1), of E n] find_task_SomeD [OF that(1)] by (auto simp: bulk_inv_def table_ok_def)
    moreover have "qt_data t' = qt_data t" using that(3) by (simp add: task_below_def)
    ultimately show ?thesis
      using that(2) sum_length_filter_compl [of re_success "qt_results t'"]
      by (simp add: task_ok_def result_key_def [abs_def] item_key_def [abs_def])
  qed
  ultimately show ?thesis using pending_done[OF assms, of _ E] by meson
qed

text \<open>C27. While an interrupted task is still marked as running, no round processes anything. The clean-up at
  start marks exactly that task as failed, keeps its results and leaves every other task, finished or pending, as it
  is, so that the queue goes on.
\<close>

theorem recovery_unblocks:
  assumes "bulk_inv (Some j, s)"
  shows "process_pending_tasks E s = (0, s) \<and>
    (\<exists>t. find_task (jb_task j) s = Some t \<and> qt_results t = jb_results j \<and>
       recover_interrupted_tasks E s = (1, s\<lparr>task_queue := map (\<lambda>x. if qt_id x = jb_task j
         then t\<lparr>qt_status := Failed, qt_error := Some ''Interrupted by backend restart'', qt_completed_at := Some (utcnow E s)\<rparr>
         else x) (task_queue s)\<rparr>)) \<and>
    (let s' = snd (recover_interrupted_tasks E s) in
      bulk_inv (None, s') \<and> get_running_tasks s' = [] \<and> get_pending_tasks s' = get_pending_tasks s)"
proof -
  obtain t where t: "t \<in> set (task_queue s)" "qt_id t = jb_task j" "qt_status t = Running"
    "qt_results t = jb_results j"
    using assms by (auto simp: bulk_inv_def job_ok_def)
  then have mem: "t \<in> set (get_running_tasks s)" by (simp add: get_running_tasks_def)
  moreover have "length (get_running_tasks s) \<le> 1"
    using assms by (simp add: bulk_inv_def table_ok_def get_running_tasks_def)
  ultimately have run: "get_running_tasks s = [t]" by (cases "get_running_tasks s") auto
  have inv: "bulk_inv (None, s)" using assms by (simp add: bulk_inv_def job_ok_def)
  let ?s = "snd (recover_interrupted_tasks E s)" and ?i = "interrupt (utcnow E s)"
  have inv': "bulk_inv (None, ?s)" using recover_step[OF inv] by blast
  have u: "unique_on qt_id (task_queue s)" using assms by (simp add: bulk_inv_def table_ok_def)
  have "?i x = (if qt_id x = jb_task j
      then t\<lparr>qt_status := Failed, qt_error := Some ''Interrupted by backend restart'', qt_completed_at := Some (utcnow E s)\<rparr>
      else x)" if "x \<in> set (task_queue s)" for x
  proof (cases "qt_status x = Running")
    case True
    then have "x \<in> set (get_running_tasks s)" using that by (simp add: get_running_tasks_def)
    then have "x = t" by (simp add: run)
    then show ?thesis using t by (simp add: interrupt_def)
  next
    case False
    then have "qt_id x \<noteq> jb_task j" using unique_row [OF u that t(1)] t(2,3) by auto
    then show ?thesis using False by (simp add: interrupt_def)
  qed
  then have rows: "recover_interrupted_tasks E s = (1, s\<lparr>task_queue := map (\<lambda>x. if qt_id x = jb_task j
      then t\<lparr>qt_status := Failed, qt_error := Some ''Interrupted by backend restart'', qt_completed_at := Some (utcnow E s)\<rparr>
      else x) (task_queue s)\<rparr>)"
    by (simp add: recover_interrupted_tasks_def run cong: map_cong)
  have "find_task (jb_task j) s = Some t" using find_task_member [OF inv t(1)] t(2) by simp
  moreover have "filter (\<lambda>t. qt_status t = Pending) (map ?i q) = filter (\<lambda>t. qt_status t = Pending) q" for q
    by (induction q) (auto simp: interrupt_def)
  then have "get_running_tasks ?s = [] \<and> get_pending_tasks ?s = get_pending_tasks s"
    by (auto simp: recover_interrupted_tasks_def get_pending_tasks_def get_running_tasks_def filter_empty_conv)
  moreover have "process_pending_tasks E s = (0, s)"
    using run by (auto simp: next_task_def process_pending_tasks_def split: list.split)
  ultimately show ?thesis using rows t(4) inv' by (auto simp: Let_def)
qed

text \<open>A bulk operation is accepted exactly for a holder of \<open>vm:manage\<close>, with a known action, at least one
  item, \<open>vm:delete\<close> for deletions and a target node for every item of a migration; it then appends one
  pending task of that user with these items. Any other request leaves the queue as it was.
\<close>

theorem bulk_operation_accepted_iff:
  "((\<exists>i. fst (create_bulk_operation E u act items s) = Inr i) \<longleftrightarrow>
      has_perm u ''vm:manage'' \<and>
      act \<in> {''start'', ''stop'', ''restart'', ''shutdown'', ''delete'', ''migrate''} \<and> items \<noteq> [] \<and>
      \<not> (act = ''delete'' \<and> \<not> has_perm u ''vm:delete'') \<and>
      \<not> (act = ''migrate'' \<and> list_ex (\<lambda>i. \<not> truthy_str (it_target_node i)) items)) \<and>
   (case create_bulk_operation E u act items s of
      (Inl e, s') \<Rightarrow> s' = s
    | (Inr i, s') \<Rightarrow> i = next_task_id s \<and>
        (\<exists>t. task_queue s' = task_queue s @ [t] \<and> qt_id t = i \<and> qt_type t = ''bulk_'' @ act \<and>
           qt_status t = Pending \<and> qt_user_id t = user_id u \<and> qt_data t = items))"
  by (auto simp: create_bulk_operation_def create_task_def PermissionChecker_def auth_check_permission_def
      action_to_task_type_def TASK_TYPES_def split: if_splits)

lemma power_action_ok:
  "act \<in> {''start'', ''stop'', ''restart'', ''shutdown''} \<Longrightarrow>
   fst (run_state (execute_vm_action E c act vmid ty node target online) p) = (True, ''OK'')"
  by (auto simp: execute_vm_action_def ignored_def case_prod_beta)

lemma known_server_client:
  assumes "\<exists>sv. find (\<lambda>sv. sv_id sv = i) (servers s) = Some sv \<and> has_credentials sv"
  shows "fst (get_proxmox_client E i s) \<noteq> None"
proof -
  have "fst (new_proxmox_client E i r) \<noteq> None" if "servers r = servers s" for r
    using assms that by (auto simp: new_proxmox_client_def case_prod_beta)
  then show ?thesis
    by (auto simp: get_proxmox_client_def case_prod_beta split: option.split bool.split)
qed

lemma perform_power_item:
  assumes "act \<in> {''start'', ''stop'', ''restart'', ''shutdown''}"
    and "\<exists>sv. find (\<lambda>sv. sv_id sv = it_server_id it) (servers s) = Some sv \<and> has_credentials sv"
  shows "re_success (fst (perform_item E act it s))"
  using known_server_client[OF assms(2), of E]
  by (auto simp: perform_item_def on_px_def item_result_of_def case_prod_beta power_action_ok[OF assms(1)])


lemma run_items_all:
  assumes "\<And>s it. servers s = svs \<Longrightarrow> it \<in> set its \<Longrightarrow> Q (fst (perform_item E act it s))"
    and "servers s = svs" and "find_task i s = Some t" "qt_results t = rs" "\<forall>r \<in> set rs. Q r"
  shows "\<exists>t'. find_task i (run_items E i act rs its s) = Some t' \<and> (\<forall>r \<in> set (qt_results t'). Q r)"
  using assms
proof (induction its arbitrary: rs s t)
  case (Cons it its)
  let ?r = "fst (perform_item E act it s)" and ?s = "snd (run_item E i act rs it s)"
  have row: "find_task i ?s = Some (count_result rs ?r t)" and sv: "servers ?s = svs"
    using Cons.prems by (simp_all add: run_item_def case_prod_beta find_task_def find_updated count_result_def Let_def)
  have Q: "Q ?r" using Cons.prems(1)[of s it] Cons.prems(2) by simp
  have "\<exists>t'. find_task i (run_items E i act (rs @ [?r]) its ?s) = Some t' \<and> (\<forall>r \<in> set (qt_results t'). Q r)"
    using Cons.prems(1,5) Q by (intro Cons.IH[OF _ sv row]) (auto simp: count_result_def Let_def)
  then show ?case by (simp add: case_prod_beta run_item_def)
qed auto

lemma process_pending_all:
  assumes inv: "bulk_inv (None, s)" and nxt: "next_task s = Some t"
    and act: "map_of action_map (qt_type t) = Some act"
    and Q: "\<And>r it. servers r = servers s \<Longrightarrow> it \<in> set (qt_data t) \<Longrightarrow> Q (fst (perform_item E act it r))"
  shows "\<exists>t'. find_task (qt_id t) (snd (process_pending_tasks E s)) = Some t' \<and>
    qt_status t' = Completed \<and> task_ok t' \<and> (\<forall>r \<in> set (qt_results t'). Q r)"
proof -
  note p = next_taskD[OF inv nxt]
  let ?f = "\<lambda>t. t\<lparr>qt_status := Running, qt_started_at := Some (utcnow E s)\<rparr>"
  let ?s = "store_task (qt_id t) ?f s"
  have row: "find_task (qt_id t) ?s = Some (?f t)" using p(4) by (simp add: find_task_def find_updated)
  have "qt_results (?f t) = []" using p(2,7) by (simp add: task_ok_def)
  with run_items_all[where E = E and act = act and Q = Q and svs = "servers s" and its = "qt_data t" and
      rs = "[]", OF Q _ row] obtain u where
    u: "find_task (qt_id t) (run_items E (qt_id t) act [] (qt_data t) ?s) = Some u" "\<forall>r \<in> set (qt_results u). Q r"
    by auto
  then have "find_task (qt_id t) (snd (process_pending_tasks E s)) =
      Some (u\<lparr>qt_status := Completed, qt_completed_at :=
        Some (utcnow E (run_items E (qt_id t) act [] (qt_data t) ?s))\<rparr>)"
    by (simp add: process_pending_tasks_def nxt process_task_def begin_task_pending[OF inv nxt act]
        finish_task_def find_task_def find_updated)
  moreover from this have "task_ok (u\<lparr>qt_status := Completed, qt_completed_at :=
      Some (utcnow E (run_items E (qt_id t) act [] (qt_data t) ?s))\<rparr>)"
    using process_pending_round(1)[OF inv nxt refl, of E]
    by (auto simp: bulk_inv_def table_ok_def dest: find_task_SomeD)
  ultimately show ?thesis using u(2) by simp
qed

text \<open>A bulk start, stop, restart or shutdown of guests whose servers are stored with credentials ends as
  completed with every item counted as a success, whatever the servers answer: also when no connection
  can be opened, or when every request is refused.
\<close>

theorem power_failures_reported_completed:
  assumes "bulk_inv (None, s)" and "next_task s = Some t"
    and "qt_type t \<in> {''bulk_start'', ''bulk_stop'', ''bulk_restart'', ''bulk_shutdown''}"
    and "\<forall>it \<in> set (qt_data t). \<exists>sv. find (\<lambda>sv. sv_id sv = it_server_id it) (servers s) = Some sv \<and>
      has_credentials sv"
  shows "\<exists>t'. find_task (qt_id t) (snd (process_pending_tasks E s)) = Some t' \<and>
    qt_status t' = Completed \<and> qt_completed t' = length (qt_data t') \<and> qt_failed t' = 0"
proof -
  obtain act where act: "map_of action_map (qt_type t) = Some act"
    "act \<in> {''start'', ''stop'', ''restart'', ''shutdown''}"
    using assms(3) by (auto simp: action_map_def)
  have "re_success (fst (perform_item E act it r))"
    if "servers r = servers s" "it \<in> set (qt_data t)" for r it
    using that assms(4) by (intro perform_power_item[OF act(2)]) auto
  from process_pending_all[where Q = re_success, OF assms(1,2) act(1) this]
  obtain t' where t': "find_task (qt_id t) (snd (process_pending_tasks E s)) = Some t'"
    "qt_status t' = Completed" "task_ok t'" "\<forall>r \<in> set (qt_results t'). re_success r" by blast
  then have "filter re_success (qt_results t') = qt_results t'" "filter (\<lambda>r. \<not> re_success r) (qt_results t') = []"
    by (simp_all add: filter_empty_conv)
  with t' show ?thesis by (auto simp: task_ok_def)
qed

section \<open>A server that never answers\<close>

definition silent_api :: "int proxmox_api" where
  "silent_api = \<lparr>api_connect = \<lambda>a w. (Some (PyException ''no route to host'' None False), w),
     api_call = \<lambda>a rq w. (Inl (PyException ''timed out'' None False), w),
     api_now = \<lambda>w. w, api_sleep = \<lambda>t w. w + t\<rparr>"

definition silent_server :: server where
  "silent_server = \<lparr>sv_id = 1, sv_name = ''pve'', sv_hostname = ''pve'', sv_ip_address = ''10.0.0.2'',
     sv_port = 8006, sv_api_user = ''root@pam'', sv_api_token_name = Some ''panel'',
     sv_api_token_value = Some ''secret'', sv_use_password = False, sv_password = None,
     sv_verify_ssl = True\<rparr>"

definition bulk_admin :: user where
  "bulk_admin = \<lparr>user_id = 1, username = ''admin'', email = ''a'', hashed_password = ''h'', full_name = None,
     is_active = True, is_admin = True, user_role_id = None, user_role = None, language = ''en'',
     failed_login_attempts = 0, locked_until = None, last_password_change = None,
     require_password_change = False, two_factor_enabled = False, two_factor_secret = None,
     two_factor_backup_codes = None, last_login = None\<rparr>"

definition web_guest :: bulk_item where
  "web_guest = \<lparr>it_server_id = 1, it_vmid = 100, it_vm_type = ''qemu'', it_name = ''web'', it_node = ''n'',
     it_target_node = None, it_online = None\<rparr>"

definition empty_bulk :: "int bulk_state" where
  "empty_bulk = \<lparr>task_queue = [], next_task_id = 1, servers = [silent_server], proxmox_clients = [],
     px = \<lparr>connection_cache = [], px_world = 0\<rparr>\<rparr>"

definition two_tasks :: "int bulk_state" where
  "two_tasks = snd (create_bulk_operation silent_api bulk_admin ''stop'' [web_guest, web_guest]
     (snd (create_bulk_operation silent_api bulk_admin ''start'' [web_guest] empty_bulk)))"

lemma empty_bulk_inv: "bulk_inv (None, empty_bulk)"
  by (simp add: bulk_inv_def table_ok_def job_ok_def empty_bulk_def unique_on_def)

lemma two_tasks_reached: "(bulk_step silent_api)\<^sup>*\<^sup>* (None, empty_bulk) (None, two_tasks)"
  unfolding two_tasks_def
  by (rule rtranclp.rtrancl_into_rtrancl[OF r_into_rtranclp]; rule bulk_step.Created; rule prod.collapse[symmetric])

lemma two_tasks_rows:
  "get_pending_tasks two_tasks = task_queue two_tasks" "get_running_tasks two_tasks = []"
  "length (task_queue two_tasks) = 2" "next_task two_tasks = Some (hd (task_queue two_tasks))"
  "qt_type (hd (task_queue two_tasks)) = ''bulk_start''" "qt_data (hd (task_queue two_tasks)) = [web_guest]"
  "servers two_tasks = [silent_server]" "qt_id (hd (task_queue two_tasks)) = 1"
  by (simp_all add: two_tasks_def create_bulk_operation_def create_task_def PermissionChecker_def bulk_admin_def
      has_permission_def action_to_task_type_def TASK_TYPES_def empty_bulk_def
      get_pending_tasks_def get_running_tasks_def next_task_def utcnow_def auth_check_permission_def)

lemma bulk_runs_sound_witness:
  "bulk_inv (None, two_tasks) \<and> bulk_below (None, empty_bulk) (None, two_tasks)"
  by (rule bulk_runs_sound[OF empty_bulk_inv two_tasks_reached])

lemma two_tasks_inv: "bulk_inv (None, two_tasks)"
  by (rule bulk.steps_inv[OF two_tasks_reached empty_bulk_inv])

lemma queue_drains_in_order_witness:
  "get_pending_tasks (rounds silent_api 1 two_tasks) = tl (task_queue two_tasks) \<and>
   get_pending_tasks (rounds silent_api 2 two_tasks) = []"
  using queue_drains_in_order[OF two_tasks_inv two_tasks_rows(2), of silent_api, THEN conjunct1, THEN spec]
  by (metis (no_types) One_nat_def drop_0 drop_Suc drop_all order.refl two_tasks_rows(1,3))

lemma interrupted_inv: "bulk_inv (Some \<lparr>jb_task = 1, jb_action = ''start'', jb_items = [web_guest], jb_results = []\<rparr>,
     snd (begin_task silent_api 1 two_tasks))"
proof -
  have "map_of action_map (qt_type (hd (task_queue two_tasks))) = Some ''start''"
    by (simp add: two_tasks_rows action_map_def)
  from begin_task_pending[OF two_tasks_inv two_tasks_rows(4) this, of silent_api]
    begin_step[OF two_tasks_inv two_tasks_rows(4), of silent_api]
  show ?thesis by (simp add: two_tasks_rows)
qed

lemma recovery_unblocks_witness:
  "fst (process_pending_tasks silent_api (snd (begin_task silent_api 1 two_tasks))) = 0 \<and>
   fst (recover_interrupted_tasks silent_api (snd (begin_task silent_api 1 two_tasks))) = 1"
  using recovery_unblocks[OF interrupted_inv, of silent_api] by auto

lemma process_pending_reports_witness:
  "\<exists>r u. perform_all silent_api ''start'' [web_guest] two_tasks = ([r], u) \<and>
     re_vmid r = 100 \<and> re_success r \<and> fst (process_pending_tasks silent_api two_tasks) = 1 \<and>
     qt_results (hd (task_queue (snd (process_pending_tasks silent_api two_tasks)))) = [r]"
proof -
  obtain rs u where p: "perform_all silent_api ''start'' [web_guest] two_tasks = (rs, u)" by fastforce
  then obtain r where r: "rs = [r]" "r = fst (perform_item silent_api ''start'' web_guest two_tasks)"
    by (auto simp: case_prod_beta)
  have act: "map_of action_map (qt_type (hd (task_queue two_tasks))) = Some ''start''"
    by (simp add: two_tasks_rows action_map_def)
  have ok: "re_success r"
    unfolding r(2) by (rule perform_power_item) (simp_all add: two_tasks_rows web_guest_def silent_server_def has_credentials_def)
  have hd: "hd (map f (task_queue two_tasks)) = f (hd (task_queue two_tasks))" for f :: "queue_task \<Rightarrow> queue_task"
    using two_tasks_rows(3) by (cases "task_queue two_tasks") auto
  show ?thesis
    using process_pending_reports [OF two_tasks_inv two_tasks_rows(4) act, of silent_api rs u] p ok
    by (simp add: two_tasks_rows r(1) hd web_guest_def)
qed

lemma power_failures_reported_completed_witness:
  "\<exists>t'. find_task 1 (snd (process_pending_tasks silent_api two_tasks)) = Some t' \<and>
    qt_status t' = Completed \<and> qt_completed t' = length (qt_data t') \<and> qt_failed t' = 0"
  using power_failures_reported_completed[OF two_tasks_inv two_tasks_rows(4), of silent_api]
  by (simp add: two_tasks_rows web_guest_def silent_server_def has_credentials_def)

end
