(* ===== verification/ProxmoxProps.thy ===== *)
theory ProxmoxProps
  imports Guests
begin

text \<open>
  Facts about the Proxmox client. The loops that poll end by the clock: \<open>clock_ok\<close> says of the
  parameter that time does not run backwards during a request and that \<open>time.sleep\<close> sleeps at least as
  long as it is told, which is what the Python documentation promises. \<open>traced\<close> is the same API with
  every request and its answer written down, so that a theorem can speak of what was sent.
\<close>

section \<open>Clock and trace\<close>

definition clock_ok :: "'w proxmox_api \<Rightarrow> bool" where
  "clock_ok E \<longleftrightarrow> (\<forall>t w. 0 \<le> t \<longrightarrow> api_now E w + t \<le> api_now E (api_sleep E t w)) \<and>
     (\<forall>a rq w. api_now E w \<le> api_now E (snd (api_call E a rq w)))"

type_synonym trace = "(api_request \<times> (py_exception + json)) list"

definition traced :: "'w proxmox_api \<Rightarrow> ('w \<times> trace) proxmox_api" where
  "traced E = \<lparr>
     api_connect = \<lambda>a (w, tr). (case api_connect E a w of (r, w') \<Rightarrow> (r, (w', tr))),
     api_call = \<lambda>a rq (w, tr). (case api_call E a rq w of (r, w') \<Rightarrow> (r, (w', tr @ [(rq, r)]))),
     api_now = \<lambda>(w, tr). api_now E w,
     api_sleep = \<lambda>t (w, tr). (api_sleep E t w, tr)\<rparr>"

definition trace_of :: "('w \<times> trace) px_state \<Rightarrow> trace" where
  "trace_of s = snd (px_world s)"

definition time_of :: "'w proxmox_api \<Rightarrow> ('w \<times> trace) px_state \<Rightarrow> int" where
  "time_of E s = api_now E (fst (px_world s))"

lemma traced_now [simp]: "api_now (traced E) (px_world s) = time_of E s"
  by (simp add: traced_def time_of_def case_prod_beta)

lemma traced_sleep [simp]:
  "trace_of (s\<lparr>px_world := api_sleep (traced E) t (px_world s)\<rparr>) = trace_of s"
  "clock_ok E \<Longrightarrow> 0 \<le> t \<Longrightarrow> time_of E s + t \<le> time_of E (s\<lparr>px_world := api_sleep (traced E) t (px_world s)\<rparr>)"
  by (simp_all add: traced_def trace_of_def time_of_def clock_ok_def case_prod_beta)

lemma traced_call [simp]:
  "trace_of (s\<lparr>px_world := snd (api_call (traced E) a rq (px_world s))\<rparr>) =
     trace_of s @ [(rq, fst (api_call (traced E) a rq (px_world s)))]"
  "clock_ok E \<Longrightarrow> time_of E s \<le> time_of E (s\<lparr>px_world := snd (api_call (traced E) a rq (px_world s))\<rparr>)"
  by (simp_all add: traced_def trace_of_def time_of_def clock_ok_def case_prod_beta)

section \<open>Loops that poll\<close>

text \<open>
  Total correctness of \<open>poll\<close>: an invariant and a measure that every turn without a result decreases.
\<close>

lemma poll_rule:
  fixes m :: "'s \<Rightarrow> nat"
  assumes "P s"
    and step: "\<And>s s1 s2. P s \<Longrightarrow> run_state cond s = (True, s1) \<Longrightarrow> run_state body s1 = (None, s2) \<Longrightarrow>
      P s2 \<and> m s2 < m s"
  shows "\<exists>s0 s1. P s0 \<and>
    (run_state cond s0 = (False, s1) \<and> poll cond body s = Some (None, s1) \<or>
     (\<exists>x s2. run_state cond s0 = (True, s1) \<and> run_state body s1 = (Some x, s2) \<and>
        poll cond body s = Some (Some x, s2)))"
  using assms(1)
proof (induction "m s" arbitrary: s rule: less_induct)
  case less
  obtain go s1 where c: "run_state cond s = (go, s1)" by fastforce
  obtain r s2 where b: "run_state body s1 = (r, s2)" by fastforce
  show ?case
  proof (cases "go \<and> r = None")
    case True
    with c b have "P s2 \<and> m s2 < m s" by (intro step[OF less.prems]) auto
    moreover have "poll cond body s = poll cond body s2"
      using c b True by (subst poll.simps) simp
    ultimately show ?thesis using less.hyps[of s2] by simp
  next
    case False
    with c b show ?thesis
      by (intro exI[of _ s] exI[of _ s1]) (subst (1 2) poll.simps, auto simp: less.prems)
  qed
qed

text \<open>The loops of the client: a deadline, and turns that take at least \<open>d\<close> and send at most one request.\<close>

lemma deadline_poll:
  fixes s :: "('w \<times> trace) px_state"
  assumes "0 < d" "0 \<le> timeout"
    and turn: "\<And>s r s'. run_state body s = (r, s') \<Longrightarrow>
      (\<exists>new. trace_of s' = trace_of s @ new \<and> length new \<le> 1 \<and> list_all ok new \<and>
        (\<forall>x. r = Some x \<longrightarrow> R x new)) \<and> (r = None \<longrightarrow> time_of E s + d \<le> time_of E s')"
  shows "\<exists>r s' new. poll (before_deadline (traced E) (time_of E s) timeout) body s = Some (r, s') \<and>
    trace_of s' = trace_of s @ new \<and> int (length new) \<le> timeout div d + 1 \<and> list_all ok new \<and>
    (\<forall>x. r = Some x \<longrightarrow> (\<exists>pre last. new = pre @ last \<and> R x last))"
proof -
  define count where "count n \<longleftrightarrow> int (length n) \<le> timeout div d + 1" for n :: trace
  have count: "count (new @ n)" if "int (length new) * d < timeout" "length n \<le> 1" for new n
  proof -
    have "int (length new) = (int (length new) * d) div d" using assms(1) by simp
    also have "\<dots> \<le> timeout div d" using that(1) assms(1) by (intro zdiv_mono1) auto
    finally show ?thesis using that(2) by (simp add: count_def)
  qed
  define P where "P u \<longleftrightarrow> (\<exists>new. trace_of u = trace_of s @ new \<and> list_all ok new \<and> count new \<and>
    int (length new) * d \<le> time_of E u - time_of E s)" for u
  have cond: "run_state (before_deadline (traced E) (time_of E s) timeout) u =
      (time_of E u - time_of E s < timeout, u)" for u
    by (simp add: before_deadline_def)
  have extend: "\<exists>new n. trace_of u2 = trace_of s @ new @ n \<and> list_all ok (new @ n) \<and> count (new @ n) \<and>
      int (length (new @ n)) * d \<le> time_of E u - time_of E s + d \<and> (\<forall>x. r = Some x \<longrightarrow> R x n)"
    if "P u" "time_of E u - time_of E s < timeout" "run_state body u = (r, u2)" for u u2 r
  proof -
    from turn[OF that(3)] obtain n where n: "trace_of u2 = trace_of u @ n" "length n \<le> 1" "list_all ok n"
      "\<forall>x. r = Some x \<longrightarrow> R x n" by auto
    from that(1) obtain new where new: "trace_of u = trace_of s @ new" "list_all ok new"
      "int (length new) * d \<le> time_of E u - time_of E s" unfolding P_def by blast
    have "int (length n) * d \<le> d" using n(2) assms(1) by (cases n) auto
    with n new count[of new n] that(2) show ?thesis
      by (intro exI[of _ new] exI[of _ n]) (auto simp: distrib_right)
  qed
  have "count []" using assms by (simp add: count_def pos_imp_zdiv_nonneg_iff)
  then have "P s" by (auto simp: P_def)
  moreover have "P u2 \<and> nat (time_of E s + timeout - time_of E u2) < nat (time_of E s + timeout - time_of E u)"
    if "P u" "run_state (before_deadline (traced E) (time_of E s) timeout) u = (True, u1)"
      "run_state body u1 = (None, u2)" for u u1 u2
  proof -
    from that(2) have u1: "u1 = u" "time_of E u - time_of E s < timeout" by (auto simp: cond)
    with that(3) have b: "run_state body u = (None, u2)" by simp
    from turn[OF b] have t: "time_of E u + d \<le> time_of E u2" by blast
    with extend[OF that(1) u1(2) b] have "P u2" unfolding P_def by force
    with t u1(2) assms(1) show ?thesis by auto
  qed
  ultimately obtain s0 s1 where s0: "P s0" and res:
    "run_state (before_deadline (traced E) (time_of E s) timeout) s0 = (False, s1) \<and>
       poll (before_deadline (traced E) (time_of E s) timeout) body s = Some (None, s1) \<or>
     (\<exists>x s2. run_state (before_deadline (traced E) (time_of E s) timeout) s0 = (True, s1) \<and>
       run_state body s1 = (Some x, s2) \<and>
       poll (before_deadline (traced E) (time_of E s) timeout) body s = Some (Some x, s2))"
    using poll_rule[where P = P and m = "\<lambda>u. nat (time_of E s + timeout - time_of E u)"] by blast
  from res show ?thesis
  proof (elim disjE exE conjE)
    assume "run_state (before_deadline (traced E) (time_of E s) timeout) s0 = (False, s1)"
      and p: "poll (before_deadline (traced E) (time_of E s) timeout) body s = Some (None, s1)"
    then have "s1 = s0" by (simp add: cond)
    with s0 p show ?thesis by (auto simp: P_def count_def)
  next
    fix x s2
    assume "run_state (before_deadline (traced E) (time_of E s) timeout) s0 = (True, s1)"
      and b: "run_state body s1 = (Some x, s2)"
      and p: "poll (before_deadline (traced E) (time_of E s) timeout) body s = Some (Some x, s2)"
    then have u: "s1 = s0" "time_of E s0 - time_of E s < timeout" by (auto simp: cond)
    with extend[OF s0 u(2)] b obtain new n where "trace_of s2 = trace_of s @ new @ n"
      "list_all ok (new @ n)" "count (new @ n)" "R x n" by blast
    with p show ?thesis
      by (intro exI[of _ "Some x"] exI[of _ s2] exI[of _ "new @ n"]) (auto simp: count_def)
  qed
qed


section \<open>Waiting for a task\<close>

definition reports_success :: "(api_request \<times> (py_exception + json)) \<Rightarrow> bool" where
  "reports_success x \<longleftrightarrow> (\<exists>d t. snd x = Inr (JObj d) \<and> dget d ''status'' = JStr ''stopped'' \<and>
     dget d ''exitstatus'' = JStr t \<and> (t = ''OK'' \<or> prefix ''WARNINGS:'' t))"

lemma task_verdict_True:
  "task_verdict j = Some (Inr True) \<Longrightarrow> reports_success (rq, Inr j)"
  by (cases j) (auto simp: task_verdict_def reports_success_def split: if_splits json.splits)

lemma task_turn:
  assumes "clock_ok E" and "run_state (task_round (traced E) c node upid) s = (r, s')"
  shows "(\<exists>new. trace_of s' = trace_of s @ new \<and> length new \<le> 1 \<and>
      list_all (\<lambda>x. fst x = task_status_request node upid) new \<and>
      (\<forall>x. r = Some x \<longrightarrow> x = Inr True \<longrightarrow> new \<noteq> [] \<and> reports_success (last new))) \<and>
    (r = None \<longrightarrow> time_of E s + seconds 2 \<le> time_of E s')"
proof (cases "proxmox c")
  case None
  have "task_verdict (JObj []) = None" by (simp add: task_verdict_def)
  with None assms have "s' = s\<lparr>px_world := api_sleep (traced E) (seconds 2) (px_world s)\<rparr> \<and> r = None"
    by (auto simp: task_round_def get_task_status_def)
  with assms(1) show ?thesis by (auto simp: seconds_def)
next
  case (Some h)
  let ?rq = "task_status_request node upid"
  define a where "a = fst (api_call (traced E) h ?rq (px_world s))"
  define s1 where "s1 = s\<lparr>px_world := snd (api_call (traced E) h ?rq (px_world s))\<rparr>"
  define v where "v = task_verdict (case a of Inl _ \<Rightarrow> JObj [] | Inr j \<Rightarrow> j)"
  have r: "(r, s') = (case v of Some x \<Rightarrow> (Some x, s1)
      | None \<Rightarrow> (None, s1\<lparr>px_world := api_sleep (traced E) (seconds 2) (px_world s1)\<rparr>))"
    using assms(2) Some
    by (auto simp: task_round_def get_task_status_def a_def[symmetric] s1_def[symmetric] v_def
        split: sum.splits option.splits)
  have tr: "trace_of s1 = trace_of s @ [(?rq, a)]" unfolding s1_def a_def by (rule traced_call)
  have tm: "time_of E s \<le> time_of E s1" unfolding s1_def using assms(1) by (rule traced_call)
  have ok: "reports_success (?rq, a)" if "v = Some (Inr True)"
    using that task_verdict_True[of _ ?rq] by (cases a) (auto simp: v_def task_verdict_def)
  show ?thesis
  proof (cases v)
    case None
    with r have "r = None" and s': "s' = s1\<lparr>px_world := api_sleep (traced E) (seconds 2) (px_world s1)\<rparr>" by auto
    have "trace_of s' = trace_of s1" and "time_of E s1 + seconds 2 \<le> time_of E s'"
      unfolding s' using assms(1) by (auto simp: seconds_def)
    with tr tm \<open>r = None\<close> show ?thesis by (intro conjI exI[of _ "[(?rq, a)]"]) auto
  next
    case (Some x)
    with r have "r = Some x" "s' = s1" by auto
    with tr ok Some show ?thesis by (intro conjI exI[of _ "[(?rq, a)]"]) auto
  qed
qed

text \<open>C26. When the clock runs, \<open>wait_for_task\<close> returns, after at most one request in two seconds of the timeout
  and one more, all of them for the status of that task; and it answers \<open>True\<close> only when the last answer
  said that the task stopped with \<open>OK\<close> or with warnings.
\<close>

theorem wait_for_task_ends:
  assumes "clock_ok E" and "0 \<le> timeout"
  shows "\<exists>v s' new. wait_for_task (traced E) c node upid timeout s = Some (v, s') \<and>
    trace_of s' = trace_of s @ new \<and> int (length new) \<le> timeout div seconds 2 + 1 \<and>
    list_all (\<lambda>x. fst x = task_status_request node upid) new \<and>
    (v = Inr True \<longrightarrow> new \<noteq> [] \<and> reports_success (last new))"
proof -
  have "0 < seconds 2" by (simp add: seconds_def)
  from deadline_poll[where body = "task_round (traced E) c node upid" and s = s, OF this assms(2)
      task_turn[OF assms(1), where c = c and node = node and upid = upid]]
  obtain r s' new where p: "poll (before_deadline (traced E) (time_of E s) timeout)
      (task_round (traced E) c node upid) s = Some (r, s')" and new: "trace_of s' = trace_of s @ new"
    "int (length new) \<le> timeout div seconds 2 + 1" "list_all (\<lambda>x. fst x = task_status_request node upid) new"
    "\<forall>x. r = Some x \<longrightarrow> (\<exists>pre l. new = pre @ l \<and> (x = Inr True \<longrightarrow> l \<noteq> [] \<and> reports_success (last l)))"
    by blast
  show ?thesis
  proof (cases r)
    case None
    with p new show ?thesis by (auto simp: wait_for_task_def)
  next
    case (Some x)
    with p new show ?thesis by (auto simp: wait_for_task_def)
  qed
qed

section \<open>Restarting a virtual machine\<close>

definition saw_stopped :: "string \<Rightarrow> int \<Rightarrow> (api_request \<times> (py_exception + json)) \<Rightarrow> bool" where
  "saw_stopped node vmid x \<longleftrightarrow> fst x = status_request Qemu node vmid \<and>
     (\<exists>d. snd x = Inr (JObj d) \<and> dget d ''status'' = JStr ''stopped'')"

lemma stopped_turn:
  assumes "clock_ok E" and "run_state (stopped_round (traced E) c node vmid) s = (r, s')"
  shows "(\<exists>new. trace_of s' = trace_of s @ new \<and> length new \<le> 1 \<and>
      list_all (\<lambda>x. fst x = status_request Qemu node vmid) new \<and>
      (\<forall>x. r = Some x \<longrightarrow> x = Inr True \<longrightarrow> new \<noteq> [] \<and> saw_stopped node vmid (last new))) \<and>
    (r = None \<longrightarrow> time_of E s + seconds 1 \<le> time_of E s')"
proof (cases "proxmox c")
  case None
  with assms have "s' = s\<lparr>px_world := api_sleep (traced E) (seconds 1) (px_world s)\<rparr> \<and> r = None"
    by (auto simp: stopped_round_def get_vm_status_def guest_status_def dget_def)
  with assms(1) show ?thesis by (auto simp: seconds_def)
next
  case (Some h)
  let ?rq = "status_request Qemu node vmid"
  define a where "a = fst (api_call (traced E) h ?rq (px_world s))"
  define s1 where "s1 = s\<lparr>px_world := snd (api_call (traced E) h ?rq (px_world s))\<rparr>"
  define st where "st = (case a of Inl _ \<Rightarrow> JNull | Inr j \<Rightarrow> j)"
  define v where "v = json_get (if truthy_json st then st else JObj []) ''status''"
  have r: "(r, s') = (case v of Inl e \<Rightarrow> (Some (Inl e), s1)
      | Inr x \<Rightarrow> if x = JStr ''stopped'' then (Some (Inr True), s1)
          else (None, s1\<lparr>px_world := api_sleep (traced E) (seconds 1) (px_world s1)\<rparr>))"
  proof -
    have "run_state (get_vm_status (traced E) c node vmid) s = (st, s1)"
      by (simp add: Some get_vm_status_def guest_status_def a_def[symmetric] s1_def[symmetric] st_def)
    then have "run_state (case v of Inl e \<Rightarrow> return (Some (Inl e))
        | Inr x \<Rightarrow> if x = JStr ''stopped'' then return (Some (Inr True))
            else do { sleep (traced E) (seconds 1); return None }) s1 = (r, s')"
      using assms(2) by (simp add: stopped_round_def v_def)
    then show ?thesis by (auto split: sum.splits if_splits)
  qed
  have tr: "trace_of s1 = trace_of s @ [(?rq, a)]" unfolding s1_def a_def by (rule traced_call)
  have tm: "time_of E s \<le> time_of E s1" unfolding s1_def using assms(1) by (rule traced_call)
  have ok: "saw_stopped node vmid (?rq, a)" if "v = Inr (JStr ''stopped'')"
    using that by (cases a; cases st) (auto simp: v_def st_def saw_stopped_def dget_def split: if_splits)
  consider (stop) "v = Inr (JStr ''stopped'')" | (raise) e where "v = Inl e"
    | (other) x where "v = Inr x" "x \<noteq> JStr ''stopped''"
    by (cases v) auto
  then show ?thesis
  proof cases
    case stop
    with r have "r = Some (Inr True)" "s' = s1" by auto
    with tr ok stop show ?thesis by (intro conjI exI[of _ "[(?rq, a)]"]) auto
  next
    case raise
    with r have "r = Some (Inl e)" "s' = s1" by auto
    with tr show ?thesis by (intro conjI exI[of _ "[(?rq, a)]"]) auto
  next
    case other
    with r have "r = None" and s': "s' = s1\<lparr>px_world := api_sleep (traced E) (seconds 1) (px_world s1)\<rparr>" by auto
    have "trace_of s' = trace_of s1" and "time_of E s1 + seconds 1 \<le> time_of E s'"
      unfolding s' using assms(1) by (auto simp: seconds_def)
    with tr tm \<open>r = None\<close> show ?thesis by (intro conjI exI[of _ "[(?rq, a)]"]) auto
  qed
qed

lemma wait_vm_stopped_ends:
  assumes "clock_ok E" and "0 \<le> timeout"
  shows "\<exists>v s' new. wait_vm_stopped (traced E) c node vmid timeout s = Some (v, s') \<and>
    trace_of s' = trace_of s @ new \<and> list_all (\<lambda>x. fst x = status_request Qemu node vmid) new \<and>
    (v = Inr True \<longrightarrow> new \<noteq> [] \<and> saw_stopped node vmid (last new))"
proof -
  have "0 < seconds 1" by (simp add: seconds_def)
  from deadline_poll[where body = "stopped_round (traced E) c node vmid" and s = s, OF this assms(2)
      stopped_turn[OF assms(1), where c = c and node = node and vmid = vmid]]
  obtain r s' new where p: "poll (before_deadline (traced E) (time_of E s) timeout)
      (stopped_round (traced E) c node vmid) s = Some (r, s')" and new: "trace_of s' = trace_of s @ new"
    "list_all (\<lambda>x. fst x = status_request Qemu node vmid) new"
    "\<forall>x. r = Some x \<longrightarrow> (\<exists>pre l. new = pre @ l \<and> (x = Inr True \<longrightarrow> l \<noteq> [] \<and> saw_stopped node vmid (last l)))"
    by blast
  show ?thesis
  proof (cases r)
    case None
    with p new show ?thesis by (auto simp: wait_vm_stopped_def)
  next
    case (Some x)
    with p new show ?thesis by (auto simp: wait_vm_stopped_def)
  qed
qed

definition start_request :: "string \<Rightarrow> int \<Rightarrow> api_request" where
  "start_request node vmid = status_post Qemu node vmid ''start'' []"

text \<open>A trace in which the guest is started only at the end and only right after it was seen stopped.\<close>

definition starts_safely :: "string \<Rightarrow> int \<Rightarrow> trace \<Rightarrow> bool" where
  "starts_safely node vmid new \<longleftrightarrow> (\<forall>pre a post. new = pre @ (start_request node vmid, a) # post \<longrightarrow>
     post = [] \<and> pre \<noteq> [] \<and> saw_stopped node vmid (last pre))"

lemma starts_safely_none: "list_all (\<lambda>x. fst x \<noteq> start_request node vmid) new \<Longrightarrow> starts_safely node vmid new"
  by (auto simp: starts_safely_def)

lemma starts_safely_last:
  assumes "list_all (\<lambda>x. fst x \<noteq> start_request node vmid) pre" and "pre \<noteq> []" "saw_stopped node vmid (last pre)"
  shows "starts_safely node vmid (pre @ [(start_request node vmid, a)])"
  unfolding starts_safely_def
proof (intro allI impI)
  fix p b q assume eq: "pre @ [(start_request node vmid, a)] = p @ (start_request node vmid, b) # q"
  show "q = [] \<and> p \<noteq> [] \<and> saw_stopped node vmid (last p)"
  proof (cases q rule: rev_cases)
    case Nil
    with eq assms show ?thesis by auto
  next
    case (snoc q' y)
    with eq have "pre = p @ (start_request node vmid, b) # q'" by auto
    with assms(1) show ?thesis by simp
  qed
qed

lemma other_requests [simp]:
  "status_request Qemu node vmid \<noteq> start_request node vmid"
  "status_post Qemu node vmid ''shutdown'' ps \<noteq> start_request node vmid"
  "status_post Qemu node vmid ''stop'' ps \<noteq> start_request node vmid"
  by (simp_all add: status_request_def start_request_def status_post_def guest_path_def)

lemma status_only: "list_all (\<lambda>x. fst x = status_request Qemu node vmid) new \<Longrightarrow>
    list_all (\<lambda>x. fst x \<noteq> start_request node vmid) new"
  by (auto simp: list_all_iff)

lemma started_trace:
  assumes "started (traced E) h node vmid s = Some (b, s')"
  shows "\<exists>a. trace_of s' = trace_of s @ [(start_request node vmid, a)] \<and> (b \<longrightarrow> upid_of a \<noteq> None)"
  using assms by (auto simp: started_def start_request_def[symmetric])


text \<open>
  The outcome of a computation that began in state \<open>s\<close>; \<open>quiet\<close> is a trace without a start request, and
  \<open>since s u new\<close> says that \<open>u\<close> was reached from \<open>s\<close> by such requests.
\<close>

definition ends_safely :: "string \<Rightarrow> int \<Rightarrow> ('w \<times> trace) px_state \<Rightarrow> (bool \<times> ('w \<times> trace) px_state) option \<Rightarrow> bool"
  where
  "ends_safely node vmid s r \<longleftrightarrow> (\<exists>b s' new. r = Some (b, s') \<and> trace_of s' = trace_of s @ new \<and>
     starts_safely node vmid new \<and>
     (b \<longrightarrow> new \<noteq> [] \<and> fst (last new) = start_request node vmid \<and> upid_of (snd (last new)) \<noteq> None))"

definition since :: "string \<Rightarrow> int \<Rightarrow> ('w \<times> trace) px_state \<Rightarrow> ('w \<times> trace) px_state \<Rightarrow> trace \<Rightarrow> bool" where
  "since node vmid s u new \<longleftrightarrow> trace_of u = trace_of s @ new \<and>
     list_all (\<lambda>x. fst x \<noteq> start_request node vmid) new"

lemma since_refl: "since node vmid s s []"
  by (simp add: since_def)

lemma since_call:
  assumes "since node vmid s u new" and "rq \<noteq> start_request node vmid"
    and "run_state (send (traced E) h rq) u = (a, u')"
  shows "since node vmid s u' (new @ [(rq, a)])"
  using assms by (auto simp: since_def)

lemma since_wait:
  assumes "since node vmid s u new" and "clock_ok E" "0 \<le> timeout"
  obtains v u' w where "wait_vm_stopped (traced E) c node vmid timeout u = Some (v, u')"
    "since node vmid s u' (new @ w)" "v = Inr True \<Longrightarrow> new @ w \<noteq> [] \<and> saw_stopped node vmid (last (new @ w))"
  using wait_vm_stopped_ends[OF assms(2,3), of c node vmid u] status_only assms(1)
  by (fastforce simp: since_def)

lemma quiet_end: "since node vmid s u new \<Longrightarrow> ends_safely node vmid s (Some (False, u))"
  by (auto simp: ends_safely_def since_def intro: starts_safely_none)

lemma started_end:
  assumes "since node vmid s u new" and "new \<noteq> []" "saw_stopped node vmid (last new)"
  shows "ends_safely node vmid s (started (traced E) h node vmid u)"
proof -
  obtain b s' where b: "started (traced E) h node vmid u = Some (b, s')" by (simp add: started_def)
  from started_trace[OF b] obtain a where "trace_of s' = trace_of u @ [(start_request node vmid, a)]"
    "b \<longrightarrow> upid_of a \<noteq> None" by blast
  with assms b show ?thesis
    by (auto simp: ends_safely_def since_def intro!: exI[of _ "new @ [(start_request node vmid, a)]"] starts_safely_last)
qed

lemma hard_stop_safe:
  assumes "since node vmid s u new" and "clock_ok E"
  shows "ends_safely node vmid s (hard_stop (traced E) c h node vmid u)"
proof -
  let ?stop = "status_post Qemu node vmid ''stop'' []"
  obtain a u1 where c1: "run_state (send (traced E) h ?stop) u = (a, u1)" by fastforce
  note t1 = since_call[OF assms(1) _ c1, simplified]
  have "0 \<le> seconds 15" by (simp add: seconds_def)
  from since_wait[OF t1 assms(2) this, where c = c] obtain v u2 w where
    w: "wait_vm_stopped (traced E) c node vmid (seconds 15) u1 = Some (v, u2)"
    "since node vmid s u2 ((new @ [(?stop, a)]) @ w)"
    "v = Inr True \<Longrightarrow> (new @ [(?stop, a)]) @ w \<noteq> [] \<and> saw_stopped node vmid (last ((new @ [(?stop, a)]) @ w))"
    by blast
  consider (refused) e where "a = Inl e" | (down) j where "a = Inr j" "v = Inr True"
    | (up) j where "a = Inr j" "v \<noteq> Inr True"
    by (cases a) auto
  then show ?thesis
  proof cases
    case refused
    with c1 quiet_end[OF t1] show ?thesis by (simp add: hard_stop_def)
  next
    case down
    with c1 w started_end[OF w(2)] show ?thesis by (simp add: hard_stop_def)
  next
    case up
    then have "hard_stop (traced E) c h node vmid u = Some (False, u2)"
      using c1 w(1) by (auto simp: hard_stop_def split: sum.split bool.split)
    with quiet_end[OF w(2)] show ?thesis by simp
  qed
qed

lemma hybrid_restart_ends:
  assumes "clock_ok E" and "0 \<le> graceful_timeout"
  shows "ends_safely node vmid s (hybrid_restart_vm (traced E) c node vmid graceful_timeout s)"
proof (cases "proxmox c")
  case None
  then show ?thesis using quiet_end[OF since_refl, of node vmid s] by (simp add: hybrid_restart_vm_def)
next
  case (Some h)
  let ?shut = "status_post Qemu node vmid ''shutdown'' [(''timeout'', JInt graceful_timeout), (''forceStop'', JInt 1)]"
  obtain a s1 where c1: "run_state (send (traced E) h ?shut) s = (a, s1)" by fastforce
  note t1 = since_call[OF since_refl[of node vmid s] _ c1, simplified]
  have "0 \<le> seconds (graceful_timeout + 20)" using assms(2) by (simp add: seconds_def)
  from since_wait[OF t1 assms(1) this, where c = c] obtain v s2 w where
    w: "wait_vm_stopped (traced E) c node vmid (seconds (graceful_timeout + 20)) s1 = Some (v, s2)"
    "since node vmid s s2 ([(?shut, a)] @ w)"
    "v = Inr True \<Longrightarrow> [(?shut, a)] @ w \<noteq> [] \<and> saw_stopped node vmid (last ([(?shut, a)] @ w))"
    by blast
  consider (refused) e where "a = Inl e" | (raise) j e where "a = Inr j" "v = Inl e"
    | (up) j where "a = Inr j" "v = Inr False" | (down) j where "a = Inr j" "v = Inr True"
    by (cases a; cases v) auto
  then show ?thesis
  proof cases
    case refused
    with Some c1 quiet_end[OF t1] show ?thesis by (simp add: hybrid_restart_vm_def)
  next
    case raise
    with Some c1 w(1) quiet_end[OF w(2)] show ?thesis by (simp add: hybrid_restart_vm_def)
  next
    case up
    with Some c1 w(1) hard_stop_safe[OF w(2) assms(1)] show ?thesis by (simp add: hybrid_restart_vm_def)
  next
    case down
    with Some c1 w started_end[OF w(2)] show ?thesis by (simp add: hybrid_restart_vm_def)
  qed
qed

text \<open>C23. When the clock runs, \<open>hybrid_restart_vm\<close> returns. It starts the guest at most once, as its last
  request, and only directly after the API has answered that the guest is stopped; it answers \<open>True\<close> only
  when that start was accepted with a UPID.
\<close>

theorem hybrid_restart_safe:
  assumes "clock_ok E" and "0 \<le> graceful_timeout"
  shows "\<exists>b s' new. hybrid_restart_vm (traced E) c node vmid graceful_timeout s = Some (b, s') \<and>
    trace_of s' = trace_of s @ new \<and> starts_safely node vmid new \<and>
    (b \<longrightarrow> new \<noteq> [] \<and> fst (last new) = start_request node vmid \<and> upid_of (snd (last new)) \<noteq> None)"
  using hybrid_restart_ends[OF assms] by (simp add: ends_safely_def)

section \<open>Connections\<close>

text \<open>
  Every cached connection belongs to the host and user its key begins with; user and token names hold no
  colon, as Proxmox demands, so that the parts of a key can be told apart.
\<close>

definition colon_free :: "string \<Rightarrow> bool" where
  "colon_free t \<longleftrightarrow> CHR '':'' \<notin> set t"

definition entry_ok :: "string \<times> cached_connection \<Rightarrow> bool" where
  "entry_ok x \<longleftrightarrow> (\<exists>t. fst x = aa_host (cc_client (snd x)) @ '':'' @ aa_user (cc_client (snd x)) @ '':'' @ t \<and>
     colon_free (aa_user (cc_client (snd x))) \<and> colon_free t)"

definition cache_ok :: "'w px_state \<Rightarrow> bool" where
  "cache_ok s \<longleftrightarrow> dict_wf (connection_cache s) \<and> length (connection_cache s) \<le> MAX_CACHE_SIZE \<and>
     (\<forall>x \<in> set (connection_cache s). entry_ok x)"

definition args_ok :: "client_args \<Rightarrow> bool" where
  "args_ok a \<longleftrightarrow> colon_free (ca_user a) \<and> (case ca_token_name a of None \<Rightarrow> True | Some t \<Rightarrow> colon_free t)"

lemma colon_split:
  assumes "h @ '':'' @ u = h' @ '':'' @ u'" and "colon_free u" "colon_free u'"
  shows "h = h' \<and> u = u'"
proof -
  from assms(1) have "rev u @ '':'' @ rev h = rev u' @ '':'' @ rev h'"
    by (metis append.assoc rev_append rev_singleton_conv)
  then have "takeWhile (\<lambda>c. c \<noteq> CHR '':'') (rev u @ '':'' @ rev h) =
      takeWhile (\<lambda>c. c \<noteq> CHR '':'') (rev u' @ '':'' @ rev h')" by simp
  moreover have "takeWhile (\<lambda>c. c \<noteq> CHR '':'') (rev x @ '':'' @ y) = rev x" if "colon_free x" for x y
  proof -
    have "takeWhile (\<lambda>c. c \<noteq> CHR '':'') (rev x @ '':'' @ y) = takeWhile (\<lambda>c. c \<noteq> CHR '':'') (rev x)"
      by (simp add: takeWhile_tail)
    also have "\<dots> = rev x" using that by (auto simp: takeWhile_eq_all_conv colon_free_def)
    finally show ?thesis .
  qed
  ultimately have "u = u'" using assms(2,3) by simp
  with assms(1) show ?thesis by simp
qed

lemma key_parts:
  assumes "h @ '':'' @ u @ '':'' @ t = h' @ '':'' @ u' @ '':'' @ t'"
    and "colon_free u" "colon_free t" "colon_free u'" "colon_free t'"
  shows "h = h' \<and> u = u'"
  using colon_split[of "h @ '':'' @ u" t "h' @ '':'' @ u'" t'] colon_split[of h u h' u'] assms by simp


lemma cache_key_parts:
  "args_ok a \<Longrightarrow> \<exists>t. cache_key a = ca_host a @ '':'' @ ca_user a @ '':'' @ t \<and> colon_free t"
  by (auto simp: cache_key_def args_ok_def colon_free_def split: option.splits)

lemma delete_entries: "set (AList.delete k d) \<subseteq> set d"
  by (auto simp: AList.delete_eq)

lemma cache_ok_sub:
  assumes "cache_ok s" and "set (connection_cache s') \<subseteq> set (connection_cache s)"
    and "dict_wf (connection_cache s')" "length (connection_cache s') \<le> length (connection_cache s)"
  shows "cache_ok s'"
  using assms by (auto simp: cache_ok_def)

lemma cache_ok_forget: "cache_ok s \<Longrightarrow> cache_ok (cache_forget k s)"
  by (rule cache_ok_sub)
    (auto simp: cache_forget_def cache_ok_def delete_entries AList.delete_eq dict_wf_def distinct_map_filter)

lemma cache_ok_world: "cache_ok (s\<lparr>px_world := w\<rparr>) = cache_ok s"
  by (simp add: cache_ok_def)

lemma update_entries: "set (AList.update k v d) \<subseteq> insert (k, v) (set d)"
  by (induction d) auto

lemma length_update: "length (AList.update k v d) \<le> Suc (length d)"
  by (induction d) auto

lemma length_update_in: "map_of d k \<noteq> None \<Longrightarrow> length (AList.update k v d) = length d"
  by (induction d) auto

lemma oldest_in: "oldest d = Some k \<Longrightarrow> k \<in> fst ` set d"
  by (induction d arbitrary: k) (auto split: option.splits if_splits)

lemma oldest_None: "oldest d = None \<longleftrightarrow> d = []"
  by (cases d) (auto split: option.split)

lemma length_delete: "k \<in> fst ` set d \<Longrightarrow> length (AList.delete k d) < length d"
  by (induction d) (auto simp: le_imp_less_Suc AList.delete_eq)

lemma cache_ok_store:
  assumes "cache_ok s" and "entry_ok (k, e)"
  shows "cache_ok (cache_store k e s)"
proof -
  let ?d = "connection_cache s"
  define d' where "d' = (if length ?d \<ge> MAX_CACHE_SIZE
    then (case oldest ?d of None \<Rightarrow> ?d | Some k' \<Rightarrow> AList.delete k' ?d) else ?d)"
  have d': "length d' < MAX_CACHE_SIZE \<and> set d' \<subseteq> set ?d \<and> dict_wf d'"
  proof (cases "length ?d \<ge> MAX_CACHE_SIZE")
    case True
    then have "?d \<noteq> []" by (auto simp: MAX_CACHE_SIZE_def)
    then obtain k' where k': "oldest ?d = Some k'" using oldest_None by fastforce
    from length_delete[OF oldest_in[OF k']] assms(1) True k' show ?thesis
      by (auto simp: d'_def cache_ok_def pydict.wf_delete dest: subsetD[OF delete_entries])
  next
    case False
    with assms(1) show ?thesis by (simp add: d'_def cache_ok_def)
  qed
  then have "length (AList.update k e d') \<le> MAX_CACHE_SIZE" using length_update[of k e d'] by simp
  moreover have "\<forall>x \<in> set (AList.update k e d'). entry_ok x"
    using update_entries[of k e d'] d' assms by (auto simp: cache_ok_def)
  ultimately show ?thesis using d' by (simp add: cache_ok_def cache_store_def Let_def d'_def[symmetric])
qed

lemma map_of_cache_ok:
  assumes "cache_ok s" and "args_ok a" and "map_of (connection_cache s) (cache_key a) = Some e"
  shows "aa_host (cc_client e) = ca_host a \<and> aa_user (cc_client e) = ca_user a"
proof -
  from assms(1) map_of_SomeD[OF assms(3)] have "entry_ok (cache_key a, e)" by (auto simp: cache_ok_def)
  then obtain t where t: "cache_key a = aa_host (cc_client e) @ '':'' @ aa_user (cc_client e) @ '':'' @ t"
    "colon_free (aa_user (cc_client e))" "colon_free t"
    by (auto simp: entry_ok_def)
  from cache_key_parts[OF assms(2)] obtain t' where t': "cache_key a = ca_host a @ '':'' @ ca_user a @ '':'' @ t'"
    "colon_free t'" by blast
  have "colon_free (ca_user a)" using assms(2) by (simp add: args_ok_def)
  from key_parts[OF t(1)[symmetric, unfolded t'(1)] t(2,3) this t'(2)] show ?thesis by simp
qed

lemma cached_spec:
  assumes "cache_ok s" and "run_state (cached E (cache_key a)) s = (r, s')" and "args_ok a"
  shows "cache_ok s' \<and> px_world s' = px_world s \<and> (\<forall>h. r = Some h \<longrightarrow> aa_host h = ca_host a \<and> aa_user h = ca_user a)"
proof (cases "map_of (connection_cache s) (cache_key a)")
  case None
  with assms show ?thesis by (auto simp: cached_def)
next
  case (Some e)
  note parts = map_of_cache_ok[OF assms(1,3) Some]
  let ?e = "e\<lparr>cc_created := api_now E (px_world s)\<rparr>" and ?d = "connection_cache s"
  have "(cache_key a, e) \<in> set ?d" using Some by (rule map_of_SomeD)
  then have "entry_ok (cache_key a, ?e)" using assms(1) by (auto simp: cache_ok_def entry_ok_def)
  then have "cache_ok (s\<lparr>connection_cache := AList.update (cache_key a) ?e ?d\<rparr>)"
    using assms(1) update_entries[of "cache_key a" ?e ?d] length_update_in[of ?d "cache_key a"] Some
    by (auto simp: cache_ok_def)
  with assms Some parts show ?thesis
    by (auto simp: cached_def cache_ok_forget cache_forget_def[of _ s] split: if_splits)
      (use cache_ok_forget[OF assms(1), of "cache_key a"] in \<open>simp add: cache_forget_def\<close>)
qed

lemma proxmox_client_init_spec:
  assumes "cache_ok s" and "args_ok a" and "run_state (proxmox_client_init E a) s = (c, s')"
  shows "cache_ok s' \<and> pc_host c = ca_host a \<and>
    (\<forall>h. proxmox c = Some h \<longrightarrow> aa_host h = ca_host a \<and> aa_user h = ca_user a)"
proof -
  obtain hit s1 where h: "run_state (cached E (cache_key a)) s = (hit, s1)" by fastforce
  note c = cached_spec[OF assms(1) h assms(2)]
  have store: "entry_ok (cache_key a, \<lparr>cc_client = api_args_of a cr, cc_created = t\<rparr>)" for cr t
    using cache_key_parts[OF assms(2)] assms(2) by (auto simp: entry_ok_def api_args_of_def args_ok_def)
  show ?thesis
    using assms(3) c h
    by (auto simp: proxmox_client_init_def fresh_client_def failed_client_def api_args_of_def case_prod_beta
        cache_ok_world cache_ok_forget cache_ok_store[OF _ store, unfolded api_args_of_def]
        split: option.splits sum.splits)
qed


definition server_ok :: "server \<Rightarrow> bool" where
  "server_ok sv \<longleftrightarrow> args_ok (server_client_args sv)"

text \<open>What happens to the cache: clients are built, entries are cleared or expire, time passes.\<close>

inductive cache_step :: "'w proxmox_api \<Rightarrow> 'w px_state \<Rightarrow> 'w px_state \<Rightarrow> bool" for E :: "'w proxmox_api" where
  Built: "server_ok sv \<Longrightarrow> run_state (from_server E sv) s = (c, s') \<Longrightarrow> cache_step E s s'"
| Cleared_host: "cache_step E s (snd (run_state (clear_server_cache h) s))"
| Cleared_all: "cache_step E s (snd (run_state clear_all_cache s))"
| Expired: "cache_step E s (snd (run_state (cleanup_expired_connections E) s))"
| World: "cache_step E s (s\<lparr>px_world := w\<rparr>)"

lemma from_server_spec:
  assumes "cache_ok s" and "server_ok sv" and "run_state (from_server E sv) s = (c, s')"
  shows "cache_ok s' \<and> pc_host c = server_host sv \<and>
    (\<forall>h. proxmox c = Some h \<longrightarrow> aa_host h = server_host sv \<and> aa_user h = sv_api_user sv)"
  using proxmox_client_init_spec[OF assms(1) assms(2)[unfolded server_ok_def] assms(3)[unfolded from_server_def]]
  by (auto simp: server_client_args_def split: if_splits)

lemma cache_ok_filter: "cache_ok s \<Longrightarrow> cache_ok (s\<lparr>connection_cache := filter P (connection_cache s)\<rparr>)"
  by (auto simp: cache_ok_def dict_wf_def distinct_map_filter intro: le_trans[OF length_filter_le])

interpretation connections: guarded_machine "cache_step E" cache_ok
proof unfold_locales
  fix s t :: "'a px_state"
  assume "cache_step E s t" and "cache_ok s"
  then show "cache_ok t"
  proof induction
    case (Built sv s c s')
    then show ?case using from_server_spec by blast
  next
    case (Cleared_all s)
    then show ?case by (simp add: clear_all_cache_def cache_ok_def)
  qed (simp_all add: clear_server_cache_def cleanup_expired_connections_def cache_ok_filter cache_ok_world)
qed

text \<open>C24. However clients are built, cleared and expired: the cache never holds more than fifty connections,
  one per key, and a client built for a server talks to the host and as the user of that server.
\<close>

theorem connections_reach_their_server:
  assumes "cache_ok s" and "(cache_step E)\<^sup>*\<^sup>* s s1" and "server_ok sv"
  shows "length (connection_cache s1) \<le> 50 \<and> dict_wf (connection_cache s1) \<and>
    (case run_state (from_server E sv) s1 of (c, s2) \<Rightarrow> length (connection_cache s2) \<le> 50 \<and>
       (\<forall>h. proxmox c = Some h \<longrightarrow> aa_host h = server_host sv \<and> aa_user h = sv_api_user sv))"
proof -
  have "cache_ok s1" by (rule connections.steps_inv[OF assms(2,1)])
  with from_server_spec[OF this assms(3)] show ?thesis
    by (auto simp: cache_ok_def MAX_CACHE_SIZE_def split: prod.split)
qed

lemma map_of_update [simp]: "map_of (AList.update k v d) k = Some v"
  by (simp add: update_conv')

lemma built_is_cached:
  assumes "run_state (proxmox_client_init E a) s = (c, s')" and "proxmox c = Some h"
  shows "map_of (connection_cache s') (cache_key a) = Some \<lparr>cc_client = h, cc_created = api_now E (px_world s')\<rparr>"
  using assms
  by (auto simp: proxmox_client_init_def cached_def fresh_client_def failed_client_def case_prod_beta
      cache_store_def Let_def split: option.splits sum.splits if_splits)

text \<open>The key of a cached connection does not depend on the secret. After a client was built for a
  server, a client built within the hour for a server row with the same address, user and token name but
  any other secret gets the connection that was opened with the old one, without a request: a wrong
  secret passes the connection test, and a changed one is not used.
\<close>

theorem cached_connection_ignores_secret:
  assumes "run_state (from_server E sv) s = (c, s1)" and "proxmox c = Some h"
    and "cache_key (server_client_args sv') = cache_key (server_client_args sv)"
    and "api_now E w - api_now E (px_world s1) < CACHE_TTL"
  shows "proxmox (fst (run_state (from_server E sv') (s1\<lparr>px_world := w\<rparr>))) = Some h \<and>
    px_world (snd (run_state (from_server E sv') (s1\<lparr>px_world := w\<rparr>))) = w"
  using built_is_cached[OF assms(1)[unfolded from_server_def] assms(2)] assms(3,4)
  by (simp add: from_server_def proxmox_client_init_def cached_def)

section \<open>Witnesses\<close>

text \<open>A server on which every task has stopped well and every guest is down; it takes one password.\<close>

definition calm_api :: "int proxmox_api" where
  "calm_api = \<lparr>
     api_connect = \<lambda>a w. (if aa_credential a = PasswordAuth ''right'' then None
       else Some (PyException ''401 Unauthorized'' (Some 401) True), w),
     api_call = \<lambda>a rq w. (Inr (if rq_method rq = GET
       then JObj [(''status'', JStr ''stopped''), (''exitstatus'', JStr ''OK'')] else JStr ''UPID:n''), w + 1),
     api_now = \<lambda>w. w, api_sleep = \<lambda>t w. w + t\<rparr>"

definition calm_server :: "string \<Rightarrow> server" where
  "calm_server secret = \<lparr>sv_id = 1, sv_name = ''pve'', sv_hostname = ''pve'', sv_ip_address = ''10.0.0.2'',
     sv_port = 8006, sv_api_user = ''root@pam'', sv_api_token_name = None, sv_api_token_value = None,
     sv_use_password = True, sv_password = Some secret, sv_verify_ssl = True\<rparr>"

definition calm_start :: "int px_state" where
  "calm_start = \<lparr>connection_cache = [], px_world = 0\<rparr>"

definition calm_client :: proxmox_client where
  "calm_client = fst (run_state (from_server calm_api (calm_server ''right'')) calm_start)"

lemma calm_clock: "clock_ok calm_api"
  by (simp add: clock_ok_def calm_api_def)

definition traced_start :: "(int \<times> trace) px_state" where
  "traced_start = \<lparr>connection_cache = [], px_world = (0, [])\<rparr>"

lemma wait_for_task_ends_witness:
  "\<exists>v s' new. wait_for_task (traced calm_api) calm_client ''n'' ''UPID:n'' (seconds 300) traced_start = Some (v, s') \<and>
    trace_of s' = trace_of traced_start @ new \<and> int (length new) \<le> 151"
proof -
  have "0 \<le> seconds 300" by (simp add: seconds_def)
  from wait_for_task_ends[where c = calm_client and node = "''n''" and upid = "''UPID:n''" and
      s = traced_start, OF calm_clock this]
  show ?thesis by (auto simp: seconds_def)
qed

lemma hybrid_restart_safe_witness:
  "\<exists>b s' new. hybrid_restart_vm (traced calm_api) calm_client ''n'' 100 20 traced_start = Some (b, s') \<and> starts_safely ''n'' 100 new"
proof -
  have "(0::int) \<le> 20" by simp
  from hybrid_restart_safe[OF calm_clock this] show ?thesis by blast
qed

lemma calm_start_ok: "cache_ok calm_start"
  by (simp add: cache_ok_def calm_start_def)

lemma calm_server_ok: "server_ok (calm_server t)"
  by (simp add: server_ok_def args_ok_def server_client_args_def calm_server_def colon_free_def)

lemma connections_reach_their_server_witness:
  "length (connection_cache (snd (run_state (from_server calm_api (calm_server ''right'')) calm_start))) \<le> 50"
  using connections_reach_their_server[OF calm_start_ok rtranclp.rtrancl_refl calm_server_ok[of "''right''"],
      of calm_api]
  by (simp add: case_prod_beta)

lemma cached_connection_ignores_secret_witness:
  "\<exists>h. proxmox calm_client = Some h \<and> aa_credential h = PasswordAuth ''right'' \<and>
     proxmox (fst (run_state (from_server calm_api (calm_server ''wrong''))
       (snd (run_state (from_server calm_api (calm_server ''right'')) calm_start)\<lparr>px_world := 60\<rparr>))) = Some h"
proof -
  obtain h where h: "proxmox calm_client = Some h" "aa_credential h = PasswordAuth ''right''"
    by (simp add: calm_client_def calm_start_def calm_api_def calm_server_def from_server_def proxmox_client_init_def
        cached_def server_client_args_def credential_of_def api_args_of_def fresh_client_def)
  have key: "cache_key (server_client_args (calm_server ''wrong'')) = cache_key (server_client_args (calm_server ''right''))"
    by (simp add: calm_server_def cache_key_def server_client_args_def server_host_def)
  have "api_now calm_api 60 - api_now calm_api
      (px_world (snd (run_state (from_server calm_api (calm_server ''right'')) calm_start))) < CACHE_TTL"
    by (simp add: calm_start_def calm_api_def calm_server_def from_server_def proxmox_client_init_def
        cached_def server_client_args_def credential_of_def api_args_of_def fresh_client_def CACHE_TTL_def seconds_def
        cache_store_def Let_def MAX_CACHE_SIZE_def)
  from cached_connection_ignores_secret[OF prod.collapse[symmetric] h(1)[unfolded calm_client_def] key this] h
  show ?thesis by blast
qed

end
