(* ===== verification/Logging.thy ===== *)
theory Logging
  imports Passwords Proxmox "HOL-Library.Multiset"
begin

text \<open>
  The audit log: \<^verbatim>\<open>backend/app/logging_service.py\<close> (\<open>LoggingService\<close>), the endpoints of
  \<^verbatim>\<open>backend/app/api/logs.py\<close> and the middleware \<^verbatim>\<open>backend/app/logging_middleware.py\<close> that writes an entry for
  every request.

  Theory AuthDb keeps of an entry the columns the account endpoints fill; here are all of them. The body of
  a request comes as its text and as what \<open>json.loads\<close> makes of it, \<^term>\<open>None\<close> where it raises. An error of
  the database while an entry is written is left out.
\<close>

section \<open>What is stored of structured data\<close>

definition SENSITIVE_FIELDS :: "string list" where
  "SENSITIVE_FIELDS = [''password'', ''token'', ''secret'', ''api_key'', ''apikey'', ''access_token'', ''refresh_token'']"

definition sensitive_key :: "string \<Rightarrow> bool" where
  "sensitive_key k = list_ex (\<lambda>f. substring_of f (lower k)) SENSITIVE_FIELDS"

definition MASKED :: json where
  "MASKED = JStr ''***MASKED***''"

lemma json_size_item [termination_simp]: "x \<in> set l \<Longrightarrow> size x < Suc (size_list size l)"
  by (simp add: less_Suc_eq_le size_list_estimation')

lemma json_size_entry [termination_simp]:
  "kv \<in> set d \<Longrightarrow> size (snd kv) < Suc (size_list (size_prod (\<lambda>_. 0) size) d)"
proof -
  assume "kv \<in> set d"
  then have "size_prod (\<lambda>_. 0) size kv \<le> size_list (size_prod (\<lambda>_. 0) size) d" by (rule size_list_estimation') simp
  moreover have "size (snd kv) \<le> size_prod (\<lambda>_. 0) size kv" by (cases kv) simp
  ultimately show ?thesis by simp
qed

fun mask_sensitive_data :: "nat \<Rightarrow> json \<Rightarrow> json" where
  "mask_sensitive_data depth (JObj d) =
     (if 10 < depth then JObj d
      else JObj (map (\<lambda>kv. (fst kv, if sensitive_key (fst kv) then MASKED
                               else mask_sensitive_data (Suc depth) (snd kv))) d))"
| "mask_sensitive_data depth (JList l) =
     (if 10 < depth then JList l else JList (map (mask_sensitive_data (Suc depth)) l))"
| "mask_sensitive_data depth j = j"

text \<open>\<open>json.dumps\<close> with its default separators; characters outside printable ASCII are escaped.\<close>

definition hex4 :: "nat \<Rightarrow> string" where
  "hex4 n = [hex_digit (n div 4096 mod 16), hex_digit (n div 256 mod 16), hex_digit (n div 16 mod 16),
     hex_digit (n mod 16)]"

definition dumps_char :: "char \<Rightarrow> string" where
  "dumps_char c =
     (if c = CHR 0x22 then [CHR 0x5C, CHR 0x22]
      else if c = CHR 0x5C then [CHR 0x5C, CHR 0x5C]
      else if c = CHR 0x0A then [CHR 0x5C, CHR ''n'']
      else if c = CHR 0x0D then [CHR 0x5C, CHR ''r'']
      else if c = CHR 0x09 then [CHR 0x5C, CHR ''t'']
      else if c = CHR 0x08 then [CHR 0x5C, CHR ''b'']
      else if c = CHR 0x0C then [CHR 0x5C, CHR ''f'']
      else if of_char c < (32 :: nat) \<or> 126 < (of_char c :: nat) then [CHR 0x5C, CHR ''u''] @ hex4 (of_char c)
      else [c])"

definition dumps_string :: "string \<Rightarrow> string" where
  "dumps_string s = [CHR 0x22] @ concat (map dumps_char s) @ [CHR 0x22]"

fun json_dumps :: "json \<Rightarrow> string" where
  "json_dumps JNull = ''null''"
| "json_dumps (JBool b) = (if b then ''true'' else ''false'')"
| "json_dumps (JInt n) = dec_int n"
| "json_dumps (JStr s) = dumps_string s"
| "json_dumps (JList l) = ''['' @ join_with '', '' (map json_dumps l) @ '']''"
| "json_dumps (JObj d) = ''{'' @ join_with '', '' (map (\<lambda>kv. dumps_string (fst kv) @ '': '' @ json_dumps (snd kv)) d) @ ''}''"

definition MAX_DATA_SIZE :: nat where
  "MAX_DATA_SIZE = 5000"

definition truncate_data :: "json \<Rightarrow> json" where
  "truncate_data j = (case j of
       JStr s \<Rightarrow> if MAX_DATA_SIZE < length s
         then JStr (take MAX_DATA_SIZE s @ ''... (truncated, '' @ dec_string (length s) @ '' total chars)'') else j
     | JObj d \<Rightarrow> (let text = json_dumps j in if MAX_DATA_SIZE < length text
         then JObj [(''_truncated'', JBool True), (''_size'', JInt (int (length text))), (''_preview'', JStr (take 500 text))]
         else j)
     | _ \<Rightarrow> j)"

section \<open>Entries\<close>

record log_entry =
  le_level :: string
  le_category :: string
  le_action :: string
  le_message :: string
  le_request_id :: "string option"
  le_session_id :: "string option"
  le_user_id :: "int option"
  le_username :: "string option"
  le_ip_address :: "string option"
  le_user_agent :: "string option"
  le_geo_location :: "string option"
  le_resource_type :: "string option"
  le_resource_id :: "string option"
  le_resource_name :: "string option"
  le_server_id :: "int option"
  le_server_name :: "string option"
  le_node_name :: "string option"
  le_details :: "json option"
  le_request_body :: "json option"
  le_response_body :: "json option"
  le_request_method :: "string option"
  le_request_path :: "string option"
  le_query_params :: "string option"
  le_response_status :: "int option"
  le_duration_ms :: "int option"
  le_success :: bool
  le_error_message :: "string option"
  le_error_traceback :: "string option"
  le_created_at :: int

text \<open>The defaults of the arguments of \<open>log\<close>.\<close>

definition log_args :: "string \<Rightarrow> string \<Rightarrow> string \<Rightarrow> string \<Rightarrow> log_entry" where
  "log_args level ctg act message = \<lparr>le_level = level, le_category = ctg, le_action = act,
     le_message = message, le_request_id = None, le_session_id = None, le_user_id = None, le_username = None,
     le_ip_address = None, le_user_agent = None, le_geo_location = None, le_resource_type = None,
     le_resource_id = None, le_resource_name = None, le_server_id = None, le_server_name = None,
     le_node_name = None, le_details = None, le_request_body = None, le_response_body = None,
     le_request_method = None, le_request_path = None, le_query_params = None, le_response_status = None,
     le_duration_ms = None, le_success = True, le_error_message = None, le_error_traceback = None, le_created_at = 0\<rparr>"

definition masked_data :: "json option \<Rightarrow> json option" where
  "masked_data d = (case d of None \<Rightarrow> None | Some j \<Rightarrow> if truthy_json j then Some (mask_sensitive_data 0 j) else None)"

definition log_row :: "int \<Rightarrow> log_entry \<Rightarrow> log_entry" where
  "log_row now a = a\<lparr>
     le_resource_id := (if truthy_str (le_resource_id a) then le_resource_id a else None),
     le_details := masked_data (le_details a),
     le_request_body := map_option truncate_data (masked_data (le_request_body a)),
     le_response_body := (case le_response_body a of None \<Rightarrow> None
       | Some j \<Rightarrow> if truthy_json j then Some (truncate_data j) else None),
     le_created_at := now\<rparr>"

definition log_write :: "int \<Rightarrow> log_entry \<Rightarrow> log_entry list \<Rightarrow> log_entry list" where
  "log_write now a logs = logs @ [log_row now a]"

text \<open>The id of a resource is a number or a text; \<open>str(resource_id) if resource_id else None\<close>.\<close>

definition id_text :: "int \<Rightarrow> string option" where
  "id_text n = (if n = 0 then None else Some (dec_int n))"

definition action_messages :: "(string, string) pydict" where
  "action_messages = [(''start'', ''started''), (''stop'', ''stopped''), (''restart'', ''restarted''),
     (''shutdown'', ''shutdown''), (''delete'', ''deleted''), (''create'', ''created''), (''clone'', ''cloned''),
     (''migrate'', ''migrated''), (''backup'', ''backup created''), (''restore'', ''restored''),
     (''snapshot'', ''snapshot created''), (''resize'', ''disk resized''), (''console'', ''console accessed''),
     (''config_update'', ''config updated''), (''reinstall'', ''reinstalled''),
     (''change-password'', ''password changed'')]"

record proxmox_action =
  pa_action :: string
  pa_resource_type :: string
  pa_resource_id :: int
  pa_username :: "string option"
  pa_resource_name :: "string option"
  pa_details :: "(string, json) pydict"
  pa_success :: bool
  pa_error_message :: "string option"
  pa_ip_address :: "string option"
  pa_server_id :: "int option"
  pa_server_name :: "string option"
  pa_node_name :: "string option"

definition with_context :: "proxmox_action \<Rightarrow> (string, json) pydict" where
  "with_context a =
     (let d1 = (if truthy_int (pa_server_id a) then AList.update ''server_id'' (JInt (the (pa_server_id a))) (pa_details a)
                else pa_details a);
          d2 = (if truthy_str (pa_server_name a) then AList.update ''server_name'' (JStr (the (pa_server_name a))) d1 else d1)
      in if truthy_str (pa_node_name a) then AList.update ''node'' (JStr (the (pa_node_name a))) d2 else d2)"

definition proxmox_message :: "proxmox_action \<Rightarrow> string" where
  "proxmox_message a =
     (let act_text = (case map_of action_messages (pa_action a) of Some t \<Rightarrow> t | None \<Rightarrow> pa_action a);
          type_text = (if pa_resource_type a = ''vm'' then ''VM''
                       else if pa_resource_type a = ''container'' then ''Container'' else pa_resource_type a);
          opt = (\<lambda>pre x post. if truthy_str x then pre @ the x @ post else [])
      in type_text @ '' '' @ dec_int (pa_resource_id a) @ opt '' ('' (pa_resource_name a) '')''
         @ '' '' @ act_text @ opt '' on node '' (pa_node_name a) [] @ opt '' ['' (pa_server_name a) '']''
         @ opt '' by '' (pa_username a) []
         @ (if pa_success a then [] else '' - ERROR: '' @ (case pa_error_message a of None \<Rightarrow> ''None'' | Some e \<Rightarrow> e)))"

definition log_proxmox_action :: "int \<Rightarrow> proxmox_action \<Rightarrow> log_entry list \<Rightarrow> log_entry list" where
  "log_proxmox_action now a = log_write now
     ((log_args (if pa_success a then ''info'' else ''error'') ''proxmox''
        (pa_resource_type a @ ''_'' @ pa_action a) (proxmox_message a))\<lparr>
        le_username := pa_username a, le_ip_address := pa_ip_address a,
        le_resource_type := Some (pa_resource_type a), le_resource_id := id_text (pa_resource_id a),
        le_resource_name := pa_resource_name a, le_server_id := pa_server_id a,
        le_server_name := pa_server_name a, le_node_name := pa_node_name a,
        le_details := Some (JObj (with_context a)), le_success := pa_success a,
        le_error_message := pa_error_message a\<rparr>)"

definition log_api_request :: "int \<Rightarrow> string \<Rightarrow> string \<Rightarrow> int \<Rightarrow> int \<Rightarrow> string option \<Rightarrow> string option \<Rightarrow>
    string option \<Rightarrow> string option \<Rightarrow> log_entry list \<Rightarrow> log_entry list" where
  "log_api_request now verb path status duration_ms ip uname agent error_message = log_write now
     ((log_args (if 500 \<le> status then ''error'' else if 400 \<le> status then ''warning'' else ''debug'')
        ''api'' ''api_request''
        (verb @ '' '' @ path @ '' - '' @ dec_int status @ '' ('' @ dec_int duration_ms @ ''ms)''))\<lparr>
        le_username := uname, le_ip_address := ip, le_user_agent := agent, le_request_method := Some verb,
        le_request_path := Some path, le_response_status := Some status, le_duration_ms := Some duration_ms,
        le_success := (status < 400), le_error_message := error_message\<rparr>)"

definition log_system :: "int \<Rightarrow> string \<Rightarrow> string \<Rightarrow> string \<Rightarrow> json option \<Rightarrow> log_entry list \<Rightarrow> log_entry list" where
  "log_system now act message level details =
     log_write now ((log_args level ''system'' act message)\<lparr>le_details := details\<rparr>)"

section \<open>Reading and cleaning\<close>

record log_filter =
  lf_level :: "string option"
  lf_category :: "string option"
  lf_username :: "string option"
  lf_ip_address :: "string option"
  lf_resource_type :: "string option"
  lf_resource_id :: "string option"
  lf_date_from :: "int option"
  lf_date_to :: "int option"
  lf_search :: "string option"
  lf_request_id :: "string option"

text \<open>\<open>column = value\<close> and \<open>column ILIKE '%value%'\<close> are not true of a null column.\<close>

definition if_given :: "string option \<Rightarrow> (string \<Rightarrow> bool) \<Rightarrow> bool" where
  "if_given x P = (if truthy_str x then P (the x) else True)"

definition contains_text :: "string option \<Rightarrow> string \<Rightarrow> bool" where
  "contains_text column v = (case column of None \<Rightarrow> False | Some c \<Rightarrow> ilike c (''%'' @ v @ ''%''))"

definition log_matches :: "log_filter \<Rightarrow> log_entry \<Rightarrow> bool" where
  "log_matches f e \<longleftrightarrow>
     if_given (lf_level f) (\<lambda>v. le_level e = v) \<and>
     if_given (lf_category f) (\<lambda>v. le_category e = v) \<and>
     if_given (lf_username f) (contains_text (le_username e)) \<and>
     if_given (lf_ip_address f) (contains_text (le_ip_address e)) \<and>
     if_given (lf_resource_type f) (\<lambda>v. le_resource_type e = Some v) \<and>
     if_given (lf_resource_id f) (\<lambda>v. le_resource_id e = Some v) \<and>
     (case lf_date_from f of None \<Rightarrow> True | Some t \<Rightarrow> t \<le> le_created_at e) \<and>
     (case lf_date_to f of None \<Rightarrow> True | Some t \<Rightarrow> le_created_at e \<le> t) \<and>
     if_given (lf_request_id f) (\<lambda>v. le_request_id e = Some v) \<and>
     if_given (lf_search f) (\<lambda>v. contains_text (Some (le_message e)) v \<or> contains_text (Some (le_action e)) v \<or>
       contains_text (le_resource_name e) v \<or> contains_text (le_request_id e) v)"

text \<open>
  The query orders the rows by \<open>created_at\<close> alone, newest first. Which of two rows of the same time comes first is
  left to the database and may differ from one query to the next, so the ordering is an argument, one of those that
  satisfy \<open>newest_first_order\<close>.
\<close>

type_synonym row_order = "log_entry list \<Rightarrow> log_entry list"

definition newest_first_order :: "row_order \<Rightarrow> bool" where
  "newest_first_order ord \<longleftrightarrow> (\<forall>rows. mset (ord rows) = mset rows \<and>
     sorted_wrt (\<lambda>a b. le_created_at b \<le> le_created_at a) (ord rows))"

definition get_logs :: "row_order \<Rightarrow> log_filter \<Rightarrow> nat \<Rightarrow> nat \<Rightarrow> log_entry list \<Rightarrow> log_entry list \<times> nat" where
  "get_logs ord f limit offset logs =
     (let query = filter (log_matches f) logs in (take limit (drop offset (ord query)), length query))"

text \<open>
  \<open>datetime.strptime(s, "%Y-%m-%d")\<close>: four digits, a month of one or two digits, a day of one or two digits or of a
  blank and a digit; the date must exist. The result is the number of the day, as \<open>toordinal\<close> counts them.
\<close>

definition digits_between :: "nat \<Rightarrow> nat \<Rightarrow> string \<Rightarrow> bool" where
  "digits_between lo hi t \<longleftrightarrow> t \<noteq> [] \<and> length t \<le> 2 \<and> list_all is_digit t \<and> lo \<le> dec_value t \<and> dec_value t \<le> hi"

definition leap_year :: "nat \<Rightarrow> bool" where
  "leap_year y \<longleftrightarrow> y mod 4 = 0 \<and> (y mod 100 \<noteq> 0 \<or> y mod 400 = 0)"

definition days_in_month :: "nat \<Rightarrow> nat \<Rightarrow> nat" where
  "days_in_month y m = (if m = 2 then if leap_year y then 29 else 28 else if m \<in> {4, 6, 9, 11} then 30 else 31)"

definition day_number :: "nat \<Rightarrow> nat \<Rightarrow> nat \<Rightarrow> nat" where
  "day_number y m d = (y - 1) * 365 + (y - 1) div 4 - (y - 1) div 100 + (y - 1) div 400
     + sum_list (map (days_in_month y) [1..<m]) + d"

definition strptime_day :: "string \<Rightarrow> nat option" where
  "strptime_day t =
     (case split_on CHR ''-'' t of
        [y, m, d] \<Rightarrow>
          (let day = (if length d = 2 \<and> hd d = CHR '' '' \<and> digits_between 1 9 (tl d) then tl d else d)
           in if length y = 4 \<and> list_all is_digit y \<and> digits_between 1 12 m \<and> digits_between 1 31 day \<and>
                 1 \<le> dec_value y \<and> dec_value day \<le> days_in_month (dec_value y) (dec_value m)
              then Some (day_number (dec_value y) (dec_value m) (dec_value day)) else None)
      | _ \<Rightarrow> None)"

text \<open>The first moment of a day, in the unit of \<open>created_at\<close>; the epoch is day 719163, and 9999-12-31 is day 3652059.\<close>

definition day_start :: "nat \<Rightarrow> int" where
  "day_start n = seconds (86400 * (int n - 719163))"

definition internal_failure :: http_error where
  "internal_failure = HTTPException 500 (Msg ''Internal Server Error'')"

definition parsed_date_from :: "string option \<Rightarrow> http_error + int option" where
  "parsed_date_from date_from =
     (if \<not> truthy_str date_from then Inr None
      else (case strptime_day (the date_from) of
              None \<Rightarrow> Inl (HTTPException 400 (Msg ''Invalid date_from format. Use YYYY-MM-DD''))
            | Some n \<Rightarrow> Inr (Some (day_start n))))"

text \<open>Adding a day to the last date there is raises \<open>OverflowError\<close>, which is no \<open>ValueError\<close>.\<close>

definition parsed_date_to :: "string option \<Rightarrow> http_error + int option" where
  "parsed_date_to date_to =
     (if \<not> truthy_str date_to then Inr None
      else (case strptime_day (the date_to) of
              None \<Rightarrow> Inl (HTTPException 400 (Msg ''Invalid date_to format. Use YYYY-MM-DD''))
            | Some n \<Rightarrow> if n = 3652059 then Inl internal_failure else Inr (Some (day_start (n + 1)))))"

text \<open>\<open>LogResponse.model_validate\<close> takes an object or nothing for the structured columns and raises on anything else.\<close>

definition dict_or_null :: "json option \<Rightarrow> bool" where
  "dict_or_null c = (case c of None \<Rightarrow> True | Some JNull \<Rightarrow> True | Some (JObj d) \<Rightarrow> True | Some _ \<Rightarrow> False)"

definition log_response_valid :: "log_entry \<Rightarrow> bool" where
  "log_response_valid e \<longleftrightarrow>
     dict_or_null (le_details e) \<and> dict_or_null (le_request_body e) \<and> dict_or_null (le_response_body e)"

text \<open>
  The endpoint. The framework has checked that \<open>page\<close> is at least 1 and \<open>limit\<close> between 1 and 500.
\<close>

record log_query =
  lq_level :: "string option"
  lq_category :: "string option"
  lq_username :: "string option"
  lq_ip :: "string option"
  lq_resource_type :: "string option"
  lq_resource_id :: "string option"
  lq_date_from :: "string option"
  lq_date_to :: "string option"
  lq_search :: "string option"

record logs_page =
  lp_logs :: "log_entry list"
  lp_total :: nat
  lp_page :: nat
  lp_limit :: nat
  lp_pages :: nat

definition query_filter :: "log_query \<Rightarrow> int option \<Rightarrow> int option \<Rightarrow> log_filter" where
  "query_filter q date_from date_to = \<lparr>lf_level = lq_level q, lf_category = lq_category q,
     lf_username = lq_username q, lf_ip_address = lq_ip q, lf_resource_type = lq_resource_type q,
     lf_resource_id = lq_resource_id q, lf_date_from = date_from, lf_date_to = date_to,
     lf_search = lq_search q, lf_request_id = None\<rparr>"

definition get_logs_endpoint ::
    "row_order \<Rightarrow> user \<Rightarrow> log_query \<Rightarrow> nat \<Rightarrow> nat \<Rightarrow> log_entry list \<Rightarrow> http_error + logs_page" where
  "get_logs_endpoint ord current_user q page limit logs =
     (case PermissionChecker ''log:view'' current_user of
        Inl e \<Rightarrow> Inl e
      | Inr _ \<Rightarrow>
     (case parsed_date_from (lq_date_from q) of
        Inl e \<Rightarrow> Inl e
      | Inr date_from \<Rightarrow>
     (case parsed_date_to (lq_date_to q) of
        Inl e \<Rightarrow> Inl e
      | Inr date_to \<Rightarrow>
     (case get_logs ord (query_filter q date_from date_to) limit ((page - 1) * limit) logs of (found, found_total) \<Rightarrow>
        (if \<not> list_all log_response_valid found then Inl internal_failure
         else Inr \<lparr>lp_logs = found, lp_total = found_total, lp_page = page, lp_limit = limit,
          lp_pages = (if 0 < found_total then (found_total + limit - 1) div limit else 1)\<rparr>)))))"

definition LEVELS :: "string list" where
  "LEVELS = [''debug'', ''info'', ''warning'', ''error'', ''critical'']"

definition CATEGORIES :: "string list" where
  "CATEGORIES = [''auth'', ''proxmox'', ''ipam'', ''system'', ''api'', ''docker'']"

record log_stats =
  ls_period_hours :: int
  ls_total :: nat
  ls_by_level :: "(string, nat) pydict"
  ls_by_category :: "(string, nat) pydict"
  ls_errors_count :: nat
  ls_failed_logins :: nat
  ls_recent_errors :: "log_entry list"

definition hours :: "int \<Rightarrow> int" where
  "hours n = seconds (3600 * n)"

definition count_of :: "(string, nat) pydict \<Rightarrow> string \<Rightarrow> nat" where
  "count_of d k = (case map_of d k of None \<Rightarrow> 0 | Some n \<Rightarrow> n)"

definition get_stats :: "row_order \<Rightarrow> int \<Rightarrow> int \<Rightarrow> log_entry list \<Rightarrow> log_stats" where
  "get_stats ord now period logs =
     (let recent = filter (\<lambda>e. now - hours period \<le> le_created_at e) logs;
          by_level = map (\<lambda>l. (l, length (filter (\<lambda>e. le_level e = l) recent))) LEVELS
      in \<lparr>ls_period_hours = period, ls_total = length recent, ls_by_level = by_level,
          ls_by_category = map (\<lambda>c. (c, length (filter (\<lambda>e. le_category e = c) recent))) CATEGORIES,
          ls_errors_count = count_of by_level ''error'' + count_of by_level ''critical'',
          ls_failed_logins = length (filter (\<lambda>e. le_category e = ''auth'' \<and> \<not> le_success e) recent),
          ls_recent_errors = take 5 (ord (filter (\<lambda>e. le_level e = ''error'' \<or> le_level e = ''critical'') recent))\<rparr>)"

definition get_log_stats :: "row_order \<Rightarrow> int \<Rightarrow> user \<Rightarrow> int \<Rightarrow> log_entry list \<Rightarrow> http_error + log_stats" where
  "get_log_stats ord now current_user period logs =
     (case PermissionChecker ''log:view'' current_user of
        Inl e \<Rightarrow> Inl e | Inr _ \<Rightarrow> Inr (get_stats ord now period logs))"

definition cleanup_old_logs :: "int \<Rightarrow> int \<Rightarrow> log_entry list \<Rightarrow> nat \<times> log_entry list" where
  "cleanup_old_logs now days logs =
     (let old = (\<lambda>e. le_created_at e < now - hours (24 * days))
      in (length (filter old logs), filter (\<lambda>e. \<not> old e) logs))"

definition cleanup_message :: "nat \<Rightarrow> int \<Rightarrow> string" where
  "cleanup_message deleted days =
     [CHR 0xD0, CHR 0xA3, CHR 0xD0, CHR 0xB4, CHR 0xD0, CHR 0xB0, CHR 0xD0, CHR 0xBB, CHR 0xD0, CHR
     0xB5, CHR 0xD0, CHR 0xBD, CHR 0xD0, CHR 0xBE] @ '' '' @ dec_string deleted @ '' '' @ [CHR 0xD0,
     CHR 0xBB, CHR 0xD0, CHR 0xBE, CHR 0xD0, CHR 0xB3, CHR 0xD0, CHR 0xBE, CHR 0xD0, CHR 0xB2] @ ''
     '' @ [CHR 0xD1, CHR 0x81, CHR 0xD1, CHR 0x82, CHR 0xD0, CHR 0xB0, CHR 0xD1, CHR 0x80, CHR 0xD1,
     CHR 0x88, CHR 0xD0, CHR 0xB5] @ '' '' @ dec_int days @ '' '' @ [CHR 0xD0, CHR 0xB4, CHR 0xD0,
     CHR 0xBD, CHR 0xD0, CHR 0xB5, CHR 0xD0, CHR 0xB9]"

definition cleanup_logs :: "int \<Rightarrow> user \<Rightarrow> int \<Rightarrow> log_entry list \<Rightarrow> (http_error + nat) \<times> log_entry list" where
  "cleanup_logs now current_user days logs =
     (case PermissionChecker ''log:delete'' current_user of
        Inl e \<Rightarrow> (Inl e, logs)
      | Inr _ \<Rightarrow>
          if \<not> is_admin current_user
          then (Inl (HTTPException 403 (Msg ''Only admins can delete logs'')), logs)
          else (case cleanup_old_logs now days logs of (deleted, logs') \<Rightarrow>
            (Inr deleted, log_write now ((log_args ''warning'' ''system'' ''logs_cleanup''
               (cleanup_message deleted days))\<lparr>le_username := Some (username current_user)\<rparr>) logs')))"

section \<open>The middleware\<close>

definition EXCLUDE_PATHS :: "string list" where
  "EXCLUDE_PATHS = [''/health'', ''/favicon.ico'', ''/static/'']"

definition QUIET_PATHS :: "string list" where
  "QUIET_PATHS = [''/api/logs'', ''/api/virtual-machines'']"

definition POLL_PATHS :: "string list" where
  "POLL_PATHS = [''/proxmox/api/resources/all'', ''/proxmox/api/servers'', ''/settings/api/panel'',
     ''/api/notifications/unread-count'']"

definition POLL_PREFIXES :: "string list" where
  "POLL_PREFIXES = [''/proxmox/api/'']"

definition LOG_BODY_PATHS :: "string list" where
  "LOG_BODY_PATHS = [''/api/proxmox/'', ''/api/auth/'', ''/api/users/'', ''/api/ipam/'', ''/api/settings/'']"

definition MAX_BODY_SIZE :: nat where
  "MAX_BODY_SIZE = 10000"

text \<open>A request as the middleware sees it, with the answer of the application.\<close>

record exchange =
  ex_request :: request
  ex_method :: string
  ex_path :: string
  ex_query :: "string option"
  ex_body :: string
  ex_json :: "json option"
  ex_status :: int
  ex_duration_ms :: int

definition starts_with_any :: "string \<Rightarrow> string list \<Rightarrow> bool" where
  "starts_with_any path ps = list_ex (\<lambda>p. prefix p path) ps"

definition logged_body :: "exchange \<Rightarrow> json option" where
  "logged_body x =
     (if starts_with_any (ex_path x) LOG_BODY_PATHS \<and> ex_method x \<in> {''POST'', ''PUT'', ''PATCH''} \<and>
         length (ex_body x) \<le> MAX_BODY_SIZE
      then (case ex_json x of Some j \<Rightarrow> Some j | None \<Rightarrow> Some (JObj [(''_raw'', JStr (take 1000 (ex_body x)))]))
      else None)"

definition notable :: "exchange \<Rightarrow> bool" where
  "notable x \<longleftrightarrow> 400 \<le> ex_status x \<or> 5000 < ex_duration_ms x"

definition wants_log :: "bool \<Rightarrow> exchange \<Rightarrow> bool" where
  "wants_log enable_api_logging x =
     (let p = ex_path x;
          log1 = (if ex_method x = ''GET'' \<and> (starts_with_any p POLL_PATHS \<or> starts_with_any p POLL_PREFIXES)
                  then notable x else enable_api_logging);
          log2 = (if starts_with_any p QUIET_PATHS then notable x else log1)
      in log2 \<and> starts_with_any p [''/api/'', ''/proxmox/'', ''/ipam/''])"

definition method_actions :: "(string, string) pydict" where
  "method_actions = [(''GET'', ''read''), (''POST'', ''create''), (''PUT'', ''update''), (''PATCH'', ''update''),
     (''DELETE'', ''delete'')]"

definition strip_slashes :: "string \<Rightarrow> string" where
  "strip_slashes p = rstrip_slash (dropWhile (\<lambda>c. c = CHR ''/'') p)"

definition get_action_from_request :: "string \<Rightarrow> string \<Rightarrow> string" where
  "get_action_from_request verb path =
     (let base_action = (case map_of method_actions verb of Some a \<Rightarrow> a | None \<Rightarrow> lower verb);
          parts = split_on CHR ''/'' (strip_slashes path)
      in if 2 \<le> length parts then
           (let resource = (if hd parts \<in> {''api'', ''proxmox'', ''ipam''} then parts ! 1 else hd parts)
            in if 3 \<le> length parts \<and> last parts \<in> {''start'', ''stop'', ''restart'', ''shutdown'', ''clone'',
                    ''migrate'', ''backup'', ''console''}
               then resource @ ''_'' @ last parts else resource @ ''_'' @ base_action)
         else ''api_'' @ base_action)"

definition session_tag :: "env \<Rightarrow> request \<Rightarrow> string option" where
  "session_tag E r =
     (let h = header r ''authorization'' []
      in if prefix ''Bearer '' h then Some (take 16 (sha256 E (drop 7 h))) else None)"

definition request_entry :: "env \<Rightarrow> string \<Rightarrow> exchange \<Rightarrow> log_entry" where
  "request_entry E request_id x =
     (let level = (if 500 \<le> ex_status x then ''error'' else if 400 \<le> ex_status x then ''warning''
                   else if 3000 < ex_duration_ms x then ''warning'' else ''debug'');
          message = ex_method x @ '' '' @ ex_path x
            @ (if 1000 < ex_duration_ms x then '' (slow: '' @ dec_int (ex_duration_ms x) @ ''ms)'' else [])
            @ '' -> '' @ dec_int (ex_status x)
      in (log_args level ''api'' (get_action_from_request (ex_method x) (ex_path x)) message)\<lparr>
           le_request_id := Some request_id, le_session_id := session_tag E (ex_request x),
           le_ip_address := Some (get_client_ip (ex_request x)),
           le_user_agent := Some (take 500 (header (ex_request x) ''user-agent'' [])),
           le_request_body := logged_body x, le_request_method := Some (ex_method x),
           le_request_path := Some (ex_path x), le_query_params := ex_query x,
           le_response_status := Some (ex_status x), le_duration_ms := Some (ex_duration_ms x),
           le_success := (ex_status x < 400),
           le_error_message := (if 400 \<le> ex_status x then Some (''HTTP '' @ dec_int (ex_status x)) else None)\<rparr>)"

definition dispatch_logged :: "env \<Rightarrow> int \<Rightarrow> bool \<Rightarrow> string \<Rightarrow> exchange \<Rightarrow> log_entry list \<Rightarrow> log_entry list" where
  "dispatch_logged E now enable_api_logging request_id x logs =
     (if starts_with_any (ex_path x) EXCLUDE_PATHS then logs
      else if wants_log enable_api_logging x then log_write now (request_entry E request_id x) logs
      else logs)"

section \<open>Masking\<close>

text \<open>A value that stands unmasked under a sensitive key, within the depth the code descends to.\<close>

fun leaks :: "nat \<Rightarrow> json \<Rightarrow> bool" where
  "leaks depth (JObj d) \<longleftrightarrow> depth \<le> 10 \<and>
     list_ex (\<lambda>kv. if sensitive_key (fst kv) then snd kv \<noteq> MASKED else leaks (Suc depth) (snd kv)) d"
| "leaks depth (JList l) \<longleftrightarrow> depth \<le> 10 \<and> list_ex (leaks (Suc depth)) l"
| "leaks depth j \<longleftrightarrow> False"

lemma mask_not_leaks: "\<not> leaks depth (mask_sensitive_data depth j)"
  by (induction depth j rule: mask_sensitive_data.induct) (auto simp: list_ex_iff MASKED_def)

lemma map_fixed: "map f xs = xs \<longleftrightarrow> (\<forall>x \<in> set xs. f x = x)"
  by (induction xs) auto

lemma mask_fixed_iff: "mask_sensitive_data depth j = j \<longleftrightarrow> \<not> leaks depth j"
proof (induction depth j rule: mask_sensitive_data.induct)
  case (1 depth d)
  show ?case
  proof (cases "10 < depth")
    case False
    have "((fst kv, if sensitive_key (fst kv) then MASKED else mask_sensitive_data (Suc depth) (snd kv)) = kv) =
        (\<not> (if sensitive_key (fst kv) then snd kv \<noteq> MASKED else leaks (Suc depth) (snd kv)))"
      if "kv \<in> set d" for kv
      using 1[OF False that] by (cases "sensitive_key (fst kv)"; cases kv) auto
    with False show ?thesis by (simp add: map_fixed list_ex_iff)
  qed simp
next
  case (2 depth l)
  then show ?case by (cases "10 < depth") (simp_all add: map_fixed list_ex_iff)
qed simp_all

text \<open>C37. What is stored holds no unmasked value under a sensitive key down to ten levels, masking it again
  changes nothing, and data without such values is stored as it is.
\<close>

theorem mask_hides_secrets:
  "\<not> leaks 0 (mask_sensitive_data 0 j) \<and>
   mask_sensitive_data 0 (mask_sensitive_data 0 j) = mask_sensitive_data 0 j \<and>
   (mask_sensitive_data 0 j = j \<longleftrightarrow> \<not> leaks 0 j)"
  by (simp add: mask_fixed_iff mask_not_leaks)

text \<open>Below ten levels nothing is masked.\<close>

lemma deep_secret_is_stored:
  "mask_sensitive_data 0 (((\<lambda>j. JList [j]) ^^ 11) (JObj [(''password'', JStr ''s3cret'')])) =
     ((\<lambda>j. JList [j]) ^^ 11) (JObj [(''password'', JStr ''s3cret'')])"
  by (simp add: numeral_eq_Suc)

text \<open>A body that is not JSON is stored as text, and no key of it is looked at.\<close>

lemma dumps_string_length: "length (dumps_string t) \<le> 6 * length t + 2"
proof -
  have "length (dumps_char c) \<le> 6" for c by (simp add: dumps_char_def hex4_def)
  then have "length (concat (map dumps_char t)) \<le> 6 * length t"
    by (induction t) (auto intro: le_trans[OF add_mono])
  then show ?thesis by (simp add: dumps_string_def)
qed

lemma form_body_stored_in_clear:
  assumes "ex_json x = None" and "starts_with_any (ex_path x) LOG_BODY_PATHS"
    and "ex_method x \<in> {''POST'', ''PUT'', ''PATCH''}" and "length (ex_body x) \<le> 800"
  shows "le_request_body (log_row now (request_entry E i x)) = Some (JObj [(''_raw'', JStr (ex_body x))])"
proof -
  have "\<not> sensitive_key ''_raw''"
    by (simp add: sensitive_key_def SENSITIVE_FIELDS_def lower_def lower_char_def is_upper_def)
  moreover have "length (json_dumps (JObj [(''_raw'', JStr (ex_body x))])) \<le> 5000"
    using dumps_string_length[of "ex_body x"] assms(4)
    by (simp add: dumps_string_def dumps_char_def)
  ultimately show ?thesis
    using assms
    by (simp add: log_row_def request_entry_def Let_def logged_body_def masked_data_def MAX_BODY_SIZE_def
        truncate_data_def MAX_DATA_SIZE_def)
qed

text \<open>The endpoint \<^verbatim>\<open>/api/auth/change-password\<close> takes a form: the old and the new password go to the log.\<close>

lemma form_passwords_reach_the_log:
  assumes "ex_path x = ''/api/auth/change-password''" and "ex_method x = ''POST''"
    and "ex_json x = None" and "length (ex_body x) \<le> 800"
  shows "\<exists>e. dispatch_logged E now True i x logs = logs @ [e] \<and>
    le_request_body e = Some (JObj [(''_raw'', JStr (ex_body x))])"
proof -
  have "starts_with_any (ex_path x) LOG_BODY_PATHS"
    by (simp add: assms(1) starts_with_any_def LOG_BODY_PATHS_def)
  then show ?thesis
    using form_body_stored_in_clear[of x now E i] assms
    by (simp add: dispatch_logged_def wants_log_def starts_with_any_def EXCLUDE_PATHS_def QUIET_PATHS_def
        log_write_def)
qed

section \<open>Pages\<close>

lemma concat_pages:
  "concat (map (\<lambda>p. take n (drop (p * n) xs)) [0..<k]) = take (k * n) xs"
proof (induction k)
  case (Suc k)
  have "take (Suc k * n) xs = take (k * n + n) xs" by (simp add: add.commute)
  also have "\<dots> = take (k * n) xs @ take n (drop (k * n) xs)" by (rule take_add)
  finally show ?case using Suc by simp
qed simp

lemma pages_cover: "0 < (limit::nat) \<Longrightarrow> n \<le> (if 0 < n then (n + limit - 1) div limit else 1) * limit"
proof (cases "0 < n")
  case True
  assume "0 < limit"
  then have "n + limit - 1 < ((n + limit - 1) div limit) * limit + limit"
    by (metis add.commute div_mult_mod_eq mod_less_divisor nat_add_left_cancel_less)
  with True \<open>0 < limit\<close> show ?thesis by simp
qed simp

lemma filter_the_one: "distinct zs \<Longrightarrow> k \<in> set zs \<Longrightarrow> filter (\<lambda>x. x = k) zs = [k]"
proof (induction zs)
  case (Cons z zs)
  then have "filter (\<lambda>x. x = k) zs = [] \<or> z \<noteq> k" by (auto simp: filter_empty_conv)
  then show ?case using Cons by auto
qed simp

text \<open>Rows of distinct times have only one order, so it does not matter how the database sorts.\<close>

lemma sorted_by_time_unique:
  assumes "mset xs = mset ys" and "distinct (map le_created_at ys)"
    and "sorted_wrt (\<lambda>a b. le_created_at b \<le> le_created_at a) xs"
  shows "xs = sort_key (\<lambda>e. - le_created_at e) ys"
proof (rule sym, rule properties_for_sort_key)
  show "mset xs = mset ys" by (rule assms(1))
  show "sorted (map (\<lambda>e. - le_created_at e) xs)" using assms(3) by (simp add: sorted_wrt_map)
  have inj: "inj_on le_created_at (set ys)" using assms(2) by (simp add: distinct_map)
  fix k assume k: "k \<in> set xs"
  have d: "distinct xs" "distinct ys"
    using assms(1,2) by (auto simp: distinct_map dest: mset_eq_imp_distinct_iff)
  have s: "set xs = set ys" by (rule mset_eq_setD [OF assms(1)])
  have one: "filter (\<lambda>x. - le_created_at k = - le_created_at x) zs = [k]"
    if "set zs = set ys" "distinct zs" for zs
  proof -
    have "filter (\<lambda>x. - le_created_at k = - le_created_at x) zs = filter (\<lambda>x. x = k) zs"
      using that(1) k s inj by (intro filter_cong refl) (auto dest: inj_onD)
    also have "\<dots> = [k]" using that k s by (intro filter_the_one) simp_all
    finally show ?thesis .
  qed
  show "filter (\<lambda>x. - le_created_at k = - le_created_at x) xs =
      filter (\<lambda>x. - le_created_at k = - le_created_at x) ys"
    using one [OF s d(1)] one [OF refl d(2)] by simp
qed

text \<open>C38. The pages of the log viewer, from the first to the number of pages each of them reports, hold every
  entry that matches the query exactly once, newest first, and none is longer than asked for; however the database
  orders the rows, page by page, when the matching entries have distinct times. This is for a holder of \<open>log:view\<close>,
  dates that can be read, and entries whose structured columns the answer can hold.\<close>

theorem log_pages_complete:
  assumes "0 < limit" and "has_perm u ''log:view''"
    and "parsed_date_from (lq_date_from q) = Inr date_from" and "parsed_date_to (lq_date_to q) = Inr date_to"
    and "matching = filter (log_matches (query_filter q date_from date_to)) logs"
    and "list_all log_response_valid matching" and "distinct (map le_created_at matching)"
    and "\<And>p. newest_first_order (ord p)"
  shows "\<exists>answers. map (\<lambda>p. get_logs_endpoint (ord p) u q p limit logs) [1..<Suc (length answers)] = map Inr answers \<and>
    answers \<noteq> [] \<and>
    concat (map lp_logs answers) = sort_key (\<lambda>e. - le_created_at e) matching \<and>
    list_all (\<lambda>a. length (lp_logs a) \<le> limit \<and> lp_pages a = length answers \<and> lp_total a = length matching) answers"
proof -
  let ?n = "length matching" and ?sorted = "sort_key (\<lambda>e. - le_created_at e) matching"
  let ?k = "if 0 < ?n then (?n + limit - 1) div limit else 1"
  let ?page = "\<lambda>p. \<lparr>lp_logs = take limit (drop ((p - 1) * limit) ?sorted), lp_total = ?n, lp_page = p,
      lp_limit = limit, lp_pages = ?k\<rparr>"
  have ord: "ord p matching = ?sorted" for p
    using sorted_by_time_unique [OF _ assms(7)] assms(8) [of p] by (simp add: newest_first_order_def)
  have "list_all log_response_valid (take limit (drop m ?sorted))" for m
    using assms(6) by (auto simp: list_all_iff dest!: in_set_takeD in_set_dropD)
  then have page: "get_logs_endpoint (ord p) u q p limit logs = Inr (?page p)" for p
    using assms(2) by (simp add: get_logs_endpoint_def PermissionChecker_def assms(3,4) get_logs_def Let_def
        assms(5) [symmetric] ord)
  have "1 \<le> ?k" using pages_cover [OF assms(1), of ?n] by (cases "?n = 0") (auto simp: Suc_le_eq intro: Nat.gr0I)
  moreover have "concat (map lp_logs (map ?page [1..<Suc ?k])) = ?sorted"
  proof -
    have "map lp_logs (map ?page [1..<Suc ?k]) = map (\<lambda>p. take limit (drop (p * limit) ?sorted)) [0..<?k]"
      using map_Suc_upt [of 0 ?k] by (simp del: upt_Suc add: map_Suc_upt [symmetric] comp_def)
    then show ?thesis using pages_cover [OF assms(1), of ?n] by (simp only: concat_pages) simp
  qed
  ultimately show ?thesis
    by (intro exI [of _ "map ?page [1..<Suc ?k]"]) (simp add: page list_all_iff del: upt_Suc)
qed

definition sample_logs :: "log_entry list" where
  "sample_logs = map (\<lambda>t. (log_args ''info'' ''system'' ''tick'' ''tick'')\<lparr>le_created_at := seconds t\<rparr>) [1, 2, 90000]"

lemma sample_days:
  "strptime_day ''1970-1-01'' = Some 719163" "strptime_day ''1970-01-01'' = Some 719163"
  "strptime_day ''9999-12-31'' = Some 3652059" "strptime_day ''2024-02-29'' \<noteq> None" "strptime_day ''2023-02-29'' = None"
  by (simp_all add: strptime_day_def digits_between_def is_digit_def dec_value_def digit_val_def day_number_def
      days_in_month_def leap_year_def upt_rec Let_def)

definition all_query :: log_query where
  "all_query = \<lparr>lq_level = None, lq_category = None, lq_username = None, lq_ip = None, lq_resource_type = None,
     lq_resource_id = None, lq_date_from = None, lq_date_to = None, lq_search = None\<rparr>"

definition log_reader :: user where
  "log_reader = sample_account\<lparr>is_admin := True\<rparr>"

lemma log_reader_perm: "has_perm log_reader p"
  by (simp add: has_permission_def log_reader_def)

lemma sort_key_newest_first: "newest_first_order (sort_key (\<lambda>e. - le_created_at e))"
proof -
  have "sorted (map (\<lambda>e. - le_created_at e) (sort_key (\<lambda>e. - le_created_at e) rows))" for rows :: "log_entry list"
    by simp
  then show ?thesis unfolding newest_first_order_def sorted_wrt_map by simp
qed

lemma sort_key_rev_newest_first: "newest_first_order (\<lambda>rows. sort_key (\<lambda>e. - le_created_at e) (rev rows))"
  using sort_key_newest_first by (simp add: newest_first_order_def)

lemma log_pages_complete_witness:
  "\<exists>a. get_logs_endpoint (sort_key (\<lambda>e. - le_created_at e)) log_reader
        (all_query\<lparr>lq_date_from := Some ''1970-1-01'', lq_date_to := Some ''1970-01-01''\<rparr>) 1 2 sample_logs = Inr a \<and>
     map le_created_at (lp_logs a) = [seconds 2, seconds 1] \<and> lp_pages a = 1"
proof -
  let ?q = "all_query\<lparr>lq_date_from := Some ''1970-1-01'', lq_date_to := Some ''1970-01-01''\<rparr>"
  have date1: "parsed_date_from (lq_date_from ?q) = Inr (Some 0)"
    by (simp add: parsed_date_from_def sample_days day_start_def seconds_def truthy_str_def)
  have date2: "parsed_date_to (lq_date_to ?q) = Inr (Some (seconds 86400))"
    by (simp add: parsed_date_to_def sample_days day_start_def seconds_def truthy_str_def)
  have found: "filter (log_matches (query_filter ?q (Some 0) (Some (seconds 86400)))) sample_logs = take 2 sample_logs"
    by (simp add: sample_logs_def log_args_def log_matches_def query_filter_def all_query_def if_given_def truthy_str_def seconds_def)
  have "list_all log_response_valid (take 2 sample_logs)" "distinct (map le_created_at (take 2 sample_logs))"
    by (simp_all add: sample_logs_def log_args_def log_response_valid_def dict_or_null_def seconds_def)
  note all = log_pages_complete [of 2 log_reader ?q, OF _ log_reader_perm date1 date2 found [symmetric] this sort_key_newest_first]
  then obtain answers where a: "map (\<lambda>p. get_logs_endpoint (sort_key (\<lambda>e. - le_created_at e)) log_reader ?q p 2 sample_logs)
      [1..<Suc (length answers)] = map Inr answers"
    "answers \<noteq> []" "concat (map lp_logs answers) = sort_key (\<lambda>e. - le_created_at e) (take 2 sample_logs)"
    "list_all (\<lambda>a. length (lp_logs a) \<le> 2 \<and> lp_pages a = length answers \<and> lp_total a = length (take 2 sample_logs)) answers"
    by auto
  obtain x xs where x: "answers = x # xs" using a(2) by (cases answers) auto
  have first: "get_logs_endpoint (sort_key (\<lambda>e. - le_created_at e)) log_reader ?q 1 2 sample_logs = Inr x"
    using a(1) by (simp add: x upt_conv_Cons del: upt_Suc)
  then have "lp_pages x = 1"
    by (simp add: get_logs_endpoint_def PermissionChecker_def log_reader_perm date1 [simplified] date2 [simplified] get_logs_def found
        split: if_splits)
      (auto simp: sample_logs_def)
  moreover have "xs = []" using a(4) \<open>lp_pages x = 1\<close> by (simp add: x)
  ultimately show ?thesis
    using first a(3) by (intro exI [of _ x]) (simp add: x sample_logs_def log_args_def seconds_def)
qed

section \<open>What the log viewer refuses and where it fails\<close>

lemma logs_need_permission:
  "\<not> has_perm u ''log:view'' \<Longrightarrow>
   get_logs_endpoint ord u q page limit logs = Inl (HTTPException 403 (PermissionDenied ''log:view''))"
  by (simp add: get_logs_endpoint_def PermissionChecker_def)

lemma logs_bad_dates:
  assumes "has_perm u ''log:view''"
  shows "truthy_str (lq_date_from q) \<Longrightarrow> strptime_day (the (lq_date_from q)) = None \<Longrightarrow>
      get_logs_endpoint ord u q page limit logs = Inl (HTTPException 400 (Msg ''Invalid date_from format. Use YYYY-MM-DD''))"
    and "\<not> truthy_str (lq_date_from q) \<Longrightarrow> lq_date_to q = Some ''9999-12-31'' \<Longrightarrow>
      get_logs_endpoint ord u q page limit logs = Inl internal_failure"
proof -
  show "\<not> truthy_str (lq_date_from q) \<Longrightarrow> lq_date_to q = Some ''9999-12-31'' \<Longrightarrow>
      get_logs_endpoint ord u q page limit logs = Inl internal_failure"
    using assms
    by (simp add: get_logs_endpoint_def PermissionChecker_def parsed_date_from_def parsed_date_to_def truthy_str_def sample_days)
qed (use assms in \<open>simp add: get_logs_endpoint_def PermissionChecker_def parsed_date_from_def\<close>)

text \<open>The search never looks at the user name, and the levels are kept in lower case.\<close>

lemma search_ignores_username:
  "\<not> truthy_str (lf_username f) \<Longrightarrow> log_matches f (e\<lparr>le_username := x\<rparr>) = log_matches f e"
  by (simp add: log_matches_def if_given_def cong: option.case_cong)

lemma upper_levels_find_nothing:
  "l \<in> set LEVELS \<Longrightarrow> le_level e \<in> set LEVELS \<Longrightarrow> lf_level f = Some (upper l) \<Longrightarrow> \<not> log_matches f e"
proof -
  assume l: "l \<in> set LEVELS" and e: "le_level e \<in> set LEVELS" and f: "lf_level f = Some (upper l)"
  have "list_all (\<lambda>l. upper l \<notin> set LEVELS \<and> upper l \<noteq> []) LEVELS"
    by code_simp
  then have "upper l \<notin> set LEVELS" "upper l \<noteq> []" using l by (auto simp: list_all_iff)
  then have "truthy_str (lf_level f)" "le_level e \<noteq> upper l" using e f by (auto simp: truthy_str_def)
  then show ?thesis by (simp add: log_matches_def if_given_def f)
qed

text \<open>With several rows of one time, each query may order them in its own way, and a row may be on no page.\<close>

lemma tied_entries_may_be_missed:
  "\<exists>ord1 ord2 logs a1 a2. newest_first_order ord1 \<and> newest_first_order ord2 \<and>
     get_logs_endpoint ord1 log_reader all_query 1 1 logs = Inr a1 \<and>
     get_logs_endpoint ord2 log_reader all_query 2 1 logs = Inr a2 \<and>
     lp_pages a1 = 2 \<and> lp_logs a1 = lp_logs a2 \<and> distinct logs \<and> length logs = 2"
proof -
  let ?e = "\<lambda>m. log_args ''info'' ''system'' ''tick'' m"
  let ?ord = "sort_key (\<lambda>e. - le_created_at e)"
  have "log_matches (query_filter all_query None None) (?e m)" "log_response_valid (?e m)" for m
    by (simp_all add: log_args_def log_matches_def query_filter_def all_query_def if_given_def truthy_str_def
        log_response_valid_def dict_or_null_def)
  then show ?thesis
    using sort_key_newest_first sort_key_rev_newest_first
    by (intro exI [of _ ?ord] exI [of _ "\<lambda>rows. ?ord (rev rows)"] exI [of _ "[?e ''a'', ?e ''b'']"])
      (simp add: get_logs_endpoint_def PermissionChecker_def log_reader_perm parsed_date_from_def parsed_date_to_def
        all_query_def truthy_str_def get_logs_def log_args_def)
qed

text \<open>
  Anyone can make the log viewer fail: the body of a request to \<^verbatim>\<open>/api/auth/login\<close> is stored as it came, and a JSON
  list is no object.
\<close>

lemma list_body_breaks_the_viewer:
  assumes "ex_path x = ''/api/auth/login''" and "ex_method x = ''POST''" and "ex_body x = ''[1]''"
    and "ex_json x = Some (JList [JInt 1])"
    and "newest_first_order ord" and "\<forall>e \<in> set logs. le_created_at e < now" and "0 < limit"
    and "has_perm u ''log:view''"
  shows "get_logs_endpoint ord u all_query 1 limit (dispatch_logged E now True i x logs) = Inl internal_failure"
proof -
  let ?e = "log_row now (request_entry E i x)"
  have body: "logged_body x = Some (JList [JInt 1])"
    by (simp add: logged_body_def assms(1-4) starts_with_any_def LOG_BODY_PATHS_def MAX_BODY_SIZE_def)
  have run: "dispatch_logged E now True i x logs = logs @ [?e]"
    by (simp add: dispatch_logged_def wants_log_def assms(1,2) starts_with_any_def EXCLUDE_PATHS_def QUIET_PATHS_def
        log_write_def)
  have "le_request_body ?e = Some (JList [JInt 1])"
    by (simp add: log_row_def request_entry_def Let_def body masked_data_def truncate_data_def MAX_DATA_SIZE_def
        dec_int_def dec_string.simps)
  then have bad: "\<not> log_response_valid ?e" by (simp add: log_response_valid_def dict_or_null_def)
  have t: "le_created_at ?e = now" by (simp add: log_row_def)
  let ?rows = "logs @ [?e]"
  have ord: "mset (ord ?rows) = mset ?rows" "sorted_wrt (\<lambda>a b. le_created_at b \<le> le_created_at a) (ord ?rows)"
    using assms(5) by (simp_all add: newest_first_order_def)
  then have set: "set (ord ?rows) = set ?rows" by (metis mset_eq_setD)
  obtain y ys where y: "ord ?rows = y # ys" using set by (cases "ord ?rows") auto
  have "y = ?e"
  proof (rule ccontr)
    assume "y \<noteq> ?e"
    then have "?e \<in> set ys" "y \<in> set logs" using set y by auto
    then have "le_created_at ?e \<le> le_created_at y" using ord(2) by (auto simp: y)
    moreover have "le_created_at y < now" using assms(6) \<open>y \<in> set logs\<close> by blast
    ultimately show False using t by simp
  qed
  then have "?e \<in> set (take limit (ord ?rows))" using assms(7) by (cases limit) (simp_all add: y)
  then have "\<not> list_all log_response_valid (take limit (ord ?rows))" using bad by (auto simp: list_all_iff)
  moreover have "filter (log_matches (query_filter all_query None None)) ?rows = ?rows"
    by (simp add: filter_id_conv log_matches_def query_filter_def all_query_def if_given_def truthy_str_def)
  ultimately show ?thesis
    using assms(8)
    by (simp add: run get_logs_endpoint_def PermissionChecker_def parsed_date_from_def parsed_date_to_def
        get_logs_def all_query_def truthy_str_def)
qed

end
