(* ===== verification/NetParser.thy ===== *)
theory NetParser
  imports Proxmox
begin

text \<open>
  \<^verbatim>\<open>backend/app/proxmox/net_parser.py\<close>, which reads the text of a guest's network card (\<open>net0\<close> of a
  Proxmox configuration) back into its parts, with the places that write such a text:
  \<^verbatim>\<open>api/proxmox/lxc.py\<close> for a new container, \<open>create_vm_from_iso\<close> for a new machine, and
  \<open>configure_vm\<close>, which moves an existing card to another bridge.

  \<open>float(text)\<close> is only tested for raising, so the field \<open>rate\<close> keeps the text of the number.
\<close>

section \<open>Reading\<close>

definition QEMU_MODELS :: "string list" where
  "QEMU_MODELS = [''virtio'', ''e1000'', ''e1000e'', ''e1000-82540em'', ''e1000-82544gc'',
     ''e1000-82545em'', ''rtl8139'', ''vmxnet3'', ''ne2k_pci'', ''ne2k_isa'',
     ''pcnet'', ''i82551'', ''i82557b'', ''i82559er'']"

record parsed_nic =
  nic_key :: string
  nic_index :: int
  nic_model :: "string option"
  nic_mac :: "string option"
  nic_bridge :: "string option"
  nic_vlan_tag :: "int option"
  nic_trunks :: "int list"
  nic_firewall :: bool
  nic_link_down :: bool
  nic_name :: "string option"
  nic_ip :: "string option"
  nic_ip6 :: "string option"
  nic_gw :: "string option"
  nic_gw6 :: "string option"
  nic_rate :: "string option"
  nic_mtu :: "int option"
  nic_queues :: "int option"
  nic_raw :: string

text \<open>\<open>s.partition(c)\<close>: what precedes the first \<open>c\<close>, and what follows it if there is one.\<close>

definition partition_at :: "char \<Rightarrow> string \<Rightarrow> string \<times> string option" where
  "partition_at c s = (takeWhile (\<lambda>x. x \<noteq> c) s,
     if c \<in> set s then Some (drop (Suc (length (takeWhile (\<lambda>x. x \<noteq> c) s))) s) else None)"

definition or_none :: "string \<Rightarrow> string option" where
  "or_none s = (if s = [] then None else Some s)"

definition signless :: "string \<Rightarrow> string" where
  "signless s = (case s of [] \<Rightarrow> [] | c # cs \<Rightarrow> if c = CHR ''+'' \<or> c = CHR ''-'' then cs else s)"

definition digits_ok :: "string \<Rightarrow> bool" where
  "digits_ok s = (digits_body s \<noteq> None)"

text \<open>The texts Python's \<open>float\<close> accepts.\<close>

definition float_literal :: "string \<Rightarrow> bool" where
  "float_literal s =
     (let t = signless (lower (strip s)) in
      if t = ''inf'' \<or> t = ''infinity'' \<or> t = ''nan'' then True
      else (case partition_at CHR ''e'' t of (mantissa, ex) \<Rightarrow>
        (case ex of None \<Rightarrow> True | Some x \<Rightarrow> digits_ok (signless x)) \<and>
        (case partition_at CHR ''.'' mantissa of
           (whole, None) \<Rightarrow> digits_ok whole
         | (whole, Some frac) \<Rightarrow> (whole = [] \<or> digits_ok whole) \<and> (frac = [] \<or> digits_ok frac) \<and>
             \<not> (whole = [] \<and> frac = []))))"

definition as_float :: "string \<Rightarrow> string option" where
  "as_float s = (if float_literal s then Some s else None)"

definition as_bool :: "string \<Rightarrow> bool" where
  "as_bool s = (lower (strip s) \<in> {''1'', ''true'', ''yes'', ''on''})"

text \<open>The group of \<open>^net(\d+)$\<close>; a dollar also matches before a final line feed.\<close>

definition net_key_index :: "string \<Rightarrow> int option" where
  "net_key_index k =
     (if take 3 k \<noteq> ''net'' then None
      else let r = drop 3 k;
               ds = (if r \<noteq> [] \<and> last r = CHR 0x0A then butlast r else r)
        in if ds \<noteq> [] \<and> list_all is_digit ds then Some (int (dec_value ds)) else None)"

definition nic_option :: "string \<Rightarrow> string \<Rightarrow> parsed_nic \<Rightarrow> parsed_nic" where
  "nic_option opt v nic =
     (if opt \<in> set QEMU_MODELS then nic\<lparr>nic_model := Some opt, nic_mac := or_none (upper v)\<rparr>
      else if opt = ''hwaddr'' then nic\<lparr>nic_mac := or_none (upper v)\<rparr>
      else if opt = ''bridge'' then nic\<lparr>nic_bridge := or_none v\<rparr>
      else if opt = ''tag'' then nic\<lparr>nic_vlan_tag := py_int v\<rparr>
      else if opt = ''trunks'' then nic\<lparr>nic_trunks := List.map_filter py_int (split_on CHR '';'' v)\<rparr>
      else if opt = ''firewall'' then nic\<lparr>nic_firewall := as_bool v\<rparr>
      else if opt = ''link_down'' then nic\<lparr>nic_link_down := as_bool v\<rparr>
      else if opt = ''name'' then nic\<lparr>nic_name := or_none v\<rparr>
      else if opt = ''ip'' then nic\<lparr>nic_ip := or_none v\<rparr>
      else if opt = ''ip6'' then nic\<lparr>nic_ip6 := or_none v\<rparr>
      else if opt = ''gw'' then nic\<lparr>nic_gw := or_none v\<rparr>
      else if opt = ''gw6'' then nic\<lparr>nic_gw6 := or_none v\<rparr>
      else if opt = ''rate'' then nic\<lparr>nic_rate := as_float v\<rparr>
      else if opt = ''mtu'' then nic\<lparr>nic_mtu := py_int v\<rparr>
      else if opt = ''queues'' then nic\<lparr>nic_queues := py_int v\<rparr>
      else nic)"

definition nic_token :: "string \<Rightarrow> parsed_nic \<Rightarrow> parsed_nic" where
  "nic_token token nic =
     (case partition_at CHR ''='' (strip token) of
        (_, None) \<Rightarrow> nic
      | (opt, Some v) \<Rightarrow> nic_option (lower (strip opt)) (strip v) nic)"

definition blank_nic :: "string \<Rightarrow> string \<Rightarrow> parsed_nic" where
  "blank_nic key v = \<lparr>nic_key = key, nic_index = (case net_key_index key of None \<Rightarrow> 0 | Some i \<Rightarrow> i),
     nic_model = None, nic_mac = None, nic_bridge = None, nic_vlan_tag = None, nic_trunks = [],
     nic_firewall = False, nic_link_down = False, nic_name = None, nic_ip = None, nic_ip6 = None,
     nic_gw = None, nic_gw6 = None, nic_rate = None, nic_mtu = None, nic_queues = None, nic_raw = v\<rparr>"

definition parse_net_string :: "string \<Rightarrow> string \<Rightarrow> parsed_nic" where
  "parse_net_string key v = fold nic_token (split_on CHR '','' v) (blank_nic key v)"

definition guest_nics :: "(string, json) pydict \<Rightarrow> parsed_nic list" where
  "guest_nics d = sort_key nic_index (List.map_filter
     (\<lambda>(k, v). if net_key_index k = None then None else map_option (parse_net_string k) (json_str v)) d)"

text \<open>\<open>(config or {}).items()\<close> raises for a value that is neither empty nor a dictionary.\<close>

definition parse_guest_nics :: "json \<Rightarrow> py_exception + parsed_nic list" where
  "parse_guest_nics config =
     (if \<not> truthy_json config then Inr []
      else (case config of
          JObj d \<Rightarrow> Inr (guest_nics d)
        | _ \<Rightarrow> Inl (PyException (CHR 0x27 # json_type config @ CHR 0x27 # '' object has no attribute '' @
            [CHR 0x27] @ ''items'' @ [CHR 0x27]) None False)))"

section \<open>Writing\<close>

definition opt_text :: "string \<Rightarrow> string \<Rightarrow> string" where
  "opt_text k v = k @ ''='' @ v"

text \<open>The addresses of a new container: \<open>allocated_ip\<close> and \<open>gateway\<close> are tested for being non-empty.\<close>

definition lxc_ip_config :: "string option \<Rightarrow> string \<Rightarrow> string option \<Rightarrow> string" where
  "lxc_ip_config allocated_ip network_mask gateway =
     (if truthy_str allocated_ip then
        (if truthy_str gateway
         then ''ip='' @ the allocated_ip @ ''/'' @ network_mask @ '',gw='' @ the gateway
         else ''ip='' @ the allocated_ip @ ''/'' @ network_mask)
      else ''ip=dhcp'')"

definition lxc_net0 :: "string \<Rightarrow> string \<Rightarrow> string" where
  "lxc_net0 bridge ip_config = ''name=eth0,bridge='' @ bridge @ '','' @ ip_config @ '',firewall=1''"

definition iso_net0 :: "string \<Rightarrow> string \<Rightarrow> string" where
  "iso_net0 net_model bridge = net_model @ '',bridge='' @ bridge @ '',firewall=1''"

text \<open>The branch of \<open>configure_vm\<close> on \<open>network_bridge\<close>.\<close>

definition rebridge :: "string \<Rightarrow> string option \<Rightarrow> string" where
  "rebridge network_bridge existing_net0 =
     (if truthy_str existing_net0 then
        (let parts = filter (\<lambda>p. strip p \<noteq> []) (split_on CHR '','' (the existing_net0));
             new_parts = map (\<lambda>p. if prefix ''bridge='' p then opt_text ''bridge'' network_bridge else p) parts
         in join_with '','' (if list_ex (prefix ''bridge='') parts then new_parts
              else new_parts @ [opt_text ''bridge'' network_bridge]))
      else ''virtio,'' @ opt_text ''bridge'' network_bridge)"

section \<open>Tokens\<close>

text \<open>A clean text: what a builder may put after an equals sign so that it is read back as it is.\<close>

definition clean :: "string \<Rightarrow> bool" where
  "clean s \<longleftrightarrow> s \<noteq> [] \<and> CHR '','' \<notin> set s \<and> list_all (\<lambda>c. \<not> is_space c) s"

lemma cleanD: "clean s \<Longrightarrow> s \<noteq> []" "clean s \<Longrightarrow> CHR '','' \<notin> set s" "clean s \<Longrightarrow> strip s = s"
proof -
  assume "clean s"
  then show "s \<noteq> []" "CHR '','' \<notin> set s" by (simp_all add: clean_def)
  from \<open>clean s\<close> have "\<not> is_space (hd s) \<and> \<not> is_space (last s)" by (simp add: clean_def list_all_iff)
  then show "strip s = s" by (simp add: strip_no_space_ends)
qed

lemma strip_clean_list: "list_all (\<lambda>c. \<not> is_space c) s \<Longrightarrow> strip s = s"
  by (cases "s = []") (simp_all add: strip_no_space_ends list_all_iff)

lemma partition_at_simps [simp]:
  "partition_at c [] = ([], None)"
  "partition_at c (x # s) = (if x = c then ([], Some s)
     else (case partition_at c s of (a, b) \<Rightarrow> (x # a, b)))"
  by (auto simp: partition_at_def)

lemma nic_token_blank: "strip p = [] \<Longrightarrow> nic_token p n = n"
  by (simp add: nic_token_def)

lemma partition_opt_text: "CHR ''='' \<notin> set k \<Longrightarrow> partition_at CHR ''='' (opt_text k v) = (k, Some v)"
  by (induction k) (auto simp: opt_text_def)

text \<open>Reading a written option.\<close>

definition option_name :: "string \<Rightarrow> bool" where
  "option_name k \<longleftrightarrow> CHR ''='' \<notin> set k \<and> list_all (\<lambda>c. \<not> is_space c) k \<and> lower k = k"

lemma nic_token_opt_text:
  assumes "clean v" and "option_name k"
  shows "nic_token (opt_text k v) n = nic_option k v n"
proof -
  have "strip (opt_text k v) = opt_text k v"
    using assms by (intro strip_clean_list) (simp add: clean_def option_name_def opt_text_def is_space_def)
  then show ?thesis
    using assms cleanD(3)[OF assms(1)]
    by (simp add: nic_token_def partition_opt_text option_name_def strip_clean_list)
qed

lemma option_names [simp]:
  "option_name ''bridge''" "option_name ''name''" "option_name ''ip''" "option_name ''gw''" "option_name ''firewall''"
  by (simp_all add: option_name_def is_space_def lower_def lower_char_def is_upper_def)

lemma nic_option_known:
  "nic_option ''bridge'' v n = n\<lparr>nic_bridge := or_none v\<rparr>"
  "nic_option ''name'' v n = n\<lparr>nic_name := or_none v\<rparr>"
  "nic_option ''ip'' v n = n\<lparr>nic_ip := or_none v\<rparr>"
  "nic_option ''gw'' v n = n\<lparr>nic_gw := or_none v\<rparr>"
  "nic_option ''firewall'' v n = n\<lparr>nic_firewall := as_bool v\<rparr>"
  by (simp_all add: nic_option_def QEMU_MODELS_def)

lemma nic_token_bridge: "clean b \<Longrightarrow> nic_token (opt_text ''bridge'' b) n = n\<lparr>nic_bridge := Some b\<rparr>"
  by (simp add: nic_token_opt_text nic_option_known or_none_def clean_def)

lemma comma_free_opt_text: "CHR '','' \<notin> set k \<Longrightarrow> clean v \<Longrightarrow> CHR '','' \<notin> set (opt_text k v)"
  by (simp add: opt_text_def clean_def)

text \<open>What a token does to a card touches one field, or none.\<close>

definition bridge_token :: "string \<Rightarrow> bool" where
  "bridge_token p = (case partition_at CHR ''='' (strip p) of (opt, v) \<Rightarrow> v \<noteq> None \<and> lower (strip opt) = ''bridge'')"

lemma nic_option_bridge_other:
  "opt \<noteq> ''bridge'' \<Longrightarrow> nic_option opt v (n\<lparr>nic_bridge := x\<rparr>) = (nic_option opt v n)\<lparr>nic_bridge := x\<rparr>"
  by (simp add: nic_option_def)

lemma nic_option_raw: "nic_option opt v (n\<lparr>nic_raw := x\<rparr>) = (nic_option opt v n)\<lparr>nic_raw := x\<rparr>"
  by (simp add: nic_option_def)

lemma nic_token_raw: "nic_token p (n\<lparr>nic_raw := x\<rparr>) = (nic_token p n)\<lparr>nic_raw := x\<rparr>"
  by (simp add: nic_token_def nic_option_raw split: prod.split option.split)

lemma fold_token_raw: "fold nic_token ps (n\<lparr>nic_raw := x\<rparr>) = (fold nic_token ps n)\<lparr>nic_raw := x\<rparr>"
  by (induction ps arbitrary: n) (simp_all add: nic_token_raw)

lemma nic_token_bridge_other:
  "\<not> bridge_token p \<Longrightarrow> nic_token p (n\<lparr>nic_bridge := x\<rparr>) = (nic_token p n)\<lparr>nic_bridge := x\<rparr>"
  by (auto simp: nic_token_def bridge_token_def intro!: nic_option_bridge_other split: prod.splits option.splits)

lemma nic_option_keeps_bridge: "opt \<noteq> ''bridge'' \<Longrightarrow> nic_bridge (nic_option opt v n) = nic_bridge n"
  by (simp add: nic_option_def)

lemma nic_token_keeps_bridge: "\<not> bridge_token p \<Longrightarrow> nic_bridge (nic_token p n) = nic_bridge n"
  by (auto simp: nic_token_def bridge_token_def intro!: nic_option_keeps_bridge split: prod.splits option.splits)

lemma nic_token_bridge_reset:
  "bridge_token p \<Longrightarrow> (nic_token p n)\<lparr>nic_bridge := x\<rparr> = n\<lparr>nic_bridge := x\<rparr>"
  by (auto simp: nic_token_def bridge_token_def nic_option_def QEMU_MODELS_def split: prod.splits option.splits)

lemma fold_filter_blank: "fold nic_token (filter (\<lambda>p. strip p \<noteq> []) ps) n = fold nic_token ps n"
  by (induction ps arbitrary: n) (simp_all add: nic_token_blank)

lemma fold_token_bridge:
  assumes "\<And>p. p \<in> set ps \<Longrightarrow> \<not> bridge_token p"
  shows "fold nic_token ps (n\<lparr>nic_bridge := x\<rparr>) = (fold nic_token ps n)\<lparr>nic_bridge := x\<rparr>"
  using assms by (induction ps arbitrary: n) (simp_all add: nic_token_bridge_other)

text \<open>Replacing every bridge token changes the bridge and nothing else.\<close>

lemma fold_replaced:
  assumes b: "clean b" and tok: "\<And>p. p \<in> set ps \<Longrightarrow> bridge_token p \<longleftrightarrow> prefix ''bridge='' p"
  shows "(fold nic_token (map (\<lambda>p. if prefix ''bridge='' p then opt_text ''bridge'' b else p) ps) n)\<lparr>nic_bridge := Some b\<rparr>
      = (fold nic_token ps n)\<lparr>nic_bridge := Some b\<rparr> \<and>
    (list_ex (prefix ''bridge='') ps \<longrightarrow>
      nic_bridge (fold nic_token (map (\<lambda>p. if prefix ''bridge='' p then opt_text ''bridge'' b else p) ps) n) = Some b)"
    (is "?l n = ?r n \<and> _")
  using tok
proof (induction ps rule: rev_induct)
  case (snoc p ps)
  let ?f = "\<lambda>p. if prefix ''bridge='' p then opt_text ''bridge'' b else p"
  let ?m = "fold nic_token (map ?f ps) n" and ?o = "fold nic_token ps n"
  have IH: "?m\<lparr>nic_bridge := Some b\<rparr> = ?o\<lparr>nic_bridge := Some b\<rparr>"
    "list_ex (prefix ''bridge='') ps \<longrightarrow> nic_bridge ?m = Some b"
    using snoc by simp_all
  show ?case
  proof (cases "prefix ''bridge='' p")
    case True
    then have "bridge_token p" using snoc.prems by simp
    then show ?thesis using IH True by (simp add: nic_token_bridge[OF b] nic_token_bridge_reset)
  next
    case False
    then have np: "\<not> bridge_token p" using snoc.prems by simp
    have "(nic_token p ?m)\<lparr>nic_bridge := Some b\<rparr> = nic_token p (?m\<lparr>nic_bridge := Some b\<rparr>)"
      by (simp add: nic_token_bridge_other[OF np])
    also have "\<dots> = (nic_token p ?o)\<lparr>nic_bridge := Some b\<rparr>"
      by (simp add: IH(1) nic_token_bridge_other[OF np])
    finally have eq: "(nic_token p ?m)\<lparr>nic_bridge := Some b\<rparr> = (nic_token p ?o)\<lparr>nic_bridge := Some b\<rparr>" .
    show ?thesis using IH(2) eq False by (simp add: nic_token_keeps_bridge[OF np])
  qed
qed simp

lemma split_rejoin:
  assumes "\<And>p. p \<in> set ps \<Longrightarrow> CHR '','' \<notin> set p"
  shows "fold nic_token (split_on CHR '','' (join_with '','' ps)) n = fold nic_token ps n"
proof (cases "ps = []")
  case True
  then show ?thesis by (simp add: nic_token_blank strip_def lstrip_def)
next
  case False
  then show ?thesis using assms by (simp add: split_on_join)
qed

section \<open>Properties\<close>

text \<open>C39. Moving a card to another bridge keeps every other setting of it: the new text is read as the old
  one with that bridge, whatever options the card has, as long as its bridge option is written the way
  Proxmox writes it.
\<close>

theorem rebridge_keeps_card:
  assumes "clean b" and "s \<noteq> []"
    and "\<forall>p \<in> set (split_on CHR '','' s). bridge_token p \<longleftrightarrow> prefix ''bridge='' p"
  shows "parse_net_string k (rebridge b (Some s)) =
    (parse_net_string k s)\<lparr>nic_bridge := Some b, nic_raw := rebridge b (Some s)\<rparr>"
proof -
  let ?ps = "filter (\<lambda>p. strip p \<noteq> []) (split_on CHR '','' s)"
  let ?f = "\<lambda>p. if prefix ''bridge='' p then opt_text ''bridge'' b else p"
  let ?qs = "if list_ex (prefix ''bridge='') ?ps then map ?f ?ps else map ?f ?ps @ [opt_text ''bridge'' b]"
  let ?n = "blank_nic k s"
  have qs: "rebridge b (Some s) = join_with '','' ?qs" using assms(2) by (simp add: rebridge_def Let_def)
  have comma: "CHR '','' \<notin> set p" if "p \<in> set ?qs" for p
    using that comma_free_opt_text[OF _ assms(1), of "''bridge''"] by (auto dest: split_on_parts split: if_splits)
  have tok: "bridge_token p \<longleftrightarrow> prefix ''bridge='' p" if "p \<in> set ?ps" for p
    using that assms(3) by simp
  note r = fold_replaced[OF assms(1) tok, of ?ps ?n]
  have "fold nic_token ?qs ?n = (fold nic_token ?ps ?n)\<lparr>nic_bridge := Some b\<rparr>"
  proof (cases "list_ex (prefix ''bridge='') ?ps")
    case True
    then have "nic_bridge (fold nic_token (map ?f ?ps) ?n) = Some b" using r by blast
    then have "fold nic_token (map ?f ?ps) ?n = (fold nic_token (map ?f ?ps) ?n)\<lparr>nic_bridge := Some b\<rparr>" by simp
    with r True show ?thesis by simp
  next
    case False
    with r show ?thesis by (simp add: nic_token_bridge[OF assms(1)])
  qed
  moreover have "blank_nic k (rebridge b (Some s)) = ?n\<lparr>nic_raw := rebridge b (Some s)\<rparr>"
    by (simp add: blank_nic_def)
  ultimately show ?thesis
    using split_rejoin[OF comma, of ?qs ?n]
    by (simp add: parse_net_string_def fold_token_raw qs fold_filter_blank)
qed

text \<open>C40. The card written for a new container is read back with exactly its name, bridge, address, gateway
  and firewall.
\<close>

theorem lxc_net0_round_trip:
  assumes "clean bridge" and "clean mask_text"
    and "\<And>a. allocated_ip = Some a \<Longrightarrow> clean a" and "\<And>g. gateway = Some g \<Longrightarrow> clean g"
  shows "parse_net_string ''net0'' (lxc_net0 bridge (lxc_ip_config allocated_ip mask_text gateway)) =
    (blank_nic ''net0'' (lxc_net0 bridge (lxc_ip_config allocated_ip mask_text gateway)))\<lparr>
      nic_bridge := Some bridge, nic_firewall := True, nic_name := Some ''eth0'',
      nic_ip := Some (case allocated_ip of None \<Rightarrow> ''dhcp'' | Some a \<Rightarrow> a @ ''/'' @ mask_text),
      nic_gw := (if allocated_ip = None then None else gateway)\<rparr>"
proof -
  define addr where "addr = (case allocated_ip of None \<Rightarrow> ''dhcp'' | Some a \<Rightarrow> a @ ''/'' @ mask_text)"
  define gws where "gws = (if allocated_ip = None then [] else case gateway of None \<Rightarrow> [] | Some g \<Rightarrow> [opt_text ''gw'' g])"
  let ?ts = "[opt_text ''name'' ''eth0'', opt_text ''bridge'' bridge, opt_text ''ip'' addr] @ gws @
    [opt_text ''firewall'' ''1'']"
  have addr: "clean addr" using assms(2,3) by (auto simp: addr_def clean_def is_space_def split: option.split)
  have net0: "lxc_net0 bridge (lxc_ip_config allocated_ip mask_text gateway) = join_with '','' ?ts"
    using cleanD(1)[OF assms(3)] cleanD(1)[OF assms(4)]
    by (auto simp: lxc_net0_def lxc_ip_config_def addr_def gws_def opt_text_def split: option.split)
  have comma: "CHR '','' \<notin> set p" if "p \<in> set ?ts" for p
    using that assms(1,4) addr
    by (auto simp: gws_def opt_text_def clean_def split: if_splits option.splits)
  have lit: "clean ''eth0''" "clean ''1''" by (simp_all add: clean_def is_space_def)
  have "parse_net_string k (join_with '','' ?ts) = fold nic_token ?ts (blank_nic k v)"
    if "v = join_with '','' ?ts" for k v
    unfolding that parse_net_string_def by (rule split_rejoin[OF comma])
  note parsed = this[OF net0, folded net0]
  show ?thesis
    unfolding parsed
    using assms(1) addr lit
    by (auto simp: gws_def nic_token_opt_text nic_option_known or_none_def cleanD(1) blank_nic_def
        addr_def[symmetric] as_bool_def strip_clean_list is_space_def lower_def lower_char_def is_upper_def
        assms(4) split: option.split)
qed

lemma rebridge_keeps_card_witness:
  "nic_bridge (parse_net_string ''net0'' (rebridge ''vmbr7'' (Some ''virtio=aa:bb,bridge=vmbr0,tag=100''))) = Some ''vmbr7'' \<and>
   nic_mac (parse_net_string ''net0'' (rebridge ''vmbr7'' (Some ''virtio=aa:bb,bridge=vmbr0,tag=100''))) = Some ''AA:BB'' \<and>
   nic_vlan_tag (parse_net_string ''net0'' (rebridge ''vmbr7'' (Some ''virtio=aa:bb,bridge=vmbr0,tag=100''))) = Some 100"
proof -
  have "clean ''vmbr7''" by code_simp
  moreover have "''virtio=aa:bb,bridge=vmbr0,tag=100'' \<noteq> []" by simp
  moreover have "\<forall>p \<in> set (split_on CHR '','' ''virtio=aa:bb,bridge=vmbr0,tag=100'').
      bridge_token p \<longleftrightarrow> prefix ''bridge='' p" by code_simp
  moreover have "nic_mac (parse_net_string ''net0'' ''virtio=aa:bb,bridge=vmbr0,tag=100'') = Some ''AA:BB''"
    by code_simp
  moreover have "nic_vlan_tag (parse_net_string ''net0'' ''virtio=aa:bb,bridge=vmbr0,tag=100'') = Some 100"
    by code_simp
  ultimately show ?thesis using rebridge_keeps_card[of "''vmbr7''" "''virtio=aa:bb,bridge=vmbr0,tag=100''" "''net0''"] by simp
qed

lemma lxc_net0_round_trip_witness:
  "parse_net_string ''net0'' (lxc_net0 ''vmbr0'' (lxc_ip_config (Some ''10.0.0.5'') ''24'' (Some ''10.0.0.1''))) =
    (blank_nic ''net0'' (lxc_net0 ''vmbr0'' (lxc_ip_config (Some ''10.0.0.5'') ''24'' (Some ''10.0.0.1''))))\<lparr>
      nic_bridge := Some ''vmbr0'', nic_firewall := True, nic_name := Some ''eth0'',
      nic_ip := Some ''10.0.0.5/24'', nic_gw := Some ''10.0.0.1''\<rparr>"
proof -
  have "clean ''vmbr0''" "clean ''24''" "clean ''10.0.0.5''" "clean ''10.0.0.1''" by code_simp+
  then show ?thesis
    using lxc_net0_round_trip[of "''vmbr0''" "''24''" "Some ''10.0.0.5''" "Some ''10.0.0.1''"] by simp
qed

end
