(* ===== verification/GuestNet.thy ===== *)
theory GuestNet
  imports NetParser Guests PyIp
begin

text \<open>
  The addresses of guests as Proxmox reports them, and the part of the cache synchronisation that asks the
  servers: \<open>get_nodes\<close>, \<open>get_cluster_resources\<close> and \<open>get_container_interfaces\<close> of
  \<^verbatim>\<open>backend/app/proxmox/client.py\<close>, and the first half of \<open>sync_vm_cache\<close> in
  \<^verbatim>\<open>backend/app/workers/monitoring_worker.py\<close> (clusters, collection of the guests, detection of an address).

  A guest of \<open>/cluster/resources\<close> is decoded into a \<open>resource\<close>. An entry without the types Proxmox documents
  (a number for \<open>vmid\<close>, \<open>maxmem\<close>, \<open>maxdisk\<close>, \<open>maxcpu\<close>; texts for the rest) counts as an answer that raises.
\<close>

section \<open>Interfaces of containers\<close>

record guest_ip =
  gi_address :: string
  gi_v4 :: bool
  gi_prefix :: int

record iface =
  if_name :: string
  if_mac :: string
  if_ips :: "guest_ip list"

definition is_loopback :: "ip_addr \<Rightarrow> bool" where
  "is_loopback a = (case a of IPv4 n \<Rightarrow> n div 2 ^ 24 = 127 | IPv6 n _ \<Rightarrow> n = 1)"

definition is_link_local :: "ip_addr \<Rightarrow> bool" where
  "is_link_local a = (case a of IPv4 n \<Rightarrow> n div 65536 = 43518 | IPv6 n _ \<Rightarrow> n div 2 ^ 118 = 1018)"

definition add_ip :: "string \<Rightarrow> iface \<Rightarrow> iface" where
  "add_ip v i =
     (case partition_at CHR ''/'' (strip v) of (addr, rest) \<Rightarrow>
        if addr \<in> {[], ''dhcp'', ''manual'', ''auto''} then i
        else (case ip_address addr of
            None \<Rightarrow> i
          | Some ip \<Rightarrow>
              if is_loopback ip \<or> is_link_local ip then i
              else if list_ex (\<lambda>x. gi_address x = addr) (if_ips i) then i
              else i\<lparr>if_ips := if_ips i @ [\<lparr>gi_address = addr, gi_v4 = is_v4 ip,
                gi_prefix = (case rest of
                    Some p \<Rightarrow> if p \<noteq> [] \<and> list_all is_digit p then int (dec_value p) else if is_v4 ip then 32 else 128
                  | None \<Rightarrow> if is_v4 ip then 32 else 128)\<rparr>]\<rparr>))"

definition slot :: "string \<Rightarrow> string \<Rightarrow> (string, iface) pydict \<Rightarrow> iface" where
  "slot name mac d =
     (let i = (case map_of d name of Some i \<Rightarrow> i | None \<Rightarrow> \<lparr>if_name = name, if_mac = [], if_ips = []\<rparr>)
      in if mac \<noteq> [] \<and> if_mac i = [] then i\<lparr>if_mac := mac\<rparr> else i)"

definition text_of :: "string option \<Rightarrow> string" where
  "text_of x = (case x of None \<Rightarrow> [] | Some s \<Rightarrow> s)"

definition static_iface :: "parsed_nic \<Rightarrow> (string, iface) pydict \<Rightarrow> (string, iface) pydict" where
  "static_iface nic d =
     (let name = (if truthy_str (nic_name nic) then the (nic_name nic) else ''eth'' @ dec_int (nic_index nic))
      in AList.update name (add_ip (text_of (nic_ip6 nic)) (add_ip (text_of (nic_ip nic))
           (slot name (text_of (nic_mac nic)) d))) d)"

text \<open>\<open>x.get(k) or ''\<close> as a text; \<^term>\<open>None\<close> where the text method called on it raises.\<close>

definition text_or_empty :: "json \<Rightarrow> string option" where
  "text_or_empty j = (if \<not> truthy_json j then Some [] else json_str j)"

text \<open>An entry of another shape raises and ends the loop; what was read before it stays.\<close>

fun live_ifaces :: "json list \<Rightarrow> (string, iface) pydict \<Rightarrow> (string, iface) pydict" where
  "live_ifaces (JObj e # es) d =
     (case text_or_empty (dget e ''name'') of
        None \<Rightarrow> d
      | Some name \<Rightarrow>
          if name = [] \<or> name = ''lo'' then live_ifaces es d
          else (case text_or_empty (dget e ''hwaddr'') of
              None \<Rightarrow> d
            | Some mac \<Rightarrow>
                (let i = slot name (upper mac) d in
                 case text_or_empty (dget e ''inet'') of
                   None \<Rightarrow> AList.update name i d
                 | Some a4 \<Rightarrow>
                     (case text_or_empty (dget e ''inet6'') of
                        None \<Rightarrow> AList.update name (add_ip a4 i) d
                      | Some a6 \<Rightarrow> live_ifaces es (AList.update name (add_ip a6 (add_ip a4 i)) d)))))"
| "live_ifaces _ d = d"

definition has_static_v4 :: "(string, iface) pydict \<Rightarrow> bool" where
  "has_static_v4 d = list_ex (\<lambda>(_, i). list_ex gi_v4 (if_ips i)) d"

definition list_or_empty :: "json \<Rightarrow> json list" where
  "list_or_empty j = (case j of JList l \<Rightarrow> l | _ \<Rightarrow> [])"

definition get_container_interfaces :: "'w proxmox_api \<Rightarrow> proxmox_client \<Rightarrow> string \<Rightarrow> int \<Rightarrow> bool \<Rightarrow>
    ('w px_state, iface list) state" where
  "get_container_interfaces E c node vmid include_live = (case proxmox c of
       None \<Rightarrow> return []
     | Some h \<Rightarrow> do {
         r \<leftarrow> send E h (Request GET (guest_path Lxc node vmid [''config'']) []);
         let d = (case r of Inl _ \<Rightarrow> [] | Inr config \<Rightarrow>
            (case parse_guest_nics config of Inl _ \<Rightarrow> [] | Inr nics \<Rightarrow> fold static_iface nics []));
         d' \<leftarrow> (if \<not> has_static_v4 d \<and> include_live
            then do {
              l \<leftarrow> send E h (Request GET (guest_path Lxc node vmid [''interfaces'']) []);
              return (case l of Inl _ \<Rightarrow> d | Inr j \<Rightarrow> live_ifaces (list_or_empty j) d)
            }
            else return d);
         return (filter (\<lambda>i. if_ips i \<noteq> []) (map snd d'))
       })"

section \<open>The address of a guest\<close>

definition container_address :: "iface list \<Rightarrow> string option" where
  "container_address is = map_option gi_address (find (\<lambda>x. gi_v4 x \<and> gi_address x \<noteq> []) (concat (map if_ips is)))"

text \<open>The answer of the guest agent; \<^term>\<open>Inl ()\<close> where the loop raises.\<close>

fun agent_ips :: "json list \<Rightarrow> unit + string option" where
  "agent_ips [] = Inr None"
| "agent_ips (JObj e # es) =
     (if dget e ''ip-address-type'' = JStr ''ipv4'' then
        (case (case map_of e ''ip-address'' of None \<Rightarrow> JStr [] | Some a \<Rightarrow> a) of
           JStr addr \<Rightarrow> if addr \<noteq> [] \<and> \<not> prefix ''127.'' addr then Inr (Some addr) else agent_ips es
         | a \<Rightarrow> if truthy_json a then Inl () else agent_ips es)
      else agent_ips es)"
| "agent_ips (_ # es) = Inl ()"

fun agent_ifaces :: "json list \<Rightarrow> unit + string option" where
  "agent_ifaces [] = Inr None"
| "agent_ifaces (JObj e # es) =
     (if dget e ''name'' = JStr ''lo'' then agent_ifaces es
      else (case dget e ''ip-addresses'' of
          JList l \<Rightarrow> (case agent_ips l of Inr None \<Rightarrow> agent_ifaces es | r \<Rightarrow> r)
        | j \<Rightarrow> if truthy_json j then Inl () else agent_ifaces es))"
| "agent_ifaces (_ # es) = Inl ()"

definition agent_address :: "py_exception + json \<Rightarrow> string option" where
  "agent_address r = (case r of
       Inr (JObj d) \<Rightarrow> (case map_of d ''result'' of
           Some (JList l) \<Rightarrow> (case agent_ifaces l of Inr a \<Rightarrow> a | Inl _ \<Rightarrow> None)
         | _ \<Rightarrow> None)
     | _ \<Rightarrow> None)"

definition detect_address :: "'w proxmox_api \<Rightarrow> proxmox_client \<Rightarrow> guest_kind \<Rightarrow> string \<Rightarrow> int \<Rightarrow> string \<Rightarrow>
    ('w px_state, string option) state" where
  "detect_address E c g node vmid status = (case g of
       Lxc \<Rightarrow> do {
         is \<leftarrow> get_container_interfaces E c node vmid (status = ''running'');
         return (container_address is)
       }
     | Qemu \<Rightarrow>
         if status = ''running'' then do {
           r \<leftarrow> client_request E c (Request GET (guest_path Qemu node vmid [''agent'', ''network-get-interfaces'']) []);
           return (agent_address r)
         }
         else return None)"

section \<open>Nodes and clusters\<close>

definition get_nodes :: "'w proxmox_api \<Rightarrow> proxmox_client \<Rightarrow> ('w px_state, json) state" where
  "get_nodes E c = (case proxmox c of
       None \<Rightarrow> return (JList [])
     | Some h \<Rightarrow> do {
         r \<leftarrow> send E h (Request GET [Name ''nodes''] []);
         return (case r of Inl _ \<Rightarrow> JList [] | Inr j \<Rightarrow> j)
       })"

definition get_cluster_resources :: "'w proxmox_api \<Rightarrow> proxmox_client \<Rightarrow> string option \<Rightarrow>
    ('w px_state, json) state" where
  "get_cluster_resources E c kind = (case proxmox c of
       None \<Rightarrow> return (JList [])
     | Some h \<Rightarrow> do {
         r \<leftarrow> send E h (Request GET [Name ''cluster'', Name ''resources'']
               (if truthy_str kind then [(''type'', JStr (the kind))] else []));
         return (case r of Inl _ \<Rightarrow> JList [] | Inr j \<Rightarrow> if truthy_json j then j else JList [])
       })"

definition has_auth :: "server \<Rightarrow> bool" where
  "has_auth sv \<longleftrightarrow> sv_use_password sv \<and> truthy_str (sv_password sv) \<or>
     truthy_str (sv_api_token_name sv) \<and> truthy_str (sv_api_token_value sv)"

text \<open>\<open>_create_proxmox_client\<close>, which raises without credentials, and \<open>is_connected\<close>.\<close>

definition connected_client :: "'w proxmox_api \<Rightarrow> server \<Rightarrow> ('w px_state, proxmox_client option) state" where
  "connected_client E sv =
     (if \<not> has_auth sv then return None
      else do {
        c \<leftarrow> from_server E sv;
        ok \<leftarrow> is_connected E c;
        return (if ok then Some c else None)
      })"

text \<open>The set of node names; whatever raises on the way gives the empty set.\<close>

definition node_names :: "json \<Rightarrow> string set" where
  "node_names j = (case j of
       JList l \<Rightarrow> if list_all (\<lambda>n. case n of JObj d \<Rightarrow> dget d ''node'' = JNull \<or> json_str (dget d ''node'') \<noteq> None | _ \<Rightarrow> False) l
         then set (filter (\<lambda>t. t \<noteq> []) (List.map_filter (\<lambda>n. case n of JObj d \<Rightarrow> json_str (dget d ''node'') | _ \<Rightarrow> None) l))
         else {}
     | _ \<Rightarrow> {})"

definition server_nodes :: "'w proxmox_api \<Rightarrow> server \<Rightarrow> ('w px_state, string set) state" where
  "server_nodes E sv = do {
     c \<leftarrow> connected_client E sv;
     case c of None \<Rightarrow> return {} | Some c \<Rightarrow> do { j \<leftarrow> get_nodes E c; return (node_names j) }
   }"

fun for_each :: "('a \<Rightarrow> ('s, 'b) state) \<Rightarrow> 'a list \<Rightarrow> ('s, 'b list) state" where
  "for_each f [] = return []"
| "for_each f (x # xs) = do { y \<leftarrow> f x; ys \<leftarrow> for_each f xs; return (y # ys) }"

definition node_groups :: "(int \<times> string set) list \<Rightarrow> (string set, int list) pydict" where
  "node_groups ns = fold (\<lambda>(sid, nodes) g.
     if 1 < card nodes
     then AList.update nodes ((case map_of g nodes of None \<Rightarrow> [] | Some l \<Rightarrow> l) @ [sid]) g else g) ns []"

definition cluster_map :: "(int \<times> string set) list \<Rightarrow> (int, int) pydict" where
  "cluster_map ns = fold (\<lambda>(nodes, sids) m. fold (\<lambda>sid m. AList.update sid (Min (set sids)) m) sids m)
     (node_groups ns) []"

section \<open>Collecting the guests\<close>

record resource =
  rs_kind :: guest_kind
  rs_template :: bool
  rs_vmid :: int
  rs_name :: "string option"
  rs_node :: string
  rs_status :: string
  rs_cpus :: "int option"
  rs_maxmem :: "int option"
  rs_maxdisk :: "int option"
  rs_ostype :: "string option"

definition int_field :: "(string, json) pydict \<Rightarrow> string \<Rightarrow> int option option" where
  "int_field d k = (case map_of d k of None \<Rightarrow> Some None | Some (JInt n) \<Rightarrow> Some (Some n) | Some _ \<Rightarrow> None)"

definition text_field :: "(string, json) pydict \<Rightarrow> string \<Rightarrow> string option option" where
  "text_field d k = (case map_of d k of None \<Rightarrow> Some None | Some (JStr t) \<Rightarrow> Some (Some t) | Some _ \<Rightarrow> None)"

definition or_default :: "'a option \<Rightarrow> 'a \<Rightarrow> 'a" where
  "or_default x d = (case x of None \<Rightarrow> d | Some y \<Rightarrow> y)"

definition decode_guest :: "guest_kind \<Rightarrow> (string, json) pydict \<Rightarrow> resource option" where
  "decode_guest g d =
     (case (map_of d ''vmid'', text_field d ''name'', text_field d ''node'', text_field d ''status'',
            int_field d ''cpus'', int_field d ''maxcpu'', int_field d ''maxmem'', int_field d ''maxdisk'',
            text_field d ''ostype'') of
        (Some (JInt vmid), Some name, Some node, Some status, Some cpus, Some maxcpu, Some maxmem, Some maxdisk,
         Some ostype) \<Rightarrow>
          Some \<lparr>rs_kind = g, rs_template = truthy_json (dget d ''template''), rs_vmid = vmid, rs_name = name,
            rs_node = or_default node [], rs_status = or_default status ''unknown'',
            rs_cpus = (case cpus of Some n \<Rightarrow> Some n | None \<Rightarrow> maxcpu), rs_maxmem = maxmem, rs_maxdisk = maxdisk,
            rs_ostype = ostype\<rparr>
      | _ \<Rightarrow> None)"

definition decode_resource :: "json \<Rightarrow> resource list option" where
  "decode_resource j = (case j of
       JObj d \<Rightarrow>
         if dget d ''type'' = JStr ''qemu'' then map_option (\<lambda>r. [r]) (decode_guest Qemu d)
         else if dget d ''type'' = JStr ''lxc'' then map_option (\<lambda>r. [r]) (decode_guest Lxc d)
         else Some []
     | _ \<Rightarrow> None)"

text \<open>Machines before containers.\<close>

definition guests_of :: "json \<Rightarrow> resource list option" where
  "guests_of j = (case j of
       JList l \<Rightarrow> map_option
         (\<lambda>rs. filter (\<lambda>r. rs_kind r = Qemu) (concat rs) @ filter (\<lambda>r. rs_kind r = Lxc) (concat rs))
         (map_opt decode_resource l)
     | _ \<Rightarrow> None)"

text \<open>
  \<open>seen_in_cluster\<close> and \<open>seen_standalone\<close> have no key in common, since a cluster is named after one of its
  servers; what was seen under a key are the guests collected under it.
\<close>

record collected =
  co_guests :: "(int \<times> resource) list"
  co_clients :: "(int, proxmox_client) pydict"

definition collect_guest :: "int \<Rightarrow> resource \<Rightarrow> (int \<times> resource) list \<Rightarrow> (int \<times> resource) list" where
  "collect_guest sid r gs =
     (if rs_template r \<or> (sid, rs_vmid r) \<in> set (map (\<lambda>(s, r). (s, rs_vmid r)) gs) then gs else gs @ [(sid, r)])"

definition collect_server :: "'w proxmox_api \<Rightarrow> (int, int) pydict \<Rightarrow> server \<Rightarrow> collected \<Rightarrow>
    ('w px_state, collected) state" where
  "collect_server E clusters sv acc = do {
     c \<leftarrow> connected_client E sv;
     case c of
       None \<Rightarrow> return acc
     | Some c \<Rightarrow> do {
         j \<leftarrow> get_cluster_resources E c (Some ''vm'');
         let cid = map_of clusters (sv_id sv);
         let sid = (if truthy_int cid then the cid else sv_id sv);
         let clients = (if truthy_int cid \<and> map_of (co_clients acc) sid \<noteq> None then co_clients acc
                        else AList.update sid c (co_clients acc));
         return (case guests_of j of
             None \<Rightarrow> acc
           | Some rs \<Rightarrow> \<lparr>co_guests = fold (collect_guest sid) rs (co_guests acc), co_clients = clients\<rparr>)
       }
   }"

fun collect_all :: "'w proxmox_api \<Rightarrow> (int, int) pydict \<Rightarrow> server list \<Rightarrow> collected \<Rightarrow>
    ('w px_state, collected) state" where
  "collect_all E clusters [] acc = return acc"
| "collect_all E clusters (sv # svs) acc = do {
     acc' \<leftarrow> collect_server E clusters sv acc;
     collect_all E clusters svs acc'
   }"

text \<open>The time stamp of the run is taken between the two passes over the servers.\<close>

definition fetch_guests :: "'w proxmox_api \<Rightarrow> server list \<Rightarrow>
    ('w px_state, (int, int) pydict \<times> int \<times> collected) state" where
  "fetch_guests E svs = do {
     nodes \<leftarrow> for_each (server_nodes E) svs;
     let clusters = cluster_map (zip (map sv_id svs) nodes);
     sync_time \<leftarrow> clock E;
     all \<leftarrow> collect_all E clusters svs \<lparr>co_guests = [], co_clients = []\<rparr>;
     return (clusters, sync_time, all)
   }"

end
