(* ===== verification/Panel.thy ===== *)
theory Panel
  imports Logging GuestNet Ipam
begin

text \<open>
  The panel's own records of guests, \<^verbatim>\<open>backend/app/models/proxmox.py\<close>, and the functions of
  \<^verbatim>\<open>backend/app/api/proxmox/_helpers.py\<close> on them: who may touch which guest, saving and deleting the record of
  a guest, the archive of snapshots, the next free VMID; \<open>ProxmoxTaskService\<close> of \<^verbatim>\<open>api/proxmox/tasks.py\<close>;
  \<^verbatim>\<open>services/quota_service.py\<close>.

  \<open>panel\<close> holds the tables these functions touch and the state of the Proxmox layer. The columns \<open>tags\<close>,
  \<open>created_at\<close> and \<open>updated_at\<close> of a guest are left out; of an installed application only the columns by which
  its rows are deleted with the guest are kept. \<open>pn_profile_keys\<close> is the column \<open>ssh_public_key\<close> of the users
  who have one, \<open>pn_library_keys\<close> the owner and key of every row of \<open>user_ssh_keys\<close>. The address service sees the guests through \<open>ipam_view\<close>.
\<close>

section \<open>Tables\<close>

record guest_config =
  gc_node :: string
  gc_vm_type :: string
  gc_name :: string
  gc_cores :: "int option"
  gc_memory :: "int option"
  gc_disk_size :: "int option"
  gc_ip_address :: "string option"
  gc_ip_prefix :: "int option"
  gc_gateway :: "string option"
  gc_nameserver :: "string option"
  gc_cloud_init_user :: "string option"
  gc_cloud_init_password :: "string option"
  gc_ssh_keys :: "string option"
  gc_template_id :: "int option"
  gc_template_name :: "string option"
  gc_description :: "string option"
  gc_extra_config :: "json option"

record guest_row = guest_config +
  gr_id :: int
  gr_server_id :: int
  gr_vmid :: int
  gr_owner_id :: "int option"
  gr_status :: string
  gr_is_template :: bool
  gr_os_type :: "string option"
  gr_deleted_at :: "int option"
  gr_last_sync_at :: "int option"

record server_row = server +
  sv_is_online :: "bool option"
  sv_last_check :: "int option"
  sv_last_error :: "string option"
  sv_last_error_kind :: "string option"

record snapshot_archive =
  sa_server_id :: int
  sa_server_name :: string
  sa_vmid :: int
  sa_vm_name :: "string option"
  sa_vm_type :: string
  sa_node :: string
  sa_snapname :: string
  sa_description :: json
  sa_snaptime :: json
  sa_parent :: json
  sa_vmstate :: bool
  sa_snapshot_config :: json
  sa_deleted_by :: string
  sa_deletion_reason :: "string option"

record proxmox_task =
  pt_id :: int
  pt_upid :: string
  pt_server_id :: "int option"
  pt_user_id :: int
  pt_node :: "string option"
  pt_vmid :: "int option"
  pt_vm_type :: "string option"
  pt_action :: string
  pt_description :: "string option"
  pt_status :: string
  pt_exit_status :: "string option"
  pt_log_text :: "string option"
  pt_progress :: "int option"
  pt_created_at :: int
  pt_completed_at :: "int option"

record 'w panel =
  pn_guests :: "guest_row list"
  pn_next_guest :: int
  pn_servers :: "server_row list"
  pn_users :: "user list"
  pn_profile_keys :: "(int, string) pydict"
  pn_library_keys :: "(int \<times> string) list"
  pn_quotas :: "user_quota list"
  pn_archives :: "snapshot_archive list"
  pn_tasks :: "proxmox_task list"
  pn_next_task :: int
  pn_installed_apps :: "(int \<times> int) list"
  pn_logs :: "log_entry list"
  pn_ipam :: ipam_state
  pn_px :: "'w px_state"

definition panel_now :: "'w proxmox_api \<Rightarrow> 'w panel \<Rightarrow> int" where
  "panel_now E s = api_now E (px_world (pn_px s))"

definition on_proxmox :: "('w px_state, 'a) state \<Rightarrow> 'w panel \<Rightarrow> 'a \<times> 'w panel" where
  "on_proxmox m s = (case run_state m (pn_px s) of (a, p) \<Rightarrow> (a, s\<lparr>pn_px := p\<rparr>))"

definition guest_view :: "guest_row \<Rightarrow> vm_instance" where
  "guest_view g = \<lparr>vi_server_id = gr_server_id g, vi_vmid = gr_vmid g, vi_ip_address = gc_ip_address g,
     vi_deleted = (gr_deleted_at g \<noteq> None)\<rparr>"

definition ipam_view :: "'w panel \<Rightarrow> ipam_state" where
  "ipam_view s = (pn_ipam s)\<lparr>vm_instances := map guest_view (pn_guests s),
     server_addresses := map (\<lambda>sv. Some (sv_ip_address sv)) (pn_servers s)\<rparr>"

definition on_ipam :: "(ipam_state \<Rightarrow> 'a \<times> ipam_state) \<Rightarrow> 'w panel \<Rightarrow> 'a \<times> 'w panel" where
  "on_ipam f s = (case f (ipam_view s) of (a, i) \<Rightarrow> (a, s\<lparr>pn_ipam := i\<rparr>))"

definition log_panel :: "'w proxmox_api \<Rightarrow> proxmox_action \<Rightarrow> 'w panel \<Rightarrow> 'w panel" where
  "log_panel E a s = s\<lparr>pn_logs := log_proxmox_action (panel_now E s) a (pn_logs s)\<rparr>"

section \<open>Access to guests\<close>

definition can_view_all_instances :: "user \<Rightarrow> bool" where
  "can_view_all_instances u =
     (if is_admin u then True
      else (case user_role u of
          None \<Rightarrow> False
        | Some r \<Rightarrow> if role_name r = ''admin'' then True
            else (case map_of (Accounts.role_permissions r) ''vm:manage'' of None \<Rightarrow> False | Some b \<Rightarrow> b)))"

definition active_at :: "int \<Rightarrow> int \<Rightarrow> guest_row \<Rightarrow> bool" where
  "active_at sid vmid g \<longleftrightarrow> gr_server_id g = sid \<and> gr_vmid g = vmid \<and> gr_deleted_at g = None"

definition deleted_at_key :: "int \<Rightarrow> int \<Rightarrow> guest_row \<Rightarrow> bool" where
  "deleted_at_key sid vmid g \<longleftrightarrow> gr_server_id g = sid \<and> gr_vmid g = vmid \<and> gr_deleted_at g \<noteq> None"

definition get_vm_instance :: "int \<Rightarrow> int \<Rightarrow> 'w panel \<Rightarrow> guest_row option" where
  "get_vm_instance sid vmid s = find (active_at sid vmid) (pn_guests s)"

definition check_vm_access :: "'w panel \<Rightarrow> user \<Rightarrow> int \<Rightarrow> int \<Rightarrow> bool" where
  "check_vm_access s u sid vmid =
     (if can_view_all_instances u then True
      else (case find (active_at sid vmid) (pn_guests s) of
          None \<Rightarrow> False | Some g \<Rightarrow> gr_owner_id g = Some (user_id u)))"

definition require_vm_access :: "'w panel \<Rightarrow> user \<Rightarrow> int \<Rightarrow> int \<Rightarrow> http_error + unit" where
  "require_vm_access s u sid vmid =
     (if check_vm_access s u sid vmid then Inr ()
      else Inl (HTTPException 403 (Msg ''You do not have access to this virtual machine'')))"

definition get_owned_vmids :: "'w panel \<Rightarrow> user \<Rightarrow> int option \<Rightarrow> int set" where
  "get_owned_vmids s u sid = set (map gr_vmid (filter
     (\<lambda>g. gr_owner_id g = Some (user_id u) \<and> gr_deleted_at g = None \<and>
          (case sid of None \<Rightarrow> True | Some i \<Rightarrow> gr_server_id g = i)) (pn_guests s)))"

section \<open>Servers\<close>

definition find_server :: "int \<Rightarrow> 'w panel \<Rightarrow> server_row option" where
  "find_server sid s = find (\<lambda>sv. sv_id sv = sid) (pn_servers s)"

definition no_credentials :: "server_row \<Rightarrow> http_error" where
  "no_credentials sv = HTTPException 503 (Msg (''Server '' @ [CHR 0x27] @ sv_name sv @ [CHR 0x27] @
     '' has no valid Proxmox credentials configured (API token or password). Edit the server settings.''))"

definition proxmox_client_of :: "'w proxmox_api \<Rightarrow> server_row \<Rightarrow> 'w panel \<Rightarrow>
    (http_error + proxmox_client) \<times> 'w panel" where
  "proxmox_client_of E sv s =
     (if \<not> has_auth (server.truncate sv) then (Inl (no_credentials sv), s)
      else (case on_proxmox (from_server E (server.truncate sv)) s of (c, s') \<Rightarrow> (Inr c, s')))"

text \<open>The fallback looks at the active records; \<open>k\<close> is the number of VMIDs left to try.\<close>

fun first_free :: "int list \<Rightarrow> int \<Rightarrow> nat \<Rightarrow> int option" where
  "first_free used v 0 = None"
| "first_free used v (Suc k) = (if v \<in> set used then first_free used (v + 1) k else Some v)"

definition db_next_vmid :: "int \<Rightarrow> 'w panel \<Rightarrow> http_error + int" where
  "db_next_vmid sid s =
     (case first_free (map gr_vmid (filter (\<lambda>g. gr_server_id g = sid \<and> gr_deleted_at g = None) (pn_guests s)))
             100 999899 of
        Some v \<Rightarrow> Inr v | None \<Rightarrow> Inl (HTTPException 500 (Msg ''No available VMID'')))"

definition next_vmid :: "'w proxmox_api \<Rightarrow> int \<Rightarrow> 'w panel \<Rightarrow> (http_error + int) \<times> 'w panel" where
  "next_vmid E sid s =
     (case find_server sid s of
        None \<Rightarrow> (Inl (HTTPException 404 (Msg ''Server not found'')), s)
      | Some sv \<Rightarrow> (case proxmox_client_of E sv s of
            (Inl _, s1) \<Rightarrow> (db_next_vmid sid s1, s1)
          | (Inr c, s1) \<Rightarrow> (case on_proxmox (get_next_vmid E c) s1 of
                (v, s2) \<Rightarrow> if truthy_int v then (Inr (the v), s2) else (db_next_vmid sid s2, s2))))"

section \<open>Records of guests\<close>

definition with_config :: "guest_config \<Rightarrow> guest_row \<Rightarrow> guest_row" where
  "with_config c g = guest_config.extend c (guest_config.more g)"

definition set_owner :: "int option \<Rightarrow> guest_row \<Rightarrow> guest_row" where
  "set_owner owner g = (case owner of None \<Rightarrow> g | Some i \<Rightarrow> g\<lparr>gr_owner_id := Some i\<rparr>)"

definition new_guest :: "int \<Rightarrow> int \<Rightarrow> int \<Rightarrow> guest_config \<Rightarrow> int option \<Rightarrow> guest_row" where
  "new_guest i sid vmid c owner = guest_config.extend c \<lparr>gr_id = i, gr_server_id = sid, gr_vmid = vmid,
     gr_owner_id = owner, gr_status = ''unknown'', gr_is_template = False, gr_os_type = None,
     gr_deleted_at = None, gr_last_sync_at = None\<rparr>"

definition add_guest :: "guest_row \<Rightarrow> 'w panel \<Rightarrow> 'w panel" where
  "add_guest g s = s\<lparr>pn_guests := pn_guests s @ [g], pn_next_guest := pn_next_guest s + 1\<rparr>"

definition save_vm_instance :: "int \<Rightarrow> int \<Rightarrow> guest_config \<Rightarrow> int option \<Rightarrow> 'w panel \<Rightarrow> 'w panel" where
  "save_vm_instance sid vmid c owner s =
     (if find (active_at sid vmid) (pn_guests s) \<noteq> None
      then s\<lparr>pn_guests := update_first (active_at sid vmid) (\<lambda>g. set_owner owner (with_config c g)) (pn_guests s)\<rparr>
      else if find (deleted_at_key sid vmid) (pn_guests s) \<noteq> None
      then s\<lparr>pn_guests := update_first (deleted_at_key sid vmid)
             (\<lambda>g. (set_owner owner (with_config c g))\<lparr>gr_status := ''unknown'', gr_deleted_at := None\<rparr>)
             (pn_guests s)\<rparr>
      else add_guest (new_guest (pn_next_guest s) sid vmid c owner) s)"

definition soft_delete_vm_instance :: "'w proxmox_api \<Rightarrow> int \<Rightarrow> int \<Rightarrow> 'w panel \<Rightarrow> 'w panel" where
  "soft_delete_vm_instance E sid vmid s =
     (case get_vm_instance sid vmid s of
        None \<Rightarrow> s
      | Some _ \<Rightarrow>
          (let s1 = snd (on_ipam (release_ip_by_vmid sid vmid (Some ''system'')
                      (Some ''VM/Container soft deleted'')) s)
           in s1\<lparr>pn_guests := update_first (active_at sid vmid)
                (\<lambda>g. g\<lparr>gr_deleted_at := Some (panel_now E s)\<rparr>) (pn_guests s1)\<rparr>))"

section \<open>Archive of snapshots\<close>

record archive_result =
  ar_archived :: nat
  ar_deleted :: nat
  ar_errors :: "string list"
  ar_snapshots :: "string list"

record doomed =
  dm_server_id :: int
  dm_server_name :: string
  dm_vmid :: int
  dm_vm_name :: "string option"
  dm_kind :: guest_kind
  dm_node :: string
  dm_deleted_by :: string
  dm_reason :: "string option"

definition archive_row :: "doomed \<Rightarrow> string \<Rightarrow> (string, json) pydict \<Rightarrow> snapshot_archive" where
  "archive_row d snapname snap = \<lparr>sa_server_id = dm_server_id d, sa_server_name = dm_server_name d,
     sa_vmid = dm_vmid d, sa_vm_name = dm_vm_name d, sa_vm_type = kind_name (dm_kind d), sa_node = dm_node d,
     sa_snapname = snapname, sa_description = dget snap ''description'', sa_snaptime = dget snap ''snaptime'',
     sa_parent = dget snap ''parent'', sa_vmstate = truthy_json (dget snap ''vmstate''),
     sa_snapshot_config = JObj snap, sa_deleted_by = dm_deleted_by d, sa_deletion_reason = dm_reason d\<rparr>"

definition snapshot_deleted :: "doomed \<Rightarrow> string \<Rightarrow> proxmox_action" where
  "snapshot_deleted d snapname = \<lparr>pa_action = ''snapshot_delete'', pa_resource_type = kind_name (dm_kind d),
     pa_resource_id = dm_vmid d, pa_username = Some (dm_deleted_by d), pa_resource_name = Some snapname,
     pa_details = [(''reason'', json.JStr (''Pre-deletion cleanup for '' @ kind_name (dm_kind d) @ '' '' @ dec_int (dm_vmid d))),
       (''cascade_delete'', json.JBool True)],
     pa_success = True, pa_error_message = None, pa_ip_address = None,
     pa_server_id = Some (dm_server_id d), pa_server_name = Some (dm_server_name d), pa_node_name = Some (dm_node d)\<rparr>"

fun archive_loop :: "'w proxmox_api \<Rightarrow> proxmox_client \<Rightarrow> doomed \<Rightarrow> (string, json) pydict list \<Rightarrow>
    archive_result \<Rightarrow> 'w panel \<Rightarrow> archive_result \<times> 'w panel" where
  "archive_loop E c d [] r s = (r, s)"
| "archive_loop E c d (snap # snaps) r s =
     (case json_str (dget snap ''name'') of
        None \<Rightarrow> archive_loop E c d snaps r s
      | Some snapname \<Rightarrow>
          if snapname = [] then archive_loop E c d snaps r s
          else
            (let s1 = s\<lparr>pn_archives := pn_archives s @ [archive_row d snapname snap]\<rparr>;
                 r1 = r\<lparr>ar_archived := ar_archived r + 1, ar_snapshots := ar_snapshots r @ [snapname]\<rparr>
             in (case on_proxmox (delete_snapshot (dm_kind d) E c (dm_node d) (dm_vmid d) snapname True) s1 of
                   (Success _, s2) \<Rightarrow> archive_loop E c d snaps (r1\<lparr>ar_deleted := ar_deleted r1 + 1\<rparr>)
                       (log_panel E (snapshot_deleted d snapname) s2)
                 | (Failure e _, s2) \<Rightarrow> archive_loop E c d snaps
                       (r1\<lparr>ar_errors := ar_errors r1 @ [''Delete '' @ snapname @ '': '' @ e]\<rparr>) s2)))"

definition dict_of :: "json \<Rightarrow> (string, json) pydict option" where
  "dict_of j = (case j of json.JObj d \<Rightarrow> Some d | _ \<Rightarrow> None)"

text \<open>An answer with an entry that is no dictionary raises before anything is archived.\<close>

definition archive_and_delete_snapshots :: "'w proxmox_api \<Rightarrow> proxmox_client \<Rightarrow> doomed \<Rightarrow> 'w panel \<Rightarrow>
    archive_result \<times> 'w panel" where
  "archive_and_delete_snapshots E c d s =
     (let none = \<lparr>ar_archived = 0, ar_deleted = 0, ar_errors = [], ar_snapshots = []\<rparr> in
      case on_proxmox (snapshots_of (dm_kind d) E c (dm_node d) (dm_vmid d)) s of
        (l, s1) \<Rightarrow> (case map_opt dict_of l of
            None \<Rightarrow> (none\<lparr>ar_errors := [''General error: '' @
              (case find (\<lambda>j. dict_of j = None) l of
                 Some j \<Rightarrow> (case json_get j ''name'' of Inl e \<Rightarrow> exn_text e | Inr _ \<Rightarrow> []) | None \<Rightarrow> [])]\<rparr>, s1)
          | Some ds \<Rightarrow> archive_loop E c d (filter (\<lambda>x. dget x ''name'' \<noteq> json.JStr ''current'') ds) none s1))"

section \<open>Tasks\<close>

definition register_task :: "'w proxmox_api \<Rightarrow> string \<Rightarrow> int \<Rightarrow> int \<Rightarrow> string \<Rightarrow> string option \<Rightarrow> int option \<Rightarrow>
    string option \<Rightarrow> string option \<Rightarrow> 'w panel \<Rightarrow> int \<times> 'w panel" where
  "register_task E upid sid uid act node vmid vm_type descr s =
     (pn_next_task s, s\<lparr>pn_next_task := pn_next_task s + 1, pn_tasks := pn_tasks s @
        [\<lparr>pt_id = pn_next_task s, pt_upid = upid, pt_server_id = Some sid, pt_user_id = uid, pt_node = node,
          pt_vmid = vmid, pt_vm_type = vm_type, pt_action = act, pt_description = descr, pt_status = ''running'',
          pt_exit_status = None, pt_log_text = None, pt_progress = None, pt_created_at = panel_now E s,
          pt_completed_at = None\<rparr>]\<rparr>)"

definition get_user_tasks :: "int \<Rightarrow> nat \<Rightarrow> 'w panel \<Rightarrow> proxmox_task list" where
  "get_user_tasks uid limit s =
     take limit (sort_key (\<lambda>t. - pt_created_at t) (filter (\<lambda>t. pt_user_id t = uid) (pn_tasks s)))"

definition get_active_tasks :: "int \<Rightarrow> 'w panel \<Rightarrow> proxmox_task list" where
  "get_active_tasks uid s =
     sort_key (\<lambda>t. - pt_created_at t) (filter (\<lambda>t. pt_user_id t = uid \<and> pt_status t = ''running'') (pn_tasks s))"

section \<open>Quotas\<close>

record usage =
  us_instances :: int
  us_cores :: int
  us_memory_mb :: int
  us_disk_gb :: int

text \<open>SQL's \<open>coalesce(sum(x), 0)\<close>: null values do not count.\<close>

definition sum_column :: "('r \<Rightarrow> int option) \<Rightarrow> 'r list \<Rightarrow> int" where
  "sum_column f rows = sum_list (List.map_filter f rows)"

definition counts_for :: "int \<Rightarrow> guest_row \<Rightarrow> bool" where
  "counts_for uid g \<longleftrightarrow> gr_owner_id g = Some uid \<and> gr_deleted_at g = None \<and> \<not> gr_is_template g"

definition get_user_usage :: "int \<Rightarrow> 'w panel \<Rightarrow> usage" where
  "get_user_usage uid s =
     (let rows = filter (counts_for uid) (pn_guests s)
      in \<lparr>us_instances = int (length rows), us_cores = sum_column gc_cores rows,
          us_memory_mb = sum_column gc_memory rows, us_disk_gb = sum_column gc_disk_size rows\<rparr>)"

text \<open>The first limit exceeded, as \<open>(projected, limit, unit)\<close>; the message repeats it in two languages.\<close>

fun check_limits :: "(int option \<times> int \<times> string) list \<Rightarrow> http_error + unit" where
  "check_limits [] = Inr ()"
| "check_limits ((limit, projected, unit_en) # checks) =
     (case limit of
        Some l \<Rightarrow> if projected > l then Inl (HTTPException 429 (QuotaExceeded projected l unit_en)) else check_limits checks
      | None \<Rightarrow> check_limits checks)"

definition check_quota :: "int \<Rightarrow> int option \<Rightarrow> int option \<Rightarrow> int option \<Rightarrow> 'w panel \<Rightarrow> http_error + unit" where
  "check_quota owner add_cores add_memory_mb add_disk_gb s =
     (case find (\<lambda>q. quota_user_id q = owner) (pn_quotas s) of
        None \<Rightarrow> Inr ()
      | Some q \<Rightarrow>
          (let u = get_user_usage owner s
           in check_limits
             [(max_instances q, us_instances u + 1, ''instances''),
              (max_cores q, us_cores u + or_default add_cores 0, ''vCPU''),
              (max_memory_mb q, us_memory_mb u + or_default add_memory_mb 0, ''MB of RAM''),
              (max_disk_gb q, us_disk_gb u + or_default add_disk_gb 0, ''GB of disk'')]))"

end
