(* ===== verification/GuestApi.thy ===== *)
theory GuestApi
  imports Panel
begin

text \<open>
  The endpoints on one guest, from \<^verbatim>\<open>backend/app/api/proxmox/vms.py\<close> and \<^verbatim>\<open>api/proxmox/snapshots.py\<close>: power,
  deletion, snapshots, commands inside the guest, its configuration and its owner. The parameter
  \<open>current_user\<close> is the user \<open>get_current_user\<close> lets in; the permission in the parameter list of an endpoint
  is its first step here. Where the code answers \<open>t("key", lang)\<close> the message is the key.

  A handler that raises \<open>HTTPException\<close> inside its \<open>try\<close> lets it through or turns it into a 500, as its
  \<open>except\<close> clauses say. The client methods of theories Proxmox and Guests return their errors as values, so
  that a clause for other exceptions is reached exactly where a method is said to raise. Broadcasts over web
  sockets are left out.
\<close>

section \<open>Texts\<close>

text \<open>The Russian descriptions of tasks, as UTF-8.\<close>

definition TXT_START_VM :: string where
  "TXT_START_VM =
     [CHR 0xD0, CHR 0x97, CHR 0xD0, CHR 0xB0, CHR 0xD0, CHR 0xBF, CHR 0xD1, CHR 0x83, CHR 0xD1, CHR 0x81,
     CHR 0xD0, CHR 0xBA] @ '' VM''"

definition TXT_STOP_VM :: string where
  "TXT_STOP_VM =
     [CHR 0xD0, CHR 0x9E, CHR 0xD1, CHR 0x81, CHR 0xD1, CHR 0x82, CHR 0xD0, CHR 0xB0, CHR 0xD0, CHR 0xBD,
     CHR 0xD0, CHR 0xBE, CHR 0xD0, CHR 0xB2, CHR 0xD0, CHR 0xBA, CHR 0xD0, CHR 0xB0] @ '' VM''"

definition TXT_RESTART_VM :: string where
  "TXT_RESTART_VM =
     [CHR 0xD0, CHR 0x9F, CHR 0xD0, CHR 0xB5, CHR 0xD1, CHR 0x80, CHR 0xD0, CHR 0xB5, CHR 0xD0, CHR 0xB7,
     CHR 0xD0, CHR 0xB0, CHR 0xD0, CHR 0xBF, CHR 0xD1, CHR 0x83, CHR 0xD1, CHR 0x81, CHR 0xD0, CHR 0xBA]
     @ '' VM''"

definition TXT_RESET_VM :: string where
  "TXT_RESET_VM =
     [CHR 0xD0, CHR 0x96, CHR 0xD1, CHR 0x91, CHR 0xD1, CHR 0x81, CHR 0xD1, CHR 0x82, CHR 0xD0, CHR 0xBA,
     CHR 0xD0, CHR 0xB8, CHR 0xD0, CHR 0xB9] @ '' '' @ [CHR 0xD1, CHR 0x81, CHR 0xD0, CHR 0xB1, CHR 0xD1,
     CHR 0x80, CHR 0xD0, CHR 0xBE, CHR 0xD1, CHR 0x81] @ '' VM''"

definition TXT_START_LXC :: string where
  "TXT_START_LXC =
     [CHR 0xD0, CHR 0x97, CHR 0xD0, CHR 0xB0, CHR 0xD0, CHR 0xBF, CHR 0xD1, CHR 0x83, CHR 0xD1, CHR 0x81,
     CHR 0xD0, CHR 0xBA] @ '' LXC''"

definition TXT_STOP_LXC :: string where
  "TXT_STOP_LXC =
     [CHR 0xD0, CHR 0x9E, CHR 0xD1, CHR 0x81, CHR 0xD1, CHR 0x82, CHR 0xD0, CHR 0xB0, CHR 0xD0, CHR 0xBD,
     CHR 0xD0, CHR 0xBE, CHR 0xD0, CHR 0xB2, CHR 0xD0, CHR 0xBA, CHR 0xD0, CHR 0xB0] @ '' LXC''"

definition TXT_RESTART_LXC :: string where
  "TXT_RESTART_LXC =
     [CHR 0xD0, CHR 0x9F, CHR 0xD0, CHR 0xB5, CHR 0xD1, CHR 0x80, CHR 0xD0, CHR 0xB5, CHR 0xD0, CHR 0xB7,
     CHR 0xD0, CHR 0xB0, CHR 0xD0, CHR 0xBF, CHR 0xD1, CHR 0x83, CHR 0xD1, CHR 0x81, CHR 0xD0, CHR 0xBA]
     @ '' LXC''"

definition TXT_DELETION :: string where
  "TXT_DELETION =
     [CHR 0xD0, CHR 0xA3, CHR 0xD0, CHR 0xB4, CHR 0xD0, CHR 0xB0, CHR 0xD0, CHR 0xBB, CHR 0xD0, CHR 0xB5,
     CHR 0xD0, CHR 0xBD, CHR 0xD0, CHR 0xB8, CHR 0xD0, CHR 0xB5]"

section \<open>Common steps\<close>

definition forbidden :: "string \<Rightarrow> http_error" where
  "forbidden m = HTTPException 403 (Msg m)"

definition server_error :: "string \<Rightarrow> http_error" where
  "server_error m = HTTPException 500 (Msg m)"

definition server_not_found :: http_error where
  "server_not_found = HTTPException 404 (Msg ''Proxmox server not found'')"

definition failed_to_connect :: http_error where
  "failed_to_connect = HTTPException 503 (Msg ''Failed to connect to Proxmox server'')"

text \<open>\<open>_get_proxmox_client\<close> followed by the test of \<open>is_connected\<close>.\<close>

definition connect_or :: "'w proxmox_api \<Rightarrow> http_error \<Rightarrow> server_row \<Rightarrow> 'w panel \<Rightarrow>
    (http_error + proxmox_client) \<times> 'w panel" where
  "connect_or E failure sv s =
     (case proxmox_client_of E sv s of
        (Inl e, s1) \<Rightarrow> (Inl e, s1)
      | (Inr c, s1) \<Rightarrow> (case on_proxmox (is_connected E c) s1 of
            (ok, s2) \<Rightarrow> (if ok then Inr c else Inl failure, s2)))"

text \<open>The checks before the body: the guest belongs to the user, the server exists.\<close>

definition guest_guard :: "'w panel \<Rightarrow> user \<Rightarrow> int \<Rightarrow> int \<Rightarrow> http_error \<Rightarrow> http_error + server_row" where
  "guest_guard s u sid vmid missing =
     (case require_vm_access s u sid vmid of
        Inl e \<Rightarrow> Inl e
      | Inr _ \<Rightarrow> (case find_server sid s of None \<Rightarrow> Inl missing | Some sv \<Rightarrow> Inr sv))"

definition guest_action :: "string \<Rightarrow> string \<Rightarrow> user \<Rightarrow> server_row \<Rightarrow> string \<Rightarrow> int \<Rightarrow> proxmox_action" where
  "guest_action act kind u sv node vmid = \<lparr>pa_action = act, pa_resource_type = kind, pa_resource_id = vmid,
     pa_username = Some (username u), pa_resource_name = None, pa_details = [], pa_success = True,
     pa_error_message = None, pa_ip_address = None, pa_server_id = Some (sv_id sv),
     pa_server_name = Some (sv_name sv), pa_node_name = Some node\<rparr>"

definition name_in :: "json \<Rightarrow> string option" where
  "name_in st = (case st of json.JObj d \<Rightarrow> json_str (dget d ''name'') | _ \<Rightarrow> None)"

section \<open>Power\<close>

definition vm_permission_map :: "(string, string) pydict" where
  "vm_permission_map = [(''start'', ''vm:start''), (''stop'', ''vm:stop''), (''shutdown'', ''vm:stop''),
     (''restart'', ''vm:restart''), (''reset'', ''vm:restart'')]"

definition container_permission_map :: "(string, string) pydict" where
  "container_permission_map = [(''start'', ''vm:start''), (''stop'', ''vm:stop''), (''shutdown'', ''vm:stop''),
     (''restart'', ''vm:restart'')]"

definition vm_task_texts :: "(string, string) pydict" where
  "vm_task_texts = [(''start'', TXT_START_VM), (''stop'', TXT_STOP_VM),
     (''restart'', TXT_RESTART_VM),
     (''reset'', TXT_RESET_VM)]"

definition container_task_texts :: "(string, string) pydict" where
  "container_task_texts = [(''start'', TXT_START_LXC), (''stop'', TXT_STOP_LXC),
     (''restart'', TXT_RESTART_LXC)]"

definition task_text :: "(string, string) pydict \<Rightarrow> string \<Rightarrow> string \<Rightarrow> string \<Rightarrow> string" where
  "task_text texts act name otherwise =
     (case map_of texts act of Some t \<Rightarrow> t @ '' '' @ name | None \<Rightarrow> otherwise)"

text \<open>The UPID, and whether the action succeeded.\<close>

definition vm_power :: "'w proxmox_api \<Rightarrow> proxmox_client \<Rightarrow> string \<Rightarrow> int \<Rightarrow> string \<Rightarrow> int \<Rightarrow>
    ('w px_state, string option \<times> bool) state" where
  "vm_power E c act force node vmid =
     (let upid = (\<lambda>m. do { u \<leftarrow> m; return (u, truthy_str u) }) in
      if act = ''start'' then upid (start_vm E c node vmid)
      else if act = ''stop'' then
        (if force \<noteq> 0 then do { ok \<leftarrow> force_stop_vm E c node vmid; return (None, ok) }
         else upid (stop_vm E c node vmid))
      else if act = ''shutdown'' then upid (shutdown_vm E c node vmid 60)
      else if act = ''reset'' then upid (reset_vm E c node vmid)
      else upid (restart_vm E c node vmid))"

definition container_power :: "'w proxmox_api \<Rightarrow> proxmox_client \<Rightarrow> string \<Rightarrow> int \<Rightarrow> string \<Rightarrow> int \<Rightarrow>
    ('w px_state, string option \<times> bool) state" where
  "container_power E c act force node vmid =
     (let upid = (\<lambda>m. do { u \<leftarrow> m; return (u, truthy_str u) }) in
      if act = ''start'' then upid (start_container E c node vmid)
      else if act = ''stop'' then
        (if force \<noteq> 0 then do { ok \<leftarrow> force_stop_container E c node vmid; return (None, ok) }
         else upid (stop_container E c node vmid))
      else if act = ''shutdown'' then upid (shutdown_container E c node vmid 60)
      else upid (restart_container E c node vmid))"

definition set_status :: "int \<Rightarrow> int \<Rightarrow> string \<Rightarrow> 'w panel \<Rightarrow> 'w panel" where
  "set_status sid vmid st s =
     s\<lparr>pn_guests := update_first (active_at sid vmid) (\<lambda>g. g\<lparr>gr_status := st\<rparr>) (pn_guests s)\<rparr>"

definition register_if :: "'w proxmox_api \<Rightarrow> string option \<Rightarrow> int \<Rightarrow> user \<Rightarrow> string \<Rightarrow> string \<Rightarrow> int \<Rightarrow>
    guest_kind \<Rightarrow> string \<Rightarrow> 'w panel \<Rightarrow> 'w panel" where
  "register_if E upid sid u act node vmid g descr s =
     (if truthy_str upid
      then snd (register_task E (the upid) sid (user_id u) act (Some node) (Some vmid) (Some (kind_name g)) (Some descr) s)
      else s)"

definition control_vm :: "'w proxmox_api \<Rightarrow> user \<Rightarrow> int \<Rightarrow> int \<Rightarrow> string \<Rightarrow> string \<Rightarrow> int \<Rightarrow> 'w panel \<Rightarrow>
    (http_error + string option) \<times> 'w panel" where
  "control_vm E u sid vmid act node force s =
     (case map_of vm_permission_map act of
        None \<Rightarrow> (Inl (HTTPException 400 (Msg ''Invalid action'')), s)
      | Some p \<Rightarrow>
          if \<not> has_perm u p then (Inl (forbidden (''Permission denied: '' @ p)), s)
          else (case guest_guard s u sid vmid server_not_found of
            Inl e \<Rightarrow> (Inl e, s)
          | Inr sv \<Rightarrow> (case connect_or E failed_to_connect sv s of
              (Inl e, s1) \<Rightarrow> (Inl e, s1)
            | (Inr c, s1) \<Rightarrow>
              (case on_proxmox (get_vm_status E c node vmid) s1 of (st, s2) \<Rightarrow>
               (case on_proxmox (vm_power E c act force node vmid) s2 of ((upid, ok), s3) \<Rightarrow>
                  let name = (if act = ''stop'' \<and> force \<noteq> 0 then ''kill'' else act);
                      shown = (if truthy_str (name_in st) then the (name_in st) else dec_int vmid);
                      entry = (guest_action name ''vm'' u sv node vmid)\<lparr>pa_resource_name := name_in st,
                        pa_details := [(''force'', json.JInt force)]\<rparr>
                  in if ok then
                       let s4 = set_status sid vmid (if act \<in> {''start'', ''restart'', ''reset''} then ''running'' else ''stopped'') s3;
                           s5 = register_if E upid sid u name node vmid Qemu (task_text vm_task_texts act shown name) s4
                       in (Inr upid, log_panel E entry s5)
                     else (Inl (server_error ''Failed to execute action''),
                       log_panel E (entry\<lparr>pa_success := False, pa_error_message := Some ''Failed to execute action''\<rparr>) s3))))))"

text \<open>The handler for containers catches its own exceptions: a server out of reach is a 500 here.\<close>

fun as_500 :: "http_error \<Rightarrow> http_error" where
  "as_500 (HTTPException st (Msg m)) = server_error (dec_string st @ '': '' @ m)"
| "as_500 e = server_error []"

definition control_container :: "'w proxmox_api \<Rightarrow> user \<Rightarrow> int \<Rightarrow> int \<Rightarrow> string \<Rightarrow> string \<Rightarrow> int \<Rightarrow> 'w panel \<Rightarrow>
    (http_error + string option) \<times> 'w panel" where
  "control_container E u sid vmid act node force s =
     (case map_of container_permission_map act of
        None \<Rightarrow> (Inl (HTTPException 400 (Msg ''Invalid action'')), s)
      | Some p \<Rightarrow> (case require_permission u p of
          Inl e \<Rightarrow> (Inl e, s)
        | Inr _ \<Rightarrow> (case guest_guard s u sid vmid server_not_found of
            Inl e \<Rightarrow> (Inl e, s)
          | Inr sv \<Rightarrow> (case connect_or E failed_to_connect sv s of
              (Inl e, s1) \<Rightarrow> (Inl (as_500 e), s1)
            | (Inr c, s1) \<Rightarrow>
              (case on_proxmox (container_power E c act force node vmid) s1 of ((upid, ok), s2) \<Rightarrow>
                 let name = (if act = ''stop'' \<and> force \<noteq> 0 then ''kill'' else act)
                 in if ok then
                      let s3 = set_status sid vmid (if act \<in> {''start'', ''restart''} then ''running'' else ''stopped'') s2
                      in (Inr upid, register_if E upid sid u name node vmid Lxc
                            (task_text container_task_texts act (dec_int vmid) name) s3)
                    else (Inl (as_500 (server_error ''Failed to execute action'')), s2))))))"

section \<open>Deletion\<close>

text \<open>The loop after the stop: up to thirty polls, half a second apart; \<^term>\<open>False\<close> when it still runs.\<close>

definition runs :: "json \<Rightarrow> bool" where
  "runs st = (case st of json.JObj d \<Rightarrow> d \<noteq> [] \<and> dget d ''status'' = json.JStr ''running'' | _ \<Rightarrow> False)"

fun wait_down :: "'w proxmox_api \<Rightarrow> guest_kind \<Rightarrow> proxmox_client \<Rightarrow> string \<Rightarrow> int \<Rightarrow> nat \<Rightarrow>
    ('w px_state, bool) state" where
  "wait_down E g c node vmid 0 = return False"
| "wait_down E g c node vmid (Suc k) = do {
     sleep E 500000;
     st \<leftarrow> guest_status g E c node vmid;
     if runs st then wait_down E g c node vmid k else return True
   }"

definition stop_guest :: "guest_kind \<Rightarrow> 'w proxmox_api \<Rightarrow> proxmox_client \<Rightarrow> string \<Rightarrow> int \<Rightarrow>
    ('w px_state, string option) state" where
  "stop_guest g E c node vmid = (case g of Qemu \<Rightarrow> stop_vm E c node vmid | Lxc \<Rightarrow> stop_container E c node vmid)"

definition stopped_for_delete :: "'w proxmox_api \<Rightarrow> guest_kind \<Rightarrow> proxmox_client \<Rightarrow> string \<Rightarrow> int \<Rightarrow> json \<Rightarrow>
    ('w px_state, bool) state" where
  "stopped_for_delete E g c node vmid st =
     (if runs st then do { stop_guest g E c node vmid; wait_down E g c node vmid 30 } else return True)"

text \<open>What the guest agent says of the addresses, \<open>get_vm_interfaces\<close>; whatever raises gives no interface.\<close>

definition get_vm_config :: "'w proxmox_api \<Rightarrow> proxmox_client \<Rightarrow> string \<Rightarrow> int \<Rightarrow> ('w px_state, json) state" where
  "get_vm_config E c node vmid = (case proxmox c of
       None \<Rightarrow> return json.JNull
     | Some h \<Rightarrow> do {
         r \<leftarrow> send E h (Request GET (guest_path Qemu node vmid [''config'']) []);
         return (case r of Inr (json.JObj d) \<Rightarrow> json.JObj d | _ \<Rightarrow> json.JNull)
       })"

fun agent_ipv4 :: "json list \<Rightarrow> (string \<times> int) option option" where
  "agent_ipv4 [] = Some None"
| "agent_ipv4 (json.JObj e # es) =
     (case agent_ipv4 es of
        None \<Rightarrow> None
      | Some rest \<Rightarrow> Some (case dget e ''ip-address'' of
            json.JStr a \<Rightarrow> if a \<noteq> [] \<and> dget e ''ip-address-type'' = json.JStr ''ipv4''
              then Some (a, case map_of e ''prefix'' of Some (json.JInt p) \<Rightarrow> p | _ \<Rightarrow> 0) else rest
          | _ \<Rightarrow> rest))"
| "agent_ipv4 (_ # es) = None"

fun interfaces_ipv4 :: "json list \<Rightarrow> (string \<times> int) option option" where
  "interfaces_ipv4 [] = Some None"
| "interfaces_ipv4 (json.JObj e # es) =
     (case interfaces_ipv4 es of
        None \<Rightarrow> None
      | Some rest \<Rightarrow> (case dget e ''ip-addresses'' of
          json.JList l \<Rightarrow>
            if l = [] \<or> dget e ''name'' = json.JStr ''lo'' then Some rest
            else (case agent_ipv4 l of None \<Rightarrow> None | Some None \<Rightarrow> Some rest | Some (Some a) \<Rightarrow> Some (Some a))
        | j \<Rightarrow> if truthy_json j then None else Some rest))"
| "interfaces_ipv4 (_ # es) = None"

text \<open>The first IPv4 address of \<open>get_vm_interfaces\<close> with its prefix, 24 where there is none.\<close>

definition vm_ipv4 :: "'w proxmox_api \<Rightarrow> proxmox_client \<Rightarrow> string \<Rightarrow> int \<Rightarrow> ('w px_state, string option \<times> int) state" where
  "vm_ipv4 E c node vmid = (case proxmox c of
       None \<Rightarrow> return (None, 24)
     | Some h \<Rightarrow> do {
         r \<leftarrow> send E h (Request GET (guest_path Qemu node vmid [''agent'', ''network-get-interfaces'']) []);
         return (case r of
             Inr (json.JObj d) \<Rightarrow> (case map_of d ''result'' of
                 Some (json.JList l) \<Rightarrow> (case interfaces_ipv4 l of Some (Some (a, p)) \<Rightarrow> (Some a, p) | _ \<Rightarrow> (None, 24))
               | _ \<Rightarrow> (None, 24))
           | _ \<Rightarrow> (None, 24))
       })"

definition json_int :: "json \<Rightarrow> int option" where
  "json_int j = (case j of json.JInt n \<Rightarrow> Some n | _ \<Rightarrow> None)"

text \<open>
  The size of the boot disk as the handler reads it, \<^term>\<open>None\<close> where that raises: a disk the configuration does not
  have counts as the empty dictionary and gives 0, a disk written as a text, as Proxmox does, gives no size.
\<close>

definition boot_disk_size :: "(string, json) pydict \<Rightarrow> int option option" where
  "boot_disk_size d =
     (let disk_of = (\<lambda>entry. case entry of
              None \<Rightarrow> Some (Some 0)
            | Some (json.JObj disk_info) \<Rightarrow>
                (case map_of disk_info ''size'' of
                   None \<Rightarrow> Some (Some 0)
                 | Some (json.JStr size_str) \<Rightarrow> map_option Some (py_int (filter (\<lambda>c. c \<noteq> CHR ''G'') size_str))
                 | Some _ \<Rightarrow> Some None)
            | Some _ \<Rightarrow> Some None)
      in case map_of d ''bootdisk'' of
           None \<Rightarrow> disk_of (map_of d ''scsi0'')
         | Some (json.JStr bootdisk) \<Rightarrow> disk_of (map_of d bootdisk)
         | Some (json.JList _) \<Rightarrow> None
         | Some (json.JObj _) \<Rightarrow> None
         | Some _ \<Rightarrow> disk_of None)"

text \<open>Numbers come as numbers and texts as texts.\<close>

definition saved_config :: "(string, json) pydict \<Rightarrow> int option \<Rightarrow> string \<Rightarrow> int \<Rightarrow> string option \<times> int \<Rightarrow>
    guest_row option \<Rightarrow> guest_config" where
  "saved_config d disk_size node vmid addr prev = \<lparr>gc_node = node, gc_vm_type = ''qemu'',
     gc_name = (case map_of d ''name'' of Some (json.JStr n) \<Rightarrow> n | _ \<Rightarrow> ''VM-'' @ dec_int vmid),
     gc_cores = json_int (dget d ''cores''), gc_memory = json_int (dget d ''memory''), gc_disk_size = disk_size,
     gc_ip_address = fst addr, gc_ip_prefix = Some (snd addr), gc_gateway = None, gc_nameserver = None,
     gc_cloud_init_user = None, gc_cloud_init_password = None, gc_ssh_keys = None,
     gc_template_id = (case prev of None \<Rightarrow> None | Some g \<Rightarrow> gc_template_id g),
     gc_template_name = (case prev of None \<Rightarrow> None | Some g \<Rightarrow> gc_template_name g),
     gc_description = json_str (dget d ''description''), gc_extra_config = None\<rparr>"

definition save_before_delete :: "'w proxmox_api \<Rightarrow> proxmox_client \<Rightarrow> int \<Rightarrow> int \<Rightarrow> string \<Rightarrow> 'w panel \<Rightarrow> 'w panel" where
  "save_before_delete E c sid vmid node s =
     (case on_proxmox (get_vm_config E c node vmid) s of (config, s1) \<Rightarrow>
      (case on_proxmox (vm_ipv4 E c node vmid) s1 of (addr, s2) \<Rightarrow>
         (let d = (case config of json.JObj d \<Rightarrow> d | _ \<Rightarrow> [])
          in case boot_disk_size d of
               None \<Rightarrow> s2
             | Some disk_size \<Rightarrow>
                 save_vm_instance sid vmid (saved_config d disk_size node vmid addr (get_vm_instance sid vmid s2)) None s2)))"

definition doomed_of :: "guest_kind \<Rightarrow> server_row \<Rightarrow> user \<Rightarrow> string \<Rightarrow> int \<Rightarrow> string option \<Rightarrow> string \<Rightarrow> doomed" where
  "doomed_of g sv u node vmid name what = \<lparr>dm_server_id = sv_id sv, dm_server_name = sv_name sv, dm_vmid = vmid,
     dm_vm_name = name, dm_kind = g, dm_node = node, dm_deleted_by = username u,
     dm_reason = Some (what @ '' '' @ dec_int vmid @ '' deleted by '' @ username u)\<rparr>"

definition cleanup_installed_apps :: "int \<Rightarrow> int \<Rightarrow> 'w panel \<Rightarrow> 'w panel" where
  "cleanup_installed_apps sid vmid s =
     s\<lparr>pn_installed_apps := filter (\<lambda>a. a \<noteq> (sid, vmid)) (pn_installed_apps s)\<rparr>"

text \<open>What both handlers do once Proxmox has accepted the deletion.\<close>

definition forget_guest :: "'w proxmox_api \<Rightarrow> user \<Rightarrow> int \<Rightarrow> int \<Rightarrow> string \<Rightarrow> 'w panel \<Rightarrow> 'w panel" where
  "forget_guest E u sid vmid reason s =
     (let s1 = soft_delete_vm_instance E sid vmid s;
          s2 = snd (on_ipam (release_ip_by_vmid sid vmid (Some (username u)) (Some reason)) s1)
      in cleanup_installed_apps sid vmid s2)"

definition snapshot_details :: "archive_result \<Rightarrow> (string, json) pydict" where
  "snapshot_details r = [(''snapshots_archived'', json.JInt (int (ar_archived r))),
     (''snapshots_deleted'', json.JInt (int (ar_deleted r))), (''snapshot_names'', json.JList (map json.JStr (ar_snapshots r)))]"

definition finish_task_row :: "'w proxmox_api \<Rightarrow> int \<Rightarrow> 'w panel \<Rightarrow> 'w panel" where
  "finish_task_row E i s = s\<lparr>pn_tasks := update_first (\<lambda>t. pt_id t = i)
     (\<lambda>t. t\<lparr>pt_status := ''completed'', pt_exit_status := Some ''OK'', pt_completed_at := Some (panel_now E s)\<rparr>) (pn_tasks s)\<rparr>"

definition guest_name :: "json \<Rightarrow> string \<Rightarrow> int \<Rightarrow> string option" where
  "guest_name st pre vmid = (case st of json.JObj d \<Rightarrow> json_str (dget d ''name'') | _ \<Rightarrow> Some (pre @ dec_int vmid))"

definition shown_name :: "string option \<Rightarrow> int \<Rightarrow> string" where
  "shown_name n vmid = (if truthy_str n then the n else dec_int vmid)"

definition delete_vm_endpoint :: "'w proxmox_api \<Rightarrow> user \<Rightarrow> int \<Rightarrow> int \<Rightarrow> string \<Rightarrow> bool \<Rightarrow> 'w panel \<Rightarrow>
    (http_error + archive_result) \<times> 'w panel" where
  "delete_vm_endpoint E u sid vmid node force s =
     (case PermissionChecker ''vm:delete'' u of
        Inl e \<Rightarrow> (Inl e, s)
      | Inr _ \<Rightarrow> (case guest_guard s u sid vmid (HTTPException 404 (Msg ''server_not_found'')) of
          Inl e \<Rightarrow> (Inl e, s)
        | Inr sv \<Rightarrow> (case connect_or E (HTTPException 503 (Msg ''failed_to_connect'')) sv s of
            (Inl e, s1) \<Rightarrow> (Inl e, s1)
          | (Inr c, s1) \<Rightarrow>
            (case on_proxmox (get_vm_status E c node vmid) s1 of (st, s2) \<Rightarrow>
            (case on_proxmox (stopped_for_delete E Qemu c node vmid st) s2 of
              (False, s3) \<Rightarrow> (Inl (HTTPException 400 (Msg ''cannot_delete_running_vm'')), s3)
            | (True, s3) \<Rightarrow>
              let s4 = (if force then s3 else save_before_delete E c sid vmid node s3);
                  name = guest_name st ''VM-'' vmid
              in (case archive_and_delete_snapshots E c (doomed_of Qemu sv u node vmid name ''VM'') s4 of (ar, s5) \<Rightarrow>
                 (case on_proxmox (delete_vm E c node vmid False) s5 of
                    (Inl e, s6) \<Rightarrow> (Inl (server_error (exn_text e)), log_panel E ((guest_action ''delete'' ''vm'' u sv node vmid)
                        \<lparr>pa_success := False, pa_error_message := Some (exn_text e)\<rparr>) s6)
                  | (Inr _, s6) \<Rightarrow>
                      let s7 = forget_guest E u sid vmid (''VM '' @ dec_int vmid @ '' deleted'') s6 in
                      (case register_task E (''delete-vm-'' @ dec_int vmid @ ''-'' @ dec_int sid) sid (user_id u) ''delete''
                              (Some node) (Some vmid) (Some ''qemu'') (Some (TXT_DELETION @ '' VM '' @ shown_name name vmid)) s7 of
                         (i, s8) \<Rightarrow> (Inr ar, log_panel E ((guest_action ''delete'' ''vm'' u sv node vmid)
                            \<lparr>pa_resource_name := name, pa_details := (''force'', json.JBool force) # snapshot_details ar\<rparr>)
                            (finish_task_row E i s8))))))))))"

definition delete_container_endpoint :: "'w proxmox_api \<Rightarrow> user \<Rightarrow> int \<Rightarrow> int \<Rightarrow> string \<Rightarrow> 'w panel \<Rightarrow>
    (http_error + archive_result) \<times> 'w panel" where
  "delete_container_endpoint E u sid vmid node s =
     (case PermissionChecker ''vm:delete'' u of
        Inl e \<Rightarrow> (Inl e, s)
      | Inr _ \<Rightarrow> (case guest_guard s u sid vmid (HTTPException 404 (Msg ''server_not_found'')) of
          Inl e \<Rightarrow> (Inl e, s)
        | Inr sv \<Rightarrow> (case connect_or E (HTTPException 503 (Msg ''failed_to_connect'')) sv s of
            (Inl e, s1) \<Rightarrow> (Inl e, s1)
          | (Inr c, s1) \<Rightarrow>
            (case on_proxmox (get_container_status E c node vmid) s1 of (st, s2) \<Rightarrow>
            (case on_proxmox (stopped_for_delete E Lxc c node vmid st) s2 of
              (False, s3) \<Rightarrow> (Inl (HTTPException 400 (Msg ''cannot_delete_running_container'')), s3)
            | (True, s3) \<Rightarrow>
              let name = guest_name st ''CT-'' vmid in
              (case archive_and_delete_snapshots E c (doomed_of Lxc sv u node vmid name ''Container'') s3 of (ar, s4) \<Rightarrow>
              (case on_proxmox (delete_container E c node vmid False) s4 of
                 (Inl e, s5) \<Rightarrow> (Inl (server_error (exn_text e)), s5)
               | (Inr _, s5) \<Rightarrow>
                   let s6 = forget_guest E u sid vmid (''Container '' @ dec_int vmid @ '' deleted'') s5;
                       s7 = snd (register_task E (''delete-ct-'' @ dec_int vmid @ ''-'' @ dec_int sid) sid (user_id u) ''delete''
                              (Some node) (Some vmid) (Some ''lxc'') (Some (TXT_DELETION @ '' LXC '' @ shown_name name vmid)) s6)
                   in (Inr ar, log_panel E ((guest_action ''delete'' ''container'' u sv node vmid)
                        \<lparr>pa_resource_name := name, pa_details := snapshot_details ar\<rparr>) s7))))))))"

end
