(* ===== verification/GuestOps.thy ===== *)
theory GuestOps
  imports GuestApi
begin

text \<open>
  More endpoints on one guest: snapshots (\<^verbatim>\<open>backend/app/api/proxmox/snapshots.py\<close>), commands inside the
  guest, its configuration as Proxmox and as the panel hold it, and its owner
  (\<^verbatim>\<open>api/proxmox/vms.py\<close>), with the client methods behind them (\<open>execute_command\<close>, \<open>execute_script\<close>,
  \<open>exec_in_container\<close>, \<open>update_cloud_init\<close>, \<open>get_container_config\<close> of \<^verbatim>\<open>app/proxmox/client.py\<close>).

  A handler that waits for a task answers \<^term>\<open>None\<close> when the wait does not end, which \<open>wait_for_task\<close>
  excludes while the clock runs.
\<close>

section \<open>Snapshots\<close>

definition snapshot_log :: "string \<Rightarrow> guest_kind \<Rightarrow> user \<Rightarrow> server_row \<Rightarrow> string \<Rightarrow> int \<Rightarrow> string \<Rightarrow> proxmox_action" where
  "snapshot_log act g u sv node vmid snapname =
     (guest_action act (case g of Qemu \<Rightarrow> ''vm'' | Lxc \<Rightarrow> ''container'') u sv node vmid)\<lparr>pa_resource_name := Some snapname\<rparr>"

definition snapshot_guard :: "user \<Rightarrow> int \<Rightarrow> int \<Rightarrow> 'w panel \<Rightarrow> http_error + server_row" where
  "snapshot_guard u sid vmid s =
     (case PermissionChecker ''vm:view'' u of Inl e \<Rightarrow> Inl e | Inr _ \<Rightarrow> guest_guard s u sid vmid server_not_found)"

text \<open>A failure is logged by the server only; a success is an entry of the audit log.\<close>

definition snapshot_answer :: "'w proxmox_api \<Rightarrow> proxmox_action \<Rightarrow> outcome \<Rightarrow> 'w panel \<Rightarrow>
    (http_error + json option) \<times> 'w panel" where
  "snapshot_answer E a r s = (case r of
       Success j \<Rightarrow> (Inr j, log_panel E a s)
     | Failure e _ \<Rightarrow> (Inl (HTTPException 400 (Msg e)), s))"

definition list_snapshots :: "guest_kind \<Rightarrow> 'w proxmox_api \<Rightarrow> user \<Rightarrow> int \<Rightarrow> int \<Rightarrow> string \<Rightarrow> 'w panel \<Rightarrow>
    (http_error + (string, json) pydict list) \<times> 'w panel" where
  "list_snapshots g E u sid vmid node s =
     (case snapshot_guard u sid vmid s of
        Inl e \<Rightarrow> (Inl e, s)
      | Inr sv \<Rightarrow> (case proxmox_client_of E sv s of
          (Inl e, s1) \<Rightarrow> (Inl (as_500 e), s1)
        | (Inr c, s1) \<Rightarrow> (case on_proxmox (snapshots_of g E c node vmid) s1 of
            (l, s2) \<Rightarrow> (case map_opt dict_of l of
                None \<Rightarrow> (Inl (server_error []), s2)
              | Some ds \<Rightarrow> (Inr (filter (\<lambda>d. dget d ''name'' \<noteq> json.JStr ''current'') ds), s2)))))"

definition create_snapshot_endpoint :: "guest_kind \<Rightarrow> 'w proxmox_api \<Rightarrow> user \<Rightarrow> int \<Rightarrow> int \<Rightarrow> string \<Rightarrow>
    string option \<Rightarrow> string option \<Rightarrow> bool \<Rightarrow> 'w panel \<Rightarrow> ((http_error + json option) \<times> 'w panel) option" where
  "create_snapshot_endpoint g E u sid vmid node snapname descr vmstate s =
     (case snapshot_guard u sid vmid s of
        Inl e \<Rightarrow> Some (Inl e, s)
      | Inr sv \<Rightarrow>
          if \<not> truthy_str snapname then Some (Inl (HTTPException 400 (Msg ''Snapshot name is required'')), s)
          else (case proxmox_client_of E sv s of
            (Inl e, s1) \<Rightarrow> Some (Inl e, s1)
          | (Inr c, s1) \<Rightarrow>
              (case create_snapshot g E c node vmid
                  (snapshot_params (the snapname) descr (case g of Qemu \<Rightarrow> vmstate | Lxc \<Rightarrow> False)) (pn_px s1) of
                 None \<Rightarrow> None
               | Some (r, p) \<Rightarrow> Some (snapshot_answer E (snapshot_log ''snapshot_create'' g u sv node vmid (the snapname)) r
                     (s1\<lparr>pn_px := p\<rparr>)))))"

definition delete_snapshot_endpoint :: "guest_kind \<Rightarrow> 'w proxmox_api \<Rightarrow> user \<Rightarrow> int \<Rightarrow> int \<Rightarrow> string \<Rightarrow> string \<Rightarrow>
    'w panel \<Rightarrow> (http_error + json option) \<times> 'w panel" where
  "delete_snapshot_endpoint g E u sid vmid node snapname s =
     (case snapshot_guard u sid vmid s of
        Inl e \<Rightarrow> (Inl e, s)
      | Inr sv \<Rightarrow> (case proxmox_client_of E sv s of
          (Inl e, s1) \<Rightarrow> (Inl e, s1)
        | (Inr c, s1) \<Rightarrow> (case on_proxmox (delete_snapshot g E c node vmid snapname False) s1 of
            (r, s2) \<Rightarrow> snapshot_answer E (snapshot_log ''snapshot_delete'' g u sv node vmid snapname) r s2)))"

definition rollback_snapshot_endpoint :: "guest_kind \<Rightarrow> 'w proxmox_api \<Rightarrow> user \<Rightarrow> int \<Rightarrow> int \<Rightarrow> string \<Rightarrow> string \<Rightarrow>
    bool \<Rightarrow> 'w panel \<Rightarrow> (http_error + json option) \<times> 'w panel" where
  "rollback_snapshot_endpoint g E u sid vmid node snapname start_after s =
     (case snapshot_guard u sid vmid s of
        Inl e \<Rightarrow> (Inl e, s)
      | Inr sv \<Rightarrow> (case proxmox_client_of E sv s of
          (Inl e, s1) \<Rightarrow> (Inl e, s1)
        | (Inr c, s1) \<Rightarrow> (case on_proxmox (rollback_snapshot g E c node vmid snapname start_after) s1 of
            (r, s2) \<Rightarrow> snapshot_answer E (snapshot_log ''snapshot_rollback'' g u sv node vmid snapname) r s2)))"

section \<open>Commands inside a guest\<close>

datatype exec_result =
    ExecDone (ex_stdout: json) (ex_stderr: json) (ex_exit_code: json)
  | ExecFailed (ex_error: string)

definition exec_hint :: string where
  "exec_hint =
     ''. '' @ [CHR 0xD0, CHR 0x92] @ '' '' @ [CHR 0xD0, CHR 0xB3, CHR 0xD0, CHR 0xBE, CHR 0xD1, CHR 0x81,
     CHR 0xD1, CHR 0x82, CHR 0xD0, CHR 0xB5, CHR 0xD0, CHR 0xB2, CHR 0xD0, CHR 0xBE, CHR 0xD0, CHR 0xB9]
     @ '' '' @ [CHR 0xD0, CHR 0x9E, CHR 0xD0, CHR 0xA1] @ '' '' @ [CHR 0xD0, CHR 0xB7, CHR 0xD0,
     CHR 0xB0, CHR 0xD0, CHR 0xBF, CHR 0xD1, CHR 0x80, CHR 0xD0, CHR 0xB5, CHR 0xD1, CHR 0x89, CHR 0xD1,
     CHR 0x91, CHR 0xD0, CHR 0xBD] @ '' RPC guest-exec '' @ [CHR 0xE2, CHR 0x80, CHR 0x94] @ '' '' @
     [CHR 0xD1, CHR 0x82, CHR 0xD0, CHR 0xB0, CHR 0xD0, CHR 0xBA] @ '' '' @ [CHR 0xD0, CHR 0xBF,
     CHR 0xD0, CHR 0xBE] @ '' '' @ [CHR 0xD1, CHR 0x83, CHR 0xD0, CHR 0xBC, CHR 0xD0, CHR 0xBE, CHR 0xD0,
     CHR 0xBB, CHR 0xD1, CHR 0x87, CHR 0xD0, CHR 0xB0, CHR 0xD0, CHR 0xBD, CHR 0xD0, CHR 0xB8, CHR 0xD1,
     CHR 0x8E] @ '' '' @ [CHR 0xD1, CHR 0x81, CHR 0xD0, CHR 0xBE, CHR 0xD0, CHR 0xB1, CHR 0xD1, CHR 0x80,
     CHR 0xD0, CHR 0xB0, CHR 0xD0, CHR 0xBD] @ '' qemu-guest-agent '' @ [CHR 0xD0, CHR 0xB2] @
     '' Rocky Linux, AlmaLinux, CentOS Stream '' @ [CHR 0xD0, CHR 0xB8] @ '' Fedora. '' @ [CHR 0xD0,
     CHR 0x92, CHR 0xD0, CHR 0xBD, CHR 0xD1, CHR 0x83, CHR 0xD1, CHR 0x82, CHR 0xD1, CHR 0x80, CHR 0xD0,
     CHR 0xB8] @ '' '' @ [CHR 0xD0, CHR 0x92, CHR 0xD0, CHR 0x9C] @ '' '' @ [CHR 0xD0, CHR 0xBE,
     CHR 0xD1, CHR 0x87, CHR 0xD0, CHR 0xB8, CHR 0xD1, CHR 0x81, CHR 0xD1, CHR 0x82, CHR 0xD0, CHR 0xB8,
     CHR 0xD1, CHR 0x82, CHR 0xD0, CHR 0xB5] @ '' '' @ [CHR 0xD0, CHR 0xB2] @
     '' /etc/sysconfig/qemu-ga '' @ [CHR 0xD0, CHR 0xB7, CHR 0xD0, CHR 0xBD, CHR 0xD0, CHR 0xB0,
     CHR 0xD1, CHR 0x87, CHR 0xD0, CHR 0xB5, CHR 0xD0, CHR 0xBD, CHR 0xD0, CHR 0xB8, CHR 0xD0, CHR 0xB5]
     @ '' FILTER_RPC_ARGS ('' @ [CHR 0xD0, CHR 0xB2] @ '' '' @ [CHR 0xD0, CHR 0xBF, CHR 0xD0, CHR 0xB0,
     CHR 0xD0, CHR 0xBA, CHR 0xD0, CHR 0xB5, CHR 0xD1, CHR 0x82, CHR 0xD0, CHR 0xB0, CHR 0xD1, CHR 0x85]
     @ '' '' @ [CHR 0xD0, CHR 0xBF, CHR 0xD0, CHR 0xBE, CHR 0xD1, CHR 0x81, CHR 0xD1, CHR 0x82, CHR 0xD0,
     CHR 0xB0, CHR 0xD1, CHR 0x80, CHR 0xD1, CHR 0x88, CHR 0xD0, CHR 0xB5] @ '' '' @ [CHR 0xE2, CHR 0x80,
     CHR 0x94] @ '' BLOCK_RPCS '' @ [CHR 0xD0, CHR 0xB8, CHR 0xD0, CHR 0xBB, CHR 0xD0, CHR 0xB8] @
     '' BLACKLIST_RPC) '' @ [CHR 0xD0, CHR 0xB8] @ '' '' @ [CHR 0xD0, CHR 0xB2, CHR 0xD1, CHR 0x8B,
     CHR 0xD0, CHR 0xBF, CHR 0xD0, CHR 0xBE, CHR 0xD0, CHR 0xBB, CHR 0xD0, CHR 0xBD, CHR 0xD0, CHR 0xB8,
     CHR 0xD1, CHR 0x82, CHR 0xD0, CHR 0xB5] @ '' systemctl restart qemu-guest-agent''"

definition agent_error_hint :: "string \<Rightarrow> string" where
  "agent_error_hint e =
     (if substring_of ''has been disabled'' (lower e) \<and> substring_of ''guest-exec'' (lower e)
      then e @ exec_hint else e)"

definition field_or :: "(string, json) pydict \<Rightarrow> string \<Rightarrow> json \<Rightarrow> json" where
  "field_or d k dflt = (case map_of d k of None \<Rightarrow> dflt | Some v \<Rightarrow> v)"

text \<open>One round of the wait; an exception only delays the next round.\<close>

definition exec_round :: "'w proxmox_api \<Rightarrow> api_args \<Rightarrow> string \<Rightarrow> int \<Rightarrow> json \<Rightarrow>
    ('w px_state, exec_result option) state" where
  "exec_round E h node vmid pid = do {
     r \<leftarrow> send E h (Request GET (guest_path Qemu node vmid [''agent'', ''exec-status'']) [(''pid'', pid)]);
     case (case r of
         Inr (json.JObj d) \<Rightarrow> if truthy_json (dget d ''exited'')
           then Some (ExecDone (field_or d ''out-data'' (json.JStr [])) (field_or d ''err-data'' (json.JStr []))
                  (field_or d ''exitcode'' (json.JInt 0)))
           else None
       | _ \<Rightarrow> None) of
       Some v \<Rightarrow> return (Some v)
     | None \<Rightarrow> do { sleep E 500000; return None }
   }"

definition wait_exec_status :: "'w proxmox_api \<Rightarrow> api_args \<Rightarrow> string \<Rightarrow> int \<Rightarrow> json \<Rightarrow> int \<Rightarrow> 'w px_state \<Rightarrow>
    (exec_result \<times> 'w px_state) option" where
  "wait_exec_status E h node vmid pid timeout s =
     (case poll (before_deadline E (api_now E (px_world s)) (seconds timeout)) (exec_round E h node vmid pid) s of
        None \<Rightarrow> None
      | Some (None, s') \<Rightarrow> Some (ExecFailed (''Command execution timeout ('' @ dec_int timeout @ ''s)''), s')
      | Some (Some v, s') \<Rightarrow> Some (v, s'))"

text \<open>\<open>'pid' not in exec_result\<close> is asked of a dictionary; another answer raises.\<close>

definition agent_exec :: "'w proxmox_api \<Rightarrow> proxmox_client \<Rightarrow> string \<Rightarrow> int \<Rightarrow> (string \<times> json) list \<Rightarrow> string \<Rightarrow>
    int \<Rightarrow> 'w px_state \<Rightarrow> (exec_result \<times> 'w px_state) option" where
  "agent_exec E c node vmid ps what timeout s = (case proxmox c of
       None \<Rightarrow> Some (ExecFailed ''Proxmox connection not initialized'', s)
     | Some h \<Rightarrow> (case run_state (send E h (Request POST (guest_path Qemu node vmid [''agent'', ''exec'']) ps)) s of
         (Inl e, s1) \<Rightarrow> Some (ExecFailed (agent_error_hint (exn_text e)), s1)
       | (Inr (json.JObj d), s1) \<Rightarrow> (case map_of d ''pid'' of
             None \<Rightarrow> Some (ExecFailed (''Failed to start '' @ what @ '' execution''), s1)
           | Some pid \<Rightarrow> wait_exec_status E h node vmid pid timeout s1)
       | (Inr _, s1) \<Rightarrow> Some (ExecFailed [], s1)))"

definition execute_command :: "'w proxmox_api \<Rightarrow> proxmox_client \<Rightarrow> string \<Rightarrow> int \<Rightarrow> string \<Rightarrow> int \<Rightarrow> 'w px_state \<Rightarrow>
    (exec_result \<times> 'w px_state) option" where
  "execute_command E c node vmid command timeout =
     agent_exec E c node vmid [(''command'', json.JStr command)] ''command'' timeout"

text \<open>\<open>replace('\r\n', '\n').replace('\r', '\n')\<close>\<close>

fun unix_lines :: "string \<Rightarrow> string" where
  "unix_lines [] = []"
| "unix_lines [c] = [if c = CHR 0x0D then CHR 0x0A else c]"
| "unix_lines (c # d # s) =
     (if c = CHR 0x0D then (if d = CHR 0x0A then CHR 0x0A # unix_lines s else CHR 0x0A # unix_lines (d # s))
      else c # unix_lines (d # s))"

definition execute_script :: "'w proxmox_api \<Rightarrow> proxmox_client \<Rightarrow> string \<Rightarrow> int \<Rightarrow> string \<Rightarrow> string \<Rightarrow> int \<Rightarrow>
    'w px_state \<Rightarrow> (exec_result \<times> 'w px_state) option" where
  "execute_script E c node vmid script interpreter timeout =
     agent_exec E c node vmid [(''command'', json.JList [json.JStr interpreter]), (''input-data'', json.JStr (unix_lines script))]
       ''script'' timeout"

definition exec_in_container :: "'w proxmox_api \<Rightarrow> proxmox_client \<Rightarrow> string \<Rightarrow> int \<Rightarrow> string list \<Rightarrow>
    ('w px_state, json) state" where
  "exec_in_container E c node vmid command = (case proxmox c of
       None \<Rightarrow> return (json.JObj [])
     | Some h \<Rightarrow> do {
         r \<leftarrow> send E h (Request POST (guest_path Lxc node vmid [''exec''])
           ((''command'', json.JStr (case command of [] \<Rightarrow> ''/bin/bash'' | cmd # _ \<Rightarrow> cmd)) #
            map (\<lambda>(i, a). (''args['' @ dec_string i @ '']'', json.JStr a)) (enumerate 0 (tl command))));
         return (case r of Inl _ \<Rightarrow> json.JObj [] | Inr j \<Rightarrow> j)
       })"

text \<open>The endpoints: no question is asked about the guest.\<close>

definition unguarded :: "'w proxmox_api \<Rightarrow> string \<Rightarrow> user \<Rightarrow> int \<Rightarrow> 'w panel \<Rightarrow>
    (http_error + proxmox_client) \<times> 'w panel" where
  "unguarded E p u sid s =
     (case PermissionChecker p u of
        Inl e \<Rightarrow> (Inl e, s)
      | Inr _ \<Rightarrow> (case find_server sid s of
          None \<Rightarrow> (Inl server_not_found, s)
        | Some sv \<Rightarrow> connect_or E failed_to_connect sv s))"

text \<open>\<open>except Exception\<close> turns an error of the connection into a 500.\<close>

definition caught_500 :: "'w proxmox_api \<Rightarrow> string \<Rightarrow> user \<Rightarrow> int \<Rightarrow> 'w panel \<Rightarrow>
    (http_error + proxmox_client) \<times> 'w panel" where
  "caught_500 E p u sid s =
     (case PermissionChecker p u of
        Inl e \<Rightarrow> (Inl e, s)
      | Inr _ \<Rightarrow> (case find_server sid s of
          None \<Rightarrow> (Inl server_not_found, s)
        | Some sv \<Rightarrow> (case connect_or E failed_to_connect sv s of (r, s') \<Rightarrow> (map_sum as_500 id r, s'))))"

definition execute_vm_command :: "'w proxmox_api \<Rightarrow> user \<Rightarrow> int \<Rightarrow> int \<Rightarrow> string \<Rightarrow> string \<Rightarrow> int \<Rightarrow> 'w panel \<Rightarrow>
    ((http_error + exec_result) \<times> 'w panel) option" where
  "execute_vm_command E u sid vmid node command timeout s =
     (case caught_500 E ''vm:console'' u sid s of
        (Inl e, s1) \<Rightarrow> Some (Inl e, s1)
      | (Inr c, s1) \<Rightarrow> map_option (\<lambda>(r, p). (Inr r, s1\<lparr>pn_px := p\<rparr>))
          (execute_command E c node vmid command timeout (pn_px s1)))"

definition execute_vm_script :: "'w proxmox_api \<Rightarrow> user \<Rightarrow> int \<Rightarrow> int \<Rightarrow> string \<Rightarrow> string \<Rightarrow> string \<Rightarrow> int \<Rightarrow>
    'w panel \<Rightarrow> ((http_error + exec_result) \<times> 'w panel) option" where
  "execute_vm_script E u sid vmid node script interpreter timeout s =
     (case caught_500 E ''vm:console'' u sid s of
        (Inl e, s1) \<Rightarrow> Some (Inl e, s1)
      | (Inr c, s1) \<Rightarrow> map_option (\<lambda>(r, p). (Inr r, s1\<lparr>pn_px := p\<rparr>))
          (execute_script E c node vmid script interpreter timeout (pn_px s1)))"

definition exec_container_endpoint :: "'w proxmox_api \<Rightarrow> user \<Rightarrow> int \<Rightarrow> int \<Rightarrow> string \<Rightarrow> string list \<Rightarrow> 'w panel \<Rightarrow>
    (http_error + json) \<times> 'w panel" where
  "exec_container_endpoint E u sid vmid node command s =
     (case unguarded E ''vm:console'' u sid s of
        (Inl e, s1) \<Rightarrow> (Inl e, s1)
      | (Inr c, s1) \<Rightarrow> (case on_proxmox (exec_in_container E c node vmid command) s1 of
          (j, s2) \<Rightarrow> if truthy_json j then (Inr j, s2) else (Inl (server_error ''Failed to execute command''), s2)))"

section \<open>Configuration\<close>

definition get_container_config :: "'w proxmox_api \<Rightarrow> proxmox_client \<Rightarrow> string \<Rightarrow> int \<Rightarrow> ('w px_state, json) state" where
  "get_container_config E c node vmid = (case proxmox c of
       None \<Rightarrow> return json.JNull
     | Some h \<Rightarrow> do {
         r \<leftarrow> send E h (Request GET (guest_path Lxc node vmid [''config'']) []);
         return (case r of Inr (json.JObj d) \<Rightarrow> json.JObj d | _ \<Rightarrow> json.JNull)
       })"

definition get_config_endpoint :: "guest_kind \<Rightarrow> 'w proxmox_api \<Rightarrow> user \<Rightarrow> int \<Rightarrow> int \<Rightarrow> string \<Rightarrow> 'w panel \<Rightarrow>
    (http_error + json) \<times> 'w panel" where
  "get_config_endpoint g E u sid vmid node s =
     (case caught_500 E ''vm:view'' u sid s of
        (Inl e, s1) \<Rightarrow> (Inl e, s1)
      | (Inr c, s1) \<Rightarrow> (case on_proxmox ((case g of Qemu \<Rightarrow> get_vm_config | Lxc \<Rightarrow> get_container_config) E c node vmid) s1 of
          (j, s2) \<Rightarrow> (Inr j, s2)))"

text \<open>What the panel itself has stored of a guest: the answer repeats these columns.\<close>

definition get_saved_vm_config :: "user \<Rightarrow> int \<Rightarrow> int \<Rightarrow> 'w panel \<Rightarrow> http_error + guest_config option" where
  "get_saved_vm_config u sid vmid s =
     (case PermissionChecker ''vm:view'' u of
        Inl e \<Rightarrow> Inl e
      | Inr _ \<Rightarrow> Inr (map_option guest_config.truncate (get_vm_instance sid vmid s)))"

section \<open>Owners\<close>

definition resolve_clone_owner :: "'w panel \<Rightarrow> user \<Rightarrow> int option \<Rightarrow> http_error + int" where
  "resolve_clone_owner s u owner =
     (if truthy_int owner \<and> the owner \<noteq> user_id u then
        (if \<not> (has_perm u ''user:manage'' \<or> is_admin u)
         then Inl (forbidden ''Only admins can assign instance to another user'')
         else (case find (\<lambda>x. user_id x = the owner) (pn_users s) of
             None \<Rightarrow> Inl (HTTPException 404 (Msg ''Owner user not found''))
           | Some x \<Rightarrow> Inr (user_id x)))
      else Inr (user_id u))"

fun keep_new :: "string list \<Rightarrow> string list \<Rightarrow> string list" where
  "keep_new seen [] = []"
| "keep_new seen (k # ks) = (if k \<noteq> [] \<and> k \<notin> set seen then k # keep_new (k # seen) ks else keep_new seen ks)"

definition collect_owner_ssh_keys :: "'w panel \<Rightarrow> int option \<Rightarrow> string" where
  "collect_owner_ssh_keys s uid =
     (if \<not> truthy_int uid then []
      else if find (\<lambda>x. user_id x = the uid) (pn_users s) = None then []
      else (let profile = (case map_of (pn_profile_keys s) (the uid) of
                  Some k \<Rightarrow> if k = [] then [] else [strip k] | None \<Rightarrow> []);
                library = map (\<lambda>(_, k). strip k) (filter (\<lambda>(i, k). i = the uid \<and> k \<noteq> []) (pn_library_keys s))
            in join_with [CHR 0x0A] (keep_new [] (profile @ library))))"

text \<open>\<open>urllib.parse.quote(text, safe='')\<close>\<close>

definition quote_char :: "char \<Rightarrow> string" where
  "quote_char c = (if is_digit c \<or> is_upper c \<or> is_lower c \<or> c \<in> {CHR ''_'', CHR ''.'', CHR ''-'', CHR ''~''}
     then [c] else [CHR 0x25, hd (upper [hex_digit (of_char c div 16)]), hd (upper [hex_digit (of_char c mod 16)])])"

definition url_quote :: "string \<Rightarrow> string" where
  "url_quote t = concat (map quote_char t)"

record cloud_init =
  ci_ciuser :: "string option"
  ci_cipassword :: "string option"
  ci_sshkeys :: "string option"
  ci_ipconfig0 :: "string option"
  ci_nameserver :: "string option"
  ci_searchdomain :: "string option"

definition ci_set :: "string \<Rightarrow> string option \<Rightarrow> (string \<times> json) list" where
  "ci_set k v = (if truthy_str v then [(k, json.JStr (the v))] else [])"

definition ci_clear :: "string \<Rightarrow> string option \<Rightarrow> string list" where
  "ci_clear k v = (if v = Some [] then [k] else [])"

definition cloud_init_params :: "cloud_init \<Rightarrow> (string \<times> json) list" where
  "cloud_init_params ci =
     (let blank_keys = (case ci_sshkeys ci of None \<Rightarrow> False | Some k \<Rightarrow> strip k = []);
          deletes = ci_clear ''ciuser'' (ci_ciuser ci) @ (if blank_keys then [''sshkeys''] else []) @
            ci_clear ''ipconfig0'' (ci_ipconfig0 ci) @ ci_clear ''nameserver'' (ci_nameserver ci) @
            ci_clear ''searchdomain'' (ci_searchdomain ci);
          params = ci_set ''ciuser'' (ci_ciuser ci) @ ci_set ''cipassword'' (ci_cipassword ci) @
            (case ci_sshkeys ci of Some k \<Rightarrow> if blank_keys then [] else [(''sshkeys'', json.JStr (url_quote k))] | None \<Rightarrow> []) @
            ci_set ''ipconfig0'' (ci_ipconfig0 ci) @ ci_set ''nameserver'' (ci_nameserver ci) @
            ci_set ''searchdomain'' (ci_searchdomain ci)
      in if deletes = [] then params else params @ [(''delete'', json.JStr (join_with '','' deletes))])"

definition update_cloud_init :: "'w proxmox_api \<Rightarrow> proxmox_client \<Rightarrow> string \<Rightarrow> int \<Rightarrow> cloud_init \<Rightarrow>
    ('w px_state, outcome) state" where
  "update_cloud_init E c node vmid ci =
     (if proxmox c \<noteq> None \<and> cloud_init_params ci = [] then return (Success None)
      else outcome_call E c ''Not connected'' False (Request PUT (guest_path Qemu node vmid [''config'']) (cloud_init_params ci)))"

text \<open>\<open>base64.b64encode\<close>, three bytes at a time.\<close>

definition b64_digit :: "nat \<Rightarrow> char" where
  "b64_digit n = (if n < 26 then char_of (65 + n) else if n < 52 then char_of (71 + n)
     else if n < 62 then char_of (n - 4) else if n = 62 then CHR ''+'' else CHR ''/'')"

fun b64encode :: "nat list \<Rightarrow> string" where
  "b64encode [] = []"
| "b64encode [a] = [b64_digit (a div 4), b64_digit (a mod 4 * 16), CHR ''='', CHR ''='']"
| "b64encode [a, b] = [b64_digit (a div 4), b64_digit (a mod 4 * 16 + b div 16), b64_digit (b mod 16 * 4), CHR ''='']"
| "b64encode (a # b # c # rest) = [b64_digit (a div 4), b64_digit (a mod 4 * 16 + b div 16),
     b64_digit (b mod 16 * 4 + c div 64), b64_digit (c mod 64)] @ b64encode rest"

definition authorized_keys_command :: "string \<Rightarrow> string" where
  "authorized_keys_command keys =
     (if keys = [] then ''rm -f /root/.ssh/authorized_keys''
      else ''mkdir -p /root/.ssh && chmod 700 /root/.ssh && echo '' @ b64encode (map of_char keys) @
        '' | base64 -d > /root/.ssh/authorized_keys && chmod 600 /root/.ssh/authorized_keys'')"

definition apply_ssh_keys :: "'w proxmox_api \<Rightarrow> guest_row \<Rightarrow> string \<Rightarrow> 'w panel \<Rightarrow> bool \<times> 'w panel" where
  "apply_ssh_keys E g keys s =
     (case find_server (gr_server_id g) s of
        None \<Rightarrow> (False, s)
      | Some sv \<Rightarrow> (case connect_or E failed_to_connect sv s of
          (Inl _, s1) \<Rightarrow> (False, s1)
        | (Inr c, s1) \<Rightarrow>
            if gc_vm_type g = ''qemu'' then
              (case on_proxmox (update_cloud_init E c (gc_node g) (gr_vmid g) \<lparr>ci_ciuser = None, ci_cipassword = None,
                  ci_sshkeys = Some keys, ci_ipconfig0 = None, ci_nameserver = None, ci_searchdomain = None\<rparr>) s1 of
                 (r, s2) \<Rightarrow> (succeeded r, s2))
            else if gc_vm_type g = ''lxc'' then
              (case on_proxmox (exec_in_container E c (gc_node g) (gr_vmid g)
                  [''bash'', ''-c'', authorized_keys_command keys]) s1 of (_, s2) \<Rightarrow> (True, s2))
            else (False, s1)))"

definition set_vm_owner :: "'w proxmox_api \<Rightarrow> user \<Rightarrow> int \<Rightarrow> int \<Rightarrow> int option \<Rightarrow> 'w panel \<Rightarrow>
    (http_error + bool option) \<times> 'w panel" where
  "set_vm_owner E u sid vmid owner s =
     (if \<not> is_admin u then (Inl (forbidden ''Admin required''), s)
      else (case get_vm_instance sid vmid s of
        None \<Rightarrow> (Inl (HTTPException 404 (Msg ''VM not found in cache'')), s)
      | Some g \<Rightarrow>
          if owner \<noteq> None \<and> find (\<lambda>x. user_id x = the owner \<and> is_active x) (pn_users s) = None
          then (Inl (HTTPException 404 (Msg ''User not found'')), s)
          else if gr_owner_id g \<noteq> owner then
            (let keys = collect_owner_ssh_keys s owner in
             case apply_ssh_keys E g keys s of (ok, s1) \<Rightarrow>
               (Inr (Some ok), s1\<lparr>pn_guests := update_first (active_at sid vmid)
                  (\<lambda>g. g\<lparr>gc_ssh_keys := or_none keys, gr_owner_id := owner\<rparr>) (pn_guests s1)\<rparr>))
          else (Inr None, s\<lparr>pn_guests := update_first (active_at sid vmid) (\<lambda>g. g\<lparr>gr_owner_id := owner\<rparr>) (pn_guests s)\<rparr>)))"

end
