(* ===== verification/Worker.thy ===== *)
theory Worker
  imports GuestOps
begin

text \<open>
  \<open>MonitoringWorker\<close> of \<^verbatim>\<open>backend/app/workers/monitoring_worker.py\<close>: the availability check of the
  servers, the synchronisation of the guest table with what Proxmox reports, and the polling of running
  tasks. \<open>worker\<close> holds the dictionaries of the object. \<open>monotonic\<close> is \<open>time.monotonic()\<close>, in microseconds.

  Notifications and broadcasts are returned instead of sent: \<open>server_alert\<close> and the three lists of
  \<open>sync_report\<close>. What Proxmox reports of a size is below \<open>2^53\<close> bytes, so that dividing it by a power of two is
  exact and \<open>round\<close> rounds the quotient, halves to even.
\<close>

record worker =
  upid_fail_counts :: "(int, int) pydict"
  last_ip_detect :: "(int \<times> int, int) pydict"
  last_server_states :: "(int, bool) pydict"
  last_server_alerts :: "(int, int) pydict"

section \<open>Sizes and progress\<close>

definition round_div :: "int \<Rightarrow> int \<Rightarrow> int" where
  "round_div n d = (let q = n div d; r = n mod d in
     if 2 * r < d then q else if 2 * r > d then q + 1 else if even q then q else q + 1)"

definition bytes_to_mb :: "int option \<Rightarrow> int option" where
  "bytes_to_mb v = (if \<not> truthy_int v then None else Some (round_div (the v) (1024 * 1024)))"

definition bytes_to_gb :: "int option \<Rightarrow> int option" where
  "bytes_to_gb v = (if \<not> truthy_int v then None else Some (round_div (the v) (1024 * 1024 * 1024)))"

text \<open>
  The matches of \<open>(?:progress\s+)?(\d{1,3})\s*%\<close>. The optional word in front changes no captured number. A
  run of digits matches as a whole, from its last three digits on.
\<close>

definition percent_here :: "string \<Rightarrow> bool" where
  "percent_here t = (let ds = takeWhile is_digit t in ds \<noteq> [] \<and> length ds \<le> 3 \<and>
     (case dropWhile is_space (dropWhile is_digit t) of c # _ \<Rightarrow> c = CHR 0x25 | [] \<Rightarrow> False))"

lemma length_dropWhile_dropWhile: "length (dropWhile Q (dropWhile P xs)) \<le> length xs"
  using length_dropWhile_le[of Q "dropWhile P xs"] length_dropWhile_le[of P xs] by simp

function percents :: "string \<Rightarrow> int list" where
  "percents [] = []"
| "percents (c # t) =
     (if percent_here (c # t)
      then int (dec_value (takeWhile is_digit (c # t))) # percents (tl (dropWhile is_space (dropWhile is_digit (c # t))))
      else percents t)"
  by pat_completeness auto

termination
proof (relation "measure length", goal_cases)
  case (2 c t)
  show ?case using length_dropWhile_dropWhile[of is_space is_digit "c # t"] by (simp add: less_Suc_eq_le)
qed simp_all

definition parse_task_progress :: "string option \<Rightarrow> int option" where
  "parse_task_progress log_text =
     (if \<not> truthy_str log_text then None
      else (case percents (the log_text) of
          [] \<Rightarrow> None
        | ps \<Rightarrow> Some (max 0 (min 100 (List.last ps)))))"

section \<open>Availability of the servers\<close>

datatype server_alert = WentOffline int string | Recovered int

definition set_server :: "int \<Rightarrow> (server_row \<Rightarrow> server_row) \<Rightarrow> 'w panel \<Rightarrow> 'w panel" where
  "set_server sid f s = s\<lparr>pn_servers := update_first (\<lambda>sv. sv_id sv = sid) f (pn_servers s)\<rparr>"

definition check_server :: "'w proxmox_api \<Rightarrow> server_row \<Rightarrow> worker \<times> 'w panel \<Rightarrow>
    server_alert list \<times> worker \<times> 'w panel" where
  "check_server E sv ws = (case ws of (w, s) \<Rightarrow>
     if \<not> has_auth (server.truncate sv) then ([], w, s)
     else
       (case on_proxmox (do { c \<leftarrow> from_server E (server.truncate sv); check_connection E c }) s of
          ((ok, kind, err), s1) \<Rightarrow>
            let t = panel_now E s1; i = sv_id sv; state = map_of (last_server_states w) i in
            if ok then
              (let was_offline = (state = Some False);
                   s2 = (if sv_is_online sv \<noteq> Some True \<or> was_offline
                      then set_server i (\<lambda>sv. sv\<lparr>sv_is_online := Some True, sv_last_error := None,
                             sv_last_error_kind := None, sv_last_check := Some t\<rparr>) s1 else s1);
                   w1 = (if was_offline then w\<lparr>last_server_alerts := AList.delete i (last_server_alerts w)\<rparr> else w)
               in (if was_offline then [Recovered i] else [],
                   w1\<lparr>last_server_states := AList.update i True (last_server_states w1)\<rparr>, s2))
            else
              (let msg = (if truthy_str err then the err else ''API not responding'');
                   was_online = (state \<noteq> Some False);
                   s2 = set_server i (\<lambda>sv. sv\<lparr>sv_is_online := Some False, sv_last_error := Some (take 500 msg),
                          sv_last_error_kind := Some (if truthy_str kind then the kind else ''connection''),
                          sv_last_check := Some t\<rparr>) s1;
                   since = t - or_default (map_of (last_server_alerts w) i) 0;
                   notify = was_online \<or> since \<ge> seconds 600;
                   w1 = (if notify then w\<lparr>last_server_alerts := AList.update i t (last_server_alerts w)\<rparr> else w)
               in (if notify then [WentOffline i msg] else [],
                   w1\<lparr>last_server_states := AList.update i False (last_server_states w1)\<rparr>, s2))))"

fun check_servers :: "'w proxmox_api \<Rightarrow> server_row list \<Rightarrow> worker \<times> 'w panel \<Rightarrow>
    server_alert list \<times> worker \<times> 'w panel" where
  "check_servers E [] ws = ([], ws)"
| "check_servers E (sv # svs) ws =
     (case check_server E sv ws of (as, ws1) \<Rightarrow> (case check_servers E svs ws1 of (bs, ws2) \<Rightarrow> (as @ bs, ws2)))"

definition run_server_availability_check :: "'w proxmox_api \<Rightarrow> worker \<times> 'w panel \<Rightarrow>
    server_alert list \<times> worker \<times> 'w panel" where
  "run_server_availability_check E ws =
     (if filter (\<lambda>u. is_active u \<and> is_admin u) (pn_users (snd ws)) = [] then ([], ws)
      else check_servers E (pn_servers (snd ws)) ws)"

section \<open>Synchronisation of the guest table\<close>

record sync_report =
  sy_status :: "(int \<times> int \<times> string \<times> string \<times> string) list"
  sy_created :: "(int \<times> int \<times> string \<times> string \<times> string) list"
  sy_deleted :: "(int \<times> int \<times> string \<times> string \<times> string) list"

text \<open>The address the cache shows for a guest: the primary one, otherwise the first.\<close>

definition index_allocation :: "ipam_allocation \<Rightarrow> (int \<times> int, ipam_allocation) pydict \<Rightarrow>
    (int \<times> int, ipam_allocation) pydict" where
  "index_allocation a d =
     (if truthy_int (a_server_id a) \<and> truthy_int (a_vmid a)
      then (let key = (the (a_server_id a), the (a_vmid a)) in
        case map_of d key of
          None \<Rightarrow> AList.update key a d
        | Some b \<Rightarrow> if a_is_primary a \<and> \<not> a_is_primary b then AList.update key a d else d)
      else d)"

definition ipam_by_server_vmid :: "'w panel \<Rightarrow> (int \<times> int, ipam_allocation) pydict" where
  "ipam_by_server_vmid s = fold index_allocation (filter is_held (allocations (pn_ipam s))) []"

definition IP_DETECT_TTL :: int where
  "IP_DETECT_TTL = seconds 300"

definition sync_address :: "'w proxmox_api \<Rightarrow> ('w \<Rightarrow> int) \<Rightarrow> (int, proxmox_client) pydict \<Rightarrow>
    (int \<times> int, ipam_allocation) pydict \<Rightarrow> int \<Rightarrow> resource \<Rightarrow> worker \<times> 'w panel \<Rightarrow>
    string option \<times> worker \<times> 'w panel" where
  "sync_address E monotonic clients index sid r ws = (case ws of (w, s) \<Rightarrow>
     let key = (sid, rs_vmid r);
         ip = map_option a_ip_address (map_of index key);
         t = monotonic (px_world (pn_px s));
         due = t - or_default (map_of (last_ip_detect w) key) 0 \<ge> IP_DETECT_TTL
     in if \<not> truthy_str ip \<and> due then
          (let w1 = w\<lparr>last_ip_detect := AList.update key t (last_ip_detect w)\<rparr> in
           case map_of clients sid of
             None \<Rightarrow> (ip, w1, s)
           | Some c \<Rightarrow>
               if rs_node r = [] then (ip, w1, s)
               else (case on_proxmox (detect_address E c (rs_kind r) (rs_node r) (rs_vmid r) (rs_status r)) s of
                   (a, s1) \<Rightarrow> (if a = None then ip else a, w1, s1)))
        else (ip, w, s))"

text \<open>\<open>str.capitalize\<close>.\<close>

fun capitalize :: "string \<Rightarrow> string" where
  "capitalize [] = []"
| "capitalize (c # t) = upper_char c # lower t"

definition resource_name :: "resource \<Rightarrow> string" where
  "resource_name r = or_default (rs_name r) ((case rs_kind r of Qemu \<Rightarrow> ''VM-'' | Lxc \<Rightarrow> ''CT-'') @ dec_int (rs_vmid r))"

definition resource_os :: "resource \<Rightarrow> string" where
  "resource_os r = (case rs_kind r of Qemu \<Rightarrow> or_default (rs_ostype r) ''QEMU/KVM''
     | Lxc \<Rightarrow> capitalize (or_default (rs_ostype r) ''Linux''))"

definition refresh_guest :: "int \<Rightarrow> resource \<Rightarrow> string option \<Rightarrow> guest_row \<Rightarrow> guest_row" where
  "refresh_guest sync_time r addr g =
     g\<lparr>gc_name := resource_name r, gc_node := rs_node r, gr_status := rs_status r, gc_cores := rs_cpus r,
       gc_memory := bytes_to_mb (rs_maxmem r), gc_disk_size := bytes_to_gb (rs_maxdisk r),
       gr_os_type := Some (resource_os r), gc_vm_type := kind_name (rs_kind r), gr_is_template := rs_template r,
       gc_ip_address := (if truthy_str addr then addr else gc_ip_address g),
       gr_last_sync_at := Some sync_time, gr_deleted_at := None\<rparr>"

definition synced_guest :: "int \<Rightarrow> int \<Rightarrow> int \<Rightarrow> resource \<Rightarrow> string option \<Rightarrow> guest_row" where
  "synced_guest i sync_time sid r addr =
     \<lparr>gc_node = rs_node r, gc_vm_type = kind_name (rs_kind r), gc_name = resource_name r, gc_cores = rs_cpus r,
      gc_memory = bytes_to_mb (rs_maxmem r), gc_disk_size = bytes_to_gb (rs_maxdisk r), gc_ip_address = addr,
      gc_ip_prefix = Some 24, gc_gateway = None, gc_nameserver = None, gc_cloud_init_user = None,
      gc_cloud_init_password = None, gc_ssh_keys = None, gc_template_id = None, gc_template_name = None,
      gc_description = None, gc_extra_config = None,
      gr_id = i, gr_server_id = sid, gr_vmid = rs_vmid r, gr_owner_id = None, gr_status = rs_status r,
      gr_is_template = rs_template r, gr_os_type = Some (resource_os r), gr_deleted_at = None,
      gr_last_sync_at = Some sync_time\<rparr>"

definition at_key :: "int \<Rightarrow> int \<Rightarrow> guest_row \<Rightarrow> bool" where
  "at_key sid vmid g \<longleftrightarrow> gr_server_id g = sid \<and> gr_vmid g = vmid"

definition upsert_guest :: "int \<Rightarrow> int \<Rightarrow> resource \<Rightarrow> string option \<Rightarrow> sync_report \<times> 'w panel \<Rightarrow>
    sync_report \<times> 'w panel" where
  "upsert_guest sync_time sid r addr rs = (case rs of (rep, s) \<Rightarrow>
     let vmid = rs_vmid r;
         shown = (sid, vmid, rs_node r, resource_name r, kind_name (rs_kind r))
     in case find (at_key sid vmid) (pn_guests s) of
          Some g \<Rightarrow>
            (rep\<lparr>sy_status := sy_status rep @
                   (if gr_status g \<noteq> rs_status r then [(sid, vmid, rs_node r, gr_status g, rs_status r)] else []),
                 sy_created := sy_created rep @ (if gr_deleted_at g \<noteq> None then [shown] else [])\<rparr>,
             s\<lparr>pn_guests := update_first (at_key sid vmid) (refresh_guest sync_time r addr) (pn_guests s)\<rparr>)
        | None \<Rightarrow>
            (rep\<lparr>sy_created := sy_created rep @ [shown]\<rparr>,
             add_guest (synced_guest (pn_next_guest s) sync_time sid r addr) s))"

fun upsert_all :: "'w proxmox_api \<Rightarrow> ('w \<Rightarrow> int) \<Rightarrow> (int, proxmox_client) pydict \<Rightarrow>
    (int \<times> int, ipam_allocation) pydict \<Rightarrow> int \<Rightarrow> (int \<times> resource) list \<Rightarrow>
    sync_report \<times> worker \<times> 'w panel \<Rightarrow> sync_report \<times> worker \<times> 'w panel" where
  "upsert_all E monotonic clients index sync_time [] x = x"
| "upsert_all E monotonic clients index sync_time ((sid, r) # gs) (rep, ws) =
     (case sync_address E monotonic clients index sid r ws of (addr, w1, s1) \<Rightarrow>
      (case upsert_guest sync_time sid r addr (rep, s1) of (rep2, s2) \<Rightarrow>
         upsert_all E monotonic clients index sync_time gs (rep2, w1, s2)))"

definition no_longer_exists :: "guest_row \<Rightarrow> string" where
  "no_longer_exists g = ''VM '' @ gc_name g @ '' ('' @ dec_int (gr_vmid g) @ '') no longer exists on Proxmox''"

definition retire_guest :: "int \<Rightarrow> guest_row \<Rightarrow> 'w panel \<Rightarrow> 'w panel" where
  "retire_guest sync_time g s =
     (let s1 = s\<lparr>pn_guests := update_first (\<lambda>x. gr_id x = gr_id g) (\<lambda>x. x\<lparr>gr_deleted_at := Some sync_time\<rparr>) (pn_guests s)\<rparr>
      in snd (on_ipam (release_ip_by_vmid (gr_server_id g) (gr_vmid g) (Some ''system'') (Some (no_longer_exists g))) s1))"

fun retire_missing :: "int \<Rightarrow> (int \<times> int) set \<Rightarrow> guest_row list \<Rightarrow> sync_report \<times> 'w panel \<Rightarrow>
    sync_report \<times> 'w panel" where
  "retire_missing sync_time seen [] rs = rs"
| "retire_missing sync_time seen (g # gs) (rep, s) =
     (if (gr_server_id g, gr_vmid g) \<in> seen then retire_missing sync_time seen gs (rep, s)
      else retire_missing sync_time seen gs
        (rep\<lparr>sy_deleted := sy_deleted rep @ [(gr_server_id g, gr_vmid g, gc_node g, gc_name g, gc_vm_type g)]\<rparr>,
         retire_guest sync_time g s))"

definition synced_server_ids :: "server_row list \<Rightarrow> (int, int) pydict \<Rightarrow> int set" where
  "synced_server_ids svs clusters = set (map sv_id svs) \<union> set (List.map_filter (\<lambda>sv. map_of clusters (sv_id sv)) svs)"

definition seen_guests :: "(int \<times> resource) list \<Rightarrow> (int \<times> int) set" where
  "seen_guests gs = set (map (\<lambda>(sid, r). (sid, rs_vmid r)) gs)"

definition no_report :: sync_report where
  "no_report = \<lparr>sy_status = [], sy_created = [], sy_deleted = []\<rparr>"

definition sync_vm_cache :: "'w proxmox_api \<Rightarrow> ('w \<Rightarrow> int) \<Rightarrow> worker \<times> 'w panel \<Rightarrow>
    sync_report \<times> worker \<times> 'w panel" where
  "sync_vm_cache E monotonic ws = (case ws of (w, s) \<Rightarrow>
     let servers = filter (\<lambda>sv. sv_is_online sv = Some True) (pn_servers s) in
     if servers = [] then (no_report, w, s)
     else
       (let index = ipam_by_server_vmid s in
        case on_proxmox (fetch_guests E (map server.truncate servers)) s of ((clusters, sync_time, found), s1) \<Rightarrow>
        case upsert_all E monotonic (co_clients found) index sync_time (co_guests found) (no_report, w, s1) of (rep, w2, s2) \<Rightarrow>
          let seen = seen_guests (co_guests found);
              w3 = w2\<lparr>last_ip_detect := filter (\<lambda>(k, _). k \<in> seen) (last_ip_detect w2)\<rparr>;
              ids = synced_server_ids servers clusters;
              active = filter (\<lambda>g. gr_deleted_at g = None \<and> gr_server_id g \<in> ids) (pn_guests s2)
          in case retire_missing sync_time seen active (rep, s2) of (rep4, s4) \<Rightarrow> (rep4, w3, s4)))"

text \<open>
  The endpoint \<^verbatim>\<open>POST /api/sync-vms\<close> runs the synchronisation with a worker of its own, for whoever holds
  \<open>vm:view\<close>.
\<close>

definition new_worker :: worker where
  "new_worker = \<lparr>upid_fail_counts = [], last_ip_detect = [], last_server_states = [], last_server_alerts = []\<rparr>"

definition sync_vms_now :: "'w proxmox_api \<Rightarrow> ('w \<Rightarrow> int) \<Rightarrow> user \<Rightarrow> 'w panel \<Rightarrow> (http_error + unit) \<times> 'w panel" where
  "sync_vms_now E monotonic u s =
     (case PermissionChecker ''vm:view'' u of
        Inl e \<Rightarrow> (Inl e, s)
      | Inr _ \<Rightarrow> (Inr (), snd (snd (sync_vm_cache E monotonic (new_worker, s)))))"

section \<open>Polling the running tasks\<close>

definition UPID_FAIL_THRESHOLD :: int where
  "UPID_FAIL_THRESHOLD = 3"

definition get_task_log :: "'w proxmox_api \<Rightarrow> proxmox_client \<Rightarrow> string \<Rightarrow> string \<Rightarrow> int \<Rightarrow> int \<Rightarrow>
    ('w px_state, json) state" where
  "get_task_log E c node upid start limit = (case proxmox c of
       None \<Rightarrow> return (json.JList [])
     | Some h \<Rightarrow> do {
         r \<leftarrow> send E h (Request GET [Name ''nodes'', Name node, Name ''tasks'', Name upid, Name ''log'']
               [(''start'', json.JInt start), (''limit'', json.JInt limit)]);
         return (case r of Inl _ \<Rightarrow> json.JList [] | Inr j \<Rightarrow> j)
       })"

text \<open>
  One line: \<open>str\<close> of an entry that is no dictionary. Proxmox sends numbered texts; an entry that is a list counts as
  raising, like a \<open>t\<close> that is no text.
\<close>

definition log_line :: "json \<Rightarrow> string option" where
  "log_line j = (case j of
       json.JObj d \<Rightarrow> (case map_of d ''t'' of None \<Rightarrow> Some [] | Some t \<Rightarrow> json_str t)
     | json.JStr t \<Rightarrow> Some t
     | json.JInt n \<Rightarrow> Some (dec_int n)
     | json.JBool b \<Rightarrow> Some (if b then ''True'' else ''False'')
     | json.JNull \<Rightarrow> Some ''None''
     | json.JList _ \<Rightarrow> None)"

definition with_log :: "json \<Rightarrow> proxmox_task \<Rightarrow> proxmox_task" where
  "with_log j t = (case (if truthy_json j then j else json.JList []) of
       json.JList l \<Rightarrow> (case map_opt log_line l of
           None \<Rightarrow> t
         | Some lines \<Rightarrow>
             (let full = join_with [CHR 0x0A] lines; p = parse_task_progress (Some full)
              in t\<lparr>pt_log_text := Some full, pt_progress := (if p = None then pt_progress t else p)\<rparr>))
     | _ \<Rightarrow> t)"

definition finished_task :: "int \<Rightarrow> string option \<Rightarrow> proxmox_task \<Rightarrow> proxmox_task" where
  "finished_task now result t =
     t\<lparr>pt_exit_status := result, pt_status := (if result = Some ''OK'' then ''completed'' else ''failed''),
       pt_completed_at := Some now,
       pt_progress := (if result = Some ''OK'' \<and> pt_progress t \<noteq> None then Some 100 else pt_progress t)\<rparr>"

definition set_task :: "int \<Rightarrow> (proxmox_task \<Rightarrow> proxmox_task) \<Rightarrow> 'w panel \<Rightarrow> 'w panel" where
  "set_task i f s = s\<lparr>pn_tasks := update_first (\<lambda>t. pt_id t = i) f (pn_tasks s)\<rparr>"

definition failed_poll :: "'w proxmox_api \<Rightarrow> int \<Rightarrow> string option \<Rightarrow> worker \<times> 'w panel \<Rightarrow> worker \<times> 'w panel" where
  "failed_poll E i err ws = (case ws of (w, s) \<Rightarrow>
     let fails = or_default (map_of (upid_fail_counts w) i) 0 + 1;
         w1 = w\<lparr>upid_fail_counts := AList.update i fails (upid_fail_counts w)\<rparr>
     in if fails < UPID_FAIL_THRESHOLD then (w1, s)
        else (w1\<lparr>upid_fail_counts := AList.delete i (upid_fail_counts w1)\<rparr>,
              set_task i (\<lambda>t. t\<lparr>pt_status := ''failed'',
                pt_exit_status := Some (take 200 (if truthy_str err then the err else ''Invalid UPID'')),
                pt_completed_at := Some (panel_now E s)\<rparr>) s))"

text \<open>A status that is no dictionary raises after the counter is cleared. The exit status is a text.\<close>

definition exit_text :: "(string, json) pydict \<Rightarrow> string option" where
  "exit_text d = (case map_of d ''exitstatus'' of None \<Rightarrow> Some [] | Some j \<Rightarrow> json_str j)"

definition good_poll :: "'w proxmox_api \<Rightarrow> proxmox_client \<Rightarrow> proxmox_task \<Rightarrow> json \<Rightarrow> worker \<times> 'w panel \<Rightarrow>
    worker \<times> 'w panel" where
  "good_poll E c t st ws = (case ws of (w, s) \<Rightarrow>
     let i = pt_id t; w1 = w\<lparr>upid_fail_counts := AList.delete i (upid_fail_counts w)\<rparr> in
     case st of
       json.JObj d \<Rightarrow>
         (case on_proxmox (get_task_log E c (the (pt_node t)) (pt_upid t) 0 500) s of (j, s1) \<Rightarrow>
            (w1, set_task i (\<lambda>t. if map_of d ''status'' = Some (json.JStr ''stopped'')
                   then finished_task (panel_now E s1) (exit_text d) (with_log j t) else with_log j t) s1))
     | _ \<Rightarrow> (w1, s))"

definition sync_task :: "'w proxmox_api \<Rightarrow> proxmox_task \<Rightarrow> worker \<times> 'w panel \<Rightarrow> worker \<times> 'w panel" where
  "sync_task E t ws = (case ws of (w, s) \<Rightarrow>
     if \<not> truthy_int (pt_server_id t) \<or> \<not> truthy_str (pt_node t) then (w, s)
     else (case find_server (the (pt_server_id t)) s of
       None \<Rightarrow> (w, s)
     | Some sv \<Rightarrow>
         if sv_is_online sv \<noteq> Some True then (w, s)
         else (case on_proxmox (connected_client E (server.truncate sv)) s of
             (None, s1) \<Rightarrow> (w, s1)
           | (Some c, s1) \<Rightarrow> (case on_proxmox (get_task_status E c (the (pt_node t)) (pt_upid t) True) s1 of
                 (Inl e, s2) \<Rightarrow> failed_poll E (pt_id t) (Some (exn_text e)) (w, s2)
               | (Inr j, s2) \<Rightarrow>
                   if truthy_json j then good_poll E c t j (w, s2) else failed_poll E (pt_id t) None (w, s2)))))"

definition run_upid_task_sync :: "'w proxmox_api \<Rightarrow> worker \<times> 'w panel \<Rightarrow> worker \<times> 'w panel" where
  "run_upid_task_sync E ws = fold (sync_task E) (filter (\<lambda>t. pt_status t = ''running'') (pn_tasks (snd ws))) ws"

end
