(* ===== verification/PanelProps.thy ===== *)
theory PanelProps
  imports Worker
begin

text \<open>
  Who can change what: the frames of the endpoints on guests, the error a request on somebody else's guest gets, and
  what a group of users can do to the guest table in any run of these endpoints. The rules \<open>gives_rules\<close> walk
  through a handler branch by branch; the bundles \<open>tables_frames\<close> and \<open>guests_frames\<close> say which tables its steps
  leave alone.
\<close>

section \<open>Walking through a handler\<close>

text \<open>
  \<open>gives P m\<close>: the answer of a computation and the state it ends in are related by \<open>P\<close>; the rules follow the
  branches of a handler.
\<close>

definition gives :: "('a \<Rightarrow> 't \<Rightarrow> bool) \<Rightarrow> 'a \<times> 't \<Rightarrow> bool" where
  "gives P m \<longleftrightarrow> P (fst m) (snd m)"

lemma gives_pair: "P a t \<Longrightarrow> gives P (a, t)"
  by (simp add: gives_def)

lemma givesD: "gives P m \<Longrightarrow> m = (a, t) \<Longrightarrow> P a t"
  by (simp add: gives_def)

lemma gives_prod: "(\<And>a t. m = (a, t) \<Longrightarrow> gives P (f a t)) \<Longrightarrow> gives P (case m of (a, t) \<Rightarrow> f a t)"
  by (cases m) simp

lemma gives_sum:
  "(\<And>e. x = Inl e \<Longrightarrow> gives P (f e)) \<Longrightarrow> (\<And>v. x = Inr v \<Longrightarrow> gives P (g v)) \<Longrightarrow> gives P (case x of Inl e \<Rightarrow> f e | Inr v \<Rightarrow> g v)"
  by (cases x) simp_all

lemma gives_option:
  "(x = None \<Longrightarrow> gives P n) \<Longrightarrow> (\<And>v. x = Some v \<Longrightarrow> gives P (f v)) \<Longrightarrow> gives P (case x of None \<Rightarrow> n | Some v \<Rightarrow> f v)"
  by (cases x) simp_all

lemma gives_outcome:
  "(\<And>j. x = Success j \<Longrightarrow> gives P (f j)) \<Longrightarrow> (\<And>e d. x = Failure e d \<Longrightarrow> gives P (g e d)) \<Longrightarrow>
     gives P (case x of Success j \<Rightarrow> f j | Failure e d \<Rightarrow> g e d)"
  by (cases x) simp_all

lemma gives_if: "(b \<Longrightarrow> gives P m) \<Longrightarrow> (\<not> b \<Longrightarrow> gives P n) \<Longrightarrow> gives P (if b then m else n)"
  by simp

lemma gives_bool: "(b \<Longrightarrow> gives P m) \<Longrightarrow> (\<not> b \<Longrightarrow> gives P n) \<Longrightarrow> gives P (case b of True \<Rightarrow> m | False \<Rightarrow> n)"
  by (cases b) simp_all

lemma gives_let: "(\<And>x. x = e \<Longrightarrow> gives P (f x)) \<Longrightarrow> gives P (let x = e in f x)"
  by simp

lemmas gives_rules = gives_prod gives_sum gives_option gives_outcome gives_if gives_bool gives_let gives_pair

section \<open>Frames\<close>

text \<open>The tables an exchange with Proxmox, the archive of snapshots and the audit log leave alone.\<close>

definition same_tables :: "'w panel \<Rightarrow> 'w panel \<Rightarrow> bool" where
  "same_tables s t \<longleftrightarrow> pn_guests t = pn_guests s \<and> pn_next_guest t = pn_next_guest s \<and> pn_ipam t = pn_ipam s \<and>
     pn_installed_apps t = pn_installed_apps s \<and> pn_servers t = pn_servers s \<and> pn_users t = pn_users s \<and>
     pn_quotas t = pn_quotas s"

lemma on_proxmox_tables: "on_proxmox m s = (a, t) \<Longrightarrow> same_tables s t"
  by (auto simp: on_proxmox_def same_tables_def split: prod.splits)

lemma log_panel_tables [simp]: "same_tables s (log_panel E a t) = same_tables s t"
  by (simp add: log_panel_def same_tables_def)

lemma register_task_tables: "register_task E up sid uid act nd vm ty de s = (i, t) \<Longrightarrow> same_tables s t"
  by (auto simp: register_task_def same_tables_def)

lemma same_tables_trans: "same_tables s t \<Longrightarrow> same_tables t u \<Longrightarrow> same_tables s u"
  by (simp add: same_tables_def)

lemma proxmox_client_of_tables: "proxmox_client_of E sv s = (r, t) \<Longrightarrow> same_tables s t"
  by (auto simp: proxmox_client_of_def same_tables_def split: if_splits prod.splits dest: on_proxmox_tables)

lemma connect_or_tables: "connect_or E e sv s = (r, t) \<Longrightarrow> same_tables s t"
  by (auto simp: connect_or_def split: prod.splits sum.splits
      dest!: on_proxmox_tables proxmox_client_of_tables intro: same_tables_trans)

lemma archive_loop_tables:
  "same_tables s0 s \<Longrightarrow> gives (\<lambda>_. same_tables s0) (archive_loop E c d snaps r s)"
proof (induction snaps arbitrary: r s)
  case (Cons snap snaps)
  have step: "same_tables s0 s2" if "on_proxmox m (s\<lparr>pn_archives := x\<rparr>) = (y, s2)" for m x s2 and y :: outcome
    using on_proxmox_tables [OF that] Cons.prems by (simp add: same_tables_def)
  show ?case
    unfolding archive_loop.simps Let_def
    by (intro gives_rules Cons.IH; (drule step)?; simp add: Cons.prems)
qed (simp add: gives_pair)

lemma archive_gives: "gives (\<lambda>_. same_tables s) (archive_and_delete_snapshots E c d s)"
  unfolding archive_and_delete_snapshots_def Let_def
  by (intro gives_rules archive_loop_tables; drule on_proxmox_tables; assumption)

lemmas archive_tables = givesD [OF archive_gives]

lemmas tables_frames = on_proxmox_tables proxmox_client_of_tables connect_or_tables archive_tables register_task_tables

lemma same_tables_guests: "same_tables s t \<Longrightarrow> pn_guests t = pn_guests s"
  by (simp add: same_tables_def)

lemmas guests_frames = tables_frames [THEN same_tables_guests]
lemmas on_proxmox_guests = on_proxmox_tables [THEN same_tables_guests]
lemmas proxmox_client_of_guests = proxmox_client_of_tables [THEN same_tables_guests]
lemmas connect_or_guests = connect_or_tables [THEN same_tables_guests]

lemma on_ipam_guests [simp]:
  "pn_guests (snd (on_ipam f s)) = pn_guests s" "pn_next_guest (snd (on_ipam f s)) = pn_next_guest s"
  by (simp_all add: on_ipam_def split: prod.splits)

lemma small_frames [simp]:
  "pn_guests (log_panel E a s) = pn_guests s"
  "pn_guests (register_if E upid sid u act node vmid g descr s) = pn_guests s"
  "pn_guests (snd (register_task E up sid uid act nd vm ty de s)) = pn_guests s"
  "pn_guests (finish_task_row E i s) = pn_guests s"
  "pn_guests (cleanup_installed_apps sid vmid s) = pn_guests s"
  by (simp_all add: log_panel_def register_if_def register_task_def finish_task_row_def cleanup_installed_apps_def)

section \<open>Steps that touch one guest\<close>

definition same_guest :: "guest_row \<Rightarrow> guest_row \<Rightarrow> bool" where
  "same_guest g g' \<longleftrightarrow> gr_id g' = gr_id g \<and> gr_server_id g' = gr_server_id g \<and> gr_vmid g' = gr_vmid g \<and>
     gr_owner_id g' = gr_owner_id g"

definition touch :: "int \<Rightarrow> int \<Rightarrow> guest_row \<Rightarrow> guest_row \<Rightarrow> bool" where
  "touch sid vmid g g' \<longleftrightarrow> g' = g \<or> active_at sid vmid g \<and> same_guest g g'"

definition touches :: "int \<Rightarrow> int \<Rightarrow> 'w panel \<Rightarrow> 'w panel \<Rightarrow> bool" where
  "touches sid vmid s t \<longleftrightarrow> list_all2 (touch sid vmid) (pn_guests s) (pn_guests t)"

lemma same_guest_refl [simp]: "same_guest g g"
  by (simp add: same_guest_def)

lemma touch_trans: "touch sid vmid g g' \<Longrightarrow> touch sid vmid g' g'' \<Longrightarrow> touch sid vmid g g''"
  by (auto simp: touch_def same_guest_def)

lemma touches_trans: "touches sid vmid s t \<Longrightarrow> touches sid vmid t u \<Longrightarrow> touches sid vmid s u"
  unfolding touches_def by (rule list_all2_trans [OF touch_trans])

lemma list_all2_update_first:
  "(\<And>x. R x x) \<Longrightarrow> (\<And>x. P x \<Longrightarrow> R x (f x)) \<Longrightarrow> list_all2 R xs (update_first P f xs)"
  by (induction xs) (auto simp: list_all2_refl)

lemma touches_same: "pn_guests t = pn_guests s \<Longrightarrow> touches sid vmid s t"
  by (simp add: touches_def list_all2_refl touch_def)

lemma touches_update:
  assumes "pn_guests t = update_first (active_at sid vmid) f (pn_guests s)" "\<And>g. same_guest g (f g)"
  shows "touches sid vmid s t"
  using assms by (auto simp: touches_def touch_def intro!: list_all2_update_first)

lemma touches_status: "touches sid vmid s (set_status sid vmid st s)"
  by (rule touches_update [where f = "\<lambda>g. g\<lparr>gr_status := st\<rparr>"]) (simp_all add: set_status_def same_guest_def)

lemma touches_soft_delete: "touches sid vmid s (soft_delete_vm_instance E sid vmid s)"
proof (cases "get_vm_instance sid vmid s")
  case None
  then show ?thesis by (simp add: soft_delete_vm_instance_def touches_same)
next
  case (Some g)
  then show ?thesis
    by (intro touches_update [where f = "\<lambda>g. g\<lparr>gr_deleted_at := Some (panel_now E s)\<rparr>"])
      (simp_all add: soft_delete_vm_instance_def Let_def same_guest_def)
qed

lemma touches_forget: "touches sid vmid s (forget_guest E u sid vmid reason s)"
  using touches_soft_delete by (auto simp: forget_guest_def Let_def touches_def)

lemma same_guest_with_config [simp]:
  "gr_id (with_config c g) = gr_id g" "gr_server_id (with_config c g) = gr_server_id g"
  "gr_vmid (with_config c g) = gr_vmid g" "gr_owner_id (with_config c g) = gr_owner_id g"
  "gr_deleted_at (with_config c g) = gr_deleted_at g" "gr_is_template (with_config c g) = gr_is_template g"
  by (cases g, simp add: with_config_def guest_config.defs)+

lemma same_guest_set_owner [simp]:
  "gr_id (set_owner ow g) = gr_id g" "gr_server_id (set_owner ow g) = gr_server_id g"
  "gr_vmid (set_owner ow g) = gr_vmid g" "gr_deleted_at (set_owner ow g) = gr_deleted_at g"
  "gr_is_template (set_owner ow g) = gr_is_template g" "set_owner None g = g"
  "gr_owner_id (set_owner ow g) = (if ow = None then gr_owner_id g else ow)"
  by (cases ow; simp add: set_owner_def)+

lemma touches_save:
  assumes "get_vm_instance sid vmid s \<noteq> None"
  shows "touches sid vmid s (save_vm_instance sid vmid c None s)"
  using assms by (intro touches_update [where f = "with_config c"])
    (auto simp: save_vm_instance_def get_vm_instance_def same_guest_def)

lemma get_instance_cong: "pn_guests t = pn_guests s \<Longrightarrow> get_vm_instance sid vmid t = get_vm_instance sid vmid s"
  by (simp add: get_vm_instance_def)

lemma save_before_delete_saves:
  "\<exists>cfg t. save_before_delete E c sid vmid node s \<in> {t, save_vm_instance sid vmid cfg None t} \<and>
     pn_guests t = pn_guests s \<and> pn_next_guest t = pn_next_guest s"
proof -
  obtain config s1 where s1: "on_proxmox (get_vm_config E c node vmid) s = (config, s1)" by fastforce
  obtain addr s2 where s2: "on_proxmox (vm_ipv4 E c node vmid) s1 = (addr, s2)" by fastforce
  have "pn_guests s2 = pn_guests s \<and> pn_next_guest s2 = pn_next_guest s"
    using s1 s2 by (auto simp: on_proxmox_def split: prod.splits)
  moreover have "\<exists>cfg. save_before_delete E c sid vmid node s \<in> {s2, save_vm_instance sid vmid cfg None s2}"
    by (simp add: save_before_delete_def s1 s2 Let_def split: option.split) blast
  ultimately show ?thesis by blast
qed

lemma touches_save_before_delete:
  assumes "get_vm_instance sid vmid s \<noteq> None"
  shows "touches sid vmid s (save_before_delete E c sid vmid node s)"
proof -
  obtain cfg t where t: "save_before_delete E c sid vmid node s \<in> {t, save_vm_instance sid vmid cfg None t}"
    "pn_guests t = pn_guests s" using save_before_delete_saves by blast
  with touches_save [of sid vmid t cfg] assms show ?thesis
    by (auto simp: touches_def get_vm_instance_def list_all2_refl touch_def)
qed

lemma rows_refl [simp]: "list_all2 (touch sid vmid) rows rows"
  by (simp add: list_all2_refl touch_def)

lemma rows_status:
  "pn_guests t = rows \<Longrightarrow> list_all2 (touch sid vmid) rows (pn_guests (set_status sid vmid st t))"
  using touches_status [of sid vmid t st] by (simp add: touches_def)

lemma rows_forget:
  "pn_guests t = rows \<Longrightarrow> list_all2 (touch sid vmid) rows (pn_guests (forget_guest E u sid vmid reason t))"
  using touches_forget [of sid vmid t E u reason] by (simp add: touches_def)

section \<open>The guarded endpoints\<close>

lemma guest_guard_ok:
  "guest_guard s u sid vmid e = Inr sv \<Longrightarrow> check_vm_access s u sid vmid \<and> find_server sid s = Some sv"
  by (auto simp: guest_guard_def require_vm_access_def split: if_splits option.splits)

lemma touches_control_vm: "gives (\<lambda>_. touches sid vmid s) (control_vm E u sid vmid act node force s)"
  unfolding control_vm_def touches_def
  by (intro gives_rules; ((drule guests_frames)+)?; simp add: rows_status)

lemma touches_control_container: "gives (\<lambda>_. touches sid vmid s) (control_container E u sid vmid act node force s)"
  unfolding control_container_def touches_def
  by (intro gives_rules; ((drule guests_frames)+)?; simp add: rows_status)

lemma touches_delete_container: "gives (\<lambda>_. touches sid vmid s) (delete_container_endpoint E u sid vmid node s)"
  unfolding delete_container_endpoint_def touches_def
  by (intro gives_rules; ((drule guests_frames)+)?; simp add: rows_forget)

lemma rows_save_before_delete:
  "pn_guests t = rows \<Longrightarrow> find (active_at sid vmid) rows \<noteq> None \<Longrightarrow>
     list_all2 (touch sid vmid) rows (pn_guests (save_before_delete E c sid vmid node t))"
  using touches_save_before_delete [of sid vmid t E c node] by (auto simp: touches_def get_vm_instance_def)

lemma rows_trans:
  "list_all2 (touch sid vmid) xs ys \<Longrightarrow> list_all2 (touch sid vmid) ys zs \<Longrightarrow> list_all2 (touch sid vmid) xs zs"
  by (rule list_all2_trans [OF touch_trans])

lemma rows_save_forget:
  "pn_guests t = pn_guests (save_before_delete E c sid vmid node s) \<Longrightarrow> pn_guests s = rows \<Longrightarrow>
     find (active_at sid vmid) rows \<noteq> None \<Longrightarrow>
     list_all2 (touch sid vmid) rows (pn_guests (forget_guest E' u sid vmid reason t))"
  by (rule rows_trans [OF rows_save_before_delete rows_forget])

lemma touches_delete_vm:
  assumes "find (active_at sid vmid) (pn_guests s) \<noteq> None"
  shows "gives (\<lambda>_. touches sid vmid s) (delete_vm_endpoint E u sid vmid node force s)"
  unfolding delete_vm_endpoint_def touches_def
  by (intro gives_rules; ((drule guests_frames)+)?;
      cases force; simp add: rows_forget rows_save_before_delete assms; erule rows_save_forget; simp add: assms)

section \<open>Guests of others\<close>

definition foreign :: "user \<Rightarrow> int \<Rightarrow> int \<Rightarrow> 'w panel \<Rightarrow> bool" where
  "foreign u sid vmid s \<longleftrightarrow> \<not> can_view_all_instances u \<and>
     list_all (\<lambda>g. active_at sid vmid g \<longrightarrow> gr_owner_id g \<noteq> Some (user_id u)) (pn_guests s)"

lemma foreign_guard:
  assumes "foreign u sid vmid s"
  shows "\<exists>e. guest_guard s u sid vmid missing = Inl e"
proof -
  have "\<not> check_vm_access s u sid vmid"
    using assms find_SomeD [of "active_at sid vmid" "pn_guests s"]
    by (auto simp: foreign_def check_vm_access_def list_all_iff split: option.splits)
  then show ?thesis by (simp add: guest_guard_def require_vm_access_def)
qed

lemma foreign_snapshots:
  "foreign u sid vmid s \<Longrightarrow> \<exists>e. snapshot_guard u sid vmid s = Inl e"
  using foreign_guard [of u sid vmid s server_not_found] by (auto simp: snapshot_guard_def split: sum.splits)

text \<open>C7. A user who may not see all guests, and who does not own the guest he names, can neither switch it on or off, nor
  delete it, nor list, create, delete or roll back its snapshots: these eight endpoints, for machines and for
  containers, answer with an error and nothing changes: no table of the panel and, the state of the Proxmox layer being
  part of it, nothing outside. Other endpoints on guests do not ask for the owner: lemmas \<open>commands_ignore_owner\<close> and
  \<open>saved_config_for_anyone\<close> of theory GuestProps.\<close>

theorem foreign_guest_untouched:
  assumes "foreign u sid vmid s"
  shows "(\<exists>e. control_vm E u sid vmid act node force s = (Inl e, s)) \<and>
    (\<exists>e. control_container E u sid vmid act node force s = (Inl e, s)) \<and>
    (\<exists>e. delete_vm_endpoint E u sid vmid node kill s = (Inl e, s)) \<and>
    (\<exists>e. delete_container_endpoint E u sid vmid node s = (Inl e, s)) \<and>
    (\<exists>e. list_snapshots k E u sid vmid node s = (Inl e, s)) \<and>
    (\<exists>e. create_snapshot_endpoint k E u sid vmid node snapname descr vmstate s = Some (Inl e, s)) \<and>
    (\<exists>e. delete_snapshot_endpoint k E u sid vmid node name s = (Inl e, s)) \<and>
    (\<exists>e. rollback_snapshot_endpoint k E u sid vmid node name after s = (Inl e, s))"
proof -
  obtain e1 where e1: "guest_guard s u sid vmid server_not_found = Inl e1"
    using foreign_guard [OF assms] by blast
  obtain e2 where e2: "guest_guard s u sid vmid (HTTPException 404 (Msg ''server_not_found'')) = Inl e2"
    using foreign_guard [OF assms] by blast
  obtain e3 where e3: "snapshot_guard u sid vmid s = Inl e3"
    using foreign_snapshots [OF assms] by blast
  have "\<exists>e. control_vm E u sid vmid act node force s = (Inl e, s)"
    by (simp add: control_vm_def e1 split: option.split)
  moreover have "\<exists>e. control_container E u sid vmid act node force s = (Inl e, s)"
    by (simp add: control_container_def e1 split: option.split sum.split)
  moreover have "\<exists>e. delete_vm_endpoint E u sid vmid node kill s = (Inl e, s)"
    by (simp add: delete_vm_endpoint_def e2 split: sum.split)
  moreover have "\<exists>e. delete_container_endpoint E u sid vmid node s = (Inl e, s)"
    by (simp add: delete_container_endpoint_def e2 split: sum.split)
  ultimately show ?thesis
    by (simp add: e3 list_snapshots_def create_snapshot_endpoint_def delete_snapshot_endpoint_def
        rollback_snapshot_endpoint_def)
qed

inductive tenant_step :: "'w proxmox_api \<Rightarrow> user \<Rightarrow> 'w panel \<Rightarrow> 'w panel \<Rightarrow> bool" for E u where
  power_vm: "control_vm E u sid vmid act node force s = (r, t) \<Longrightarrow> tenant_step E u s t"
| power_container: "control_container E u sid vmid act node force s = (r, t) \<Longrightarrow> tenant_step E u s t"
| delete_vm: "delete_vm_endpoint E u sid vmid node kill s = (r', t) \<Longrightarrow> tenant_step E u s t"
| delete_container: "delete_container_endpoint E u sid vmid node s = (r', t) \<Longrightarrow> tenant_step E u s t"
| list_snapshots: "list_snapshots k E u sid vmid node s = (rl, t) \<Longrightarrow> tenant_step E u s t"
| create_snapshot: "create_snapshot_endpoint k E u sid vmid node sn descr vmstate s = Some (ro, t) \<Longrightarrow> tenant_step E u s t"
| delete_snapshot: "delete_snapshot_endpoint k E u sid vmid node name s = (ro, t) \<Longrightarrow> tenant_step E u s t"
| rollback_snapshot: "rollback_snapshot_endpoint k E u sid vmid node name after s = (ro, t) \<Longrightarrow> tenant_step E u s t"
| command: "execute_vm_command E u sid vmid node cmd timeout s = Some (rx, t) \<Longrightarrow> tenant_step E u s t"
| script: "execute_vm_script E u sid vmid node scr interp timeout s = Some (rx, t) \<Longrightarrow> tenant_step E u s t"
| container_command: "exec_container_endpoint E u sid vmid node cmds s = (rj, t) \<Longrightarrow> tenant_step E u s t"
| config: "get_config_endpoint k E u sid vmid node s = (rj, t) \<Longrightarrow> tenant_step E u s t"
| owner: "set_vm_owner E u sid vmid ow s = (rb, t) \<Longrightarrow> tenant_step E u s t"

lemma snapshot_answer_guests: "snapshot_answer E a x s = (r, t) \<Longrightarrow> pn_guests t = pn_guests s"
  by (auto simp: snapshot_answer_def split: outcome.splits)

lemma unguarded_guests:
  "unguarded E p u sid s = (rc, t) \<Longrightarrow> pn_guests t = pn_guests s"
  "caught_500 E p u sid s = (rc, t) \<Longrightarrow> pn_guests t = pn_guests s"
  by (auto simp: unguarded_def caught_500_def split: sum.splits option.splits prod.splits dest: connect_or_guests)

lemma snapshot_endpoint_guests:
  "list_snapshots k E u sid vmid node s = (rl, t) \<Longrightarrow> pn_guests t = pn_guests s"
  "create_snapshot_endpoint k E u sid vmid node sn descr vmstate s = Some (ro, t) \<Longrightarrow> pn_guests t = pn_guests s"
  "delete_snapshot_endpoint k E u sid vmid node name s = (ro, t) \<Longrightarrow> pn_guests t = pn_guests s"
  "rollback_snapshot_endpoint k E u sid vmid node name after s = (ro, t) \<Longrightarrow> pn_guests t = pn_guests s"
  by (auto simp: list_snapshots_def create_snapshot_endpoint_def delete_snapshot_endpoint_def
      rollback_snapshot_endpoint_def snapshot_answer_def split: sum.splits option.splits prod.splits if_splits outcome.splits
      dest!: proxmox_client_of_guests on_proxmox_guests)

lemma command_guests:
  "execute_vm_command E u sid vmid node cmd timeout s = Some (rx, t) \<Longrightarrow> pn_guests t = pn_guests s"
  "execute_vm_script E u sid vmid node scr interp timeout s = Some (rx, t) \<Longrightarrow> pn_guests t = pn_guests s"
  "exec_container_endpoint E u sid vmid node cmds s = (rj, t) \<Longrightarrow> pn_guests t = pn_guests s"
  "get_config_endpoint k E u sid vmid node s = (rj, t) \<Longrightarrow> pn_guests t = pn_guests s"
  by (auto simp: execute_vm_command_def execute_vm_script_def exec_container_endpoint_def get_config_endpoint_def
      split: sum.splits prod.splits if_splits dest!: unguarded_guests on_proxmox_guests)

definition guest_key :: "guest_row \<Rightarrow> int \<times> int" where
  "guest_key g = (gr_server_id g, gr_vmid g)"

text \<open>A row may change only under its owner \<open>uid\<close>, and keeps its identity and its owner.\<close>

definition confined :: "int \<Rightarrow> guest_row \<Rightarrow> guest_row \<Rightarrow> bool" where
  "confined uid g g' \<longleftrightarrow> g' = g \<or> gr_owner_id g = Some uid \<and> same_guest g g'"

lemma confined_refl [simp]: "list_all2 (confined uid) rows rows"
  by (simp add: list_all2_refl confined_def)

lemma active_key: "active_at sid vmid g \<Longrightarrow> guest_key g = (sid, vmid)"
  by (simp add: active_at_def guest_key_def)

lemma touches_confined:
  assumes touches: "touches sid vmid s t" and unique: "unique_on guest_key (pn_guests s)"
    and owned: "find (active_at sid vmid) (pn_guests s) = Some g0" "gr_owner_id g0 = Some uid"
  shows "list_all2 (confined uid) (pn_guests s) (pn_guests t)"
proof -
  have g0: "g0 \<in> set (pn_guests s)" "guest_key g0 = (sid, vmid)"
    using find_SomeD [OF owned(1)] by (auto simp: active_key)
  have "g = g0" if "g \<in> set (pn_guests s)" "active_at sid vmid g" for g
    using unique_find [OF unique that(1)] unique_find [OF unique g0(1)] g0(2) active_key [OF that(2)] by simp
  then have "confined uid g g'" if "touch sid vmid g g'" "g \<in> set (pn_guests s)" for g g'
    using that owned(2) by (auto simp: touch_def confined_def)
  with touches show ?thesis unfolding touches_def by (rule list.rel_mono_strong)
qed

lemma guarded_confined:
  assumes step: "foreign u sid vmid s \<Longrightarrow> t = s"
    and touches: "find (active_at sid vmid) (pn_guests s) \<noteq> None \<Longrightarrow> touches sid vmid s t"
    and u: "\<not> can_view_all_instances u" and unique: "unique_on guest_key (pn_guests s)"
  shows "list_all2 (confined (user_id u)) (pn_guests s) (pn_guests t)"
proof (cases "foreign u sid vmid s")
  case True
  then show ?thesis using step by simp
next
  case False
  then obtain g where g: "g \<in> set (pn_guests s)" "active_at sid vmid g" "gr_owner_id g = Some (user_id u)"
    using u by (auto simp: foreign_def list_all_iff)
  have "find (active_at sid vmid) (pn_guests s) = find (\<lambda>r. guest_key r = guest_key g \<and> active_at sid vmid r) (pn_guests s)"
    using g(2) by (intro find_cong) (auto simp: active_key)
  obtain g0 where g0: "find (active_at sid vmid) (pn_guests s) = Some g0"
    using g by (cases "find (active_at sid vmid) (pn_guests s)") (auto simp: find_None_iff)
  then have "g0 \<in> set (pn_guests s)" "guest_key g0 = guest_key g"
    using find_SomeD [OF g0] g(2) by (auto simp: active_key)
  then have "g0 = g" using unique_find [OF unique g(1)] unique_find [OF unique, of g0] by simp
  then show ?thesis using touches_confined [OF touches unique g0] g(3) g0 by simp
qed

lemma can_view_admin: "is_admin u \<Longrightarrow> can_view_all_instances u"
  by (simp add: can_view_all_instances_def)

lemma tenant_step_confined:
  assumes "tenant_step E u s t" and u: "\<not> can_view_all_instances u" and unique: "unique_on guest_key (pn_guests s)"
  shows "list_all2 (confined (user_id u)) (pn_guests s) (pn_guests t)"
  using assms(1)
proof cases
  case (power_vm sid vmid act node force r)
  show ?thesis
    using foreign_guard [of u sid vmid s server_not_found] power_vm
    by (intro guarded_confined [OF _ givesD [OF touches_control_vm power_vm] u unique])
      (auto simp: control_vm_def split: option.splits if_splits)
next
  case (power_container sid vmid act node force r)
  show ?thesis
    using foreign_guard [of u sid vmid s server_not_found] power_container
    by (intro guarded_confined [OF _ givesD [OF touches_control_container power_container] u unique])
      (auto simp: control_container_def split: option.splits sum.splits)
next
  case (delete_vm sid vmid node kill r)
  show ?thesis
    using foreign_guard [of u sid vmid s "HTTPException 404 (Msg ''server_not_found'')"] delete_vm
    by (intro guarded_confined [OF _ givesD [OF touches_delete_vm delete_vm] u unique])
      (auto simp: delete_vm_endpoint_def split: sum.splits)
next
  case (delete_container sid vmid node r)
  show ?thesis
    using foreign_guard [of u sid vmid s "HTTPException 404 (Msg ''server_not_found'')"] delete_container
    by (intro guarded_confined [OF _ givesD [OF touches_delete_container delete_container] u unique])
      (auto simp: delete_container_endpoint_def split: sum.splits)
next
  case (owner sid vmid ow r)
  moreover have "\<not> is_admin u" using can_view_admin u by blast
  ultimately show ?thesis by (simp add: set_vm_owner_def)
qed (simp_all add: snapshot_endpoint_guests command_guests)

definition identity :: "guest_row \<Rightarrow> int \<times> int \<times> int \<times> int option" where
  "identity g = (gr_id g, gr_server_id g, gr_vmid g, gr_owner_id g)"

definition kept_by :: "user set \<Rightarrow> 'w panel \<Rightarrow> 'w panel \<Rightarrow> bool" where
  "kept_by us s t \<longleftrightarrow> list_all2 (\<lambda>g g'. identity g' = identity g \<and>
     ((\<forall>u \<in> us. gr_owner_id g \<noteq> Some (user_id u)) \<longrightarrow> g' = g)) (pn_guests s) (pn_guests t)"

definition tenants_step :: "'w proxmox_api \<Rightarrow> user set \<Rightarrow> 'w panel \<Rightarrow> 'w panel \<Rightarrow> bool" where
  "tenants_step E us s t \<longleftrightarrow> (\<exists>u \<in> us. \<not> can_view_all_instances u \<and> tenant_step E u s t)"

lemma kept_by_refl: "kept_by us s s"
  by (simp add: kept_by_def list_all2_refl)

lemma kept_by_trans: "kept_by us s t \<Longrightarrow> kept_by us t v \<Longrightarrow> kept_by us s v"
  unfolding kept_by_def by (erule list_all2_trans [rotated 1], assumption) (auto simp: identity_def)

lemma kept_by_keys:
  assumes "kept_by us s t"
  shows "map identity (pn_guests t) = map identity (pn_guests s)"
  using assms unfolding kept_by_def by (induction rule: list_all2_induct) auto

lemma kept_unique:
  assumes "kept_by us s t" "unique_on guest_key (pn_guests s)"
  shows "unique_on guest_key (pn_guests t)"
proof -
  have keys: "map guest_key rows = map (\<lambda>(i, sv, v, ow). (sv, v)) (map identity rows)" for rows
    by (simp add: identity_def guest_key_def)
  have "map guest_key (pn_guests t) = map guest_key (pn_guests s)"
    unfolding keys kept_by_keys [OF assms(1)] ..
  then show ?thesis using assms(2) by (simp add: unique_on_def)
qed

lemma tenants_step_kept:
  assumes "tenants_step E us s t" "unique_on guest_key (pn_guests s)"
  shows "kept_by us s t"
proof -
  obtain u where u: "u \<in> us" "\<not> can_view_all_instances u" "tenant_step E u s t"
    using assms(1) by (auto simp: tenants_step_def)
  from tenant_step_confined [OF u(3,2) assms(2)] show ?thesis
    unfolding kept_by_def
    by (rule list_all2_mono) (use u(1) in \<open>auto simp: confined_def same_guest_def identity_def\<close>)
qed

interpretation tenants: monotone_machine "tenants_step E us" "\<lambda>s. unique_on guest_key (pn_guests s)" "kept_by us"
  by unfold_locales (auto intro: kept_by_refl kept_by_trans tenants_step_kept kept_unique [OF tenants_step_kept])

text \<open>C8. However long a group of users without the right to all guests works with the endpoints of \<open>tenant_step\<close>, which
  switch guests on and off, delete them, list, create, delete and roll back snapshots, run commands and scripts in them,
  read their configuration and change their owner: no record of a guest appears or disappears, none changes its owner, and
  a record none of them owns stays as it is. The endpoints that create, clone or reinstall guests and the one that
  synchronises the table with Proxmox, which add and retire records, are no steps of it.\<close>

theorem tenants_keep_to_their_guests:
  assumes "(tenants_step E us)\<^sup>*\<^sup>* s t" "unique_on guest_key (pn_guests s)"
  shows "list_all2 (\<lambda>g g'. identity g' = identity g \<and>
     ((\<forall>u \<in> us. gr_owner_id g \<noteq> Some (user_id u)) \<longrightarrow> g' = g)) (pn_guests s) (pn_guests t)"
  using tenants.steps_below [OF assms] by (simp add: kept_by_def)

end
