(* ===== verification/SyncProps.thy ===== *)
theory SyncProps
  imports PanelProps IpamProps
begin

text \<open>
  Facts about the background worker: what a synchronisation makes of the guest table, what becomes of it when a server
  does not answer, and the polling of running tasks.
\<close>

section \<open>What is collected\<close>

definition found_keys :: "(int \<times> resource) list \<Rightarrow> (int \<times> int) list" where
  "found_keys gs = map (\<lambda>(sid, r). (sid, rs_vmid r)) gs"

lemma collect_guest_distinct: "distinct (found_keys gs) \<Longrightarrow> distinct (found_keys (collect_guest sid r gs))"
  by (auto simp: collect_guest_def found_keys_def case_prod_beta)

lemma collect_fold_distinct: "distinct (found_keys gs) \<Longrightarrow> distinct (found_keys (fold (collect_guest sid) rs gs))"
  by (induction rs arbitrary: gs) (auto intro: collect_guest_distinct)

lemma collect_server_distinct:
  assumes "run_state (collect_server E clusters sv acc) p = (acc', p')" "distinct (found_keys (co_guests acc))"
  shows "distinct (found_keys (co_guests acc'))"
  using assms by (auto simp: collect_server_def Let_def collect_fold_distinct split: option.splits prod.splits if_splits)

lemma collect_all_distinct:
  "run_state (collect_all E clusters svs acc) p = (acc', p') \<Longrightarrow> distinct (found_keys (co_guests acc)) \<Longrightarrow>
     distinct (found_keys (co_guests acc'))"
proof (induction svs arbitrary: acc p)
  case (Cons sv svs)
  obtain acc1 p1 where 1: "run_state (collect_server E clusters sv acc) p = (acc1, p1)" by fastforce
  show ?case using Cons.IH [of acc1 p1] collect_server_distinct [OF 1 Cons.prems(2)] Cons.prems(1) by (simp add: 1)
qed simp

lemma fetch_guests_distinct:
  assumes "on_proxmox (fetch_guests E svs) s = ((clusters, now, found), s1)"
  shows "distinct (found_keys (co_guests found))"
  using assms collect_all_distinct [of E _ svs "\<lparr>co_guests = [], co_clients = []\<rparr>"]
  by (auto simp: fetch_guests_def on_proxmox_def found_keys_def Let_def split: prod.splits)

section \<open>Writing it into the table\<close>

definition table_ok :: "'w panel \<Rightarrow> bool" where
  "table_ok s \<longleftrightarrow> unique_on guest_key (pn_guests s) \<and> unique_on gr_id (pn_guests s) \<and>
     list_all (\<lambda>g. gr_id g < pn_next_guest s) (pn_guests s)"

lemma at_key_eq: "at_key sid vmid = (\<lambda>g. guest_key g = (sid, vmid))"
  by (auto simp: at_key_def guest_key_def fun_eq_iff)

lemma refresh_key [simp]:
  "guest_key (refresh_guest now r a g) = guest_key g" "gr_id (refresh_guest now r a g) = gr_id g"
  "gr_owner_id (refresh_guest now r a g) = gr_owner_id g" "gr_deleted_at (refresh_guest now r a g) = None"
  by (simp_all add: refresh_guest_def guest_key_def)

lemma synced_key [simp]:
  "guest_key (synced_guest i now sid r a) = (sid, rs_vmid r)" "gr_id (synced_guest i now sid r a) = i"
  "gr_owner_id (synced_guest i now sid r a) = None" "gr_deleted_at (synced_guest i now sid r a) = None"
  by (simp_all add: synced_guest_def guest_key_def)

lemma sync_address_frame:
  "sync_address E monotonic clients index sid r (w, s) = (a, w', s') \<Longrightarrow>
     pn_guests s' = pn_guests s \<and> pn_next_guest s' = pn_next_guest s \<and> pn_ipam s' = pn_ipam s"
  by (auto simp: sync_address_def Let_def on_proxmox_def split: if_splits option.splits prod.splits)

text \<open>What the row of a reported guest shows.\<close>

definition shows_resource :: "resource \<Rightarrow> guest_row \<Rightarrow> bool" where
  "shows_resource r g \<longleftrightarrow> gr_deleted_at g = None \<and> gr_status g = rs_status r \<and> gc_name g = resource_name r \<and>
     gc_node g = rs_node r \<and> gc_vm_type g = kind_name (rs_kind r) \<and> gc_cores g = rs_cpus r \<and>
     gc_memory g = bytes_to_mb (rs_maxmem r) \<and> gc_disk_size g = bytes_to_gb (rs_maxdisk r)"

definition row_at :: "int \<times> int \<Rightarrow> 'w panel \<Rightarrow> guest_row option" where
  "row_at k s = find (\<lambda>g. guest_key g = k) (pn_guests s)"

definition owner_at :: "int \<times> int \<Rightarrow> 'w panel \<Rightarrow> int option" where
  "owner_at k s = (case row_at k s of None \<Rightarrow> None | Some g \<Rightarrow> gr_owner_id g)"

lemma upsert_guest_row:
  assumes "upsert_guest now sid r a (rep, s) = (rep', s')" "table_ok s"
  shows "table_ok s' \<and> pn_ipam s' = pn_ipam s \<and> (\<forall>k. k \<noteq> (sid, rs_vmid r) \<longrightarrow> row_at k s' = row_at k s) \<and>
    (\<exists>g. row_at (sid, rs_vmid r) s' = Some g \<and> shows_resource r g \<and> gr_owner_id g = owner_at (sid, rs_vmid r) s)"
proof -
  let ?k = "(sid, rs_vmid r)"
  consider (old) g where "find (\<lambda>g. guest_key g = ?k) (pn_guests s) = Some g"
      "s' = s\<lparr>pn_guests := update_first (\<lambda>g. guest_key g = ?k) (refresh_guest now r a) (pn_guests s)\<rparr>"
    | (new) "find (\<lambda>g. guest_key g = ?k) (pn_guests s) = None"
      "s' = add_guest (synced_guest (pn_next_guest s) now sid r a) s"
    using assms(1) by (auto simp: upsert_guest_def Let_def at_key_eq split: option.splits)
  then show ?thesis
  proof cases
    case old
    have ids: "list_all (\<lambda>g. gr_id g < n) (update_first P (refresh_guest now r a) rows) = list_all (\<lambda>g. gr_id g < n) rows"
      for n P rows by (induction rows) auto
    have "table_ok s'" using assms(2) by (simp add: old(2) table_ok_def ids row_simps)
    moreover have "\<forall>k. k \<noteq> ?k \<longrightarrow> row_at k s' = row_at k s" by (simp add: old(2) row_at_def find_update_keyed)
    moreover have "row_at ?k s' = Some (refresh_guest now r a g)"
      by (simp add: old row_at_def find_update_keyed)
    moreover have "shows_resource r (refresh_guest now r a g)" by (simp add: shows_resource_def refresh_guest_def)
    moreover have "gr_owner_id (refresh_guest now r a g) = owner_at ?k s" by (simp add: owner_at_def row_at_def old(1))
    ultimately show ?thesis by (simp add: old(2))
  next
    case new
    have ids: "find (\<lambda>g. gr_id g = pn_next_guest s) (pn_guests s) = None"
      using assms(2) by (auto simp: table_ok_def list_all_iff find_None_iff)
    have "table_ok s'" using assms(2) new(1) ids
      by (auto simp: new(2) add_guest_def table_ok_def row_simps list_all_iff)
    moreover have "\<forall>k. k \<noteq> ?k \<longrightarrow> row_at k s' = row_at k s"
      by (auto simp: new(2) add_guest_def row_at_def row_simps split: option.split)
    moreover have "row_at ?k s' = Some (synced_guest (pn_next_guest s) now sid r a)"
      by (simp add: new add_guest_def row_at_def row_simps)
    moreover have "shows_resource r (synced_guest (pn_next_guest s) now sid r a)"
      by (simp add: shows_resource_def synced_guest_def)
    ultimately show ?thesis using new(1) by (simp add: new(2) add_guest_def owner_at_def row_at_def)
  qed
qed

lemma upsert_all_rows:
  "upsert_all E monotonic clients index now gs (rep, w, s) = (rep', w', s') \<Longrightarrow> table_ok s \<Longrightarrow>
     distinct (found_keys gs) \<Longrightarrow>
     table_ok s' \<and> pn_ipam s' = pn_ipam s \<and> (\<forall>k. k \<notin> set (found_keys gs) \<longrightarrow> row_at k s' = row_at k s) \<and>
     (\<forall>(sid, r) \<in> set gs. \<exists>g. row_at (sid, rs_vmid r) s' = Some g \<and> shows_resource r g \<and>
        gr_owner_id g = owner_at (sid, rs_vmid r) s)"
proof (induction gs arbitrary: rep w s)
  case (Cons x gs)
  obtain sid r where x: "x = (sid, r)" by fastforce
  obtain a w1 s1 where 1: "sync_address E monotonic clients index sid r (w, s) = (a, w1, s1)" by (metis prod_cases3)
  obtain rep2 s2 where 2: "upsert_guest now sid r a (rep, s1) = (rep2, s2)" by fastforce
  have frame: "pn_guests s1 = pn_guests s" "pn_next_guest s1 = pn_next_guest s" "pn_ipam s1 = pn_ipam s"
    using sync_address_frame [OF 1] by simp_all
  have "table_ok s1" using Cons.prems(2) frame by (simp add: table_ok_def)
  note up1 = upsert_guest_row [OF 2 this]
  then have up: "table_ok s2" "pn_ipam s2 = pn_ipam s1" "\<And>k. k \<noteq> (sid, rs_vmid r) \<Longrightarrow> row_at k s2 = row_at k s1" by blast+
  have key: "(sid, rs_vmid r) \<notin> set (found_keys gs)" using Cons.prems(3) by (simp add: found_keys_def x)
  have at: "row_at k s1 = row_at k s" "owner_at k s1 = owner_at k s" for k by (simp_all add: row_at_def owner_at_def frame)
  have IH: "table_ok s' \<and> pn_ipam s' = pn_ipam s2 \<and> (\<forall>k. k \<notin> set (found_keys gs) \<longrightarrow> row_at k s' = row_at k s2) \<and>
     (\<forall>(sid, r) \<in> set gs. \<exists>g. row_at (sid, rs_vmid r) s' = Some g \<and> shows_resource r g \<and>
        gr_owner_id g = owner_at (sid, rs_vmid r) s2)"
    using Cons.IH [OF _ up(1)] Cons.prems by (simp add: x 1 2 found_keys_def)
  have "owner_at (sid', rs_vmid r') s2 = owner_at (sid', rs_vmid r') s" if "(sid', r') \<in> set gs" for sid' r'
  proof -
    have "(sid', rs_vmid r') \<noteq> (sid, rs_vmid r)" using that key by (force simp: found_keys_def)
    then show ?thesis using up(3) at by (simp add: owner_at_def)
  qed
  moreover have "\<exists>g. row_at (sid, rs_vmid r) s' = Some g \<and> shows_resource r g \<and> gr_owner_id g = owner_at (sid, rs_vmid r) s"
    using up1 IH key at by simp
  ultimately show ?case using IH up(2,3) frame(3) at by (fastforce simp: x found_keys_def)
qed (simp add: found_keys_def)

section \<open>Releasing the addresses of a guest\<close>

definition holds :: "int \<Rightarrow> int \<Rightarrow> ipam_allocation \<Rightarrow> bool" where
  "holds sid vmid a \<longleftrightarrow> a_server_id a = Some sid \<and> a_vmid a = Some vmid \<and> is_held a"

lemma release_vmid_frees_guest:
  assumes "ipam_inv st"
  shows "ipam_inv (snd (release_ip_by_vmid sid vmid who why st)) \<and>
    set (allocations (snd (release_ip_by_vmid sid vmid who why st))) \<subseteq> {a \<in> set (allocations st). \<not> holds sid vmid a}"
proof -
  let ?rows = "find_allocations_by_resource sid vmid st"
  define rows where "rows = (if ?rows = [] then filter (\<lambda>a. a_resource_id a = Some vmid \<and> a_server_id a = None \<and> is_held a) (allocations st) else ?rows)"
  have sub: "set rows \<subseteq> set (allocations st)" by (auto simp: rows_def find_allocations_by_resource_def)
  have held: "{a \<in> set (allocations st). holds sid vmid a} = set ?rows"
    by (auto simp: find_allocations_by_resource_def holds_def)
  have inj: "inj_on a_ip_address (set (allocations st))" and dist: "distinct (allocations st)"
    using assms by (simp_all add: ipam_inv_def unique_on_def distinct_map)
  have "distinct rows" using dist by (auto simp: rows_def find_allocations_by_resource_def)
  then have "distinct (map a_ip_address rows)" using inj_on_subset [OF inj sub] by (simp add: distinct_map)
  then obtain st' where st': "release_loop who why (map a_ip_address rows) [] [] st = ((map a_ip_address rows, []), st')"
    "allocations st' = filter (\<lambda>b. a_ip_address b \<notin> set (map a_ip_address rows)) (allocations st)"
    using release_loop_all [OF assms, of "map a_ip_address rows" who why "[]" "[]"] sub by auto
  have keeps: "ipam_inv (snd (release_ip_by_vmid sid vmid who why st))"
    using keeps_release_vmid [of sid vmid who why st, OF surjective_pairing] assms by (simp add: keeps_def)
  have "snd (release_ip_by_vmid sid vmid who why st) = (if rows = [] then st else st')"
    using st'(1) by (simp add: release_ip_by_vmid_def rows_def [symmetric])
  moreover have "set (allocations st') \<subseteq> {a \<in> set (allocations st). a \<notin> set rows}"
    using st'(2) by auto
  ultimately show ?thesis using keeps held by (auto simp: rows_def split: if_splits)
qed

lemma ipam_inv_view [simp]: "ipam_inv (ipam_view s) = ipam_inv (pn_ipam s)"
  by (simp add: ipam_inv_def ipam_view_def)

lemma view_allocations [simp]: "allocations (ipam_view s) = allocations (pn_ipam s)"
  by (simp add: ipam_view_def)

lemma on_ipam_ipam: "pn_ipam (snd (on_ipam f s)) = snd (f (ipam_view s))"
  by (simp add: on_ipam_def split: prod.split)

section \<open>Retiring what is gone\<close>

definition retired :: "int \<Rightarrow> guest_row \<Rightarrow> guest_row" where
  "retired now g = g\<lparr>gr_deleted_at := Some now\<rparr>"

lemma retired_fields [simp]:
  "guest_key (retired now g) = guest_key g" "gr_id (retired now g) = gr_id g"
  "gr_owner_id (retired now g) = gr_owner_id g" "gr_server_id (retired now g) = gr_server_id g"
  "gr_deleted_at (retired now g) = Some now"
  by (simp_all add: retired_def guest_key_def)

lemma retire_guest_rows:
  assumes "table_ok s"
  shows "pn_guests (retire_guest now g s) = map (\<lambda>x. if gr_id x = gr_id g then retired now x else x) (pn_guests s)"
    "pn_next_guest (retire_guest now g s) = pn_next_guest s"
  using assms update_first_map [of gr_id "pn_guests s" "gr_id g" "retired now"]
  by (simp_all add: retire_guest_def Let_def table_ok_def retired_def [abs_def])

lemma table_ok_map:
  assumes "table_ok s" "pn_guests t = map f (pn_guests s)" "pn_next_guest t = pn_next_guest s"
    "\<And>x. guest_key (f x) = guest_key x" "\<And>x. gr_id (f x) = gr_id x"
  shows "table_ok t"
  using assms by (simp add: table_ok_def unique_on_def comp_def list_all_iff)

definition retire_of :: "int \<Rightarrow> (int \<times> int) set \<Rightarrow> guest_row list \<Rightarrow> guest_row \<Rightarrow> guest_row" where
  "retire_of now seen gs x = (if \<exists>g \<in> set gs. gr_id g = gr_id x \<and> guest_key g \<notin> seen then retired now x else x)"

lemma retire_of_fields [simp]:
  "guest_key (retire_of now seen gs x) = guest_key x" "gr_id (retire_of now seen gs x) = gr_id x"
  "gr_owner_id (retire_of now seen gs x) = gr_owner_id x" "gr_server_id (retire_of now seen gs x) = gr_server_id x"
  by (simp_all add: retire_of_def)

lemma retire_missing_rows:
  "retire_missing now seen gs (rep, s) = (rep', s') \<Longrightarrow> table_ok s \<Longrightarrow>
     pn_guests s' = map (retire_of now seen gs) (pn_guests s) \<and> pn_next_guest s' = pn_next_guest s"
proof (induction gs arbitrary: rep s)
  case (Cons g gs)
  show ?case
  proof (cases "guest_key g \<in> seen")
    case True
    then have "retire_missing now seen gs (rep, s) = (rep', s')" using Cons.prems by (simp add: guest_key_def)
    moreover have "retire_of now seen (g # gs) = retire_of now seen gs" using True by (auto simp: retire_of_def fun_eq_iff)
    ultimately show ?thesis using Cons.IH Cons.prems(2) by simp
  next
    case False
    obtain rep1 where 1: "retire_missing now seen gs (rep1, retire_guest now g s) = (rep', s')"
      using False Cons.prems by (auto simp: guest_key_def)
    note rows = retire_guest_rows [OF Cons.prems(2), of now g]
    have "table_ok (retire_guest now g s)" by (rule table_ok_map [OF Cons.prems(2) rows]) auto
    from Cons.IH [OF 1 this] show ?thesis using False
      by (simp add: rows retire_of_def) (auto simp: retired_def)
  qed
qed (simp add: retire_of_def [abs_def])

lemma retire_missing_ipam:
  "retire_missing now seen gs (rep, s) = (rep', s') \<Longrightarrow> ipam_inv (pn_ipam s) \<Longrightarrow>
     ipam_inv (pn_ipam s') \<and> set (allocations (pn_ipam s')) \<subseteq> {a \<in> set (allocations (pn_ipam s)).
       \<forall>g \<in> set gs. guest_key g \<notin> seen \<longrightarrow> \<not> holds (gr_server_id g) (gr_vmid g) a}"
proof (induction gs arbitrary: rep s)
  case (Cons g gs)
  show ?case
  proof (cases "guest_key g \<in> seen")
    case True
    then show ?thesis using Cons by (auto simp: guest_key_def)
  next
    case False
    obtain rep1 where 1: "retire_missing now seen gs (rep1, retire_guest now g s) = (rep', s')"
      using False Cons.prems by (auto simp: guest_key_def)
    have "ipam_inv (pn_ipam (retire_guest now g s)) \<and> set (allocations (pn_ipam (retire_guest now g s))) \<subseteq>
        {a \<in> set (allocations (pn_ipam s)). \<not> holds (gr_server_id g) (gr_vmid g) a}"
      using release_vmid_frees_guest [of "ipam_view (s\<lparr>pn_guests := update_first (\<lambda>x. gr_id x = gr_id g)
          (\<lambda>x. x\<lparr>gr_deleted_at := Some now\<rparr>) (pn_guests s)\<rparr>)"] Cons.prems(2)
      by (simp add: retire_guest_def Let_def on_ipam_ipam)
    with Cons.IH [OF 1] show ?thesis by auto
  qed
qed simp

section \<open>The synchronisation\<close>

lemma row_at_map:
  assumes "pn_guests t = map f (pn_guests s)" "\<And>x. guest_key (f x) = guest_key x"
  shows "row_at k t = map_option f (row_at k s)"
proof -
  have "find (\<lambda>g. guest_key g = k) (map f rows) = map_option f (find (\<lambda>g. guest_key g = k) rows)" for rows
    using assms(2) by (induction rows) auto
  then show ?thesis by (simp add: row_at_def assms(1))
qed

lemma sync_phases:
  assumes "sync_vm_cache E monotonic (w, s) = (rep, w', t)"
    "filter (\<lambda>sv. sv_is_online sv = Some True) (pn_servers s) = servers" "servers \<noteq> []"
    "on_proxmox (fetch_guests E (map server.truncate servers)) s = ((clusters, now, found), s1)"
  obtains rep2 w2 s2 where
    "upsert_all E monotonic (co_clients found) (ipam_by_server_vmid s) now (co_guests found) (no_report, w, s1) = (rep2, w2, s2)"
    "retire_missing now (seen_guests (co_guests found)) (filter (\<lambda>g. gr_deleted_at g = None \<and>
       gr_server_id g \<in> synced_server_ids servers clusters) (pn_guests s2)) (rep2, s2) = (rep, t)"
  using assms by (auto simp: sync_vm_cache_def Let_def split: prod.splits)

lemma sync_rows:
  fixes s t :: "'w panel"
  assumes "sync_vm_cache E monotonic (w, s) = (rep, w', t)"
    "filter (\<lambda>sv. sv_is_online sv = Some True) (pn_servers s) = servers" "servers \<noteq> []"
    "on_proxmox (fetch_guests E (map server.truncate servers)) s = ((clusters, now, found), s1)"
    and ok: "table_ok s"
  obtains s2 :: "'w panel" where "table_ok s2" "pn_ipam s2 = pn_ipam s"
    "\<forall>k. k \<notin> seen_guests (co_guests found) \<longrightarrow> row_at k s2 = row_at k s"
    "\<forall>sid r. (sid, r) \<in> set (co_guests found) \<longrightarrow> (\<exists>g. row_at (sid, rs_vmid r) s2 = Some g \<and> shows_resource r g \<and>
       gr_owner_id g = owner_at (sid, rs_vmid r) s)"
    "pn_guests t = map (\<lambda>x. if gr_deleted_at x = None \<and> gr_server_id x \<in> synced_server_ids servers clusters \<and>
       guest_key x \<notin> seen_guests (co_guests found) then retired now x else x) (pn_guests s2)"
    "pn_next_guest t = pn_next_guest s2"
    "ipam_inv (pn_ipam s) \<longrightarrow> ipam_inv (pn_ipam t) \<and> set (allocations (pn_ipam t)) \<subseteq>
       {a \<in> set (allocations (pn_ipam s)). \<forall>g \<in> set (pn_guests s2). gr_deleted_at g = None \<and>
         gr_server_id g \<in> synced_server_ids servers clusters \<and> guest_key g \<notin> seen_guests (co_guests found) \<longrightarrow>
         \<not> holds (gr_server_id g) (gr_vmid g) a}"
proof -
  let ?seen = "seen_guests (co_guests found)" and ?ids = "synced_server_ids servers clusters"
  obtain rep2 w2 s2 where
    up: "upsert_all E monotonic (co_clients found) (ipam_by_server_vmid s) now (co_guests found) (no_report, w, s1) = (rep2, w2, s2)"
    and gone: "retire_missing now ?seen (filter (\<lambda>g. gr_deleted_at g = None \<and> gr_server_id g \<in> ?ids) (pn_guests s2)) (rep2, s2) = (rep, t)"
    using sync_phases [OF assms(1-4)] by blast
  have s1: "pn_guests s1 = pn_guests s" "pn_next_guest s1 = pn_next_guest s" "pn_ipam s1 = pn_ipam s"
    using assms(4) by (auto simp: on_proxmox_def split: prod.splits)
  have "table_ok s1" using ok s1 by (simp add: table_ok_def)
  note rows = upsert_all_rows [OF up this fetch_guests_distinct [OF assms(4)]]
  have at: "row_at k s1 = row_at k s" "owner_at k s1 = owner_at k s" for k by (simp_all add: row_at_def owner_at_def s1)
  have ok2: "table_ok s2" using rows by blast
  then have "inj_on gr_id (set (pn_guests s2))" by (simp add: table_ok_def unique_on_def distinct_map)
  then have inj: "g = x" if "g \<in> set (pn_guests s2)" "x \<in> set (pn_guests s2)" "gr_id g = gr_id x" for g x
    using that by (blast dest: inj_onD)
  have "pn_guests t = map (\<lambda>x. if gr_deleted_at x = None \<and> gr_server_id x \<in> ?ids \<and> guest_key x \<notin> ?seen then retired now x else x) (pn_guests s2)"
    using retire_missing_rows [OF gone ok2] by (auto simp: retire_of_def dest: inj)
  moreover have "pn_next_guest t = pn_next_guest s2" using retire_missing_rows [OF gone ok2] by simp
  moreover have "row_at k s2 = row_at k s" if "k \<notin> ?seen" for k
  proof -
    have "k \<notin> set (found_keys (co_guests found))" using that by (simp add: found_keys_def seen_guests_def)
    then have "row_at k s2 = row_at k s1" using rows by blast
    then show ?thesis by (simp add: at)
  qed
  moreover have "\<exists>g. row_at (sid, rs_vmid r) s2 = Some g \<and> shows_resource r g \<and> gr_owner_id g = owner_at (sid, rs_vmid r) s"
    if "(sid, r) \<in> set (co_guests found)" for sid r
    using rows that at by fastforce
  moreover have "pn_ipam s2 = pn_ipam s" using rows s1(3) by simp
  ultimately show thesis using ok2 retire_missing_ipam [OF gone]
    by (intro that [of s2]) auto
qed

text \<open>C12. A synchronisation that reached its servers leaves the table as they report it: a reported guest has an active
  record with the reported name, node, kind, state and sizes; a guest of a synchronised server that was not reported
  has none and holds no address; the other records, and every owner, are unchanged.\<close>

theorem sync_tracks_servers:
  fixes s t :: "'w panel"
  assumes "sync_vm_cache E monotonic (w, s) = (rep, w', t)"
    and "filter (\<lambda>sv. sv_is_online sv = Some True) (pn_servers s) = servers" "servers \<noteq> []"
    and "on_proxmox (fetch_guests E (map server.truncate servers)) s = ((clusters, now, found), s1)"
    and "table_ok s"
  shows "table_ok t \<and>
    (\<forall>(sid, r) \<in> set (co_guests found). \<exists>g. row_at (sid, rs_vmid r) t = Some g \<and> shows_resource r g) \<and>
    (\<forall>g \<in> set (pn_guests t). gr_server_id g \<in> synced_server_ids servers clusters \<and>
       guest_key g \<notin> seen_guests (co_guests found) \<longrightarrow> gr_deleted_at g \<noteq> None) \<and>
    (\<forall>k. k \<notin> seen_guests (co_guests found) \<and> fst k \<notin> synced_server_ids servers clusters \<longrightarrow> row_at k t = row_at k s) \<and>
    (\<forall>k. owner_at k t = owner_at k s)"
proof -
  let ?seen = "seen_guests (co_guests found)" and ?ids = "synced_server_ids servers clusters"
  let ?f = "\<lambda>x. if gr_deleted_at x = None \<and> gr_server_id x \<in> ?ids \<and> guest_key x \<notin> ?seen then retired now x else x"
  obtain s2 :: "'w panel" where s2: "table_ok s2" "\<forall>k. k \<notin> ?seen \<longrightarrow> row_at k s2 = row_at k s"
      "\<forall>sid r. (sid, r) \<in> set (co_guests found) \<longrightarrow> (\<exists>g. row_at (sid, rs_vmid r) s2 = Some g \<and> shows_resource r g \<and>
         gr_owner_id g = owner_at (sid, rs_vmid r) s)"
      "pn_guests t = map ?f (pn_guests s2)" "pn_next_guest t = pn_next_guest s2"
    by (rule sync_rows [OF assms], rule that; assumption)
  have row: "row_at k t = map_option ?f (row_at k s2)" for k by (rule row_at_map [OF s2(4)]) simp
  have key: "row_at k s2 = Some g \<Longrightarrow> guest_key g = k" for k g by (auto simp: row_at_def dest: find_SomeD)
  have seen: "k \<in> ?seen \<Longrightarrow> \<exists>r. (fst k, r) \<in> set (co_guests found) \<and> rs_vmid r = snd k" for k
    by (auto simp: seen_guests_def)
  have "owner_at k s2 = owner_at k s" for k
  proof (cases "k \<in> ?seen")
    case True
    then obtain r where r: "(fst k, r) \<in> set (co_guests found)" "rs_vmid r = snd k" using seen by blast
    obtain g where "row_at k s2 = Some g" "gr_owner_id g = owner_at k s" using s2(3) r by fastforce
    then show ?thesis by (simp add: owner_at_def [of k s2])
  next
    case False
    then show ?thesis by (simp add: owner_at_def s2(2))
  qed
  moreover have "owner_at k t = owner_at k s2" for k
    by (simp add: owner_at_def row split: option.split)
  moreover have "\<exists>g. row_at (sid, rs_vmid r) t = Some g \<and> shows_resource r g" if m: "(sid, r) \<in> set (co_guests found)" for sid r
  proof -
    obtain g where g: "row_at (sid, rs_vmid r) s2 = Some g" "shows_resource r g" using s2(3) m by blast
    have "(sid, rs_vmid r) \<in> ?seen" using m by (force simp: seen_guests_def)
    then show ?thesis using g key [OF g(1)] by (simp add: row)
  qed
  moreover have "row_at k t = row_at k s" if "k \<notin> ?seen" "fst k \<notin> ?ids" for k
  proof -
    have "map_option ?f (row_at k s2) = row_at k s2"
      using that(2) key [of k] by (cases "row_at k s2") (auto simp: guest_key_def)
    then show ?thesis by (simp add: row s2(2) that(1))
  qed
  moreover have "table_ok t" by (rule table_ok_map [OF s2(1,4,5)]) auto
  moreover have "gr_deleted_at g \<noteq> None" if "g \<in> set (pn_guests t)" "gr_server_id g \<in> ?ids" "guest_key g \<notin> ?seen" for g
    using that by (auto simp: s2(4) split: if_splits)
  ultimately show ?thesis by auto
qed

section \<open>Servers that do not answer\<close>

definition silent :: "'w proxmox_api \<Rightarrow> bool" where
  "silent E \<longleftrightarrow> (\<forall>a rq w. isl (fst (api_call E a rq w)))"

lemma silent_connected:
  assumes "silent E"
  shows "fst (run_state (connected_client E sv) p) = None"
proof -
  have call: "\<exists>e. fst (api_call E a rq w) = Inl e" for a rq w
    using assms by (auto simp: silent_def isl_def)
  have "fst (run_state (is_connected E c) p) = False" for c p
  proof (cases "proxmox c")
    case (Some h)
    obtain e where "fst (api_call E h version_request (px_world p)) = Inl e" using call by blast
    then show ?thesis by (simp add: is_connected_def Some)
  qed (simp add: is_connected_def)
  then show ?thesis by (auto simp: connected_client_def split: prod.split) (metis fst_conv)
qed

lemma silent_nodes:
  assumes "silent E"
  shows "fst (run_state (for_each (server_nodes E) svs) p) = map (\<lambda>_. {}) svs"
proof (induction svs arbitrary: p)
  case (Cons sv svs)
  have "fst (run_state (server_nodes E sv) p) = {}" for p
    using silent_connected [OF assms, of sv p] by (auto simp: server_nodes_def split: prod.split option.split)
  with Cons show ?case by (simp add: case_prod_beta)
qed simp

lemma silent_clusters: "cluster_map (zip ids (map (\<lambda>_. {}) svs)) = []"
proof -
  have "fold (\<lambda>(sid, nodes) g. if 1 < card nodes then AList.update nodes ((case map_of g nodes of None \<Rightarrow> [] | Some l \<Rightarrow> l) @ [sid]) g else g)
      (zip ids (map (\<lambda>_. {}) svs)) g = g" for ids :: "int list" and svs :: "'a list" and g :: "(string set, int list) pydict"
    by (induction ids svs rule: list_induct2') auto
  then show ?thesis by (simp add: cluster_map_def node_groups_def)
qed

lemma silent_collect:
  assumes "silent E"
  shows "fst (run_state (collect_all E clusters svs acc) p) = acc"
proof (induction svs arbitrary: p)
  case (Cons sv svs)
  have "fst (run_state (collect_server E clusters sv acc) p) = acc" for p
    using silent_connected [OF assms, of sv p] by (auto simp: collect_server_def split: prod.split option.split)
  with Cons show ?case by (simp add: case_prod_beta)
qed simp

lemma silent_fetch:
  assumes "silent E" "on_proxmox (fetch_guests E svs) s = ((clusters, now, found), s1)"
  shows "clusters = [] \<and> co_guests found = []"
proof -
  obtain nodes p1 where 1: "run_state (for_each (server_nodes E) svs) (pn_px s) = (nodes, p1)" by fastforce
  have "nodes = map (\<lambda>_. {}) svs" using silent_nodes [OF assms(1), of svs "pn_px s"] by (simp add: 1)
  moreover obtain all p2 where 2: "run_state (collect_all E (cluster_map (zip (map sv_id svs) nodes)) svs
      \<lparr>co_guests = [], co_clients = []\<rparr>) p1 = (all, p2)" by fastforce
  moreover have "all = \<lparr>co_guests = [], co_clients = []\<rparr>"
    using silent_collect [OF assms(1)] 2 by (metis fst_conv)
  ultimately show ?thesis using assms(2) silent_clusters
    by (auto simp: on_proxmox_def fetch_guests_def 1 Let_def split: prod.splits)
qed

text \<open>C16. When no server answers, each active guest of a server marked as online is deleted from the cache, and the
  addresses it held are released.\<close>

theorem outage_forgets_guests:
  fixes s t :: "'w panel"
  assumes "sync_vm_cache E monotonic (w, s) = (rep, w', t)" "silent E" "table_ok s" "ipam_inv (pn_ipam s)"
    and "sv \<in> set (pn_servers s)" "sv_is_online sv = Some True"
  shows "get_vm_instance (sv_id sv) vmid t = None \<and>
    (get_vm_instance (sv_id sv) vmid s \<noteq> None \<longrightarrow> \<not> list_ex (holds (sv_id sv) vmid) (allocations (pn_ipam t)))"
proof -
  define servers where "servers = filter (\<lambda>sv. sv_is_online sv = Some True) (pn_servers s)"
  obtain clusters now found s1 where f: "on_proxmox (fetch_guests E (map server.truncate servers)) s = ((clusters, now, found), s1)"
    by (metis prod_cases3 surj_pair)
  note none = silent_fetch [OF assms(2) f]
  have servers: "filter (\<lambda>sv. sv_is_online sv = Some True) (pn_servers s) = servers" "servers \<noteq> []"
    using assms(5,6) by (auto simp: servers_def filter_empty_conv)
  have seen: "seen_guests (co_guests found) = {}" by (simp add: none seen_guests_def)
  have id: "sv_id sv \<in> synced_server_ids servers clusters" using assms(5,6) by (simp add: synced_server_ids_def servers_def)
  let ?ids = "synced_server_ids servers clusters"
  obtain s2 :: "'w panel" where s2: "table_ok s2" "\<forall>k. row_at k s2 = row_at k s"
      "pn_guests t = map (\<lambda>x. if gr_deleted_at x = None \<and> gr_server_id x \<in> ?ids then retired now x else x) (pn_guests s2)"
      "set (allocations (pn_ipam t)) \<subseteq> {a \<in> set (allocations (pn_ipam s)). \<forall>g \<in> set (pn_guests s2). gr_deleted_at g = None \<and>
         gr_server_id g \<in> ?ids \<longrightarrow> \<not> holds (gr_server_id g) (gr_vmid g) a}"
    by (rule sync_rows [OF assms(1) servers f assms(3)], rule that) (auto simp: seen assms(4))
  have "find (active_at (sv_id sv) vmid) (pn_guests t) = None"
    using id by (auto simp: s2(3) find_None_iff active_at_def split: if_splits)
  moreover have "\<not> holds (sv_id sv) vmid a"
    if active: "get_vm_instance (sv_id sv) vmid s \<noteq> None" and a: "a \<in> set (allocations (pn_ipam t))" for a
  proof -
    obtain g where g: "g \<in> set (pn_guests s)" "active_at (sv_id sv) vmid g"
      using active find_SomeD by (fastforce simp: get_vm_instance_def)
    have "row_at (guest_key g) s = Some g" using assms(3) g(1) unique_find by (auto simp: row_at_def table_ok_def)
    then have "row_at (guest_key g) s2 = Some g" using s2(2) by metis
    then have "g \<in> set (pn_guests s2)" by (auto simp: row_at_def dest: find_SomeD)
    moreover have "\<forall>g \<in> set (pn_guests s2). gr_deleted_at g = None \<and> gr_server_id g \<in> ?ids \<longrightarrow>
        \<not> holds (gr_server_id g) (gr_vmid g) a" using s2(4) a by blast
    ultimately show ?thesis using g(2) id by (metis active_at_def)
  qed
  ultimately show ?thesis by (auto simp: get_vm_instance_def list_ex_iff)
qed

end
