(* ===== verification/GuestProps.thy ===== *)
theory GuestProps
  imports SyncProps
begin

text \<open>
  More facts about guests: deleting one, the quotas of their owners, the fallback for a free VMID, the polling of
  tasks; and the concrete panel the theorems on guests are tried on.
\<close>

section \<open>Deleting a guest\<close>

lemma touches_other:
  assumes "touches sid vmid s t" "k \<noteq> (sid, vmid)"
  shows "row_at k t = row_at k s"
proof -
  have "find (\<lambda>g. guest_key g = k) rows' = find (\<lambda>g. guest_key g = k) rows"
    if "list_all2 (touch sid vmid) rows rows'" for rows rows'
    using that assms(2)
    by (induction rule: list_all2_induct) (auto simp: touch_def same_guest_def guest_key_def active_at_def)
  then show ?thesis using assms(1) by (simp add: touches_def row_at_def)
qed

lemma touches_unique:
  assumes "touches sid vmid s t" "unique_on guest_key (pn_guests s)"
  shows "unique_on guest_key (pn_guests t)"
proof -
  have "map guest_key (pn_guests t) = map guest_key (pn_guests s)"
    using assms(1) unfolding touches_def
    by (induction rule: list_all2_induct) (auto simp: touch_def same_guest_def guest_key_def)
  then show ?thesis using assms(2) by (simp add: unique_on_def)
qed

lemma no_active_after:
  assumes "unique_on guest_key rows" "\<And>g. guest_key (f g) = guest_key g" "\<And>g. gr_deleted_at (f g) \<noteq> None"
  shows "find (active_at sid vmid) (update_first (active_at sid vmid) f rows) = None"
  using assms(1)
proof (induction rows)
  case (Cons g rows)
  have "\<not> active_at sid vmid (f g)" using assms(3) by (auto simp: active_at_def)
  moreover have "find (active_at sid vmid) rows = None" if "active_at sid vmid g"
    using that Cons.prems by (auto simp: find_None_iff unique_on_def guest_key_def active_at_def image_iff)
  ultimately show ?case using Cons by (auto simp: unique_on_def)
qed simp

lemma forget_guest_forgets:
  assumes "unique_on guest_key (pn_guests s)" "ipam_inv (pn_ipam s)"
  shows "get_vm_instance sid vmid (forget_guest E u sid vmid reason s) = None \<and>
    \<not> list_ex (holds sid vmid) (allocations (pn_ipam (forget_guest E u sid vmid reason s))) \<and>
    (sid, vmid) \<notin> set (pn_installed_apps (forget_guest E u sid vmid reason s))"
proof -
  let ?s1 = "soft_delete_vm_instance E sid vmid s"
  have ipam: "ipam_inv (pn_ipam ?s1)"
    using release_vmid_frees_guest [of "ipam_view s"] assms(2)
    by (simp add: soft_delete_vm_instance_def Let_def on_ipam_ipam split: option.split)
  have "find (active_at sid vmid) (pn_guests ?s1) = None"
    using no_active_after [OF assms(1), of "\<lambda>g. g\<lparr>gr_deleted_at := Some (panel_now E s)\<rparr>" sid vmid]
    by (simp add: soft_delete_vm_instance_def Let_def get_vm_instance_def guest_key_def split: option.split)
  then show ?thesis
    using release_vmid_frees_guest [of "ipam_view ?s1" sid vmid "Some (username u)" "Some reason"] ipam
    by (auto simp: forget_guest_def Let_def get_vm_instance_def cleanup_installed_apps_def on_ipam_ipam list_ex_iff)
qed

definition forgotten :: "int \<Rightarrow> int \<Rightarrow> 'w panel \<Rightarrow> bool" where
  "forgotten sid vmid t \<longleftrightarrow> get_vm_instance sid vmid t = None \<and>
     \<not> list_ex (holds sid vmid) (allocations (pn_ipam t)) \<and> (sid, vmid) \<notin> set (pn_installed_apps t)"

definition remembered :: "int \<Rightarrow> int \<Rightarrow> 'w panel \<Rightarrow> 'w panel \<Rightarrow> bool" where
  "remembered sid vmid s t \<longleftrightarrow> get_vm_instance sid vmid t \<noteq> None \<and> pn_ipam t = pn_ipam s \<and>
     pn_installed_apps t = pn_installed_apps s"

lemma forgotten_cong:
  assumes "forgotten sid vmid t" "same_tables t t'"
  shows "forgotten sid vmid t'"
  using assms by (simp add: forgotten_def same_tables_def get_vm_instance_def)

lemma forgotten_forget:
  "same_tables s t \<Longrightarrow> unique_on guest_key (pn_guests s) \<Longrightarrow> ipam_inv (pn_ipam s) \<Longrightarrow>
     forgotten sid vmid (forget_guest E u sid vmid reason t)"
  using forget_guest_forgets [of t sid vmid E u reason] by (simp add: forgotten_def same_tables_def)

lemma remembered_cong: "remembered sid vmid s t \<Longrightarrow> same_tables t t' \<Longrightarrow> remembered sid vmid s t'"
  by (simp add: remembered_def same_tables_def get_vm_instance_def)

lemma finish_tables: "same_tables s (finish_task_row E i t) = same_tables s t"
  by (simp add: finish_task_row_def same_tables_def)

lemma same_tables_refl [simp]: "same_tables s s"
  by (simp add: same_tables_def)

lemma save_before_delete_keeps:
  assumes "get_vm_instance sid vmid s \<noteq> None"
  shows "remembered sid vmid s (save_before_delete E c sid vmid node s)"
proof -
  obtain config p1 where p1: "on_proxmox (get_vm_config E c node vmid) s = (config, s\<lparr>pn_px := p1\<rparr>)"
    by (simp add: on_proxmox_def case_prod_beta)
  obtain addr p where p: "on_proxmox (vm_ipv4 E c node vmid) (s\<lparr>pn_px := p1\<rparr>) = (addr, s\<lparr>pn_px := p\<rparr>)"
    by (simp add: on_proxmox_def case_prod_beta)
  have "\<exists>cfg. save_before_delete E c sid vmid node s \<in>
      {s\<lparr>pn_px := p\<rparr>, save_vm_instance sid vmid cfg None (s\<lparr>pn_px := p\<rparr>)}"
    by (simp add: save_before_delete_def p1 p Let_def split: option.split) blast
  then obtain cfg where t: "save_before_delete E c sid vmid node s \<in>
      {s\<lparr>pn_px := p\<rparr>, save_vm_instance sid vmid cfg None (s\<lparr>pn_px := p\<rparr>)}" ..
  have "find (active_at sid vmid) (update_first (active_at sid vmid) (with_config cfg) rows) =
      map_option (with_config cfg) (find (active_at sid vmid) rows)" for rows
    by (rule find_update_first_same) (simp add: active_at_def)
  then show ?thesis using assms t
    by (auto simp: remembered_def save_vm_instance_def get_vm_instance_def)
qed

text \<open>The guest is still there and nothing was released; the tables are sound.\<close>

definition ready :: "int \<Rightarrow> int \<Rightarrow> 'w panel \<Rightarrow> 'w panel \<Rightarrow> bool" where
  "ready sid vmid s t \<longleftrightarrow> remembered sid vmid s t \<and> unique_on guest_key (pn_guests t) \<and> ipam_inv (pn_ipam t)"

lemma ready_same: "ready sid vmid s t \<Longrightarrow> same_tables t t' \<Longrightarrow> ready sid vmid s t'"
  by (auto simp: ready_def remembered_cong) (simp_all add: same_tables_def)

lemma ready_save:
  assumes "ready sid vmid s t"
  shows "ready sid vmid s (save_before_delete E c sid vmid node t)"
proof -
  have "get_vm_instance sid vmid t \<noteq> None" using assms by (simp add: ready_def remembered_def)
  note save = save_before_delete_keeps [OF this, of E c node] touches_save_before_delete [OF this, of E c node]
  show ?thesis
    using assms save(1) touches_unique [OF save(2)] unfolding ready_def remembered_def by metis
qed

lemma ready_if: "ready sid vmid s a \<Longrightarrow> ready sid vmid s b \<Longrightarrow> ready sid vmid s (if x then a else b)"
  by simp

lemma ready_forget: "ready sid vmid s t \<Longrightarrow> forgotten sid vmid (forget_guest E u sid vmid reason t)"
  using forgotten_forget [of t t] by (simp add: ready_def)

definition deletion_result :: "int \<Rightarrow> int \<Rightarrow> 'w panel \<Rightarrow> http_error + archive_result \<Rightarrow> 'w panel \<Rightarrow> bool" where
  "deletion_result sid vmid s r t = (case r of Inl _ \<Rightarrow> remembered sid vmid s t | Inr _ \<Rightarrow> forgotten sid vmid t)"

lemma deletion_error: "ready sid vmid s t \<Longrightarrow> deletion_result sid vmid s (Inl e) t"
  by (simp add: deletion_result_def ready_def)

lemma deletion_ok: "forgotten sid vmid t \<Longrightarrow> same_tables t t' \<Longrightarrow> deletion_result sid vmid s (Inr a) t'"
  using forgotten_cong by (auto simp: deletion_result_def)

lemma ready_log: "ready sid vmid s t \<Longrightarrow> ready sid vmid s (log_panel E a t)"
  by (erule ready_same) simp

lemma ready_eq: "t' = t \<Longrightarrow> ready sid vmid s t \<Longrightarrow> ready sid vmid s t'"
  by simp

lemma forgotten_eq: "t' = forget_guest E u sid vmid reason t \<Longrightarrow> ready sid vmid s t \<Longrightarrow> forgotten sid vmid t'"
  by (simp add: ready_forget)

lemma registered_tables: "t' = snd (register_task E up sid uid act nd vm ty de t) \<Longrightarrow> same_tables t t'"
  by (simp add: register_task_def same_tables_def)

lemma ready_saved:
  "t = (if force then s3 else save_before_delete E c sid vmid node s3) \<Longrightarrow> ready sid vmid s s3 \<Longrightarrow> ready sid vmid s t"
  by (simp add: ready_save)

lemma delete_vm_result:
  assumes "ready sid vmid s s"
  shows "gives (deletion_result sid vmid s) (delete_vm_endpoint E u sid vmid node force s)"
  unfolding delete_vm_endpoint_def
  by (intro gives_rules; ((drule tables_frames)+)?;
      (rule deletion_error | rule deletion_ok [rotated], simp only: log_panel_tables finish_tables);
      (rule ready_log)?; (erule forgotten_eq)?; ((erule ready_same [rotated])+)?; (erule ready_saved)?;
      ((erule ready_same [rotated])+)?; rule assms)

lemma delete_container_result:
  assumes "ready sid vmid s s"
  shows "gives (deletion_result sid vmid s) (delete_container_endpoint E u sid vmid node s)"
  unfolding delete_container_endpoint_def
  by (intro gives_rules; ((drule tables_frames)+)?;
      (rule deletion_error | rule deletion_ok [rotated], simp (no_asm) only: log_panel_tables, erule registered_tables);
      (rule assms | erule forgotten_eq | erule ready_same [rotated])+)

lemma ready_start:
  "get_vm_instance sid vmid s \<noteq> None \<Longrightarrow> unique_on guest_key (pn_guests s) \<Longrightarrow> ipam_inv (pn_ipam s) \<Longrightarrow> ready sid vmid s s"
  by (simp add: ready_def remembered_def)

text \<open>C14. Deleting a machine is all or nothing in the panel: after a success its record is no longer active, none of its
  addresses is held and no installed application is listed for it; after an error the record is still active and the
  address and application tables are as before. In both cases the records of all other guests are untouched.\<close>

theorem delete_vm_all_or_nothing:
  assumes "delete_vm_endpoint E u sid vmid node force s = (r, t)"
    and "get_vm_instance sid vmid s \<noteq> None" "unique_on guest_key (pn_guests s)" "ipam_inv (pn_ipam s)"
  shows "(case r of
      Inr _ \<Rightarrow> get_vm_instance sid vmid t = None \<and> \<not> list_ex (holds sid vmid) (allocations (pn_ipam t)) \<and>
        (sid, vmid) \<notin> set (pn_installed_apps t)
    | Inl _ \<Rightarrow> get_vm_instance sid vmid t \<noteq> None \<and> pn_ipam t = pn_ipam s \<and>
        pn_installed_apps t = pn_installed_apps s) \<and>
    (\<forall>k. k \<noteq> (sid, vmid) \<longrightarrow> row_at k t = row_at k s)"
proof -
  have "deletion_result sid vmid s r t"
    by (rule givesD [OF delete_vm_result [OF ready_start [OF assms(2-4)]] assms(1)])
  moreover have "touches sid vmid s t"
    using assms(2) by (intro givesD [OF touches_delete_vm assms(1)]) (simp add: get_vm_instance_def)
  then have "\<forall>k. k \<noteq> (sid, vmid) \<longrightarrow> row_at k t = row_at k s" using touches_other by blast
  ultimately show ?thesis
    by (auto simp: deletion_result_def forgotten_def remembered_def split: sum.splits)
qed

text \<open>The same for a container.\<close>

theorem delete_container_all_or_nothing:
  assumes "delete_container_endpoint E u sid vmid node s = (r, t)"
    and "get_vm_instance sid vmid s \<noteq> None" "unique_on guest_key (pn_guests s)" "ipam_inv (pn_ipam s)"
  shows "(case r of
      Inr _ \<Rightarrow> get_vm_instance sid vmid t = None \<and> \<not> list_ex (holds sid vmid) (allocations (pn_ipam t)) \<and>
        (sid, vmid) \<notin> set (pn_installed_apps t)
    | Inl _ \<Rightarrow> get_vm_instance sid vmid t \<noteq> None \<and> pn_ipam t = pn_ipam s \<and>
        pn_installed_apps t = pn_installed_apps s) \<and>
    (\<forall>k. k \<noteq> (sid, vmid) \<longrightarrow> row_at k t = row_at k s)"
proof -
  have "deletion_result sid vmid s r t"
    by (rule givesD [OF delete_container_result [OF ready_start [OF assms(2-4)]] assms(1)])
  moreover have "touches sid vmid s t"
    by (rule givesD [OF touches_delete_container assms(1)])
  then have "\<forall>k. k \<noteq> (sid, vmid) \<longrightarrow> row_at k t = row_at k s" using touches_other by blast
  ultimately show ?thesis
    by (auto simp: deletion_result_def forgotten_def remembered_def split: sum.splits)
qed

section \<open>Quotas\<close>

lemma check_limits_ok:
  "check_limits cs = Inr () \<longleftrightarrow> (\<forall>(limit, projected, un) \<in> set cs. \<forall>l. limit = Some l \<longrightarrow> projected \<le> l)"
  by (induction cs rule: check_limits.induct) (auto split: option.splits)

definition owned_sum :: "int \<Rightarrow> (guest_row \<Rightarrow> int option) \<Rightarrow> guest_row list \<Rightarrow> int" where
  "owned_sum uid f rows = sum_column f (filter (counts_for uid) rows)"

lemma owned_sum_simps [simp]:
  "owned_sum uid f [] = 0"
  "owned_sum uid f (g # gs) = (if counts_for uid g then or_default (f g) 0 else 0) + owned_sum uid f gs"
  by (auto simp: owned_sum_def sum_column_def or_default_def List.map_filter_simps split: option.splits)

lemma owned_sum_append: "owned_sum uid f (xs @ ys) = owned_sum uid f xs + owned_sum uid f ys"
  by (induction xs) auto

lemma owned_sum_update:
  assumes "list_all (\<lambda>g. 0 \<le> or_default (f g) 0) rows" "0 \<le> or_default v 0" "\<And>g. f (h g) = v"
  shows "owned_sum uid f (update_first P h rows) \<le> owned_sum uid f rows + or_default v 0"
  using assms by (induction rows) auto

lemma owned_sum_save:
  assumes "list_all (\<lambda>g. 0 \<le> or_default (f g) 0) (pn_guests s)" "0 \<le> or_default v 0"
    and "\<And>g. f (set_owner ow (with_config c g)) = v" "\<And>i. f (new_guest i sid vmid c ow) = v"
    and "\<And>g d. f (g\<lparr>gr_status := ''unknown'', gr_deleted_at := d\<rparr>) = f g"
  shows "owned_sum uid f (pn_guests (save_vm_instance sid vmid c ow s)) \<le> owned_sum uid f (pn_guests s) + or_default v 0"
proof -
  have "owned_sum uid f (update_first P (\<lambda>g. set_owner ow (with_config c g)) (pn_guests s)) \<le>
      owned_sum uid f (pn_guests s) + or_default v 0" for P
    by (rule owned_sum_update [OF assms(1-3)])
  moreover have "owned_sum uid f (update_first P (\<lambda>g. (set_owner ow (with_config c g))\<lparr>gr_status := ''unknown'', gr_deleted_at := None\<rparr>)
      (pn_guests s)) \<le> owned_sum uid f (pn_guests s) + or_default v 0" for P
    by (rule owned_sum_update [OF assms(1-2)]) (simp add: assms(3,5))
  ultimately show ?thesis using assms(2,4)
    by (auto simp: save_vm_instance_def add_guest_def owned_sum_append)
qed

lemma config_columns [simp]:
  "gc_cores (set_owner ow (with_config c g)) = gc_cores c" "gc_memory (set_owner ow (with_config c g)) = gc_memory c"
  "gc_disk_size (set_owner ow (with_config c g)) = gc_disk_size c"
  "gc_cores (new_guest i sid vmid c ow) = gc_cores c" "gc_memory (new_guest i sid vmid c ow) = gc_memory c"
  "gc_disk_size (new_guest i sid vmid c ow) = gc_disk_size c"
  by (cases ow; cases c; cases g; simp add: set_owner_def with_config_def new_guest_def guest_config.defs)+

lemma usage_sums:
  "us_instances (get_user_usage uid s) = owned_sum uid (\<lambda>_. Some 1) (pn_guests s)"
  "us_cores (get_user_usage uid s) = owned_sum uid gc_cores (pn_guests s)"
  "us_memory_mb (get_user_usage uid s) = owned_sum uid gc_memory (pn_guests s)"
  "us_disk_gb (get_user_usage uid s) = owned_sum uid gc_disk_size (pn_guests s)"
proof -
  have "int (length rows) = sum_column (\<lambda>_. Some 1) rows" for rows :: "guest_row list"
    by (induction rows) (simp_all add: sum_column_def List.map_filter_simps)
  then show "us_instances (get_user_usage uid s) = owned_sum uid (\<lambda>_. Some 1) (pn_guests s)"
    by (simp add: get_user_usage_def Let_def owned_sum_def)
qed (simp_all add: get_user_usage_def Let_def owned_sum_def)

definition no_negative :: "guest_config \<Rightarrow> bool" where
  "no_negative g \<longleftrightarrow> 0 \<le> or_default (gc_cores g) 0 \<and> 0 \<le> or_default (gc_memory g) 0 \<and> 0 \<le> or_default (gc_disk_size g) 0"

definition within :: "int \<Rightarrow> int option \<Rightarrow> bool" where
  "within n limit \<longleftrightarrow> (case limit of None \<Rightarrow> True | Some l \<Rightarrow> n \<le> l)"

text \<open>C15. A quota check that passes is enough: once the guest it was asked for is saved for its owner, whether as a new
  record, over a record the synchronisation made first, or over one that had been deleted, the owner's usage is within
  every limit.\<close>

theorem quota_holds_after_save:
  assumes "check_quota uid (gc_cores c) (gc_memory c) (gc_disk_size c) s = Inr ()"
    and "find (\<lambda>q. quota_user_id q = uid) (pn_quotas s) = Some q"
    and "no_negative c" "list_all (\<lambda>g. no_negative (guest_config.truncate g)) (pn_guests s)"
  shows "let u = get_user_usage uid (save_vm_instance sid vmid c (Some uid) s) in
    within (us_instances u) (max_instances q) \<and> within (us_cores u) (max_cores q) \<and>
    within (us_memory_mb u) (max_memory_mb q) \<and> within (us_disk_gb u) (max_disk_gb q)"
proof -
  let ?t = "save_vm_instance sid vmid c (Some uid) s"
  have cols: "list_all (\<lambda>g. 0 \<le> or_default (gc_cores g) 0) (pn_guests s)"
      "list_all (\<lambda>g. 0 \<le> or_default (gc_memory g) 0) (pn_guests s)"
      "list_all (\<lambda>g. 0 \<le> or_default (gc_disk_size g) 0) (pn_guests s)"
    using assms(4) by (auto simp: no_negative_def list_all_iff guest_config.defs)
  have limits: "within (owned_sum uid (\<lambda>_. Some 1) (pn_guests s) + 1) (max_instances q)"
      "within (owned_sum uid gc_cores (pn_guests s) + or_default (gc_cores c) 0) (max_cores q)"
      "within (owned_sum uid gc_memory (pn_guests s) + or_default (gc_memory c) 0) (max_memory_mb q)"
      "within (owned_sum uid gc_disk_size (pn_guests s) + or_default (gc_disk_size c) 0) (max_disk_gb q)"
    using assms(1,2)
    by (auto simp: check_quota_def Let_def check_limits_ok usage_sums within_def simp del: check_limits.simps
        split: option.splits)
  have grow: "within n l \<Longrightarrow> m \<le> n \<Longrightarrow> within m l" for m n l by (auto simp: within_def split: option.splits)
  have "owned_sum uid (\<lambda>_. Some 1) (pn_guests ?t) \<le> owned_sum uid (\<lambda>_. Some 1) (pn_guests s) + or_default (Some 1) 0"
    by (rule owned_sum_save) (simp_all add: list_all_iff or_default_def)
  moreover have "owned_sum uid gc_cores (pn_guests ?t) \<le> owned_sum uid gc_cores (pn_guests s) + or_default (gc_cores c) 0"
    using assms(3) by (intro owned_sum_save cols) (simp_all add: no_negative_def)
  moreover have "owned_sum uid gc_memory (pn_guests ?t) \<le> owned_sum uid gc_memory (pn_guests s) + or_default (gc_memory c) 0"
    using assms(3) by (intro owned_sum_save cols) (simp_all add: no_negative_def)
  moreover have "owned_sum uid gc_disk_size (pn_guests ?t) \<le> owned_sum uid gc_disk_size (pn_guests s) + or_default (gc_disk_size c) 0"
    using assms(3) by (intro owned_sum_save cols) (simp_all add: no_negative_def)
  ultimately show ?thesis
    unfolding Let_def usage_sums using limits by (auto simp: or_default_def intro: grow)
qed

section \<open>The fallback for a free VMID\<close>

lemma first_free_cases:
  "(case first_free used v k of
      Some x \<Rightarrow> v \<le> x \<and> x < v + int k \<and> x \<notin> set used \<and> {v..<x} \<subseteq> set used
    | None \<Rightarrow> {v..<v + int k} \<subseteq> set used)"
proof (induction k arbitrary: v)
  case (Suc k)
  have "{v..<x} = insert v {v + 1..<x}" if "v < x" for x using that by auto
  with Suc [of "v + 1"] show ?case by (auto split: option.splits)
qed simp

text \<open>Without Proxmox the panel picks the least VMID from 100 on that no active record of the server uses, and finds one
  while fewer than 999899 records are active.\<close>

theorem db_next_vmid_least:
  assumes "length (pn_guests s) < 999899"
  shows "\<exists>v. db_next_vmid sid s = Inr v \<and> 100 \<le> v \<and> v \<le> 999998 \<and> get_vm_instance sid v s = None \<and>
    (\<forall>x. 100 \<le> x \<and> x < v \<longrightarrow> get_vm_instance sid x s \<noteq> None)"
proof -
  define used where "used = map gr_vmid (filter (\<lambda>g. gr_server_id g = sid \<and> gr_deleted_at g = None) (pn_guests s))"
  have used: "x \<in> set used \<longleftrightarrow> get_vm_instance sid x s \<noteq> None" for x
    by (auto simp: used_def get_vm_instance_def active_at_def find_None_iff)
  have "length used \<le> length (pn_guests s)" by (simp add: used_def)
  moreover have "\<not> {100..<100 + int 999899} \<subseteq> set used"
  proof
    assume "{100..<100 + int 999899} \<subseteq> set used"
    then have "card {100..<100 + int 999899} \<le> card (set used)" by (intro card_mono) auto
    then show False using calculation assms card_length [of used] by simp
  qed
  ultimately show ?thesis
    using first_free_cases [where used = used and v = 100 and k = 999899] used
    by (auto simp: db_next_vmid_def used_def [symmetric] subset_iff split: option.splits)
qed

section \<open>Polling the tasks\<close>

definition counts_ok :: "worker \<Rightarrow> bool" where
  "counts_ok w \<longleftrightarrow> list_all (\<lambda>(_, n). 0 < n \<and> n < UPID_FAIL_THRESHOLD) (upid_fail_counts w)"

definition task_moves :: "proxmox_task \<Rightarrow> proxmox_task \<Rightarrow> bool" where
  "task_moves x y \<longleftrightarrow> y = x \<or> pt_status x = ''running'' \<and> pt_id y = pt_id x \<and> pt_user_id y = pt_user_id x \<and>
     pt_upid y = pt_upid x \<and>
     (pt_status y = ''running'' \<or> pt_status y \<in> {''completed'', ''failed''} \<and> pt_completed_at y \<noteq> None)"

lemma task_moves_trans: "task_moves x y \<Longrightarrow> task_moves y z \<Longrightarrow> task_moves x z"
  by (auto simp: task_moves_def)

lemma with_log_fields [simp]:
  "pt_id (with_log j t) = pt_id t" "pt_user_id (with_log j t) = pt_user_id t" "pt_upid (with_log j t) = pt_upid t"
  "pt_status (with_log j t) = pt_status t"
  by (auto simp: with_log_def Let_def split: json.splits option.splits)

lemma finished_task_fields [simp]:
  "pt_id (finished_task n r t) = pt_id t" "pt_user_id (finished_task n r t) = pt_user_id t"
  "pt_upid (finished_task n r t) = pt_upid t" "pt_completed_at (finished_task n r t) = Some n"
  "pt_status (finished_task n r t) = (if r = Some ''OK'' then ''completed'' else ''failed'')"
  by (simp_all add: finished_task_def)

lemma counts_delete: "counts_ok w \<Longrightarrow> counts_ok (w\<lparr>upid_fail_counts := AList.delete i (upid_fail_counts w)\<rparr>)"
  by (auto simp: counts_ok_def list_all_iff AList.delete_eq)

lemma counts_update:
  assumes "list_all P d" "P (k, v)"
  shows "list_all P (AList.update k v d)"
  using assms by (induction d) auto

definition poll_effect :: "int \<Rightarrow> worker \<times> 'w panel \<Rightarrow> worker \<times> 'w panel \<Rightarrow> bool" where
  "poll_effect i ws wt \<longleftrightarrow> (counts_ok (fst ws) \<longrightarrow> counts_ok (fst wt)) \<and>
     (pn_tasks (snd wt) = pn_tasks (snd ws) \<or>
      (\<exists>f. pn_tasks (snd wt) = update_first (\<lambda>t. pt_id t = i) f (pn_tasks (snd ws)) \<and>
         (\<forall>t. pt_id (f t) = pt_id t \<and> (pt_status t = ''running'' \<longrightarrow> task_moves t (f t)))))"

lemma failed_poll_effect: "poll_effect i (w, s) (failed_poll E i err (w, s))"
proof -
  let ?n = "or_default (map_of (upid_fail_counts w) i) 0 + 1"
  have counts: "counts_ok (w\<lparr>upid_fail_counts := AList.update i ?n (upid_fail_counts w)\<rparr>)"
    if "counts_ok w" "?n < UPID_FAIL_THRESHOLD"
  proof -
    have "0 < ?n" using that(1) map_of_SomeD
      by (fastforce simp: counts_ok_def list_all_iff or_default_def split: option.splits)
    then show ?thesis using that by (simp add: counts_ok_def counts_update)
  qed
  have failed: "\<exists>f. update_first (\<lambda>t. pt_id t = i) (\<lambda>t. t\<lparr>pt_status := ''failed'', pt_exit_status := x, pt_completed_at := Some n\<rparr>) ts =
      update_first (\<lambda>t. pt_id t = i) f ts \<and> (\<forall>t. pt_id (f t) = pt_id t \<and> (pt_status t = ''running'' \<longrightarrow> task_moves t (f t)))"
    for x n ts
    by (rule exI [of _ "\<lambda>t. t\<lparr>pt_status := ''failed'', pt_exit_status := x, pt_completed_at := Some n\<rparr>"])
      (simp add: task_moves_def)
  show ?thesis
  proof (cases "?n < UPID_FAIL_THRESHOLD")
    case True
    then show ?thesis using counts by (simp add: failed_poll_def Let_def poll_effect_def)
  next
    case False
    then show ?thesis using failed counts_delete [of w i]
      by (simp add: failed_poll_def Let_def poll_effect_def set_task_def AList.delete_update_same)
  qed
qed

lemma good_poll_effect: "poll_effect (pt_id x) (w, s) (good_poll E c x st (w, s))"
proof (cases st)
  case (JObj d)
  obtain j s1 where 1: "on_proxmox (get_task_log E c (the (pt_node x)) (pt_upid x) 0 500) s = (j, s1)" by fastforce
  have "pn_tasks s1 = pn_tasks s" using 1 by (auto simp: on_proxmox_def split: prod.splits)
  moreover have "\<exists>f. update_first (\<lambda>t. pt_id t = pt_id x) (\<lambda>t. if b then finished_task n r (with_log j t) else with_log j t) ts =
      update_first (\<lambda>t. pt_id t = pt_id x) f ts \<and> (\<forall>t. pt_id (f t) = pt_id t \<and> (pt_status t = ''running'' \<longrightarrow> task_moves t (f t)))"
    for b n r ts
    by (rule exI [of _ "\<lambda>t. if b then finished_task n r (with_log j t) else with_log j t"]) (simp add: task_moves_def)
  ultimately show ?thesis using counts_delete [of w "pt_id x"]
    by (simp add: good_poll_def Let_def JObj 1 poll_effect_def set_task_def)
qed (simp_all add: good_poll_def Let_def poll_effect_def counts_delete)

lemma poll_effect_refl: "pn_tasks t = pn_tasks s \<Longrightarrow> poll_effect i (w, s) (w, t)"
  by (simp add: poll_effect_def)

lemma poll_effect_cong: "pn_tasks s' = pn_tasks s \<Longrightarrow> poll_effect i (w, s') wt \<Longrightarrow> poll_effect i (w, s) wt"
  by (simp add: poll_effect_def)

lemma sync_task_effect: "poll_effect (pt_id x) (w, s) (sync_task E x (w, s))"
proof -
  have px: "pn_tasks t = pn_tasks s" if "on_proxmox m s = (a, t)" for m a and s t :: "'a panel"
    using that by (auto simp: on_proxmox_def split: prod.splits)
  show ?thesis
    unfolding sync_task_def prod.case
    by (auto simp: split: option.split prod.split sum.split dest!: px
        intro!: poll_effect_refl poll_effect_cong [OF _ failed_poll_effect] poll_effect_cong [OF _ good_poll_effect])
qed

lemma list_all2_task_update:
  assumes "\<forall>t \<in> set ts. pt_id t = i \<longrightarrow> pt_status t = ''running''"
    "\<forall>t. pt_id (f t) = pt_id t \<and> (pt_status t = ''running'' \<longrightarrow> task_moves t (f t))"
  shows "list_all2 task_moves ts (update_first (\<lambda>t. pt_id t = i) f ts)"
  using assms(1)
proof (induction ts)
  case (Cons t ts)
  have "list_all2 task_moves ts ts" by (simp add: list_all2_refl task_moves_def)
  moreover have "task_moves t t" by (simp add: task_moves_def)
  ultimately show ?case using Cons assms(2) by auto
qed simp

lemma poll_effect_tasks:
  assumes "poll_effect i (w, s) (w', s')" "\<forall>t \<in> set (pn_tasks s). pt_id t = i \<longrightarrow> pt_status t = ''running''"
  shows "list_all2 task_moves (pn_tasks s) (pn_tasks s')"
    "\<forall>t' \<in> set (pn_tasks s'). pt_id t' \<noteq> i \<longrightarrow> t' \<in> set (pn_tasks s)"
proof -
  have refl: "list_all2 task_moves ts ts" for ts by (simp add: list_all2_refl task_moves_def)
  show "list_all2 task_moves (pn_tasks s) (pn_tasks s')"
    using assms refl by (auto simp: poll_effect_def intro: list_all2_task_update)
  show "\<forall>t' \<in> set (pn_tasks s'). pt_id t' \<noteq> i \<longrightarrow> t' \<in> set (pn_tasks s)"
    using assms(1) by (auto simp: poll_effect_def dest!: in_set_update_first)
qed

lemma sync_tasks_effect:
  "fold (sync_task E) xs (w, s) = (w', s') \<Longrightarrow> distinct (map pt_id xs) \<Longrightarrow>
     \<forall>x \<in> set xs. \<forall>t \<in> set (pn_tasks s). pt_id t = pt_id x \<longrightarrow> pt_status t = ''running'' \<Longrightarrow>
     list_all2 task_moves (pn_tasks s) (pn_tasks s') \<and> (counts_ok w \<longrightarrow> counts_ok w')"
proof (induction xs arbitrary: w s)
  case Nil
  then show ?case by (simp add: list_all2_refl task_moves_def)
next
  case (Cons x xs)
  obtain w1 s1 where 1: "sync_task E x (w, s) = (w1, s1)" by fastforce
  note effect = sync_task_effect [of x w s E, unfolded 1]
  have runs: "\<forall>t \<in> set (pn_tasks s). pt_id t = pt_id x \<longrightarrow> pt_status t = ''running''" using Cons.prems(3) by simp
  note moved = poll_effect_tasks [OF effect runs]
  have "list_all2 task_moves (pn_tasks s1) (pn_tasks s') \<and> (counts_ok w1 \<longrightarrow> counts_ok w')"
    using Cons.prems moved(2) by (intro Cons.IH) (force simp: 1)+
  moreover have "counts_ok w \<longrightarrow> counts_ok w1" using effect by (simp add: poll_effect_def)
  ultimately show ?case using moved(1) list_all2_trans [of task_moves task_moves task_moves] task_moves_trans by blast
qed

text \<open>What Proxmox answers when it is asked for the state of a task; \<^term>\<open>None\<close> when the worker does not get to ask.\<close>

definition poll_answer :: "'w proxmox_api \<Rightarrow> proxmox_task \<Rightarrow> 'w panel \<Rightarrow> ((py_exception + json) \<times> 'w panel) option" where
  "poll_answer E x s =
     (if \<not> truthy_int (pt_server_id x) \<or> \<not> truthy_str (pt_node x) then None
      else (case find_server (the (pt_server_id x)) s of
        None \<Rightarrow> None
      | Some sv \<Rightarrow>
          if sv_is_online sv \<noteq> Some True then None
          else (case on_proxmox (connected_client E (server.truncate sv)) s of
              (None, s1) \<Rightarrow> None
            | (Some c, s1) \<Rightarrow> Some (on_proxmox (get_task_status E c (the (pt_node x)) (pt_upid x) True) s1))))"

definition no_answer :: "py_exception + json \<Rightarrow> bool" where
  "no_answer ans = (case ans of Inl e \<Rightarrow> True | Inr j \<Rightarrow> \<not> truthy_json j)"

definition miss_text :: "py_exception + json \<Rightarrow> string" where
  "miss_text ans = (case ans of Inl e \<Rightarrow> if exn_text e = [] then ''Invalid UPID'' else exn_text e | Inr j \<Rightarrow> ''Invalid UPID'')"

text \<open>The state an answer puts a running task in.\<close>

definition answered_status :: "json \<Rightarrow> string" where
  "answered_status j = (case j of
       json.JObj d \<Rightarrow> if map_of d ''status'' = Some (json.JStr ''stopped'')
         then if exit_text d = Some ''OK'' then ''completed'' else ''failed'' else ''running''
     | _ \<Rightarrow> ''running'')"

abbreviation task_row :: "int \<Rightarrow> 'w panel \<Rightarrow> proxmox_task option" where
  "task_row i s \<equiv> find (\<lambda>t. pt_id t = i) (pn_tasks s)"

abbreviation misses :: "int \<Rightarrow> worker \<Rightarrow> int option" where
  "misses i w \<equiv> map_of (upid_fail_counts w) i"

text \<open>What one poll must do to the row and the counter of its task.\<close>

definition polled :: "'w proxmox_api \<Rightarrow> proxmox_task \<Rightarrow> ((py_exception + json) \<times> 'w panel) option \<Rightarrow> int option \<Rightarrow>
    proxmox_task option \<Rightarrow> int option \<Rightarrow> bool" where
  "polled E x asked n row n' \<longleftrightarrow> (case asked of
       None \<Rightarrow> row = Some x \<and> n' = n
     | Some (ans, s) \<Rightarrow>
         if \<not> no_answer ans then n' = None \<and> (\<exists>y. row = Some y \<and> pt_status y = answered_status (projr ans))
         else if or_default n 0 + 1 < 3 then row = Some x \<and> n' = Some (or_default n 0 + 1)
         else row = Some (x\<lparr>pt_status := ''failed'', pt_exit_status := Some (take 200 (miss_text ans)),
                pt_completed_at := Some (panel_now E s)\<rparr>) \<and> n' = None)"

lemma on_proxmox_tasks: "on_proxmox m s = (a, t) \<Longrightarrow> pn_tasks t = pn_tasks s"
  by (auto simp: on_proxmox_def split: prod.splits)

lemma failed_poll_polled:
  assumes "failed_poll E (pt_id x) err (w, s) = (w', t)" "task_row (pt_id x) s = Some x"
    and "no_answer ans" and "miss_text ans = (if truthy_str err then the err else ''Invalid UPID'')"
  shows "polled E x (Some (ans, s)) (misses (pt_id x) w) (task_row (pt_id x) t) (misses (pt_id x) w')"
proof -
  have "find (\<lambda>t. pt_id t = pt_id x) (update_first (\<lambda>t. pt_id t = pt_id x) f (pn_tasks s)) =
      map_option f (task_row (pt_id x) s)" if "\<And>t. pt_id (f t) = pt_id t" for f
    by (rule find_update_first_same) (simp add: that)
  then show ?thesis
    using assms by (auto simp: failed_poll_def Let_def polled_def UPID_FAIL_THRESHOLD_def set_task_def update_conv'
        AList.delete_conv' split: if_splits)
qed

lemma good_poll_polled:
  assumes "good_poll E c x j (w, s) = (w', t)" "task_row (pt_id x) s = Some x" "pt_status x = ''running''" "truthy_json j"
  shows "polled E x (Some (Inr j, s')) (misses (pt_id x) w) (task_row (pt_id x) t) (misses (pt_id x) w')"
proof -
  have row: "find (\<lambda>t. pt_id t = pt_id x) (update_first (\<lambda>t. pt_id t = pt_id x) f (pn_tasks s)) =
      map_option f (task_row (pt_id x) s)" if "\<And>t. pt_id (f t) = pt_id t" for f
    by (rule find_update_first_same) (simp add: that)
  show ?thesis
    using assms by (auto simp: good_poll_def Let_def polled_def no_answer_def answered_status_def set_task_def
        AList.delete_conv' row dest!: on_proxmox_tasks split: json.splits prod.splits)
qed

lemma sync_task_polled:
  assumes "sync_task E x (w, s) = (w', t)" "task_row (pt_id x) s = Some x" "pt_status x = ''running''"
  shows "polled E x (poll_answer E x s) (misses (pt_id x) w) (task_row (pt_id x) t) (misses (pt_id x) w')"
proof (cases "poll_answer E x s")
  case None
  then show ?thesis
    using assms(1,2) unfolding polled_def sync_task_def poll_answer_def
    by (auto dest!: on_proxmox_tasks split: if_splits option.splits prod.splits)
next
  case (Some a)
  obtain sv c s1 where c: "truthy_int (pt_server_id x)" "truthy_str (pt_node x)"
    "find_server (the (pt_server_id x)) s = Some sv" "sv_is_online sv = Some True"
    "on_proxmox (connected_client E (server.truncate sv)) s = (Some c, s1)"
    and a: "a = on_proxmox (get_task_status E c (the (pt_node x)) (pt_upid x) True) s1"
    using Some unfolding poll_answer_def by (auto split: if_splits option.splits prod.splits)
  obtain ans s2 where ans: "on_proxmox (get_task_status E c (the (pt_node x)) (pt_upid x) True) s1 = (ans, s2)" by fastforce
  have row: "task_row (pt_id x) s2 = Some x"
    using on_proxmox_tasks [OF c(5)] on_proxmox_tasks [OF ans] assms(2) by simp
  show ?thesis
  proof (cases ans)
    case (Inl e)
    have "failed_poll E (pt_id x) (Some (exn_text e)) (w, s2) = (w', t)"
      using assms(1) by (simp add: sync_task_def c ans Inl)
    from failed_poll_polled [OF this row, of "Inl e"] show ?thesis
      by (simp add: Some a ans Inl no_answer_def miss_text_def truthy_str_def)
  next
    case (Inr j)
    show ?thesis
    proof (cases "truthy_json j")
      case True
      then have "good_poll E c x j (w, s2) = (w', t)" using assms(1) by (simp add: sync_task_def c ans Inr)
      from good_poll_polled [OF this row assms(3) True] show ?thesis by (simp add: Some a ans Inr)
    next
      case False
      then have "failed_poll E (pt_id x) None (w, s2) = (w', t)" using assms(1) by (simp add: sync_task_def c ans Inr)
      from failed_poll_polled [OF this row, of "Inr j"] False show ?thesis
        by (simp add: Some a ans Inr no_answer_def miss_text_def truthy_str_def)
    qed
  qed
qed

lemma find_update_other:
  "(\<And>t. pt_id (f t) = pt_id t) \<Longrightarrow> j \<noteq> i \<Longrightarrow>
   find (\<lambda>t. pt_id t = j) (update_first (\<lambda>t. pt_id t = i) f ts) = find (\<lambda>t. pt_id t = j) ts"
  by (induction ts) auto

lemma sync_task_others:
  assumes "j \<noteq> pt_id x" "sync_task E x (w, s) = (w', t)"
  shows "task_row j t = task_row j s \<and> misses j w' = misses j w"
proof -
  have rows: "task_row j t = task_row j s"
    using sync_task_effect [of x w s E, unfolded assms(2)] find_update_other [OF _ assms(1)]
    unfolding poll_effect_def by (metis snd_conv)
  have f: "misses j (fst (failed_poll E (pt_id x) err (v, u))) = misses j v" for err v and u :: "'a panel"
    using assms(1) by (simp add: failed_poll_def Let_def update_conv' AList.delete_conv')
  have g: "misses j (fst (good_poll E c x a (v, u))) = misses j v" for c a v and u :: "'a panel"
    using assms(1) by (simp add: good_poll_def Let_def AList.delete_conv' split: json.split prod.split)
  have "misses j (fst (sync_task E x (w, s))) = misses j w"
    unfolding sync_task_def prod.case by (simp add: f g split: option.split prod.split sum.split)
  with rows assms(2) show ?thesis by simp
qed

lemma sync_tasks_others:
  "fold (sync_task E) xs (w, s) = (w', t) \<Longrightarrow> j \<notin> pt_id ` set xs \<Longrightarrow>
   task_row j t = task_row j s \<and> misses j w' = misses j w"
proof (induction xs arbitrary: w s)
  case (Cons x xs)
  obtain w1 s1 where 1: "sync_task E x (w, s) = (w1, s1)" by fastforce
  show ?case
    using Cons.IH [of w1 s1] Cons.prems sync_task_others [OF _ 1, of j] by (simp add: 1)
qed simp

text \<open>C36. A poll of the running tasks leaves every finished task as it is, finishes tasks only with a time of completion,
  and never changes whose task it is. Of each running task, in its turn: without a chance to ask, its row and its counter
  stay; an answer clears the counter and gives the state it tells; the first and the second miss in a row are only
  counted; the third one marks the task as failed, with the reason and the time, and forgets the counter. So no task has
  ever missed more than two answers in a row and is still polled.\<close>

theorem task_polling_sound:
  assumes "run_upid_task_sync E (w, s) = (w', t)" "unique_on pt_id (pn_tasks s)"
  shows "list_all2 (\<lambda>x y. y = x \<or> pt_status x = ''running'' \<and> pt_id y = pt_id x \<and> pt_user_id y = pt_user_id x \<and>
      pt_upid y = pt_upid x \<and>
      (pt_status y = ''running'' \<or> pt_status y \<in> {''completed'', ''failed''} \<and> pt_completed_at y \<noteq> None))
      (pn_tasks s) (pn_tasks t) \<and>
    (list_all (\<lambda>(_, n). 0 < n \<and> n < UPID_FAIL_THRESHOLD) (upid_fail_counts w) \<longrightarrow>
     list_all (\<lambda>(_, n). 0 < n \<and> n < UPID_FAIL_THRESHOLD) (upid_fail_counts w')) \<and>
    (\<forall>before x after w1 s1.
       filter (\<lambda>x. pt_status x = ''running'') (pn_tasks s) = before @ x # after \<and>
       fold (sync_task E) before (w, s) = (w1, s1) \<longrightarrow>
       polled E x (poll_answer E x s1) (misses (pt_id x) w) (task_row (pt_id x) t) (misses (pt_id x) w'))"
proof -
  have inj: "inj_on pt_id (set (pn_tasks s))"
    and d: "distinct (map pt_id (filter (\<lambda>t. pt_status t = ''running'') (pn_tasks s)))"
    using assms(2) by (simp_all add: unique_on_def distinct_map_filter) (simp add: distinct_map)
  then have "list_all2 task_moves (pn_tasks s) (pn_tasks t) \<and> (counts_ok w \<longrightarrow> counts_ok w')"
    using assms(1) by (intro sync_tasks_effect) (auto simp: run_upid_task_sync_def dest: inj_onD)
  moreover have "polled E x (poll_answer E x s1) (misses (pt_id x) w) (task_row (pt_id x) t) (misses (pt_id x) w')"
    if x: "filter (\<lambda>x. pt_status x = ''running'') (pn_tasks s) = before @ x # after"
      and pre: "fold (sync_task E) before (w, s) = (w1, s1)" for before x after w1 s1
  proof -
    obtain w2 s2 where 2: "sync_task E x (w1, s1) = (w2, s2)" by fastforce
    have post: "fold (sync_task E) after (w2, s2) = (w', t)"
      using assms(1) by (simp add: run_upid_task_sync_def x pre 2)
    have new: "pt_id x \<notin> pt_id ` set before" "pt_id x \<notin> pt_id ` set after" using d by (simp_all add: x)
    have "x \<in> set (filter (\<lambda>x. pt_status x = ''running'') (pn_tasks s))" by (simp add: x)
    then have mem: "x \<in> set (pn_tasks s)" "pt_status x = ''running''" by simp_all
    have "task_row (pt_id x) s = Some x"
      using inj mem(1) by (intro find_unique) (auto dest: inj_onD)
    then have "task_row (pt_id x) s1 = Some x" "misses (pt_id x) w1 = misses (pt_id x) w"
      using sync_tasks_others [OF pre new(1)] by simp_all
    with sync_task_polled [OF 2 _ mem(2)] sync_tasks_others [OF post new(2)] show ?thesis by simp
  qed
  ultimately show ?thesis by (simp add: task_moves_def [abs_def] counts_ok_def)
qed

section \<open>What the guards do not cover\<close>

text \<open>Whoever holds \<open>vm:console\<close> runs commands in any machine: the answer depends on the server and the client only.\<close>

lemma commands_ignore_owner:
  assumes "has_perm u ''vm:console''" "find_server sid s = Some sv" "connect_or E failed_to_connect sv s = (Inr c, s1)"
  shows "execute_vm_command E u sid vmid node command timeout s =
    map_option (\<lambda>(r, p). (Inr r, s1\<lparr>pn_px := p\<rparr>)) (execute_command E c node vmid command timeout (pn_px s1))"
  using assms by (simp add: execute_vm_command_def caught_500_def PermissionChecker_def)

text \<open>Whoever holds \<open>vm:view\<close> reads what the panel stores of any guest, its initial password among it.\<close>

lemma saved_config_for_anyone:
  assumes "has_perm u ''vm:view''" "get_vm_instance sid vmid s = Some g"
  shows "get_saved_vm_config u sid vmid s = Inr (Some (guest_config.truncate g))"
  using assms by (simp add: get_saved_vm_config_def PermissionChecker_def)

text \<open>A record that was deleted comes back with its former owner when its VMID is used again.\<close>

lemma reused_vmid_keeps_owner:
  assumes "find (at_key sid (rs_vmid r)) (pn_guests s) = Some g" "gr_deleted_at g \<noteq> None"
    "upsert_guest now sid r a (rep, s) = (rep', t)"
  shows "\<exists>g'. find (at_key sid (rs_vmid r)) (pn_guests t) = Some g' \<and> gr_deleted_at g' = None \<and>
    gr_owner_id g' = gr_owner_id g"
proof -
  have "find (at_key sid (rs_vmid r)) (update_first (at_key sid (rs_vmid r)) (refresh_guest now r a) (pn_guests s)) =
      map_option (refresh_guest now r a) (find (at_key sid (rs_vmid r)) (pn_guests s))"
    by (rule find_update_first_same) (simp add: at_key_eq)
  then show ?thesis using assms by (auto simp: upsert_guest_def Let_def)
qed

end
