(* ===== verification/GuestWitnesses.thy ===== *)
theory GuestWitnesses
  imports GuestProps
begin

text \<open>
  The theorems on guests, tried on a panel with one server, a guest of user 7 (VMID 101) and a guest of user 8
  (VMID 102). \<open>demo_api\<close> stands for a Proxmox that accepts every request, \<open>mute_api\<close> for one that fails every one.
\<close>

definition demo_api :: "int proxmox_api" where
  "demo_api = \<lparr>api_connect = \<lambda>_ w. (None, w),
     api_call = \<lambda>_ rq w. (Inr (case rq_method rq of
         GET \<Rightarrow> json.JObj [(''status'', json.JStr ''stopped'')]
       | _ \<Rightarrow> json.JStr ''UPID''), w + 1),
     api_now = \<lambda>w. w, api_sleep = \<lambda>t w. w + t\<rparr>"

definition mute_api :: "int proxmox_api" where
  "mute_api = \<lparr>api_connect = \<lambda>_ w. (None, w), api_call = \<lambda>_ _ w. (Inl (PyException ''refused'' None False), w + 1),
     api_now = \<lambda>w. w, api_sleep = \<lambda>t w. w + t\<rparr>"

definition demo_user :: "int \<Rightarrow> user" where
  "demo_user i = sample_user i False (Some (sample_role [(''vm:*'', True)]))"

definition demo_guest :: "int \<Rightarrow> int \<Rightarrow> int \<Rightarrow> guest_row" where
  "demo_guest i vmid uid = (synced_guest i 0 1 \<lparr>rs_kind = Qemu, rs_template = False, rs_vmid = vmid, rs_name = Some ''web'',
     rs_node = ''pve'', rs_status = ''running'', rs_cpus = Some 2, rs_maxmem = Some 2147483648, rs_maxdisk = Some 8589934592,
     rs_ostype = None\<rparr> None)\<lparr>gr_owner_id := Some uid\<rparr>"

definition demo_server :: server_row where
  "demo_server = \<lparr>sv_id = 1, sv_name = ''pve'', sv_hostname = ''pve'', sv_ip_address = ''10.0.0.9'', sv_port = 8006,
     sv_api_user = ''root@pam'', sv_api_token_name = Some ''t'', sv_api_token_value = Some ''v'', sv_use_password = False,
     sv_password = None, sv_verify_ssl = False, sv_is_online = Some True, sv_last_check = None, sv_last_error = None,
     sv_last_error_kind = None\<rparr>"

definition demo_ipam :: ipam_state where
  "demo_ipam = \<lparr>networks = [], pools = [], allocations = [], next_allocation_id = 1, history = [], vm_instances = [],
     server_addresses = []\<rparr>"

definition demo_panel :: "int panel" where
  "demo_panel = \<lparr>pn_guests = [demo_guest 1 101 7, demo_guest 2 102 8], pn_next_guest = 3, pn_servers = [demo_server],
     pn_users = [demo_user 7, demo_user 8], pn_profile_keys = [], pn_library_keys = [],
     pn_quotas = [\<lparr>quota_user_id = 7, max_instances = Some 2, max_cores = Some 4, max_memory_mb = None, max_disk_gb = None\<rparr>],
     pn_archives = [], pn_tasks = [], pn_next_task = 1, pn_installed_apps = [(1, 101)], pn_logs = [], pn_ipam = demo_ipam,
     pn_px = \<lparr>connection_cache = [], px_world = 0\<rparr>\<rparr>"

lemma demo_rows:
  "active_at 1 101 (demo_guest 1 101 7)" "\<not> active_at 1 101 (demo_guest 2 102 8)"
  "gr_owner_id (demo_guest i v o') = Some o'" "guest_key (demo_guest i v o') = (1, v)" "gr_id (demo_guest i v o') = i"
  by (simp_all add: demo_guest_def active_at_def synced_guest_def guest_key_def)

lemma demo_table: "table_ok demo_panel" "unique_on guest_key (pn_guests demo_panel)"
  by (simp_all add: table_ok_def demo_panel_def unique_on_def demo_rows)

lemma demo_ipam_inv: "ipam_inv (pn_ipam demo_panel)"
  by (simp add: demo_panel_def demo_ipam_def ipam_inv_def unique_on_def)

lemma demo_unprivileged: "\<not> can_view_all_instances (demo_user i)"
  by (simp add: can_view_all_instances_def demo_user_def sample_defs)

lemma demo_active: "get_vm_instance 1 101 demo_panel = Some (demo_guest 1 101 7)"
  by (simp add: get_vm_instance_def demo_panel_def demo_rows)

theorem foreign_guest_untouched_witness:
  "snd (control_vm demo_api (demo_user 8) 1 101 ''stop'' ''pve'' 1 demo_panel) = demo_panel \<and>
   snd (delete_vm_endpoint demo_api (demo_user 8) 1 101 ''pve'' True demo_panel) = demo_panel"
proof -
  have "foreign (demo_user 8) 1 101 demo_panel"
    by (simp add: foreign_def demo_unprivileged demo_panel_def demo_rows) (simp add: demo_user_def sample_defs)
  from foreign_guest_untouched [OF this, of demo_api "''stop''" "''pve''" 1 True Qemu None None False "[]" False] show ?thesis
    by auto
qed

theorem tenants_keep_to_their_guests_witness:
  "pn_guests (snd (control_vm demo_api (demo_user 7) 1 101 ''stop'' ''pve'' 0 demo_panel)) ! 1 = demo_guest 2 102 8"
proof -
  obtain r t where t: "control_vm demo_api (demo_user 7) 1 101 ''stop'' ''pve'' 0 demo_panel = (r, t)" by fastforce
  then have "tenants_step demo_api {demo_user 7} demo_panel t"
    by (auto simp: tenants_step_def demo_unprivileged intro: tenant_step.power_vm)
  then have steps: "(tenants_step demo_api {demo_user 7})\<^sup>*\<^sup>* demo_panel t" by (rule r_into_rtranclp)
  have "pn_guests demo_panel ! 1 = demo_guest 2 102 8" "1 < length (pn_guests demo_panel)" by (simp_all add: demo_panel_def)
  then have "pn_guests t ! 1 = demo_guest 2 102 8"
    using list_all2_nthD [OF tenants_keep_to_their_guests [OF steps demo_table(2)], of 1]
    by (simp add: demo_rows) (simp add: demo_user_def sample_defs)
  then show ?thesis by (simp add: t)
qed

theorem sync_tracks_servers_witness:
  "owner_at (1, 101) (snd (snd (sync_vm_cache demo_api id (\<lparr>upid_fail_counts = [], last_ip_detect = [],
     last_server_states = [], last_server_alerts = []\<rparr>, demo_panel)))) = Some 7"
proof -
  obtain rep w' t where t: "sync_vm_cache demo_api id (\<lparr>upid_fail_counts = [], last_ip_detect = [],
      last_server_states = [], last_server_alerts = []\<rparr>, demo_panel) = (rep, w', t)" by (metis prod_cases3)
  obtain clusters now found s1 where f: "on_proxmox (fetch_guests demo_api (map server.truncate [demo_server])) demo_panel =
      ((clusters, now, found), s1)" by (metis prod_cases3 surj_pair)
  have "filter (\<lambda>sv. sv_is_online sv = Some True) (pn_servers demo_panel) = [demo_server]"
    by (simp add: demo_panel_def demo_server_def)
  from sync_tracks_servers [OF t this _ f demo_table(1)]
  have "owner_at (1, 101) t = owner_at (1, 101) demo_panel" by simp
  moreover have "owner_at (1, 101) demo_panel = Some 7"
    by (simp add: owner_at_def row_at_def demo_panel_def demo_rows)
  ultimately show ?thesis by (simp add: t)
qed

theorem outage_forgets_guests_witness:
  "get_vm_instance 1 101 (snd (snd (sync_vm_cache mute_api id (\<lparr>upid_fail_counts = [], last_ip_detect = [],
     last_server_states = [], last_server_alerts = []\<rparr>, demo_panel)))) = None"
proof -
  obtain rep w' t where t: "sync_vm_cache mute_api id (\<lparr>upid_fail_counts = [], last_ip_detect = [],
      last_server_states = [], last_server_alerts = []\<rparr>, demo_panel) = (rep, w', t)" by (metis prod_cases3)
  have "silent mute_api" by (simp add: silent_def mute_api_def)
  moreover have "demo_server \<in> set (pn_servers demo_panel)" "sv_is_online demo_server = Some True" "sv_id demo_server = 1"
    by (simp_all add: demo_panel_def demo_server_def)
  ultimately show ?thesis
    using outage_forgets_guests [OF t _ demo_table(1) demo_ipam_inv, of demo_server 101] by (simp add: t)
qed

theorem quota_holds_after_save_witness:
  "us_cores (get_user_usage 7 (save_vm_instance 1 103 (guest_config.truncate (demo_guest 1 101 7)) (Some 7) demo_panel)) \<le> 4"
proof -
  have d: "gc_cores (demo_guest i v uid) = Some 2" "gc_memory (demo_guest i v uid) = Some 2048"
      "gc_disk_size (demo_guest i v uid) = Some 8" "gr_is_template (demo_guest i v uid) = False"
      "gr_deleted_at (demo_guest i v uid) = None" for i v uid
    by (simp_all add: demo_guest_def synced_guest_def bytes_to_mb_def bytes_to_gb_def truthy_int_def round_div_def)
  let ?c = "guest_config.truncate (demo_guest 1 101 7)"
  have "check_quota 7 (gc_cores ?c) (gc_memory ?c) (gc_disk_size ?c) demo_panel = Inr ()"
    by (simp add: check_quota_def Let_def usage_sums demo_panel_def counts_for_def demo_rows d or_default_def
        guest_config.defs)
  moreover have "find (\<lambda>q. quota_user_id q = 7) (pn_quotas demo_panel) =
      Some \<lparr>quota_user_id = 7, max_instances = Some 2, max_cores = Some 4, max_memory_mb = None, max_disk_gb = None\<rparr>"
    by (simp add: demo_panel_def)
  moreover have "no_negative ?c" "list_all (\<lambda>g. no_negative (guest_config.truncate g)) (pn_guests demo_panel)"
    by (simp_all add: no_negative_def demo_panel_def d or_default_def guest_config.defs)
  ultimately show ?thesis
    using quota_holds_after_save [of 7 ?c demo_panel _ 1 103] by (simp add: Let_def within_def)
qed

theorem db_next_vmid_least_witness:
  "\<exists>v. db_next_vmid 1 demo_panel = Inr v \<and> v \<noteq> 101"
  using db_next_vmid_least [of demo_panel 1] demo_active by (auto simp: demo_panel_def)

lemma demo_other: "row_at (1, 102) demo_panel = Some (demo_guest 2 102 8)"
  by (simp add: row_at_def demo_panel_def demo_rows)

theorem delete_vm_all_or_nothing_witness:
  "(isl (fst (delete_vm_endpoint demo_api (demo_user 7) 1 101 ''pve'' True demo_panel)) \<or>
    get_vm_instance 1 101 (snd (delete_vm_endpoint demo_api (demo_user 7) 1 101 ''pve'' True demo_panel)) = None) \<and>
   row_at (1, 102) (snd (delete_vm_endpoint demo_api (demo_user 7) 1 101 ''pve'' True demo_panel)) = Some (demo_guest 2 102 8)"
proof -
  obtain r t where t: "delete_vm_endpoint demo_api (demo_user 7) 1 101 ''pve'' True demo_panel = (r, t)" by fastforce
  have "get_vm_instance 1 101 demo_panel \<noteq> None" by (simp add: demo_active)
  from delete_vm_all_or_nothing [OF t this demo_table(2) demo_ipam_inv] show ?thesis
    unfolding t using demo_other by (cases r) simp_all
qed

theorem delete_container_all_or_nothing_witness:
  "(isl (fst (delete_container_endpoint demo_api (demo_user 7) 1 101 ''pve'' demo_panel)) \<or>
    get_vm_instance 1 101 (snd (delete_container_endpoint demo_api (demo_user 7) 1 101 ''pve'' demo_panel)) = None) \<and>
   row_at (1, 102) (snd (delete_container_endpoint demo_api (demo_user 7) 1 101 ''pve'' demo_panel)) = Some (demo_guest 2 102 8)"
proof -
  obtain r t where t: "delete_container_endpoint demo_api (demo_user 7) 1 101 ''pve'' demo_panel = (r, t)" by fastforce
  have "get_vm_instance 1 101 demo_panel \<noteq> None" by (simp add: demo_active)
  from delete_container_all_or_nothing [OF t this demo_table(2) demo_ipam_inv] show ?thesis
    unfolding t using demo_other by (cases r) simp_all
qed

definition demo_task :: proxmox_task where
  "demo_task = \<lparr>pt_id = 1, pt_upid = ''UPID'', pt_server_id = Some 1, pt_user_id = 7, pt_node = Some ''pve'', pt_vmid = Some 101,
     pt_vm_type = Some ''qemu'', pt_action = ''start'', pt_description = None, pt_status = ''completed'',
     pt_exit_status = Some ''OK'', pt_log_text = None, pt_progress = None, pt_created_at = 0, pt_completed_at = Some 5\<rparr>"

text \<open>A Proxmox that is there but does not know the task: with two misses counted, the next poll gives the task up.\<close>

definition forgetful_api :: "int proxmox_api" where
  "forgetful_api = demo_api\<lparr>api_call := \<lambda>_ rq w. (if Name ''tasks'' \<in> set (rq_path rq)
      then Inl (PyException ''no such task'' None False) else Inr (json.JObj [(''version'', json.JStr ''8'')]), w + 1)\<rparr>"

definition two_misses :: worker where
  "two_misses = \<lparr>upid_fail_counts = [(1, 2)], last_ip_detect = [], last_server_states = [], last_server_alerts = []\<rparr>"

lemma forgetful_answer:
  "\<exists>t. poll_answer forgetful_api (demo_task\<lparr>pt_status := ''running''\<rparr>) (demo_panel\<lparr>pn_tasks := ts\<rparr>) =
     Some (Inl (PyException ''no such task'' None False), t)"
  by (simp add: poll_answer_def demo_task_def demo_panel_def demo_server_def find_server_def truthy_int_def truthy_str_def
      on_proxmox_def connected_client_def has_auth_def from_server_def is_connected_def get_task_status_def
      task_status_request_def forgetful_api_def demo_api_def send_def server.defs
      proxmox_client_init_def Let_def cached_def credential_of_def fresh_client_def api_args_of_def cache_key_def
      version_request_def server_client_args_def)

theorem task_polling_sound_witness:
  "\<exists>x w' t. run_upid_task_sync forgetful_api (two_misses, demo_panel\<lparr>pn_tasks := [demo_task\<lparr>pt_status := ''running''\<rparr>]\<rparr>) = (w', t) \<and>
     pn_tasks t = [x] \<and> pt_status x = ''failed'' \<and> pt_exit_status x = Some ''no such task'' \<and> map_of (upid_fail_counts w') 1 = None"
proof -
  let ?x = "demo_task\<lparr>pt_status := ''running''\<rparr>"
  let ?s = "demo_panel\<lparr>pn_tasks := [?x]\<rparr>"
  obtain w' t where t: "run_upid_task_sync forgetful_api (two_misses, ?s) = (w', t)" by fastforce
  have one: "filter (\<lambda>x. pt_status x = ''running'') (pn_tasks ?s) = [] @ ?x # []"
    and fold: "fold (sync_task forgetful_api) [] (two_misses, ?s) = (two_misses, ?s)" by simp_all
  have "unique_on pt_id (pn_tasks ?s)" by (simp add: unique_on_def)
  note all = task_polling_sound [OF t this]
  obtain u where u: "poll_answer forgetful_api ?x ?s = Some (Inl (PyException ''no such task'' None False), u)"
    using forgetful_answer by blast
  have "polled forgetful_api ?x (poll_answer forgetful_api ?x ?s) (misses (pt_id ?x) two_misses) (task_row (pt_id ?x) t)
      (misses (pt_id ?x) w')"
    using all [THEN conjunct2, THEN conjunct2, rule_format, OF conjI [OF one fold]] .
  then have row: "task_row 1 t = Some (?x\<lparr>pt_status := ''failed'', pt_exit_status := Some ''no such task'',
      pt_completed_at := Some (panel_now forgetful_api u)\<rparr>)" "misses 1 w' = None"
    unfolding u polled_def no_answer_def miss_text_def two_misses_def by (simp_all add: demo_task_def or_default_def)
  moreover obtain y where "pn_tasks t = [y]" using all by (auto simp: list_all2_Cons1)
  ultimately show ?thesis using t by (auto split: if_splits)
qed

end
