(* ===== verification/ScriptEngine.thy ===== *)
theory ScriptEngine
  imports GuestOps
begin

text \<open>
  \<^verbatim>\<open>backend/app/services/script_engine.py\<close>: running a shell script on a node over SSH, inside a container with
  \<open>pct exec\<close>, or inside a machine through its guest agent, and the block of \<open>export\<close> lines that carries the
  parameters of the script.

  \<open>ssh_api\<close> stands for \<open>SSHClient\<close> as these functions use it (\<open>connect\<close> and \<open>execute(..., return_exit_code=True)\<close>
  over paramiko; -1 is a timeout or a lost connection) and for Python's salted \<open>hash\<close>. The guest agent answers texts
  and a number (\<open>agent_text\<close>, \<open>agent_int\<close>). Text is the UTF-8 bytes of the code's text. A computation that may wait for ever
  is \<^term>\<open>None\<close> then, as in theory GuestOps.
\<close>

section \<open>Parameters as environment variables\<close>

fun shell_escape :: "string \<Rightarrow> string" where
  "shell_escape [] = []"
| "shell_escape (c # t) =
     (if c = CHR 0x27 then [CHR 0x27, CHR 0x5C, CHR 0x27, CHR 0x27] @ shell_escape t else c # shell_escape t)"

definition shell_quote :: "string \<Rightarrow> string" where
  "shell_quote v = [CHR 0x27] @ shell_escape v @ [CHR 0x27]"

definition export_line :: "string \<times> string option \<Rightarrow> string" where
  "export_line p = ''export '' @ fst p @ ''='' @ shell_quote (or_default (snd p) [])"

definition params_header :: string where
  "params_header = (''# --- '' @ [CHR 0xD0, CHR 0xBF, CHR 0xD0, CHR 0xB0, CHR 0xD1, CHR 0x80,
    CHR 0xD0, CHR 0xB0, CHR 0xD0, CHR 0xBC, CHR 0xD0, CHR 0xB5, CHR 0xD1, CHR 0x82, CHR 0xD1, CHR 0x80,
    CHR 0xD1, CHR 0x8B] @ '', '' @ [CHR 0xD0, CHR 0xBF, CHR 0xD0, CHR 0xBE, CHR 0xD0, CHR 0xB4,
    CHR 0xD1, CHR 0x81, CHR 0xD1, CHR 0x82, CHR 0xD0, CHR 0xB0, CHR 0xD0, CHR 0xB2, CHR 0xD0, CHR 0xBB,
    CHR 0xD0, CHR 0xB5, CHR 0xD0, CHR 0xBD, CHR 0xD0, CHR 0xBD, CHR 0xD1, CHR 0x8B, CHR 0xD0, CHR 0xB5]
    @ '' '' @ [CHR 0xD0, CHR 0xBA, CHR 0xD0, CHR 0xB0, CHR 0xD1, CHR 0x82, CHR 0xD0, CHR 0xB0, CHR 0xD0,
    CHR 0xBB, CHR 0xD0, CHR 0xBE, CHR 0xD0, CHR 0xB3, CHR 0xD0, CHR 0xBE, CHR 0xD0, CHR 0xBC] @ '' '' @
    [CHR 0xD1, CHR 0x81, CHR 0xD0, CHR 0xBA, CHR 0xD1, CHR 0x80, CHR 0xD0, CHR 0xB8, CHR 0xD0, CHR 0xBF,
    CHR 0xD1, CHR 0x82, CHR 0xD0, CHR 0xBE, CHR 0xD0, CHR 0xB2] @ '' ---'')"

definition params_footer :: string where
  "params_footer = (''# --- '' @ [CHR 0xD0, CHR 0xBA, CHR 0xD0, CHR 0xBE, CHR 0xD0, CHR 0xBD,
    CHR 0xD0, CHR 0xB5, CHR 0xD1, CHR 0x86] @ '' '' @ [CHR 0xD0, CHR 0xBF, CHR 0xD0, CHR 0xB0, CHR 0xD1,
    CHR 0x80, CHR 0xD0, CHR 0xB0, CHR 0xD0, CHR 0xBC, CHR 0xD0, CHR 0xB5, CHR 0xD1, CHR 0x82, CHR 0xD1,
    CHR 0x80, CHR 0xD0, CHR 0xBE, CHR 0xD0, CHR 0xB2] @ '' ---'')"

definition render_params :: "string \<Rightarrow> (string, string option) pydict \<Rightarrow> string" where
  "render_params content params =
     (if params = [] then content
      else join_with [CHR 0x0A] ([''#!/bin/sh'', params_header] @ map export_line params @ [params_footer])
        @ [CHR 0x0A] @ content)"

section \<open>Running a script\<close>

record 'w ssh_api =
  ssh_connect :: "string \<Rightarrow> string option \<Rightarrow> 'w \<Rightarrow> bool \<times> 'w"
  ssh_execute :: "string \<Rightarrow> string option \<Rightarrow> string \<Rightarrow> int \<Rightarrow> 'w \<Rightarrow> (string option \<times> int) \<times> 'w"
  py_hash :: "string \<Rightarrow> int"

record run_result =
  rr_success :: bool
  rr_output :: string
  rr_exit_code :: int
  rr_error :: "string option"

definition CMD_TIMEOUT :: int where
  "CMD_TIMEOUT = 60"

definition SCRIPT_ENV :: string where
  "SCRIPT_ENV = ''TERM=xterm''"

definition run_failed :: "string \<Rightarrow> run_result" where
  "run_failed e = \<lparr>rr_success = False, rr_output = [], rr_exit_code = - 1, rr_error = Some e\<rparr>"

definition node_host :: "server \<Rightarrow> string" where
  "node_host sv = hd (split_on (CHR '':'') (if sv_ip_address sv \<noteq> [] then sv_ip_address sv else sv_hostname sv))"

type_synonym ssh_target = "string \<times> string option"

definition node_ssh :: "server \<Rightarrow> proxmox_client \<Rightarrow> ssh_target" where
  "node_ssh sv c = (node_host sv, pc_password c)"

definition ssh_open :: "'w ssh_api \<Rightarrow> ssh_target \<Rightarrow> 'w px_state \<Rightarrow> bool \<times> 'w px_state" where
  "ssh_open S h s = (case ssh_connect S (fst h) (snd h) (px_world s) of (ok, w) \<Rightarrow> (ok, s\<lparr>px_world := w\<rparr>))"

definition ssh_exec :: "'w ssh_api \<Rightarrow> ssh_target \<Rightarrow> string \<Rightarrow> int \<Rightarrow> 'w px_state \<Rightarrow> (string option \<times> int) \<times> 'w px_state" where
  "ssh_exec S h cmd timeout s =
     (case ssh_execute S (fst h) (snd h) cmd timeout (px_world s) of (r, w) \<Rightarrow> (r, s\<lparr>px_world := w\<rparr>))"

text \<open>\<open>_run\<close>; the error is the text of the raised \<open>ScriptExecError\<close>.\<close>

definition ssh_run :: "'w ssh_api \<Rightarrow> ssh_target \<Rightarrow> string \<Rightarrow> string \<Rightarrow> 'w px_state \<Rightarrow> (string + string) \<times> 'w px_state" where
  "ssh_run S h cmd what s =
     (case ssh_exec S h cmd CMD_TIMEOUT s of ((out, exit_code), s1) \<Rightarrow>
        (if exit_code = - 1 then Inl (what @ ('': '' @ [CHR 0xD1, CHR 0x82, CHR 0xD0, CHR 0xB0,
          CHR 0xD0, CHR 0xB9, CHR 0xD0, CHR 0xBC, CHR 0xD0, CHR 0xB0, CHR 0xD1, CHR 0x83, CHR 0xD1,
          CHR 0x82] @ '' (>'') @ dec_int CMD_TIMEOUT @ ([CHR 0xD1, CHR 0x81] @ '') '' @ [CHR 0xD0,
          CHR 0xB8, CHR 0xD0, CHR 0xBB, CHR 0xD0, CHR 0xB8] @ '' '' @ [CHR 0xD0, CHR 0xBE, CHR 0xD0,
          CHR 0xB1, CHR 0xD1, CHR 0x80, CHR 0xD1, CHR 0x8B, CHR 0xD0, CHR 0xB2] @ '' SSH''))
         else if exit_code \<noteq> 0
         then Inl (what @ '': exit='' @ dec_int exit_code @ '': '' @ take 2000 (strip (or_default out [])))
         else Inr (or_default out []), s1))"

definition ssh_refused :: "server \<Rightarrow> run_result" where
  "ssh_refused sv = run_failed (([CHR 0xD0, CHR 0x9D, CHR 0xD0, CHR 0xB5] @ '' '' @ [CHR 0xD1,
    CHR 0x83, CHR 0xD0, CHR 0xB4, CHR 0xD0, CHR 0xB0, CHR 0xD0, CHR 0xBB, CHR 0xD0, CHR 0xBE, CHR 0xD1,
    CHR 0x81, CHR 0xD1, CHR 0x8C] @ '' '' @ [CHR 0xD0, CHR 0xBF, CHR 0xD0, CHR 0xBE, CHR 0xD0, CHR 0xB4,
    CHR 0xD0, CHR 0xBA, CHR 0xD0, CHR 0xBB, CHR 0xD1, CHR 0x8E, CHR 0xD1, CHR 0x87, CHR 0xD0, CHR 0xB8,
    CHR 0xD1, CHR 0x82, CHR 0xD1, CHR 0x8C, CHR 0xD1, CHR 0x81, CHR 0xD1, CHR 0x8F] @ '' '' @ [CHR 0xD0,
    CHR 0xBF, CHR 0xD0, CHR 0xBE] @ '' SSH '' @ [CHR 0xD0, CHR 0xBA] @ '' '') @ sv_name sv)"

definition finished_run :: "string option \<times> int \<Rightarrow> run_result" where
  "finished_run r = \<lparr>rr_success = (snd r = 0), rr_output = or_default (fst r) [], rr_exit_code = snd r, rr_error = None\<rparr>"

definition script_bytes :: "string \<Rightarrow> string" where
  "script_bytes script = b64encode (map of_char script)"

definition write_command :: "string \<Rightarrow> string \<Rightarrow> string" where
  "write_command b64 tmp = ''printf '' @ shell_quote ''%s'' @ '' '' @ [CHR 0x27] @ b64 @ [CHR 0x27] @
    '' | base64 -d > '' @ tmp"

definition epoch_seconds :: "'w proxmox_api \<Rightarrow> 'w px_state \<Rightarrow> int" where
  "epoch_seconds E s = api_now E (px_world s) div 1000000"

definition run_on_node :: "'w proxmox_api \<Rightarrow> 'w ssh_api \<Rightarrow> server \<Rightarrow> proxmox_client \<Rightarrow> string \<Rightarrow> string \<Rightarrow> int \<Rightarrow>
    'w px_state \<Rightarrow> run_result \<times> 'w px_state" where
  "run_on_node E S sv c script interpreter timeout s =
     (let h = node_ssh sv c in
      case ssh_open S h s of
        (False, s1) \<Rightarrow> (ssh_refused sv, s1)
      | (True, s1) \<Rightarrow>
          (let tmp = ''/tmp/pve_script_'' @ dec_int (abs (py_hash S script) mod 100000) @ ''_'' @ dec_int (epoch_seconds E s1);
               (r, s2) = (case ssh_run S h (write_command (script_bytes script) tmp @ '' && chmod +x '' @ tmp)
                       ''write script on node'' s1 of
                     (Inl e, s2) \<Rightarrow> (run_failed e, s2)
                   | (Inr _, s2) \<Rightarrow>
                       (case ssh_exec S h (SCRIPT_ENV @ '' '' @ interpreter @ '' '' @ tmp) timeout s2 of
                          (out, s3) \<Rightarrow> (finished_run out, s3)))
           in (r, snd (ssh_exec S h (''rm -f '' @ tmp) 10 s2))))"

definition run_on_lxc :: "'w proxmox_api \<Rightarrow> 'w ssh_api \<Rightarrow> server \<Rightarrow> proxmox_client \<Rightarrow> int \<Rightarrow> string \<Rightarrow> string \<Rightarrow> int \<Rightarrow>
    'w px_state \<Rightarrow> run_result \<times> 'w px_state" where
  "run_on_lxc E S sv c vmid script interpreter timeout s =
     (let h = node_ssh sv c in
      case ssh_open S h s of
        (False, s1) \<Rightarrow> (ssh_refused sv, s1)
      | (True, s1) \<Rightarrow>
          (let tmp_node = ''/tmp/pve_script_'' @ dec_int vmid @ ''_'' @ dec_int (epoch_seconds E s1);
               tmp_ct = ''/tmp/pve_script_'' @ dec_int vmid @ ''.sh'';
               (r, s4) = (case ssh_run S h (write_command (script_bytes script) tmp_node) ''write script on node'' s1 of
                     (Inl e, s2) \<Rightarrow> (run_failed e, s2)
                   | (Inr _, s2) \<Rightarrow>
                  (case ssh_run S h (''pct push '' @ dec_int vmid @ '' '' @ tmp_node @ '' '' @ tmp_ct) ''pct push script'' s2 of
                     (Inl e, s3) \<Rightarrow> (run_failed e, s3)
                   | (Inr _, s3) \<Rightarrow>
                       (case ssh_exec S h (''pct exec '' @ dec_int vmid @ '' -- env '' @ SCRIPT_ENV @ '' '' @ interpreter @ '' '' @ tmp_ct)
                           timeout s3 of
                          (out, s4) \<Rightarrow> (finished_run out, s4))));
               s5 = snd (ssh_exec S h (''rm -f '' @ tmp_node) 10 s4)
           in (r, snd (ssh_exec S h (''pct exec '' @ dec_int vmid @ '' -- rm -f '' @ tmp_ct) 10 s5))))"

definition agent_text :: "json \<Rightarrow> string" where
  "agent_text j = or_default (json_str j) []"

definition agent_int :: "json \<Rightarrow> int" where
  "agent_int j = (case j of json.JInt n \<Rightarrow> n | _ \<Rightarrow> 0)"

definition qemu_result :: "exec_result \<Rightarrow> run_result" where
  "qemu_result r =
     (case r of
        ExecFailed e \<Rightarrow> run_failed e
      | ExecDone out err exit_code \<Rightarrow>
          \<lparr>rr_success = (agent_int exit_code = 0), rr_output = agent_text out, rr_exit_code = agent_int exit_code,
           rr_error = (if agent_text err = [] then None else Some (agent_text err))\<rparr>)"

definition run_on_qemu :: "'w proxmox_api \<Rightarrow> proxmox_client \<Rightarrow> string \<Rightarrow> int \<Rightarrow> string \<Rightarrow> string \<Rightarrow> int \<Rightarrow>
    'w px_state \<Rightarrow> (run_result \<times> 'w px_state) option" where
  "run_on_qemu E c node vmid script interpreter timeout s =
     map_option (apfst qemu_result) (execute_script E c node vmid script interpreter timeout s)"

record script_target =
  st_target_type :: string
  st_node :: "string option"
  st_vmid :: "int option"
  st_vm_type :: "string option"

definition run_script :: "'w proxmox_api \<Rightarrow> 'w ssh_api \<Rightarrow> server \<Rightarrow> script_target \<Rightarrow> string \<Rightarrow> string \<Rightarrow> int \<Rightarrow>
    'w px_state \<Rightarrow> (run_result \<times> 'w px_state) option" where
  "run_script E S sv tg script interpreter timeout s0 =
     (case run_state (from_server E sv) s0 of (c, s) \<Rightarrow>
        if st_target_type tg = ''node'' then Some (run_on_node E S sv c script interpreter timeout s)
        else if st_target_type tg = ''guest'' then
          (if st_vmid tg = None \<or> \<not> truthy_str (st_node tg)
           then Some (run_failed ([CHR 0xD0, CHR 0x94, CHR 0xD0, CHR 0xBB, CHR 0xD1, CHR 0x8F] @
             '' guest-'' @ [CHR 0xD1, CHR 0x81, CHR 0xD0, CHR 0xBA, CHR 0xD1, CHR 0x80, CHR 0xD0,
             CHR 0xB8, CHR 0xD0, CHR 0xBF, CHR 0xD1, CHR 0x82, CHR 0xD0, CHR 0xB0] @ '' '' @ [CHR 0xD0,
             CHR 0xBD, CHR 0xD1, CHR 0x83, CHR 0xD0, CHR 0xB6, CHR 0xD0, CHR 0xBD, CHR 0xD1, CHR 0x8B] @
             '' node '' @ [CHR 0xD0, CHR 0xB8] @ '' vmid''), s)
           else if st_vm_type tg = Some ''lxc''
           then Some (run_on_lxc E S sv c (the (st_vmid tg)) script interpreter timeout s)
           else run_on_qemu E c (the (st_node tg)) (the (st_vmid tg)) script interpreter timeout s)
        else Some (run_failed (([CHR 0xD0, CHR 0x9D, CHR 0xD0, CHR 0xB5, CHR 0xD0, CHR 0xB8, CHR 0xD0,
          CHR 0xB7, CHR 0xD0, CHR 0xB2, CHR 0xD0, CHR 0xB5, CHR 0xD1, CHR 0x81, CHR 0xD1, CHR 0x82,
          CHR 0xD0, CHR 0xBD, CHR 0xD1, CHR 0x8B, CHR 0xD0, CHR 0xB9] @ '' target_type: '') @
          st_target_type tg), s))"

end
