(* ===== verification/Scripts.thy ===== *)
theory Scripts
  imports ScriptEngine "HOL-Library.Char_ord" "HOL-Library.List_Lexorder"
begin

text \<open>
  The catalogue of scripts: \<^verbatim>\<open>backend/app/models/scripts.py\<close>, the endpoints of \<^verbatim>\<open>api/scripts/catalog.py\<close> and
  \<^verbatim>\<open>api/scripts/executions.py\<close>, and the synchronisation with git repositories of
  \<^verbatim>\<open>services/script_catalog_sync.py\<close>.

  \<open>git_fetch\<close> stands for \<open>git clone\<close> into a fresh directory and the glob over it: the relative paths that match, with
  the text of each file or \<^term>\<open>None\<close> where reading it fails. \<open>repr_of\<close> is Python's \<open>str\<close> of a list or dictionary. The
  thread an execution runs in is the separate step \<open>run_execution_bg\<close>. Line ends and word characters are those of
  ASCII. Limits on the length of columns are left out.
\<close>

section \<open>Tables\<close>

record param_field =
  pf_name :: string
  pf_label :: string
  pf_type :: string
  pf_required :: bool
  pf_default :: "string option"

record script_row =
  sc_id :: int
  sc_name :: string
  sc_slug :: string
  sc_description :: "string option"
  sc_category :: "string option"
  sc_target_type :: string
  sc_interpreter :: string
  sc_content :: string
  sc_params :: "param_field list"
  sc_source :: string
  sc_git_repo_id :: "int option"
  sc_git_path :: "string option"
  sc_created_by :: "int option"

record git_repo =
  gp_id :: int
  gp_url :: string
  gp_branch :: string
  gp_path_glob :: string
  gp_metadata_format :: string
  gp_enabled :: bool
  gp_last_synced_at :: "int option"
  gp_last_sync_error :: "string option"

record execution =
  xe_id :: int
  xe_script_id :: "int option"
  xe_script_name :: "string option"
  xe_target_type :: string
  xe_server_id :: "int option"
  xe_node :: "string option"
  xe_vmid :: "int option"
  xe_params :: "(string, string) pydict"
  xe_status :: string
  xe_exit_code :: "int option"
  xe_output :: "string option"
  xe_error_text :: "string option"
  xe_user_id :: int
  xe_started_at :: int
  xe_finished_at :: "int option"

record 'w scripts =
  ss_panel :: "'w panel"
  ss_scripts :: "script_row list"
  ss_next_script :: int
  ss_repos :: "git_repo list"
  ss_next_repo :: int
  ss_executions :: "execution list"
  ss_next_execution :: int

datatype clone_error = CloneFailed string | CloneTimeout

record 'w script_env =
  git_fetch :: "git_repo \<Rightarrow> 'w \<Rightarrow> (clone_error + (string \<times> string option) list) \<times> 'w"
  repr_of :: "json \<Rightarrow> string"

definition find_script :: "int \<Rightarrow> 'w scripts \<Rightarrow> script_row option" where
  "find_script i s = find (\<lambda>r. sc_id r = i) (ss_scripts s)"

definition find_repo :: "int \<Rightarrow> 'w scripts \<Rightarrow> git_repo option" where
  "find_repo i s = find (\<lambda>r. gp_id r = i) (ss_repos s)"

definition find_execution :: "int \<Rightarrow> 'w scripts \<Rightarrow> execution option" where
  "find_execution i s = find (\<lambda>x. xe_id x = i) (ss_executions s)"

text \<open>Deleting rows of the catalogue sets \<open>script_id\<close> of their executions to null.\<close>

definition drop_scripts :: "(script_row \<Rightarrow> bool) \<Rightarrow> 'w scripts \<Rightarrow> 'w scripts" where
  "drop_scripts P s =
     (let gone = map sc_id (filter P (ss_scripts s))
      in s\<lparr>ss_scripts := filter (\<lambda>r. \<not> P r) (ss_scripts s),
           ss_executions := map (\<lambda>x. case xe_script_id x of
               Some i \<Rightarrow> if i \<in> set gone then x\<lparr>xe_script_id := None\<rparr> else x | None \<Rightarrow> x) (ss_executions s)\<rparr>)"

section \<open>Metadata in a script\<close>

definition is_word :: "char \<Rightarrow> bool" where
  "is_word c = (is_digit c \<or> is_upper c \<or> is_lower c \<or> c = CHR ''_'')"

definition is_break :: "char \<Rightarrow> bool" where
  "is_break c = (of_char c \<in> {10, 11, 12, 13, 28, 29, 30 :: nat})"

fun lines_from :: "string \<Rightarrow> string \<Rightarrow> string list" where
  "lines_from acc [] = (if acc = [] then [] else [rev acc])"
| "lines_from acc [c] = (if is_break c then [rev acc] else [rev (c # acc)])"
| "lines_from acc (c # d # t) =
     (if c = CHR 0x0D \<and> d = CHR 0x0A then rev acc # lines_from [] t
      else if is_break c then rev acc # lines_from [] (d # t) else lines_from (c # acc) (d # t))"

definition splitlines :: "string \<Rightarrow> string list" where
  "splitlines t = lines_from [] t"

record metadata =
  md_name :: string
  md_description :: "string option"
  md_target :: string
  md_category :: "string option"
  md_params :: "param_field list"

text \<open>\<open>^#\s*key\s*:\s*(.*)$\<close>, without regard to case, on a line that starts with \<open>#\<close>.\<close>

definition keyed :: "string \<Rightarrow> string \<Rightarrow> string option" where
  "keyed key line =
     (let t = lstrip (tl line) in
      if prefix key (lower t)
      then (case lstrip (drop (length key) t) of
              c # rest \<Rightarrow> if c = CHR '':'' then Some (lstrip rest) else None
            | [] \<Rightarrow> None)
      else None)"

definition nth_or :: "string list \<Rightarrow> nat \<Rightarrow> string \<Rightarrow> string" where
  "nth_or parts i d = (if i < length parts \<and> parts ! i \<noteq> [] then parts ! i else d)"

definition param_of :: "string \<Rightarrow> param_field option" where
  "param_of spec =
     (let parts = map strip (split_on (CHR ''|'') spec); p_name = hd parts in
      if p_name = [] then None
      else Some \<lparr>pf_name = p_name, pf_label = nth_or parts 1 p_name, pf_type = nth_or parts 2 ''string'',
        pf_required = (3 < length parts \<and> lower (parts ! 3) = ''true''),
        pf_default = (if 4 < length parts then Some (parts ! 4) else None)\<rparr>)"

definition read_meta :: "string \<Rightarrow> metadata \<Rightarrow> metadata" where
  "read_meta line m =
     (case keyed ''name'' line of
        Some v \<Rightarrow> m\<lparr>md_name := strip v\<rparr>
      | None \<Rightarrow>
     (case keyed ''description'' line of
        Some v \<Rightarrow> m\<lparr>md_description := Some (strip v)\<rparr>
      | None \<Rightarrow>
     (case keyed ''target'' line of
        Some v \<Rightarrow> m\<lparr>md_target := (if strip v \<in> {''node'', ''guest''} then strip v else ''guest'')\<rparr>
      | None \<Rightarrow>
     (case keyed ''category'' line of
        Some v \<Rightarrow> m\<lparr>md_category := Some (strip v)\<rparr>
      | None \<Rightarrow>
     (case keyed ''param'' line of
        Some v \<Rightarrow> (case param_of v of None \<Rightarrow> m | Some p \<Rightarrow> m\<lparr>md_params := md_params m @ [p]\<rparr>)
      | None \<Rightarrow> m)))))"

fun header_lines :: "string list \<Rightarrow> metadata \<Rightarrow> metadata" where
  "header_lines [] m = m"
| "header_lines (l # ls) m =
     (let line = strip l in
      if line = [] then header_lines ls m
      else if hd line \<noteq> CHR ''#'' then m
      else header_lines ls (read_meta line m))"

definition parse_script_metadata :: "string \<Rightarrow> string \<Rightarrow> metadata" where
  "parse_script_metadata body fallback =
     header_lines (take 60 (splitlines body))
       \<lparr>md_name = fallback, md_description = None, md_target = ''guest'', md_category = None, md_params = []\<rparr>"

text \<open>\<open>^APP="([^"]+)"\<close> and \<open>^(var_\w+)="\$\{var_\w+:-([^}]*)\}"$\<close>.\<close>

definition match_app :: "string \<Rightarrow> string option" where
  "match_app line =
     (if prefix (''APP='' @ [CHR 0x22]) line
      then (let t = drop 5 line; v = takeWhile (\<lambda>c. c \<noteq> CHR 0x22) t
            in if v \<noteq> [] \<and> length v < length t then Some v else None)
      else None)"

definition match_var_name :: "string \<Rightarrow> (string \<times> string) option" where
  "match_var_name t =
     (if prefix ''var_'' t \<and> takeWhile is_word (drop 4 t) \<noteq> []
      then Some (''var_'' @ takeWhile is_word (drop 4 t), dropWhile is_word (drop 4 t)) else None)"

definition match_var :: "string \<Rightarrow> (string \<times> string) option" where
  "match_var line =
     (case match_var_name line of
        None \<Rightarrow> None
      | Some (name, t) \<Rightarrow>
          if \<not> prefix (''='' @ [CHR 0x22] @ ''${'') t then None
          else (case match_var_name (drop 4 t) of
              None \<Rightarrow> None
            | Some (_, u) \<Rightarrow>
                if \<not> prefix '':-'' u then None
                else (let v = drop 2 u; d = takeWhile (\<lambda>c. c \<noteq> CHR ''}'') v
                      in if drop (length d) v = [CHR ''}'', CHR 0x22] then Some (name, d) else None)))"

definition capitalized :: "string \<Rightarrow> string" where
  "capitalized t = (case t of [] \<Rightarrow> [] | c # u \<Rightarrow> upper_char c # lower u)"

definition isdigit :: "string \<Rightarrow> bool" where
  "isdigit t = (t \<noteq> [] \<and> list_all is_digit t)"

definition community_param :: "string \<Rightarrow> string \<Rightarrow> param_field" where
  "community_param name d =
     \<lparr>pf_name = name, pf_label = capitalized (map (\<lambda>c. if c = CHR ''_'' then CHR '' '' else c) (drop 4 name)),
      pf_type = (if isdigit (dropWhile (\<lambda>c. c = CHR ''-'') d) then ''number'' else ''string''),
      pf_required = False, pf_default = Some d\<rparr>"

fun community_lines :: "string list \<Rightarrow> string \<Rightarrow> param_field list \<Rightarrow> string \<times> param_field list" where
  "community_lines [] name ps = (name, ps)"
| "community_lines (l # ls) name ps =
     (case match_app (strip l) of
        Some app \<Rightarrow> community_lines ls app ps
      | None \<Rightarrow> (case match_var (strip l) of
            Some (v, d) \<Rightarrow> community_lines ls name (ps @ [community_param v d])
          | None \<Rightarrow> community_lines ls name ps))"

definition parse_community_metadata :: "string \<Rightarrow> string \<Rightarrow> metadata" where
  "parse_community_metadata body fallback =
     (case community_lines (splitlines body) fallback [] of
        (name, ps) \<Rightarrow> \<lparr>md_name = name, md_description = Some (''Community-Scripts LXC installer: '' @ name),
          md_target = ''node'', md_category = Some ''LXC (community-scripts)'', md_params = ps\<rparr>)"

section \<open>Synchronisation with a repository\<close>

definition is_community :: "git_repo \<Rightarrow> bool" where
  "is_community r = (gp_metadata_format r = ''community-scripts-ct'')"

definition record_source :: "git_repo \<Rightarrow> string" where
  "record_source r = (if is_community r then ''community-scripts'' else ''git'')"

definition dashed :: "string \<Rightarrow> string" where
  "dashed t = map (\<lambda>c. if c = CHR ''/'' \<or> c = CHR 0x5C then CHR ''-'' else c) t"

definition git_slug :: "git_repo \<Rightarrow> string \<Rightarrow> string" where
  "git_slug r path = dashed (''git-'' @ dec_int (gp_id r) @ ''-'' @ path)"

definition basename :: "string \<Rightarrow> string" where
  "basename path = List.last (split_on (CHR ''/'') path)"

definition file_metadata :: "git_repo \<Rightarrow> string \<Rightarrow> string \<Rightarrow> metadata" where
  "file_metadata r path content =
     (if is_community r then parse_community_metadata content (basename path)
      else parse_script_metadata content (basename path))"

definition from_git :: "git_repo \<Rightarrow> string \<Rightarrow> string \<Rightarrow> script_row \<Rightarrow> script_row" where
  "from_git r path content row =
     (let m = file_metadata r path content
      in row\<lparr>sc_name := md_name m, sc_description := md_description m, sc_target_type := md_target m,
             sc_category := md_category m, sc_params := md_params m, sc_content := content,
             sc_git_path := Some path, sc_source := record_source r\<rparr>)"

definition new_script :: "int \<Rightarrow> string \<Rightarrow> git_repo \<Rightarrow> script_row" where
  "new_script i slug r = \<lparr>sc_id = i, sc_name = [], sc_slug = slug, sc_description = None, sc_category = None,
     sc_target_type = ''guest'', sc_interpreter = ''/bin/bash'', sc_content = [], sc_params = [],
     sc_source = [], sc_git_repo_id = Some (gp_id r), sc_git_path = None, sc_created_by = None\<rparr>"

definition upsert_script :: "git_repo \<Rightarrow> string \<Rightarrow> string \<Rightarrow> 'w scripts \<Rightarrow> 'w scripts" where
  "upsert_script r path content s =
     (let slug = git_slug r path in
      if find (\<lambda>x. sc_slug x = slug) (ss_scripts s) \<noteq> None
      then s\<lparr>ss_scripts := update_first (\<lambda>x. sc_slug x = slug) (from_git r path content) (ss_scripts s)\<rparr>
      else s\<lparr>ss_scripts := ss_scripts s @ [from_git r path content (new_script (ss_next_script s) slug r)],
             ss_next_script := ss_next_script s + 1\<rparr>)"

record sync_counts =
  sk_created :: nat
  sk_updated :: nat
  sk_errors :: nat
  sk_disappeared :: nat

fun sync_files :: "git_repo \<Rightarrow> (string \<times> string option) list \<Rightarrow> string list \<Rightarrow> sync_counts \<Rightarrow> 'w scripts \<Rightarrow>
    (string list \<times> sync_counts) \<times> 'w scripts" where
  "sync_files r [] seen n s = ((seen, n), s)"
| "sync_files r ((path, None) # fs) seen n s = sync_files r fs seen (n\<lparr>sk_errors := sk_errors n + 1\<rparr>) s"
| "sync_files r ((path, Some content) # fs) seen n s =
     (let fresh = (find (\<lambda>x. sc_slug x = git_slug r path) (ss_scripts s) = None)
      in sync_files r fs (seen @ [git_slug r path])
           (if fresh then n\<lparr>sk_created := sk_created n + 1\<rparr> else n\<lparr>sk_updated := sk_updated n + 1\<rparr>)
           (upsert_script r path content s))"

definition store_repo :: "int \<Rightarrow> (git_repo \<Rightarrow> git_repo) \<Rightarrow> 'w scripts \<Rightarrow> 'w scripts" where
  "store_repo i f s = s\<lparr>ss_repos := update_first (\<lambda>r. gp_id r = i) f (ss_repos s)\<rparr>"

definition clone_error_text :: "clone_error \<Rightarrow> string" where
  "clone_error_text e = (case e of CloneFailed t \<Rightarrow> take 1000 t | CloneTimeout \<Rightarrow> ''git clone timeout (>120s)'')"

definition world_step :: "('w \<Rightarrow> 'a \<times> 'w) \<Rightarrow> 'w scripts \<Rightarrow> 'a \<times> 'w scripts" where
  "world_step f s =
     (case f (px_world (pn_px (ss_panel s))) of
        (a, w) \<Rightarrow> (a, s\<lparr>ss_panel := (ss_panel s)\<lparr>pn_px := (pn_px (ss_panel s))\<lparr>px_world := w\<rparr>\<rparr>\<rparr>))"

definition is_stale :: "git_repo \<Rightarrow> string list \<Rightarrow> script_row \<Rightarrow> bool" where
  "is_stale r seen row = (sc_git_repo_id row = Some (gp_id r) \<and> (seen \<noteq> [] \<longrightarrow> sc_slug row \<notin> set seen))"

definition sync_git_repo :: "'w script_env \<Rightarrow> int \<Rightarrow> git_repo \<Rightarrow> 'w scripts \<Rightarrow> (string + sync_counts) \<times> 'w scripts" where
  "sync_git_repo G now r s =
     (case world_step (git_fetch G r) s of
        (Inl e, s1) \<Rightarrow> (Inl (clone_error_text e),
          store_repo (gp_id r) (\<lambda>x. x\<lparr>gp_last_sync_error := Some (clone_error_text e)\<rparr>) s1)
      | (Inr files, s1) \<Rightarrow>
          (case sync_files r files [] \<lparr>sk_created = 0, sk_updated = 0, sk_errors = 0, sk_disappeared = 0\<rparr> s1 of
             ((seen, n), s2) \<Rightarrow>
               (Inr (n\<lparr>sk_disappeared := length (filter (is_stale r seen) (ss_scripts s2))\<rparr>),
                store_repo (gp_id r) (\<lambda>x. x\<lparr>gp_last_synced_at := Some now, gp_last_sync_error := None\<rparr>)
                  (drop_scripts (is_stale r seen) s2))))"

section \<open>The catalogue\<close>

definition slug_char :: "char \<Rightarrow> bool" where
  "slug_char c = (is_lower c \<or> is_digit c)"

text \<open>\<open>^[a-z0-9]([a-z0-9-]{0,98}[a-z0-9])?$\<close>; \<open>$\<close> also matches before a line end that ends the text.\<close>

definition slug_ok :: "string \<Rightarrow> bool" where
  "slug_ok t0 =
     (let t = (if t0 \<noteq> [] \<and> List.last t0 = CHR 0x0A then butlast t0 else t0)
      in t \<noteq> [] \<and> length t \<le> 100 \<and> slug_char (hd t) \<and> slug_char (List.last t) \<and>
         list_all (\<lambda>c. slug_char c \<or> c = CHR ''-'') t)"

record script_create =
  cr_name :: string
  cr_slug :: string
  cr_description :: "string option"
  cr_category :: "string option"
  cr_target_type :: string
  cr_interpreter :: string
  cr_content :: string
  cr_params :: "param_field list"

definition script_missing :: http_error where
  "script_missing = HTTPException 404 (Msg ([CHR 0xD0, CHR 0xA1, CHR 0xD0, CHR 0xBA, CHR 0xD1,
    CHR 0x80, CHR 0xD0, CHR 0xB8, CHR 0xD0, CHR 0xBF, CHR 0xD1, CHR 0x82] @ '' '' @ [CHR 0xD0, CHR 0xBD,
    CHR 0xD0, CHR 0xB5] @ '' '' @ [CHR 0xD0, CHR 0xBD, CHR 0xD0, CHR 0xB0, CHR 0xD0, CHR 0xB9, CHR 0xD0,
    CHR 0xB4, CHR 0xD0, CHR 0xB5, CHR 0xD0, CHR 0xBD]))"

definition repo_missing :: http_error where
  "repo_missing = HTTPException 404 (Msg ([CHR 0xD0, CHR 0x98, CHR 0xD1, CHR 0x81, CHR 0xD1, CHR 0x82,
    CHR 0xD0, CHR 0xBE, CHR 0xD1, CHR 0x87, CHR 0xD0, CHR 0xBD, CHR 0xD0, CHR 0xB8, CHR 0xD0, CHR 0xBA]
    @ '' '' @ [CHR 0xD0, CHR 0xBD, CHR 0xD0, CHR 0xB5] @ '' '' @ [CHR 0xD0, CHR 0xBD, CHR 0xD0,
    CHR 0xB0, CHR 0xD0, CHR 0xB9, CHR 0xD0, CHR 0xB4, CHR 0xD0, CHR 0xB5, CHR 0xD0, CHR 0xBD]))"

definition list_scripts :: "user \<Rightarrow> 'w scripts \<Rightarrow> http_error + script_row list" where
  "list_scripts u s = (case PermissionChecker ''script:view'' u of
       Inl e \<Rightarrow> Inl e | Inr _ \<Rightarrow> Inr (sort_key sc_name (ss_scripts s)))"

definition get_script :: "int \<Rightarrow> user \<Rightarrow> 'w scripts \<Rightarrow> http_error + script_row" where
  "get_script i u s = (case PermissionChecker ''script:view'' u of
       Inl e \<Rightarrow> Inl e
     | Inr _ \<Rightarrow> (case find_script i s of None \<Rightarrow> Inl script_missing | Some r \<Rightarrow> Inr r))"

definition create_script :: "user \<Rightarrow> script_create \<Rightarrow> 'w scripts \<Rightarrow> (http_error + script_row) \<times> 'w scripts" where
  "create_script u d s =
     (case PermissionChecker ''script:manage'' u of
        Inl e \<Rightarrow> (Inl e, s)
      | Inr _ \<Rightarrow>
        if \<not> slug_ok (cr_slug d) then (Inl (HTTPException 400 (Msg ([CHR 0xD0, CHR 0x9D,
          CHR 0xD0, CHR 0xB5, CHR 0xD0, CHR 0xBA, CHR 0xD0, CHR 0xBE, CHR 0xD1, CHR 0x80, CHR 0xD1,
          CHR 0x80, CHR 0xD0, CHR 0xB5, CHR 0xD0, CHR 0xBA, CHR 0xD1, CHR 0x82, CHR 0xD0, CHR 0xBD,
          CHR 0xD1, CHR 0x8B, CHR 0xD0, CHR 0xB9] @ '' slug (a-z0-9-)''))), s)
        else if find (\<lambda>r. sc_slug r = cr_slug d) (ss_scripts s) \<noteq> None
        then (Inl (HTTPException 409 (Msg ([CHR 0xD0, CHR 0xA1, CHR 0xD0, CHR 0xBA, CHR 0xD1,
          CHR 0x80, CHR 0xD0, CHR 0xB8, CHR 0xD0, CHR 0xBF, CHR 0xD1, CHR 0x82] @ '' '' @ [CHR 0xD1,
          CHR 0x81] @ '' '' @ [CHR 0xD1, CHR 0x82, CHR 0xD0, CHR 0xB0, CHR 0xD0, CHR 0xBA, CHR 0xD0,
          CHR 0xB8, CHR 0xD0, CHR 0xBC] @ '' slug '' @ [CHR 0xD1, CHR 0x83, CHR 0xD0, CHR 0xB6,
          CHR 0xD0, CHR 0xB5] @ '' '' @ [CHR 0xD1, CHR 0x81, CHR 0xD1, CHR 0x83, CHR 0xD1, CHR 0x89,
          CHR 0xD0, CHR 0xB5, CHR 0xD1, CHR 0x81, CHR 0xD1, CHR 0x82, CHR 0xD0, CHR 0xB2, CHR 0xD1,
          CHR 0x83, CHR 0xD0, CHR 0xB5, CHR 0xD1, CHR 0x82]))), s)
        else
          (let r = \<lparr>sc_id = ss_next_script s, sc_name = cr_name d, sc_slug = cr_slug d,
                 sc_description = cr_description d, sc_category = cr_category d, sc_target_type = cr_target_type d,
                 sc_interpreter = (if cr_interpreter d = [] then ''/bin/bash'' else cr_interpreter d),
                 sc_content = cr_content d, sc_params = cr_params d, sc_source = ''manual'',
                 sc_git_repo_id = None, sc_git_path = None, sc_created_by = Some (user_id u)\<rparr>
           in (Inr r, s\<lparr>ss_scripts := ss_scripts s @ [r], ss_next_script := ss_next_script s + 1\<rparr>)))"

record script_update =
  up_name :: "string option"
  up_description :: "string option"
  up_category :: "string option"
  up_target_type :: "string option"
  up_interpreter :: "string option"
  up_content :: "string option"
  up_params :: "param_field list option"

definition updated_script :: "script_update \<Rightarrow> script_row \<Rightarrow> script_row" where
  "updated_script d r = r\<lparr>
     sc_name := or_default (up_name d) (sc_name r),
     sc_description := (case up_description d of None \<Rightarrow> sc_description r | Some v \<Rightarrow> Some v),
     sc_category := (case up_category d of None \<Rightarrow> sc_category r | Some v \<Rightarrow> Some v),
     sc_target_type := or_default (up_target_type d) (sc_target_type r),
     sc_interpreter := or_default (up_interpreter d) (sc_interpreter r),
     sc_content := or_default (up_content d) (sc_content r),
     sc_params := or_default (up_params d) (sc_params r)\<rparr>"

definition update_script :: "int \<Rightarrow> user \<Rightarrow> script_update \<Rightarrow> 'w scripts \<Rightarrow> (http_error + script_row) \<times> 'w scripts" where
  "update_script i u d s =
     (case PermissionChecker ''script:manage'' u of
        Inl e \<Rightarrow> (Inl e, s)
      | Inr _ \<Rightarrow>
     (case find_script i s of
        None \<Rightarrow> (Inl script_missing, s)
      | Some r \<Rightarrow>
        if sc_source r \<noteq> ''manual''
        then (Inl (HTTPException 400 (Msg ([CHR 0xD0, CHR 0xA1, CHR 0xD0, CHR 0xBA, CHR 0xD1,
          CHR 0x80, CHR 0xD0, CHR 0xB8, CHR 0xD0, CHR 0xBF, CHR 0xD1, CHR 0x82, CHR 0xD1, CHR 0x8B] @
          '' '' @ [CHR 0xD0, CHR 0xB8, CHR 0xD0, CHR 0xB7] @ '' git-'' @ [CHR 0xD0, CHR 0xB8, CHR 0xD1,
          CHR 0x81, CHR 0xD1, CHR 0x82, CHR 0xD0, CHR 0xBE, CHR 0xD1, CHR 0x87, CHR 0xD0, CHR 0xBD,
          CHR 0xD0, CHR 0xB8, CHR 0xD0, CHR 0xBA, CHR 0xD0, CHR 0xB0] @ '' '' @ [CHR 0xD0, CHR 0xBD,
          CHR 0xD0, CHR 0xB5, CHR 0xD0, CHR 0xBB, CHR 0xD1, CHR 0x8C, CHR 0xD0, CHR 0xB7, CHR 0xD1,
          CHR 0x8F] @ '' '' @ [CHR 0xD1, CHR 0x80, CHR 0xD0, CHR 0xB5, CHR 0xD0, CHR 0xB4, CHR 0xD0,
          CHR 0xB0, CHR 0xD0, CHR 0xBA, CHR 0xD1, CHR 0x82, CHR 0xD0, CHR 0xB8, CHR 0xD1, CHR 0x80,
          CHR 0xD0, CHR 0xBE, CHR 0xD0, CHR 0xB2, CHR 0xD0, CHR 0xB0, CHR 0xD1, CHR 0x82, CHR 0xD1,
          CHR 0x8C] @ '' '' @ [CHR 0xD0, CHR 0xB2, CHR 0xD1, CHR 0x80, CHR 0xD1, CHR 0x83, CHR 0xD1,
          CHR 0x87, CHR 0xD0, CHR 0xBD, CHR 0xD1, CHR 0x83, CHR 0xD1, CHR 0x8E]))), s)
        else (Inr (updated_script d r),
          s\<lparr>ss_scripts := update_first (\<lambda>x. sc_id x = i) (updated_script d) (ss_scripts s)\<rparr>)))"

definition delete_script :: "int \<Rightarrow> user \<Rightarrow> 'w scripts \<Rightarrow> (http_error + unit) \<times> 'w scripts" where
  "delete_script i u s =
     (case PermissionChecker ''script:manage'' u of
        Inl e \<Rightarrow> (Inl e, s)
      | Inr _ \<Rightarrow>
     (case find_script i s of
        None \<Rightarrow> (Inl script_missing, s)
      | Some r \<Rightarrow>
        if sc_source r \<noteq> ''manual''
        then (Inl (HTTPException 400 (Msg ([CHR 0xD0, CHR 0xA1, CHR 0xD0, CHR 0xBA, CHR 0xD1,
          CHR 0x80, CHR 0xD0, CHR 0xB8, CHR 0xD0, CHR 0xBF, CHR 0xD1, CHR 0x82, CHR 0xD1, CHR 0x8B] @
          '' '' @ [CHR 0xD0, CHR 0xB8, CHR 0xD0, CHR 0xB7] @ '' git-'' @ [CHR 0xD0, CHR 0xB8, CHR 0xD1,
          CHR 0x81, CHR 0xD1, CHR 0x82, CHR 0xD0, CHR 0xBE, CHR 0xD1, CHR 0x87, CHR 0xD0, CHR 0xBD,
          CHR 0xD0, CHR 0xB8, CHR 0xD0, CHR 0xBA, CHR 0xD0, CHR 0xB0] @ '' '' @ [CHR 0xD1, CHR 0x83,
          CHR 0xD0, CHR 0xB4, CHR 0xD0, CHR 0xB0, CHR 0xD0, CHR 0xBB, CHR 0xD1, CHR 0x8F, CHR 0xD1,
          CHR 0x8E, CHR 0xD1, CHR 0x82, CHR 0xD1, CHR 0x81, CHR 0xD1, CHR 0x8F] @ '' '' @ [CHR 0xD0,
          CHR 0xB2, CHR 0xD0, CHR 0xBC, CHR 0xD0, CHR 0xB5, CHR 0xD1, CHR 0x81, CHR 0xD1, CHR 0x82,
          CHR 0xD0, CHR 0xB5] @ '' '' @ [CHR 0xD1, CHR 0x81] @ '' '' @ [CHR 0xD0, CHR 0xB8, CHR 0xD1,
          CHR 0x81, CHR 0xD1, CHR 0x82, CHR 0xD0, CHR 0xBE, CHR 0xD1, CHR 0x87, CHR 0xD0, CHR 0xBD,
          CHR 0xD0, CHR 0xB8, CHR 0xD0, CHR 0xBA, CHR 0xD0, CHR 0xBE, CHR 0xD0, CHR 0xBC]))), s)
        else (Inr (), drop_scripts (\<lambda>x. sc_id x = i) s)))"

definition list_repos :: "user \<Rightarrow> 'w scripts \<Rightarrow> http_error + git_repo list" where
  "list_repos u s = (case PermissionChecker ''script:manage'' u of
       Inl e \<Rightarrow> Inl e | Inr _ \<Rightarrow> Inr (sort_key gp_id (ss_repos s)))"

record repo_create =
  rc_url :: string
  rc_branch :: string
  rc_path_glob :: string
  rc_metadata_format :: string
  rc_enabled :: bool

definition create_repo :: "user \<Rightarrow> repo_create \<Rightarrow> 'w scripts \<Rightarrow> (http_error + git_repo) \<times> 'w scripts" where
  "create_repo u d s =
     (case PermissionChecker ''script:manage'' u of
        Inl e \<Rightarrow> (Inl e, s)
      | Inr _ \<Rightarrow>
          (let r = \<lparr>gp_id = ss_next_repo s, gp_url = rc_url d, gp_branch = rc_branch d,
                 gp_path_glob = rc_path_glob d, gp_metadata_format = rc_metadata_format d,
                 gp_enabled = rc_enabled d, gp_last_synced_at = None, gp_last_sync_error = None\<rparr>
           in (Inr r, s\<lparr>ss_repos := ss_repos s @ [r], ss_next_repo := ss_next_repo s + 1\<rparr>)))"

definition sync_repo :: "'w script_env \<Rightarrow> int \<Rightarrow> int \<Rightarrow> user \<Rightarrow> 'w scripts \<Rightarrow>
    (http_error + string + sync_counts) \<times> 'w scripts" where
  "sync_repo G now i u s =
     (case PermissionChecker ''script:manage'' u of
        Inl e \<Rightarrow> (Inl e, s)
      | Inr _ \<Rightarrow>
     (case find_repo i s of
        None \<Rightarrow> (Inl repo_missing, s)
      | Some r \<Rightarrow> apfst Inr (sync_git_repo G now r s)))"

definition delete_repo :: "int \<Rightarrow> user \<Rightarrow> 'w scripts \<Rightarrow> (http_error + unit) \<times> 'w scripts" where
  "delete_repo i u s =
     (case PermissionChecker ''script:manage'' u of
        Inl e \<Rightarrow> (Inl e, s)
      | Inr _ \<Rightarrow>
     (case find_repo i s of
        None \<Rightarrow> (Inl repo_missing, s)
      | Some r \<Rightarrow>
        (Inr (), (drop_scripts (\<lambda>x. sc_git_repo_id x = Some i) s)\<lparr>
           ss_repos := remove_first (\<lambda>x. gp_id x = i) (ss_repos s)\<rparr>)))"

section \<open>Executions\<close>

record execute_request =
  xq_server_id :: int
  xq_node :: "string option"
  xq_vmid :: "int option"
  xq_vm_type :: "string option"
  xq_params :: "(string, json) pydict"
  xq_timeout :: int

definition str_of :: "'w script_env \<Rightarrow> json \<Rightarrow> string" where
  "str_of G j =
     (case j of
        json.JNull \<Rightarrow> ''None''
      | json.JBool b \<Rightarrow> (if b then ''True'' else ''False'')
      | json.JInt n \<Rightarrow> dec_int n
      | json.JStr t \<Rightarrow> t
      | _ \<Rightarrow> repr_of G j)"

text \<open>Missing values: an error for a required parameter, its default otherwise.\<close>

fun fill_params :: "param_field list \<Rightarrow> (string, json) pydict \<Rightarrow> http_error + (string, json) pydict" where
  "fill_params [] ps = Inr ps"
| "fill_params (f # fs) ps =
     (if pf_name f = [] then fill_params fs ps
      else if dget ps (pf_name f) \<in> {json.JNull, json.JStr []} then
        (if pf_required f
         then Inl (HTTPException 400 (Msg (([CHR 0xD0, CHR 0x9F, CHR 0xD0, CHR 0xB0, CHR 0xD1,
           CHR 0x80, CHR 0xD0, CHR 0xB0, CHR 0xD0, CHR 0xBC, CHR 0xD0, CHR 0xB5, CHR 0xD1, CHR 0x82,
           CHR 0xD1, CHR 0x80] @ '' '' @ [CHR 0x27]) @ pf_name f @ ([CHR 0x27] @ '' '' @ [CHR 0xD0,
           CHR 0xBE, CHR 0xD0, CHR 0xB1, CHR 0xD1, CHR 0x8F, CHR 0xD0, CHR 0xB7, CHR 0xD0, CHR 0xB0,
           CHR 0xD1, CHR 0x82, CHR 0xD0, CHR 0xB5, CHR 0xD0, CHR 0xBB, CHR 0xD0, CHR 0xB5, CHR 0xD0,
           CHR 0xBD]))))
         else (case pf_default f of
             None \<Rightarrow> fill_params fs ps
           | Some d \<Rightarrow> fill_params fs (AList.update (pf_name f) (json.JStr d) ps)))
      else fill_params fs ps)"

definition used_params :: "'w script_env \<Rightarrow> param_field list \<Rightarrow> (string, json) pydict \<Rightarrow> (string, string) pydict" where
  "used_params G schema ps =
     map (\<lambda>(k, v). (k, str_of G v)) (filter (\<lambda>(k, v). k \<in> pf_name ` set schema) ps)"

definition script_timeout :: "execute_request \<Rightarrow> script_row \<Rightarrow> int" where
  "script_timeout q r =
     (if xq_timeout q \<noteq> 0 then xq_timeout q else if sc_source r = ''community-scripts'' then 1800 else 60)"

text \<open>What the thread of an execution is started with.\<close>

record execution_job =
  xj_execution_id :: int
  xj_server_id :: int
  xj_target :: script_target
  xj_rendered :: string
  xj_interpreter :: string
  xj_timeout :: int

definition execute_catalog_script :: "'w script_env \<Rightarrow> int \<Rightarrow> int \<Rightarrow> user \<Rightarrow> execute_request \<Rightarrow> 'w scripts \<Rightarrow>
    (http_error + execution \<times> execution_job) \<times> 'w scripts" where
  "execute_catalog_script G now i u q s =
     (case PermissionChecker ''script:execute'' u of
        Inl e \<Rightarrow> (Inl e, s)
      | Inr _ \<Rightarrow>
     (case find_script i s of
        None \<Rightarrow> (Inl script_missing, s)
      | Some r \<Rightarrow>
     (case find_server (xq_server_id q) (ss_panel s) of
        None \<Rightarrow> (Inl (HTTPException 404 (Msg ([CHR 0xD0, CHR 0xA1, CHR 0xD0, CHR 0xB5,
          CHR 0xD1, CHR 0x80, CHR 0xD0, CHR 0xB2, CHR 0xD0, CHR 0xB5, CHR 0xD1, CHR 0x80] @ '' '' @
          [CHR 0xD0, CHR 0xBD, CHR 0xD0, CHR 0xB5] @ '' '' @ [CHR 0xD0, CHR 0xBD, CHR 0xD0, CHR 0xB0,
          CHR 0xD0, CHR 0xB9, CHR 0xD0, CHR 0xB4, CHR 0xD0, CHR 0xB5, CHR 0xD0, CHR 0xBD]))), s)
      | Some sv \<Rightarrow>
        if sc_target_type r = ''guest'' \<and>
           (xq_vmid q = None \<or> \<not> truthy_str (xq_node q) \<or> \<not> truthy_str (xq_vm_type q))
        then (Inl (HTTPException 400 (Msg ([CHR 0xD0, CHR 0x94, CHR 0xD0, CHR 0xBB, CHR 0xD1,
          CHR 0x8F] @ '' guest-'' @ [CHR 0xD1, CHR 0x81, CHR 0xD0, CHR 0xBA, CHR 0xD1, CHR 0x80,
          CHR 0xD0, CHR 0xB8, CHR 0xD0, CHR 0xBF, CHR 0xD1, CHR 0x82, CHR 0xD0, CHR 0xB0] @ '' '' @
          [CHR 0xD0, CHR 0xBD, CHR 0xD1, CHR 0x83, CHR 0xD0, CHR 0xB6, CHR 0xD0, CHR 0xBD, CHR 0xD1,
          CHR 0x8B] @ '' node, vmid '' @ [CHR 0xD0, CHR 0xB8] @ '' vm_type''))), s)
        else (case fill_params (sc_params r) (xq_params q) of
            Inl e \<Rightarrow> (Inl e, s)
          | Inr filled \<Rightarrow>
              (let ps = used_params G (sc_params r) filled;
                   x = \<lparr>xe_id = ss_next_execution s, xe_script_id = Some (sc_id r), xe_script_name = Some (sc_name r),
                     xe_target_type = sc_target_type r, xe_server_id = Some (sv_id sv), xe_node = xq_node q,
                     xe_vmid = xq_vmid q, xe_params = ps, xe_status = ''running'', xe_exit_code = None,
                     xe_output = None, xe_error_text = None, xe_user_id = user_id u, xe_started_at = now,
                     xe_finished_at = None\<rparr>;
                   j = \<lparr>xj_execution_id = xe_id x, xj_server_id = sv_id sv,
                     xj_target = \<lparr>st_target_type = sc_target_type r, st_node = xq_node q, st_vmid = xq_vmid q,
                       st_vm_type = xq_vm_type q\<rparr>,
                     xj_rendered = render_params (sc_content r) (map (apsnd Some) ps),
                     xj_interpreter = sc_interpreter r, xj_timeout = script_timeout q r\<rparr>
               in (Inr (x, j), s\<lparr>ss_executions := ss_executions s @ [x],
                     ss_next_execution := ss_next_execution s + 1\<rparr>))))))"

definition MAX_OUTPUT :: nat where
  "MAX_OUTPUT = 200000"

definition execution_done :: "run_result \<Rightarrow> int \<Rightarrow> execution \<Rightarrow> execution" where
  "execution_done r now x = x\<lparr>
     xe_status := (if rr_success r then ''success'' else ''failed''), xe_exit_code := Some (rr_exit_code r),
     xe_output := Some (take MAX_OUTPUT (rr_output r)), xe_error_text := rr_error r, xe_finished_at := Some now\<rparr>"

definition run_execution_bg :: "'w proxmox_api \<Rightarrow> 'w ssh_api \<Rightarrow> execution_job \<Rightarrow> 'w scripts \<Rightarrow> 'w scripts option" where
  "run_execution_bg E S j s =
     (case (find_server (xj_server_id j) (ss_panel s), find_execution (xj_execution_id j) s) of
        (Some sv, Some x) \<Rightarrow>
          (case run_script E S (server.truncate sv) (xj_target j) (xj_rendered j) (xj_interpreter j) (xj_timeout j)
               (pn_px (ss_panel s)) of
             None \<Rightarrow> None
           | Some (r, p) \<Rightarrow>
               (let s1 = s\<lparr>ss_panel := (ss_panel s)\<lparr>pn_px := p\<rparr>\<rparr>
                in Some (s1\<lparr>ss_executions := update_first (\<lambda>y. xe_id y = xe_id x)
                     (execution_done r (panel_now E (ss_panel s1))) (ss_executions s1)\<rparr>)))
      | _ \<Rightarrow> Some s)"

definition can_admin :: "user \<Rightarrow> bool" where
  "can_admin u = (is_admin u \<or> user_has_permission u ''script:manage'')"

text \<open>\<open>limit(n)\<close> with a negative number is refused by the database.\<close>

definition list_executions :: "int \<Rightarrow> user \<Rightarrow> 'w scripts \<Rightarrow> http_error + execution list" where
  "list_executions limit u s =
     (case PermissionChecker ''script:view'' u of
        Inl e \<Rightarrow> Inl e
      | Inr _ \<Rightarrow> if limit < 0 then Inl (HTTPException 500 (Msg ''Internal Server Error''))
          else Inr (take (nat (min limit 200)) (sort_key (\<lambda>x. - xe_started_at x)
            (filter (\<lambda>x. can_admin u \<or> xe_user_id x = user_id u) (ss_executions s)))))"

definition get_execution :: "int \<Rightarrow> user \<Rightarrow> 'w scripts \<Rightarrow> http_error + execution" where
  "get_execution i u s =
     (case PermissionChecker ''script:view'' u of
        Inl e \<Rightarrow> Inl e
      | Inr _ \<Rightarrow>
     (case find_execution i s of
        None \<Rightarrow> Inl (HTTPException 404 (Msg ([CHR 0xD0, CHR 0x97, CHR 0xD0, CHR 0xB0,
          CHR 0xD0, CHR 0xBF, CHR 0xD1, CHR 0x83, CHR 0xD1, CHR 0x81, CHR 0xD0, CHR 0xBA] @ '' '' @
          [CHR 0xD0, CHR 0xBD, CHR 0xD0, CHR 0xB5] @ '' '' @ [CHR 0xD0, CHR 0xBD, CHR 0xD0, CHR 0xB0,
          CHR 0xD0, CHR 0xB9, CHR 0xD0, CHR 0xB4, CHR 0xD0, CHR 0xB5, CHR 0xD0, CHR 0xBD])))
      | Some x \<Rightarrow> if \<not> can_admin u \<and> xe_user_id x \<noteq> user_id u
          then Inl (HTTPException 403 (Msg ([CHR 0xD0, CHR 0x9D, CHR 0xD0, CHR 0xB5, CHR 0xD1,
            CHR 0x82] @ '' '' @ [CHR 0xD0, CHR 0xB4, CHR 0xD0, CHR 0xBE, CHR 0xD1, CHR 0x81, CHR 0xD1,
            CHR 0x82, CHR 0xD1, CHR 0x83, CHR 0xD0, CHR 0xBF, CHR 0xD0, CHR 0xB0] @ '' '' @ [CHR 0xD0,
            CHR 0xBA] @ '' '' @ [CHR 0xD1, CHR 0x8D, CHR 0xD1, CHR 0x82, CHR 0xD0, CHR 0xBE, CHR 0xD0,
            CHR 0xBC, CHR 0xD1, CHR 0x83] @ '' '' @ [CHR 0xD0, CHR 0xB7, CHR 0xD0, CHR 0xB0, CHR 0xD0,
            CHR 0xBF, CHR 0xD1, CHR 0x83, CHR 0xD1, CHR 0x81, CHR 0xD0, CHR 0xBA, CHR 0xD1, CHR 0x83])))
            else Inr x))"

section \<open>Routes\<close>

text \<open>
  The routes of the two routers in the order they are registered (\<open>catalog\<close> before \<open>executions\<close>); a request goes to
  the first route whose method and segments match. \<open>Par\<close> is a segment in braces.
\<close>

datatype route_segment = Lit string | Par

record route =
  ro_method :: http_method
  ro_path :: "route_segment list"
  ro_handler :: string

definition script_routes :: "route list" where
  "script_routes =
     (let base = [Lit ''api'', Lit ''scripts''] in
      [\<lparr>ro_method = GET, ro_path = base, ro_handler = ''list_scripts''\<rparr>,
       \<lparr>ro_method = POST, ro_path = base, ro_handler = ''create_script''\<rparr>,
       \<lparr>ro_method = GET, ro_path = base @ [Lit ''repos''], ro_handler = ''list_repos''\<rparr>,
       \<lparr>ro_method = POST, ro_path = base @ [Lit ''repos''], ro_handler = ''create_repo''\<rparr>,
       \<lparr>ro_method = POST, ro_path = base @ [Lit ''repos'', Par, Lit ''sync''], ro_handler = ''sync_repo''\<rparr>,
       \<lparr>ro_method = DELETE, ro_path = base @ [Lit ''repos'', Par], ro_handler = ''delete_repo''\<rparr>,
       \<lparr>ro_method = GET, ro_path = base @ [Par], ro_handler = ''get_script''\<rparr>,
       \<lparr>ro_method = PUT, ro_path = base @ [Par], ro_handler = ''update_script''\<rparr>,
       \<lparr>ro_method = DELETE, ro_path = base @ [Par], ro_handler = ''delete_script''\<rparr>,
       \<lparr>ro_method = POST, ro_path = base @ [Par, Lit ''execute''], ro_handler = ''execute_script''\<rparr>,
       \<lparr>ro_method = GET, ro_path = base @ [Lit ''executions''], ro_handler = ''list_executions''\<rparr>,
       \<lparr>ro_method = GET, ro_path = base @ [Lit ''executions'', Par], ro_handler = ''get_execution''\<rparr>])"

fun segments_match :: "route_segment list \<Rightarrow> string list \<Rightarrow> bool" where
  "segments_match [] [] = True"
| "segments_match (Lit l # rs) (t # ts) = (l = t \<and> segments_match rs ts)"
| "segments_match (Par # rs) (t # ts) = (t \<noteq> [] \<and> segments_match rs ts)"
| "segments_match _ _ = False"

definition dispatch :: "http_method \<Rightarrow> string list \<Rightarrow> string option" where
  "dispatch m path = map_option ro_handler
     (find (\<lambda>r. ro_method r = m \<and> segments_match (ro_path r) path) script_routes)"

end
