(* ===== verification/ScriptProps.thy ===== *)
theory ScriptProps
  imports Scripts GuestWitnesses
begin

text \<open>
  What the catalogue of scripts promises: the values of parameters never become commands, a synchronisation makes
  the rows of a repository the files it holds, and an execution is shown to its user only.
\<close>

section \<open>How a shell reads the block of parameters\<close>

text \<open>
  The part of the shell's grammar the block uses: comment lines, and \<open>export NAME=WORD\<close> where the word consists of
  single-quoted pieces, escaped characters and word characters. \<open>shell_env\<close> reads such lines from the start of a
  script and returns what they bind and the rest of the script; it stops at the first line of another form.
\<close>

abbreviation LF :: char where "LF \<equiv> CHR 0x0A"
abbreviation QUOTE :: char where "QUOTE \<equiv> CHR 0x27"
abbreviation BACKSLASH :: char where "BACKSLASH \<equiv> CHR 0x5C"

fun read_quoted :: "string \<Rightarrow> (string \<times> string) option" where
  "read_quoted [] = None"
| "read_quoted (c # t) = (if c = QUOTE then Some ([], t) else map_option (apfst ((#) c)) (read_quoted t))"

lemma read_quoted_shorter: "read_quoted t = Some (v, r) \<Longrightarrow> length r < length t"
  by (induction t arbitrary: v) (auto split: if_splits)

function read_word :: "string \<Rightarrow> (string \<times> string) option" where
  "read_word [] = Some ([], [])"
| "read_word (c # t) =
     (if c = LF then Some ([], c # t)
      else if c = QUOTE then
        (case read_quoted t of None \<Rightarrow> None | Some (v, r) \<Rightarrow> map_option (apfst ((@) v)) (read_word r))
      else if c = BACKSLASH then
        (case t of [] \<Rightarrow> None
         | d # u \<Rightarrow> if d = LF then None else map_option (apfst ((#) d)) (read_word u))
      else if is_word c then map_option (apfst ((#) c)) (read_word t) else None)"
  by pat_completeness auto
termination
  by (relation "measure length") (auto dest: read_quoted_shorter)

definition var_name :: "string \<Rightarrow> bool" where
  "var_name n = (n \<noteq> [] \<and> list_all is_word n \<and> \<not> is_digit (hd n))"

definition read_export :: "string \<Rightarrow> (string \<times> string \<times> string) option" where
  "read_export t =
     (if prefix ''export '' t
      then (let n = takeWhile is_word (drop 7 t); w = dropWhile is_word (drop 7 t) in
            if var_name n \<and> prefix ''='' w
            then (case read_word (tl w) of
                Some (v, c # rest) \<Rightarrow> if c = LF then Some (n, v, rest) else None
              | _ \<Rightarrow> None)
            else None)
      else None)"

lemma read_word_shorter: "read_word t = Some (v, r) \<Longrightarrow> length r \<le> length t"
  by (induction t arbitrary: v r rule: read_word.induct)
    (fastforce split: if_splits option.splits list.splits dest: read_quoted_shorter)+

lemma read_export_shorter: "read_export t = Some (n, v, r) \<Longrightarrow> length r < length t"
  using read_word_shorter [of "tl (dropWhile is_word (drop 7 t))"] length_dropWhile_le [of is_word "drop 7 t"]
  by (auto simp: read_export_def Let_def split: if_splits option.splits list.splits prod.splits)

function shell_env :: "string \<Rightarrow> (string \<times> string) list \<times> string" where
  "shell_env t =
     (if t \<noteq> [] \<and> hd t = CHR ''#'' then
        (case dropWhile (\<lambda>c. c \<noteq> LF) t of [] \<Rightarrow> ([], []) | _ # u \<Rightarrow> shell_env u)
      else (case read_export t of
          None \<Rightarrow> ([], t)
        | Some (n, v, rest) \<Rightarrow> apfst ((#) (n, v)) (shell_env rest)))"
  by pat_completeness auto
termination
proof (relation "measure length", goal_cases)
  case (2 t c u)
  then show ?case using length_dropWhile_le [of "\<lambda>c. c \<noteq> LF" t] by simp
qed (auto dest: read_export_shorter)

declare shell_env.simps [simp del]

lemma read_word_quoted:
  "(case read_quoted (shell_escape v @ QUOTE # LF # t) of
      None \<Rightarrow> None | Some (x, r) \<Rightarrow> map_option (apfst ((@) x)) (read_word r)) = Some (v, LF # t)"
proof (induction v)
  case (Cons c v)
  then show ?case by (auto split: option.splits prod.splits)
qed simp

lemma read_word_shell_quote: "read_word (shell_quote v @ LF # t) = Some (v, LF # t)"
  using read_word_quoted [of v t] by (simp add: shell_quote_def)

lemma is_word_not_eq: "\<not> is_word (CHR ''='')"
  by (simp add: is_word_def is_digit_def is_upper_def is_lower_def)

lemma read_export_line:
  assumes "var_name n"
  shows "read_export (export_line (n, v) @ LF # t) = Some (n, or_default v [], t)"
proof -
  have "takeWhile is_word (n @ CHR ''='' # u) = n" "dropWhile is_word (n @ CHR ''='' # u) = CHR ''='' # u" for u
    using assms is_word_not_eq by (simp_all add: var_name_def takeWhile_append list_all_iff dropWhile_append)
  then show ?thesis
    using assms read_word_shell_quote [of "or_default v []" t] by (simp add: read_export_def export_line_def Let_def)
qed

lemma shell_env_export:
  assumes "var_name n"
  shows "shell_env (export_line (n, v) @ LF # t) = apfst ((#) (n, or_default v [])) (shell_env t)"
  using read_export_line [OF assms, of v t]
  by (subst shell_env.simps) (simp add: export_line_def)

lemma shell_env_comment: "LF \<notin> set l \<Longrightarrow> shell_env (CHR ''#'' # l @ LF # t) = shell_env t"
  by (subst shell_env.simps) (simp add: dropWhile_append)

lemma shell_env_exports:
  "(\<And>p. p \<in> set ps \<Longrightarrow> var_name (fst p)) \<Longrightarrow>
   shell_env (concat (map (\<lambda>p. export_line p @ [LF]) ps) @ t) =
     (map (\<lambda>(n, v). (n, or_default v [])) ps @ fst (shell_env t), snd (shell_env t))"
proof (induction ps)
  case (Cons p ps)
  have "var_name (fst p)" using Cons.prems by simp
  from shell_env_export [OF this, of "snd p"] Cons show ?case by (cases p) (simp add: apfst_def map_prod_def)
qed simp

lemma join_lines: "ls \<noteq> [] \<Longrightarrow> join_with [LF] ls @ [LF] @ t = concat (map (\<lambda>l. l @ [LF]) ls) @ t"
proof (induction ls)
  case (Cons l ls)
  then show ?case by (cases ls) simp_all
qed simp

lemma block_comments:
  "\<exists>l. params_header = CHR ''#'' # l \<and> LF \<notin> set l" "\<exists>l. params_footer = CHR ''#'' # l \<and> LF \<notin> set l"
  by (simp_all add: params_header_def params_footer_def)

text \<open>C11. Values of parameters are inert: whatever they contain, quotes, line ends and dollar signs included, a shell that
  reads a rendered script binds each parameter to exactly its value and then goes on with the script itself.\<close>

theorem render_params_inert:
  assumes "\<And>n v. (n, v) \<in> set params \<Longrightarrow> var_name n"
  shows "shell_env (render_params content params) =
    (map (\<lambda>(n, v). (n, or_default v [])) params @ fst (shell_env content), snd (shell_env content))"
proof (cases "params = []")
  case True
  then show ?thesis by (simp add: render_params_def)
next
  case False
  obtain h f where h: "params_header = CHR ''#'' # h" "LF \<notin> set h" and f: "params_footer = CHR ''#'' # f" "LF \<notin> set f"
    using block_comments by blast
  have "render_params content params = ''#!/bin/sh'' @ LF # params_header @ LF #
      concat (map (\<lambda>p. export_line p @ [LF]) params) @ params_footer @ LF # content"
    using False join_lines [of "[''#!/bin/sh'', params_header] @ map export_line params @ [params_footer]" content]
    by (simp add: render_params_def comp_def)
  moreover have "shell_env (''#!/bin/sh'' @ LF # u) = shell_env u" for u
    using shell_env_comment [of "''!/bin/sh''" u] by simp
  moreover have "shell_env (params_header @ LF # u) = shell_env u" "shell_env (params_footer @ LF # u) = shell_env u" for u
    using shell_env_comment [OF h(2), of u] shell_env_comment [OF f(2), of u] by (simp_all add: h(1) f(1))
  moreover have "\<And>p. p \<in> set params \<Longrightarrow> var_name (fst p)" using assms by auto
  ultimately show ?thesis using shell_env_exports [of params "params_footer @ LF # content"] by simp
qed

theorem render_params_inert_witness:
  "shell_env (render_params ''reboot'' [(''DAYS'', Some (''1'' @ [QUOTE] @ ''; rm -rf /; '' @ [QUOTE, LF]))]) =
     ([(''DAYS'', ''1'' @ [QUOTE] @ ''; rm -rf /; '' @ [QUOTE, LF])], ''reboot'')"
proof -
  have "var_name ''DAYS''" by (simp add: var_name_def is_word_def is_digit_def is_upper_def is_lower_def)
  moreover have "shell_env ''reboot'' = ([], ''reboot'')"
    by (subst shell_env.simps) (simp add: read_export_def)
  ultimately show ?thesis
    using render_params_inert [of "[(''DAYS'', Some (''1'' @ [QUOTE] @ ''; rm -rf /; '' @ [QUOTE, LF]))]" "''reboot''"]
    by (simp add: or_default_def)
qed

text \<open>The name of a parameter is written as it is; the endpoints ask nothing of the names in a schema.\<close>

lemma parameter_names_are_commands:
  "sublist ([LF] @ ''export A; reboot; B='' @ [QUOTE, QUOTE, LF])
     (render_params content [(''A; reboot; B'', Some [])])"
  by (simp add: render_params_def export_line_def shell_quote_def or_default_def sublist_Cons_right params_header_def)

lemma schema_names_are_kept: "param_of ''A; reboot; B'' \<noteq> None"
  by (simp add: param_of_def strip_def lstrip_def is_space_def Let_def)

section \<open>What a synchronisation leaves in the catalogue\<close>

definition readable :: "(string \<times> string option) list \<Rightarrow> (string \<times> string) list" where
  "readable fs = List.map_filter (\<lambda>(p, c). map_option (Pair p) c) fs"

definition of_repo :: "git_repo \<Rightarrow> script_row \<Rightarrow> bool" where
  "of_repo r x \<longleftrightarrow> sc_git_repo_id x = Some (gp_id r)"

lemma readable_simps [simp]:
  "readable [] = []" "readable ((p, None) # fs) = readable fs" "readable ((p, Some c) # fs) = (p, c) # readable fs"
  by (simp_all add: readable_def map_filter_simps)

lemma from_git_fields [simp]:
  "sc_slug (from_git r p c x) = sc_slug x" "sc_id (from_git r p c x) = sc_id x"
  "sc_git_repo_id (from_git r p c x) = sc_git_repo_id x" "of_repo r' (from_git r p c x) = of_repo r' x"
  "from_git r p c (from_git r p c x) = from_git r p c x"
  by (simp_all add: from_git_def Let_def of_repo_def)

lemma new_script_fields [simp]: "sc_slug (new_script i k r) = k" "of_repo r (new_script i k r)"
  by (simp_all add: new_script_def of_repo_def)

abbreviation script_at :: "string \<Rightarrow> script_row list \<Rightarrow> script_row option" where
  "script_at k rows \<equiv> find (\<lambda>x. sc_slug x = k) rows"

lemma script_at_member: "unique_on sc_slug rows \<Longrightarrow> x \<in> set rows \<Longrightarrow> script_at (sc_slug x) rows = Some x"
  by (intro find_unique) (auto simp: unique_on_def distinct_map dest: inj_onD)

text \<open>A row that shows what a file holds: its text, its place, and what the header of the text says.\<close>

definition mirrors :: "git_repo \<Rightarrow> string \<Rightarrow> string \<Rightarrow> script_row \<Rightarrow> bool" where
  "mirrors r p c x \<longleftrightarrow>
     sc_slug x = git_slug r p \<and> sc_content x = c \<and> sc_git_path x = Some p \<and>
     sc_source x = (if gp_metadata_format r = ''community-scripts-ct'' then ''community-scripts'' else ''git'') \<and>
     (let m = file_metadata r p c
      in sc_name x = md_name m \<and> sc_description x = md_description m \<and> sc_target_type x = md_target m \<and>
         sc_category x = md_category m \<and> sc_params x = md_params m)"

lemma mirrors_from_git: "sc_slug x = git_slug r p \<Longrightarrow> mirrors r p c (from_git r p c x)"
  by (simp add: mirrors_def from_git_def Let_def record_source_def is_community_def)

text \<open>One file: the row of its slug is written, or added, and no other.\<close>

lemma upsert_at:
  fixes s :: "'w scripts"
  shows "script_at k (ss_scripts (upsert_script r p c s)) =
    (if k = git_slug r p
     then Some (from_git r p c (case script_at k (ss_scripts s) of
            None \<Rightarrow> new_script (ss_next_script s) (git_slug r p) r | Some y \<Rightarrow> y))
     else script_at k (ss_scripts s))"
proof -
  have "script_at k (update_first (\<lambda>x. sc_slug x = git_slug r p) (from_git r p c) rows) =
      (if k = git_slug r p then map_option (from_git r p c) (script_at k rows) else script_at k rows)" for rows
    by (induction rows) auto
  then show ?thesis by (auto simp: upsert_script_def Let_def find_append split: option.split)
qed

lemma upsert_unique:
  "unique_on sc_slug (ss_scripts s) \<Longrightarrow> unique_on sc_slug (ss_scripts (upsert_script r p c s))"
proof -
  have "map sc_slug (update_first P (from_git r p c) rows) = map sc_slug rows" for P rows
    by (induction rows) auto
  then show "unique_on sc_slug (ss_scripts s) \<Longrightarrow> unique_on sc_slug (ss_scripts (upsert_script r p c s))"
    by (auto simp: upsert_script_def Let_def unique_on_append find_None_iff) (simp add: unique_on_def)
qed

lemma upsert_others:
  assumes "git_slug r p \<in> K"
  shows "filter (\<lambda>x. \<not> of_repo r x \<and> sc_slug x \<notin> K) (ss_scripts (upsert_script r p c s)) =
    filter (\<lambda>x. \<not> of_repo r x \<and> sc_slug x \<notin> K) (ss_scripts s)"
proof -
  have "filter (\<lambda>x. \<not> of_repo r x \<and> sc_slug x \<notin> K) (update_first (\<lambda>x. sc_slug x = git_slug r p) (from_git r p c) rows) =
      filter (\<lambda>x. \<not> of_repo r x \<and> sc_slug x \<notin> K) rows" for rows
    using assms by (induction rows) auto
  then show ?thesis using assms by (simp add: upsert_script_def Let_def)
qed

definition file_slugs :: "git_repo \<Rightarrow> (string \<times> string option) list \<Rightarrow> string list" where
  "file_slugs r fs = map (git_slug r \<circ> fst) (readable fs)"

lemma file_slugs_simps [simp]:
  "file_slugs r [] = []" "file_slugs r ((p, None) # fs) = file_slugs r fs"
  "file_slugs r ((p, Some c) # fs) = git_slug r p # file_slugs r fs"
  by (simp_all add: file_slugs_def)

text \<open>The file that counts for a slug: the last one that could be read.\<close>

abbreviation file_at :: "git_repo \<Rightarrow> string \<Rightarrow> (string \<times> string option) list \<Rightarrow> (string \<times> string) option" where
  "file_at r k fs \<equiv> find (\<lambda>f. git_slug r (fst f) = k) (rev (readable fs))"

lemma file_at_None: "file_at r k fs = None \<longleftrightarrow> k \<notin> set (file_slugs r fs)"
  unfolding file_slugs_def find_None_iff by force

text \<open>What the rows of a catalogue become when the files \<open>fs\<close> are written into it one after the other.\<close>

definition written :: "git_repo \<Rightarrow> (string \<times> string option) list \<Rightarrow> script_row list \<Rightarrow> script_row list \<Rightarrow> bool" where
  "written r fs rows rows' \<longleftrightarrow>
     (unique_on sc_slug rows \<longrightarrow> unique_on sc_slug rows') \<and>
     (\<forall>k. k \<notin> set (file_slugs r fs) \<longrightarrow> script_at k rows' = script_at k rows) \<and>
     (\<forall>k p c. file_at r k fs = Some (p, c) \<longrightarrow> (\<exists>x. script_at k rows' = Some x \<and> mirrors r p c x)) \<and>
     (\<forall>K. set (file_slugs r fs) \<subseteq> K \<longrightarrow> filter (\<lambda>x. \<not> of_repo r x \<and> sc_slug x \<notin> K) rows' =
        filter (\<lambda>x. \<not> of_repo r x \<and> sc_slug x \<notin> K) rows) \<and>
     (\<forall>k x. script_at k rows' = Some x \<longrightarrow> (case script_at k rows of
          None \<Rightarrow> of_repo r x | Some y \<Rightarrow> sc_id x = sc_id y \<and> sc_git_repo_id x = sc_git_repo_id y))"

lemma writtenD:
  assumes "written r fs rows rows'"
  shows "unique_on sc_slug rows \<Longrightarrow> unique_on sc_slug rows'"
    and "k \<notin> set (file_slugs r fs) \<Longrightarrow> script_at k rows' = script_at k rows"
    and "file_at r k fs = Some (p, c) \<Longrightarrow> \<exists>x. script_at k rows' = Some x \<and> mirrors r p c x"
    and "set (file_slugs r fs) \<subseteq> K \<Longrightarrow> filter (\<lambda>x. \<not> of_repo r x \<and> sc_slug x \<notin> K) rows' =
        filter (\<lambda>x. \<not> of_repo r x \<and> sc_slug x \<notin> K) rows"
    and "script_at k rows' = Some x \<Longrightarrow> case script_at k rows of
        None \<Rightarrow> of_repo r x | Some y \<Rightarrow> sc_id x = sc_id y \<and> sc_git_repo_id x = sc_git_repo_id y"
  using assms unfolding written_def by simp_all

lemma written_one: "written r ((p, Some c) # fs) (ss_scripts s) rows'"
  if "written r fs (ss_scripts (upsert_script r p c s)) rows'" for s :: "'w scripts"
proof -
  let ?u = "ss_scripts (upsert_script r p c s)" and ?k = "git_slug r p"
  note w = writtenD [OF that]
  have row: "script_at ?k ?u = Some (from_git r p c (case script_at ?k (ss_scripts s) of
      None \<Rightarrow> new_script (ss_next_script s) ?k r | Some y \<Rightarrow> y))"
    by (simp add: upsert_at)
  have m: "mirrors r p c (from_git r p c (case script_at ?k (ss_scripts s) of
      None \<Rightarrow> new_script (ss_next_script s) ?k r | Some y \<Rightarrow> y))"
    by (rule mirrors_from_git) (auto dest!: find_SomeD split: option.split)
  have files: "\<exists>x. script_at k rows' = Some x \<and> mirrors r q d x"
    if "file_at r k ((p, Some c) # fs) = Some (q, d)" for k q d
  proof (cases "file_at r k fs")
    case None
    then have "k = ?k" "q = p" "d = c" using that by (auto simp: find_append split: if_splits)
    moreover have "script_at k rows' = script_at k ?u" using None by (intro w(2)) (simp add: file_at_None)
    ultimately show ?thesis using row m by simp
  next
    case (Some f)
    then have "file_at r k fs = Some (q, d)" using that by (simp add: find_append)
    then show ?thesis by (rule w(3))
  qed
  have ids: "case script_at k (ss_scripts s) of
      None \<Rightarrow> of_repo r x | Some y \<Rightarrow> sc_id x = sc_id y \<and> sc_git_repo_id x = sc_git_repo_id y"
    if x: "script_at k rows' = Some x" for k x
  proof -
    have "case script_at k ?u of
        None \<Rightarrow> of_repo r x | Some y \<Rightarrow> sc_id x = sc_id y \<and> sc_git_repo_id x = sc_git_repo_id y"
      by (rule w(5) [OF x])
    then show ?thesis by (auto simp: upsert_at of_repo_def new_script_def split: option.splits if_splits)
  qed
  have "script_at k rows' = script_at k (ss_scripts s)" if "k \<notin> set (file_slugs r ((p, Some c) # fs))" for k
    using w(2) [of k] that by (simp add: upsert_at)
  moreover have "unique_on sc_slug (ss_scripts s) \<longrightarrow> unique_on sc_slug rows'" using w(1) upsert_unique by blast
  moreover have "filter (\<lambda>x. \<not> of_repo r x \<and> sc_slug x \<notin> K) rows' = filter (\<lambda>x. \<not> of_repo r x \<and> sc_slug x \<notin> K) (ss_scripts s)"
    if "set (file_slugs r ((p, Some c) # fs)) \<subseteq> K" for K
    using w(4) [of K] upsert_others [of r p K c s] that by simp
  ultimately show ?thesis unfolding written_def using files ids by blast
qed

lemma sync_files_written:
  assumes "sync_files r fs seen n s = ((seen', n'), s')"
  shows "seen' = seen @ file_slugs r fs \<and> written r fs (ss_scripts s) (ss_scripts s') \<and>
    sk_errors n' = sk_errors n + length (filter (\<lambda>f. snd f = None) fs) \<and>
    sk_created n' + sk_updated n' = sk_created n + sk_updated n + length (readable fs)"
  using assms
proof (induction r fs seen n s rule: sync_files.induct)
  case (1 r seen n s)
  then show ?case by (simp add: written_def split: option.split)
next
  case (2 r p fs seen n s)
  then have "written r fs (ss_scripts s) (ss_scripts s')" by simp
  then have "written r ((p, None) # fs) (ss_scripts s) (ss_scripts s')"
    unfolding written_def by simp
  with 2 show ?case by simp
next
  case (3 r p c fs seen n s)
  from 3(1) [OF refl] 3(2)
  have "seen' = (seen @ [git_slug r p]) @ file_slugs r fs \<and>
    written r fs (ss_scripts (upsert_script r p c s)) (ss_scripts s') \<and>
    sk_errors n' = sk_errors n + length (filter (\<lambda>f. snd f = None) fs) \<and>
    sk_created n' + sk_updated n' = Suc (sk_created n + sk_updated n) + length (readable fs)"
    by (auto simp: Let_def split: if_splits)
  then show ?case using written_one by auto
qed

lemma world_step_scripts: "world_step f s = (a, s') \<Longrightarrow> ss_scripts s' = ss_scripts s"
  by (auto simp: world_step_def split: prod.splits)

lemma sync_git_repo_rows:
  assumes "git_fetch G r (px_world (pn_px (ss_panel s))) = (Inr files, w)" and "sync_git_repo G now r s = (res, s')"
  obtains rows where "written r files (ss_scripts s) rows"
    and "ss_scripts s' = filter (\<lambda>x. \<not> of_repo r x \<or> sc_slug x \<in> set (file_slugs r files)) rows"
    and "\<exists>n. res = Inr n \<and> sk_created n + sk_updated n = length (readable files) \<and>
       sk_errors n = length (filter (\<lambda>f. snd f = None) files)"
proof -
  obtain s1 where w: "world_step (git_fetch G r) s = (Inr files, s1)"
    using assms(1) by (simp add: world_step_def)
  obtain seen n s2 where l: "sync_files r files [] \<lparr>sk_created = 0, sk_updated = 0, sk_errors = 0, sk_disappeared = 0\<rparr> s1 =
      ((seen, n), s2)" by (metis prod.exhaust)
  from sync_files_written [OF l] have seen: "seen = file_slugs r files"
    and new: "written r files (ss_scripts s) (ss_scripts s2)"
    and counts: "sk_errors n = length (filter (\<lambda>f. snd f = None) files)" "sk_created n + sk_updated n = length (readable files)"
    using world_step_scripts [OF w] by simp_all
  have "\<not> is_stale r seen x \<longleftrightarrow> \<not> of_repo r x \<or> sc_slug x \<in> set (file_slugs r files)" for x
    by (auto simp: is_stale_def of_repo_def seen)
  then have "ss_scripts s' = filter (\<lambda>x. \<not> of_repo r x \<or> sc_slug x \<in> set (file_slugs r files)) (ss_scripts s2)"
    using assms(2) w l by (auto simp: sync_git_repo_def store_repo_def drop_scripts_def Let_def)
  then show thesis using assms(2) w l counts by (intro that [OF new]) (auto simp: sync_git_repo_def)
qed

text \<open>C13. A synchronisation makes the catalogue show the files of a repository. For every file that could be read, and
  is the last one of its slug, there is a row with its text, its path and what its header says; it is the row of this
  slug if there was one, with its id and its repository kept, and a row of this repository otherwise. No other row of the
  repository is left; a row that neither belongs to the repository nor has the slug of one of its files stays as it is.
  The report counts the files that were read and those that could not be.\<close>

theorem sync_mirrors_repository:
  assumes "git_fetch G r (px_world (pn_px (ss_panel s))) = (Inr files, w)"
    and "unique_on sc_slug (ss_scripts s)" and "sync_git_repo G now r s = (res, s')"
  shows "filter (\<lambda>x. \<not> of_repo r x \<and> sc_slug x \<notin> set (file_slugs r files)) (ss_scripts s') =
      filter (\<lambda>x. \<not> of_repo r x \<and> sc_slug x \<notin> set (file_slugs r files)) (ss_scripts s) \<and>
    sc_slug ` {x \<in> set (ss_scripts s'). of_repo r x} \<subseteq> set (file_slugs r files) \<and>
    (\<forall>k p c. file_at r k files = Some (p, c) \<longrightarrow> (\<exists>x \<in> set (ss_scripts s'). sc_slug x = k \<and> mirrors r p c x)) \<and>
    unique_on sc_slug (ss_scripts s') \<and>
    (\<forall>x \<in> set (ss_scripts s'). case find (\<lambda>y. sc_slug y = sc_slug x) (ss_scripts s) of
       None \<Rightarrow> of_repo r x | Some y \<Rightarrow> sc_id x = sc_id y \<and> sc_git_repo_id x = sc_git_repo_id y) \<and>
    (\<exists>n. res = Inr n \<and> sk_created n + sk_updated n = length (readable files) \<and>
       sk_errors n = length (filter (\<lambda>f. snd f = None) files))"
proof -
  obtain rows where new: "written r files (ss_scripts s) rows"
    and s': "ss_scripts s' = filter (\<lambda>x. \<not> of_repo r x \<or> sc_slug x \<in> set (file_slugs r files)) rows"
    and report: "\<exists>n. res = Inr n \<and> sk_created n + sk_updated n = length (readable files) \<and>
       sk_errors n = length (filter (\<lambda>f. snd f = None) files)"
    using sync_git_repo_rows [OF assms(1,3)] by blast
  note new = writtenD [OF new]
  have u: "unique_on sc_slug rows" using new(1) assms(2) by blast
  have "filter (\<lambda>x. \<not> of_repo r x \<and> sc_slug x \<notin> set (file_slugs r files)) (ss_scripts s') =
      filter (\<lambda>x. \<not> of_repo r x \<and> sc_slug x \<notin> set (file_slugs r files)) (ss_scripts s)"
  proof -
    have "filter (\<lambda>x. \<not> of_repo r x \<and> sc_slug x \<notin> set (file_slugs r files)) (ss_scripts s') =
        filter (\<lambda>x. \<not> of_repo r x \<and> sc_slug x \<notin> set (file_slugs r files)) rows"
      unfolding s' filter_filter by (rule filter_cong) auto
    then show ?thesis using new(4) [OF subset_refl] by simp
  qed
  moreover have "\<exists>x \<in> set (ss_scripts s'). sc_slug x = k \<and> mirrors r p c x" if k: "file_at r k files = Some (p, c)" for k p c
  proof -
    obtain x where x: "script_at k rows = Some x" "mirrors r p c x" using new(3) [OF k] by blast
    have "k \<in> set (file_slugs r files)" using k file_at_None [of r k files] by simp
    with x show ?thesis by (auto simp: s' dest!: find_SomeD intro!: bexI [of _ x])
  qed
  moreover have "unique_on sc_slug (ss_scripts s')"
    using u by (simp add: s' unique_on_def distinct_map_filter)
  moreover have "case script_at (sc_slug x) (ss_scripts s) of
      None \<Rightarrow> of_repo r x | Some y \<Rightarrow> sc_id x = sc_id y \<and> sc_git_repo_id x = sc_git_repo_id y"
    if "x \<in> set (ss_scripts s')" for x
    using that by (intro new(5) script_at_member [OF u]) (simp add: s')
  moreover have "sc_slug ` {x \<in> set (ss_scripts s'). of_repo r x} \<subseteq> set (file_slugs r files)"
    by (auto simp: s')
  ultimately show ?thesis using report by blast
qed

text \<open>The synchronisation takes the row of a script the user wrote when its slug is that of a file: the text is
  overwritten, and the row still belongs to no repository, so that it stays when the file goes.\<close>

lemma manual_script_overwritten:
  assumes "script_at (git_slug r p) (ss_scripts s) = Some x" and "sc_git_repo_id x = None"
  shows "\<exists>x'. script_at (git_slug r p) (ss_scripts (upsert_script r p c s)) = Some x' \<and> sc_content x' = c \<and>
    sc_git_repo_id x' = None \<and> \<not> is_stale r' seen x'"
  using assms by (simp add: upsert_at from_git_def Let_def is_stale_def)

lemma manual_slug_of_a_file: "slug_ok ''git-1-clean'' \<and> (gp_id r = 1 \<longrightarrow> git_slug r ''clean'' = ''git-1-clean'')"
  by (simp add: git_slug_def dashed_def dec_int_def) code_simp

definition demo_repo :: git_repo where
  "demo_repo = \<lparr>gp_id = 1, gp_url = [], gp_branch = ''main'', gp_path_glob = ''*.sh'',
     gp_metadata_format = ''header-comment'', gp_enabled = True, gp_last_synced_at = None, gp_last_sync_error = None\<rparr>"

definition demo_git :: "int script_env" where
  "demo_git = \<lparr>git_fetch = (\<lambda>r w. (Inr [(''clean.sh'', Some ''# name: Clean''), (''lost.sh'', None)], w)), repr_of = (\<lambda>_. [])\<rparr>"

definition demo_catalogue :: "int scripts" where
  "demo_catalogue = \<lparr>ss_panel = demo_panel, ss_scripts =
       [(new_script 1 ''own'' demo_repo)\<lparr>sc_git_repo_id := None\<rparr>, new_script 2 ''git-1-old.sh'' demo_repo],
     ss_next_script = 3, ss_repos = [demo_repo], ss_next_repo = 2, ss_executions = [], ss_next_execution = 1\<rparr>"

lemma demo_slugs: "file_slugs demo_repo [(''clean.sh'', Some ''# name: Clean''), (''lost.sh'', None)] = [''git-1-clean.sh'']"
proof -
  have "git_slug demo_repo ''clean.sh'' = ''git-1-clean.sh''" by code_simp
  then show ?thesis by (simp add: file_slugs_def)
qed

lemma demo_metadata: "md_name (file_metadata demo_repo ''clean.sh'' ''# name: Clean'') = ''Clean''"
  by code_simp

theorem sync_mirrors_repository_witness:
  "\<exists>x \<in> set (ss_scripts (snd (sync_git_repo demo_git 0 demo_repo demo_catalogue))).
     sc_slug x = ''git-1-clean.sh'' \<and> sc_content x = ''# name: Clean'' \<and> sc_name x = ''Clean'' \<and> sc_source x = ''git''"
proof -
  let ?files = "[(''clean.sh'', Some ''# name: Clean''), (''lost.sh'', None)]"
  obtain res s' where r: "sync_git_repo demo_git 0 demo_repo demo_catalogue = (res, s')" by fastforce
  have f: "git_fetch demo_git demo_repo (px_world (pn_px (ss_panel demo_catalogue))) =
      (Inr ?files, px_world (pn_px (ss_panel demo_catalogue)))"
    by (simp add: demo_git_def)
  have u: "unique_on sc_slug (ss_scripts demo_catalogue)"
    by (simp add: demo_catalogue_def new_script_def unique_on_def)
  have "file_at demo_repo (git_slug demo_repo ''clean.sh'') ?files = Some (''clean.sh'', ''# name: Clean'')" by simp
  then obtain x where x: "x \<in> set (ss_scripts s')" "mirrors demo_repo ''clean.sh'' ''# name: Clean'' x"
    using sync_mirrors_repository [OF f u r, THEN conjunct2, THEN conjunct2, THEN conjunct1] by blast
  moreover have "git_slug demo_repo ''clean.sh'' = ''git-1-clean.sh''" using demo_slugs by simp
  moreover have "gp_metadata_format demo_repo = ''header-comment''" by (simp add: demo_repo_def)
  ultimately show ?thesis
    using demo_metadata by (intro bexI [of _ x]) (simp_all add: mirrors_def Let_def r)
qed

text \<open>Two files of a repository can have the same slug; the second then takes the row of the first.\<close>

lemma two_files_one_slug: "git_slug r ''a/b.sh'' = git_slug r ''a-b.sh''"
  by (simp add: git_slug_def dashed_def)

section \<open>Who sees an execution\<close>

lemma executions_are_private:
  assumes "\<not> can_admin u"
  shows "list_executions limit u s = Inr xs \<Longrightarrow> x \<in> set xs \<Longrightarrow> xe_user_id x = user_id u"
    and "get_execution i u s = Inr x \<Longrightarrow> xe_user_id x = user_id u"
  using assms
  by (auto simp: list_executions_def get_execution_def split: sum.splits if_splits option.splits dest: in_set_takeD)

text \<open>The list of executions cannot be reached: its path is taken by the route of a single script.\<close>

lemma executions_route_is_shadowed: "dispatch GET [''api'', ''scripts'', ''executions''] = Some ''get_script''"
  by (simp add: dispatch_def script_routes_def Let_def)

text \<open>A script runs in any guest of any server its user names; the owner of the guest is not asked for.\<close>

lemma scripts_run_in_foreign_guests:
  assumes "has_perm u ''script:execute''" and "find_script i s = Some r" and "sc_params r = []"
    and "find_server (xq_server_id q) (ss_panel s) = Some sv" and "sc_target_type r = ''guest''"
    and "xq_node q = Some (c # nd)" and "xq_vmid q = Some vmid" and "xq_vm_type q = Some (d # ty)"
  obtains x j s' where "execute_catalog_script G now i u q s = (Inr (x, j), s')" "st_vmid (xj_target j) = Some vmid"
  using assms by (simp add: execute_catalog_script_def PermissionChecker_def Let_def)

end
