(* ===== verification/Tenancy.thy ===== *)
theory Tenancy
  imports Panel "HOL-Library.Char_ord" "HOL-Library.List_Lexorder"
begin

text \<open>
  Workspaces, \<^verbatim>\<open>backend/app/api/workspaces.py\<close>: named groups of servers and the users who may work with them; what
  a request with the header \<open>X-Active-Workspace\<close> sees (\<open>get_workspace_server_ids\<close>, \<open>get_visible_server_ids\<close> of
  \<^verbatim>\<open>api/proxmox/_helpers.py\<close>); the servers and quotas an administrator gives to a user (\<^verbatim>\<open>api/users.py\<close>).

  \<open>tenancy\<close> adds to the panel the tables these functions touch. A row of a junction table is a pair of ids; the
  unique index over the two columns makes a second insertion of the same pair fail, which the panel answers with 500
  and rolls back (\<open>internal_error\<close>). The columns of a network that the address service does not read are kept here, in
  \<open>tn_networks\<close>: the row with the same id is in \<open>networks\<close> of the address service. Deleting a workspace sets the column
  \<open>workspace_id\<close> of its networks to null and deletes its rows in both junction tables, as the foreign keys say.
  \<open>tn_applied\<close> holds the columns \<open>apply_error\<close> and \<open>applied_at\<close> of an allocation, by its id.
  The name of the cluster of a server and the column \<open>updated_at\<close> are left out. Names are ordered by their bytes.
\<close>

section \<open>Tables\<close>

record workspace =
  wk_id :: int
  wk_name :: string
  wk_description :: "string option"
  wk_color :: "string option"
  wk_is_default :: bool
  wk_created_by :: "int option"
  wk_created_at :: int

record net_columns =
  nc_id :: int
  nc_description :: "string option"
  nc_vlan_id :: "int option"
  nc_dns_primary :: "string option"
  nc_dns_secondary :: "string option"
  nc_server_id :: "int option"
  nc_node :: "string option"
  nc_bridge :: "string option"
  nc_workspace_id :: "int option"
  nc_is_default :: bool

record 'w tenancy =
  tn_panel :: "'w panel"
  tn_workspaces :: "workspace list"
  tn_next_workspace :: int
  tn_ws_servers :: "(int \<times> int) list"
  tn_ws_users :: "(int \<times> int) list"
  tn_user_servers :: "(int \<times> int) list"
  tn_networks :: "net_columns list"
  tn_next_network :: int
  tn_next_pool :: int
  tn_applied :: "(int, string option \<times> int option) pydict"

definition internal_error :: http_error where
  "internal_error = HTTPException 500 (Msg ''Internal Server Error'')"

definition not_found :: "string \<Rightarrow> http_error" where
  "not_found what = HTTPException 404 (Msg (what @ '' not found''))"

definition bad_request :: "string \<Rightarrow> http_error" where
  "bad_request m = HTTPException 400 (Msg m)"

text \<open>The new value when one is given.\<close>

definition or_else :: "'a option \<Rightarrow> 'a option \<Rightarrow> 'a option" where
  "or_else new old = (case new of None \<Rightarrow> old | Some v \<Rightarrow> Some v)"

definition on_panel :: "('w panel \<Rightarrow> 'a \<times> 'w panel) \<Rightarrow> 'w tenancy \<Rightarrow> 'a \<times> 'w tenancy" where
  "on_panel f s = (case f (tn_panel s) of (a, p) \<Rightarrow> (a, s\<lparr>tn_panel := p\<rparr>))"

definition find_workspace :: "int \<Rightarrow> 'w tenancy \<Rightarrow> workspace option" where
  "find_workspace wid s = find (\<lambda>w. wk_id w = wid) (tn_workspaces s)"

definition default_workspace :: "'w tenancy \<Rightarrow> workspace option" where
  "default_workspace s = find wk_is_default (tn_workspaces s)"

definition panel_user :: "int \<Rightarrow> 'w tenancy \<Rightarrow> user option" where
  "panel_user uid s = find (\<lambda>u. user_id u = uid) (pn_users (tn_panel s))"

definition panel_server :: "int \<Rightarrow> 'w tenancy \<Rightarrow> server_row option" where
  "panel_server sid s = find_server sid (tn_panel s)"

section \<open>What a header selects\<close>

definition workspaces_of :: "int \<Rightarrow> 'w tenancy \<Rightarrow> int list" where
  "workspaces_of uid s = map fst (filter (\<lambda>(w, u). u = uid) (tn_ws_users s))"

definition servers_in :: "int list \<Rightarrow> 'w tenancy \<Rightarrow> int list" where
  "servers_in wids s = map snd (filter (\<lambda>(w, v). w \<in> set wids) (tn_ws_servers s))"

definition is_member :: "int \<Rightarrow> user \<Rightarrow> 'w tenancy \<Rightarrow> bool" where
  "is_member wid u s = ((wid, user_id u) \<in> set (tn_ws_users s))"

definition get_workspace_server_ids :: "string option \<Rightarrow> user \<Rightarrow> 'w tenancy \<Rightarrow> int list option" where
  "get_workspace_server_ids raw u s =
     (case raw of
        None \<Rightarrow> None
      | Some t \<Rightarrow>
     (case py_int t of
        None \<Rightarrow> None
      | Some wid \<Rightarrow>
        if wid = 0 then
          (if is_admin u then None
           else (case workspaces_of (user_id u) s of
                [] \<Rightarrow> (case default_workspace s of
                     Some w \<Rightarrow> Some (servers_in [wk_id w] s) | None \<Rightarrow> Some [])
              | ids \<Rightarrow> Some (servers_in ids s)))
        else (case find_workspace wid s of
             None \<Rightarrow> Some []
           | Some w \<Rightarrow>
               if \<not> is_admin u \<and> \<not> is_member wid u s then Some [] else Some (servers_in [wid] s))))"

definition role_is_privileged :: "user \<Rightarrow> bool" where
  "role_is_privileged u = (is_admin u \<or>
     (case user_role u of None \<Rightarrow> False | Some r \<Rightarrow> role_name r \<in> {''admin'', ''moderator''}))"

definition assigned_servers :: "int \<Rightarrow> 'w tenancy \<Rightarrow> int list" where
  "assigned_servers uid s = map snd (filter (\<lambda>(u, v). u = uid) (tn_user_servers s))"

definition get_visible_server_ids :: "string option \<Rightarrow> user \<Rightarrow> 'w tenancy \<Rightarrow> int set option" where
  "get_visible_server_ids raw u s =
     (let ws_filter = get_workspace_server_ids raw u s in
      if role_is_privileged u then map_option set ws_filter
      else (let mine = workspaces_of (user_id u) s;
                effective = set (assigned_servers (user_id u) s) \<union>
                  (if mine = [] then {} else set (servers_in mine s))
            in Some (case ws_filter of None \<Rightarrow> effective | Some ids \<Rightarrow> effective \<inter> set ids)))"

definition list_proxmox_servers :: "string option \<Rightarrow> user \<Rightarrow> 'w tenancy \<Rightarrow> http_error + server_row list" where
  "list_proxmox_servers raw u s =
     (case PermissionChecker ''server:view'' u of
        Inl e \<Rightarrow> Inl e
      | Inr _ \<Rightarrow>
     (case get_visible_server_ids raw u s of
        None \<Rightarrow> Inr (sort_key sv_id (pn_servers (tn_panel s)))
      | Some ids \<Rightarrow> if ids = {} then Inr []
          else Inr (sort_key sv_id (filter (\<lambda>sv. sv_id sv \<in> ids) (pn_servers (tn_panel s))))))"

text \<open>\<open>_attach_workspaces\<close>: the workspaces of each listed server.\<close>

definition attach_workspaces :: "server_row list \<Rightarrow> 'w tenancy \<Rightarrow> (server_row \<times> (int \<times> string \<times> string option) list) list" where
  "attach_workspaces svs s =
     map (\<lambda>sv. (sv, List.map_filter (\<lambda>(w, v). if v = sv_id sv
        then map_option (\<lambda>k. (wk_id k, wk_name k, wk_color k)) (find_workspace w s) else None) (tn_ws_servers s))) svs"

section \<open>The list of guests\<close>

definition listed_guests :: "string option \<Rightarrow> user \<Rightarrow> 'w tenancy \<Rightarrow> guest_row list" where
  "listed_guests raw u s =
     (let in_ws = (case get_workspace_server_ids raw u s of
            None \<Rightarrow> (\<lambda>_. True) | Some ids \<Rightarrow> (\<lambda>sid. sid \<in> set ids))
      in sort_key gc_name (filter (\<lambda>g. gr_deleted_at g = None \<and> \<not> gr_is_template g \<and> in_ws (gr_server_id g) \<and>
           (can_view_all_instances u \<or> gr_owner_id g = Some (user_id u))) (pn_guests (tn_panel s))))"

text \<open>
  The dictionaries \<open>ipam_by_vmid\<close> and \<open>ipam_all_by_vmid\<close>: the main address of a guest and all of them. An allocation
  with a resource id and no guest is kept under the server \<open>None\<close>.
\<close>

type_synonym guest_key2 = "int option \<times> int"

fun ipam_by_vmid :: "ipam_allocation list \<Rightarrow> (guest_key2, ipam_allocation) pydict \<Rightarrow> (guest_key2, ipam_allocation) pydict" where
  "ipam_by_vmid [] d = d"
| "ipam_by_vmid (a # as) d =
     (if truthy_int (a_server_id a) \<and> truthy_int (a_vmid a) then
        (let k = (a_server_id a, the (a_vmid a)) in
         case map_of d k of
           None \<Rightarrow> ipam_by_vmid as (AList.update k a d)
         | Some current \<Rightarrow> if a_is_primary a \<and> \<not> a_is_primary current
             then ipam_by_vmid as (AList.update k a d) else ipam_by_vmid as d)
      else if truthy_int (a_resource_id a) then
        (let k = (None, the (a_resource_id a)) in
         if map_of d k = None then ipam_by_vmid as (AList.update k a d) else ipam_by_vmid as d)
      else ipam_by_vmid as d)"

definition held_allocations :: "'w tenancy \<Rightarrow> ipam_allocation list" where
  "held_allocations s = filter is_held (allocations (pn_ipam (tn_panel s)))"

definition guest_allocation :: "guest_row \<Rightarrow> 'w tenancy \<Rightarrow> ipam_allocation option" where
  "guest_allocation g s =
     (let d = ipam_by_vmid (held_allocations s) [] in
      case map_of d (Some (gr_server_id g), gr_vmid g) of
        Some a \<Rightarrow> Some a
      | None \<Rightarrow> map_of d (None, gr_vmid g))"

definition shown_address :: "guest_row \<Rightarrow> 'w tenancy \<Rightarrow> string" where
  "shown_address g s =
     (case guest_allocation g s of
        Some a \<Rightarrow> a_ip_address a
      | None \<Rightarrow> (case gc_ip_address g of None \<Rightarrow> [] | Some x \<Rightarrow> x))"

definition shown_addresses :: "guest_row \<Rightarrow> 'w tenancy \<Rightarrow> ipam_allocation list" where
  "shown_addresses g s =
     sort_key (\<lambda>a. (\<not> a_is_primary a, a_id a))
       (filter (\<lambda>a. truthy_int (a_server_id a) \<and> truthy_int (a_vmid a) \<and>
          a_server_id a = Some (gr_server_id g) \<and> a_vmid a = Some (gr_vmid g)) (held_allocations s))"

section \<open>Workspaces\<close>

record workspace_response =
  wr_row :: workspace
  wr_server_count :: nat
  wr_user_count :: nat

record workspace_detail = workspace_response +
  wd_servers :: "server_row list"
  wd_users :: "user list"

definition links_of :: "int \<Rightarrow> (int \<times> int) list \<Rightarrow> int list" where
  "links_of wid links = map snd (filter (\<lambda>(w, x). w = wid) links)"

definition build_response :: "workspace \<Rightarrow> 'w tenancy \<Rightarrow> workspace_response" where
  "build_response w s = \<lparr>wr_row = w, wr_server_count = length (links_of (wk_id w) (tn_ws_servers s)),
     wr_user_count = length (links_of (wk_id w) (tn_ws_users s))\<rparr>"

definition build_detail :: "workspace \<Rightarrow> 'w tenancy \<Rightarrow> workspace_detail" where
  "build_detail w s =
     (let svs = List.map_filter (\<lambda>i. panel_server i s) (links_of (wk_id w) (tn_ws_servers s));
          us = List.map_filter (\<lambda>i. panel_user i s) (links_of (wk_id w) (tn_ws_users s))
      in \<lparr>wr_row = w, wr_server_count = length svs, wr_user_count = length us, wd_servers = svs, wd_users = us\<rparr>)"

definition list_workspaces :: "user \<Rightarrow> 'w tenancy \<Rightarrow> workspace_response list" where
  "list_workspaces u s =
     (let mine = workspaces_of (user_id u) s;
          ids = (case default_workspace s of
                   Some w \<Rightarrow> if wk_id w \<in> set mine then mine else mine @ [wk_id w] | None \<Rightarrow> mine);
          rows = (if is_admin u then tn_workspaces s else filter (\<lambda>w. wk_id w \<in> set ids) (tn_workspaces s))
      in map (\<lambda>w. build_response w s)
           (filter wk_is_default (sort_key wk_name rows) @ filter (\<lambda>w. \<not> wk_is_default w) (sort_key wk_name rows)))"

definition get_workspace :: "int \<Rightarrow> user \<Rightarrow> 'w tenancy \<Rightarrow> http_error + workspace_detail" where
  "get_workspace wid u s =
     (case find_workspace wid s of
        None \<Rightarrow> Inl (not_found ''Workspace'')
      | Some w \<Rightarrow> if \<not> is_admin u \<and> \<not> is_member wid u s \<and> \<not> wk_is_default w
          then Inl (HTTPException 403 (Msg ''Access denied'')) else Inr (build_detail w s))"

record workspace_create =
  wc_name :: string
  wc_description :: "string option"
  wc_color :: "string option"
  wc_server_ids :: "int list option"
  wc_user_ids :: "int list option"

definition known_ids :: "('r \<Rightarrow> int) \<Rightarrow> 'r list \<Rightarrow> int list \<Rightarrow> int list" where
  "known_ids key rows ids = filter (\<lambda>i. find (\<lambda>r. key r = i) rows \<noteq> None) ids"

text \<open>Rows of a junction table for the ids that exist; \<open>None\<close> when the unique index refuses one of them.\<close>

definition link_rows :: "int \<Rightarrow> int list \<Rightarrow> (int \<times> int) list \<Rightarrow> (int \<times> int) list option" where
  "link_rows wid ids links =
     (let new = map (Pair wid) ids in if distinct (links @ new) then Some (links @ new) else None)"

definition workspace_created :: "user \<Rightarrow> workspace \<Rightarrow> log_entry" where
  "workspace_created u w = (log_args ''info'' ''system'' ''workspace_create''
       (''Workspace '' @ [CHR 0x27] @ wk_name w @ [CHR 0x27] @ '' created''))\<lparr>
     le_username := Some (username u), le_user_id := Some (user_id u), le_resource_type := Some ''workspace'',
     le_resource_id := Some (dec_int (wk_id w)), le_resource_name := Some (wk_name w)\<rparr>"

definition log_tenancy :: "int \<Rightarrow> log_entry \<Rightarrow> 'w tenancy \<Rightarrow> 'w tenancy" where
  "log_tenancy now e s = s\<lparr>tn_panel := (tn_panel s)\<lparr>pn_logs := log_write now e (pn_logs (tn_panel s))\<rparr>\<rparr>"

definition set_links :: "(int \<times> int) list \<Rightarrow> (int \<times> int) list \<Rightarrow> 'w tenancy \<Rightarrow> 'w tenancy" where
  "set_links svs people s = s\<lparr>tn_ws_servers := svs, tn_ws_users := people\<rparr>"

definition create_workspace :: "int \<Rightarrow> user \<Rightarrow> workspace_create \<Rightarrow> 'w tenancy \<Rightarrow>
    (http_error + workspace_detail) \<times> 'w tenancy" where
  "create_workspace now u d s =
     (case PermissionChecker ''setting:update'' u of
        Inl e \<Rightarrow> (Inl e, s)
      | Inr _ \<Rightarrow>
        if find (\<lambda>w. wk_name w = wc_name d) (tn_workspaces s) \<noteq> None
        then (Inl (bad_request (''Workspace with name '' @ [CHR 0x27] @ wc_name d @ [CHR 0x27] @ '' already exists'')), s)
        else
          (let w = \<lparr>wk_id = tn_next_workspace s, wk_name = wc_name d, wk_description = wc_description d,
                 wk_color = (if truthy_str (wc_color d) then wc_color d else Some ''#667eea''),
                 wk_is_default = False, wk_created_by = Some (user_id u), wk_created_at = now\<rparr>;
               svs = known_ids sv_id (pn_servers (tn_panel s)) (or_default (wc_server_ids d) []);
               us = known_ids user_id (pn_users (tn_panel s)) (or_default (wc_user_ids d) [])
           in (case (link_rows (wk_id w) svs (tn_ws_servers s), link_rows (wk_id w) us (tn_ws_users s)) of
                 (Some ls, Some lu) \<Rightarrow>
                   (let s1 = set_links ls lu (s\<lparr>tn_workspaces := tn_workspaces s @ [w],
                          tn_next_workspace := tn_next_workspace s + 1\<rparr>)
                    in (Inr (build_detail w s1), log_tenancy now (workspace_created u w) s1))
               | _ \<Rightarrow> (Inl internal_error, s))))"

record workspace_update =
  wu_name :: "string option"
  wu_description :: "string option"
  wu_color :: "string option"

definition store_workspace :: "workspace \<Rightarrow> 'w tenancy \<Rightarrow> 'w tenancy" where
  "store_workspace w s = s\<lparr>tn_workspaces := update_first (\<lambda>v. wk_id v = wk_id w) (\<lambda>_. w) (tn_workspaces s)\<rparr>"

definition update_workspace :: "int \<Rightarrow> user \<Rightarrow> workspace_update \<Rightarrow> 'w tenancy \<Rightarrow>
    (http_error + workspace_detail) \<times> 'w tenancy" where
  "update_workspace wid u d s =
     (case PermissionChecker ''setting:update'' u of
        Inl e \<Rightarrow> (Inl e, s)
      | Inr _ \<Rightarrow>
     (case find_workspace wid s of
        None \<Rightarrow> (Inl (not_found ''Workspace''), s)
      | Some w \<Rightarrow>
        (case wu_name d of
           Some n \<Rightarrow> if find (\<lambda>v. wk_name v = n \<and> wk_id v \<noteq> wid) (tn_workspaces s) \<noteq> None
             then (Inl (bad_request (''Name '' @ [CHR 0x27] @ n @ [CHR 0x27] @ '' already taken'')), s)
             else (let w1 = w\<lparr>wk_name := n, wk_description := or_else (wu_description d) (wk_description w),
                        wk_color := or_else (wu_color d) (wk_color w)\<rparr>;
                       s1 = store_workspace w1 s in (Inr (build_detail w1 s1), s1))
         | None \<Rightarrow> (let w1 = w\<lparr>wk_description := or_else (wu_description d) (wk_description w),
                        wk_color := or_else (wu_color d) (wk_color w)\<rparr>;
                       s1 = store_workspace w1 s in (Inr (build_detail w1 s1), s1)))))"

definition unlink_workspace :: "int \<Rightarrow> (int \<times> int) list \<Rightarrow> (int \<times> int) list" where
  "unlink_workspace wid links = filter (\<lambda>(w, _). w \<noteq> wid) links"

definition delete_workspace :: "int \<Rightarrow> user \<Rightarrow> 'w tenancy \<Rightarrow> (http_error + unit) \<times> 'w tenancy" where
  "delete_workspace wid u s =
     (case PermissionChecker ''setting:update'' u of
        Inl e \<Rightarrow> (Inl e, s)
      | Inr _ \<Rightarrow>
     (case find_workspace wid s of
        None \<Rightarrow> (Inl (not_found ''Workspace''), s)
      | Some w \<Rightarrow>
        if wk_is_default w then (Inl (bad_request ''Cannot delete the Default workspace''), s)
        else (Inr (), set_links (unlink_workspace wid (tn_ws_servers s)) (unlink_workspace wid (tn_ws_users s))
          (s\<lparr>tn_workspaces := remove_first (\<lambda>v. wk_id v = wid) (tn_workspaces s),
             tn_networks := map (\<lambda>n. if nc_workspace_id n = Some wid then n\<lparr>nc_workspace_id := None\<rparr> else n)
               (tn_networks s)\<rparr>))))"

text \<open>The four endpoints that change the members of a workspace, with what they do to the table of links.\<close>

definition change_links :: "int \<Rightarrow> user \<Rightarrow> ('w tenancy \<Rightarrow> 'w tenancy option) \<Rightarrow> 'w tenancy \<Rightarrow>
    (http_error + workspace_detail) \<times> 'w tenancy" where
  "change_links wid u f s =
     (case PermissionChecker ''setting:update'' u of
        Inl e \<Rightarrow> (Inl e, s)
      | Inr _ \<Rightarrow>
     (case find_workspace wid s of
        None \<Rightarrow> (Inl (not_found ''Workspace''), s)
      | Some w \<Rightarrow> (case f s of
            None \<Rightarrow> (Inl internal_error, s)
          | Some s1 \<Rightarrow> (Inr (build_detail w s1), s1))))"

definition assign_servers :: "int \<Rightarrow> user \<Rightarrow> int list \<Rightarrow> 'w tenancy \<Rightarrow> (http_error + workspace_detail) \<times> 'w tenancy" where
  "assign_servers wid u ids = change_links wid u (\<lambda>s. map_option (\<lambda>l. s\<lparr>tn_ws_servers := l\<rparr>)
     (link_rows wid (known_ids sv_id (pn_servers (tn_panel s)) ids) (unlink_workspace wid (tn_ws_servers s))))"

definition assign_users :: "int \<Rightarrow> user \<Rightarrow> int list \<Rightarrow> 'w tenancy \<Rightarrow> (http_error + workspace_detail) \<times> 'w tenancy" where
  "assign_users wid u ids = change_links wid u (\<lambda>s. map_option (\<lambda>l. s\<lparr>tn_ws_users := l\<rparr>)
     (link_rows wid (known_ids user_id (pn_users (tn_panel s)) ids) (unlink_workspace wid (tn_ws_users s))))"

definition remove_server :: "int \<Rightarrow> int \<Rightarrow> user \<Rightarrow> 'w tenancy \<Rightarrow> (http_error + workspace_detail) \<times> 'w tenancy" where
  "remove_server wid sid u = change_links wid u (\<lambda>s. Some (s\<lparr>tn_ws_servers := filter (\<lambda>l. l \<noteq> (wid, sid)) (tn_ws_servers s)\<rparr>))"

definition remove_user :: "int \<Rightarrow> int \<Rightarrow> user \<Rightarrow> 'w tenancy \<Rightarrow> (http_error + workspace_detail) \<times> 'w tenancy" where
  "remove_user wid uid u = change_links wid u (\<lambda>s. Some (s\<lparr>tn_ws_users := filter (\<lambda>l. l \<noteq> (wid, uid)) (tn_ws_users s)\<rparr>))"

section \<open>Servers of a user\<close>

definition server_workspaces :: "int \<Rightarrow> 'w tenancy \<Rightarrow> (int \<times> string) list" where
  "server_workspaces sid s = List.map_filter (\<lambda>(w, v). if v = sid
     then map_option (\<lambda>k. (wk_id k, wk_name k)) (find_workspace w s) else None) (tn_ws_servers s)"

definition user_workspaces :: "int \<Rightarrow> 'w tenancy \<Rightarrow> (int \<times> string) list" where
  "user_workspaces uid s = map (\<lambda>k. (wk_id k, wk_name k))
     (filter (\<lambda>k. wk_id k \<in> set (workspaces_of uid s)) (tn_workspaces s))"

definition get_user_servers :: "int \<Rightarrow> user \<Rightarrow> 'w tenancy \<Rightarrow> http_error + server_row list" where
  "get_user_servers uid u s =
     (case PermissionChecker ''user:view'' u of
        Inl e \<Rightarrow> Inl e
      | Inr _ \<Rightarrow> if panel_user uid s = None then Inl (not_found ''User'')
          else Inr (List.map_filter (\<lambda>i. panel_server i s) (assigned_servers uid s)))"

record server_assignment =
  as_server :: server_row
  as_workspaces :: "(int \<times> string) list"
  as_compatible :: bool
  as_assigned :: bool

definition get_user_server_assignments :: "int \<Rightarrow> user \<Rightarrow> 'w tenancy \<Rightarrow>
    http_error + server_assignment list \<times> (int \<times> string) list" where
  "get_user_server_assignments uid u s =
     (case PermissionChecker ''user:view'' u of
        Inl e \<Rightarrow> Inl e
      | Inr _ \<Rightarrow> if panel_user uid s = None then Inl (not_found ''User'')
          else (let mine = set (workspaces_of uid s) in
            Inr (map (\<lambda>sv. let theirs = server_workspaces (sv_id sv) s in
                  \<lparr>as_server = sv, as_workspaces = theirs, as_compatible = (mine \<inter> fst ` set theirs \<noteq> {}),
                   as_assigned = (sv_id sv \<in> set (assigned_servers uid s))\<rparr>) (pn_servers (tn_panel s)),
              user_workspaces uid s)))"

record workspace_conflict =
  cf_server_id :: int
  cf_server_name :: string
  cf_server_workspaces :: "(int \<times> string) list"
  cf_user_workspaces :: "(int \<times> string) list"

text \<open>\<open>Conflicts\<close> is the answer 409, with the list in its detail.\<close>

datatype assign_answer = Cleared | Assigned "int list" | Conflicts "workspace_conflict list"

definition server_conflict :: "int \<Rightarrow> 'w tenancy \<Rightarrow> server_row \<Rightarrow> bool" where
  "server_conflict uid s sv =
     (let mine = set (workspaces_of uid s); theirs = fst ` set (server_workspaces (sv_id sv) s)
      in mine \<noteq> {} \<and> theirs \<noteq> {} \<and> mine \<inter> theirs = {})"

definition id_list_text :: "int list \<Rightarrow> string" where
  "id_list_text ids = [CHR ''[''] @ join_with '', '' (map dec_int ids) @ [CHR '']'']"

definition user_event :: "string \<Rightarrow> string \<Rightarrow> user \<Rightarrow> string option \<Rightarrow> user \<Rightarrow> log_entry" where
  "user_event act message cur ip v = (log_args ''info'' ''auth'' act message)\<lparr>
     le_username := Some (username cur), le_user_id := Some (user_id cur), le_ip_address := ip,
     le_resource_type := Some ''user'', le_resource_id := Some (dec_int (user_id v)), le_resource_name := Some (username v)\<rparr>"

definition set_assigned :: "int \<Rightarrow> int list \<Rightarrow> 'w tenancy \<Rightarrow> 'w tenancy" where
  "set_assigned uid ids s = s\<lparr>tn_user_servers := filter (\<lambda>(v, _). v \<noteq> uid) (tn_user_servers s) @ map (Pair uid) ids\<rparr>"

definition set_user_servers :: "int \<Rightarrow> int \<Rightarrow> user \<Rightarrow> string option \<Rightarrow> int list \<Rightarrow> 'w tenancy \<Rightarrow>
    (http_error + assign_answer) \<times> 'w tenancy" where
  "set_user_servers now uid u ip ids s =
     (case PermissionChecker ''user:update'' u of
        Inl e \<Rightarrow> (Inl e, s)
      | Inr _ \<Rightarrow>
     (case panel_user uid s of
        None \<Rightarrow> (Inl (not_found ''User''), s)
      | Some v \<Rightarrow>
        if ids = [] then (Inr Cleared, set_assigned uid [] s)
        else
          (let svs = filter (\<lambda>sv. sv_id sv \<in> set ids) (pn_servers (tn_panel s));
               bad = filter (server_conflict uid s) svs
           in if bad \<noteq> [] then
                (Inr (Conflicts (map (\<lambda>sv. \<lparr>cf_server_id = sv_id sv, cf_server_name = sv_name sv,
                   cf_server_workspaces = server_workspaces (sv_id sv) s,
                   cf_user_workspaces = user_workspaces uid s\<rparr>) bad)), s)
              else (Inr (Assigned (map sv_id svs)),
                log_tenancy now (user_event ''user_servers_updated'' (''Servers assigned to '' @ [CHR 0x27] @ username v @
                  [CHR 0x27] @ '' by '' @ username u @ '': '' @ id_list_text (map sv_id svs)) u ip v)
                  (set_assigned uid (map sv_id svs) s)))))"

section \<open>Quotas of a user\<close>

record quota_limits =
  ql_instances :: "int option"
  ql_cores :: "int option"
  ql_memory_mb :: "int option"
  ql_disk_gb :: "int option"

definition limits_of :: "user_quota \<Rightarrow> quota_limits" where
  "limits_of q = \<lparr>ql_instances = max_instances q, ql_cores = max_cores q, ql_memory_mb = max_memory_mb q,
     ql_disk_gb = max_disk_gb q\<rparr>"

definition no_limits :: quota_limits where
  "no_limits = \<lparr>ql_instances = None, ql_cores = None, ql_memory_mb = None, ql_disk_gb = None\<rparr>"

definition find_quota :: "int \<Rightarrow> 'w panel \<Rightarrow> user_quota option" where
  "find_quota uid p = find (\<lambda>q. quota_user_id q = uid) (pn_quotas p)"

definition get_user_quota :: "int \<Rightarrow> user \<Rightarrow> 'w tenancy \<Rightarrow> http_error + quota_limits \<times> usage" where
  "get_user_quota uid u s =
     (case PermissionChecker ''quota:view'' u of
        Inl e \<Rightarrow> Inl e
      | Inr _ \<Rightarrow> if panel_user uid s = None then Inl (not_found ''User'')
          else Inr (case find_quota uid (tn_panel s) of None \<Rightarrow> no_limits | Some q \<Rightarrow> limits_of q,
            get_user_usage uid (tn_panel s)))"

definition none_text :: "int option \<Rightarrow> string" where
  "none_text v = (case v of None \<Rightarrow> ''None'' | Some i \<Rightarrow> dec_int i)"

definition put_quota :: "int \<Rightarrow> quota_limits \<Rightarrow> 'w panel \<Rightarrow> 'w panel" where
  "put_quota uid l p =
     (let q = \<lparr>quota_user_id = uid, max_instances = ql_instances l, max_cores = ql_cores l,
                max_memory_mb = ql_memory_mb l, max_disk_gb = ql_disk_gb l\<rparr>
      in p\<lparr>pn_quotas := (if find_quota uid p = None then pn_quotas p @ [q]
           else update_first (\<lambda>r. quota_user_id r = uid) (\<lambda>_. q) (pn_quotas p))\<rparr>)"

definition set_user_quota :: "int \<Rightarrow> int \<Rightarrow> user \<Rightarrow> string option \<Rightarrow> quota_limits \<Rightarrow> 'w tenancy \<Rightarrow>
    (http_error + quota_limits \<times> usage) \<times> 'w tenancy" where
  "set_user_quota now uid u ip l s =
     (case PermissionChecker ''quota:manage'' u of
        Inl e \<Rightarrow> (Inl e, s)
      | Inr _ \<Rightarrow>
     (case panel_user uid s of
        None \<Rightarrow> (Inl (not_found ''User''), s)
      | Some v \<Rightarrow>
          (let s1 = s\<lparr>tn_panel := put_quota uid l (tn_panel s)\<rparr>
           in (Inr (l, get_user_usage uid (tn_panel s1)),
               log_tenancy now (user_event ''user_quota_updated'' (''Quota set for '' @ [CHR 0x27] @ username v @
                 [CHR 0x27] @ '' by '' @ username u @ '': instances='' @ none_text (ql_instances l) @ '', cores='' @
                 none_text (ql_cores l) @ '', memory_mb='' @ none_text (ql_memory_mb l) @ '', disk_gb='' @
                 none_text (ql_disk_gb l)) u ip v) s1))))"

end
