(* ===== verification/GuestIp.thy ===== *)
theory GuestIp
  imports ScriptEngine Tenancy
begin

text \<open>
  Additional addresses of a guest, \<^verbatim>\<open>backend/app/services/guest_ip_service.py\<close>: the alias addresses of an interface
  are the rows of the address service; one script, run inside the guest, brings the interface to exactly that list,
  and its outcome is written into all these rows. \<open>alias_script\<close> is the text of \<open>guest_ip/sync_aliases.sh\<close>. With
  \<open>get_vm_interfaces\<close> of \<^verbatim>\<open>app/proxmox/client.py\<close>.
\<close>

section \<open>Interfaces of a machine\<close>

definition member_text :: "(string, json) pydict \<Rightarrow> string \<Rightarrow> string \<Rightarrow> string option" where
  "member_text d k default_text = (case map_of d k of None \<Rightarrow> Some default_text | Some j \<Rightarrow> json_str j)"

text \<open>\<^term>\<open>None\<close> where an entry has not the documented types; the method then answers no interfaces.\<close>

definition agent_ip :: "json \<Rightarrow> guest_ip list option" where
  "agent_ip j =
     (case dict_of j of
        None \<Rightarrow> None
      | Some d \<Rightarrow>
          let kind = dget d ''ip-address-type'' in
          if truthy_json (dget d ''ip-address'') \<and> kind \<in> {json.JStr ''ipv4'', json.JStr ''ipv6''}
          then (case (json_str (dget d ''ip-address''), case map_of d ''prefix'' of
                    None \<Rightarrow> Some 0 | Some (json.JInt n) \<Rightarrow> Some n | Some _ \<Rightarrow> None) of
                (Some a, Some p) \<Rightarrow> Some [\<lparr>gi_address = a, gi_v4 = (kind = json.JStr ''ipv4''), gi_prefix = p\<rparr>]
              | _ \<Rightarrow> None)
          else Some [])"

definition agent_iface :: "json \<Rightarrow> iface list option" where
  "agent_iface j =
     (case dict_of j of
        None \<Rightarrow> None
      | Some d \<Rightarrow>
          if \<not> truthy_json (dget d ''ip-addresses'') then Some []
          else (case (member_text d ''name'' ''unknown'', member_text d ''hardware-address'' [], dget d ''ip-addresses'') of
              (Some name, Some mac, json.JList l) \<Rightarrow>
                if name = ''lo'' then Some []
                else map_option (\<lambda>ips. if concat ips = [] then []
                       else [\<lparr>if_name = name, if_mac = mac, if_ips = concat ips\<rparr>]) (map_opt agent_ip l)
            | _ \<Rightarrow> None))"

definition agent_interfaces :: "py_exception + json \<Rightarrow> iface list" where
  "agent_interfaces r =
     (case r of
        Inr (json.JObj d) \<Rightarrow>
          (case map_of d ''result'' of
             Some (json.JList l) \<Rightarrow> or_default (map_option concat (map_opt agent_iface l)) []
           | _ \<Rightarrow> [])
      | _ \<Rightarrow> [])"

definition get_vm_interfaces :: "'w proxmox_api \<Rightarrow> proxmox_client \<Rightarrow> string \<Rightarrow> int \<Rightarrow> ('w px_state, iface list) state" where
  "get_vm_interfaces E c node vmid = (case proxmox c of
       None \<Rightarrow> return []
     | Some h \<Rightarrow> do {
         r \<leftarrow> send E h (Request GET (guest_path Qemu node vmid [''agent'', ''network-get-interfaces'']) []);
         return (agent_interfaces r)
       })"

definition interfaces_of :: "'w proxmox_api \<Rightarrow> proxmox_client \<Rightarrow> string \<Rightarrow> string \<Rightarrow> int \<Rightarrow> ('w px_state, iface list) state" where
  "interfaces_of E c vm_type node vmid =
     (if vm_type = ''lxc'' then get_container_interfaces E c node vmid True else get_vm_interfaces E c node vmid)"

section \<open>The rows of an interface\<close>

record apply_result =
  ap_success :: bool
  ap_status :: string
  ap_persist :: "string option"
  ap_error :: "string option"
  ap_output :: string

definition APPLIED :: string where "APPLIED = ''applied''"
definition RUNTIME_ONLY :: string where "RUNTIME_ONLY = ''runtime_only''"
definition PENDING :: string where "PENDING = ''pending''"
definition FAILED :: string where "FAILED = ''failed''"
definition DEFAULT_INTERFACE :: string where "DEFAULT_INTERFACE = ''eth0''"

definition apply_failed :: "string \<Rightarrow> string \<Rightarrow> apply_result" where
  "apply_failed st e = \<lparr>ap_success = False, ap_status = st, ap_persist = None, ap_error = Some e, ap_output = []\<rparr>"

text \<open>\<open>^[A-Za-z0-9_.:-]{1,15}$\<close>; \<open>$\<close> also matches before a line end that ends the text.\<close>

definition iface_ok :: "string \<Rightarrow> bool" where
  "iface_ok t0 =
     (let t = (if t0 \<noteq> [] \<and> List.last t0 = CHR 0x0A then butlast t0 else t0)
      in t \<noteq> [] \<and> length t \<le> 15 \<and>
         list_all (\<lambda>c. is_digit c \<or> is_upper c \<or> is_lower c \<or> c \<in> {CHR ''_'', CHR ''.'', CHR '':'', CHR ''-''}) t)"

definition prefix_for :: "ipam_allocation \<Rightarrow> ipam_state \<Rightarrow> nat option" where
  "prefix_for a i =
     (case find_network (a_network_id a) i of
        None \<Rightarrow> None
      | Some n \<Rightarrow> if n_network n = [] then None else map_option prefixlen (ip_network (n_network n)))"

definition is_alias_on :: "int \<Rightarrow> int \<Rightarrow> string \<Rightarrow> ipam_allocation \<Rightarrow> bool" where
  "is_alias_on sid vmid ifname a \<longleftrightarrow> a_server_id a = Some sid \<and> a_vmid a = Some vmid \<and>
     a_assignment_kind a = ''alias'' \<and> a_target_interface a = Some ifname \<and> is_held a"

definition address_key :: "ipam_allocation \<Rightarrow> nat \<times> nat" where
  "address_key a = (case ip_address (a_ip_address a) of Some ip \<Rightarrow> (0, ip_int ip) | None \<Rightarrow> (1, 0))"

definition alias_allocations :: "int \<Rightarrow> int \<Rightarrow> string \<Rightarrow> ipam_state \<Rightarrow> ipam_allocation list" where
  "alias_allocations sid vmid ifname i = sort_key address_key (filter (is_alias_on sid vmid ifname) (allocations i))"

definition guest_target :: "int \<Rightarrow> int \<Rightarrow> ipam_allocation option \<Rightarrow> 'w panel \<Rightarrow>
    server_row option \<times> string option \<times> string option" where
  "guest_target sid vmid a p =
     (let g = get_vm_instance sid vmid p;
          node0 = map_option gc_node g;
          node = (if truthy_str node0 then node0 else Option.bind a a_node);
          type0 = map_option gc_vm_type g;
          type = (if \<not> truthy_str type0 \<and> Option.bind a a_resource_type \<in> {Some ''qemu'', Some ''lxc''}
                  then Option.bind a a_resource_type else type0)
      in (find_server sid p, node, type))"

fun pick_interface :: "string option \<Rightarrow> string option \<Rightarrow> iface list \<Rightarrow> string" where
  "pick_interface primary_ip fallback [] = (if truthy_str fallback then the fallback else DEFAULT_INTERFACE)"
| "pick_interface primary_ip fallback (i # is) =
     (if if_name i = [] \<or> if_name i = ''lo'' then pick_interface primary_ip fallback is
      else if truthy_str primary_ip \<and> list_ex (\<lambda>x. Some (gi_address x) = primary_ip) (if_ips i) then if_name i
      else pick_interface primary_ip (if truthy_str fallback then fallback else Some (if_name i)) is)"

definition resolve_interface :: "'w proxmox_api \<Rightarrow> proxmox_client \<Rightarrow> string \<Rightarrow> string \<Rightarrow> int \<Rightarrow> string option \<Rightarrow>
    ('w px_state, string) state" where
  "resolve_interface E c vm_type node vmid primary_ip = do {
     is \<leftarrow> interfaces_of E c vm_type node vmid;
     return (pick_interface primary_ip None is)
   }"

section \<open>Bringing the guest to the rows\<close>

definition finish_apply :: "int \<Rightarrow> ipam_allocation list \<Rightarrow> apply_result \<Rightarrow> 'w tenancy \<Rightarrow> 'w tenancy" where
  "finish_apply now rows r s =
     (let ids = map a_id rows;
          i = pn_ipam (tn_panel s);
          applied = fold (\<lambda>a d. AList.update a (ap_error r,
            if ap_success r then Some now else (case map_of d a of None \<Rightarrow> None | Some (_, t) \<Rightarrow> t)) d) ids (tn_applied s)
      in s\<lparr>tn_applied := applied,
           tn_panel := (tn_panel s)\<lparr>pn_ipam := i\<lparr>allocations :=
             map (\<lambda>a. if a_id a \<in> set ids then a\<lparr>a_apply_status := Some (ap_status r)\<rparr> else a) (allocations i)\<rparr>\<rparr>\<rparr>)"

fun cidr_texts :: "ipam_state \<Rightarrow> ipam_allocation list \<Rightarrow> string + string list" where
  "cidr_texts i [] = Inr []"
| "cidr_texts i (a # as) =
     (case prefix_for a i of
        None \<Rightarrow> Inl (a_ip_address a)
      | Some n \<Rightarrow> map_sum id ((#) (a_ip_address a @ ''/'' @ dec_string n)) (cidr_texts i as))"

text \<open>Lines of the output: \<open>^PVEMANAGER_OK=1$\<close> and \<open>^PVEMANAGER_PERSIST=([\w+]+)$\<close> with the flag for several lines.\<close>

definition says_ok :: "string \<Rightarrow> bool" where
  "says_ok output = (''PVEMANAGER_OK=1'' \<in> set (split_on (CHR 0x0A) output))"

definition persist_word :: "string \<Rightarrow> string option" where
  "persist_word line =
     (let key = ''PVEMANAGER_PERSIST=''; v = drop (length key) line in
      if prefix key line \<and> v \<noteq> [] \<and> list_all (\<lambda>c. is_digit c \<or> is_upper c \<or> is_lower c \<or> c \<in> {CHR ''_'', CHR ''+''}) v
      then Some v else None)"

definition persist_of :: "string \<Rightarrow> string" where
  "persist_of output =
     (case List.map_filter persist_word (split_on (CHR 0x0A) output) of [] \<Rightarrow> ''none'' | v
       # _ \<Rightarrow> v)"

definition outcome_of :: "run_result \<Rightarrow> apply_result" where
  "outcome_of r =
     (if \<not> rr_success r \<or> \<not> says_ok (rr_output r) then
        (let e0 = take 1000 (strip (if truthy_str (rr_error r) then the (rr_error r) else rr_output r));
             e = (if e0 = [] then ([CHR 0xD0, CHR 0xA1, CHR 0xD0, CHR 0xBA, CHR 0xD1, CHR 0x80,
               CHR 0xD0, CHR 0xB8, CHR 0xD0, CHR 0xBF, CHR 0xD1, CHR 0x82] @ '' '' @ [CHR 0xD0,
               CHR 0xBD, CHR 0xD0, CHR 0xB5] @ '' '' @ [CHR 0xD0, CHR 0xB7, CHR 0xD0, CHR 0xB0,
               CHR 0xD0, CHR 0xB2, CHR 0xD0, CHR 0xB5, CHR 0xD1, CHR 0x80, CHR 0xD1, CHR 0x88, CHR 0xD0,
               CHR 0xB8, CHR 0xD0, CHR 0xBB, CHR 0xD1, CHR 0x81, CHR 0xD1, CHR 0x8F] @ '' '' @
               [CHR 0xD1, CHR 0x83, CHR 0xD1, CHR 0x81, CHR 0xD0, CHR 0xBF, CHR 0xD0, CHR 0xB5,
               CHR 0xD1, CHR 0x88, CHR 0xD0, CHR 0xBD, CHR 0xD0, CHR 0xBE]) else e0)
         in \<lparr>ap_success = False, ap_status = (if rr_exit_code r = - 1 then PENDING else FAILED), ap_persist = None,
              ap_error = Some e, ap_output = rr_output r\<rparr>)
      else (let p = persist_of (rr_output r)
            in \<lparr>ap_success = True, ap_status = (if p = ''none'' then RUNTIME_ONLY else APPLIED), ap_persist = Some p,
                 ap_error = None, ap_output = rr_output r\<rparr>))"

definition sync_interface :: "'w proxmox_api \<Rightarrow> 'w ssh_api \<Rightarrow> string \<Rightarrow> int \<Rightarrow> int \<Rightarrow> string \<Rightarrow> ipam_allocation option \<Rightarrow>
    'w tenancy \<Rightarrow> (apply_result \<times> 'w tenancy) option" where
  "sync_interface E S alias_script sid vmid ifname a s =
     (if \<not> iface_ok ifname then Some (apply_failed FAILED (([CHR 0xD0, CHR 0x9D, CHR 0xD0,
       CHR 0xB5, CHR 0xD0, CHR 0xBA, CHR 0xD0, CHR 0xBE, CHR 0xD1, CHR 0x80, CHR 0xD1, CHR 0x80,
       CHR 0xD0, CHR 0xB5, CHR 0xD0, CHR 0xBA, CHR 0xD1, CHR 0x82, CHR 0xD0, CHR 0xBD, CHR 0xD0,
       CHR 0xBE, CHR 0xD0, CHR 0xB5] @ '' '' @ [CHR 0xD0, CHR 0xB8, CHR 0xD0, CHR 0xBC, CHR 0xD1,
       CHR 0x8F] @ '' '' @ [CHR 0xD0, CHR 0xB8, CHR 0xD0, CHR 0xBD, CHR 0xD1, CHR 0x82, CHR 0xD0,
       CHR 0xB5, CHR 0xD1, CHR 0x80, CHR 0xD1, CHR 0x84, CHR 0xD0, CHR 0xB5, CHR 0xD0, CHR 0xB9,
       CHR 0xD1, CHR 0x81, CHR 0xD0, CHR 0xB0] @ '': '') @ ifname), s)
      else
        (let (sv, node, type) = guest_target sid vmid a (tn_panel s);
             rows = alias_allocations sid vmid ifname (pn_ipam (tn_panel s));
             finish = (\<lambda>r t. Some (r, finish_apply (panel_now E (tn_panel t)) rows r t))
         in case sv of
              None \<Rightarrow> finish (apply_failed PENDING ([CHR 0xD0, CHR 0xA1, CHR 0xD0,
                CHR 0xB5, CHR 0xD1, CHR 0x80, CHR 0xD0, CHR 0xB2, CHR 0xD0, CHR 0xB5, CHR 0xD1,
                CHR 0x80] @ '' Proxmox '' @ [CHR 0xD0, CHR 0xBD, CHR 0xD0, CHR 0xB5] @ '' '' @
                [CHR 0xD0, CHR 0xBD, CHR 0xD0, CHR 0xB0, CHR 0xD0, CHR 0xB9, CHR 0xD0, CHR 0xB4,
                CHR 0xD0, CHR 0xB5, CHR 0xD0, CHR 0xBD])) s
            | Some sv \<Rightarrow>
                if \<not> truthy_str node \<or> \<not> truthy_str type
                then finish (apply_failed PENDING ([CHR 0xD0, CHR 0x93, CHR 0xD0, CHR 0xBE, CHR 0xD1,
                  CHR 0x81, CHR 0xD1, CHR 0x82, CHR 0xD1, CHR 0x8C] @ '' '' @ [CHR 0xD0, CHR 0xBD,
                  CHR 0xD0, CHR 0xB5] @ '' '' @ [CHR 0xD0, CHR 0xBD, CHR 0xD0, CHR 0xB0, CHR 0xD0,
                  CHR 0xB9, CHR 0xD0, CHR 0xB4, CHR 0xD0, CHR 0xB5, CHR 0xD0, CHR 0xBD] @ '' '' @
                  [CHR 0xD0, CHR 0xB2] @ '' '' @ [CHR 0xD0, CHR 0xBA, CHR 0xD1, CHR 0x8D, CHR 0xD1,
                  CHR 0x88, CHR 0xD0, CHR 0xB5] @ '' '' @ [CHR 0xE2, CHR 0x80, CHR 0x94] @ '' '' @
                  [CHR 0xD1, CHR 0x81, CHR 0xD0, CHR 0xB8, CHR 0xD0, CHR 0xBD, CHR 0xD1, CHR 0x85,
                  CHR 0xD1, CHR 0x80, CHR 0xD0, CHR 0xBE, CHR 0xD0, CHR 0xBD, CHR 0xD0, CHR 0xB8,
                  CHR 0xD0, CHR 0xB7, CHR 0xD0, CHR 0xB8, CHR 0xD1, CHR 0x80, CHR 0xD1, CHR 0x83,
                  CHR 0xD0, CHR 0xB9, CHR 0xD1, CHR 0x82, CHR 0xD0, CHR 0xB5] @ '' '' @ [CHR 0xD0,
                  CHR 0xB8, CHR 0xD0, CHR 0xBD, CHR 0xD1, CHR 0x81, CHR 0xD1, CHR 0x82, CHR 0xD0,
                  CHR 0xB0, CHR 0xD0, CHR 0xBD, CHR 0xD1, CHR 0x81, CHR 0xD1, CHR 0x8B])) s
                else (case cidr_texts (pn_ipam (tn_panel s)) rows of
                    Inl ip \<Rightarrow> finish (apply_failed FAILED (([CHR 0xD0, CHR 0x9D, CHR 0xD0,
                      CHR 0xB5] @ '' '' @ [CHR 0xD1, CHR 0x83, CHR 0xD0, CHR 0xB4, CHR 0xD0, CHR 0xB0,
                      CHR 0xD0, CHR 0xBB, CHR 0xD0, CHR 0xBE, CHR 0xD1, CHR 0x81, CHR 0xD1, CHR 0x8C] @
                      '' '' @ [CHR 0xD0, CHR 0xBE, CHR 0xD0, CHR 0xBF, CHR 0xD1, CHR 0x80, CHR 0xD0,
                      CHR 0xB5, CHR 0xD0, CHR 0xB4, CHR 0xD0, CHR 0xB5, CHR 0xD0, CHR 0xBB, CHR 0xD0,
                      CHR 0xB8, CHR 0xD1, CHR 0x82, CHR 0xD1, CHR 0x8C] @ '' '' @ [CHR 0xD0, CHR 0xBF,
                      CHR 0xD1, CHR 0x80, CHR 0xD0, CHR 0xB5, CHR 0xD1, CHR 0x84, CHR 0xD0, CHR 0xB8,
                      CHR 0xD0, CHR 0xBA, CHR 0xD1, CHR 0x81] @ '' '' @ [CHR 0xD1, CHR 0x81, CHR 0xD0,
                      CHR 0xB5, CHR 0xD1, CHR 0x82, CHR 0xD0, CHR 0xB8] @ '' '' @ [CHR 0xD0, CHR 0xB4,
                      CHR 0xD0, CHR 0xBB, CHR 0xD1, CHR 0x8F] @ '' '') @ ip)) s
                  | Inr addresses \<Rightarrow>
                      (case run_script E S (server.truncate sv)
                           \<lparr>st_target_type = ''guest'', st_node = node, st_vmid = Some vmid, st_vm_type = type\<rparr>
                           (render_params alias_script [(''IFACE'', Some ifname), (''ADDRESSES'', Some (join_with '' '' addresses))])
                           ''/bin/sh'' 60 (pn_px (tn_panel s)) of
                         None \<Rightarrow> None
                       | Some (r, px') \<Rightarrow> finish (outcome_of r) (s\<lparr>tn_panel := (tn_panel s)\<lparr>pn_px := px'\<rparr>\<rparr>)))))"

definition primary_result :: "string \<Rightarrow> apply_result" where
  "primary_result out = \<lparr>ap_success = True, ap_status = APPLIED, ap_persist = Some ''primary'', ap_error = None, ap_output = out\<rparr>"

text \<open>Of an allocation of the guest \<open>(sid, vmid)\<close>.\<close>

definition target_interface :: "ipam_allocation \<Rightarrow> string" where
  "target_interface a = (if truthy_str (a_target_interface a) then the (a_target_interface a) else DEFAULT_INTERFACE)"

definition apply_address :: "'w proxmox_api \<Rightarrow> 'w ssh_api \<Rightarrow> string \<Rightarrow> int \<Rightarrow> int \<Rightarrow> ipam_allocation \<Rightarrow> 'w tenancy \<Rightarrow>
    (apply_result \<times> 'w tenancy) option" where
  "apply_address E S alias_script sid vmid a s =
     (if a_assignment_kind a \<noteq> ''alias'' then Some (primary_result ([CHR 0xD0, CHR 0x9E,
       CHR 0xD1, CHR 0x81, CHR 0xD0, CHR 0xBD, CHR 0xD0, CHR 0xBE, CHR 0xD0, CHR 0xB2, CHR 0xD0,
       CHR 0xBD, CHR 0xD0, CHR 0xBE, CHR 0xD0, CHR 0xB9] @ '' '' @ [CHR 0xD0, CHR 0xB0, CHR 0xD0,
       CHR 0xB4, CHR 0xD1, CHR 0x80, CHR 0xD0, CHR 0xB5, CHR 0xD1, CHR 0x81] @ '' '' @ [CHR 0xD0,
       CHR 0xB7, CHR 0xD0, CHR 0xB0, CHR 0xD0, CHR 0xB4, CHR 0xD0, CHR 0xB0, CHR 0xD1, CHR 0x91,
       CHR 0xD1, CHR 0x82, CHR 0xD1, CHR 0x81, CHR 0xD1, CHR 0x8F] @ '' '' @ [CHR 0xD0, CHR 0xBA,
       CHR 0xD0, CHR 0xBE, CHR 0xD0, CHR 0xBD, CHR 0xD1, CHR 0x84, CHR 0xD0, CHR 0xB8, CHR 0xD0,
       CHR 0xB3, CHR 0xD0, CHR 0xBE, CHR 0xD0, CHR 0xBC] @ '' Proxmox''), s)
      else sync_interface E S alias_script sid vmid (target_interface a) (Some a) s)"

definition remove_address :: "'w proxmox_api \<Rightarrow> 'w ssh_api \<Rightarrow> string \<Rightarrow> int \<Rightarrow> int \<Rightarrow> ipam_allocation \<Rightarrow> 'w tenancy \<Rightarrow>
    (apply_result \<times> 'w tenancy) option" where
  "remove_address E S alias_script sid vmid a s =
     (if a_assignment_kind a \<noteq> ''alias'' then Some (primary_result [], s)
      else sync_interface E S alias_script sid vmid (target_interface a) (Some a) s)"

end
