(* ===== verification/IpamApi.thy ===== *)
theory IpamApi
  imports GuestIp
begin

text \<open>
  The endpoints of the address service, \<^verbatim>\<open>backend/app/api/ipam.py\<close>: networks, pools and allocations with the checks
  the endpoints add to the service of theory Ipam, orphans, linking of guests, and the addresses of one guest.

  A body that sets a column without nulls to null is refused by the database when the endpoint commits
  (\<open>internal_error\<close>, nothing changed). An exception \<open>TypeError\<close> of the service is the same answer. The text Python
  gives a bad address is left out of the messages that repeat it. Validators of \<^verbatim>\<open>schemas.py\<close> that refuse a request
  before the endpoint runs are hypotheses (\<open>network_body_ok\<close>, \<open>pool_body_ok\<close>).
\<close>

section \<open>Answers of the service\<close>

fun ipam_message :: "ipam_error \<Rightarrow> string" where
  "ipam_message (AlreadyAllocated ip who) = ''IP '' @ ip @ '' is already allocated to '' @ who"
| "ipam_message (NetworkNotFound n) = ''Network '' @ dec_int n @ '' not found''"
| "ipam_message (NotWithin ip n) = ''IP '' @ ip @ '' is not within network '' @ n"
| "ipam_message InvalidIpOrNetwork = ''Invalid IP or network: ''"
| "ipam_message (IsGateway ip) = ''IP '' @ ip @ '' is the gateway for this network''"
| "ipam_message (NoAvailable n) = ''No available IP addresses in network '' @ dec_int n"
| "ipam_message (NotAllocated ip) = ''IP '' @ ip @ '' is not allocated''"
| "ipam_message NotThisGuest = ''Allocation does not belong to this guest''"
| "ipam_message (LinkedToOther ip who v) = ''IP '' @ ip @ '' is already linked to '' @ who @ '' (VMID '' @ dec_int v @ '') '' @
     [CHR 0xE2, CHR 0x80, CHR 0x94] @ '' duplicate address, resolve it in Proxmox first''"
| "ipam_message PoolNetworkNotFound = ''Network not found''"
| "ipam_message InvalidIpFormat = ''Invalid IP format: ''"
| "ipam_message (RangeOutside n) = ''Range must be within network '' @ n"
| "ipam_message RangeReversed = ''Range start must be less than or equal to range end''"
| "ipam_message (RangeOverlaps n a b) = ''Range overlaps with existing pool '' @ [CHR 0x27] @ n @ [CHR 0x27] @ '' ('' @ a @ ''-'' @ b @ '')''"

definition refused :: "ipam_error \<Rightarrow> http_error" where
  "refused e = bad_request (ipam_message e)"

definition the_ipam :: "'w tenancy \<Rightarrow> ipam_state" where
  "the_ipam s = pn_ipam (tn_panel s)"

definition put_ipam :: "ipam_state \<Rightarrow> 'w tenancy \<Rightarrow> 'w tenancy" where
  "put_ipam i s = s\<lparr>tn_panel := (tn_panel s)\<lparr>pn_ipam := i\<rparr>\<rparr>"

text \<open>A call of the service on the tables of the panel.\<close>

definition on_service :: "(ipam_state \<Rightarrow> 'a \<times> ipam_state) \<Rightarrow> 'w tenancy \<Rightarrow> 'a \<times> 'w tenancy" where
  "on_service f s = on_panel (on_ipam f) s"

definition try_service :: "(ipam_state \<Rightarrow> py_exc + (ipam_error + 'a) \<times> ipam_state) \<Rightarrow> 'w tenancy \<Rightarrow>
    (http_error + 'a) \<times> 'w tenancy" where
  "try_service f s =
     (case f (ipam_view (tn_panel s)) of
        Inl _ \<Rightarrow> (Inl internal_error, s)
      | Inr (r, i) \<Rightarrow> (case r of Inl e \<Rightarrow> (Inl (refused e), put_ipam i s) | Inr a \<Rightarrow> (Inr a, put_ipam i s)))"

definition with_right :: "string \<Rightarrow> user \<Rightarrow> ('w tenancy \<Rightarrow> (http_error + 'a) \<times> 'w tenancy) \<Rightarrow> 'w tenancy \<Rightarrow>
    (http_error + 'a) \<times> 'w tenancy" where
  "with_right p u f s = (case PermissionChecker p u of Inl e \<Rightarrow> (Inl e, s) | Inr _ \<Rightarrow> f s)"

section \<open>Networks\<close>

definition find_columns :: "int \<Rightarrow> 'w tenancy \<Rightarrow> net_columns option" where
  "find_columns nid s = find (\<lambda>c. nc_id c = nid) (tn_networks s)"

record network_body =
  nb_name :: string
  nb_description :: "string option"
  nb_network :: string
  nb_gateway :: "string option"
  nb_vlan_id :: "int option"
  nb_dns_primary :: "string option"
  nb_dns_secondary :: "string option"
  nb_dns_domain :: "string option"
  nb_server_id :: "int option"
  nb_node :: "string option"
  nb_bridge :: "string option"
  nb_workspace_id :: "int option"
  nb_is_default :: bool
  nb_is_active :: bool

definition is_ip_or_none :: "string option \<Rightarrow> bool" where
  "is_ip_or_none v = (case v of None \<Rightarrow> True | Some t \<Rightarrow> ip_address t \<noteq> None)"

definition network_body_ok :: "network_body \<Rightarrow> bool" where
  "network_body_ok b \<longleftrightarrow> 1 \<le> length (nb_name b) \<and> length (nb_name b) \<le> 100 \<and> ip_network (nb_network b) \<noteq> None \<and>
     is_ip_or_none (nb_gateway b) \<and> is_ip_or_none (nb_dns_primary b) \<and> is_ip_or_none (nb_dns_secondary b) \<and>
     (case nb_vlan_id b of None \<Rightarrow> True | Some v \<Rightarrow> 1 \<le> v \<and> v \<le> 4094)"

definition body_network :: "int \<Rightarrow> network_body \<Rightarrow> ipam_network" where
  "body_network i b = \<lparr>n_id = i, n_name = nb_name b, n_network = nb_network b, n_gateway = nb_gateway b,
     n_dns_domain = nb_dns_domain b, n_is_active = nb_is_active b\<rparr>"

definition body_columns :: "int \<Rightarrow> network_body \<Rightarrow> net_columns" where
  "body_columns i b = \<lparr>nc_id = i, nc_description = nb_description b, nc_vlan_id = nb_vlan_id b,
     nc_dns_primary = nb_dns_primary b, nc_dns_secondary = nb_dns_secondary b, nc_server_id = nb_server_id b,
     nc_node = nb_node b, nc_bridge = nb_bridge b, nc_workspace_id = nb_workspace_id b, nc_is_default = nb_is_default b\<rparr>"

definition enforce_single_default :: "net_columns \<Rightarrow> net_columns list \<Rightarrow> net_columns list" where
  "enforce_single_default c rows =
     (if \<not> nc_is_default c \<or> nc_workspace_id c = None then rows
      else map (\<lambda>d. if nc_workspace_id d = nc_workspace_id c \<and> nc_id d \<noteq> nc_id c \<and> nc_is_default d
                    then d\<lparr>nc_is_default := False\<rparr> else d) rows)"

text \<open>The foreign key of the column \<open>workspace_id\<close>.\<close>

definition workspace_known :: "int option \<Rightarrow> 'w tenancy \<Rightarrow> bool" where
  "workspace_known w s = (case w of None \<Rightarrow> True | Some i \<Rightarrow> find_workspace i s \<noteq> None)"

definition create_network :: "user \<Rightarrow> network_body \<Rightarrow> 'w tenancy \<Rightarrow> (http_error + int) \<times> 'w tenancy" where
  "create_network u b = with_right ''ipam:manage'' u (\<lambda>s.
     if find (\<lambda>n. n_network n = nb_network b) (networks (the_ipam s)) \<noteq> None
     then (Inl (bad_request (''Network '' @ nb_network b @ '' already exists'')), s)
     else if \<not> workspace_known (nb_workspace_id b) s then (Inl internal_error, s)
     else
       (let i = tn_next_network s; c = body_columns i b
        in (Inr i, put_ipam ((the_ipam s)\<lparr>networks := networks (the_ipam s) @ [body_network i b]\<rparr>)
              (s\<lparr>tn_networks := enforce_single_default c (tn_networks s @ [c]), tn_next_network := i + 1\<rparr>))))"

text \<open>
  The fields of an update that are set, in any order; \<open>None\<close> for a null. The columns \<open>name\<close>, \<open>is_active\<close> and
  \<open>is_default\<close> take no null.
\<close>

datatype net_field =
    FName "string option" | FGateway "string option" | FDnsDomain "string option" | FActive "bool option"
  | FDescription "string option" | FVlan "int option" | FDnsPrimary "string option" | FDnsSecondary "string option"
  | FServer "int option" | FNode "string option" | FBridge "string option" | FWorkspace "int option"
  | FDefault "bool option"

fun null_refused :: "net_field \<Rightarrow> bool" where
  "null_refused (FName v) = (v = None)"
| "null_refused (FActive v) = (v = None)"
| "null_refused (FDefault v) = (v = None)"
| "null_refused _ = False"

fun set_network :: "net_field \<Rightarrow> ipam_network \<Rightarrow> ipam_network" where
  "set_network (FName (Some v)) n = n\<lparr>n_name := v\<rparr>"
| "set_network (FGateway v) n = n\<lparr>n_gateway := v\<rparr>"
| "set_network (FDnsDomain v) n = n\<lparr>n_dns_domain := v\<rparr>"
| "set_network (FActive (Some v)) n = n\<lparr>n_is_active := v\<rparr>"
| "set_network _ n = n"

fun set_columns :: "net_field \<Rightarrow> net_columns \<Rightarrow> net_columns" where
  "set_columns (FDescription v) c = c\<lparr>nc_description := v\<rparr>"
| "set_columns (FVlan v) c = c\<lparr>nc_vlan_id := v\<rparr>"
| "set_columns (FDnsPrimary v) c = c\<lparr>nc_dns_primary := v\<rparr>"
| "set_columns (FDnsSecondary v) c = c\<lparr>nc_dns_secondary := v\<rparr>"
| "set_columns (FServer v) c = c\<lparr>nc_server_id := v\<rparr>"
| "set_columns (FNode v) c = c\<lparr>nc_node := v\<rparr>"
| "set_columns (FBridge v) c = c\<lparr>nc_bridge := v\<rparr>"
| "set_columns (FWorkspace v) c = c\<lparr>nc_workspace_id := v\<rparr>"
| "set_columns (FDefault (Some v)) c = c\<lparr>nc_is_default := v\<rparr>"
| "set_columns _ c = c"

definition network_not_found :: http_error where
  "network_not_found = not_found ''Network''"

definition update_network :: "int \<Rightarrow> user \<Rightarrow> net_field list \<Rightarrow> 'w tenancy \<Rightarrow> (http_error + unit) \<times> 'w tenancy" where
  "update_network nid u fs = with_right ''ipam:manage'' u (\<lambda>s.
     case (find_network nid (the_ipam s), find_columns nid s) of
       (Some n, Some c) \<Rightarrow>
         (let c' = fold set_columns fs c in
          if list_ex null_refused fs \<or> \<not> workspace_known (nc_workspace_id c') s then (Inl internal_error, s)
          else (Inr (), put_ipam ((the_ipam s)\<lparr>networks := update_first (\<lambda>m. n_id m = nid) (fold set_network fs) (networks (the_ipam s))\<rparr>)
                 (s\<lparr>tn_networks := enforce_single_default c' (update_first (\<lambda>d. nc_id d = nid) (\<lambda>_. c') (tn_networks s))\<rparr>)))
     | _ \<Rightarrow> (Inl network_not_found, s))"

definition delete_network :: "int \<Rightarrow> bool \<Rightarrow> user \<Rightarrow> 'w tenancy \<Rightarrow> (http_error + unit) \<times> 'w tenancy" where
  "delete_network nid force u = with_right ''ipam:manage'' u (\<lambda>s.
     if find_network nid (the_ipam s) = None then (Inl network_not_found, s)
     else
       (let i = the_ipam s; n = length (filter (\<lambda>a. a_network_id a = nid) (allocations i)) in
        if 0 < n \<and> \<not> force
        then (Inl (bad_request (''Network has '' @ dec_string n @ '' allocations. Use force=true to delete anyway.'')), s)
        else (Inr (), put_ipam (i\<lparr>allocations := filter (\<lambda>a. a_network_id a \<noteq> nid) (allocations i),
                 pools := filter (\<lambda>p. p_network_id p \<noteq> nid) (pools i),
                 history := filter (\<lambda>h. h_network_id h \<noteq> Some nid) (history i),
                 networks := remove_first (\<lambda>m. n_id m = nid) (networks i)\<rparr>)
               (s\<lparr>tn_networks := remove_first (\<lambda>c. nc_id c = nid) (tn_networks s)\<rparr>))))"

text \<open>The networks a request lists: the parameters of the query, and the header when no workspace is given.\<close>

definition network_scope :: "string option \<Rightarrow> int option \<Rightarrow> int option" where
  "network_scope raw workspace_id =
     (case workspace_id of
        Some w \<Rightarrow> Some w
      | None \<Rightarrow> (case Option.bind raw py_int of Some p \<Rightarrow> if p \<noteq> 0 then Some p else None | None \<Rightarrow> None))"

definition get_networks :: "string option \<Rightarrow> bool option \<Rightarrow> int option \<Rightarrow> int option \<Rightarrow> user \<Rightarrow> 'w tenancy \<Rightarrow>
    http_error + (ipam_network \<times> net_columns \<times> network_stats option \<times> string option \<times> string option) list" where
  "get_networks raw active server_id workspace_id u s =
     (case PermissionChecker ''ipam:view'' u of
        Inl e \<Rightarrow> Inl e
      | Inr _ \<Rightarrow>
          (let ws = network_scope raw workspace_id;
               rows = List.map_filter (\<lambda>n. map_option (Pair n) (find_columns (n_id n) s)) (networks (the_ipam s));
               keep = (\<lambda>(n, c). (active = None \<or> active = Some (n_is_active n)) \<and>
                 (truthy_int server_id \<longrightarrow> nc_server_id c = server_id) \<and>
                 (truthy_int ws \<longrightarrow> nc_workspace_id c = ws \<or> nc_workspace_id c = None))
           in Inr (map (\<lambda>(n, c). (n, c, get_network_stats (n_id n) (the_ipam s),
                 (if truthy_int (nc_server_id c) then map_option sv_name (panel_server (the (nc_server_id c)) s) else None),
                 (if truthy_int (nc_workspace_id c) then map_option wk_name (find_workspace (the (nc_workspace_id c)) s) else None)))
               (sort_key (\<lambda>(n, c). n_name n) (filter keep rows)))))"

definition get_network :: "int \<Rightarrow> user \<Rightarrow> 'w tenancy \<Rightarrow> http_error + ipam_network \<times> network_stats option" where
  "get_network nid u s =
     (case PermissionChecker ''ipam:view'' u of
        Inl e \<Rightarrow> Inl e
      | Inr _ \<Rightarrow> (case find_network nid (the_ipam s) of
            None \<Rightarrow> Inl network_not_found
          | Some n \<Rightarrow> Inr (n, get_network_stats nid (the_ipam s))))"

definition api_network_stats :: "int \<Rightarrow> user \<Rightarrow> 'w tenancy \<Rightarrow> http_error + network_stats" where
  "api_network_stats nid u s =
     (case PermissionChecker ''ipam:view'' u of
        Inl e \<Rightarrow> Inl e
      | Inr _ \<Rightarrow> (case get_network_stats nid (the_ipam s) of None \<Rightarrow> Inl network_not_found | Some st \<Rightarrow> Inr st))"

definition api_ip_map :: "int \<Rightarrow> user \<Rightarrow> 'w tenancy \<Rightarrow> http_error + ip_info list" where
  "api_ip_map nid u s =
     (case PermissionChecker ''ipam:view'' u of
        Inl e \<Rightarrow> Inl e
      | Inr _ \<Rightarrow> (let m = get_network_ip_map nid (the_ipam s) in
            if m = [] \<and> find_network nid (the_ipam s) = None then Inl network_not_found else Inr m))"

section \<open>Pools\<close>

record pool_body =
  pb_network_id :: int
  pb_name :: string
  pb_range_start :: string
  pb_range_end :: string
  pb_auto_assign :: bool
  pb_is_active :: bool

definition pool_body_ok :: "pool_body \<Rightarrow> bool" where
  "pool_body_ok b \<longleftrightarrow> 1 \<le> length (pb_name b) \<and> length (pb_name b) \<le> 100 \<and> ip_address (pb_range_start b) \<noteq> None \<and>
     ip_address (pb_range_end b) \<noteq> None"

text \<open>The verdict of \<open>validate_pool_range\<close> as the endpoints answer it.\<close>

definition range_verdict :: "py_exc + ipam_error option \<Rightarrow> http_error option" where
  "range_verdict r = (case r of Inl _ \<Rightarrow> Some internal_error | Inr None \<Rightarrow> None | Inr (Some e) \<Rightarrow> Some (refused e))"

definition create_pool :: "user \<Rightarrow> pool_body \<Rightarrow> 'w tenancy \<Rightarrow> (http_error + ipam_pool) \<times> 'w tenancy" where
  "create_pool u b = with_right ''ipam:manage'' u (\<lambda>s.
     if find_network (pb_network_id b) (the_ipam s) = None then (Inl network_not_found, s)
     else (case range_verdict (validate_pool_range (pb_network_id b) (pb_range_start b) (pb_range_end b) None (the_ipam s)) of
         Some e \<Rightarrow> (Inl e, s)
       | None \<Rightarrow>
           (let p = \<lparr>p_id = tn_next_pool s, p_network_id = pb_network_id b, p_name = pb_name b,
                  p_range_start = pb_range_start b, p_range_end = pb_range_end b, p_auto_assign = pb_auto_assign b,
                  p_is_active = pb_is_active b\<rparr>
            in (Inr p, put_ipam ((the_ipam s)\<lparr>pools := pools (the_ipam s) @ [p]\<rparr>) (s\<lparr>tn_next_pool := tn_next_pool s + 1\<rparr>)))))"

record pool_update =
  pu_name :: "string option"
  pu_range_start :: "string option"
  pu_range_end :: "string option"
  pu_auto_assign :: "bool option"
  pu_is_active :: "bool option"
  pu_nulls :: "string list"

text \<open>
  A null for a bound is the empty text, which no bound is; \<open>pu_nulls\<close> are the other columns the update sets to null.
  The type and the description of a pool are left out.
\<close>

definition updated_pool :: "pool_update \<Rightarrow> ipam_pool \<Rightarrow> ipam_pool" where
  "updated_pool d p = p\<lparr>p_name := or_default (pu_name d) (p_name p),
     p_range_start := or_default (pu_range_start d) (p_range_start p),
     p_range_end := or_default (pu_range_end d) (p_range_end p),
     p_auto_assign := or_default (pu_auto_assign d) (p_auto_assign p),
     p_is_active := or_default (pu_is_active d) (p_is_active p)\<rparr>"

definition find_pool :: "int \<Rightarrow> ipam_state \<Rightarrow> ipam_pool option" where
  "find_pool pid i = find (\<lambda>p. p_id p = pid) (pools i)"

definition pool_not_found :: http_error where
  "pool_not_found = not_found ''Pool''"

definition update_pool :: "int \<Rightarrow> user \<Rightarrow> pool_update \<Rightarrow> 'w tenancy \<Rightarrow> (http_error + ipam_pool) \<times> 'w tenancy" where
  "update_pool pid u d = with_right ''ipam:manage'' u (\<lambda>s.
     case find_pool pid (the_ipam s) of
       None \<Rightarrow> (Inl pool_not_found, s)
     | Some p \<Rightarrow>
         (let p' = updated_pool d p;
              verdict = (if pu_range_start d = None \<and> pu_range_end d = None then None
                else range_verdict (validate_pool_range (p_network_id p) (p_range_start p') (p_range_end p') (Some pid) (the_ipam s)))
          in case verdict of
               Some e \<Rightarrow> (Inl e, s)
             | None \<Rightarrow> if pu_nulls d \<noteq> [] then (Inl internal_error, s)
                 else (Inr p', put_ipam ((the_ipam s)\<lparr>pools := update_first (\<lambda>q. p_id q = pid) (\<lambda>_. p') (pools (the_ipam s))\<rparr>) s)))"

definition delete_pool :: "int \<Rightarrow> user \<Rightarrow> 'w tenancy \<Rightarrow> (http_error + unit) \<times> 'w tenancy" where
  "delete_pool pid u = with_right ''ipam:manage'' u (\<lambda>s.
     let i = the_ipam s in
     if find_pool pid i = None then (Inl pool_not_found, s)
     else (Inr (), put_ipam (i\<lparr>pools := remove_first (\<lambda>p. p_id p = pid) (pools i),
            allocations := map (\<lambda>a. if a_pool_id a = Some pid then a\<lparr>a_pool_id := None\<rparr> else a) (allocations i)\<rparr>) s))"

definition get_pools :: "int option \<Rightarrow> bool option \<Rightarrow> user \<Rightarrow> 'w tenancy \<Rightarrow>
    http_error + (ipam_pool \<times> (int \<times> int \<times> int) option) list" where
  "get_pools nid active u s =
     (case PermissionChecker ''ipam:view'' u of
        Inl e \<Rightarrow> Inl e
      | Inr _ \<Rightarrow> Inr (map (\<lambda>p. (p, get_pool_stats (p_id p) (the_ipam s)))
          (sort_key (\<lambda>p. (p_network_id p, p_range_start p))
            (filter (\<lambda>p. (truthy_int nid \<longrightarrow> Some (p_network_id p) = nid) \<and> (active = None \<or> active = Some (p_is_active p)))
              (pools (the_ipam s))))))"

section \<open>Allocations\<close>

definition allocation_by_id :: "int \<Rightarrow> ipam_state \<Rightarrow> ipam_allocation option" where
  "allocation_by_id aid i = find (\<lambda>a. a_id a = aid) (allocations i)"

definition allocation_not_found :: http_error where
  "allocation_not_found = not_found ''Allocation''"

record allocation_filter =
  af_network_id :: "int option"
  af_pool_id :: "int option"
  af_status :: "string option"
  af_resource_type :: "string option"
  af_server_id :: "int option"
  af_vmid :: "int option"
  af_search :: "string option"

text \<open>\<open>LIKE '%text%'\<close> with a text that has no wildcard of its own.\<close>

definition like_field :: "string \<Rightarrow> string option \<Rightarrow> bool" where
  "like_field p v = (case v of None \<Rightarrow> False | Some t \<Rightarrow> substring_of p t)"

definition matches_filter :: "allocation_filter \<Rightarrow> ipam_allocation \<Rightarrow> bool" where
  "matches_filter q a \<longleftrightarrow>
     (truthy_int (af_network_id q) \<longrightarrow> Some (a_network_id a) = af_network_id q) \<and>
     (truthy_int (af_pool_id q) \<longrightarrow> a_pool_id a = af_pool_id q) \<and>
     (truthy_str (af_status q) \<longrightarrow> Some (a_status a) = af_status q) \<and>
     (truthy_str (af_resource_type q) \<longrightarrow> a_resource_type a = af_resource_type q) \<and>
     (af_server_id q \<noteq> None \<longrightarrow> a_server_id a = af_server_id q) \<and>
     (af_vmid q \<noteq> None \<longrightarrow> a_vmid a = af_vmid q) \<and>
     (truthy_str (af_search q) \<longrightarrow> like_field (the (af_search q)) (Some (a_ip_address a)) \<or>
        like_field (the (af_search q)) (a_resource_name a) \<or> like_field (the (af_search q)) (a_hostname a))"

definition named_allocation :: "ipam_state \<Rightarrow> ipam_allocation \<Rightarrow> ipam_allocation \<times> string option \<times> string option" where
  "named_allocation i a = (a, map_option n_name (find_network (a_network_id a) i),
     (if truthy_int (a_pool_id a) then map_option p_name (find_pool (the (a_pool_id a)) i) else None))"

definition get_allocations :: "allocation_filter \<Rightarrow> nat \<Rightarrow> nat \<Rightarrow> user \<Rightarrow> 'w tenancy \<Rightarrow>
    http_error + (ipam_allocation \<times> string option \<times> string option) list" where
  "get_allocations q limit offset u s =
     (case PermissionChecker ''ipam:view'' u of
        Inl e \<Rightarrow> Inl e
      | Inr _ \<Rightarrow> Inr (map (named_allocation (the_ipam s)) (take limit (drop offset
          (sort_key a_ip_address (filter (matches_filter q) (allocations (the_ipam s))))))))"

definition get_allocation :: "int \<Rightarrow> user \<Rightarrow> 'w tenancy \<Rightarrow> http_error + ipam_allocation \<times> string option \<times> string option" where
  "get_allocation aid u s =
     (case PermissionChecker ''ipam:view'' u of
        Inl e \<Rightarrow> Inl e
      | Inr _ \<Rightarrow> (case allocation_by_id aid (the_ipam s) of
            None \<Rightarrow> Inl allocation_not_found | Some a \<Rightarrow> Inr (named_allocation (the_ipam s) a)))"

text \<open>The body of a new allocation; its fields \<open>dns_ptr_record\<close>, \<open>expires_at\<close> and \<open>allocated_by\<close> are not handed on.\<close>

record allocation_body =
  ab_request :: alloc_request
  ab_dns_ptr_record :: bool
  ab_expires_at :: "int option"

definition create_allocation :: "user \<Rightarrow> allocation_body \<Rightarrow> 'w tenancy \<Rightarrow> (http_error + ipam_allocation) \<times> 'w tenancy" where
  "create_allocation u b = with_right ''ipam:manage'' u (\<lambda>s.
     let q = ab_request b in
     try_service (allocate_ip (q\<lparr>rq_allocated_by := Some (username u), rq_is_primary := None,
       rq_assignment_kind := ''primary'', rq_target_interface := None, rq_apply_status := None\<rparr>)) s)"

definition api_auto_allocate :: "user \<Rightarrow> int \<Rightarrow> int option \<Rightarrow> alloc_request \<Rightarrow> 'w tenancy \<Rightarrow>
    (http_error + ipam_allocation) \<times> 'w tenancy" where
  "api_auto_allocate u nid pid q = with_right ''ipam:manage'' u
     (try_service (auto_allocate_ip nid pid
       ((request_for [] nid)\<lparr>rq_resource_type := rq_resource_type q, rq_resource_id := rq_resource_id q,
         rq_resource_name := rq_resource_name q, rq_hostname := rq_hostname q,
         rq_allocated_by := Some (username u), rq_notes := rq_notes q\<rparr>)))"

text \<open>A field of an update: a value, or a null for one of the columns that take none.\<close>

datatype alloc_field = Sets field_update | Nulls string

definition api_update_allocation :: "int \<Rightarrow> user \<Rightarrow> alloc_field list \<Rightarrow> 'w tenancy \<Rightarrow>
    (http_error + ipam_allocation) \<times> 'w tenancy" where
  "api_update_allocation aid u fs = with_right ''ipam:manage'' u (\<lambda>s.
     case allocation_by_id aid (the_ipam s) of
       None \<Rightarrow> (Inl allocation_not_found, s)
     | Some a \<Rightarrow>
         if list_ex (\<lambda>f. case f of Nulls _ \<Rightarrow> True | Sets _ \<Rightarrow> False) fs then (Inl internal_error, s)
         else try_service (\<lambda>i. Inr (update_allocation (a_ip_address a) (Some (username u))
           (List.map_filter (\<lambda>f. case f of Sets x \<Rightarrow> Some x | Nulls _ \<Rightarrow> None) fs) i)) s)"

definition delete_allocation :: "int \<Rightarrow> string option \<Rightarrow> user \<Rightarrow> 'w tenancy \<Rightarrow> (http_error + unit) \<times> 'w tenancy" where
  "delete_allocation aid reason u = with_right ''ipam:manage'' u (\<lambda>s.
     case allocation_by_id aid (the_ipam s) of
       None \<Rightarrow> (Inl allocation_not_found, s)
     | Some a \<Rightarrow> try_service (\<lambda>i. Inr (release_ip (a_ip_address a) (Some (username u)) reason i)) s)"

definition api_next_available :: "int \<Rightarrow> int option \<Rightarrow> user \<Rightarrow> 'w tenancy \<Rightarrow> http_error + string" where
  "api_next_available nid pid u s =
     (case PermissionChecker ''ipam:view'' u of
        Inl e \<Rightarrow> Inl e
      | Inr _ \<Rightarrow> (case get_next_available_ip nid pid False (ipam_view (tn_panel s)) of
            Some ip \<Rightarrow> if ip \<noteq> [] then Inr ip else Inl (HTTPException 404 (Msg ''No available IP addresses''))
          | None \<Rightarrow> Inl (HTTPException 404 (Msg ''No available IP addresses''))))"

section \<open>History, conflicts and the summary\<close>

text \<open>The newest entries first; the table is in the order of insertion.\<close>

definition get_history :: "int option \<Rightarrow> string option \<Rightarrow> string option \<Rightarrow> nat \<Rightarrow> user \<Rightarrow> 'w tenancy \<Rightarrow>
    http_error + ipam_history list" where
  "get_history nid ip act limit u s =
     (case PermissionChecker ''ipam:view'' u of
        Inl e \<Rightarrow> Inl e
      | Inr _ \<Rightarrow> Inr (take limit (rev (filter (\<lambda>h. (truthy_int nid \<longrightarrow> h_network_id h = nid) \<and>
          (truthy_str ip \<longrightarrow> Some (h_ip_address h) = ip) \<and> (truthy_str act \<longrightarrow> Some (h_action h) = act))
          (history (the_ipam s))))))"

definition get_ip_history :: "string \<Rightarrow> nat \<Rightarrow> user \<Rightarrow> 'w tenancy \<Rightarrow> http_error + ipam_history list" where
  "get_ip_history ip limit u s =
     (case PermissionChecker ''ipam:view'' u of
        Inl e \<Rightarrow> Inl e
      | Inr _ \<Rightarrow> Inr (take limit (rev (filter (\<lambda>h. h_ip_address h = ip) (history (the_ipam s))))))"

definition api_conflicts :: "int option \<Rightarrow> user \<Rightarrow> 'w tenancy \<Rightarrow> http_error + (string \<times> ipam_allocation list) list \<times> nat" where
  "api_conflicts nid u s =
     (case PermissionChecker ''ipam:view'' u of
        Inl e \<Rightarrow> Inl e
      | Inr _ \<Rightarrow> (let c = detect_conflicts nid (the_ipam s) in Inr (c, length c)))"

record ipam_summary =
  su_networks :: int
  su_pools :: int
  su_allocated :: int
  su_reserved :: int
  su_vms :: int
  su_lxcs :: int
  su_physical :: int
  su_recent :: "ipam_history list"

definition get_ipam_summary :: "user \<Rightarrow> 'w tenancy \<Rightarrow> http_error + ipam_summary" where
  "get_ipam_summary u s =
     (case PermissionChecker ''ipam:view'' u of
        Inl e \<Rightarrow> Inl e
      | Inr _ \<Rightarrow> (let i = the_ipam s in Inr \<lparr>su_networks = count_rows n_is_active (networks i),
          su_pools = count_rows p_is_active (pools i),
          su_allocated = count_rows (\<lambda>a. a_status a = ''allocated'') (allocations i),
          su_reserved = count_rows (\<lambda>a. a_status a = ''reserved'') (allocations i),
          su_vms = count_rows (\<lambda>a. a_resource_type a = Some ''vm'') (allocations i),
          su_lxcs = count_rows (\<lambda>a. a_resource_type a = Some ''lxc'') (allocations i),
          su_physical = count_rows (\<lambda>a. a_resource_type a = Some ''physical'') (allocations i),
          su_recent = take 5 (rev (filter (\<lambda>h. h_action h = ''allocated'') (history i)))\<rparr>))"

section \<open>Orphans\<close>

record orphan =
  or_id :: int
  or_ip_address :: string
  or_resource_name :: "string option"
  or_resource_type :: "string option"
  or_vmid :: "int option"
  or_server_id :: "int option"
  or_reason :: string

definition orphan_row :: "string \<Rightarrow> ipam_allocation \<Rightarrow> orphan" where
  "orphan_row reason a = \<lparr>or_id = a_id a, or_ip_address = a_ip_address a, or_resource_name = a_resource_name a,
     or_resource_type = a_resource_type a, or_vmid = a_vmid a, or_server_id = a_server_id a, or_reason = reason\<rparr>"

definition guest_gone :: "ipam_allocation \<Rightarrow> 'w tenancy \<Rightarrow> bool" where
  "guest_gone a s \<longleftrightarrow> (case (a_server_id a, a_vmid a) of
       (Some sid, Some v) \<Rightarrow> is_held a \<and> get_vm_instance sid v (tn_panel s) = None | _ \<Rightarrow> False)"

definition server_gone :: "ipam_allocation \<Rightarrow> 'w tenancy \<Rightarrow> bool" where
  "server_gone a s \<longleftrightarrow> (case a_server_id a of Some sid \<Rightarrow> is_held a \<and> panel_server sid s = None | None \<Rightarrow> False)"

definition orphans :: "'w tenancy \<Rightarrow> orphan list" where
  "orphans s =
     (let rows = allocations (the_ipam s);
          lost = filter (\<lambda>a. guest_gone a s) rows
      in map (orphan_row ''VM/LXC not found or deleted'') lost @
         map (\<lambda>a. orphan_row (''Server '' @ dec_int (the (a_server_id a)) @ '' not found'') a)
           (filter (\<lambda>a. server_gone a s \<and> a_id a \<notin> set (map a_id lost)) rows))"

definition get_orphan_allocations :: "user \<Rightarrow> 'w tenancy \<Rightarrow> http_error + orphan list" where
  "get_orphan_allocations u s =
     (case PermissionChecker ''ipam:manage'' u of Inl e \<Rightarrow> Inl e | Inr _ \<Rightarrow> Inr (orphans s))"

fun release_orphans :: "string \<Rightarrow> orphan list \<Rightarrow> string list \<Rightarrow> (string \<times> ipam_error) list \<Rightarrow> ipam_state \<Rightarrow>
    (string list \<times> (string \<times> ipam_error) list) \<times> ipam_state" where
  "release_orphans by_user [] released errors i = ((released, errors), i)"
| "release_orphans by_user (x # xs) released errors i =
     (case release_ip (or_ip_address x) (Some by_user) (Some (''Orphan cleanup: '' @ or_reason x)) i of
        (Inr _, i') \<Rightarrow> release_orphans by_user xs (released @ [or_ip_address x]) errors i'
      | (Inl e, i') \<Rightarrow> release_orphans by_user xs released (errors @ [(or_ip_address x, e)]) i')"

definition cleanup_orphans :: "user \<Rightarrow> 'w tenancy \<Rightarrow>
    (http_error + string list \<times> (string \<times> ipam_error) list) \<times> 'w tenancy" where
  "cleanup_orphans u = with_right ''ipam:manage'' u (\<lambda>s.
     case release_orphans (username u) (orphans s) [] [] (the_ipam s) of (r, i) \<Rightarrow> (Inr r, put_ipam i s))"

section \<open>Addresses found in guests\<close>

record discovered =
  di_ip :: string
  di_network :: ipam_network
  di_mac :: "string option"
  di_interface :: "string option"

type_synonym parsed_network = "(ipam_network \<times> net_columns) \<times> ip_net"

definition active_networks :: "int option \<Rightarrow> 'w tenancy \<Rightarrow> parsed_network list" where
  "active_networks nid s = List.map_filter (\<lambda>n.
     if n_is_active n \<and> (truthy_int nid \<longrightarrow> Some (n_id n) = nid)
     then (case (find_columns (n_id n) s, ip_network (n_network n)) of (Some c, Some net) \<Rightarrow> Some ((n, c), net) | _ \<Rightarrow> None)
     else None) (networks (the_ipam s))"

definition found_in :: "parsed_network list \<Rightarrow> string \<Rightarrow> ipam_network option" where
  "found_in nets addr =
     (case ip_address addr of
        None \<Rightarrow> None
      | Some ip \<Rightarrow> if is_loopback ip \<or> is_link_local ip then None
          else map_option (\<lambda>x. fst (fst x)) (find (\<lambda>x. net_contains (snd x) ip) nets))"

fun extract_ips :: "parsed_network list \<Rightarrow> iface \<Rightarrow> guest_ip list \<Rightarrow> string list \<Rightarrow> discovered list \<Rightarrow>
    string list \<times> discovered list" where
  "extract_ips nets i [] seen found = (seen, found)"
| "extract_ips nets i (x # xs) seen found =
     (if \<not> gi_v4 x \<or> gi_address x = [] \<or> gi_address x \<in> set seen then extract_ips nets i xs seen found
      else (case found_in nets (gi_address x) of
          None \<Rightarrow> extract_ips nets i xs seen found
        | Some n \<Rightarrow> extract_ips nets i xs (gi_address x # seen)
            (found @ [\<lparr>di_ip = gi_address x, di_network = n,
               di_mac = (if if_mac i = [] then None else Some (upper (if_mac i))),
               di_interface = (if if_name i = [] then None else Some (if_name i))\<rparr>])))"

fun extract_ifaces :: "parsed_network list \<Rightarrow> iface list \<Rightarrow> string list \<Rightarrow> discovered list \<Rightarrow> discovered list" where
  "extract_ifaces nets [] seen found = found"
| "extract_ifaces nets (i # is) seen found =
     (case extract_ips nets i (if_ips i) seen found of (seen', found') \<Rightarrow> extract_ifaces nets is seen' found')"

definition extract_ipv4s :: "iface list \<Rightarrow> parsed_network list \<Rightarrow> discovered list" where
  "extract_ipv4s is nets = extract_ifaces nets is [] []"

definition live_guests :: "'w tenancy \<Rightarrow> guest_row list" where
  "live_guests s = filter (\<lambda>g. gr_deleted_at g = None) (pn_guests (tn_panel s))"

definition get_unlinked :: "user \<Rightarrow> 'w tenancy \<Rightarrow> http_error + (guest_row \<times> string option) list" where
  "get_unlinked u s =
     (case PermissionChecker ''ipam:manage'' u of
        Inl e \<Rightarrow> Inl e
      | Inr _ \<Rightarrow>
          (let nets = map snd (active_networks None s);
               linked = (\<lambda>g ip. list_ex (\<lambda>a. a_server_id a = Some (gr_server_id g) \<and> a_vmid a = Some (gr_vmid g) \<and>
                 a_ip_address a = ip) (allocations (the_ipam s)));
               shown = (\<lambda>g. case gc_ip_address g of
                   None \<Rightarrow> False
                 | Some ip \<Rightarrow> ip \<noteq> [] \<and> \<not> linked g ip \<and>
                     (case ip_address ip of None \<Rightarrow> False | Some a \<Rightarrow> list_ex (\<lambda>n. net_contains n a) nets))
           in Inr (map (\<lambda>g. (g, map_option sv_name (panel_server (gr_server_id g) s))) (filter shown (live_guests s)))))"

record link_report =
  lr_linked :: "(string \<times> string \<times> int \<times> int \<times> bool) list"
  lr_not_found :: "(string \<times> string \<times> string) list"

definition missed :: "string \<Rightarrow> guest_row \<Rightarrow> string \<Rightarrow> link_report \<Rightarrow> link_report" where
  "missed ip g reason r = r\<lparr>lr_not_found := lr_not_found r @ [(ip, gc_name g, reason)]\<rparr>"

definition cache_address :: "int \<Rightarrow> string \<Rightarrow> 'w tenancy \<Rightarrow> 'w tenancy" where
  "cache_address gid ip s = s\<lparr>tn_panel := (tn_panel s)\<lparr>pn_guests :=
     update_first (\<lambda>g. gr_id g = gid) (\<lambda>g. g\<lparr>gc_ip_address := Some ip\<rparr>) (pn_guests (tn_panel s))\<rparr>\<rparr>"

text \<open>
  The addresses found in one guest. A call of the service that succeeds commits; the cached address assigned after it
  is written with the next commit, so that an exception loses it: \<open>saved\<close> are the guests as last committed.
\<close>

fun link_found :: "int \<Rightarrow> string \<Rightarrow> guest_row \<Rightarrow> discovered list \<Rightarrow> string list \<Rightarrow> guest_row list \<Rightarrow> link_report \<Rightarrow>
    'w tenancy \<Rightarrow> (http_error + guest_row list \<times> link_report) \<times> 'w tenancy" where
  "link_found now by_user g [] linked saved r s = (Inr (saved, r), s)"
| "link_found now by_user g (d # ds) linked saved r s =
     (if di_ip d \<in> set linked then link_found now by_user g ds linked saved r s
      else (case sync_from_proxmox_vm now (n_id (di_network d)) (gr_server_id g) (gr_vmid g) (gc_name g) (gc_vm_type g)
               (di_ip d) (gc_node g) (di_mac d) by_user (di_interface d) ''alias'' (ipam_view (tn_panel s)) of
          Inl _ \<Rightarrow> (Inl internal_error, s\<lparr>tn_panel := (tn_panel s)\<lparr>pn_guests := saved\<rparr>\<rparr>)
        | Inr (Inl e, i) \<Rightarrow> link_found now by_user g ds linked saved (missed (di_ip d) g (ipam_message e) r) (put_ipam i s)
        | Inr (Inr a, i) \<Rightarrow>
            (let s1 = put_ipam i s;
                 s2 = (if a_is_primary a then cache_address (gr_id g) (di_ip d) s1 else s1);
                 r1 = r\<lparr>lr_linked := lr_linked r @ [(di_ip d, gc_name g, gr_vmid g, gr_server_id g, a_is_primary a)]\<rparr>
             in link_found now by_user g ds (di_ip d # linked) (pn_guests (tn_panel s1)) r1 s2)))"

definition link_guest :: "'w proxmox_api \<Rightarrow> string \<Rightarrow> proxmox_client \<Rightarrow> parsed_network list \<Rightarrow> guest_row \<Rightarrow>
    guest_row list \<Rightarrow> link_report \<Rightarrow> 'w tenancy \<Rightarrow> (http_error + guest_row list \<times> link_report) \<times> 'w tenancy" where
  "link_guest E by_user c nets g saved r s =
     (let mine = filter (\<lambda>x. \<not> truthy_str (nc_node (snd (fst x))) \<or> nc_node (snd (fst x)) = Some (gc_node g)) nets in
      if mine = [] then (Inr (saved, missed ''-'' g ''no_network_for_node'' r), s)
      else (case on_panel (on_proxmox (if gc_vm_type g = ''qemu'' then get_vm_interfaces E c (gc_node g) (gr_vmid g)
                 else get_container_interfaces E c (gc_node g) (gr_vmid g) True)) s of
          (is, s1) \<Rightarrow>
            (let ds = extract_ipv4s is mine in
             if ds = [] then (Inr (saved, missed ''-'' g ''no_ip_in_ipam_network'' r), s1)
             else link_found (panel_now E (tn_panel s1)) by_user g ds
               (map a_ip_address (find_allocations_by_resource (gr_server_id g) (gr_vmid g) (the_ipam s1))) saved r s1)))"

fun link_guests :: "'w proxmox_api \<Rightarrow> string \<Rightarrow> proxmox_client \<Rightarrow> parsed_network list \<Rightarrow> guest_row list \<Rightarrow>
    guest_row list \<Rightarrow> link_report \<Rightarrow> 'w tenancy \<Rightarrow> (http_error + guest_row list \<times> link_report) \<times> 'w tenancy" where
  "link_guests E by_user c nets [] saved r s = (Inr (saved, r), s)"
| "link_guests E by_user c nets (g # gs) saved r s =
     (case link_guest E by_user c nets g saved r s of
        (Inl e, s1) \<Rightarrow> (Inl e, s1)
      | (Inr (saved1, r1), s1) \<Rightarrow> link_guests E by_user c nets gs saved1 r1 s1)"

definition unreachable :: "(int option \<times> int option) list \<Rightarrow> int \<Rightarrow> guest_row list \<Rightarrow> link_report \<Rightarrow> link_report" where
  "unreachable pairs sid gs r = fold (\<lambda>g r.
     if (Some sid, Some (gr_vmid g)) \<in> set pairs \<or> (\<exists>x \<in> set (lr_linked r). fst (snd (snd x)) = gr_vmid g \<and> fst (snd (snd (snd x))) = sid)
     then r else missed ''-'' g ''server_unreachable'' r) gs r"

fun link_servers :: "'w proxmox_api \<Rightarrow> string \<Rightarrow> int option \<Rightarrow> parsed_network list \<Rightarrow> (int option \<times> int option) list \<Rightarrow>
    (int \<times> guest_row list) list \<Rightarrow> guest_row list \<Rightarrow> link_report \<Rightarrow> 'w tenancy \<Rightarrow> (http_error + link_report) \<times> 'w tenancy" where
  "link_servers E by_user nid nets pairs [] saved r s = (Inr r, s)"
| "link_servers E by_user nid nets pairs ((sid, gs) # rest) saved r s =
     (case panel_server sid s of
        None \<Rightarrow> link_servers E by_user nid nets pairs rest saved r s
      | Some sv \<Rightarrow>
          (let mine = (if truthy_int nid then nets
                 else filter (\<lambda>x. nc_server_id (snd (fst x)) = Some sid \<or> nc_server_id (snd (fst x)) = None) nets) in
           if mine = [] then link_servers E by_user nid nets pairs rest saved r s
           else (case on_panel (on_proxmox (do { c \<leftarrow> from_server E (server.truncate sv); ok \<leftarrow> is_connected E c; return (c, ok) })) s of
               ((c, False), s1) \<Rightarrow> link_servers E by_user nid nets pairs rest saved (unreachable pairs sid gs r) s1
             | ((c, True), s1) \<Rightarrow>
                 (case link_guests E by_user c mine gs saved r s1 of
                    (Inl e, s2) \<Rightarrow> (Inl e, s2)
                  | (Inr (saved1, r1), s2) \<Rightarrow> link_servers E by_user nid nets pairs rest saved1 r1 s2))))"

definition by_server :: "guest_row list \<Rightarrow> (int \<times> guest_row list) list" where
  "by_server gs = fold (\<lambda>g d. AList.update (gr_server_id g)
     ((case map_of d (gr_server_id g) of None \<Rightarrow> [] | Some l \<Rightarrow> l) @ [g]) d) gs []"

definition link_allocations :: "'w proxmox_api \<Rightarrow> user \<Rightarrow> int option \<Rightarrow> int option \<Rightarrow> 'w tenancy \<Rightarrow>
    (http_error + link_report) \<times> 'w tenancy" where
  "link_allocations E u sid nid = with_right ''ipam:manage'' u (\<lambda>s.
     let nets = active_networks nid s; none = \<lparr>lr_linked = [], lr_not_found = []\<rparr> in
     if nets = [] then (Inr none, s)
     else link_servers E (username u) nid nets
       (map (\<lambda>a. (a_server_id a, a_vmid a)) (filter (\<lambda>a. a_vmid a \<noteq> None) (allocations (the_ipam s))))
       (by_server (filter (\<lambda>g. truthy_int sid \<longrightarrow> Some (gr_server_id g) = sid) (live_guests s)))
       (pn_guests (tn_panel s)) none s)"

section \<open>The addresses of one guest\<close>

definition guest_missing :: http_error where
  "guest_missing = not_found ''Instance''"

definition guest_allocation_of :: "int \<Rightarrow> int \<Rightarrow> int \<Rightarrow> ipam_state \<Rightarrow> ipam_allocation option" where
  "guest_allocation_of sid vmid aid i =
     find (\<lambda>a. a_id a = aid \<and> a_server_id a = Some sid \<and> a_vmid a = Some vmid) (allocations i)"

definition address_missing :: http_error where
  "address_missing = HTTPException 404 (Msg ''Address not found for this instance'')"

definition refresh_primary_cache :: "guest_row \<Rightarrow> 'w tenancy \<Rightarrow> 'w tenancy" where
  "refresh_primary_cache g s =
     (case find_allocation_by_resource (gr_server_id g) (gr_vmid g) (the_ipam s) of
        None \<Rightarrow> s | Some a \<Rightarrow> cache_address (gr_id g) (a_ip_address a) s)"

definition list_guest_addresses :: "int \<Rightarrow> int \<Rightarrow> user \<Rightarrow> 'w tenancy \<Rightarrow> http_error + ipam_allocation list" where
  "list_guest_addresses sid vmid u s =
     (case PermissionChecker ''ipam:view'' u of
        Inl e \<Rightarrow> Inl e
      | Inr _ \<Rightarrow> (case require_vm_access (tn_panel s) u sid vmid of
            Inl e \<Rightarrow> Inl e | Inr _ \<Rightarrow> Inr (find_allocations_by_resource sid vmid (the_ipam s))))"

text \<open>The checks before an endpoint on the addresses of a guest changes something.\<close>

definition address_guard :: "int \<Rightarrow> int \<Rightarrow> user \<Rightarrow> 'w tenancy \<Rightarrow> http_error + unit" where
  "address_guard sid vmid u s =
     (case PermissionChecker ''ipam:manage'' u of Inl e \<Rightarrow> Inl e | Inr _ \<Rightarrow> require_vm_access (tn_panel s) u sid vmid)"

record address_body =
  gb_network_id :: int
  gb_pool_id :: "int option"
  gb_ip_address :: "string option"
  gb_target_interface :: "string option"
  gb_make_primary :: bool
  gb_hostname :: "string option"
  gb_notes :: "string option"

definition wanted_address :: "address_body \<Rightarrow> 'w tenancy \<Rightarrow> http_error + string" where
  "wanted_address b s =
     (if truthy_str (gb_ip_address b) then Inr (the (gb_ip_address b))
      else (case get_next_available_ip (gb_network_id b) (gb_pool_id b) True (ipam_view (tn_panel s)) of
          Some ip \<Rightarrow> if ip \<noteq> [] then Inr ip else Inl (HTTPException 409 (Msg ''No free IP left in this network/pool''))
        | None \<Rightarrow> Inl (HTTPException 409 (Msg ''No free IP left in this network/pool''))))"

definition wanted_interface :: "'w proxmox_api \<Rightarrow> guest_row \<Rightarrow> address_body \<Rightarrow> 'w tenancy \<Rightarrow> string \<times> 'w tenancy" where
  "wanted_interface E g b s =
     (if truthy_str (gb_target_interface b) then (the (gb_target_interface b), s)
      else (case panel_server (gr_server_id g) s of
          None \<Rightarrow> (DEFAULT_INTERFACE, s)
        | Some sv \<Rightarrow> on_panel (on_proxmox (do {
            c \<leftarrow> from_server E (server.truncate sv);
            resolve_interface E c (gc_vm_type g) (gc_node g) (gr_vmid g)
              (map_option a_ip_address (find_allocation_by_resource (gr_server_id g) (gr_vmid g) (the_ipam s)))
          })) s))"

definition address_request :: "user \<Rightarrow> guest_row \<Rightarrow> address_body \<Rightarrow> string \<Rightarrow> string \<Rightarrow> alloc_request" where
  "address_request u g b ip ifname = (request_for ip (gb_network_id b))\<lparr>rq_pool_id := gb_pool_id b,
     rq_resource_type := Some (gc_vm_type g), rq_resource_name := Some (gc_name g), rq_hostname := gb_hostname b,
     rq_server_id := Some (gr_server_id g), rq_vmid := Some (gr_vmid g), rq_node := Some (gc_node g),
     rq_allocated_by := Some (username u), rq_notes := gb_notes b, rq_assignment_kind := ''alias'',
     rq_target_interface := Some ifname, rq_apply_status := Some PENDING\<rparr>"

text \<open>The answer of an endpoint: the row of the address as it ends, and what applying it gave.\<close>

type_synonym 'w address_answer = "((http_error + ipam_allocation option \<times> apply_result) \<times> 'w tenancy) option"

definition add_guest_address :: "'w proxmox_api \<Rightarrow> 'w ssh_api \<Rightarrow> string \<Rightarrow> int \<Rightarrow> int \<Rightarrow> user \<Rightarrow> address_body \<Rightarrow>
    'w tenancy \<Rightarrow> 'w address_answer" where
  "add_guest_address E S alias_script sid vmid u b s =
     (case address_guard sid vmid u s of
        Inl e \<Rightarrow> Some (Inl e, s)
      | Inr _ \<Rightarrow>
     (case get_vm_instance sid vmid (tn_panel s) of
        None \<Rightarrow> Some (Inl guest_missing, s)
      | Some g \<Rightarrow>
        if find_network (gb_network_id b) (the_ipam s) = None
        then Some (Inl (HTTPException 404 (Msg ''IPAM network not found'')), s)
        else (case wanted_address b s of
            Inl e \<Rightarrow> Some (Inl e, s)
          | Inr ip \<Rightarrow>
              (case wanted_interface E g b s of (ifname, s1) \<Rightarrow>
              (case try_service (allocate_ip (address_request u g b ip ifname)) s1 of
                 (Inl e, s2) \<Rightarrow> Some (Inl e, s2)
               | (Inr a, s2) \<Rightarrow>
                   (case apply_address E S alias_script sid vmid a s2 of
                      None \<Rightarrow> None
                    | Some (r, s3) \<Rightarrow>
                        (let s4 = (if gb_make_primary b
                               then snd (on_service (set_primary sid vmid (a_id a) (Some (username u))) s3) else s3);
                             s5 = refresh_primary_cache g s4
                         in Some (Inr (allocation_by_id (a_id a) (the_ipam s5), r), s5)))))))) "

definition apply_guest_address :: "'w proxmox_api \<Rightarrow> 'w ssh_api \<Rightarrow> string \<Rightarrow> int \<Rightarrow> int \<Rightarrow> int \<Rightarrow> user \<Rightarrow>
    'w tenancy \<Rightarrow> 'w address_answer" where
  "apply_guest_address E S alias_script sid vmid aid u s =
     (case address_guard sid vmid u s of
        Inl e \<Rightarrow> Some (Inl e, s)
      | Inr _ \<Rightarrow>
     (case guest_allocation_of sid vmid aid (the_ipam s) of
        None \<Rightarrow> Some (Inl address_missing, s)
      | Some a \<Rightarrow> (case apply_address E S alias_script sid vmid a s of
            None \<Rightarrow> None
          | Some (r, s1) \<Rightarrow> Some (Inr (allocation_by_id aid (the_ipam s1), r), s1))))"

definition set_guest_primary_address :: "int \<Rightarrow> int \<Rightarrow> int \<Rightarrow> user \<Rightarrow> 'w tenancy \<Rightarrow>
    (http_error + ipam_allocation) \<times> 'w tenancy" where
  "set_guest_primary_address sid vmid aid u s =
     (case address_guard sid vmid u s of
        Inl e \<Rightarrow> (Inl e, s)
      | Inr _ \<Rightarrow>
     (case get_vm_instance sid vmid (tn_panel s) of
        None \<Rightarrow> (Inl guest_missing, s)
      | Some g \<Rightarrow>
        if guest_allocation_of sid vmid aid (the_ipam s) = None then (Inl address_missing, s)
        else (case on_service (set_primary sid vmid aid (Some (username u))) s of
            (Inl e, s1) \<Rightarrow> (Inl (refused e), s1)
          | (Inr a, s1) \<Rightarrow> (Inr a, refresh_primary_cache g s1))))"

definition remove_guest_address :: "'w proxmox_api \<Rightarrow> 'w ssh_api \<Rightarrow> string \<Rightarrow> int \<Rightarrow> int \<Rightarrow> int \<Rightarrow> user \<Rightarrow>
    'w tenancy \<Rightarrow> ((http_error + string \<times> apply_result) \<times> 'w tenancy) option" where
  "remove_guest_address E S alias_script sid vmid aid u s =
     (case address_guard sid vmid u s of
        Inl e \<Rightarrow> Some (Inl e, s)
      | Inr _ \<Rightarrow>
     (case get_vm_instance sid vmid (tn_panel s) of
        None \<Rightarrow> Some (Inl guest_missing, s)
      | Some g \<Rightarrow>
     (case guest_allocation_of sid vmid aid (the_ipam s) of
        None \<Rightarrow> Some (Inl address_missing, s)
      | Some a \<Rightarrow>
        if a_assignment_kind a \<noteq> ''alias''
        then Some (Inl (bad_request (''Primary address comes from the NIC config '' @ [CHR 0xE2, CHR 0x80, CHR 0x94] @
          '' change it on the Network tab'')), s)
        else (case on_service (release_ip (a_ip_address a) (Some (username u))
               (Some (''Removed from '' @ gc_name g @ '' ('' @ dec_int vmid @ '')''))) s of
            (Inl e, s1) \<Rightarrow> Some (Inl (refused e), s1)
          | (Inr _, s1) \<Rightarrow>
              (case sync_interface E S alias_script sid vmid (target_interface a) None s1 of
                 None \<Rightarrow> None
               | Some (r, s2) \<Rightarrow> Some (Inr (a_ip_address a, r), refresh_primary_cache g s2))))))"

end
