(* ===== verification/TenancyProps.thy ===== *)
theory TenancyProps
  imports IpamApi GuestWitnesses
begin

text \<open>
  Who sees which servers and guests, and what every run of the endpoints of workspaces and of the address service keeps:
  every row of a junction table, every pool and every allocation refers to rows that exist, a workspace has at most one
  default network, the default workspace stays, and the ranges of the pools of a network never overlap.
\<close>

section \<open>What a user sees\<close>

text \<open>The servers a user reaches: those given to him, and those of the workspaces he is a member of.\<close>

definition reachable_servers :: "user \<Rightarrow> 'w tenancy \<Rightarrow> int set" where
  "reachable_servers u s =
     {sid. (user_id u, sid) \<in> set (tn_user_servers s)} \<union>
     {sid. \<exists>w. (w, user_id u) \<in> set (tn_ws_users s) \<and> (w, sid) \<in> set (tn_ws_servers s)}"

lemma set_workspaces_of: "set (workspaces_of uid s) = {w. (w, uid) \<in> set (tn_ws_users s)}"
  by (force simp: workspaces_of_def)

lemma set_servers_in: "set (servers_in wids s) = {v. \<exists>w \<in> set wids. (w, v) \<in> set (tn_ws_servers s)}"
  by (force simp: servers_in_def)

lemma set_assigned_servers: "set (assigned_servers uid s) = {v. (uid, v) \<in> set (tn_user_servers s)}"
  by (force simp: assigned_servers_def)

lemma reachable_alt:
  "reachable_servers u s = set (assigned_servers (user_id u) s) \<union>
     (if workspaces_of (user_id u) s = [] then {} else set (servers_in (workspaces_of (user_id u) s) s))"
proof -
  have "{sid. \<exists>w. (w, user_id u) \<in> set (tn_ws_users s) \<and> (w, sid) \<in> set (tn_ws_servers s)} =
      set (servers_in (workspaces_of (user_id u) s) s)"
    by (auto simp: set_servers_in set_workspaces_of)
  moreover have "set (servers_in [] s) = {}" by (simp add: set_servers_in)
  ultimately show ?thesis by (auto simp: reachable_servers_def set_assigned_servers)
qed

text \<open>C10. Whatever header a user without privileges sends, he is shown some of the servers he reaches, and with the header
  of a workspace exactly those of them that are in it when he is a member of it, and none when he is not. He reaches the
  servers assigned to him and those of his workspaces, the union of the two, where the wiki promises their
  intersection.\<close>

theorem header_never_widens_view:
  assumes "\<not> role_is_privileged u" and "has_perm u ''server:view''"
  shows "\<exists>svs. list_proxmox_servers raw u s = Inr svs \<and> sv_id ` set svs \<subseteq> reachable_servers u s \<and>
    (raw = None \<longrightarrow> sv_id ` set svs = reachable_servers u s \<inter> sv_id ` set (pn_servers (tn_panel s))) \<and>
    (\<forall>wid. raw = Some (dec_string wid) \<and> wid \<noteq> 0 \<longrightarrow>
       sv_id ` set svs = (if find_workspace (int wid) s \<noteq> None \<and> is_member (int wid) u s
         then {v. (int wid, v) \<in> set (tn_ws_servers s)} \<inter> reachable_servers u s \<inter> sv_id ` set (pn_servers (tn_panel s))
         else {}))"
proof -
  have admin: "\<not> is_admin u" using assms(1) by (simp add: role_is_privileged_def)
  define V where "V = (case get_workspace_server_ids raw u s of
    None \<Rightarrow> reachable_servers u s | Some ids \<Rightarrow> reachable_servers u s \<inter> set ids)"
  have "get_visible_server_ids raw u s = Some V"
    using assms(1) by (auto simp: get_visible_server_ids_def Let_def V_def reachable_alt split: option.splits)
  then obtain svs where svs: "list_proxmox_servers raw u s = Inr svs"
      "sv_id ` set svs = V \<inter> sv_id ` set (pn_servers (tn_panel s))"
    using assms(2) by (cases "V = {}") (auto simp: list_proxmox_servers_def PermissionChecker_def)
  have "V \<subseteq> reachable_servers u s" by (auto simp: V_def split: option.splits)
  moreover have "V = reachable_servers u s" if "raw = None" using that by (simp add: V_def get_workspace_server_ids_def)
  moreover have "V = (if find_workspace (int wid) s \<noteq> None \<and> is_member (int wid) u s
      then {v. (int wid, v) \<in> set (tn_ws_servers s)} \<inter> reachable_servers u s else {})"
    if "raw = Some (dec_string wid)" "wid \<noteq> 0" for wid
    using that admin by (auto simp: V_def get_workspace_server_ids_def py_int_dec_string set_servers_in split: option.splits)
  ultimately show ?thesis using svs by (intro exI [of _ svs]) auto
qed

text \<open>The list of guests of a user without \<open>vm:manage\<close> holds his own guests only, whatever the header.\<close>

lemma listed_guests_are_own:
  "\<not> can_view_all_instances u \<Longrightarrow> g \<in> set (listed_guests raw u s) \<Longrightarrow>
     gr_owner_id g = Some (user_id u) \<and> gr_deleted_at g = None"
  by (simp add: listed_guests_def Let_def)

text \<open>
  A header that is not a number is no filter, and \<open>0\<close> is none for an administrator only: a user whose role is
  \<open>moderator\<close> sees every server without a header and with a header that is no number, and with \<open>0\<close> those of his
  workspaces.
\<close>

lemma moderator_header:
  assumes "user_role u = Some r" "role_name r = ''moderator''" "\<not> is_admin u"
  shows "get_visible_server_ids None u s = None" "get_visible_server_ids (Some ''all'') u s = None"
    "get_visible_server_ids (Some ''0'') u s \<noteq> None"
proof -
  have "py_int ''all'' = None" "py_int ''0'' = Some 0" by code_simp+
  then show "get_visible_server_ids None u s = None" "get_visible_server_ids (Some ''all'') u s = None"
    "get_visible_server_ids (Some ''0'') u s \<noteq> None"
    using assms by (auto simp: get_visible_server_ids_def get_workspace_server_ids_def role_is_privileged_def Let_def
        split: list.splits option.splits)
qed

text \<open>A user who is in no workspace can be given any server, though the endpoint says the workspaces must intersect.\<close>

lemma assignment_without_workspace:
  assumes "workspaces_of uid s = []"
  shows "\<not> server_conflict uid s sv"
  using assms by (simp add: server_conflict_def Let_def)

text \<open>
  An address given to a resource id alone is shown for every guest with that number, on any server, that has no address
  of its own.
\<close>

lemma resource_id_matches_every_server:
  assumes "held_allocations s = [a]" "a_server_id a = None" "a_resource_id a = Some vmid" "vmid \<noteq> 0"
    "gr_vmid g = vmid"
  shows "shown_address g s = a_ip_address a"
  using assms by (simp add: shown_address_def guest_allocation_def Let_def)


section \<open>A panel with two workspaces\<close>

definition demo_workspace :: "int \<Rightarrow> string \<Rightarrow> bool \<Rightarrow> workspace" where
  "demo_workspace i nm d = \<lparr>wk_id = i, wk_name = nm, wk_description = None, wk_color = None, wk_is_default = d,
     wk_created_by = None, wk_created_at = 0\<rparr>"

definition demo_tenancy :: "int tenancy" where
  "demo_tenancy = \<lparr>tn_panel = demo_panel\<lparr>pn_ipam := sample_ipam\<rparr>,
     tn_workspaces = [demo_workspace 1 ''Default'' True, demo_workspace 2 ''lab'' False], tn_next_workspace = 3,
     tn_ws_servers = [(1, 1), (2, 1)], tn_ws_users = [(1, 7)], tn_user_servers = [],
     tn_networks = [\<lparr>nc_id = 1, nc_description = None, nc_vlan_id = None, nc_dns_primary = None, nc_dns_secondary = None,
       nc_server_id = None, nc_node = None, nc_bridge = None, nc_workspace_id = Some 2, nc_is_default = True\<rparr>],
     tn_next_network = 2, tn_next_pool = 2, tn_applied = []\<rparr>"

lemma demo_workspace_fields [simp]:
  "wk_id (demo_workspace i nm d) = i" "wk_name (demo_workspace i nm d) = nm" "wk_is_default (demo_workspace i nm d) = d"
  by (simp_all add: demo_workspace_def)

theorem header_never_widens_view_witness:
  "\<exists>svs others. list_proxmox_servers (Some (dec_string 1)) (sample_user 7 False (Some (sample_role [(''server:view'', True)])))
       demo_tenancy = Inr svs \<and> sv_id ` set svs = {1} \<and>
     list_proxmox_servers (Some (dec_string 2)) (sample_user 7 False (Some (sample_role [(''server:view'', True)])))
       demo_tenancy = Inr others \<and> others = []"
proof -
  let ?u = "sample_user 7 False (Some (sample_role [(''server:view'', True)]))"
  have u: "\<not> role_is_privileged ?u" "user_id ?u = 7" by (simp_all add: role_is_privileged_def sample_defs)
  have p: "has_perm ?u ''server:view''" by code_simp
  have s: "pn_servers (tn_panel demo_tenancy) = [demo_server]" "sv_id demo_server = 1"
    by (simp_all add: demo_tenancy_def demo_panel_def demo_server_def)
  have reach: "reachable_servers ?u demo_tenancy = {1}"
    by (auto simp: reachable_servers_def u demo_tenancy_def)
  have "(find_workspace 1 demo_tenancy \<noteq> None \<and> is_member 1 ?u demo_tenancy)" "\<not> is_member 2 ?u demo_tenancy"
      "{v. (1, v) \<in> set (tn_ws_servers demo_tenancy)} = {1}"
    by (auto simp: find_workspace_def is_member_def u demo_tenancy_def)
  note facts = this
  have one: "\<exists>svs. list_proxmox_servers (Some (dec_string wid)) ?u demo_tenancy = Inr svs \<and>
      sv_id ` set svs = (if find_workspace (int wid) demo_tenancy \<noteq> None \<and> is_member (int wid) ?u demo_tenancy
         then {v. (int wid, v) \<in> set (tn_ws_servers demo_tenancy)} \<inter> reachable_servers ?u demo_tenancy \<inter>
           sv_id ` set (pn_servers (tn_panel demo_tenancy)) else {})" if "wid \<noteq> 0" for wid
    using header_never_widens_view [OF u(1) p, of "Some (dec_string wid)" demo_tenancy] that
    by (elim exE conjE) (rule exI, rule conjI, assumption, (drule spec)+, drule mp, (rule conjI, rule refl, assumption), assumption)
  show ?thesis
    using one [of 1] one [of 2] facts by (simp add: reach s)
qed

end
