(* ===== verification/TenancyRuns.thy ===== *)
theory TenancyRuns
  imports TenancyProps
begin

text \<open>
  What every run of the endpoints of workspaces and of the address service keeps: a row of a junction table names a
  workspace that exists and is there once, each network has its two rows and a workspace has at most one default
  network, the pools of a network lie in it and never share an address, every allocation is in a network that exists and
  no address is given twice. The default workspace stays.
\<close>

section \<open>The tables of the address service\<close>

text \<open>A call of the service leaves networks and pools alone and puts addresses in networks that exist only.\<close>

definition svc_kept :: "ipam_state \<Rightarrow> ipam_state \<Rightarrow> bool" where
  "svc_kept i j \<longleftrightarrow> networks j = networks i \<and> pools j = pools i \<and> (ipam_inv i \<longrightarrow> ipam_inv j) \<and>
     a_network_id ` set (allocations j) \<subseteq> a_network_id ` set (allocations i) \<union> n_id ` set (networks i)"

lemma svc_kept_refl [simp]: "svc_kept i i"
  by (auto simp: svc_kept_def)

lemma subset_via: "A \<subseteq> B \<union> C \<Longrightarrow> D \<subseteq> A \<union> C \<Longrightarrow> D \<subseteq> B \<union> C"
  by blast

lemma subset_in: "A \<subseteq> C \<Longrightarrow> D \<subseteq> A \<union> C \<Longrightarrow> D \<subseteq> C"
  by blast

lemma svc_kept_trans: "svc_kept i j \<Longrightarrow> svc_kept j k \<Longrightarrow> svc_kept i k"
  using subset_via [of "a_network_id ` set (allocations j)" "a_network_id ` set (allocations i)"
      "n_id ` set (networks i)" "a_network_id ` set (allocations k)"]
  by (simp add: svc_kept_def)

lemma svc_kept_log [simp]: "svc_kept i (log_history ip nid act old new a by notes i)"
  by (simp add: svc_kept_def)

lemma svc_kept_view [simp]: "svc_kept (pn_ipam p) (ipam_view p)"
  by (simp add: svc_kept_def ipam_view_def ipam_inv_def)

lemma find_network_id: "find_network nid i = Some n \<Longrightarrow> n \<in> set (networks i) \<and> n_id n = nid"
  unfolding find_network_def by (rule find_SomeD)

lemma svc_allocate: "allocate_ip rq i = Inr (r, j) \<Longrightarrow> svc_kept i j"
proof -
  assume run: "allocate_ip rq i = Inr (r, j)"
  show ?thesis
  proof (rule allocate_ip_cases [of rq i])
    fix network net ip pid
    assume a: "find_network (rq_network_id rq) i = Some network"
      "allocate_ip rq i = Inr (Inr (new_allocation rq pid network i), add_allocation (new_allocation rq pid network i) i)"
    then have j: "j = add_allocation (new_allocation rq pid network i) i" using run by simp
    then have "networks j = networks i" "pools j = pools i" by (simp_all add: add_allocation_def)
    moreover have "ipam_inv i \<longrightarrow> ipam_inv j" using keeps_allocate [OF run] by (simp add: keeps_def)
    moreover have "rq_network_id rq \<in> n_id ` set (networks i)" using find_network_id [OF a(1)] by (metis imageI)
    ultimately show ?thesis by (auto simp: svc_kept_def j)
  qed (use run in simp_all)
qed

lemma svc_auto_allocate: "auto_allocate_ip nid pid rq i = Inr (r, j) \<Longrightarrow> svc_kept i j"
  by (auto simp: auto_allocate_ip_def Let_def split: if_splits intro: svc_allocate)

lemma svc_release: assumes "release_ip ip by reason i = (r, j)" shows "svc_kept i j"
proof -
  have "networks j = networks i \<and> pools j = pools i \<and> set (allocations j) \<subseteq> set (allocations i)"
    using assms set_remove_first [of "\<lambda>b. a_ip_address b = ip" "allocations i"]
    by (auto simp: release_ip_def Let_def split: option.splits)
  moreover have "ipam_inv i \<longrightarrow> ipam_inv j" using keeps_release [OF assms] by (simp add: keeps_def)
  ultimately show ?thesis by (auto simp: svc_kept_def)
qed

lemma store_networks: "find_allocation (a_ip_address a) i = Some b \<Longrightarrow> a_network_id a = a_network_id b \<Longrightarrow>
    a_network_id ` set (allocations (store_allocation a i)) \<subseteq> a_network_id ` set (allocations i)"
  by (auto simp: store_allocation_def dest!: in_set_update_first find_allocation_SomeD)

lemma svc_update: assumes "update_allocation ip by us i = (r, j)" shows "svc_kept i j"
proof (cases "find_allocation ip i")
  case (Some a)
  obtain a' old new where ups: "apply_updates us a [] [] = (a', old, new)" by (metis prod_cases3)
  have k: "a_network_id a' = a_network_id a" "a_ip_address a' = ip"
    using apply_updates_keys [of us a "[]" "[]"] find_allocation_SomeD [OF Some] by (simp_all add: ups)
  then have "a_network_id ` set (allocations (store_allocation a' i)) \<subseteq> a_network_id ` set (allocations i)"
    using store_networks [of a' i a] Some by simp
  moreover have "allocations j = allocations (store_allocation a' i) \<and> networks j = networks i \<and> pools j = pools i"
    using assms by (auto simp: update_allocation_def Some ups Let_def store_allocation_def split: if_splits)
  moreover have "ipam_inv i \<longrightarrow> ipam_inv j" using keeps_update [OF assms] by (simp add: keeps_def)
  ultimately show ?thesis by (auto simp: svc_kept_def)
qed (use assms in \<open>simp add: update_allocation_def\<close>)

text \<open>Changes of other columns than the keys.\<close>

lemma svc_kept_keys:
  assumes "map a_ip_address (allocations j) = map a_ip_address (allocations i)"
    and "map a_id (allocations j) = map a_id (allocations i)"
    and "map a_network_id (allocations j) = map a_network_id (allocations i)"
    and "next_allocation_id j = next_allocation_id i" "networks j = networks i" "pools j = pools i"
  shows "svc_kept i j"
proof -
  have "(\<forall>a \<in> set (allocations j). a_id a < n) \<longleftrightarrow> (\<forall>a \<in> set (allocations i). a_id a < n)" for n
    by (rule ball_map_cong [OF assms(2), where P = "\<lambda>x. x < n"])
  then have "ipam_inv j = ipam_inv i" by (simp add: ipam_inv_def unique_on_def assms(1,2,4))
  moreover have "a_network_id ` set (allocations j) = a_network_id ` set (allocations i)"
    using arg_cong [OF assms(3), of set] by simp
  ultimately show ?thesis using assms(5,6) by (simp add: svc_kept_def)
qed

lemma map_keys_same: "(\<And>a. key (f a) = key a) \<Longrightarrow> map key (map (\<lambda>a. if P a then f a else a) as) = map key as"
  by (induction as) simp_all

lemma svc_set_primary: assumes "set_primary sid vmid aid by i = (r, j)" shows "svc_kept i j"
proof (cases "find (\<lambda>a. a_id a = aid) (filter (\<lambda>a. a_server_id a = Some sid \<and> a_vmid a = Some vmid) (allocations i))")
  case (Some x)
  then have "networks j = networks i \<and> pools j = pools i \<and> next_allocation_id j = next_allocation_id i \<and> allocations j =
      map (\<lambda>a. if a_server_id a = Some sid \<and> a_vmid a = Some vmid then a\<lparr>a_is_primary := (a_id a = aid)\<rparr> else a) (allocations i)"
    using assms unfolding set_primary_def Let_def by (simp only: option.case prod.inject) (erule conjE, hypsubst, simp)
  then show ?thesis by (elim conjE) (rule svc_kept_keys; simp only:; rule map_keys_same, simp)
qed (use assms in \<open>simp add: set_primary_def Let_def\<close>)

lemma svc_sync:
  assumes run: "sync_from_proxmox_vm now nid sid vmid name type ip node mac by ti kind i = Inr (r, j)"
  shows "svc_kept i j"
proof (cases "find_allocation ip i")
  case None
  with run show ?thesis by (auto simp: sync_from_proxmox_vm_def Let_def intro: svc_allocate)
next
  case (Some a)
  have store: "svc_kept i (store_allocation b i)"
    if "a_ip_address b = a_ip_address a" "a_id b = a_id a" "a_network_id b = a_network_id a" for b
  proof -
    have f: "find_allocation (a_ip_address b) i = Some a" using that(1) Some find_allocation_SomeD [OF Some] by simp
    show ?thesis
      using keeps_store [OF f that(2)] store_networks [OF f that(3)]
      by (auto simp: svc_kept_def keeps_def store_allocation_def)
  qed
  with run show ?thesis
    by (auto simp: sync_from_proxmox_vm_def Some Let_def intro: svc_update split: if_splits)
qed

lemma svc_release_orphans: "release_orphans by xs rel errs i = (r, j) \<Longrightarrow> svc_kept i j"
proof (induction xs arbitrary: rel errs i)
  case (Cons x xs)
  obtain r1 i1 where r1: "release_ip (or_ip_address x) (Some by) (Some (''Orphan cleanup: '' @ or_reason x)) i = (r1, i1)"
    by fastforce
  then have "svc_kept i1 j" using Cons by (cases r1) auto
  with svc_release [OF r1] show ?case by (rule svc_kept_trans)
qed simp

section \<open>Endpoints that only give, change and take back addresses\<close>

definition alloc_frame :: "'w tenancy \<Rightarrow> 'w tenancy \<Rightarrow> bool" where
  "alloc_frame s t \<longleftrightarrow> tn_workspaces t = tn_workspaces s \<and> tn_next_workspace t = tn_next_workspace s \<and>
     tn_ws_servers t = tn_ws_servers s \<and> tn_ws_users t = tn_ws_users s \<and> tn_networks t = tn_networks s \<and>
     tn_next_network t = tn_next_network s \<and> tn_next_pool t = tn_next_pool s \<and> svc_kept (the_ipam s) (the_ipam t)"

lemma alloc_frame_refl [simp]: "alloc_frame s s"
  by (simp add: alloc_frame_def)

lemma alloc_frame_trans: "alloc_frame s t \<Longrightarrow> alloc_frame t u \<Longrightarrow> alloc_frame s u"
  by (auto simp: alloc_frame_def intro: svc_kept_trans)

lemma frame_panel: "svc_kept (the_ipam s) (pn_ipam p) \<Longrightarrow> alloc_frame s (s\<lparr>tn_panel := p\<rparr>)"
  by (simp add: alloc_frame_def the_ipam_def)

lemma frame_same_ipam: "pn_ipam p = the_ipam s \<Longrightarrow> alloc_frame s (s\<lparr>tn_panel := p\<rparr>)"
  by (simp add: frame_panel)

lemma frame_put_ipam: "svc_kept (the_ipam s) i \<Longrightarrow> alloc_frame s (put_ipam i s)"
  by (simp add: put_ipam_def frame_panel)

lemma frame_on_proxmox: "on_panel (on_proxmox m) s = (a, t) \<Longrightarrow> alloc_frame s t"
  by (auto simp: on_panel_def on_proxmox_def the_ipam_def split: prod.splits intro!: frame_same_ipam)

lemma svc_kept_from_view: "svc_kept (ipam_view (tn_panel s)) j \<Longrightarrow> svc_kept (the_ipam s) j"
  unfolding the_ipam_def by (rule svc_kept_trans [OF svc_kept_view])

lemma frame_on_service:
  assumes "on_service f s = (a, t)" and "\<And>i a j. f i = (a, j) \<Longrightarrow> svc_kept i j"
  shows "alloc_frame s t"
proof -
  obtain j where j: "f (ipam_view (tn_panel s)) = (a, j)" "t = s\<lparr>tn_panel := (tn_panel s)\<lparr>pn_ipam := j\<rparr>\<rparr>"
    using assms(1) by (auto simp: on_service_def on_panel_def on_ipam_def split: prod.splits)
  show ?thesis unfolding j(2) by (rule frame_panel) (use svc_kept_from_view [OF assms(2) [OF j(1)]] in simp)
qed

lemma frame_try_service:
  assumes "try_service f s = (a, t)" and "\<And>i r j. f i = Inr (r, j) \<Longrightarrow> svc_kept i j"
  shows "alloc_frame s t"
  using assms(1) svc_kept_from_view [OF assms(2)]
  by (auto simp: try_service_def split: sum.splits prod.splits intro!: frame_put_ipam)

lemma frame_with_right:
  "with_right p u f s = (r, t) \<Longrightarrow> (\<And>r t. f s = (r, t) \<Longrightarrow> alloc_frame s t) \<Longrightarrow> alloc_frame s t"
  by (auto simp: with_right_def split: sum.splits)

lemma frame_cache [simp]: "alloc_frame s (cache_address gid ip s)"
  by (simp add: cache_address_def frame_same_ipam the_ipam_def)

lemma frame_refresh [simp]: "alloc_frame s (refresh_primary_cache g s)"
  by (simp add: refresh_primary_cache_def split: option.splits)

lemma frame_finish_apply [simp]: "alloc_frame s (finish_apply now rows r s)"
proof -
  have "svc_kept i (i\<lparr>allocations := map (\<lambda>a. if P a then a\<lparr>a_apply_status := v\<rparr> else a) (allocations i)\<rparr>)" for i P v
    by (rule svc_kept_keys) (simp_all add: map_keys_same [unfolded comp_def] del: map_map)
  then show ?thesis unfolding finish_apply_def Let_def alloc_frame_def by (simp add: the_ipam_def)
qed


lemma frame_sync: "sync_interface E S alias_script sid vmid ifname a s = Some (r, t) \<Longrightarrow> alloc_frame s t"
proof -
  have run: "alloc_frame s (finish_apply now rows r (s\<lparr>tn_panel := (tn_panel s)\<lparr>pn_px := px\<rparr>\<rparr>))" for now rows r px
    by (rule alloc_frame_trans [OF frame_same_ipam frame_finish_apply]) (simp add: the_ipam_def)
  assume "sync_interface E S alias_script sid vmid ifname a s = Some (r, t)"
  then show ?thesis
    by (auto simp: sync_interface_def Let_def run split: if_splits prod.splits option.splits sum.splits)
qed

lemma frame_apply: "apply_address E S alias_script sid vmid a s = Some (r, t) \<Longrightarrow> alloc_frame s t"
  by (auto simp: apply_address_def split: if_splits intro: frame_sync)

lemma frame_link_found: "link_found now by_user g ds linked saved r s = (a, t) \<Longrightarrow> alloc_frame s t"
proof (induction ds arbitrary: linked saved r s)
  case (Cons d ds)
  let ?f = "\<lambda>i. sync_from_proxmox_vm now (n_id (di_network d)) (gr_server_id g) (gr_vmid g) (gc_name g) (gc_vm_type g)
               (di_ip d) (gc_node g) (di_mac d) by_user (di_interface d) ''alias'' i"
  have put: "alloc_frame s (put_ipam j s)" if "?f (ipam_view (tn_panel s)) = Inr (v, j)" for v j
    by (rule frame_put_ipam, rule svc_kept_from_view, rule svc_sync [OF that])
  show ?case
    using Cons.prems put
    by (auto simp: Let_def the_ipam_def split: if_splits sum.splits prod.splits dest!: Cons.IH
        intro: frame_same_ipam alloc_frame_trans [OF put] alloc_frame_trans [OF alloc_frame_trans [OF put frame_cache]])
qed simp


lemma frame_link_guest: "link_guest E by_user c nets g saved r s = (a, t) \<Longrightarrow> alloc_frame s t"
  by (auto simp: link_guest_def Let_def split: if_splits prod.splits
      dest!: frame_on_proxmox frame_link_found intro: alloc_frame_trans)

lemma frame_link_guests: "link_guests E by_user c nets gs saved r s = (a, t) \<Longrightarrow> alloc_frame s t"
proof (induction gs arbitrary: saved r s)
  case (Cons g gs)
  then show ?case
    by (auto split: prod.splits sum.splits dest!: frame_link_guest Cons.IH intro: alloc_frame_trans)
qed simp

lemma frame_link_servers: "link_servers E by_user nid nets pairs rest saved r s = (a, t) \<Longrightarrow> alloc_frame s t"
proof (induction rest arbitrary: saved r s)
  case (Cons x rest)
  then show ?case
    by (cases x) (auto simp: Let_def split: option.splits if_splits prod.splits bool.splits sum.splits
        dest!: frame_on_proxmox frame_link_guests Cons.IH intro: alloc_frame_trans)
qed simp

lemma frame_link_allocations: "link_allocations E u sid nid s = (r, t) \<Longrightarrow> alloc_frame s t"
  unfolding link_allocations_def
  by (erule frame_with_right) (auto simp: Let_def split: if_splits dest!: frame_link_servers)

lemma frame_create_allocation: "create_allocation u b s = (r, t) \<Longrightarrow> alloc_frame s t"
  unfolding create_allocation_def
  by (erule frame_with_right) (auto simp: Let_def elim!: frame_try_service intro: svc_allocate)

lemma frame_auto_allocate: "api_auto_allocate u nid pid q s = (r, t) \<Longrightarrow> alloc_frame s t"
  unfolding api_auto_allocate_def
  by (erule frame_with_right) (auto elim!: frame_try_service intro: svc_auto_allocate)

lemma frame_update_allocation: "api_update_allocation aid u fs s = (r, t) \<Longrightarrow> alloc_frame s t"
  unfolding api_update_allocation_def
  by (erule frame_with_right) (auto split: option.splits if_splits elim!: frame_try_service intro: svc_update)

lemma frame_delete_allocation: "delete_allocation aid reason u s = (r, t) \<Longrightarrow> alloc_frame s t"
  unfolding delete_allocation_def
  by (erule frame_with_right) (auto split: option.splits if_splits elim!: frame_try_service intro: svc_release)

lemma frame_cleanup: "cleanup_orphans u s = (r, t) \<Longrightarrow> alloc_frame s t"
  unfolding cleanup_orphans_def
  by (erule frame_with_right) (auto split: prod.splits intro: frame_put_ipam svc_release_orphans)

lemma frame_wanted_interface: "wanted_interface E g b s = (a, t) \<Longrightarrow> alloc_frame s t"
  by (auto simp: wanted_interface_def split: if_splits option.splits dest: frame_on_proxmox)

lemma frame_primary_service: "on_service (set_primary sid vmid aid by_user) s = (r, t) \<Longrightarrow> alloc_frame s t"
  by (erule frame_on_service) (rule svc_set_primary)

lemma frame_release_service: "on_service (release_ip ip by_user reason) s = (r, t) \<Longrightarrow> alloc_frame s t"
  by (erule frame_on_service) (rule svc_release)

lemma frame_add_address:
  assumes "add_guest_address E S alias_script sid vmid u b s = Some (r, t)"
  shows "alloc_frame s t"
proof -
  have alloc: "alloc_frame s' t'" if "try_service (allocate_ip q) s' = (x, t')" for q s' x t'
    using that by (rule frame_try_service) (rule svc_allocate)
  have primary: "alloc_frame s t' \<Longrightarrow> alloc_frame s (snd (on_service (set_primary sid vmid aid by_user) t'))" for aid by_user t'
    using frame_primary_service alloc_frame_trans by (metis prod.collapse)
  have refresh: "alloc_frame s t' \<Longrightarrow> alloc_frame s (refresh_primary_cache g t')" for g t'
    using frame_refresh alloc_frame_trans by blast
  show ?thesis
    using assms
    by (auto simp: add_guest_address_def Let_def split: sum.splits option.splits if_splits prod.splits
        dest!: frame_wanted_interface alloc frame_apply intro!: refresh primary intro: alloc_frame_trans)
qed

lemma frame_apply_guest_address:
  "apply_guest_address E S alias_script sid vmid aid u s = Some (r, t) \<Longrightarrow> alloc_frame s t"
  by (auto simp: apply_guest_address_def split: sum.splits option.splits prod.splits dest!: frame_apply)

lemma frame_set_guest_primary: "set_guest_primary_address sid vmid aid u s = (r, t) \<Longrightarrow> alloc_frame s t"
  by (auto simp: set_guest_primary_address_def split: sum.splits option.splits if_splits prod.splits
      dest!: frame_primary_service intro: alloc_frame_trans)

lemma frame_remove_address:
  "remove_guest_address E S alias_script sid vmid aid u s = Some (r, t) \<Longrightarrow> alloc_frame s t"
  by (auto simp: remove_guest_address_def split: sum.splits option.splits if_splits prod.splits
      dest!: frame_release_service frame_sync intro: alloc_frame_trans)

lemmas alloc_frames = frame_link_allocations frame_create_allocation frame_auto_allocate frame_update_allocation
  frame_delete_allocation frame_cleanup frame_add_address frame_apply_guest_address frame_set_guest_primary
  frame_remove_address

section \<open>The invariant\<close>

text \<open>The rows of a junction table: each names a workspace, and none is there twice.\<close>

definition links_ok :: "workspace list \<Rightarrow> (int \<times> int) list \<Rightarrow> bool" where
  "links_ok ws links \<longleftrightarrow> distinct links \<and> fst ` set links \<subseteq> wk_id ` set ws"

definition workspaces_ok :: "'w tenancy \<Rightarrow> bool" where
  "workspaces_ok s \<longleftrightarrow> unique_on wk_id (tn_workspaces s) \<and> unique_on wk_name (tn_workspaces s) \<and>
     (\<forall>w \<in> set (tn_workspaces s). wk_id w < tn_next_workspace s) \<and>
     links_ok (tn_workspaces s) (tn_ws_servers s) \<and> links_ok (tn_workspaces s) (tn_ws_users s)"

definition single_default :: "net_columns list \<Rightarrow> bool" where
  "single_default rows \<longleftrightarrow> (\<forall>c \<in> set rows. \<forall>d \<in> set rows. nc_is_default c \<and> nc_is_default d \<and>
     nc_workspace_id c = nc_workspace_id d \<and> nc_workspace_id c \<noteq> None \<longrightarrow> nc_id c = nc_id d)"

definition networks_ok :: "'w tenancy \<Rightarrow> bool" where
  "networks_ok s \<longleftrightarrow> map nc_id (tn_networks s) = map n_id (networks (the_ipam s)) \<and>
     unique_on n_id (networks (the_ipam s)) \<and> unique_on n_network (networks (the_ipam s)) \<and>
     (\<forall>n \<in> set (networks (the_ipam s)). n_id n < tn_next_network s) \<and>
     (\<forall>c \<in> set (tn_networks s). set_option (nc_workspace_id c) \<subseteq> wk_id ` set (tn_workspaces s)) \<and>
     single_default (tn_networks s)"

definition pool_in_network :: "ipam_network list \<Rightarrow> ipam_pool \<Rightarrow> bool" where
  "pool_in_network ns p \<longleftrightarrow> (\<exists>n net a b. find (\<lambda>m. n_id m = p_network_id p) ns = Some n \<and>
     ip_network (n_network n) = Some net \<and> ip_address (p_range_start p) = Some a \<and> ip_address (p_range_end p) = Some b \<and>
     net_contains net a \<and> net_contains net b \<and> ip_int a \<le> ip_int b)"

text \<open>
  The addresses of a pool, IPv4 or IPv6. A bound with a scope id has no order with the bounds of other scopes: such a
  pool counts as empty.
\<close>

fun addr_range :: "ip_addr \<Rightarrow> ip_addr \<Rightarrow> ip_addr set" where
  "addr_range (IPv4 a) (IPv4 b) = IPv4 ` {a..b}"
| "addr_range (IPv6 a None) (IPv6 b None) = (\<lambda>n. IPv6 n None) ` {a..b}"
| "addr_range _ _ = {}"

definition pool_addresses :: "ipam_pool \<Rightarrow> ip_addr set" where
  "pool_addresses p = (case (ip_address (p_range_start p), ip_address (p_range_end p)) of
     (Some a, Some b) \<Rightarrow> addr_range a b | _ \<Rightarrow> {})"

definition pools_apart :: "ipam_pool list \<Rightarrow> bool" where
  "pools_apart ps \<longleftrightarrow> (\<forall>p \<in> set ps. \<forall>q \<in> set ps. p_id p \<noteq> p_id q \<and> p_network_id p = p_network_id q \<longrightarrow>
     pool_addresses p \<inter> pool_addresses q = {})"

definition pools_ok :: "'w tenancy \<Rightarrow> bool" where
  "pools_ok s \<longleftrightarrow> unique_on p_id (pools (the_ipam s)) \<and> (\<forall>p \<in> set (pools (the_ipam s)). p_id p < tn_next_pool s) \<and>
     (\<forall>p \<in> set (pools (the_ipam s)). pool_in_network (networks (the_ipam s)) p) \<and> pools_apart (pools (the_ipam s))"

definition addresses_ok :: "ipam_state \<Rightarrow> bool" where
  "addresses_ok i \<longleftrightarrow> ipam_inv i \<and> a_network_id ` set (allocations i) \<subseteq> n_id ` set (networks i)"

definition tenancy_ok :: "'w tenancy \<Rightarrow> bool" where
  "tenancy_ok s \<longleftrightarrow> workspaces_ok s \<and> networks_ok s \<and> pools_ok s \<and> addresses_ok (the_ipam s)"

text \<open>The default workspace stays, and no id is given a second time.\<close>

definition tenancy_below :: "'w tenancy \<Rightarrow> 'w tenancy \<Rightarrow> bool" where
  "tenancy_below s t \<longleftrightarrow> wk_id ` {w \<in> set (tn_workspaces s). wk_is_default w} \<subseteq> wk_id ` {w \<in> set (tn_workspaces t). wk_is_default w} \<and>
     tn_next_workspace s \<le> tn_next_workspace t \<and> tn_next_network s \<le> tn_next_network t \<and> tn_next_pool s \<le> tn_next_pool t"

definition tenancy_keeps :: "'w tenancy \<Rightarrow> 'w tenancy \<Rightarrow> bool" where
  "tenancy_keeps s t \<longleftrightarrow> (tenancy_ok s \<longrightarrow> tenancy_ok t \<and> tenancy_below s t)"

lemma tenancy_below_refl [simp]: "tenancy_below s s"
  by (simp add: tenancy_below_def)

lemma tenancy_below_trans: "tenancy_below s t \<Longrightarrow> tenancy_below t u \<Longrightarrow> tenancy_below s u"
  unfolding tenancy_below_def by (elim conjE) (intro conjI; (erule (1) subset_trans | simp))

lemma tenancy_keeps_refl [simp]: "tenancy_keeps s s"
  by (simp add: tenancy_keeps_def)

lemma keeps_frame: "alloc_frame s t \<Longrightarrow> tenancy_keeps s t"
proof -
  assume f: "alloc_frame s t"
  have "addresses_ok (the_ipam t)" if "addresses_ok (the_ipam s)"
  proof -
    have "n_id ` set (networks (the_ipam t)) = n_id ` set (networks (the_ipam s))"
      using f by (simp add: alloc_frame_def svc_kept_def)
    then show ?thesis
      using f that subset_in [of "a_network_id ` set (allocations (the_ipam s))" "n_id ` set (networks (the_ipam s))"
        "a_network_id ` set (allocations (the_ipam t))"]
      by (simp add: alloc_frame_def svc_kept_def addresses_ok_def)
  qed
  then show ?thesis using f
    by (simp add: tenancy_keeps_def tenancy_ok_def alloc_frame_def svc_kept_def workspaces_ok_def networks_ok_def
        pools_ok_def tenancy_below_def)
qed

section \<open>Workspaces\<close>

lemma log_tenancy_frame [simp]:
  "tn_workspaces (log_tenancy now e s) = tn_workspaces s" "tn_next_workspace (log_tenancy now e s) = tn_next_workspace s"
  "tn_ws_servers (log_tenancy now e s) = tn_ws_servers s" "tn_ws_users (log_tenancy now e s) = tn_ws_users s"
  "tn_networks (log_tenancy now e s) = tn_networks s" "tn_next_network (log_tenancy now e s) = tn_next_network s"
  "tn_next_pool (log_tenancy now e s) = tn_next_pool s" "the_ipam (log_tenancy now e s) = the_ipam s"
  by (simp_all add: log_tenancy_def the_ipam_def)

lemma set_links_frame [simp]:
  "tn_workspaces (set_links ls lu s) = tn_workspaces s" "tn_next_workspace (set_links ls lu s) = tn_next_workspace s"
  "tn_ws_servers (set_links ls lu s) = ls" "tn_ws_users (set_links ls lu s) = lu"
  "tn_networks (set_links ls lu s) = tn_networks s" "tn_next_network (set_links ls lu s) = tn_next_network s"
  "tn_next_pool (set_links ls lu s) = tn_next_pool s" "the_ipam (set_links ls lu s) = the_ipam s"
  by (simp_all add: set_links_def the_ipam_def)

lemma the_ipam_frame [simp]:
  "the_ipam (s\<lparr>tn_workspaces := a\<rparr>) = the_ipam s" "the_ipam (s\<lparr>tn_next_workspace := b\<rparr>) = the_ipam s"
  "the_ipam (s\<lparr>tn_ws_servers := c\<rparr>) = the_ipam s" "the_ipam (s\<lparr>tn_ws_users := d\<rparr>) = the_ipam s"
  "the_ipam (s\<lparr>tn_user_servers := e\<rparr>) = the_ipam s" "the_ipam (s\<lparr>tn_networks := f\<rparr>) = the_ipam s"
  "the_ipam (s\<lparr>tn_next_network := g\<rparr>) = the_ipam s" "the_ipam (s\<lparr>tn_next_pool := h\<rparr>) = the_ipam s"
  "the_ipam (s\<lparr>tn_panel := put_quota uid l (tn_panel s)\<rparr>) = the_ipam s"
  by (simp_all add: the_ipam_def put_quota_def Let_def)

lemma put_ipam_frame [simp]:
  "tn_workspaces (put_ipam i s) = tn_workspaces s" "tn_next_workspace (put_ipam i s) = tn_next_workspace s"
  "tn_ws_servers (put_ipam i s) = tn_ws_servers s" "tn_ws_users (put_ipam i s) = tn_ws_users s"
  "tn_networks (put_ipam i s) = tn_networks s" "tn_next_network (put_ipam i s) = tn_next_network s"
  "tn_next_pool (put_ipam i s) = tn_next_pool s" "the_ipam (put_ipam i s) = i"
  by (simp_all add: put_ipam_def the_ipam_def)

lemma find_workspace_in: "find_workspace wid s = Some w \<Longrightarrow> w \<in> set (tn_workspaces s) \<and> wk_id w = wid"
  unfolding find_workspace_def by (rule find_SomeD)

lemma links_filter: "links_ok ws l \<Longrightarrow> links_ok ws (filter P l)"
  by (auto simp: links_ok_def)

lemma links_added: "link_rows wid ids links = Some l \<Longrightarrow> links_ok ws links \<Longrightarrow> wid \<in> wk_id ` set ws \<Longrightarrow> links_ok ws l"
  by (fastforce simp: link_rows_def links_ok_def Let_def image_subset_iff split: if_splits)

lemma links_more: "links_ok ws l \<Longrightarrow> wk_id ` set ws \<subseteq> wk_id ` set ws' \<Longrightarrow> links_ok ws' l"
  unfolding links_ok_def by (meson subset_trans)

lemma links_relinked:
  "link_rows wid ids (unlink_workspace wid links) = Some l \<Longrightarrow> find_workspace wid s = Some w \<Longrightarrow>
     links_ok (tn_workspaces s) links \<Longrightarrow> links_ok (tn_workspaces s) l"
  unfolding unlink_workspace_def
  by (erule links_added) (auto intro: links_filter dest!: find_workspace_in)

lemma keeps_server_links:
  "(tenancy_ok s \<Longrightarrow> links_ok (tn_workspaces s) l) \<Longrightarrow> tenancy_keeps s (s\<lparr>tn_ws_servers := l\<rparr>)"
  by (simp add: tenancy_keeps_def tenancy_ok_def workspaces_ok_def networks_ok_def pools_ok_def tenancy_below_def)

lemma keeps_user_links:
  "(tenancy_ok s \<Longrightarrow> links_ok (tn_workspaces s) l) \<Longrightarrow> tenancy_keeps s (s\<lparr>tn_ws_users := l\<rparr>)"
  by (simp add: tenancy_keeps_def tenancy_ok_def workspaces_ok_def networks_ok_def pools_ok_def tenancy_below_def)

lemma keeps_change_links:
  "change_links wid u f s = (r, t) \<Longrightarrow> (\<And>w s1. find_workspace wid s = Some w \<Longrightarrow> f s = Some s1 \<Longrightarrow> tenancy_keeps s s1) \<Longrightarrow>
     tenancy_keeps s t"
  by (auto simp: change_links_def split: sum.splits option.splits)

lemma ok_links: "tenancy_ok s \<Longrightarrow> links_ok (tn_workspaces s) (tn_ws_servers s) \<and> links_ok (tn_workspaces s) (tn_ws_users s)"
  by (simp add: tenancy_ok_def workspaces_ok_def)

lemma keeps_assign_servers: "assign_servers wid u ids s = (r, t) \<Longrightarrow> tenancy_keeps s t"
  unfolding assign_servers_def
  by (erule keeps_change_links) (auto intro!: keeps_server_links dest: links_relinked ok_links)

lemma keeps_assign_users: "assign_users wid u ids s = (r, t) \<Longrightarrow> tenancy_keeps s t"
  unfolding assign_users_def
  by (erule keeps_change_links) (auto intro!: keeps_user_links dest: links_relinked ok_links)

lemma keeps_remove_server: "remove_server wid sid u s = (r, t) \<Longrightarrow> tenancy_keeps s t"
  unfolding remove_server_def
  by (erule keeps_change_links) (auto intro!: keeps_server_links links_filter dest: ok_links)

lemma keeps_remove_user: "remove_user wid uid u s = (r, t) \<Longrightarrow> tenancy_keeps s t"
  unfolding remove_user_def
  by (erule keeps_change_links) (auto intro!: keeps_user_links links_filter dest: ok_links)

lemma keeps_same_tables:
  assumes "tn_workspaces t = tn_workspaces s" "tn_next_workspace t = tn_next_workspace s"
    "tn_ws_servers t = tn_ws_servers s" "tn_ws_users t = tn_ws_users s" "tn_networks t = tn_networks s"
    "tn_next_network t = tn_next_network s" "tn_next_pool t = tn_next_pool s" "the_ipam t = the_ipam s"
  shows "tenancy_keeps s t"
  by (rule keeps_frame) (simp add: alloc_frame_def assms)

lemma keeps_set_user_servers: "set_user_servers now uid u ip ids s = (r, t) \<Longrightarrow> tenancy_keeps s t"
  by (auto simp: set_user_servers_def Let_def set_assigned_def split: sum.splits option.splits if_splits
      intro!: keeps_same_tables)

lemma keeps_set_user_quota: "set_user_quota now uid u ip l s = (r, t) \<Longrightarrow> tenancy_keeps s t"
  by (auto simp: set_user_quota_def Let_def split: sum.splits option.splits if_splits intro!: keeps_same_tables)

lemma unique_on_eq: "unique_on key xs \<Longrightarrow> x \<in> set xs \<Longrightarrow> y \<in> set xs \<Longrightarrow> key x = key y \<Longrightarrow> x = y"
  by (auto simp: unique_on_def distinct_map inj_on_def)

lemma unique_on_replaced:
  assumes "unique_on key2 xs" "unique_on key xs" "\<And>v. v \<in> set xs \<Longrightarrow> key v \<noteq> k \<Longrightarrow> key2 v \<noteq> key2 y"
  shows "unique_on key2 (update_first (\<lambda>v. key v = k) (\<lambda>_. y) xs)"
  using assms
proof (induction xs)
  case (Cons x xs)
  then have IH: "unique_on key2 (update_first (\<lambda>v. key v = k) (\<lambda>_. y) xs)" by (simp add: unique_on_def)
  show ?case
  proof (cases "key x = k")
    case True
    have "key2 v \<noteq> key2 y" if "v \<in> set xs" for v
    proof (rule Cons.prems(3))
      show "key v \<noteq> k" using True that Cons.prems(2) by (metis distinct.simps(2) imageI list.simps(9) set_map unique_on_def)
    qed (simp add: that)
    then have "key2 y \<notin> key2 ` set xs" by (metis imageE)
    then show ?thesis using True Cons.prems(1) by (simp add: unique_on_def)
  next
    case False
    have "key2 v \<noteq> key2 x" if "v \<in> set (update_first (\<lambda>v. key v = k) (\<lambda>_. y) xs)" for v
    proof -
      have "v \<in> set xs \<or> v = y" using in_set_update_first [OF that] by auto
      moreover have "key2 y \<noteq> key2 x" using Cons.prems(3) [of x] False by auto
      moreover have "key2 x \<notin> key2 ` set xs" using Cons.prems(1) by (simp add: unique_on_def)
      ultimately show ?thesis by (metis imageI)
    qed
    then have "key2 x \<notin> key2 ` set (update_first (\<lambda>v. key v = k) (\<lambda>_. y) xs)" by (metis imageE)
    then show ?thesis using False IH by (simp add: unique_on_def)
  qed
qed (simp add: unique_on_def)

lemma keeps_create_workspace: "create_workspace now u d s = (r, t) \<Longrightarrow> tenancy_keeps s t"
proof -
  let ?w = "\<lparr>wk_id = tn_next_workspace s, wk_name = wc_name d, wk_description = wc_description d,
    wk_color = (if truthy_str (wc_color d) then wc_color d else Some ''#667eea''),
    wk_is_default = False, wk_created_by = Some (user_id u), wk_created_at = now\<rparr>"
  assume run: "create_workspace now u d s = (r, t)"
  show ?thesis
  proof (cases "t = s")
    case False
    obtain ids ids' ls lu where l: "link_rows (tn_next_workspace s) ids (tn_ws_servers s) = Some ls"
        "link_rows (tn_next_workspace s) ids' (tn_ws_users s) = Some lu"
      and name: "find (\<lambda>w. wk_name w = wc_name d) (tn_workspaces s) = None"
      and t: "tn_workspaces t = tn_workspaces s @ [?w]" "tn_next_workspace t = tn_next_workspace s + 1"
        "tn_ws_servers t = ls" "tn_ws_users t = lu" "tn_networks t = tn_networks s"
        "tn_next_network t = tn_next_network s" "tn_next_pool t = tn_next_pool s" "the_ipam t = the_ipam s"
      using run False
      by (auto simp: create_workspace_def Let_def split: sum.splits option.splits if_splits prod.splits)
    have "workspaces_ok t" if ok: "workspaces_ok s"
    proof -
      have "find (\<lambda>w. wk_id w = tn_next_workspace s) (tn_workspaces s) = None"
        using ok by (auto simp: workspaces_ok_def find_None_iff)
      then have "unique_on wk_id (tn_workspaces t)" "unique_on wk_name (tn_workspaces t)"
        using ok name by (simp_all add: workspaces_ok_def t unique_on_append)
      moreover have "links_ok (tn_workspaces t) (tn_ws_servers s)" "links_ok (tn_workspaces t) (tn_ws_users s)"
        using ok by (auto simp: workspaces_ok_def t intro: links_more)
      ultimately show ?thesis using links_added [OF l(1)] links_added [OF l(2)] ok by (auto simp: workspaces_ok_def t)
    qed
    moreover have "networks_ok t" if "networks_ok s" using that unfolding networks_ok_def t by auto
    moreover have "tenancy_below s t" by (auto simp: tenancy_below_def t)
    ultimately show ?thesis by (simp add: tenancy_keeps_def tenancy_ok_def pools_ok_def t)
  qed simp
qed


lemma keeps_update_workspace: "update_workspace wid u d s = (r, t) \<Longrightarrow> tenancy_keeps s t"
proof -
  assume run: "update_workspace wid u d s = (r, t)"
  show ?thesis
  proof (cases "t = s")
    case False
    obtain w w1 where w: "find_workspace wid s = Some w" "t = store_workspace w1 s" "wk_id w1 = wid"
        "wk_is_default w1 = wk_is_default w"
        "wk_name w1 = wk_name w \<or> find (\<lambda>v. wk_name v = wk_name w1 \<and> wk_id v \<noteq> wid) (tn_workspaces s) = None"
      using run False
      by (auto simp: update_workspace_def Let_def dest: find_workspace_in split: sum.splits option.splits if_splits)
    have t: "tn_workspaces t = update_first (\<lambda>v. wk_id v = wid) (\<lambda>_. w1) (tn_workspaces s)"
        "tn_next_workspace t = tn_next_workspace s" "tn_ws_servers t = tn_ws_servers s" "tn_ws_users t = tn_ws_users s"
        "tn_networks t = tn_networks s" "tn_next_network t = tn_next_network s" "tn_next_pool t = tn_next_pool s"
        "the_ipam t = the_ipam s"
      by (simp_all add: w(2,3) store_workspace_def)
    show ?thesis unfolding tenancy_keeps_def
    proof
      assume ok: "tenancy_ok s"
      then have u: "unique_on wk_id (tn_workspaces s)" by (simp add: tenancy_ok_def workspaces_ok_def)
      then have rows: "tn_workspaces t = map (\<lambda>v. if wk_id v = wid then w1 else v) (tn_workspaces s)"
        unfolding t by (rule update_first_map)
      have mem: "w \<in> set (tn_workspaces s)" "wk_id w = wid" using find_workspace_in [OF w(1)] by auto
      have only: "v = w" if "v \<in> set (tn_workspaces s)" "wk_id v = wid" for v
        using unique_on_eq [OF u that(1) mem(1)] that(2) mem(2) by simp
      have ids: "map wk_id (tn_workspaces t) = map wk_id (tn_workspaces s)" unfolding rows using w(3) by simp
      have "unique_on wk_name (tn_workspaces t)" unfolding t
      proof (rule unique_on_replaced [OF _ u])
        show names: "unique_on wk_name (tn_workspaces s)" using ok by (simp add: tenancy_ok_def workspaces_ok_def)
        show "wk_name v \<noteq> wk_name w1" if "v \<in> set (tn_workspaces s)" "wk_id v \<noteq> wid" for v
          using w(5) that unique_on_eq [OF names that(1) mem(1)] mem(2) by (auto simp: find_None_iff)
      qed
      moreover have "links_ok (tn_workspaces t) l" if "links_ok (tn_workspaces s) l" for l
        using that arg_cong [OF ids, of set] by (auto intro: links_more)
      moreover have "(\<forall>v \<in> set (tn_workspaces t). wk_id v < n) \<longleftrightarrow> (\<forall>v \<in> set (tn_workspaces s). wk_id v < n)" for n
        by (rule ball_map_cong [OF ids, where P = "\<lambda>i. i < n"])
      ultimately have wok: "workspaces_ok t"
        using ok unfolding tenancy_ok_def workspaces_ok_def unique_on_def ids t(2-4) by simp
      have nok: "networks_ok t" using ok arg_cong [OF ids, of set] by (simp add: tenancy_ok_def networks_ok_def t(5-8))
      have defaults: "wk_id ` {v \<in> set (tn_workspaces s). wk_is_default v} \<subseteq> wk_id ` {v \<in> set (tn_workspaces t). wk_is_default v}"
      proof (clarify)
        fix v assume v: "v \<in> set (tn_workspaces s)" "wk_is_default v"
        then have "(if wk_id v = wid then w1 else v) \<in> {v \<in> set (tn_workspaces t). wk_is_default v}"
          unfolding rows using only w(4) by auto
        moreover have "wk_id v = wk_id (if wk_id v = wid then w1 else v)" using w(3) by simp
        ultimately show "wk_id v \<in> wk_id ` {v \<in> set (tn_workspaces t). wk_is_default v}" by (rule rev_image_eqI)
      qed
      have below: "tenancy_below s t" unfolding tenancy_below_def t(2-7) using defaults by (simp only: simp_thms order.refl)
      have "pools_ok t = pools_ok s" by (simp add: pools_ok_def t(7,8))
      with ok wok nok below show "tenancy_ok t \<and> tenancy_below s t" by (simp add: tenancy_ok_def t(8))
    qed
  qed simp
qed

lemma keeps_delete_workspace: "delete_workspace wid u s = (r, t) \<Longrightarrow> tenancy_keeps s t"
proof -
  assume run: "delete_workspace wid u s = (r, t)"
  show ?thesis
  proof (cases "t = s")
    case False
    let ?col = "\<lambda>n. if nc_workspace_id n = Some wid then n\<lparr>nc_workspace_id := None\<rparr> else n"
    obtain w where w: "find_workspace wid s = Some w" "\<not> wk_is_default w"
      and t: "tn_workspaces t = remove_first (\<lambda>v. wk_id v = wid) (tn_workspaces s)"
        "tn_next_workspace t = tn_next_workspace s" "tn_ws_servers t = unlink_workspace wid (tn_ws_servers s)"
        "tn_ws_users t = unlink_workspace wid (tn_ws_users s)" "tn_networks t = map ?col (tn_networks s)"
        "tn_next_network t = tn_next_network s" "tn_next_pool t = tn_next_pool s" "the_ipam t = the_ipam s"
      using run False by (auto simp: delete_workspace_def split: sum.splits option.splits if_splits)
    show ?thesis unfolding tenancy_keeps_def
    proof
      assume ok: "tenancy_ok s"
      then have u: "unique_on wk_id (tn_workspaces s)" by (simp add: tenancy_ok_def workspaces_ok_def)
      have rows: "tn_workspaces t = filter (\<lambda>v. wk_id v \<noteq> wid) (tn_workspaces s)"
        unfolding t by (rule unique_remove_first_filter [OF u])
      have links: "links_ok (tn_workspaces t) (unlink_workspace wid l)" if "links_ok (tn_workspaces s) l" for l
        using that by (fastforce simp: links_ok_def unlink_workspace_def rows image_subset_iff)
      have wok: "workspaces_ok t"
        using ok links unfolding tenancy_ok_def workspaces_ok_def t(2-4) by (simp add: rows unique_on_filter)
      have nok: "networks_ok t"
      proof -
        have k: "map nc_id (map ?col cs) = map nc_id cs" for cs by (induction cs) auto
        have sd: "single_default (map ?col (tn_networks s))" if one: "single_default (tn_networks s)"
          unfolding single_default_def
        proof (intro ballI impI)
          fix c' d' assume "c' \<in> set (map ?col (tn_networks s))" "d' \<in> set (map ?col (tn_networks s))"
            and eq: "nc_is_default c' \<and> nc_is_default d' \<and> nc_workspace_id c' = nc_workspace_id d' \<and> nc_workspace_id c' \<noteq> None"
          then obtain c d where cd: "c \<in> set (tn_networks s)" "c' = ?col c" "d \<in> set (tn_networks s)" "d' = ?col d" by auto
          have same: "?col x = x" if "nc_workspace_id (?col x) \<noteq> None" for x using that by (cases "nc_workspace_id x = Some wid") simp_all
          have "c' = c" using same [of c] eq unfolding cd(2) by blast
          moreover have "nc_workspace_id d' \<noteq> None" using eq by metis
          then have "d' = d" using same [of d] unfolding cd(4) by blast
          ultimately have "c' = c" "d' = d" by blast+
          with one cd(1,3) eq show "nc_id c' = nc_id d'" unfolding single_default_def by blast
        qed
        have cols: "\<forall>c' \<in> set (map ?col (tn_networks s)). set_option (nc_workspace_id c') \<subseteq> wk_id ` set (tn_workspaces t)"
        proof
          fix c' assume "c' \<in> set (map ?col (tn_networks s))"
          then obtain c where c: "c \<in> set (tn_networks s)" "c' = ?col c" by auto
          have "set_option (nc_workspace_id c) \<subseteq> wk_id ` set (tn_workspaces s)"
            using ok c(1) by (simp add: tenancy_ok_def networks_ok_def)
          then show "set_option (nc_workspace_id c') \<subseteq> wk_id ` set (tn_workspaces t)" unfolding c(2) by (auto simp: rows)
        qed
        have "networks_ok s" using ok by (simp add: tenancy_ok_def)
        then show ?thesis using sd cols unfolding networks_ok_def t(5,6,8) k by blast
      qed
      have below: "tenancy_below s t"
      proof -
        have "{v \<in> set (tn_workspaces s). wk_is_default v} \<subseteq> {v \<in> set (tn_workspaces t). wk_is_default v}"
          using w find_workspace_in [OF w(1)] unique_on_eq [OF u] by (auto simp: rows)
        then show ?thesis unfolding tenancy_below_def t(2-7) by (simp only: image_mono simp_thms order.refl)
      qed
      have "pools_ok t = pools_ok s" by (simp add: pools_ok_def t(7,8))
      with ok wok nok below show "tenancy_ok t \<and> tenancy_below s t" by (simp add: tenancy_ok_def t(8))
    qed
  qed simp
qed

end
