(* ===== verification/NetworkRuns.thy ===== *)
theory NetworkRuns
  imports TenancyRuns
begin

text \<open>
  Networks and pools along every run of the endpoints, and the invariant of the tables of workspaces and addresses
  (\<open>tenancy_ok\<close>) for all of them.
\<close>

section \<open>Networks\<close>

lemma set_network_keys [simp]: "n_id (set_network f n) = n_id n" "n_network (set_network f n) = n_network n"
  by (induction f n rule: set_network.induct) simp_all

lemma fold_set_network [simp]: "n_id (fold set_network fs n) = n_id n" "n_network (fold set_network fs n) = n_network n"
  by (induction fs arbitrary: n) simp_all

lemma set_columns_id [simp]: "nc_id (set_columns f c) = nc_id c"
  by (induction f c rule: set_columns.induct) simp_all

lemma fold_set_columns [simp]: "nc_id (fold set_columns fs c) = nc_id c"
  by (induction fs arbitrary: c) simp_all

definition clear_default :: "net_columns \<Rightarrow> net_columns \<Rightarrow> net_columns" where
  "clear_default c d = (if nc_workspace_id d = nc_workspace_id c \<and> nc_id d \<noteq> nc_id c \<and> nc_is_default d
     then d\<lparr>nc_is_default := False\<rparr> else d)"

lemma enforce_alt: "enforce_single_default c rows =
    (if \<not> nc_is_default c \<or> nc_workspace_id c = None then rows else map (clear_default c) rows)"
  by (simp add: enforce_single_default_def clear_default_def [abs_def])

lemma clear_default_keys [simp]: "nc_id (clear_default c d) = nc_id d" "nc_workspace_id (clear_default c d) = nc_workspace_id d"
  by (simp_all add: clear_default_def)

lemma clear_default_default: "nc_is_default (clear_default c d) \<Longrightarrow>
    clear_default c d = d \<and> \<not> (nc_workspace_id d = nc_workspace_id c \<and> nc_id d \<noteq> nc_id c)"
  by (auto simp: clear_default_def split: if_splits)

lemma enforce_ids: "map nc_id (enforce_single_default c rows) = map nc_id rows"
  by (simp add: enforce_alt)

lemma enforce_workspaces:
  "(\<forall>d \<in> set (enforce_single_default c rows). P (nc_workspace_id d)) \<longleftrightarrow> (\<forall>d \<in> set rows. P (nc_workspace_id d))"
  by (simp add: enforce_alt)

lemma single_default_enforce:
  assumes old: "\<And>d e. d \<in> set rows \<Longrightarrow> e \<in> set rows \<Longrightarrow> nc_id d \<noteq> nc_id c \<Longrightarrow> nc_id e \<noteq> nc_id c \<Longrightarrow> nc_is_default d \<Longrightarrow>
      nc_is_default e \<Longrightarrow> nc_workspace_id d = nc_workspace_id e \<Longrightarrow> nc_workspace_id d \<noteq> None \<Longrightarrow> nc_id d = nc_id e"
    and new: "\<And>d. d \<in> set rows \<Longrightarrow> nc_id d = nc_id c \<Longrightarrow> d = c"
  shows "single_default (enforce_single_default c rows)"
  unfolding single_default_def
proof (intro ballI impI)
  fix d' e'
  assume in': "d' \<in> set (enforce_single_default c rows)" "e' \<in> set (enforce_single_default c rows)"
    and eq: "nc_is_default d' \<and> nc_is_default e' \<and> nc_workspace_id d' = nc_workspace_id e' \<and> nc_workspace_id d' \<noteq> None"
  have kept: "x \<in> set rows \<and> (nc_is_default c \<and> nc_workspace_id x = nc_workspace_id c \<longrightarrow> nc_id x = nc_id c)"
    if "x \<in> set (enforce_single_default c rows)" "nc_is_default x" "nc_workspace_id x \<noteq> None" for x
  proof (cases "nc_is_default c \<and> nc_workspace_id c \<noteq> None")
    case True
    then have "x \<in> clear_default c ` set rows" using that(1) by (simp add: enforce_alt del: not_None_eq)
    then obtain y where y: "y \<in> set rows" "x = clear_default c y" by blast
    then have "x = y \<and> \<not> (nc_workspace_id y = nc_workspace_id c \<and> nc_id y \<noteq> nc_id c)"
      using that(2) clear_default_default [of c y] by simp
    then show ?thesis using y(1) by blast
  next
    case False
    then have "x \<in> set rows" using that(1) by (auto simp: enforce_alt split: if_splits)
    then show ?thesis using False that(3) by auto
  qed
  have d: "d' \<in> set rows" "nc_is_default c \<and> nc_workspace_id d' = nc_workspace_id c \<longrightarrow> nc_id d' = nc_id c"
    using kept [OF in'(1)] eq by blast+
  have "nc_workspace_id e' \<noteq> None" using eq by metis
  then have e: "e' \<in> set rows" "nc_is_default c \<and> nc_workspace_id e' = nc_workspace_id c \<longrightarrow> nc_id e' = nc_id c"
    using kept [OF in'(2)] eq by blast+
  show "nc_id d' = nc_id e'"
  proof (cases "nc_id d' = nc_id c \<or> nc_id e' = nc_id c")
    case True
    then have "nc_is_default c \<and> nc_workspace_id d' = nc_workspace_id c"
      using new [OF d(1)] new [OF e(1)] eq by metis
    then show ?thesis using d(2) e(2) eq by metis
  next
    case False
    then show ?thesis using old [OF d(1) e(1)] eq by blast
  qed
qed

lemma known_workspace: "workspace_known w s \<Longrightarrow> set_option w \<subseteq> wk_id ` set (tn_workspaces s)"
  by (auto simp: workspace_known_def dest!: find_workspace_in split: option.splits)

lemma pool_in_more: "pool_in_network ns p \<Longrightarrow> pool_in_network (ns @ [n]) p"
  unfolding pool_in_network_def by (force simp: find_append)

lemma keeps_with_right:
  "with_right p u f s = (r, t) \<Longrightarrow> (\<And>r t. f s = (r, t) \<Longrightarrow> tenancy_keeps s t) \<Longrightarrow> tenancy_keeps s t"
  by (auto simp: with_right_def split: sum.splits)


lemma map_id_lt: "map key xs = map key2 ys \<Longrightarrow> (\<forall>y \<in> set ys. key2 y < n) \<Longrightarrow> x \<in> set xs \<Longrightarrow> key x < (n :: int)"
proof -
  assume eq: "map key xs = map key2 ys" and lt: "\<forall>y \<in> set ys. key2 y < n" and x: "x \<in> set xs"
  have "key ` set xs = key2 ` set ys" using arg_cong [OF eq, of set] by simp
  then obtain y where "y \<in> set ys" "key x = key2 y" using x by blast
  then show "key x < n" using lt by simp
qed

lemma single_defaultD: "single_default rows \<Longrightarrow> d \<in> set rows \<Longrightarrow> e \<in> set rows \<Longrightarrow> nc_is_default d \<Longrightarrow> nc_is_default e \<Longrightarrow>
    nc_workspace_id d = nc_workspace_id e \<Longrightarrow> nc_workspace_id d \<noteq> None \<Longrightarrow> nc_id d = nc_id e"
  unfolding single_default_def by blast

lemma keeps_create_network: "create_network u b s = (r, t) \<Longrightarrow> tenancy_keeps s t"
  unfolding create_network_def
proof (erule keeps_with_right)
  fix r t
  let ?i = "tn_next_network s"
  let ?c = "body_columns ?i b"
  let ?n = "body_network ?i b"
  let ?I = "the_ipam s"
  have bn: "n_id ?n = ?i" "n_network ?n = nb_network b" "nc_id ?c = ?i" "nc_workspace_id ?c = nb_workspace_id b"
    by (simp_all add: body_network_def body_columns_def)
  assume run: "(if find (\<lambda>n. n_network n = nb_network b) (networks ?I) \<noteq> None
     then (Inl (bad_request (''Network '' @ nb_network b @ '' already exists'')), s)
     else if \<not> workspace_known (nb_workspace_id b) s then (Inl internal_error, s)
     else
       (let i = tn_next_network s; c = body_columns i b
        in (Inr i, put_ipam (?I\<lparr>networks := networks ?I @ [body_network i b]\<rparr>)
              (s\<lparr>tn_networks := enforce_single_default c (tn_networks s @ [c]), tn_next_network := i + 1\<rparr>)))) = (r, t)"
  show "tenancy_keeps s t"
  proof (cases "t = s")
    case False
    then have new: "find (\<lambda>n. n_network n = nb_network b) (networks ?I) = None" "workspace_known (nb_workspace_id b) s"
      and t: "t = put_ipam (?I\<lparr>networks := networks ?I @ [?n]\<rparr>)
        (s\<lparr>tn_networks := enforce_single_default ?c (tn_networks s @ [?c]), tn_next_network := ?i + 1\<rparr>)"
      using run by (auto simp: Let_def split: if_splits)
    have nets: "networks (the_ipam t) = networks ?I @ [?n]" "allocations (the_ipam t) = allocations ?I"
        "ipam_inv (the_ipam t) = ipam_inv ?I" "pools (the_ipam t) = pools ?I"
        "tn_networks t = enforce_single_default ?c (tn_networks s @ [?c])"
        "tn_workspaces t = tn_workspaces s" "tn_next_network t = ?i + 1"
      by (simp_all add: t ipam_inv_def)
    show ?thesis unfolding tenancy_keeps_def
    proof
      assume ok: "tenancy_ok s"
      then have nok: "networks_ok s" by (simp add: tenancy_ok_def)
      then have keys: "map nc_id (tn_networks s) = map n_id (networks ?I)" and below: "\<forall>n \<in> set (networks ?I). n_id n < ?i"
        and one: "single_default (tn_networks s)" by (simp_all add: networks_ok_def)
      have cols: "nc_id d < ?i" if "d \<in> set (tn_networks s)" for d using map_id_lt [OF keys below that] .
      have "single_default (tn_networks t)" unfolding nets
      proof (rule single_default_enforce)
        show "d = ?c" if "d \<in> set (tn_networks s @ [?c])" "nc_id d = nc_id ?c" for d
          using that cols [of d] by (auto simp: bn)
        fix d e assume "d \<in> set (tn_networks s @ [?c])" "e \<in> set (tn_networks s @ [?c])" "nc_id d \<noteq> nc_id ?c" "nc_id e \<noteq> nc_id ?c"
        then have "d \<in> set (tn_networks s)" "e \<in> set (tn_networks s)" by auto
        then show "nc_is_default d \<Longrightarrow> nc_is_default e \<Longrightarrow> nc_workspace_id d = nc_workspace_id e \<Longrightarrow>
            nc_workspace_id d \<noteq> None \<Longrightarrow> nc_id d = nc_id e"
          by (rule single_defaultD [OF one])
      qed
      moreover have "map nc_id (tn_networks t) = map n_id (networks (the_ipam t))"
        by (simp add: nets enforce_ids keys bn)
      moreover have "unique_on n_id (networks (the_ipam t))"
        using nok below by (auto simp: nets networks_ok_def unique_on_append bn find_None_iff)
      moreover have "unique_on n_network (networks (the_ipam t))"
        using nok new(1) by (simp add: nets networks_ok_def unique_on_append bn)
      moreover have "\<forall>n \<in> set (networks (the_ipam t)). n_id n < tn_next_network t"
        using below by (auto simp: nets bn)
      moreover have "\<forall>d \<in> set (tn_networks t). set_option (nc_workspace_id d) \<subseteq> wk_id ` set (tn_workspaces t)"
        using nok known_workspace [OF new(2)]
        unfolding nets enforce_workspaces [where P = "\<lambda>w. set_option w \<subseteq> wk_id ` set (tn_workspaces s)"]
        by (simp add: networks_ok_def bn)
      ultimately have "networks_ok t" by (simp add: networks_ok_def)
      moreover have "pools_ok t"
        using ok by (auto simp: tenancy_ok_def pools_ok_def nets pool_in_more t)
      moreover have "addresses_ok (the_ipam t)"
        using ok unfolding tenancy_ok_def addresses_ok_def nets by auto
      moreover have "workspaces_ok t" "tenancy_below s t"
        using ok by (simp_all add: tenancy_ok_def workspaces_ok_def tenancy_below_def t)
      ultimately show "tenancy_ok t \<and> tenancy_below s t" by (simp add: tenancy_ok_def)
    qed
  qed simp
qed


lemma pool_in_updated:
  assumes "\<And>n. n_id (f n) = n_id n" "\<And>n. n_network (f n) = n_network n"
  shows "pool_in_network (update_first (\<lambda>m. n_id m = nid) f ns) p = pool_in_network ns p"
proof -
  have "map_option n_network (find (\<lambda>m. n_id m = k) (update_first (\<lambda>m. n_id m = nid) f ns)) =
      map_option n_network (find (\<lambda>m. n_id m = k) ns)" for k
    by (induction ns) (auto simp: assms)
  from this [of "p_network_id p"] show ?thesis
    unfolding pool_in_network_def by (cases "find (\<lambda>m. n_id m = p_network_id p) ns") auto
qed

lemma keeps_update_network: "update_network nid u fs s = (r, t) \<Longrightarrow> tenancy_keeps s t"
  unfolding update_network_def
proof (erule keeps_with_right)
  fix r t
  let ?I = "the_ipam s"
  assume run: "(case (find_network nid ?I, find_columns nid s) of
       (Some n, Some c) \<Rightarrow>
         (let c' = fold set_columns fs c in
          if list_ex null_refused fs \<or> \<not> workspace_known (nc_workspace_id c') s then (Inl internal_error, s)
          else (Inr (), put_ipam (?I\<lparr>networks := update_first (\<lambda>m. n_id m = nid) (fold set_network fs) (networks ?I)\<rparr>)
                 (s\<lparr>tn_networks := enforce_single_default c' (update_first (\<lambda>d. nc_id d = nid) (\<lambda>_. c') (tn_networks s))\<rparr>)))
     | _ \<Rightarrow> (Inl network_not_found, s)) = (r, t)"
  show "tenancy_keeps s t"
  proof (cases "t = s")
    case False
    then obtain c where c: "find_columns nid s = Some c" "workspace_known (nc_workspace_id (fold set_columns fs c)) s"
      and t: "t = put_ipam (?I\<lparr>networks := update_first (\<lambda>m. n_id m = nid) (fold set_network fs) (networks ?I)\<rparr>)
        (s\<lparr>tn_networks := enforce_single_default (fold set_columns fs c)
             (update_first (\<lambda>d. nc_id d = nid) (\<lambda>_. fold set_columns fs c) (tn_networks s))\<rparr>)"
      using run by (auto simp: Let_def split: option.splits if_splits)
    let ?c = "fold set_columns fs c"
    let ?rows = "update_first (\<lambda>d. nc_id d = nid) (\<lambda>_. ?c) (tn_networks s)"
    have cid: "nc_id ?c = nid" "c \<in> set (tn_networks s)" using find_SomeD [OF c(1) [unfolded find_columns_def]] by auto
    have nets: "networks (the_ipam t) = update_first (\<lambda>m. n_id m = nid) (fold set_network fs) (networks ?I)"
        "allocations (the_ipam t) = allocations ?I" "ipam_inv (the_ipam t) = ipam_inv ?I" "pools (the_ipam t) = pools ?I"
        "tn_networks t = enforce_single_default ?c ?rows" "tn_workspaces t = tn_workspaces s" "tn_next_network t = tn_next_network s"
      by (simp_all add: t ipam_inv_def)
    have ids: "map n_id (networks (the_ipam t)) = map n_id (networks ?I)"
        "map n_network (networks (the_ipam t)) = map n_network (networks ?I)"
      unfolding nets by (simp_all add: map_update_first)
    have rows_ids: "map nc_id ?rows = map nc_id (tn_networks s)" by (rule map_update_first) (use cid(1) in simp)
    show ?thesis unfolding tenancy_keeps_def
    proof
      assume ok: "tenancy_ok s"
      then have nok: "networks_ok s" by (simp add: tenancy_ok_def)
      then have one: "single_default (tn_networks s)" and keys: "map nc_id (tn_networks s) = map n_id (networks ?I)"
        by (simp_all add: networks_ok_def)
      have "unique_on nc_id (tn_networks s)" using nok keys by (simp add: networks_ok_def unique_on_def)
      then have rows: "?rows = map (\<lambda>d. if nc_id d = nid then ?c else d) (tn_networks s)" by (rule update_first_map)
      have same: "d = ?c" if "d \<in> set ?rows" "nc_id d = nid" for d
        using that unfolding rows by (auto split: if_splits)
      have other: "d \<in> set (tn_networks s)" if "d \<in> set ?rows" "nc_id d \<noteq> nid" for d
        using that cid unfolding rows by (auto split: if_splits)
      have "single_default (tn_networks t)" unfolding nets
        by (rule single_default_enforce) (use same other single_defaultD [OF one] cid in metis)+
      moreover have "map nc_id (tn_networks t) = map n_id (networks (the_ipam t))"
        unfolding nets(5) enforce_ids rows_ids keys ids ..
      moreover have "unique_on n_id (networks (the_ipam t))" "unique_on n_network (networks (the_ipam t))"
        using nok unfolding networks_ok_def unique_on_def ids by blast+
      moreover have "\<forall>n \<in> set (networks (the_ipam t)). n_id n < tn_next_network t"
        using nok ball_map_cong [OF ids(1), where P = "\<lambda>i. i < tn_next_network s"] by (simp add: networks_ok_def nets(7))
      moreover have "\<forall>d \<in> set (tn_networks t). set_option (nc_workspace_id d) \<subseteq> wk_id ` set (tn_workspaces t)"
        unfolding nets(5,6) enforce_workspaces [where P = "\<lambda>w. set_option w \<subseteq> wk_id ` set (tn_workspaces s)"]
      proof
        fix d assume d: "d \<in> set ?rows"
        show "set_option (nc_workspace_id d) \<subseteq> wk_id ` set (tn_workspaces s)"
        proof (cases "nc_id d = nid")
          case True
          then show ?thesis using same [OF d] known_workspace [OF c(2)] by simp
        next
          case False
          then show ?thesis using other [OF d] nok by (simp add: networks_ok_def)
        qed
      qed
      ultimately have "networks_ok t" unfolding networks_ok_def by blast
      moreover have "pools_ok t"
        using ok unfolding tenancy_ok_def pools_ok_def nets(4) unfolding nets(1) t
        by (simp add: pool_in_updated)
      moreover have "addresses_ok (the_ipam t)"
        using ok arg_cong [OF ids(1), of set] by (simp add: tenancy_ok_def addresses_ok_def nets(2,3))
      moreover have "workspaces_ok t" "tenancy_below s t"
        using ok by (simp_all add: tenancy_ok_def workspaces_ok_def tenancy_below_def t)
      ultimately show "tenancy_ok t \<and> tenancy_below s t" by (simp add: tenancy_ok_def)
    qed
  qed simp
qed


lemma map_remove_first: "map key xs = map key2 ys \<Longrightarrow> (\<And>x. P x \<longleftrightarrow> key x = k) \<Longrightarrow> (\<And>y. Q y \<longleftrightarrow> key2 y = k) \<Longrightarrow>
    map key (remove_first P xs) = map key2 (remove_first Q ys)"
proof (induction xs arbitrary: ys)
  case (Cons x xs)
  then show ?case by (cases ys) auto
qed simp

lemma keeps_delete_network: "delete_network nid force u s = (r, t) \<Longrightarrow> tenancy_keeps s t"
  unfolding delete_network_def
proof (erule keeps_with_right)
  fix r t
  let ?I = "the_ipam s"
  assume run: "(if find_network nid ?I = None then (Inl network_not_found, s)
     else
       (let i = ?I; n = length (filter (\<lambda>a. a_network_id a = nid) (allocations i)) in
        if 0 < n \<and> \<not> force
        then (Inl (bad_request (''Network has '' @ dec_string n @ '' allocations. Use force=true to delete anyway.'')), s)
        else (Inr (), put_ipam (i\<lparr>allocations := filter (\<lambda>a. a_network_id a \<noteq> nid) (allocations i),
                 pools := filter (\<lambda>p. p_network_id p \<noteq> nid) (pools i),
                 history := filter (\<lambda>h. h_network_id h \<noteq> Some nid) (history i),
                 networks := remove_first (\<lambda>m. n_id m = nid) (networks i)\<rparr>)
               (s\<lparr>tn_networks := remove_first (\<lambda>c. nc_id c = nid) (tn_networks s)\<rparr>)))) = (r, t)"
  show "tenancy_keeps s t"
  proof (cases "t = s")
    case False
    then have t: "t = put_ipam (?I\<lparr>allocations := filter (\<lambda>a. a_network_id a \<noteq> nid) (allocations ?I),
        pools := filter (\<lambda>p. p_network_id p \<noteq> nid) (pools ?I), history := filter (\<lambda>h. h_network_id h \<noteq> Some nid) (history ?I),
        networks := remove_first (\<lambda>m. n_id m = nid) (networks ?I)\<rparr>)
        (s\<lparr>tn_networks := remove_first (\<lambda>c. nc_id c = nid) (tn_networks s)\<rparr>)"
      using run by (auto simp: Let_def split: if_splits)
    have nets: "networks (the_ipam t) = remove_first (\<lambda>m. n_id m = nid) (networks ?I)"
        "allocations (the_ipam t) = filter (\<lambda>a. a_network_id a \<noteq> nid) (allocations ?I)"
        "pools (the_ipam t) = filter (\<lambda>p. p_network_id p \<noteq> nid) (pools ?I)"
        "tn_networks t = remove_first (\<lambda>c. nc_id c = nid) (tn_networks s)" "tn_workspaces t = tn_workspaces s"
        "tn_next_network t = tn_next_network s" "tn_next_pool t = tn_next_pool s"
      by (simp_all add: t)
    show ?thesis unfolding tenancy_keeps_def
    proof
      assume ok: "tenancy_ok s"
      then have nok: "networks_ok s" by (simp add: tenancy_ok_def)
      have rows: "networks (the_ipam t) = filter (\<lambda>m. n_id m \<noteq> nid) (networks ?I)"
        unfolding nets by (rule unique_remove_first_filter) (use nok in \<open>simp add: networks_ok_def\<close>)
      have sub: "set (tn_networks t) \<subseteq> set (tn_networks s)" unfolding nets by (rule set_remove_first)
      have "map nc_id (tn_networks t) = map n_id (networks (the_ipam t))"
        unfolding nets by (rule map_remove_first) (use nok in \<open>simp_all add: networks_ok_def\<close>)
      moreover have "single_default (tn_networks t)"
        using nok sub unfolding networks_ok_def single_default_def by blast
      moreover have "unique_on n_id (networks (the_ipam t))" "unique_on n_network (networks (the_ipam t))"
          "\<forall>n \<in> set (networks (the_ipam t)). n_id n < tn_next_network t"
        using nok unfolding nets(6) by (simp_all add: networks_ok_def rows unique_on_filter)
      moreover have "\<forall>d \<in> set (tn_networks t). set_option (nc_workspace_id d) \<subseteq> wk_id ` set (tn_workspaces t)"
        using nok sub unfolding networks_ok_def nets(5) by blast
      ultimately have "networks_ok t" unfolding networks_ok_def by blast
      moreover have "pools_ok t"
      proof -
        have "find (\<lambda>m. n_id m = k) (networks (the_ipam t)) = find (\<lambda>m. n_id m = k) (networks ?I)" if "k \<noteq> nid" for k
          unfolding nets(1) by (rule find_remove_first_other) (use that in simp)
        then show ?thesis
          using ok by (simp add: tenancy_ok_def pools_ok_def nets(3,7) unique_on_filter pool_in_network_def pools_apart_def)
      qed
      moreover have "addresses_ok (the_ipam t)"
      proof -
        have "ipam_inv (the_ipam t)"
          using ok by (simp add: tenancy_ok_def addresses_ok_def ipam_inv_def nets(2) unique_on_filter) (simp add: t)
        moreover have "a_network_id a \<in> n_id ` set (networks (the_ipam t))" if a: "a \<in> set (allocations (the_ipam t))" for a
        proof -
          have "a_network_id a \<in> n_id ` set (networks ?I)" "a_network_id a \<noteq> nid"
            using ok a by (auto simp: tenancy_ok_def addresses_ok_def nets(2))
          then show ?thesis by (auto simp: rows)
        qed
        ultimately show ?thesis unfolding addresses_ok_def by blast
      qed
      moreover have "workspaces_ok t" "tenancy_below s t"
        using ok by (simp_all add: tenancy_ok_def workspaces_ok_def tenancy_below_def t)
      ultimately show "tenancy_ok t \<and> tenancy_below s t" by (simp add: tenancy_ok_def)
    qed
  qed simp
qed

section \<open>Pools\<close>

lemma ip_gt_le: "ip_gt a b = Some False \<Longrightarrow> ip_int a \<le> ip_int b"
  by (auto simp: ip_gt_def ip_lt_def split: if_splits)

lemma check_overlaps_split:
  assumes "check_overlaps s e ps = Inr None" and "p \<in> set ps"
    and "ip_address (p_range_start p) = Some a" and "ip_address (p_range_end p) = Some b"
  shows "ip_int e < ip_int a \<or> ip_int b < ip_int s \<or> ip_int b = ip_int s \<and> is_v4 b = is_v4 s \<and> b \<noteq> s"
  using assms
proof (induction ps)
  case (Cons q qs)
  show ?case
  proof (cases "p = q")
    case True
    with Cons.prems show ?thesis by (auto simp: ip_lt_def ip_gt_def split: if_splits bool.splits)
  next
    case False
    have "check_overlaps s e qs = Inr None"
      using Cons.prems(1) by (auto split: option.splits bool.splits)
    with False Cons show ?thesis by simp
  qed
qed simp

lemma check_overlaps_apart:
  assumes "check_overlaps s e ps = Inr None" and "p \<in> set ps"
  shows "pool_addresses p \<inter> addr_range s e = {}"
proof (cases "ip_address (p_range_start p) = None \<or> ip_address (p_range_end p) = None")
  case True
  then show ?thesis by (auto simp: pool_addresses_def split: option.splits)
next
  case False
  then obtain a b where ab: "ip_address (p_range_start p) = Some a" "ip_address (p_range_end p) = Some b" by auto
  note apart = check_overlaps_split [OF assms ab]
  have "addr_range a b \<inter> addr_range s e = {}"
    using apart by (cases "(a, b)" rule: addr_range.cases; cases "(s, e)" rule: addr_range.cases) auto
  then show ?thesis by (simp add: pool_addresses_def ab)
qed

lemma pools_apart_append:
  assumes "pools_apart ps" "\<And>q. q \<in> set ps \<Longrightarrow> p_network_id q = p_network_id p \<Longrightarrow> pool_addresses q \<inter> pool_addresses p = {}"
  shows "pools_apart (ps @ [p])"
  unfolding pools_apart_def
proof (intro ballI impI)
  fix q r assume qr: "q \<in> set (ps @ [p])" "r \<in> set (ps @ [p])" "p_id q \<noteq> p_id r \<and> p_network_id q = p_network_id r"
  show "pool_addresses q \<inter> pool_addresses r = {}"
  proof (cases "q = p \<or> r = p")
    case True
    then have "q = p \<and> r \<in> set ps \<or> r = p \<and> q \<in> set ps" using qr by auto
    then show ?thesis using assms(2) qr(3) by (metis Int_commute)
  next
    case False
    then have "q \<in> set ps" "r \<in> set ps" using qr(1,2) by auto
    then show ?thesis using assms(1) qr(3) unfolding pools_apart_def by blast
  qed
qed

lemma accepted_range:
  assumes "validate_pool_range nid rs re ex i = Inr None"
  obtains n net a b where "find_network nid i = Some n" "ip_network (n_network n) = Some net"
    "ip_address rs = Some a" "ip_address re = Some b" "net_contains net a" "net_contains net b" "ip_int a \<le> ip_int b"
    "\<And>p. p \<in> set (pools i) \<Longrightarrow> p_network_id p = nid \<Longrightarrow> Some (p_id p) \<noteq> ex \<Longrightarrow> pool_addresses p \<inter> addr_range a b = {}"
proof -
  obtain n net a b where n: "find_network nid i = Some n" "ip_network (n_network n) = Some net"
      "ip_address rs = Some a" "ip_address re = Some b"
    using assms by (auto simp: validate_pool_range_def split: option.split_asm)
  moreover have c: "net_contains net a \<and> net_contains net b"
    using assms n by (auto simp: validate_pool_range_def split: if_splits)
  moreover have g: "ip_gt a b = Some False"
    using assms n c by (auto simp: validate_pool_range_def split: option.split_asm bool.split_asm)
  moreover have "pool_addresses p \<inter> addr_range a b = {}"
    if "p \<in> set (pools i)" "p_network_id p = nid" "Some (p_id p) \<noteq> ex" for p
  proof (rule check_overlaps_apart)
    show "check_overlaps a b (filter (\<lambda>p. p_network_id p = nid \<and>
        (if truthy_int ex then Some (p_id p) \<noteq> ex else True)) (pools i)) = Inr None"
      using assms n c g by (simp add: validate_pool_range_def)
    show "p \<in> set (filter (\<lambda>p. p_network_id p = nid \<and> (if truthy_int ex then Some (p_id p) \<noteq> ex else True)) (pools i))"
      using that by simp
  qed
  ultimately show thesis using that ip_gt_le [OF g] by blast
qed


lemma find_pool_in: "find_pool pid i = Some p \<Longrightarrow> p \<in> set (pools i) \<and> p_id p = pid"
  unfolding find_pool_def by (rule find_SomeD)

text \<open>Pools change, networks and addresses stay.\<close>

lemma keeps_pools:
  assumes t: "t = put_ipam (the_ipam s\<lparr>pools := ps\<rparr>) (s\<lparr>tn_next_pool := n\<rparr>)" and n: "tn_next_pool s \<le> n"
    and new: "tenancy_ok s \<Longrightarrow> unique_on p_id ps \<and> (\<forall>p \<in> set ps. p_id p < n) \<and>
      (\<forall>p \<in> set ps. pool_in_network (networks (the_ipam s)) p) \<and> pools_apart ps"
  shows "tenancy_keeps s t"
  using new n by (simp add: tenancy_keeps_def tenancy_ok_def workspaces_ok_def networks_ok_def pools_ok_def addresses_ok_def
      ipam_inv_def tenancy_below_def t)

lemma verdict_accepted: "range_verdict v = None \<longleftrightarrow> v = Inr None"
  by (auto simp: range_verdict_def split: sum.splits option.splits)

lemma keeps_create_pool: "create_pool u b s = (r, t) \<Longrightarrow> tenancy_keeps s t"
  unfolding create_pool_def
proof (erule keeps_with_right)
  fix r t
  let ?I = "the_ipam s"
  let ?p = "\<lparr>p_id = tn_next_pool s, p_network_id = pb_network_id b, p_name = pb_name b,
    p_range_start = pb_range_start b, p_range_end = pb_range_end b, p_auto_assign = pb_auto_assign b, p_is_active = pb_is_active b\<rparr>"
  assume run: "(if find_network (pb_network_id b) ?I = None then (Inl network_not_found, s)
     else (case range_verdict (validate_pool_range (pb_network_id b) (pb_range_start b) (pb_range_end b) None ?I) of
         Some e \<Rightarrow> (Inl e, s)
       | None \<Rightarrow> (let p = ?p in (Inr p, put_ipam (?I\<lparr>pools := pools ?I @ [p]\<rparr>) (s\<lparr>tn_next_pool := tn_next_pool s + 1\<rparr>))))) = (r, t)"
  show "tenancy_keeps s t"
  proof (cases "t = s")
    case False
    then have v: "validate_pool_range (pb_network_id b) (pb_range_start b) (pb_range_end b) None ?I = Inr None"
      and t: "t = put_ipam (?I\<lparr>pools := pools ?I @ [?p]\<rparr>) (s\<lparr>tn_next_pool := tn_next_pool s + 1\<rparr>)"
      using run verdict_accepted by (auto simp: Let_def split: if_splits option.splits)
    obtain n net x y where r: "find_network (pb_network_id b) ?I = Some n" "ip_network (n_network n) = Some net"
      "ip_address (pb_range_start b) = Some x" "ip_address (pb_range_end b) = Some y" "net_contains net x" "net_contains net y"
      "ip_int x \<le> ip_int y"
      "\<And>p. p \<in> set (pools ?I) \<Longrightarrow> p_network_id p = pb_network_id b \<Longrightarrow> pool_addresses p \<inter> addr_range x y = {}"
      using accepted_range [OF v] by (metis option.distinct(1))
    have numbers: "pool_addresses ?p = addr_range x y" by (simp add: pool_addresses_def r(3,4))
    show ?thesis
    proof (rule keeps_pools [OF t])
      assume ok: "tenancy_ok s"
      have "find (\<lambda>q. p_id q = tn_next_pool s) (pools ?I) = None"
        using ok by (auto simp: tenancy_ok_def pools_ok_def find_None_iff)
      then have "unique_on p_id (pools ?I @ [?p])" using ok by (simp add: tenancy_ok_def pools_ok_def unique_on_append)
      moreover have "\<forall>p \<in> set (pools ?I @ [?p]). p_id p < tn_next_pool s + 1"
        using ok by (auto simp: tenancy_ok_def pools_ok_def)
      moreover have "pool_in_network (networks ?I) ?p"
        using r unfolding pool_in_network_def find_network_def by auto
      moreover have "pools_apart (pools ?I @ [?p])"
        using ok r(8) unfolding tenancy_ok_def pools_ok_def numbers [symmetric] by (intro pools_apart_append) simp_all
      ultimately show "unique_on p_id (pools ?I @ [?p]) \<and> (\<forall>p \<in> set (pools ?I @ [?p]). p_id p < tn_next_pool s + 1) \<and>
          (\<forall>p \<in> set (pools ?I @ [?p]). pool_in_network (networks ?I) p) \<and> pools_apart (pools ?I @ [?p])"
        using ok by (auto simp: tenancy_ok_def pools_ok_def)
    qed simp
  qed simp
qed


lemma updated_pool_keys [simp]: "p_id (updated_pool d p) = p_id p" "p_network_id (updated_pool d p) = p_network_id p"
  by (simp_all add: updated_pool_def)

lemma pools_apart_replaced:
  assumes apart: "pools_apart ps" and u: "unique_on p_id ps" and id: "p_id p = pid"
    and new: "\<And>q. q \<in> set ps \<Longrightarrow> p_id q \<noteq> pid \<Longrightarrow> p_network_id q = p_network_id p \<Longrightarrow> pool_addresses q \<inter> pool_addresses p = {}"
  shows "pools_apart (update_first (\<lambda>q. p_id q = pid) (\<lambda>_. p) ps)"
  unfolding pools_apart_def update_first_map [OF u]
proof (intro ballI impI)
  fix q r
  let ?ps = "map (\<lambda>x. if p_id x = pid then p else x) ps"
  assume qr: "q \<in> set ?ps" "r \<in> set ?ps" "p_id q \<noteq> p_id r \<and> p_network_id q = p_network_id r"
  have old: "x = p \<or> x \<in> set ps \<and> p_id x \<noteq> pid" if "x \<in> set ?ps" for x using that by auto
  show "pool_addresses q \<inter> pool_addresses r = {}"
  proof (cases "q = p \<or> r = p")
    case True
    then show ?thesis using old [OF qr(1)] old [OF qr(2)] qr(3) new id by (metis Int_commute)
  next
    case False
    then have "q \<in> set ps" "r \<in> set ps" using old [OF qr(1)] old [OF qr(2)] by blast+
    then show ?thesis using apart qr(3) unfolding pools_apart_def by blast
  qed
qed

lemma keeps_update_pool: "update_pool pid u d s = (r, t) \<Longrightarrow> tenancy_keeps s t"
  unfolding update_pool_def
proof (erule keeps_with_right)
  fix r t
  let ?I = "the_ipam s"
  assume run: "(case find_pool pid ?I of
       None \<Rightarrow> (Inl pool_not_found, s)
     | Some p \<Rightarrow>
         (let p' = updated_pool d p;
              verdict = (if pu_range_start d = None \<and> pu_range_end d = None then None
                else range_verdict (validate_pool_range (p_network_id p) (p_range_start p') (p_range_end p') (Some pid) ?I))
          in case verdict of
               Some e \<Rightarrow> (Inl e, s)
             | None \<Rightarrow> if pu_nulls d \<noteq> [] then (Inl internal_error, s)
                 else (Inr p', put_ipam (?I\<lparr>pools := update_first (\<lambda>q. p_id q = pid) (\<lambda>_. p') (pools ?I)\<rparr>) s))) = (r, t)"
  show "tenancy_keeps s t"
  proof (cases "t = s")
    case False
    then obtain p where p: "find_pool pid ?I = Some p"
      and t: "t = put_ipam (?I\<lparr>pools := update_first (\<lambda>q. p_id q = pid) (\<lambda>_. updated_pool d p) (pools ?I)\<rparr>) s"
      and v: "pu_range_start d = None \<and> pu_range_end d = None \<or> validate_pool_range (p_network_id p)
        (p_range_start (updated_pool d p)) (p_range_end (updated_pool d p)) (Some pid) ?I = Inr None"
      using run verdict_accepted by (auto simp: Let_def split: if_splits option.splits)
    have mem: "p \<in> set (pools ?I)" "p_id p = pid" using find_pool_in [OF p] by auto
    let ?p = "updated_pool d p"
    let ?ps = "update_first (\<lambda>q. p_id q = pid) (\<lambda>_. ?p) (pools ?I)"
    have t': "t = put_ipam (?I\<lparr>pools := ?ps\<rparr>) (s\<lparr>tn_next_pool := tn_next_pool s\<rparr>)" by (simp add: t)
    show ?thesis
    proof (rule keeps_pools [OF t'])
      assume "tenancy_ok s"
      then have ok: "unique_on p_id (pools ?I)" "\<forall>q \<in> set (pools ?I). p_id q < tn_next_pool s"
        "\<forall>q \<in> set (pools ?I). pool_in_network (networks ?I) q" "pools_apart (pools ?I)"
        by (simp_all add: tenancy_ok_def pools_ok_def)
      have new: "pool_in_network (networks ?I) ?p \<and> (\<forall>q \<in> set (pools ?I). p_id q \<noteq> pid \<and> p_network_id q = p_network_id p \<longrightarrow>
          pool_addresses q \<inter> pool_addresses ?p = {})"
      proof (cases "pu_range_start d = None \<and> pu_range_end d = None")
        case True
        then have "p_range_start ?p = p_range_start p" "p_range_end ?p = p_range_end p"
          by (simp_all add: updated_pool_def or_default_def)
        then have "pool_in_network (networks ?I) ?p = pool_in_network (networks ?I) p" "pool_addresses ?p = pool_addresses p"
          by (simp_all add: pool_in_network_def pool_addresses_def)
        then show ?thesis using ok mem unfolding pools_apart_def by metis
      next
        case False
        obtain n net x y where r: "find_network (p_network_id p) ?I = Some n" "ip_network (n_network n) = Some net"
          "ip_address (p_range_start ?p) = Some x" "ip_address (p_range_end ?p) = Some y" "net_contains net x" "net_contains net y"
          "ip_int x \<le> ip_int y"
          "\<And>q. q \<in> set (pools ?I) \<Longrightarrow> p_network_id q = p_network_id p \<Longrightarrow> p_id q \<noteq> pid \<Longrightarrow> pool_addresses q \<inter> addr_range x y = {}"
          using v False accepted_range [of "p_network_id p" "p_range_start ?p" "p_range_end ?p" "Some pid" ?I]
          by (metis option.inject)
        have "pool_addresses ?p = addr_range x y" by (simp add: pool_addresses_def r(3,4))
        then show ?thesis using r unfolding pool_in_network_def find_network_def by auto
      qed
      have "map p_id ?ps = map p_id (pools ?I)" by (rule map_update_first) (simp add: mem(2))
      then have "unique_on p_id ?ps" using ok(1) by (simp add: unique_on_def)
      moreover have "\<forall>q \<in> set ?ps. p_id q < tn_next_pool s \<and> pool_in_network (networks ?I) q"
        using ok(2,3) mem new by (auto dest!: in_set_update_first)
      moreover have "pools_apart ?ps"
        by (rule pools_apart_replaced [OF ok(4,1)]) (use mem new in simp_all)
      ultimately show "unique_on p_id ?ps \<and> (\<forall>q \<in> set ?ps. p_id q < tn_next_pool s) \<and>
          (\<forall>q \<in> set ?ps. pool_in_network (networks ?I) q) \<and> pools_apart ?ps" by blast
    qed simp
  qed simp
qed

lemma pools_apart_sub: "set qs \<subseteq> set ps \<Longrightarrow> pools_apart ps \<Longrightarrow> pools_apart qs"
  unfolding pools_apart_def by blast

lemma keeps_delete_pool: "delete_pool pid u s = (r, t) \<Longrightarrow> tenancy_keeps s t"
  unfolding delete_pool_def Let_def
proof (erule keeps_with_right)
  fix r t
  let ?I = "the_ipam s"
  let ?as = "map (\<lambda>a. if a_pool_id a = Some pid then a\<lparr>a_pool_id := None\<rparr> else a) (allocations ?I)"
  let ?ps = "remove_first (\<lambda>p. p_id p = pid) (pools ?I)"
  assume run: "(if find_pool pid ?I = None then (Inl pool_not_found, s)
     else (Inr (), put_ipam (?I\<lparr>pools := ?ps, allocations := ?as\<rparr>) s)) = (r, t)"
  show "tenancy_keeps s t"
  proof (cases "t = s")
    case False
    then have t: "t = put_ipam (?I\<lparr>pools := ?ps, allocations := ?as\<rparr>) s" using run by (auto split: if_splits)
    have "svc_kept ?I (?I\<lparr>allocations := ?as\<rparr>)"
      by (rule svc_kept_keys) (simp_all add: map_keys_same [unfolded comp_def] del: map_map)
    then have "alloc_frame s (put_ipam (?I\<lparr>allocations := ?as\<rparr>) s)" by (rule frame_put_ipam)
    then have k1: "tenancy_keeps s (put_ipam (?I\<lparr>allocations := ?as\<rparr>) s)" by (rule keeps_frame)
    let ?s = "put_ipam (?I\<lparr>allocations := ?as\<rparr>) s"
    have "t = put_ipam (the_ipam ?s\<lparr>pools := ?ps\<rparr>) (?s\<lparr>tn_next_pool := tn_next_pool ?s\<rparr>)"
      unfolding t by (simp only: put_ipam_frame) (simp add: put_ipam_def)
    then have k2: "tenancy_keeps ?s t"
    proof (rule keeps_pools)
      assume ok: "tenancy_ok ?s"
      have "pools_apart ?ps"
        by (rule pools_apart_sub [OF set_remove_first]) (use ok in \<open>simp add: tenancy_ok_def pools_ok_def\<close>)
      moreover have "set ?ps \<subseteq> set (pools ?I)" by (rule set_remove_first)
      ultimately show "unique_on p_id ?ps \<and> (\<forall>p \<in> set ?ps. p_id p < tn_next_pool ?s) \<and>
          (\<forall>p \<in> set ?ps. pool_in_network (networks (the_ipam ?s)) p) \<and> pools_apart ?ps"
        using ok unique_on_remove_first [of p_id "pools ?I"]
        by (auto simp: tenancy_ok_def pools_ok_def dest: subsetD)
    qed simp
    show ?thesis using k1 k2 by (auto simp: tenancy_keeps_def intro: tenancy_below_trans)
  qed simp
qed


section \<open>Every endpoint\<close>

text \<open>The endpoints that change the tables of workspaces, of the servers and quotas of users, and of addresses.\<close>

inductive tenancy_step :: "'w tenancy \<Rightarrow> 'w tenancy \<Rightarrow> bool" where
  ts_create_workspace: "create_workspace now u d s = (r, t) \<Longrightarrow> tenancy_step s t"
| ts_update_workspace: "update_workspace wid u d' s = (r, t) \<Longrightarrow> tenancy_step s t"
| ts_delete_workspace: "delete_workspace wid u s = (r', t) \<Longrightarrow> tenancy_step s t"
| ts_assign_servers: "assign_servers wid u ids s = (r, t) \<Longrightarrow> tenancy_step s t"
| ts_assign_users: "assign_users wid u ids s = (r, t) \<Longrightarrow> tenancy_step s t"
| ts_remove_server: "remove_server wid sid u s = (r, t) \<Longrightarrow> tenancy_step s t"
| ts_remove_user: "remove_user wid uid u s = (r, t) \<Longrightarrow> tenancy_step s t"
| ts_user_servers: "set_user_servers now uid u ip ids s = (ra, t) \<Longrightarrow> tenancy_step s t"
| ts_user_quota: "set_user_quota now uid u ip l s = (rq, t) \<Longrightarrow> tenancy_step s t"
| ts_create_network: "create_network u nb s = (rn, t) \<Longrightarrow> tenancy_step s t"
| ts_update_network: "update_network nid u fs s = (r', t) \<Longrightarrow> tenancy_step s t"
| ts_delete_network: "delete_network nid force u s = (r', t) \<Longrightarrow> tenancy_step s t"
| ts_create_pool: "create_pool u pb s = (rp, t) \<Longrightarrow> tenancy_step s t"
| ts_update_pool: "update_pool pid u pu s = (rp, t) \<Longrightarrow> tenancy_step s t"
| ts_delete_pool: "delete_pool pid u s = (r', t) \<Longrightarrow> tenancy_step s t"
| ts_create_allocation: "create_allocation u ab s = (rl, t) \<Longrightarrow> tenancy_step s t"
| ts_auto_allocate: "api_auto_allocate u nid opid q s = (rl, t) \<Longrightarrow> tenancy_step s t"
| ts_update_allocation: "api_update_allocation aid u afs s = (rl, t) \<Longrightarrow> tenancy_step s t"
| ts_delete_allocation: "delete_allocation aid reason u s = (r', t) \<Longrightarrow> tenancy_step s t"
| ts_cleanup: "cleanup_orphans u s = (rc, t) \<Longrightarrow> tenancy_step s t"
| ts_link: "link_allocations E u osid onid s = (rk, t) \<Longrightarrow> tenancy_step s t"
| ts_add_address: "add_guest_address E S alias_script sid vmid u gb s = Some (rg, t) \<Longrightarrow> tenancy_step s t"
| ts_apply_address: "apply_guest_address E S alias_script sid vmid aid u s = Some (rg, t) \<Longrightarrow> tenancy_step s t"
| ts_primary_address: "set_guest_primary_address sid vmid aid u s = (rl, t) \<Longrightarrow> tenancy_step s t"
| ts_remove_address: "remove_guest_address E S alias_script sid vmid aid u s = Some (rx, t) \<Longrightarrow> tenancy_step s t"

lemma tenancy_step_keeps: "tenancy_step s t \<Longrightarrow> tenancy_keeps s t"
  by (induction rule: tenancy_step.induct)
     (blast intro: keeps_create_workspace keeps_update_workspace keeps_delete_workspace keeps_assign_servers
       keeps_assign_users keeps_remove_server keeps_remove_user keeps_set_user_servers keeps_set_user_quota
       keeps_create_network keeps_update_network keeps_delete_network keeps_create_pool keeps_update_pool
       keeps_delete_pool keeps_frame alloc_frames)+

interpretation tenancy: monotone_machine tenancy_step tenancy_ok tenancy_below
  by unfold_locales (auto simp: tenancy_keeps_def intro: tenancy_below_trans dest: tenancy_step_keeps)

text \<open>C9. Along every run of the endpoints of workspaces and addresses, refused requests and failed Proxmox calls
  included: the rows of the junction tables name workspaces that exist, a workspace has at most one default network, the
  pools of a network lie in it and have no address in common, every allocation is in a network that exists and no
  address is given twice; the default workspace is never lost, and no id is used again.\<close>

theorem tenancy_runs_sound:
  assumes "tenancy_step\<^sup>*\<^sup>* s t" and "tenancy_ok s"
  shows "tenancy_ok t \<and> tenancy_below s t"
  using tenancy.steps_inv [OF assms] tenancy.steps_below [OF assms] by blast


theorem tenancy_runs_sound_witness:
  "tenancy_ok (snd (delete_workspace 2 (sample_user 1 True None) (snd (create_pool (sample_user 1 True None)
     \<lparr>pb_network_id = 1, pb_name = ''p'', pb_range_start = ''10.0.0.5'', pb_range_end = ''10.0.0.6'', pb_auto_assign = True,
       pb_is_active = True\<rparr> demo_tenancy))))"
proof -
  let ?u = "sample_user 1 True None"
  let ?b = "\<lparr>pb_network_id = 1, pb_name = ''p'', pb_range_start = ''10.0.0.5'', pb_range_end = ''10.0.0.6'', pb_auto_assign = True,
       pb_is_active = True\<rparr>"
  obtain r t where t: "create_pool ?u ?b demo_tenancy = (r, t)" by fastforce
  obtain r' v where v: "delete_workspace 2 ?u t = (r', v)" by fastforce
  have "tenancy_step\<^sup>*\<^sup>* demo_tenancy v"
    using ts_create_pool [OF t] ts_delete_workspace [OF v] by (meson rtranclp.rtrancl_into_rtrancl rtranclp.rtrancl_refl)
  moreover have "tenancy_ok demo_tenancy"
  proof -
    have i: "the_ipam demo_tenancy = sample_ipam" by (simp add: demo_tenancy_def the_ipam_def)
    have "workspaces_ok demo_tenancy"
      by (simp add: workspaces_ok_def demo_tenancy_def unique_on_def links_ok_def)
    moreover have "networks_ok demo_tenancy"
      unfolding networks_ok_def i by (simp add: demo_tenancy_def sample_ipam_def unique_on_def single_default_def)
    moreover have "pools_ok demo_tenancy"
      unfolding pools_ok_def i
      by (simp add: demo_tenancy_def sample_ipam_def unique_on_def pools_apart_def pool_in_network_def sample_network
          sample_addresses net_contains_def net_size_def max_prefixlen_def)
    moreover have "addresses_ok (the_ipam demo_tenancy)"
      unfolding i addresses_ok_def using sample_inv by (simp add: sample_ipam_def sample_row_def)
    ultimately show ?thesis by (simp add: tenancy_ok_def)
  qed
  ultimately have "tenancy_ok v" using tenancy_runs_sound [of demo_tenancy v] by blast
  then show ?thesis using t v by simp
qed

end
