(* ===== verification/AddressProps.thy ===== *)
theory AddressProps
  imports NetworkRuns
begin

text \<open>
  The cleaning up of orphans and the columns an attempt to bring addresses into a guest leaves.
\<close>

section \<open>Orphans\<close>

lemma release_orphans_all:
  assumes "unique_on a_ip_address (allocations i)" "distinct (map or_ip_address xs)"
    and "or_ip_address ` set xs \<subseteq> a_ip_address ` set (allocations i)"
  shows "\<exists>j. release_orphans by_user xs rel errs i = ((rel @ map or_ip_address xs, errs), j) \<and>
    allocations j = filter (\<lambda>a. a_ip_address a \<notin> or_ip_address ` set xs) (allocations i)"
  using assms
proof (induction xs arbitrary: rel i)
  case (Cons x xs)
  let ?ip = "or_ip_address x"
  obtain a where a: "find_allocation ?ip i = Some a"
    using Cons.prems(3) find_allocation_None_iff [of ?ip i] by (cases "find_allocation ?ip i") auto
  obtain i1 where r: "release_ip ?ip (Some by_user) (Some (''Orphan cleanup: '' @ or_reason x)) i = (Inr (), i1)"
      and i1: "allocations i1 = remove_first (\<lambda>b. a_ip_address b = ?ip) (allocations i)"
    by (auto simp: release_ip_def a Let_def)
  have i1': "allocations i1 = filter (\<lambda>b. a_ip_address b \<noteq> ?ip) (allocations i)"
    unfolding i1 by (rule unique_remove_first_filter [OF Cons.prems(1)])
  have "or_ip_address ` set xs \<subseteq> a_ip_address ` set (allocations i1)"
  proof
    fix y assume y: "y \<in> or_ip_address ` set xs"
    moreover have "?ip \<notin> or_ip_address ` set xs" using Cons.prems(2) by simp
    ultimately have "y \<noteq> ?ip" by blast
    moreover have "y \<in> a_ip_address ` set (allocations i)" using y Cons.prems(3) by auto
    ultimately show "y \<in> a_ip_address ` set (allocations i1)" unfolding i1' by auto
  qed
  moreover have "unique_on a_ip_address (allocations i1)" unfolding i1' by (rule unique_on_filter [OF Cons.prems(1)])
  ultimately obtain j where j: "release_orphans by_user xs (rel @ [?ip]) errs i1 = ((rel @ [?ip] @ map or_ip_address xs, errs), j)"
      "allocations j = filter (\<lambda>a. a_ip_address a \<notin> or_ip_address ` set xs) (allocations i1)"
    using Cons.IH [of i1 "rel @ [?ip]"] Cons.prems(2) by auto
  then have "allocations j = filter (\<lambda>a. a_ip_address a \<notin> or_ip_address ` set (x # xs)) (allocations i)"
    by (simp add: i1' filter_filter)
  with j(1) show ?case
    unfolding release_orphans.simps r prod.case sum.case by (intro exI [of _ j]) simp
qed (simp add: filter_True)

lemma orphan_ips:
  "map or_ip_address (orphans s) = map a_ip_address (filter (\<lambda>a. guest_gone a s) (allocations (the_ipam s))) @
     map a_ip_address (filter (\<lambda>a. server_gone a s \<and> a_id a \<notin> set (map a_id (filter (\<lambda>a. guest_gone a s)
       (allocations (the_ipam s))))) (allocations (the_ipam s)))"
  by (simp add: orphans_def Let_def orphan_row_def comp_def)

text \<open>An allocation whose guest or server is gone.\<close>

definition is_orphan :: "'w tenancy \<Rightarrow> ipam_allocation \<Rightarrow> bool" where
  "is_orphan s a = (guest_gone a s \<or> server_gone a s)"

lemma orphan_rows:
  assumes "ipam_inv (the_ipam s)"
  shows "distinct (map or_ip_address (orphans s)) \<and>
    or_ip_address ` set (orphans s) = a_ip_address ` {a \<in> set (allocations (the_ipam s)). is_orphan s a}"
proof -
  let ?as = "allocations (the_ipam s)"
  let ?A = "filter (\<lambda>a. guest_gone a s) ?as"
  let ?B = "filter (\<lambda>a. server_gone a s \<and> a_id a \<notin> set (map a_id ?A)) ?as"
  have u: "unique_on a_ip_address ?as" "unique_on a_id ?as" using assms by (simp_all add: ipam_inv_def)
  have "set (map a_ip_address ?A) \<inter> set (map a_ip_address ?B) = {}"
  proof (rule ccontr)
    assume "set (map a_ip_address ?A) \<inter> set (map a_ip_address ?B) \<noteq> {}"
    then obtain a b where ab: "a \<in> set ?A" "b \<in> set ?B" "a_ip_address a = a_ip_address b" by auto
    then have "a = b" using unique_on_eq [OF u(1), of a b] by simp
    then have "a_id b \<in> set (map a_id ?A)" using ab(1) by simp
    then show False using ab(2) by simp
  qed
  then have "distinct (map or_ip_address (orphans s))"
    unfolding orphan_ips using u(1) by (simp add: unique_on_def distinct_map_filter)
  moreover have "set ?A \<union> set ?B = {a \<in> set ?as. is_orphan s a}"
  proof -
    have "guest_gone a s" if "a \<in> set ?as" "a_id a \<in> set (map a_id ?A)" for a
      using that unique_on_eq [OF u(2), of a] by auto
    then show ?thesis by (auto simp: is_orphan_def)
  qed
  then have "or_ip_address ` set (orphans s) = a_ip_address ` {a \<in> set ?as. is_orphan s a}"
    using arg_cong [OF orphan_ips, of set s] by (simp add: image_Un [symmetric] del: set_filter)
  ultimately show ?thesis by blast
qed


text \<open>C19. Cleaning up orphans frees the addresses of guests and servers that are gone and no other: each is reported as
  released, none as an error, every other allocation stays, and no orphan is left.\<close>

theorem cleanup_orphans_exact:
  assumes "cleanup_orphans u s = (r, t)" and "has_perm u ''ipam:manage''" and "ipam_inv (the_ipam s)"
  shows "r = Inr (map or_ip_address (orphans s), []) \<and>
    allocations (the_ipam t) = filter (\<lambda>a. \<not> guest_gone a s \<and> \<not> server_gone a s) (allocations (the_ipam s)) \<and>
    orphans t = []"
proof -
  let ?as = "allocations (the_ipam s)"
  have u: "unique_on a_ip_address ?as" using assms(3) by (simp add: ipam_inv_def)
  note rows = orphan_rows [OF assms(3)]
  obtain j where j: "release_orphans (username u) (orphans s) [] [] (the_ipam s) = ((map or_ip_address (orphans s), []), j)"
      "allocations j = filter (\<lambda>a. a_ip_address a \<notin> or_ip_address ` set (orphans s)) ?as"
    using release_orphans_all [OF u, of "orphans s" "username u" "[]" "[]"] rows by auto
  have t: "r = Inr (map or_ip_address (orphans s), [])" "t = put_ipam j s"
    using assms(1,2) j(1) by (simp_all add: cleanup_orphans_def with_right_def PermissionChecker_def)
  have kept: "allocations j = filter (\<lambda>a. \<not> guest_gone a s \<and> \<not> server_gone a s) ?as"
    unfolding j(2)
  proof (rule filter_cong [OF refl])
    fix a assume a: "a \<in> set ?as"
    have "a_ip_address a \<in> a_ip_address ` {b \<in> set ?as. is_orphan s b} \<longleftrightarrow> is_orphan s a"
      using a unique_on_eq [OF u a] by auto
    then show "(a_ip_address a \<notin> or_ip_address ` set (orphans s)) = (\<not> guest_gone a s \<and> \<not> server_gone a s)"
      using rows by (simp add: is_orphan_def)
  qed
  have same: "guest_gone a (put_ipam j s) = guest_gone a s" "server_gone a (put_ipam j s) = server_gone a s" for a
    by (simp_all add: put_ipam_def guest_gone_def server_gone_def get_vm_instance_def panel_server_def find_server_def
        split: option.splits)
  have "orphans t = []"
    by (auto simp: orphans_def Let_def same t(2) kept filter_empty_conv)
  then show ?thesis using t kept by simp
qed

definition lost_server :: "int tenancy" where
  "lost_server = demo_tenancy\<lparr>tn_panel := (tn_panel demo_tenancy)\<lparr>pn_servers := [], pn_guests := []\<rparr>\<rparr>"

theorem cleanup_orphans_exact_witness:
  "fst (cleanup_orphans (sample_user 1 True None) lost_server) = Inr ([''10.0.0.2'', ''10.0.0.3''], []) \<and>
   allocations (the_ipam (snd (cleanup_orphans (sample_user 1 True None) lost_server))) = []"
proof -
  obtain r t where t: "cleanup_orphans (sample_user 1 True None) lost_server = (r, t)" by fastforce
  have i: "the_ipam lost_server = sample_ipam" by (simp add: lost_server_def demo_tenancy_def the_ipam_def)
  have rows: "allocations sample_ipam = [sample_row 1 ''10.0.0.2'' 100 True, sample_row 2 ''10.0.0.3'' 100 False]"
    by (simp add: sample_ipam_def)
  have gone: "guest_gone (sample_row i ip v b) lost_server" for i ip v b
    by (simp add: guest_gone_def lost_server_def get_vm_instance_def)
  have "map or_ip_address (orphans lost_server) = [''10.0.0.2'', ''10.0.0.3'']"
    unfolding orphan_ips i rows by (simp add: gone)
  moreover have "has_perm (sample_user 1 True None) ''ipam:manage''" by code_simp
  note cleanup_orphans_exact [OF t this]
  ultimately show ?thesis by (simp add: t i sample_inv rows gone)
qed


section \<open>The state of an address in its guest\<close>

lemma outcome_status: "ap_success (outcome_of r) \<longleftrightarrow> ap_status (outcome_of r) \<in> {APPLIED, RUNTIME_ONLY}"
  by (simp add: outcome_of_def Let_def APPLIED_def RUNTIME_ONLY_def PENDING_def FAILED_def)

lemma outcome_said_ok: "ap_success (outcome_of r) \<Longrightarrow> rr_success r \<and> says_ok (rr_output r)"
  by (simp add: outcome_of_def Let_def split: if_splits)

lemma failed_status [simp]: "\<not> ap_success (apply_failed st e)" "ap_status (apply_failed st e) = st"
  by (simp_all add: apply_failed_def)

lemma finish_rows:
  "allocations (the_ipam (finish_apply now rows r s)) =
     map (\<lambda>a. if a_id a \<in> set (map a_id rows) then a\<lparr>a_apply_status := Some (ap_status r)\<rparr> else a) (allocations (the_ipam s))"
  by (simp add: finish_apply_def Let_def the_ipam_def)

lemma in_alias_rows:
  assumes "unique_on a_id (allocations i)" and "a \<in> set (allocations i)"
  shows "a_id a \<in> set (map a_id (alias_allocations sid vmid ifname i)) \<longleftrightarrow> is_alias_on sid vmid ifname a"
proof -
  have "b = a" if "b \<in> set (allocations i)" "a_id b = a_id a" for b
    using unique_on_eq [OF assms(1) that(1) assms(2) that(2)] .
  then show ?thesis using assms(2) by (auto simp: alias_allocations_def rev_image_eqI)
qed

lemma finish_px: "pn_px (tn_panel (finish_apply now rows r s)) = pn_px (tn_panel s)"
  by (simp add: finish_apply_def Let_def)

lemma marked_rows:
  assumes "ipam_inv (the_ipam s)" and "t = finish_apply now (alias_allocations sid vmid ifname (the_ipam s)) r s'"
    and "the_ipam s' = the_ipam s"
  shows "allocations (the_ipam t) = map (\<lambda>x. if is_alias_on sid vmid ifname x
      then x\<lparr>a_apply_status := Some (ap_status r)\<rparr> else x) (allocations (the_ipam s))"
proof -
  have u: "unique_on a_id (allocations (the_ipam s))" using assms(1) by (simp add: ipam_inv_def)
  show ?thesis
    unfolding assms(2) finish_rows assms(3) by (rule map_cong [OF refl]) (simp only: in_alias_rows [OF u])
qed

lemma outcome_values:
  "ap_success (outcome_of r) \<longleftrightarrow> rr_success r \<and> says_ok (rr_output r)"
  "ap_status (outcome_of r) = (if rr_success r \<and> says_ok (rr_output r)
     then if persist_of (rr_output r) = ''none'' then RUNTIME_ONLY else APPLIED
     else if rr_exit_code r = - 1 then PENDING else FAILED)"
  by (simp_all add: outcome_of_def Let_def)

text \<open>C20. When the panel brings the addresses of an interface into a guest, the column with the state of every
  alias on that interface of that guest is the answer's, no other row and no other column of the table changes. The
  answer is a success exactly when the run of the script, on the guest's node and with every alias of the interface and
  its prefix length, ended without an error and said so; it then tells whether the address survives a restart. Without a
  server, a node or a kind of guest nothing is run and the address is pending, without a prefix nothing is run and it
  has failed. A name that is no interface name changes nothing: no script is run.\<close>

theorem sync_interface_marks_rows:
  assumes "sync_interface E S alias_script sid vmid ifname a s = Some (r, t)" and "ipam_inv (the_ipam s)"
    and "guest_target sid vmid a (tn_panel s) = (sv, node, vm_type)"
  shows "if \<not> iface_ok ifname then t = s \<and> \<not> ap_success r \<and> ap_status r = FAILED
    else allocations (the_ipam t) = map (\<lambda>x. if is_alias_on sid vmid ifname x
           then x\<lparr>a_apply_status := Some (ap_status r)\<rparr> else x) (allocations (the_ipam s)) \<and>
      (if sv = None \<or> \<not> truthy_str node \<or> \<not> truthy_str vm_type
       then \<not> ap_success r \<and> ap_status r = PENDING \<and> pn_px (tn_panel t) = pn_px (tn_panel s)
       else (case cidr_texts (the_ipam s) (alias_allocations sid vmid ifname (the_ipam s)) of
           Inl ip \<Rightarrow> \<not> ap_success r \<and> ap_status r = FAILED \<and> pn_px (tn_panel t) = pn_px (tn_panel s)
         | Inr addresses \<Rightarrow>
             \<exists>run. run_script E S (server.truncate (the sv))
                 \<lparr>st_target_type = ''guest'', st_node = node, st_vmid = Some vmid, st_vm_type = vm_type\<rparr>
                 (render_params alias_script [(''IFACE'', Some ifname), (''ADDRESSES'', Some (join_with '' '' addresses))])
                 ''/bin/sh'' 60 (pn_px (tn_panel s)) = Some (run, pn_px (tn_panel t)) \<and>
               (ap_success r \<longleftrightarrow> rr_success run \<and> says_ok (rr_output run)) \<and>
               ap_status r = (if ap_success r then if persist_of (rr_output run) = ''none'' then RUNTIME_ONLY else APPLIED
                 else if rr_exit_code run = - 1 then PENDING else FAILED)))"
proof (cases "iface_ok ifname")
  case True
  have rows: "the_ipam s = pn_ipam (tn_panel s)" for s :: "'a tenancy" by (simp add: the_ipam_def)
  let ?rows = "alias_allocations sid vmid ifname (the_ipam s)"
  note marked = marked_rows [OF assms(2), of t _ sid vmid ifname r]
  note run = assms(1) [unfolded sync_interface_def rows [symmetric]]
  show ?thesis
  proof (cases "sv = None \<or> \<not> truthy_str node \<or> \<not> truthy_str vm_type")
    case out: True
    then obtain now e where "t = finish_apply now ?rows r s" "r = apply_failed PENDING e"
      using run True assms(3) by (auto simp: Let_def rows split: option.splits if_splits)
    then show ?thesis using True out marked [of now s] by (simp add: finish_px)
  next
    case False
    then obtain sv1 where sv: "sv = Some sv1" by auto
    show ?thesis
    proof (cases "cidr_texts (the_ipam s) ?rows")
      case (Inl ip)
      then obtain now e where "t = finish_apply now ?rows r s" "r = apply_failed FAILED e"
        using run True assms(3) False sv by (auto simp: Let_def rows split: if_splits)
      then show ?thesis using True False Inl sv marked [of now s] by (simp add: finish_px)
    next
      case (Inr addresses)
      obtain res px now where "run_script E S (server.truncate sv1)
           \<lparr>st_target_type = ''guest'', st_node = node, st_vmid = Some vmid, st_vm_type = vm_type\<rparr>
           (render_params alias_script [(''IFACE'', Some ifname), (''ADDRESSES'', Some (join_with '' '' addresses))])
           ''/bin/sh'' 60 (pn_px (tn_panel s)) = Some (res, px)" "r = outcome_of res"
        and t: "t = finish_apply now ?rows r (s\<lparr>tn_panel := (tn_panel s)\<lparr>pn_px := px\<rparr>\<rparr>)"
        using run True assms(3) False sv Inr by (auto simp: Let_def rows split: if_splits option.splits prod.splits)
      moreover have "pn_px (tn_panel t) = px" unfolding t finish_px by simp
      ultimately show ?thesis
        using True False Inr sv marked [OF t] by (simp add: outcome_values rows)
    qed
  qed
next
  case False
  then obtain e where "r = apply_failed FAILED e" "t = s" using assms(1) by (auto simp: sync_interface_def)
  then show ?thesis using False by simp
qed


definition alias_row :: ipam_allocation where
  "alias_row = (sample_row 1 ''10.0.0.2'' 100 False)\<lparr>a_assignment_kind := ''alias'', a_target_interface := Some ''eth0''\<rparr>"

text \<open>A container whose script says that the address is there, until the next restart.\<close>

definition script_says :: string where
  "script_says = ''PVEMANAGER_OK=1'' @ [CHR 0x0A] @ ''PVEMANAGER_PERSIST=none''"

definition echo_ssh :: "int ssh_api" where
  "echo_ssh = \<lparr>ssh_connect = \<lambda>_ _ w. (True, w), ssh_execute = \<lambda>_ _ _ _ w. ((Some script_says, 0), w), py_hash = \<lambda>_. 0\<rparr>"

definition lxc_alias :: "int tenancy" where
  "lxc_alias = put_ipam (sample_ipam\<lparr>allocations := [alias_row, sample_row 2 ''10.0.0.3'' 100 False]\<rparr>)
     (demo_tenancy\<lparr>tn_panel := demo_panel\<lparr>pn_guests := [(demo_guest 1 100 7)\<lparr>gc_vm_type := ''lxc''\<rparr>]\<rparr>\<rparr>)"

lemma echo_runs:
  "fst (run_on_lxc E echo_ssh sv c vmid script interpreter timeout s) =
     \<lparr>rr_success = True, rr_output = script_says, rr_exit_code = 0, rr_error = None\<rparr>"
  by (simp add: run_on_lxc_def ssh_open_def echo_ssh_def ssh_run_def ssh_exec_def finished_run_def Let_def or_default_def
      case_prod_beta)

lemma lxc_alias_facts:
  "guest_target 1 100 None (tn_panel lxc_alias) = (Some demo_server, Some ''pve'', Some ''lxc'')"
  "the_ipam lxc_alias = sample_ipam\<lparr>allocations := [alias_row, sample_row 2 ''10.0.0.3'' 100 False]\<rparr>"
  "is_alias_on 1 100 ''eth0'' alias_row" "\<not> is_alias_on 1 100 ''eth0'' (sample_row 2 ''10.0.0.3'' 100 False)"
  "ipam_inv (the_ipam lxc_alias)"
proof -
  have "active_at 1 100 ((demo_guest 1 100 7)\<lparr>gc_vm_type := ''lxc''\<rparr>)"
    by (simp add: demo_guest_def active_at_def synced_guest_def)
  moreover have "gc_node (demo_guest 1 100 7) = ''pve''" by (simp add: demo_guest_def synced_guest_def)
  moreover have "find_server 1 (tn_panel lxc_alias) = Some demo_server"
    by (simp add: find_server_def lxc_alias_def put_ipam_def demo_panel_def demo_server_def)
  ultimately show "guest_target 1 100 None (tn_panel lxc_alias) = (Some demo_server, Some ''pve'', Some ''lxc'')"
    by (simp add: guest_target_def Let_def get_vm_instance_def) (simp add: lxc_alias_def put_ipam_def truthy_str_def)
  show "the_ipam lxc_alias = sample_ipam\<lparr>allocations := [alias_row, sample_row 2 ''10.0.0.3'' 100 False]\<rparr>"
    by (simp add: lxc_alias_def)
  then show "ipam_inv (the_ipam lxc_alias)"
    by (simp add: ipam_inv_def alias_row_def unique_on_def sample_ipam_def)
qed (simp_all add: is_alias_on_def alias_row_def sample_row_def is_held_def)

theorem sync_interface_marks_rows_witness:
  "\<exists>r t. sync_interface demo_api echo_ssh [] 1 100 ''eth0'' None lxc_alias = Some (r, t) \<and> ap_success r \<and>
     allocations (the_ipam t) = [alias_row\<lparr>a_apply_status := Some RUNTIME_ONLY\<rparr>, sample_row 2 ''10.0.0.3'' 100 False]"
proof -
  let ?i = "sample_ipam\<lparr>allocations := [alias_row, sample_row 2 ''10.0.0.3'' 100 False]\<rparr>"
  have ok: "iface_ok ''eth0''" "says_ok script_says" "persist_of script_says = ''none''" by code_simp+
  have rows: "alias_allocations 1 100 ''eth0'' ?i = [alias_row]"
    by (simp add: alias_allocations_def lxc_alias_facts(3,4))
  have "prefix_for alias_row ?i = Some 29"
    by (simp add: prefix_for_def find_network_def alias_row_def sample_row_def sample_ipam_def sample_network)
  moreover have "dec_string 29 = ''29''" by code_simp
  moreover have "a_ip_address alias_row = ''10.0.0.2''" by (simp add: alias_row_def sample_row_def)
  ultimately have texts: "cidr_texts ?i [alias_row] = Inr [''10.0.0.2/29'']" by simp
  obtain px where run: "run_script demo_api echo_ssh (server.truncate demo_server)
      \<lparr>st_target_type = ''guest'', st_node = Some ''pve'', st_vmid = Some 100, st_vm_type = Some ''lxc''\<rparr>
      (render_params [] [(''IFACE'', Some ''eth0''), (''ADDRESSES'', Some ''10.0.0.2/29'')]) ''/bin/sh'' 60
      (pn_px (tn_panel lxc_alias)) =
      Some (\<lparr>rr_success = True, rr_output = script_says, rr_exit_code = 0, rr_error = None\<rparr>, px)"
    by (simp add: run_script_def truthy_str_def case_prod_beta) (metis echo_runs prod.collapse)
  have ipam: "pn_ipam (tn_panel lxc_alias) = ?i" using lxc_alias_facts(2) by (simp add: the_ipam_def)
  obtain r t where t: "sync_interface demo_api echo_ssh [] 1 100 ''eth0'' None lxc_alias = Some (r, t)"
    by (auto simp: sync_interface_def run ok lxc_alias_facts(1) ipam rows texts truthy_str_def Let_def
        simp del: cidr_texts.simps split: option.split)
  from sync_interface_marks_rows [OF t lxc_alias_facts(5,1)] t show ?thesis
    by (auto simp: run ok lxc_alias_facts rows texts truthy_str_def simp del: cidr_texts.simps)
qed

end
