(* ===== verification/Spec2Isabelle.thy ===== *)
theory Spec2Isabelle
  imports RbacEngine RbacMigration Security IpamProps ApiFindings BulkProps ProxmoxProps GuestWitnesses ScriptProps AddressProps
begin

text \<open>
  PVEmanager is a web panel for clusters of Proxmox VE servers: a FastAPI backend over a relational
  database, which authenticates the users of the panel, decides what each of them may do, keeps its own
  records (accounts, sessions, servers, guests, addresses, queued tasks) and forwards the rest to the REST
  API of the servers. This development models the backend, \<^verbatim>\<open>src/backend/app\<close>, as HOL functions over
  explicit states and proves what makes it correct.

  \<^bold>\<open>How the program is modelled.\<close>
  \<^item> A table is a list of records in the order of insertion, a Python dictionary an association list in the
    order of insertion (theory Pve\_Prelude). A query that takes \<open>first()\<close> is \<open>find\<close>, a query without
    \<open>ORDER BY\<close> returns table order. Where an order by time
    decides what is shown, on the pages of the log, the order of the rows of one time is left open: it is an argument.
  \<^item> An operation takes the state and returns its answer and the new state; a raised exception is \<open>Inl\<close> of
    an error. What an endpoint has changed in memory and not committed when it raises is lost, and what it
    has committed before it raises stays.
  \<^item> Time is an integer of microseconds; every request takes the instant \<open>now\<close>. Random values (tokens,
    salts, codes) are arguments.
  \<^item> Operations that several users or a background worker interleave are steps of a relation
    (\<open>session_step\<close>, \<open>ipam_step\<close>, \<open>api_step\<close>, \<open>cache_step\<close>, \<open>bulk_step\<close>, \<open>tenant_step\<close>,
    \<open>tenants_step\<close>, \<open>tenancy_step\<close>); their invariants are proved by rule induction, most of them through
    the locales \<open>guarded_machine\<close> and \<open>monotone_machine\<close>. The walk through the
    branches of an endpoint on guests is the bundle of rules \<open>gives_rules\<close> of theory PanelProps.

  \<^bold>\<open>The theories, and the code each one models.\<close>
  \<^item> Pve\_Prelude: dictionaries, truthiness, HTTP errors; the locales \<open>key_store\<close> (what a dictionary
    promises), \<open>guarded_machine\<close> and \<open>monotone_machine\<close>.
  \<^item> Permissions, RbacEngine, RbacMigration: \<^verbatim>\<open>rbac/permissions.py\<close>, \<^verbatim>\<open>engine.py\<close>, \<^verbatim>\<open>decorators.py\<close>,
    \<^verbatim>\<open>migration.py\<close>. The registry with its legacy names, the decision \<open>has_permission\<close>, validation of the
    roles a user writes, the conversion of stored roles. The locale \<open>delegation\<close> states what assignment of
    roles relies on: no chain of validated assignments adds a permission.
  \<^item> Security: \<^verbatim>\<open>services/security_service.py\<close>. Settings with their cache, blocked addresses, attempts,
    sessions with sliding expiry, locks, roles, the password policy.
  \<^item> PyIp, Ipam, IpamProps: the part of Python's \<open>ipaddress\<close> in use, \<^verbatim>\<open>ipam_service.py\<close> and
    \<^verbatim>\<open>models/ipam.py\<close>, and their properties: an address is handed out once, the search for a free one is
    sound and complete, pools do not overlap, one primary address per guest, release frees exactly the
    addresses of the guest.
  \<^item> Accounts, Auth, AuthDb, Login, Passwords, UserApi: \<^verbatim>\<open>models/auth.py\<close>, \<^verbatim>\<open>auth.py\<close>, \<^verbatim>\<open>rbac/middleware.py\<close>,
    \<^verbatim>\<open>api/auth.py\<close>, \<^verbatim>\<open>api/users.py\<close>, \<^verbatim>\<open>services/two_factor_service.py\<close>. Tokens, guards, login with its
    second factor, impersonation, password reset, administration of accounts and roles.
  \<^item> AuthProps, LoginProps, ApiRuns, ApiProps, ApiWitnesses, ApiFindings: who is let in, what a login
    promises, and what every run of the endpoints together keeps: unique keys, ended sessions stay ended, a
    reset link works once. \<open>api_request\<close> has one constructor for every endpoint that changes state, \<open>handle\<close>
    is the router; each endpoint is shown to be a sequence of primitive effects (locale
    \<open>simulated_machine\<close>), so that an invariant is proved of the effects only.
  \<^item> Proxmox, Guests, ProxmoxProps: \<^verbatim>\<open>proxmox/client.py\<close> and the mixins \<^verbatim>\<open>vm.py\<close>, \<^verbatim>\<open>lxc.py\<close>,
    \<^verbatim>\<open>snapshot.py\<close>. Connections and their cache, errors, polling of tasks, power, snapshots, deletion,
    migration, clones. Polling ends, reports success only on a successful answer, and a restart starts only
    a guest that was seen stopped.
  \<^item> TaskQueue, QueueProps, BulkProps: \<^verbatim>\<open>services/task_queue_service.py\<close>, \<^verbatim>\<open>models/tasks.py\<close> and the endpoints
    on bulk operations. \<open>process_pending_tasks\<close> is the code, \<open>bulk_step\<close> the interleaving of its commits with
    the requests of users. Processing a task is performing its items in order (\<open>perform_all\<close>) and
    reporting their results, and changes no other task.
  \<^item> NetParser, GuestNet: \<^verbatim>\<open>proxmox/net_parser.py\<close> and the strings of network cards the panel builds in
    \<^verbatim>\<open>proxmox/lxc.py\<close>; the addresses a guest reports, clusters, and the collection of the guests of all
    servers (\<^verbatim>\<open>proxmox/client.py\<close>, \<^verbatim>\<open>workers/monitoring_worker.py\<close>).
  \<^item> Logging: \<^verbatim>\<open>logging_service.py\<close>, \<^verbatim>\<open>logging_middleware.py\<close>, \<^verbatim>\<open>api/logs.py\<close>. Masking of secrets,
    truncation, the rows each helper writes, the viewer with its permission, dates, filters and pages, the clean-up, and which requests the
    middleware records.
  \<^item> Panel, GuestApi, GuestOps: \<^verbatim>\<open>models/proxmox.py\<close>, \<^verbatim>\<open>api/proxmox/_helpers.py\<close>, \<^verbatim>\<open>vms.py\<close>, \<^verbatim>\<open>snapshots.py\<close>,
    \<^verbatim>\<open>tasks.py\<close>, \<^verbatim>\<open>services/quota_service.py\<close>. The records of guests, who may touch which guest, quotas, free
    VMIDs; power, deletion, snapshots, commands, configuration and change of owner.
  \<^item> Worker: the availability check, synchronisation and polling of tasks in
    \<^verbatim>\<open>workers/monitoring_worker.py\<close>.
  \<^item> PanelProps, SyncProps, GuestProps, GuestWitnesses: a user without the right to all guests does nothing to
    the guests of others by the endpoints that ask for the owner, and which endpoints do not ask; synchronisation mirrors
    what the servers report and keeps the owners, deletion leaves no address behind, quotas bound what a user creates,
    the poll of a task gives up at the third miss in a row.
  \<^item> ScriptEngine, Scripts, ScriptProps: \<^verbatim>\<open>services/script_engine.py\<close>, \<^verbatim>\<open>api/scripts\<close>,
    \<^verbatim>\<open>services/script_catalog_sync.py\<close>. Parameters of scripts and their quoting, the commands that are run,
    the verdict; the catalogue with its import from a repository, executions. A parameter cannot escape the
    quotes it is put in; after a synchronisation the catalogue shows the readable files of
    the repository, text, place and header, and none that is gone.
  \<^item> Tenancy, TenancyProps: \<^verbatim>\<open>api/workspaces.py\<close>, the servers a user sees, the list of guests, the servers and
    quotas of a user in \<^verbatim>\<open>api/users.py\<close>. The header that names the active workspace only narrows the view.
  \<^item> GuestIp, IpamApi: \<^verbatim>\<open>services/guest_ip_service.py\<close> (the addresses set inside a guest) and \<^verbatim>\<open>api/ipam.py\<close>.
  \<^item> TenancyRuns, NetworkRuns, AddressProps: the relation \<open>tenancy_step\<close> over the endpoints that touch servers,
    workspaces, accounts and guests, with the invariant \<open>tenancy_ok\<close> (junction rows name workspaces, at most
    one default network per workspace, pools inside their network and apart, allocations in networks that exist);
    orphaned allocations and the state of applied interfaces.

  \<^bold>\<open>Parameters.\<close> What is not code of this repository is an argument: the JWT library (\<open>jwt_ok\<close>: a token
  decodes to its claims until it expires), password hashing, SHA-256, TOTP (record \<open>env\<close>); \<open>proxmoxer\<close>, the
  Proxmox servers behind it, the clock and \<open>sleep\<close> (record \<open>proxmox_api\<close>; \<open>clock_ok\<close>: sleeping and requests
  do not turn the clock back, and a sleep lasts at least as long as asked); SSH (record \<open>ssh_api\<close>); the files of a cloned
  repository and Python's \<open>repr\<close> (record \<open>script_env\<close>); the order a query gives to rows of one time
  (\<open>newest_first_order\<close>: the rows, sorted by time). The witnesses instantiate them with concrete functions.

  \<^bold>\<open>Bounds.\<close> Identifiers and measurements are integers; where Python divides as floats, the measurements are
  below 2^53, so that the conversion is exact and the quotient is written over integers.

  \<^bold>\<open>Loops.\<close> Loops over data are structural. The loops that wait for a server are \<open>poll\<close>, a
  \<open>partial_function (option)\<close>: \<open>None\<close> would be a loop that never returns, and the termination properties
  show that it does not happen while the clock runs, with a bound on the number of requests.

  \<^bold>\<open>Not modelled.\<close> The other mixins and endpoints that forward one request to Proxmox and reshape the answer
  (cluster, storage, firewall, SDN, consoles, clones, migration, hardware, HA, ISO images, statistics), templates,
  the app store and Coolify, which run external commands; settings, SSH keys and notifications; scheduled
  backups; updates and logos; the schema migrations in SQL; the web framework, database engine, encryption
  and sockets; the front end.
\<close>

end
